(* ===== verification/PyStr.thy ===== *)
theory PyStr
  imports Complex_Main "HOL-Library.List_Lexorder" "HOL-Library.Char_ord"
begin

text \<open>
  Strings, exceptions and the exception monad the other theories are written in.

  A Python \<^theory_text>\<open>str\<close> is a \<open>string\<close> whose characters are the code points U+0000 to U+00FF
  (Latin-1), so \<open>length\<close> counts code points as Python's \<open>len\<close> does; \<open>bytes\<close> are strings of
  8-bit characters. On this alphabet case conversion, whitespace, the Unicode categories Cc
  and Cf and UTF-8 encoding are given exactly, and every string is NFC-normalised.

  A function that may raise returns \<open>exc + 'a\<close>, \<open>Inl\<close> for the exception.
\<close>

section \<open>Exceptions and the exception monad\<close>

datatype exc =
    HTTPException nat string
  | ValueError string
  | TypeError
  | OverflowError
  | AttributeError
  | KeyError string
  | IndexError
  | MultipleResultsFound
  | WorkLeaseError string
  | WebhookSignatureError string
  | StorageConfigurationError string
  | UnsafeContentError string
  | ProviderConfigurationError string
  | SandboxConfigurationError string
  | DeploymentRunCreationError string string
  | IntegrityError
  | InvalidTag
  | RuntimeError string
  | External string string nat

text \<open>
  \<open>External\<close> is an exception of a library (class name, message and a handle for what else it
  carries). \<open>exc_class\<close> is \<^theory_text>\<open>exc.__class__.__name__\<close>.
\<close>

definition exc_class :: "exc \<Rightarrow> string" where
  "exc_class e = (case e of
      HTTPException _ _ \<Rightarrow> ''HTTPException'' | ValueError _ \<Rightarrow> ''ValueError'' | TypeError \<Rightarrow> ''TypeError''
    | OverflowError \<Rightarrow> ''OverflowError'' | AttributeError \<Rightarrow> ''AttributeError''
    | KeyError _ \<Rightarrow> ''KeyError'' | IndexError \<Rightarrow> ''IndexError''
    | MultipleResultsFound \<Rightarrow> ''MultipleResultsFound'' | WorkLeaseError _ \<Rightarrow> ''WorkLeaseError''
    | WebhookSignatureError _ \<Rightarrow> ''WebhookSignatureError''
    | StorageConfigurationError _ \<Rightarrow> ''StorageConfigurationError''
    | UnsafeContentError _ \<Rightarrow> ''UnsafeContentError''
    | ProviderConfigurationError _ \<Rightarrow> ''ProviderConfigurationError''
    | SandboxConfigurationError _ \<Rightarrow> ''SandboxConfigurationError''
    | DeploymentRunCreationError _ _ \<Rightarrow> ''DeploymentRunCreationError''
    | IntegrityError \<Rightarrow> ''IntegrityError'' | InvalidTag \<Rightarrow> ''InvalidTag''
    | RuntimeError _ \<Rightarrow> ''RuntimeError'' | External c _ _ \<Rightarrow> c)"

text \<open>What \<^theory_text>\<open>except ValueError\<close> catches.\<close>

definition is_value_error :: "exc \<Rightarrow> bool" where
  "is_value_error e = (case e of ValueError _ \<Rightarrow> True | WebhookSignatureError _ \<Rightarrow> True
    | UnsafeContentError _ \<Rightarrow> True | _ \<Rightarrow> False)"

type_synonym 'a res = "exc + 'a"

named_theorems res_simps \<open>rewrites for the exception monad\<close>

definition bindE :: "'a res \<Rightarrow> ('a \<Rightarrow> 'b res) \<Rightarrow> 'b res" where
  "bindE m f = (case m of Inl e \<Rightarrow> Inl e | Inr x \<Rightarrow> f x)"

definition raise_if :: "bool \<Rightarrow> exc \<Rightarrow> unit res" where
  "raise_if c e = (if c then Inl e else Inr ())"

fun mapE :: "('a \<Rightarrow> 'b res) \<Rightarrow> 'a list \<Rightarrow> 'b list res" where
  "mapE f [] = Inr []"
| "mapE f (x # xs) = bindE (f x) (\<lambda>y. bindE (mapE f xs) (\<lambda>ys. Inr (y # ys)))"

fun foldE :: "('a \<Rightarrow> 'b \<Rightarrow> 'b res) \<Rightarrow> 'a list \<Rightarrow> 'b \<Rightarrow> 'b res" where
  "foldE f [] s = Inr s"
| "foldE f (x # xs) s = bindE (f x s) (foldE f xs)"

definition is_ok :: "'a res \<Rightarrow> bool" where
  "is_ok m = (case m of Inl _ \<Rightarrow> False | Inr _ \<Rightarrow> True)"

lemma bindE_simps [simp]:
  "bindE (Inl e) f = Inl e" "bindE (Inr x) f = f x"
  by (simp_all add: bindE_def)

lemma bindE_Inr_iff [res_simps]:
  "bindE m f = Inr y \<longleftrightarrow> (\<exists>x. m = Inr x \<and> f x = Inr y)"
  by (cases m) auto

lemma bindE_Inl_iff [res_simps]:
  "bindE m f = Inl e \<longleftrightarrow> m = Inl e \<or> (\<exists>x. m = Inr x \<and> f x = Inl e)"
  by (cases m) auto

lemma raise_if_iff [simp]:
  "raise_if c e = Inr u \<longleftrightarrow> \<not> c"
  "raise_if c e = Inl e' \<longleftrightarrow> c \<and> e' = e"
  by (auto simp: raise_if_def)

lemma raise_if_simps [simp]:
  "raise_if True e = Inl e" "raise_if False e = Inr ()"
  by (simp_all add: raise_if_def)

lemma is_ok_simps [simp]: "is_ok (Inl e) = False" "is_ok (Inr x) = True"
  by (simp_all add: is_ok_def)

lemma bindE_cong [fundef_cong]:
  "m = m' \<Longrightarrow> (\<And>x. m' = Inr x \<Longrightarrow> f x = g x) \<Longrightarrow> bindE m f = bindE m' g"
  by (cases m') auto

lemma mapE_cong [fundef_cong]:
  "xs = ys \<Longrightarrow> (\<And>x. x \<in> set ys \<Longrightarrow> f x = g x) \<Longrightarrow> mapE f xs = mapE g ys"
proof (induction ys arbitrary: xs)
  case Nil
  then show ?case by simp
next
  case (Cons y ys)
  then show ?case by (simp cong: bindE_cong)
qed

lemma mapE_Inr_iff: "mapE f xs = Inr ys \<longleftrightarrow> list_all2 (\<lambda>x y. f x = Inr y) xs ys"
  by (induction xs arbitrary: ys) (auto simp: res_simps list_all2_Cons1)

lemma mapE_Inr_length: "mapE f xs = Inr ys \<Longrightarrow> length ys = length xs"
  by (auto simp: mapE_Inr_iff dest: list_all2_lengthD)

lemma mapE_Inr_set:
  assumes "mapE f xs = Inr ys" "y \<in> set ys"
  shows "\<exists>x \<in> set xs. f x = Inr y"
  using assms by (fastforce simp: mapE_Inr_iff list_all2_conv_all_nth in_set_conv_nth)

lemma foldE_invariant:
  assumes "foldE f xs s = Inr t" "I s"
    and "\<And>x u v. x \<in> set xs \<Longrightarrow> I u \<Longrightarrow> f x u = Inr v \<Longrightarrow> I v"
  shows "I t"
  using assms
  by (induction xs arbitrary: s) (auto simp: res_simps)

lemma foldE_append [simp]: "foldE f (xs @ ys) s = bindE (foldE f xs s) (foldE f ys)"
proof (induction xs arbitrary: s)
  case (Cons x xs)
  then show ?case by (cases "f x s") auto
qed simp

section \<open>Strings\<close>

definition code_pt :: "char \<Rightarrow> nat" where
  "code_pt c = of_char c"

definition py_isspace :: "char \<Rightarrow> bool" where
  "py_isspace c = (let n = code_pt c in
     (9 \<le> n \<and> n \<le> 13) \<or> (28 \<le> n \<and> n \<le> 32) \<or> n = 133 \<or> n = 160)"

definition lower_char :: "char \<Rightarrow> char" where
  "lower_char c = (let n = code_pt c in
     if (65 \<le> n \<and> n \<le> 90) \<or> (192 \<le> n \<and> n \<le> 222 \<and> n \<noteq> 215) then char_of (n + 32) else c)"

definition py_lower :: "string \<Rightarrow> string" where
  "py_lower = map lower_char"

definition cat_Cc :: "char \<Rightarrow> bool" where
  "cat_Cc c = (code_pt c < 32 \<or> (127 \<le> code_pt c \<and> code_pt c \<le> 159))"

definition cat_Cf :: "char \<Rightarrow> bool" where
  "cat_Cf c = (code_pt c = 173)"

definition utf8_char :: "char \<Rightarrow> string" where
  "utf8_char c = (let n = code_pt c in
     if n < 128 then [c] else [char_of (192 + n div 64), char_of (128 + n mod 64)])"

definition utf8_encode :: "string \<Rightarrow> string" where
  "utf8_encode s = concat (map utf8_char s)"

definition lstrip :: "string \<Rightarrow> string" where
  "lstrip = dropWhile py_isspace"

definition rstrip :: "string \<Rightarrow> string" where
  "rstrip s = rev (dropWhile py_isspace (rev s))"

definition py_strip :: "string \<Rightarrow> string" where
  "py_strip s = rstrip (lstrip s)"

definition rstrip_char :: "char \<Rightarrow> string \<Rightarrow> string" where
  "rstrip_char c s = rev (dropWhile (\<lambda>x. x = c) (rev s))"

definition strip_char :: "char \<Rightarrow> string \<Rightarrow> string" where
  "strip_char c s = rstrip_char c (dropWhile (\<lambda>x. x = c) s)"

definition startswith :: "string \<Rightarrow> string \<Rightarrow> bool" where
  "startswith p s = (take (length p) s = p)"

definition endswith :: "string \<Rightarrow> string \<Rightarrow> bool" where
  "endswith p s = (length p \<le> length s \<and> drop (length s - length p) s = p)"

definition removeprefix :: "string \<Rightarrow> string \<Rightarrow> string" where
  "removeprefix p s = (if startswith p s then drop (length p) s else s)"

fun str_contains :: "string \<Rightarrow> string \<Rightarrow> bool" where
  "str_contains p [] = (p = [])"
| "str_contains p (c # cs) = (startswith p (c # cs) \<or> str_contains p cs)"

definition replace_char :: "char \<Rightarrow> string \<Rightarrow> string \<Rightarrow> string" where
  "replace_char c r s = concat (map (\<lambda>x. if x = c then r else [x]) s)"

text \<open>\<open>split_on c s\<close> is \<^theory_text>\<open>s.split(c)\<close>: empty pieces are kept and the result is never empty.\<close>

fun split_on :: "char \<Rightarrow> string \<Rightarrow> string list" where
  "split_on c [] = [[]]"
| "split_on c (x # xs) =
     (if x = c then [] # split_on c xs
      else (case split_on c xs of [] \<Rightarrow> [[x]] | p # ps \<Rightarrow> (x # p) # ps))"

fun py_join :: "string \<Rightarrow> string list \<Rightarrow> string" where
  "py_join sep [] = []"
| "py_join sep [x] = x"
| "py_join sep (x # y # xs) = x @ sep @ py_join sep (y # xs)"

text \<open>\<open>split_once c s\<close> is \<^theory_text>\<open>s.split(c, 1)\<close> as a pair, \<open>None\<close> when \<open>c\<close> does not occur.\<close>

fun split_once :: "char \<Rightarrow> string \<Rightarrow> (string \<times> string) option" where
  "split_once c [] = None"
| "split_once c (x # xs) =
     (if x = c then Some ([], xs)
      else map_option (\<lambda>(a, b). (x # a, b)) (split_once c xs))"

text \<open>\<^theory_text>\<open>s.split()\<close>: the maximal runs of non-whitespace characters.\<close>

fun split_ws_aux :: "string \<Rightarrow> string \<Rightarrow> string list" where
  "split_ws_aux acc [] = (if acc = [] then [] else [rev acc])"
| "split_ws_aux acc (c # cs) =
     (if py_isspace c then (if acc = [] then split_ws_aux [] cs else rev acc # split_ws_aux [] cs)
      else split_ws_aux (c # acc) cs)"

definition split_ws :: "string \<Rightarrow> string list" where
  "split_ws s = split_ws_aux [] s"

subsection \<open>Facts about splitting and joining\<close>

lemma startswith_Nil [simp]: "startswith [] s"
  by (simp add: startswith_def)

lemma startswith_append [simp]: "startswith p (p @ s)"
  by (simp add: startswith_def)

lemma startswith_iff: "startswith p s \<longleftrightarrow> (\<exists>r. s = p @ r)"
  by (metis append_take_drop_id startswith_append startswith_def)

lemma removeprefix_append [simp]: "removeprefix p (p @ s) = s"
  by (simp add: removeprefix_def)

lemma split_on_ne [simp]: "split_on c s \<noteq> []"
  by (induction s) (auto split: list.splits)

lemma split_on_no_sep: "p \<in> set (split_on c s) \<Longrightarrow> c \<notin> set p"
  by (induction s arbitrary: p) (auto split: list.splits if_splits)

lemma join_split [simp]: "py_join [c] (split_on c s) = s"
proof (induction s)
  case (Cons x s)
  obtain p ps where "split_on c s = p # ps"
    by (cases "split_on c s") auto
  with Cons show ?case by (cases ps) auto
qed simp

lemma split_on_fresh: "c \<notin> set p \<Longrightarrow> split_on c p = [p]"
  by (induction p) auto

lemma split_on_append: "c \<notin> set p \<Longrightarrow> split_on c (p @ c # s) = p # split_on c s"
  by (induction p) auto

lemma split_join:
  "xs \<noteq> [] \<Longrightarrow> (\<And>x. x \<in> set xs \<Longrightarrow> c \<notin> set x) \<Longrightarrow> split_on c (py_join [c] xs) = xs"
  by (induction "[c]" xs rule: py_join.induct) (auto simp: split_on_fresh split_on_append)

lemma lower_char_idem [simp]: "lower_char (lower_char c) = lower_char c"
  by (auto simp: lower_char_def Let_def code_pt_def)

lemma py_lower_idem [simp]: "py_lower (py_lower s) = py_lower s"
  by (simp add: py_lower_def comp_def)

lemma length_utf8_encode: "length s \<le> length (utf8_encode s)"
proof (induction s)
  case (Cons c s)
  then show ?case by (auto simp: utf8_encode_def utf8_char_def Let_def)
qed (simp add: utf8_encode_def)

lemma dropWhile_hd_or_Nil: "dropWhile P xs = [] \<or> \<not> P (hd (dropWhile P xs))"
  by (metis hd_dropWhile)

lemma rstrip_last: "rstrip s \<noteq> [] \<Longrightarrow> \<not> py_isspace (last (rstrip s))"
  by (metis dropWhile_hd_or_Nil last_rev rev_is_Nil_conv rstrip_def)

lemma rstrip_idem [simp]: "rstrip (rstrip s) = rstrip s"
  by (simp add: rstrip_def)

lemma lstrip_rstrip_lstrip: "lstrip (rstrip (lstrip s)) = rstrip (lstrip s)"
proof (cases "rstrip (lstrip s)")
  case Nil
  then show ?thesis by (simp add: lstrip_def)
next
  case (Cons c cs)
  then have "c = hd (rstrip (lstrip s))" by simp
  moreover obtain r where "lstrip s = rstrip (lstrip s) @ r"
    by (metis rev_append rev_rev_ident rstrip_def takeWhile_dropWhile_id)
  ultimately have "c = hd (lstrip s)" "lstrip s \<noteq> []"
    using Cons by (metis append_Cons hd_append2 list.discI, metis Nil_is_append_conv list.discI)
  then have "\<not> py_isspace c"
    by (metis dropWhile_hd_or_Nil lstrip_def)
  with Cons show ?thesis by (simp add: lstrip_def)
qed

lemma py_strip_idem [simp]: "py_strip (py_strip s) = py_strip s"
  by (simp add: py_strip_def lstrip_rstrip_lstrip)

section \<open>Decimal numerals\<close>

definition dig :: "nat \<Rightarrow> char" where
  "dig n = char_of (48 + n)"

definition is_digit :: "char \<Rightarrow> bool" where
  "is_digit c = (48 \<le> code_pt c \<and> code_pt c \<le> 57)"

definition dval :: "char \<Rightarrow> nat" where
  "dval c = code_pt c - 48"

fun nat_str :: "nat \<Rightarrow> string" where
  "nat_str n = (if n < 10 then [dig n] else nat_str (n div 10) @ [dig (n mod 10)])"

declare nat_str.simps [simp del]

definition int_str :: "int \<Rightarrow> string" where
  "int_str i = (if i < 0 then CHR ''-'' # nat_str (nat (- i)) else nat_str (nat i))"

text \<open>
  \<^theory_text>\<open>int(s)\<close> on a string: surrounding whitespace, an optional sign, decimal digits with single
  underscores between them; anything else raises \<open>ValueError\<close>. (Python's limit of 4300
  digits is not modelled.)
\<close>

fun int_digits :: "nat \<Rightarrow> string \<Rightarrow> nat option" where
  "int_digits acc [] = Some acc"
| "int_digits acc (c # cs) =
     (if is_digit c then int_digits (10 * acc + dval c) cs
      else if c = CHR ''_'' then
        (case cs of
           [] \<Rightarrow> None
         | d # ds \<Rightarrow> if is_digit d then int_digits (10 * acc + dval d) ds else None)
      else None)"

definition parse_nat :: "string \<Rightarrow> nat option" where
  "parse_nat s = (case s of [] \<Rightarrow> None
     | c # cs \<Rightarrow> if is_digit c then int_digits (dval c) cs else None)"

definition py_int_of_str :: "string \<Rightarrow> int res" where
  "py_int_of_str s =
     (let t = py_strip s;
          r = (case t of
                 c # cs \<Rightarrow> if c = CHR ''-'' then map_option (\<lambda>n. - int n) (parse_nat cs)
                          else if c = CHR ''+'' then map_option int (parse_nat cs)
                          else map_option int (parse_nat t)
               | [] \<Rightarrow> None)
      in case r of None \<Rightarrow> Inl (ValueError ''invalid literal for int()'') | Some i \<Rightarrow> Inr i)"

lemma code_pt_dig [simp]: "n < 10 \<Longrightarrow> code_pt (dig n) = 48 + n"
  by (simp add: code_pt_def dig_def)

lemma dig_digit [simp]: "n < 10 \<Longrightarrow> is_digit (dig n)" "n < 10 \<Longrightarrow> dval (dig n) = n"
  by (simp_all add: is_digit_def dval_def)

lemma dig_not_space [simp]: "n < 10 \<Longrightarrow> \<not> py_isspace (dig n)"
  by (simp add: py_isspace_def Let_def)

lemma nat_str_ne [simp]: "nat_str n \<noteq> []"
  by (subst nat_str.simps) simp

lemma nat_str_digits: "c \<in> set (nat_str n) \<Longrightarrow> is_digit c"
proof (induction n rule: nat_str.induct)
  case (1 n)
  then show ?case by (subst (asm) (2) nat_str.simps) (auto split: if_splits)
qed

lemma int_digits_snoc:
  "int_digits a xs = Some v \<Longrightarrow> is_digit d \<Longrightarrow> int_digits a (xs @ [d]) = Some (10 * v + dval d)"
  by (induction a xs rule: int_digits.induct) (auto split: if_splits list.splits)

lemma parse_nat_str [simp]: "parse_nat (nat_str n) = Some n"
proof (induction n rule: nat_str.induct)
  case (1 n)
  show ?case
  proof (cases "n < 10")
    case True
    then show ?thesis by (simp add: nat_str.simps [of n] parse_nat_def)
  next
    case False
    then have ih: "parse_nat (nat_str (n div 10)) = Some (n div 10)" by (rule 1)
    obtain c cs where c: "nat_str (n div 10) = c # cs"
      by (cases "nat_str (n div 10)") auto
    with ih have "is_digit c" "int_digits (dval c) cs = Some (n div 10)"
      by (auto simp: parse_nat_def split: if_splits)
    then have "int_digits (dval c) (cs @ [dig (n mod 10)]) =
        Some (10 * (n div 10) + dval (dig (n mod 10)))"
      by (intro int_digits_snoc) simp_all
    moreover have "10 * (n div 10) + dval (dig (n mod 10)) = n"
      by (simp add: mult_div_mod_eq)
    ultimately have "int_digits (dval c) (cs @ [dig (n mod 10)]) = Some n"
      by simp
    with False c \<open>is_digit c\<close> show ?thesis
      by (simp add: nat_str.simps [of n] parse_nat_def)
  qed
qed

lemma digit_not_space: "is_digit c \<Longrightarrow> \<not> py_isspace c"
  by (auto simp: is_digit_def py_isspace_def Let_def)

lemma strip_no_space: "(\<And>c. c \<in> set s \<Longrightarrow> \<not> py_isspace c) \<Longrightarrow> py_strip s = s"
proof -
  assume a: "\<And>c. c \<in> set s \<Longrightarrow> \<not> py_isspace c"
  then have "dropWhile py_isspace s = s" "dropWhile py_isspace (rev s) = rev s"
    by (auto simp: dropWhile_eq_self_iff) (metis hd_in_set rev_is_Nil_conv set_rev)
  then show ?thesis by (simp add: py_strip_def lstrip_def rstrip_def)
qed

lemma py_strip_nat_str [simp]: "py_strip (nat_str n) = nat_str n"
  by (rule strip_no_space) (auto dest: nat_str_digits digit_not_space)

lemma minus_not_space: "\<not> py_isspace (CHR ''-'')"
  by (simp add: py_isspace_def code_pt_def)

lemma py_int_int_str [simp]: "py_int_of_str (int_str i) = Inr i"
proof (cases "i < 0")
  case True
  have "py_strip (CHR ''-'' # nat_str (nat (- i))) = CHR ''-'' # nat_str (nat (- i))"
    by (rule strip_no_space)
      (auto dest: nat_str_digits digit_not_space simp: minus_not_space)
  with True show ?thesis by (simp add: py_int_of_str_def int_str_def)
next
  case False
  obtain c cs where c: "nat_str (nat i) = c # cs"
    by (cases "nat_str (nat i)") auto
  then have "is_digit c" by (metis list.set_intros(1) nat_str_digits)
  then have "c \<noteq> CHR ''-''" "c \<noteq> CHR ''+''"
    by (auto simp: is_digit_def code_pt_def)
  with False c show ?thesis
    using parse_nat_str [of "nat i"] py_strip_nat_str [of "nat i"]
    by (simp add: py_int_of_str_def int_str_def)
qed

end
