(* ===== verification/PyTime.thy ===== *)
theory PyTime
  imports PyStr
begin

text \<open>
  Python's \<^theory_text>\<open>datetime\<close> as far as the program uses it: an instant is an \<open>int\<close>, the number
  of microseconds since 0001-01-01T00:00:00+00:00 (the least \<^theory_text>\<open>datetime\<close>); calendar dates
  follow CPython's proleptic Gregorian rules; \<open>isoformat\<close> prints an aware UTC value and
  \<open>fromisoformat\<close> reads the extended calendar form, keeping naive and aware values apart,
  since comparing one with the other raises \<open>TypeError\<close>. (The ISO basic and week forms, which
  nothing in the program writes, are not read.) The main fact is the round trip
  \<open>fromisoformat_isoformat\<close>.
\<close>

section \<open>Calendar\<close>

definition is_leap :: "nat \<Rightarrow> bool" where
  "is_leap y = (4 dvd y \<and> (\<not> 100 dvd y \<or> 400 dvd y))"

text \<open>Days before 1 January of year \<open>Suc n\<close>, as CPython's \<^theory_text>\<open>_days_before_year\<close>.\<close>

definition days_before :: "nat \<Rightarrow> nat" where
  "days_before n = (365 * n + n div 4 + n div 400) - n div 100"

lemma days_before_0 [simp]: "days_before 0 = 0"
  by (simp add: days_before_def)

lemma div_Suc_dvd: "Suc n div k = n div k + (if k dvd Suc n then 1 else 0)"
  by (simp add: div_Suc dvd_eq_mod_eq_0)

lemma days_before_Suc:
  "days_before (Suc n) = days_before n + (if is_leap (Suc n) then 366 else 365)"
proof -
  have le: "n div 100 \<le> n div 4"
    by (simp add: div_le_mono2)
  have d: "400 dvd Suc n \<Longrightarrow> 100 dvd Suc n" "100 dvd Suc n \<Longrightarrow> 4 dvd Suc n"
    by (erule dvd_trans [rotated], simp)+
  define a b c where "a = n div 4" and "b = n div 100" and "c = n div 400"
  define p q r where "p = (4 dvd Suc n)" and "q = (100 dvd Suc n)" and "r = (400 dvd Suc n)"
  have "r \<Longrightarrow> q" "q \<Longrightarrow> p" "b \<le> a"
    using d le by (simp_all only: p_def q_def r_def a_def b_def)
  then have "365 * Suc n + (a + (if p then 1 else 0)) + (c + (if r then 1 else 0))
      - (b + (if q then 1 else 0))
    = (365 * n + a + c - b) + (if p \<and> (\<not> q \<or> r) then 366 else 365)"
    by (cases p; cases q; cases r) simp_all
  then show ?thesis
    unfolding days_before_def is_leap_def div_Suc_dvd [of n 4] div_Suc_dvd [of n 100]
      div_Suc_dvd [of n 400] a_def b_def c_def p_def q_def r_def .
qed

lemma days_before_ge: "n \<le> days_before n"
  by (induction n) (auto simp: days_before_Suc)

function year_ix :: "nat \<Rightarrow> nat \<Rightarrow> nat" where
  "year_ix d n = (if days_before (Suc n) \<le> d then year_ix d (Suc n) else n)"
  by pat_completeness auto
termination
proof (relation "measure (\<lambda>(d, n). d - n)", simp)
  fix d n
  assume "days_before (Suc n) \<le> d"
  with days_before_ge [of "Suc n"] show "((d, Suc n), d, n) \<in> measure (\<lambda>(d, n). d - n)"
    by simp
qed

declare year_ix.simps [simp del]

lemma year_ix_bounds:
  "days_before n \<le> d \<Longrightarrow> days_before (year_ix d n) \<le> d \<and> d < days_before (Suc (year_ix d n))"
  by (induction d n rule: year_ix.induct) (subst (1 2) year_ix.simps, auto)

lemma days_before_le_366: "days_before n \<le> 366 * n"
  by (induction n) (auto simp: days_before_Suc)

lemma days_before_start: "days_before (d div 366) \<le> d"
  using days_before_le_366 [of "d div 366"] by (meson div_times_less_eq_dividend le_trans
    mult.commute times_div_less_eq_dividend)

definition month_lengths :: "bool \<Rightarrow> nat list" where
  "month_lengths leap = [31, if leap then 29 else 28, 31, 30, 31, 30, 31, 31, 30, 31, 30, 31]"

fun month_of :: "nat list \<Rightarrow> nat \<Rightarrow> nat \<times> nat" where
  "month_of [] d = (0, d)"
| "month_of (l # ls) d =
     (if d < l then (0, d) else (case month_of ls (d - l) of (m, r) \<Rightarrow> (Suc m, r)))"

lemma month_of_sum:
  "month_of ls d = (m, r) \<Longrightarrow> sum_list (take m ls) + r = d \<and> m \<le> length ls"
  by (induction ls d arbitrary: m r rule: month_of.induct) (auto split: if_splits prod.splits)

lemma month_of_bounds:
  "month_of ls d = (m, r) \<Longrightarrow> d < sum_list ls \<Longrightarrow> m < length ls \<and> r < ls ! m"
proof (induction ls d arbitrary: m r rule: month_of.induct)
  case (2 l ls d)
  show ?case
  proof (cases "d < l")
    case True
    with "2.prems" show ?thesis by simp
  next
    case False
    obtain m' r' where "month_of ls (d - l) = (m', r')" by fastforce
    with False 2 show ?thesis by auto
  qed
qed simp

text \<open>Year, month and day of a day number (day 0 is 1 January of year 1), and back.\<close>

definition ymd :: "nat \<Rightarrow> nat \<times> nat \<times> nat" where
  "ymd d = (let n = year_ix d (d div 366);
                (m, r) = month_of (month_lengths (is_leap (Suc n))) (d - days_before n)
            in (Suc n, Suc m, Suc r))"

definition valid_ymd :: "nat \<Rightarrow> nat \<Rightarrow> nat \<Rightarrow> bool" where
  "valid_ymd y m d = (1 \<le> y \<and> 1 \<le> m \<and> m \<le> 12 \<and> 1 \<le> d
      \<and> d \<le> month_lengths (is_leap y) ! (m - 1))"

definition day_number :: "nat \<Rightarrow> nat \<Rightarrow> nat \<Rightarrow> nat" where
  "day_number y m d =
     days_before (y - 1) + sum_list (take (m - 1) (month_lengths (is_leap y))) + (d - 1)"

lemma ymd_valid: "ymd d = (y, m, e) \<Longrightarrow> valid_ymd y m e"
  and day_number_ymd: "ymd d = (y, m, e) \<Longrightarrow> day_number y m e = d"
  and ymd_year: "ymd d = (y, m, e) \<Longrightarrow> days_before (y - 1) \<le> d"
proof -
  assume a: "ymd d = (y, m, e)"
  define n where "n = year_ix d (d div 366)"
  obtain m' r where mr: "month_of (month_lengths (is_leap (Suc n))) (d - days_before n) = (m', r)"
    by fastforce
  have b: "days_before n \<le> d" "d < days_before (Suc n)"
    using year_ix_bounds [OF days_before_start] by (auto simp: n_def)
  have e: "y = Suc n" "m = Suc m'" "e = Suc r"
    using a mr by (auto simp: ymd_def Let_def n_def)
  have "d - days_before n < sum_list (month_lengths (is_leap (Suc n)))"
    using b by (auto simp: days_before_Suc month_lengths_def split: if_splits)
  from month_of_bounds [OF mr this] month_of_sum [OF mr] b e
  show "valid_ymd y m e" "day_number y m e = d" "days_before (y - 1) \<le> d"
    by (auto simp: valid_ymd_def day_number_def month_lengths_def)
qed

section \<open>Printing and reading ISO timestamps\<close>

abbreviation us_per_day :: int where "us_per_day \<equiv> 86400000000"

definition pad2 :: "nat \<Rightarrow> string" where
  "pad2 n = [dig (n div 10 mod 10), dig (n mod 10)]"

definition pad4 :: "nat \<Rightarrow> string" where
  "pad4 n = pad2 (n div 100 mod 100) @ pad2 (n mod 100)"

definition pad6 :: "nat \<Rightarrow> string" where
  "pad6 n = pad2 (n div 10000 mod 100) @ pad4 (n mod 10000)"

definition iso_date :: "nat \<Rightarrow> string" where
  "iso_date d = (case ymd d of (y, m, e) \<Rightarrow> pad4 y @ ''-'' @ pad2 m @ ''-'' @ pad2 e)"

definition iso_time :: "nat \<Rightarrow> string" where
  "iso_time u = (let s = u div 1000000; f = u mod 1000000 in
     pad2 (s div 3600) @ '':'' @ pad2 (s div 60 mod 60) @ '':'' @ pad2 (s mod 60)
     @ (if f = 0 then [] else ''.'' @ pad6 f))"

definition isoformat :: "int \<Rightarrow> string" where
  "isoformat t = iso_date (nat (t div us_per_day)) @ ''T'' @ iso_time (nat (t mod us_per_day))
     @ ''+00:00''"

text \<open>A parsed timestamp: wall-clock microseconds and, when aware, the UTC offset in microseconds.\<close>

datatype pydt = DT (dt_wall: int) (dt_off: "int option")

definition utc_dt :: "int \<Rightarrow> pydt" where
  "utc_dt t = DT t (Some 0)"

fun d2 :: "string \<Rightarrow> nat option" where
  "d2 [a, b] = (if is_digit a \<and> is_digit b then Some (10 * dval a + dval b) else None)"
| "d2 _ = None"

definition d4 :: "string \<Rightarrow> nat option" where
  "d4 s = (case (d2 (take 2 s), d2 (drop 2 s)) of
             (Some a, Some b) \<Rightarrow> Some (100 * a + b) | _ \<Rightarrow> None)"

definition parse_date :: "string \<Rightarrow> nat option" where
  "parse_date s =
     (case (d4 (take 4 s), d2 (take 2 (drop 5 s)), d2 (drop 8 s)) of
        (Some y, Some m, Some d) \<Rightarrow>
          if length s = 10 \<and> s ! 4 = CHR ''-'' \<and> s ! 7 = CHR ''-'' \<and> valid_ymd y m d
          then Some (day_number y m d) else None
      | _ \<Rightarrow> None)"

text \<open>Digits after the decimal point, cut or padded to microseconds.\<close>

definition frac_us :: "string \<Rightarrow> nat" where
  "frac_us ds = foldl (\<lambda>a c. 10 * a + dval c) 0 (take 6 (ds @ ''000000''))"

definition parse_offset :: "string \<Rightarrow> (int option) option" where
  "parse_offset s =
     (if s = [] then Some None
      else if s = ''Z'' then Some (Some 0)
      else if length s = 6 \<and> s ! 3 = CHR '':'' \<and> (hd s = CHR ''+'' \<or> hd s = CHR ''-'') then
        (case (d2 (take 2 (drop 1 s)), d2 (drop 4 s)) of
           (Some h, Some m) \<Rightarrow>
             if h < 24 \<and> m < 60 then
               Some (Some ((if hd s = CHR ''-'' then - 1 else 1) * int (3600 * h + 60 * m) * 1000000))
             else None
         | _ \<Rightarrow> None)
      else None)"

definition parse_clock :: "nat \<Rightarrow> nat \<Rightarrow> nat \<Rightarrow> nat \<Rightarrow> string \<Rightarrow> (nat \<times> int option) option" where
  "parse_clock h m s f rest =
     (if h < 24 \<and> m < 60 \<and> s < 60 then
        map_option (\<lambda>off. ((3600 * h + 60 * m + s) * 1000000 + f, off)) (parse_offset rest)
      else None)"

definition parse_time :: "string \<Rightarrow> (nat \<times> int option) option" where
  "parse_time s =
     (case (d2 (take 2 s), d2 (take 2 (drop 3 s))) of
        (Some h, Some m) \<Rightarrow>
          if length s < 5 \<or> s ! 2 \<noteq> CHR '':'' then None
          else (let r = drop 5 s in
            if take 1 r = '':'' then
              (case d2 (take 2 (drop 1 r)) of
                 None \<Rightarrow> None
               | Some sec \<Rightarrow>
                   (let q = drop 3 r in
                    if take 1 q = ''.'' then
                      (let ds = takeWhile is_digit (drop 1 q) in
                       if ds = [] then None
                       else parse_clock h m sec (frac_us ds) (drop (1 + length ds) q))
                    else parse_clock h m sec 0 q))
            else parse_clock h m 0 0 r)
      | _ \<Rightarrow> None)"

definition fromisoformat :: "string \<Rightarrow> pydt option" where
  "fromisoformat s =
     (case parse_date (take 10 s) of
        None \<Rightarrow> None
      | Some d \<Rightarrow>
          if length s = 10 then Some (DT (int d * us_per_day) None)
          else (case parse_time (drop 11 s) of
                  None \<Rightarrow> None
                | Some (u, off) \<Rightarrow> Some (DT (int d * us_per_day + int u) off)))"

text \<open>
  Order on timestamps as Python has it: two aware values compare as instants, two naive
  ones by their wall clocks, a naive with an aware one raises \<open>TypeError\<close>.
\<close>

definition dt_le :: "pydt \<Rightarrow> pydt \<Rightarrow> bool res" where
  "dt_le a b = (case (dt_off a, dt_off b) of
      (Some o1, Some o2) \<Rightarrow> Inr (dt_wall a - o1 \<le> dt_wall b - o2)
    | (None, None) \<Rightarrow> Inr (dt_wall a \<le> dt_wall b)
    | _ \<Rightarrow> Inl TypeError)"

definition dt_eq :: "pydt \<Rightarrow> pydt \<Rightarrow> bool" where
  "dt_eq a b = (case (dt_off a, dt_off b) of
      (Some o1, Some o2) \<Rightarrow> dt_wall a - o1 = dt_wall b - o2
    | (None, None) \<Rightarrow> dt_wall a = dt_wall b
    | _ \<Rightarrow> False)"

lemma dt_le_utc [simp]: "dt_le (utc_dt a) (utc_dt b) = Inr (a \<le> b)"
  by (simp add: dt_le_def utc_dt_def)

section \<open>Round trip\<close>

lemma len_pads [simp]: "length (pad2 n) = 2" "length (pad4 n) = 4" "length (pad6 n) = 6"
  by (simp_all add: pad2_def pad4_def pad6_def)

lemma d2_pad2 [simp]: "n < 100 \<Longrightarrow> d2 (pad2 n) = Some n"
  by (simp add: pad2_def mult_div_mod_eq)

lemma d4_pad4 [simp]: "n < 10000 \<Longrightarrow> d4 (pad4 n) = Some n"
proof -
  assume n: "n < 10000"
  have "take 2 (pad4 n) = pad2 (n div 100 mod 100)" "drop 2 (pad4 n) = pad2 (n mod 100)"
    by (simp_all add: pad4_def)
  moreover have "100 * (n div 100 mod 100) + n mod 100 = n" using n by simp
  ultimately show ?thesis by (simp add: d4_def)
qed

lemma pad6_digits: "c \<in> set (pad6 n) \<Longrightarrow> is_digit c"
  by (auto simp: pad6_def pad4_def pad2_def)

lemma foldl_pad2: "n < 100 \<Longrightarrow> foldl (\<lambda>a c. 10 * a + dval c) a (pad2 n) = 100 * a + n"
  by (simp add: pad2_def)

lemma frac_us_pad6: "n < 1000000 \<Longrightarrow> frac_us (pad6 n) = n"
proof -
  assume n: "n < 1000000"
  define q m where "q = n div 10000" and "m = n mod 10000"
  define r l where "r = m div 100" and "l = m mod 100"
  have "q < 100" "r < 100" "l < 100"
    using n by (simp_all add: q_def m_def r_def l_def less_mult_imp_div_less)
  moreover have "pad6 n = pad2 q @ pad2 r @ pad2 l"
    using \<open>q < 100\<close> \<open>r < 100\<close> by (simp add: pad6_def pad4_def q_def m_def r_def l_def)
  ultimately have "frac_us (pad6 n) = 100 * (100 * q + r) + l"
    by (simp add: frac_us_def foldl_pad2)
  moreover have "n = 10000 * q + m" "m = 100 * r + l"
    unfolding q_def m_def r_def l_def by (simp_all only: mult_div_mod_eq)
  ultimately show ?thesis by simp
qed

lemma parse_date_iso:
  assumes "d < days_before 9999"
  shows "parse_date (iso_date d) = Some d"
proof -
  obtain y m e where y: "ymd d = (y, m, e)" by (cases "ymd d") auto
  note v = ymd_valid [OF y] and n = day_number_ymd [OF y]
  have mono: "k \<le> l \<Longrightarrow> days_before k \<le> days_before l" for k l
    by (induction l) (auto simp: days_before_Suc le_Suc_eq)
  have "y - 1 < 9999"
  proof (rule ccontr)
    assume "\<not> y - 1 < 9999"
    then have "days_before 9999 \<le> days_before (y - 1)" by (intro mono) simp
    with ymd_year [OF y] assms show False by simp
  qed
  then have yb: "y < 10000" by simp
  have l31: "month_lengths b ! (m - 1) \<le> 31" for b
  proof -
    have "m - 1 < length (month_lengths b)"
      using v by (auto simp: valid_ymd_def month_lengths_def)
    then have "month_lengths b ! (m - 1) \<in> set (month_lengths b)" by (rule nth_mem)
    then show ?thesis by (auto simp: month_lengths_def)
  qed
  have eb: "m < 100" "e < 100"
    using v l31 [of "is_leap y"] by (auto simp: valid_ymd_def)
  have s: "iso_date d = pad4 y @ CHR ''-'' # pad2 m @ CHR ''-'' # pad2 e"
    by (simp add: iso_date_def y)
  have "take 4 (iso_date d) = pad4 y" "take 2 (drop 5 (iso_date d)) = pad2 m"
    "drop 8 (iso_date d) = pad2 e" "length (iso_date d) = 10"
    "iso_date d ! 4 = CHR ''-''" "iso_date d ! 7 = CHR ''-''"
    by (simp_all add: s nth_append)
  then show ?thesis using yb eb v n
    by (simp add: parse_date_def)
qed

lemma parse_clock_utc: "h < 24 \<Longrightarrow> m < 60 \<Longrightarrow> s < 60 \<Longrightarrow>
    parse_clock h m s f ''+00:00'' = Some ((3600 * h + 60 * m + s) * 1000000 + f, Some 0)"
  by (simp add: parse_clock_def parse_offset_def is_digit_def dval_def code_pt_def)

lemma parse_time_iso:
  assumes "u < 86400000000"
  shows "parse_time (iso_time u @ ''+00:00'') = Some (u, Some 0)"
proof -
  define s f where "s = u div 1000000" and "f = u mod 1000000"
  define h m c where "h = s div 3600" and "m = s div 60 mod 60" and "c = s mod 60"
  have b: "h < 24" "m < 60" "c < 60" "f < 1000000"
    using assms by (simp_all add: h_def m_def c_def s_def f_def less_mult_imp_div_less)
  have u: "(3600 * h + 60 * m + c) * 1000000 + f = u"
  proof -
    define x where "x = s div 60"
    have "s = 60 * x + c" "x = 60 * (x div 60) + m"
      unfolding x_def c_def m_def by (simp_all only: mult_div_mod_eq)
    moreover have "h = x div 60"
      by (simp add: h_def x_def div_mult2_eq [symmetric])
    ultimately have "3600 * h + 60 * m + c = s" by simp
    then show ?thesis
      by (simp add: s_def f_def)
  qed
  let ?tail = "(if f = 0 then [] else ''.'' @ pad6 f) @ ''+00:00''"
  have e: "iso_time u @ ''+00:00'' = pad2 h @ CHR '':'' # pad2 m @ CHR '':'' # pad2 c @ ?tail"
    by (simp add: iso_time_def Let_def h_def m_def c_def s_def f_def)
  have tw: "takeWhile is_digit (pad6 f @ ''+00:00'') = pad6 f"
  proof -
    have "\<not> is_digit CHR ''+''" by (simp add: is_digit_def code_pt_def)
    then show ?thesis by (simp add: takeWhile_append2 pad6_digits)
  qed
  have "pad6 f \<noteq> []" by (metis len_pads(3) list.size(3) zero_neq_numeral)
  then show ?thesis
    using b u tw unfolding e parse_time_def
    by (auto simp: Let_def nth_append parse_clock_utc frac_us_pad6)
qed

theorem fromisoformat_isoformat:
  assumes "0 \<le> t" "t < int (days_before 9999) * us_per_day"
  shows "fromisoformat (isoformat t) = Some (utc_dt t)"
proof -
  define d u where "d = nat (t div us_per_day)" and "u = nat (t mod us_per_day)"
  have t: "int d * us_per_day + int u = t"
    using assms(1) by (simp add: d_def u_def pos_imp_zdiv_nonneg_iff)
  have "t div us_per_day < int (days_before 9999)"
    using assms by (simp add: div_less_iff_less_mult)
  moreover have "0 \<le> t div us_per_day"
    using assms(1) by (simp add: pos_imp_zdiv_nonneg_iff)
  ultimately have d: "d < days_before 9999" unfolding d_def by (simp only: nat_less_iff)
  have u: "u < 86400000000" by (simp add: u_def)
  have len: "length (iso_date d) = 10"
    by (simp add: iso_date_def split: prod.splits)
  have "isoformat t = iso_date d @ CHR ''T'' # iso_time u @ ''+00:00''"
    by (simp add: isoformat_def d_def u_def)
  then show ?thesis
    using len parse_date_iso [OF d] parse_time_iso [OF u] t
    by (simp add: fromisoformat_def utc_dt_def)
qed

end
