(* ===== verification/PyVal.thy ===== *)
theory PyVal
  imports PyTime
begin

text \<open>
  Python values as the program passes them around: what \<^theory_text>\<open>json\<close> can carry, plus a
  \<^theory_text>\<open>datetime\<close>. A dict is its list of items in insertion order; the operations below keep
  the keys distinct (\<open>wf_pv\<close>). A float is carried as its exact value with the text
  \<^theory_text>\<open>repr\<close> prints for it, or one of the three special values \<^theory_text>\<open>json\<close> can read.
  The theory holds the dict operations with their lookup laws, truth value and \<^theory_text>\<open>or\<close>,
  \<^theory_text>\<open>==\<close> across number types, \<^theory_text>\<open>str\<close>, \<^theory_text>\<open>repr\<close>, \<^theory_text>\<open>int\<close> and \<^theory_text>\<open>dict\<close>, each with its exceptions.
\<close>

section \<open>Values\<close>

datatype pyfloat = FFin rat string | FPosInf | FNegInf | FNaN

datatype pv =
    PNone
  | PBool bool
  | PInt int
  | PFloat pyfloat
  | PStr string
  | PList "pv list"
  | PDict "(string \<times> pv) list"
  | PTime int

type_synonym pdict = "(string \<times> pv) list"

definition is_str :: "pv \<Rightarrow> bool" where
  "is_str v = (case v of PStr _ \<Rightarrow> True | _ \<Rightarrow> False)"

definition is_dict :: "pv \<Rightarrow> bool" where
  "is_dict v = (case v of PDict _ \<Rightarrow> True | _ \<Rightarrow> False)"

definition is_list :: "pv \<Rightarrow> bool" where
  "is_list v = (case v of PList _ \<Rightarrow> True | _ \<Rightarrow> False)"

lemma is_simps [simp]:
  "is_str (PStr s)" "\<not> is_str PNone" "\<not> is_str (PBool b)" "\<not> is_str (PInt i)"
  "\<not> is_str (PList l)" "\<not> is_str (PDict d)" "\<not> is_str (PFloat f)"
  "is_dict (PDict d)" "\<not> is_dict PNone" "\<not> is_dict (PBool b)" "\<not> is_dict (PInt i)"
  "\<not> is_dict (PStr s)" "\<not> is_dict (PList l)" "\<not> is_dict (PFloat f)"
  "is_list (PList l)" "\<not> is_list PNone" "\<not> is_list (PBool b)" "\<not> is_list (PInt i)"
  "\<not> is_list (PStr s)" "\<not> is_list (PDict d)" "\<not> is_list (PFloat f)"
  by (simp_all add: is_str_def is_dict_def is_list_def)

lemma is_strD: "is_str v \<Longrightarrow> \<exists>s. v = PStr s"
  by (cases v) (simp_all add: is_str_def)

lemma is_dictD: "is_dict v \<Longrightarrow> \<exists>d. v = PDict d"
  by (cases v) (simp_all add: is_dict_def)

lemma is_listD: "is_list v \<Longrightarrow> \<exists>l. v = PList l"
  by (cases v) (simp_all add: is_list_def)

text \<open>Truth value, \<^theory_text>\<open>a or b\<close>.\<close>

definition truthy :: "pv \<Rightarrow> bool" where
  "truthy v = (case v of
      PNone \<Rightarrow> False
    | PBool b \<Rightarrow> b
    | PInt i \<Rightarrow> i \<noteq> 0
    | PFloat f \<Rightarrow> (case f of FFin r _ \<Rightarrow> r \<noteq> 0 | _ \<Rightarrow> True)
    | PStr s \<Rightarrow> s \<noteq> []
    | PList l \<Rightarrow> l \<noteq> []
    | PDict d \<Rightarrow> d \<noteq> []
    | PTime _ \<Rightarrow> True)"

definition por :: "pv \<Rightarrow> pv \<Rightarrow> pv" where
  "por a b = (if truthy a then a else b)"

lemma truthy_simps [simp]:
  "\<not> truthy PNone" "truthy (PBool b) = b" "truthy (PInt i) = (i \<noteq> 0)"
  "truthy (PStr s) = (s \<noteq> [])" "truthy (PList l) = (l \<noteq> [])" "truthy (PDict d) = (d \<noteq> [])"
  "truthy (PTime t)"
  by (simp_all add: truthy_def)

lemma por_simps [simp]:
  "truthy a \<Longrightarrow> por a b = a" "\<not> truthy a \<Longrightarrow> por a b = b"
  by (simp_all add: por_def)

text \<open>An optional string, as a value (\<open>None\<close> when absent).\<close>

definition pstr_opt :: "string option \<Rightarrow> pv" where
  "pstr_opt s = (case s of None \<Rightarrow> PNone | Some x \<Rightarrow> PStr x)"

definition ptime_opt :: "int option \<Rightarrow> pv" where
  "ptime_opt t = (case t of None \<Rightarrow> PNone | Some x \<Rightarrow> PTime x)"

lemma opt_simps [simp]:
  "pstr_opt None = PNone" "pstr_opt (Some s) = PStr s"
  "ptime_opt None = PNone" "ptime_opt (Some t) = PTime t"
  by (simp_all add: pstr_opt_def ptime_opt_def)

section \<open>Dicts\<close>

named_theorems dict_simps \<open>lookups after dict updates\<close>

abbreviation dkeys :: "(string \<times> 'a) list \<Rightarrow> string list" where
  "dkeys d \<equiv> map fst d"

abbreviation wf_keys :: "(string \<times> 'a) list \<Rightarrow> bool" where
  "wf_keys d \<equiv> distinct (dkeys d)"

definition has_key :: "string \<Rightarrow> (string \<times> 'a) list \<Rightarrow> bool" where
  "has_key k d = (k \<in> set (dkeys d))"

text \<open>\<^theory_text>\<open>d[k] = v\<close> keeps the place of a key that is there and appends one that is not.\<close>

fun dset :: "string \<Rightarrow> 'a \<Rightarrow> (string \<times> 'a) list \<Rightarrow> (string \<times> 'a) list" where
  "dset k v [] = [(k, v)]"
| "dset k v ((k', v') # d) = (if k' = k then (k, v) # d else (k', v') # dset k v d)"

definition dpop :: "string \<Rightarrow> (string \<times> 'a) list \<Rightarrow> (string \<times> 'a) list" where
  "dpop k d = filter (\<lambda>(k', _). k' \<noteq> k) d"

definition dget :: "string \<Rightarrow> pdict \<Rightarrow> pv" where
  "dget k d = (case map_of d k of None \<Rightarrow> PNone | Some v \<Rightarrow> v)"

definition dget_or :: "string \<Rightarrow> pv \<Rightarrow> pdict \<Rightarrow> pv" where
  "dget_or k v d = (case map_of d k of None \<Rightarrow> v | Some w \<Rightarrow> w)"

definition dsetdefault :: "string \<Rightarrow> 'a \<Rightarrow> (string \<times> 'a) list \<Rightarrow> (string \<times> 'a) list" where
  "dsetdefault k v d = (if has_key k d then d else d @ [(k, v)])"

definition dupdate :: "(string \<times> 'a) list \<Rightarrow> (string \<times> 'a) list \<Rightarrow> (string \<times> 'a) list" where
  "dupdate d e = foldl (\<lambda>acc (k, v). dset k v acc) d e"

lemma has_key_map_of: "has_key k d \<longleftrightarrow> map_of d k \<noteq> None"
  by (simp add: has_key_def map_of_eq_None_iff)

lemma map_of_dset [simp]: "map_of (dset k v d) = (map_of d)(k \<mapsto> v)"
  by (induction k v d rule: dset.induct) auto

lemma set_dkeys_dset [simp]: "fst ` set (dset k v d) = insert k (fst ` set d)"
  by (induction k v d rule: dset.induct) auto

lemma wf_dset [simp]: "wf_keys d \<Longrightarrow> wf_keys (dset k v d)"
proof (induction k v d rule: dset.induct)
  case (2 k v k' v' d)
  have "k' \<noteq> k \<Longrightarrow> k' \<notin> fst ` set (dset k v d)" using 2(2) by simp
  with 2 show ?case by auto
qed simp

lemma length_dset: "length (dset k v d) = (if has_key k d then length d else Suc (length d))"
  by (induction k v d rule: dset.induct) (auto simp: has_key_def)

lemma dset_ne [simp]: "dset k v d \<noteq> []"
  by (induction k v d rule: dset.induct) auto

lemma set_dset: "x \<in> set (dset k v d) \<Longrightarrow> x = (k, v) \<or> x \<in> set d"
  by (induction k v d rule: dset.induct) (auto split: if_splits)

lemma dset_twice [simp]: "dset k v (dset k w d) = dset k v d"
  by (induction k w d rule: dset.induct) auto

lemma map_of_dpop [simp]: "map_of (dpop k d) = (map_of d)(k := None)"
  by (induction d) (auto simp: dpop_def)

lemma wf_dpop [simp]: "wf_keys d \<Longrightarrow> wf_keys (dpop k d)"
  unfolding dpop_def by (induction d) auto

lemma length_dpop_le: "length (dpop k d) \<le> length d"
  by (simp add: dpop_def)

lemma set_dpop: "x \<in> set (dpop k d) \<Longrightarrow> x \<in> set d \<and> fst x \<noteq> k"
  by (auto simp: dpop_def)

lemma dpop_fresh: "\<not> has_key k d \<Longrightarrow> dpop k d = d"
  unfolding dpop_def has_key_def by (rule filter_True) force

lemma dget_simps [simp]:
  "dget k [] = PNone"
  "dget k ((k', v) # d) = (if k' = k then v else dget k d)"
  "dget k (dset k' v d) = (if k' = k then v else dget k d)"
  "dget k (dpop k' d) = (if k' = k then PNone else dget k d)"
  by (auto simp: dget_def)

lemma dget_or_simps [simp]:
  "dget_or k v [] = v"
  "dget_or k v ((k', w) # d) = (if k' = k then w else dget_or k v d)"
  "dget_or k v (dset k' w d) = (if k' = k then w else dget_or k v d)"
  "dget_or k v (dpop k' d) = (if k' = k then v else dget_or k v d)"
  by (auto simp: dget_or_def)

lemma has_key_simps [simp]:
  "\<not> has_key k []"
  "has_key k ((k', v) # d) = (k' = k \<or> has_key k d)"
  "has_key k (dset k' v d) = (k' = k \<or> has_key k d)"
  "has_key k (dpop k' d) = (k' \<noteq> k \<and> has_key k d)"
  by (auto simp: has_key_map_of)

lemma dget_append [simp]: "dget k (d @ e) = (if has_key k d then dget k d else dget k e)"
  by (auto simp: dget_def has_key_map_of map_add_def split: option.splits)

lemma has_key_append [simp]: "has_key k (d @ e) = (has_key k d \<or> has_key k e)"
  by (auto simp: has_key_def)

lemma dget_not_None: "dget k d \<noteq> PNone \<Longrightarrow> has_key k d"
  by (auto simp: dget_def has_key_map_of split: option.splits)

lemma dget_fresh: "\<not> has_key k d \<Longrightarrow> dget k d = PNone"
  using dget_not_None by blast

lemma dget_mem: "has_key k d \<Longrightarrow> (k, dget k d) \<in> set d"
  by (auto simp: dget_def has_key_map_of map_of_SomeD split: option.splits)

lemma dget_of_mem: "wf_keys d \<Longrightarrow> (k, v) \<in> set d \<Longrightarrow> dget k d = v"
  by (simp add: dget_def)

lemma dset_same: "has_key k d \<Longrightarrow> dset k (dget k d) d = d"
  by (induction d) (force simp: has_key_def)+

lemma dset_id: "dget k d = v \<Longrightarrow> v \<noteq> PNone \<Longrightarrow> dset k v d = d"
  using dset_same dget_not_None by blast

lemma dsetdefault_simps [simp]:
  "dget k (dsetdefault k' v d) = (if k' = k \<and> \<not> has_key k d then v else dget k d)"
  "has_key k (dsetdefault k' v d) = (k' = k \<or> has_key k d)"
  by (auto simp: dsetdefault_def dget_fresh)

lemma wf_dsetdefault [simp]: "wf_keys d \<Longrightarrow> wf_keys (dsetdefault k v d)"
  by (auto simp: dsetdefault_def has_key_def)

lemma map_of_dupdate: "map_of (dupdate d e) = foldl (\<lambda>m (k, v). m(k \<mapsto> v)) (map_of d) e"
  unfolding dupdate_def by (induction e arbitrary: d) (auto split: prod.splits)

lemma wf_dupdate [simp]: "wf_keys d \<Longrightarrow> wf_keys (dupdate d e)"
  unfolding dupdate_def by (induction e arbitrary: d) (auto split: prod.splits)

lemma dupdate_simps [simp]:
  "dupdate d [] = d"
  "dupdate d ((k, v) # e) = dupdate (dset k v d) e"
  by (simp_all add: dupdate_def)

lemma dupdate_append [simp]: "dupdate d (e @ f) = dupdate (dupdate d e) f"
  by (simp add: dupdate_def)

text \<open>\<^theory_text>\<open>set(d) - allowed\<close> is the keys of \<open>d\<close> that are not allowed.\<close>

definition extra_keys :: "string list \<Rightarrow> (string \<times> 'a) list \<Rightarrow> string list" where
  "extra_keys allowed d = filter (\<lambda>k. k \<notin> set allowed) (dkeys d)"

section \<open>Equality\<close>

text \<open>
  \<^theory_text>\<open>==\<close>: numbers compare by value whatever their type, \<open>True == 1\<close>, a NaN is unequal to
  everything, dicts compare without regard to order. (Python takes two references to one object
  inside a list or dict as equal without comparing; only a NaN could tell.)
\<close>

definition num_of :: "pv \<Rightarrow> rat option" where
  "num_of v = (case v of
      PBool b \<Rightarrow> Some (if b then 1 else 0)
    | PInt i \<Rightarrow> Some (of_int i)
    | PFloat (FFin r _) \<Rightarrow> Some r
    | _ \<Rightarrow> None)"

lemma size_dict_item: "(k, v) \<in> set d \<Longrightarrow> size v < Suc (size_list (size_prod (\<lambda>x. 0) size) d)"
  by (induction d) auto

function (sequential) py_eq :: "pv \<Rightarrow> pv \<Rightarrow> bool" where
  "py_eq PNone w = (w = PNone)"
| "py_eq (PStr s) w = (w = PStr s)"
| "py_eq (PTime t) w = (w = PTime t)"
| "py_eq (PList xs) w = (case w of
      PList ys \<Rightarrow> list_all2 py_eq xs ys
    | _ \<Rightarrow> False)"
| "py_eq (PDict d) w = (case w of
      PDict e \<Rightarrow> length d = length e \<and>
        list_all (\<lambda>(k, v). case map_of e k of None \<Rightarrow> False | Some u \<Rightarrow> py_eq v u) d
    | _ \<Rightarrow> False)"
| "py_eq (PFloat f) w = (case f of
      FNaN \<Rightarrow> False
    | FFin r _ \<Rightarrow> num_of w = Some r
    | g \<Rightarrow> w = PFloat g)"
| "py_eq v w = (num_of w = num_of v)"
  by pat_completeness auto

termination
  by (relation "measure (\<lambda>(v, _). size v)")
    (auto simp: size_dict_item less_Suc_eq_le size_list_estimation')

section \<open>Text of a value\<close>

definition hex_dig :: "nat \<Rightarrow> char" where
  "hex_dig n = ''0123456789abcdef'' ! (n mod 16)"

text \<open>One character of \<^theory_text>\<open>repr\<close> of a string quoted with \<open>q\<close>.\<close>

definition repr_char :: "char \<Rightarrow> char \<Rightarrow> string" where
  "repr_char q c =
     (if c = q \<or> c = CHR 0x5C then [CHR 0x5C, c]
      else if c = CHR 0x09 then [CHR 0x5C, CHR ''t'']
      else if c = CHR 0x0A then [CHR 0x5C, CHR ''n'']
      else if c = CHR 0x0D then [CHR 0x5C, CHR ''r'']
      else if cat_Cc c \<or> cat_Cf c \<or> code_pt c = 160
        then [CHR 0x5C, CHR ''x'', hex_dig (code_pt c div 16), hex_dig (code_pt c)]
      else [c])"

definition repr_str :: "string \<Rightarrow> string" where
  "repr_str s = (let q = (if CHR 0x27 \<in> set s \<and> CHR 0x22 \<notin> set s then CHR 0x22 else CHR 0x27)
                 in q # concat (map (repr_char q) s) @ [q])"

definition float_str :: "pyfloat \<Rightarrow> string" where
  "float_str f = (case f of FFin _ r \<Rightarrow> r | FPosInf \<Rightarrow> ''inf'' | FNegInf \<Rightarrow> ''-inf'' | FNaN \<Rightarrow> ''nan'')"

fun py_repr :: "pv \<Rightarrow> string" where
  "py_repr PNone = ''None''"
| "py_repr (PBool b) = (if b then ''True'' else ''False'')"
| "py_repr (PInt i) = int_str i"
| "py_repr (PFloat f) = float_str f"
| "py_repr (PStr s) = repr_str s"
| "py_repr (PList xs) = ''['' @ py_join '', '' (map py_repr xs) @ '']''"
| "py_repr (PDict d) =
     ''{'' @ py_join '', '' (map (\<lambda>(k, v). repr_str k @ '': '' @ py_repr v) d) @ ''}''"
| "py_repr (PTime t) = ''datetime.datetime('' @ int_str t @ '')''"

definition py_str :: "pv \<Rightarrow> string" where
  "py_str v = (case v of PStr s \<Rightarrow> s | PTime t \<Rightarrow> isoformat t | _ \<Rightarrow> py_repr v)"

lemma py_str_simps [simp]:
  "py_str (PStr s) = s" "py_str (PInt i) = int_str i" "py_str PNone = ''None''"
  "py_str (PBool b) = (if b then ''True'' else ''False'')"
  by (simp_all add: py_str_def)

text \<open>\<^theory_text>\<open>str(v or "")\<close>, the common way the program reads an optional string.\<close>

definition str_or_empty :: "pv \<Rightarrow> string" where
  "str_or_empty v = py_str (por v (PStr []))"

lemma str_or_empty_simps [simp]:
  "str_or_empty (PStr s) = s" "str_or_empty PNone = []"
  by (simp_all add: str_or_empty_def por_def)

text \<open>
  \<^theory_text>\<open>str(exc)\<close>; where Python or a library words the message itself, its text is left empty.
\<close>

definition exc_text :: "exc \<Rightarrow> string" where
  "exc_text e = (case e of
      HTTPException c d \<Rightarrow> nat_str c @ '': '' @ d | ValueError m \<Rightarrow> m | KeyError k \<Rightarrow> repr_str k
    | WorkLeaseError m \<Rightarrow> m | WebhookSignatureError m \<Rightarrow> m | StorageConfigurationError m \<Rightarrow> m
    | UnsafeContentError m \<Rightarrow> m | ProviderConfigurationError m \<Rightarrow> m
    | SandboxConfigurationError m \<Rightarrow> m | DeploymentRunCreationError _ m \<Rightarrow> m
    | RuntimeError m \<Rightarrow> m | External _ m _ \<Rightarrow> m | _ \<Rightarrow> [])"

section \<open>Conversions that raise\<close>

definition trunc_rat :: "rat \<Rightarrow> int" where
  "trunc_rat r = (if r < 0 then - \<lfloor>- r\<rfloor> else \<lfloor>r\<rfloor>)"

definition py_int_float :: "pyfloat \<Rightarrow> int res" where
  "py_int_float f = (case f of
      FFin r _ \<Rightarrow> Inr (trunc_rat r)
    | FNaN \<Rightarrow> Inl (ValueError ''cannot convert float NaN to integer'')
    | _ \<Rightarrow> Inl OverflowError)"

definition py_int :: "pv \<Rightarrow> int res" where
  "py_int v = (case v of
      PBool b \<Rightarrow> Inr (if b then 1 else 0)
    | PInt i \<Rightarrow> Inr i
    | PFloat f \<Rightarrow> py_int_float f
    | PStr s \<Rightarrow> py_int_of_str s
    | _ \<Rightarrow> Inl TypeError)"

lemma py_int_simps [simp]:
  "py_int (PInt i) = Inr i" "py_int PNone = Inl TypeError" "py_int (PBool b) = Inr (if b then 1 else 0)"
  "py_int (PStr s) = py_int_of_str s"
  by (simp_all add: py_int_def)

text \<open>
  \<^theory_text>\<open>dict(v)\<close>. (A list of pairs, which \<^theory_text>\<open>dict\<close> also accepts and nothing in the program
  writes where it is used, is refused with the lists that are not.)
\<close>

definition py_dict :: "pv \<Rightarrow> pdict res" where
  "py_dict v = (case v of
      PDict d \<Rightarrow> Inr d
    | PList [] \<Rightarrow> Inr []
    | PStr [] \<Rightarrow> Inr []
    | PList _ \<Rightarrow> Inl (ValueError ''dictionary update sequence'')
    | PStr _ \<Rightarrow> Inl (ValueError ''dictionary update sequence'')
    | _ \<Rightarrow> Inl TypeError)"

text \<open>\<^theory_text>\<open>dict(v or {})\<close> and \<^theory_text>\<open>(v or {}).get(k)\<close>.\<close>

definition dict_or_empty :: "pv \<Rightarrow> pdict res" where
  "dict_or_empty v = (if truthy v then py_dict v else Inr [])"

definition vget :: "string \<Rightarrow> pv \<Rightarrow> pv res" where
  "vget k v = (case v of PDict d \<Rightarrow> Inr (dget k d) | _ \<Rightarrow> Inl AttributeError)"

definition list_or_empty :: "pv \<Rightarrow> pv list res" where
  "list_or_empty v = (if truthy v then
      (case v of
         PList xs \<Rightarrow> Inr xs
       | PStr s \<Rightarrow> Inr (map (\<lambda>c. PStr [c]) s)
       | PDict d \<Rightarrow> Inr (map (\<lambda>(k, _). PStr k) d)
       | _ \<Rightarrow> Inl TypeError) else Inr [])"

lemma conv_simps [simp]:
  "dict_or_empty (PDict d) = Inr d" "dict_or_empty PNone = Inr []"
  "list_or_empty (PList xs) = Inr xs" "list_or_empty PNone = Inr []"
  "vget k (PDict d) = Inr (dget k d)"
  by (simp_all add: dict_or_empty_def py_dict_def list_or_empty_def vget_def)

text \<open>Every dict inside a value has distinct keys, which is what \<^theory_text>\<open>json\<close> and dict literals make.\<close>

fun wf_pv :: "pv \<Rightarrow> bool" where
  "wf_pv (PList xs) = list_all wf_pv xs"
| "wf_pv (PDict d) = (wf_keys d \<and> list_all (\<lambda>(_, v). wf_pv v) d)"
| "wf_pv _ = True"

end
