(* ===== verification/World.thy ===== *)
theory World
  imports PyVal
begin

text \<open>
  The state a request works on: the tables of \<open>app/db/models/domain.py\<close> as lists of rows, the
  object store, the settings, the clock and the source of fresh identifiers, with the exception
  and state monad the handlers are written in.

  A handler runs on a working copy (\<open>w_db\<close>) of the committed tables (\<open>w_committed\<close>), as an
  \<^theory_text>\<open>AsyncSession\<close> does: \<open>commitM\<close> publishes the copy, and leaving the session without a commit
  drops it (\<open>run_request\<close>). Objects in the store are outside the transaction. Clock and
  identifiers are read from two streams, about which nothing is assumed, so a statement holds
  for every behaviour of them.
\<close>

section \<open>Rows\<close>

record workspace_row =
  wk_id :: string
  wk_slug :: string
  wk_name :: string
  wk_metadata :: pdict
  wk_archived_at :: "int option"
  wk_created_at :: int
  wk_updated_at :: int

record api_key_row =
  ak_id :: string
  ak_workspace_id :: string
  ak_name :: string
  ak_key_hash :: string
  ak_prefix :: string
  ak_metadata :: pdict
  ak_last_used_at :: "int option"
  ak_archived_at :: "int option"
  ak_created_at :: int
  ak_updated_at :: int

record agent_row =
  ag_id :: string
  ag_workspace_id :: string
  ag_name :: string
  ag_description :: "string option"
  ag_active_version :: int
  ag_metadata :: pdict
  ag_archived_at :: "int option"
  ag_created_at :: int
  ag_updated_at :: int

record agent_version_row =
  av_id :: string
  av_workspace_id :: string
  av_agent_id :: string
  av_version :: int
  av_name :: string
  av_model :: pdict
  av_system :: "string option"
  av_description :: "string option"
  av_tools :: "pv list"
  av_mcp_servers :: "pv list"
  av_skills :: "pv list"
  av_multiagent :: pv
  av_runtime :: pdict
  av_metadata :: pdict
  av_created_at :: int
  av_updated_at :: int

record environment_row =
  en_id :: string
  en_workspace_id :: string
  en_name :: string
  en_description :: string
  en_config :: pdict
  en_metadata :: pdict
  en_archived_at :: "int option"
  en_deleted_at :: "int option"
  en_created_at :: int
  en_updated_at :: int

record session_row =
  se_id :: string
  se_workspace_id :: string
  se_agent_id :: string
  se_agent_version :: int
  se_environment_id :: string
  se_title :: "string option"
  se_status :: string
  se_status_details :: pdict
  se_stop_reason :: pv
  se_run_state :: pv
  se_sandbox_state :: pv
  se_metadata :: pdict
  se_last_event_seq :: int
  se_lock_version :: int
  se_archived_at :: "int option"
  se_deleted_at :: "int option"
  se_created_at :: int
  se_updated_at :: int

record event_row =
  ev_id :: string
  ev_workspace_id :: string
  ev_session_id :: string
  ev_seq :: int
  ev_type :: string
  ev_source :: string
  ev_payload :: pdict
  ev_created_at :: int

record resource_row =
  mr_id :: string
  mr_workspace_id :: string
  mr_resource_type :: string
  mr_parent_id :: "string option"
  mr_version :: "int option"
  mr_name :: "string option"
  mr_status :: string
  mr_data :: pdict
  mr_content :: "string option"
  mr_content_type :: "string option"
  mr_filename :: "string option"
  mr_storage_backend :: "string option"
  mr_storage_key :: "string option"
  mr_storage_url :: "string option"
  mr_size_bytes :: "int option"
  mr_sha256 :: "string option"
  mr_archived_at :: "int option"
  mr_deleted_at :: "int option"
  mr_created_at :: int
  mr_updated_at :: int

record database =
  db_workspaces :: "workspace_row list"
  db_api_keys :: "api_key_row list"
  db_agents :: "agent_row list"
  db_versions :: "agent_version_row list"
  db_environments :: "environment_row list"
  db_sessions :: "session_row list"
  db_events :: "event_row list"
  db_resources :: "resource_row list"

section \<open>Settings\<close>

record settings =
  st_openai_api_key :: string
  st_openai_base_url :: string
  st_openai_use_responses :: bool
  st_oma_api_key :: string
  st_oma_api_keys :: "string list"
  st_oma_require_beta_header :: bool
  st_oma_require_anthropic_version_header :: bool
  st_oma_runtime_backend :: string
  st_oma_default_model_provider :: string
  st_oma_default_openai_model :: string
  st_oma_default_workspace_id :: string
  st_oma_api_key_workspaces :: "(string \<times> string) list"
  st_oma_max_file_upload_bytes :: int
  st_oma_max_skill_archive_bytes :: int
  st_oma_openai_compatible_providers :: "(string \<times> pdict) list"
  st_oma_public_base_url :: string
  st_oma_worker_token :: string
  st_oma_encryption_key :: string
  st_s3_endpoint_url :: string
  st_s3_access_key_id :: string
  st_s3_secret_access_key :: string
  st_s3_bucket_name :: string
  st_s3_public_url :: string
  st_s3_region :: string

text \<open>The field defaults of \<open>Settings\<close>.\<close>

definition default_settings :: settings where
  "default_settings = \<lparr>
     st_openai_api_key = [], st_openai_base_url = [], st_openai_use_responses = True,
     st_oma_api_key = [], st_oma_api_keys = [], st_oma_require_beta_header = True,
     st_oma_require_anthropic_version_header = True, st_oma_runtime_backend = ''openai'',
     st_oma_default_model_provider = ''openai'', st_oma_default_openai_model = ''gpt-5.5'',
     st_oma_default_workspace_id = ''wrkspc_default'', st_oma_api_key_workspaces = [],
     st_oma_max_file_upload_bytes = 50 * 1024 * 1024,
     st_oma_max_skill_archive_bytes = 25 * 1024 * 1024,
     st_oma_openai_compatible_providers = [],
     st_oma_public_base_url = ''https://example.invalid'', st_oma_worker_token = [],
     st_oma_encryption_key = [], st_s3_endpoint_url = [], st_s3_access_key_id = [],
     st_s3_secret_access_key = [], st_s3_bucket_name = [], st_s3_public_url = [],
     st_s3_region = ''auto'' \<rparr>"

text \<open>\<open>parse_api_keys\<close> on the text of the environment variable.\<close>

definition parse_api_keys :: "string \<Rightarrow> string list" where
  "parse_api_keys v = (if v = [] then []
     else map py_strip (filter (\<lambda>p. py_strip p \<noteq> []) (split_on CHR '','' v)))"

lemma parse_api_keys_clean: "k \<in> set (parse_api_keys v) \<Longrightarrow> k \<noteq> [] \<and> py_strip k = k"
  by (auto simp: parse_api_keys_def split: if_splits)

section \<open>World\<close>

record stored_object =
  ob_body :: string
  ob_content_type :: "string option"

record world =
  w_db :: database
  w_committed :: database
  w_objects :: "(string \<times> stored_object) list"
  w_clock :: "nat \<Rightarrow> int"
  w_ticks :: nat
  w_uuids :: "nat \<Rightarrow> string"
  w_draws :: nat
  w_random :: "nat \<Rightarrow> string"
  w_random_draws :: nat
  w_workspace :: "string option"
  w_settings :: settings
  w_background :: "string list"

type_synonym 'a M = "world \<Rightarrow> (exc + 'a) \<times> world"

definition returnM :: "'a \<Rightarrow> 'a M" where
  "returnM x = (\<lambda>w. (Inr x, w))"

definition bindM :: "'a M \<Rightarrow> ('a \<Rightarrow> 'b M) \<Rightarrow> 'b M" where
  "bindM m f = (\<lambda>w. case m w of (Inl e, w') \<Rightarrow> (Inl e, w') | (Inr x, w') \<Rightarrow> f x w')"

definition raiseM :: "exc \<Rightarrow> 'a M" where
  "raiseM e = (\<lambda>w. (Inl e, w))"

definition liftE :: "'a res \<Rightarrow> 'a M" where
  "liftE r = (\<lambda>w. (r, w))"

definition seqM :: "'a M \<Rightarrow> 'b M \<Rightarrow> 'b M" where
  "seqM m n = bindM m (\<lambda>_. n)"

text \<open>A guard: \<^theory_text>\<open>if c: raise e\<close>.\<close>

definition guardM :: "bool \<Rightarrow> exc \<Rightarrow> unit M" where
  "guardM c e = (if c then raiseM e else returnM ())"

definition getsM :: "(world \<Rightarrow> 'a) \<Rightarrow> 'a M" where
  "getsM f = (\<lambda>w. (Inr (f w), w))"

definition modifyM :: "(world \<Rightarrow> world) \<Rightarrow> unit M" where
  "modifyM f = (\<lambda>w. (Inr (), f w))"

definition catchM :: "'a M \<Rightarrow> (exc \<Rightarrow> 'a M) \<Rightarrow> 'a M" where
  "catchM m h = (\<lambda>w. case m w of (Inl e, w') \<Rightarrow> h e w' | (Inr x, w') \<Rightarrow> (Inr x, w'))"

fun mapM :: "('a \<Rightarrow> 'b M) \<Rightarrow> 'a list \<Rightarrow> 'b list M" where
  "mapM f [] = returnM []"
| "mapM f (x # xs) = bindM (f x) (\<lambda>y. bindM (mapM f xs) (\<lambda>ys. returnM (y # ys)))"

fun foldM :: "('a \<Rightarrow> 's \<Rightarrow> 's M) \<Rightarrow> 'a list \<Rightarrow> 's \<Rightarrow> 's M" where
  "foldM f [] s = returnM s"
| "foldM f (x # xs) s = bindM (f x s) (foldM f xs)"

text \<open>\<open>datetime.now(timezone.utc)\<close>, \<open>new_id\<close>, \<open>workspace_id_or_default\<close>, \<open>get_settings\<close>.\<close>

definition nowM :: "int M" where
  "nowM = (\<lambda>w. (Inr (w_clock w (w_ticks w)), w\<lparr>w_ticks := Suc (w_ticks w)\<rparr>))"

definition uuidM :: "string M" where
  "uuidM = (\<lambda>w. (Inr (w_uuids w (w_draws w)), w\<lparr>w_draws := Suc (w_draws w)\<rparr>))"

definition new_id :: "string \<Rightarrow> string M" where
  "new_id prefix = bindM uuidM (\<lambda>u. returnM (prefix @ ''_'' @ u))"

text \<open>\<^theory_text>\<open>os.urandom\<close> and \<^theory_text>\<open>secrets\<close>: the next bytes of a random stream.\<close>

definition randomM :: "string M" where
  "randomM = (\<lambda>w. (Inr (w_random w (w_random_draws w)), w\<lparr>w_random_draws := Suc (w_random_draws w)\<rparr>))"

definition DEFAULT_WORKSPACE_ID :: string where
  "DEFAULT_WORKSPACE_ID = ''wrkspc_default''"

definition workspace_id_or_default :: "string option \<Rightarrow> string M" where
  "workspace_id_or_default v = getsM (\<lambda>w. case v of
      Some x \<Rightarrow> if x \<noteq> [] then x
                else (case w_workspace w of Some y \<Rightarrow> y | None \<Rightarrow> DEFAULT_WORKSPACE_ID)
    | None \<Rightarrow> (case w_workspace w of Some y \<Rightarrow> y | None \<Rightarrow> DEFAULT_WORKSPACE_ID))"

definition get_settings :: "settings M" where
  "get_settings = getsM w_settings"

definition dbM :: "(database \<Rightarrow> 'a) \<Rightarrow> 'a M" where
  "dbM f = getsM (\<lambda>w. f (w_db w))"

definition update_dbM :: "(database \<Rightarrow> database) \<Rightarrow> unit M" where
  "update_dbM f = modifyM (\<lambda>w. w\<lparr>w_db := f (w_db w)\<rparr>)"

definition commitM :: "unit M" where
  "commitM = modifyM (\<lambda>w. w\<lparr>w_committed := w_db w\<rparr>)"

definition background_task :: "string \<Rightarrow> unit M" where
  "background_task work_id = modifyM (\<lambda>w. w\<lparr>w_background := w_background w @ [work_id]\<rparr>)"

text \<open>\<open>async with session_scope() as db\<close>, and equally a request's \<open>Depends(get_session)\<close>.\<close>

definition session_scope :: "'a M \<Rightarrow> 'a M" where
  "session_scope m = (\<lambda>w. case m (w\<lparr>w_db := w_committed w\<rparr>) of
      (r, w') \<Rightarrow> (r, w'\<lparr>w_db := w_committed w'\<rparr>))"

text \<open>A small world for examples: empty tables, a clock that ticks seconds, numbered identifiers.\<close>

definition db0 :: database where
  "db0 = \<lparr>db_workspaces = [], db_api_keys = [], db_agents = [], db_versions = [],
     db_environments = [], db_sessions = [], db_events = [], db_resources = []\<rparr>"

definition world0 :: world where
  "world0 = \<lparr>w_db = db0, w_committed = db0, w_objects = [],
     w_clock = (\<lambda>n. 63834480000000000 + 1000000 * int n), w_ticks = 0,
     w_uuids = nat_str, w_draws = 0, w_random = (\<lambda>_. ''abcdefghijkl''), w_random_draws = 0,
     w_workspace = None, w_settings = default_settings, w_background = []\<rparr>"

end
