(* ===== verification/Effects.thy ===== *)
theory Effects
  imports World
begin

text \<open>
  Reasoning about handlers: what a monadic program returns (\<open>mon_simps\<close> turn a finished run into
  its steps) and what it never does to the world. The second is stated once, for any reflexive and
  transitive relation between the world before and after (\<open>locale world_order\<close>): such a relation
  holds across a program when it holds across each of its primitive steps. \<open>locale record_log\<close> carries an invariant
  and the records it protects along any number of steps.
\<close>

named_theorems mon_simps \<open>runs of monadic programs, as the runs of their parts\<close>
named_theorems mon_defs \<open>primitive steps, as functions of the world\<close>

lemma returnM_run [simp, mon_simps]: "returnM x w = (r, w') \<longleftrightarrow> r = Inr x \<and> w' = w"
  by (auto simp: returnM_def)

lemma raiseM_run [simp, mon_simps]: "raiseM e w = (r, w') \<longleftrightarrow> r = Inl e \<and> w' = w"
  by (auto simp: raiseM_def)

lemma liftE_run [simp, mon_simps]: "liftE x w = (r, w') \<longleftrightarrow> x = r \<and> w' = w"
  by (auto simp: liftE_def)

lemma getsM_run [simp, mon_simps]: "getsM f w = (r, w') \<longleftrightarrow> r = Inr (f w) \<and> w' = w"
  by (auto simp: getsM_def)

lemma guardM_run [simp, mon_simps]:
  "guardM c e w = (r, w') \<longleftrightarrow> w' = w \<and> r = (if c then Inl e else Inr ())"
  by (auto simp: guardM_def)

lemma modifyM_run [simp, mon_simps]: "modifyM f w = (r, w') \<longleftrightarrow> r = Inr () \<and> w' = f w"
  by (auto simp: modifyM_def)

lemma bindM_Inr [mon_simps]:
  "bindM m f w = (Inr y, w'') \<longleftrightarrow> (\<exists>x w'. m w = (Inr x, w') \<and> f x w' = (Inr y, w''))"
  by (auto simp: bindM_def split: prod.splits sum.splits)

lemma bindM_Inl [mon_simps]:
  "bindM m f w = (Inl e, w'') \<longleftrightarrow>
     m w = (Inl e, w'') \<or> (\<exists>x w'. m w = (Inr x, w') \<and> f x w' = (Inl e, w''))"
  by (auto simp: bindM_def split: prod.splits sum.splits)

lemma seqM_Inr [mon_simps]:
  "seqM m n w = (Inr y, w'') \<longleftrightarrow> (\<exists>x w'. m w = (Inr x, w') \<and> n w' = (Inr y, w''))"
  by (simp add: seqM_def bindM_Inr)

lemma seqM_Inl [mon_simps]:
  "seqM m n w = (Inl e, w'') \<longleftrightarrow>
     m w = (Inl e, w'') \<or> (\<exists>x w'. m w = (Inr x, w') \<and> n w' = (Inl e, w''))"
  by (simp add: seqM_def bindM_Inl)

lemma bind_steps [simp]:
  "m w = (Inr x, w') \<Longrightarrow> bindM m f w = f x w'"
  "m w = (Inl e, w') \<Longrightarrow> bindM m f w = (Inl e, w')"
  "m w = (Inr x, w') \<Longrightarrow> seqM m n w = n w'"
  "m w = (Inl e, w') \<Longrightarrow> seqM m n w = (Inl e, w')"
  by (simp_all add: bindM_def seqM_def)

lemma primitive_steps [mon_defs]:
  "returnM x w = (Inr x, w)" "raiseM e w = (Inl e, w)" "liftE r w = (r, w)"
  "getsM q w = (Inr (q w), w)" "modifyM f w = (Inr (), f w)"
  "guardM c e w = (if c then Inl e else Inr (), w)"
  "dbM g w = (Inr (g (w_db w)), w)"
  "update_dbM h w = (Inr (), w\<lparr>w_db := h (w_db w)\<rparr>)"
  "commitM w = (Inr (), w\<lparr>w_committed := w_db w\<rparr>)"
  "randomM w = (Inr (w_random w (w_random_draws w)), w\<lparr>w_random_draws := Suc (w_random_draws w)\<rparr>)"
  "nowM w = (Inr (w_clock w (w_ticks w)), w\<lparr>w_ticks := Suc (w_ticks w)\<rparr>)"
  "new_id p w = (Inr (p @ ''_'' @ w_uuids w (w_draws w)), w\<lparr>w_draws := Suc (w_draws w)\<rparr>)"
  by (simp_all add: guardM_def dbM_def update_dbM_def commitM_def nowM_def new_id_def uuidM_def randomM_def)

lemma monad_laws:
  "bindM (returnM x) f = f x" "bindM m returnM = m"
  "bindM (bindM m f) g = bindM m (\<lambda>y. bindM (f y) g)"
  by (auto simp: bindM_def returnM_def fun_eq_iff split: sum.splits prod.splits)

lemma bindM_cong [fundef_cong]:
  "m = m' \<Longrightarrow> (\<And>x. f x = g x) \<Longrightarrow> bindM m f = bindM m' g"
  by (simp add: bindM_def cong: sum.case_cong)

lemma mapM_cong [fundef_cong]:
  "xs = ys \<Longrightarrow> (\<And>x. x \<in> set ys \<Longrightarrow> f x = g x) \<Longrightarrow> mapM f xs = mapM g ys"
proof (induction ys arbitrary: xs)
  case (Cons y ys)
  from Cons.IH [of ys] Cons.prems have "mapM f ys = mapM g ys" by simp
  with Cons.prems show ?case by simp
qed simp

lemma mapM_Inr_length: "mapM f xs w = (Inr ys, w') \<Longrightarrow> length ys = length xs"
  by (induction xs arbitrary: ys w) (auto simp: mon_simps)

section \<open>Relations across a run\<close>

definition keeps :: "(world \<Rightarrow> world \<Rightarrow> bool) \<Rightarrow> 'a M \<Rightarrow> bool" where
  "keeps R m \<longleftrightarrow> (\<forall>w. R w (snd (m w)))"

lemma keepsI: "(\<And>w r w'. m w = (r, w') \<Longrightarrow> R w w') \<Longrightarrow> keeps R m"
  unfolding keeps_def by (metis prod.collapse)

lemma keepsD: "keeps R m \<Longrightarrow> m w = (r, w') \<Longrightarrow> R w w'"
  unfolding keeps_def by (metis snd_conv)

named_theorems keeps_intros \<open>relations that a program keeps because its steps do\<close>

locale world_order =
  fixes R :: "world \<Rightarrow> world \<Rightarrow> bool"
  assumes reflR: "R w w"
    and transR: "R u v \<Longrightarrow> R v w \<Longrightarrow> R u w"
begin

lemma pure_steps:
  "keeps R (returnM x)" "keeps R (raiseM e)" "keeps R (liftE r)" "keeps R (getsM f)"
  "keeps R (guardM c e)" "keeps R (dbM g)"
  by (auto intro!: keepsI simp: reflR dbM_def)

lemma bind_keeps:
  assumes "keeps R m" "\<And>x. keeps R (f x)"
  shows "keeps R (bindM m f)"
proof (rule keepsI)
  fix w r w'
  assume run: "bindM m f w = (r, w')"
  obtain q v where m: "m w = (q, v)" by fastforce
  show "R w w'"
  proof (cases q)
    case (Inl e)
    with run m keepsD [OF assms(1) m] show ?thesis by simp
  next
    case (Inr x)
    with run m have "f x v = (r, w')" by simp
    from keepsD [OF assms(2) this] keepsD [OF assms(1) m] show ?thesis by (rule transR [rotated])
  qed
qed

lemma seq_keeps: "keeps R m \<Longrightarrow> keeps R n \<Longrightarrow> keeps R (seqM m n)"
  by (simp add: seqM_def bind_keeps)

lemma catch_keeps:
  assumes "keeps R m" "\<And>e. keeps R (h e)"
  shows "keeps R (catchM m h)"
proof (rule keepsI)
  fix w r w'
  assume run: "catchM m h w = (r, w')"
  obtain q v where m: "m w = (q, v)" by fastforce
  show "R w w'"
  proof (cases q)
    case (Inl e)
    with run m have "h e v = (r, w')" by (simp add: catchM_def)
    from keepsD [OF assms(2) this] keepsD [OF assms(1) m] show ?thesis by (rule transR [rotated])
  next
    case (Inr x)
    with run m keepsD [OF assms(1) m] show ?thesis by (simp add: catchM_def)
  qed
qed

lemma map_keeps: "(\<And>x. keeps R (f x)) \<Longrightarrow> keeps R (mapM f xs)"
  by (induction xs) (auto intro!: bind_keeps pure_steps)

lemma fold_keeps: "(\<And>x s. keeps R (f x s)) \<Longrightarrow> keeps R (foldM f xs s)"
  by (induction xs arbitrary: s) (auto intro!: bind_keeps pure_steps)

lemma if_keeps: "(c \<Longrightarrow> keeps R m) \<Longrightarrow> (\<not> c \<Longrightarrow> keeps R n) \<Longrightarrow> keeps R (if c then m else n)"
  by simp

lemma option_keeps:
  "keeps R m \<Longrightarrow> (\<And>x. keeps R (f x)) \<Longrightarrow> keeps R (case v of None \<Rightarrow> m | Some x \<Rightarrow> f x)"
  by (cases v) simp_all

lemma let_keeps: "keeps R (f x) \<Longrightarrow> keeps R (let y = x in f y)"
  by simp

lemma prod_keeps: "(\<And>x y. keeps R (f x y)) \<Longrightarrow> keeps R (case p of (x, y) \<Rightarrow> f x y)"
  by (cases p) simp

lemmas control = bind_keeps seq_keeps catch_keeps map_keeps fold_keeps if_keeps option_keeps
  let_keeps prod_keeps pure_steps

end

section \<open>Relations between database states\<close>

text \<open>
  A relation \<open>D\<close> between table states gives one between worlds in two ways: along a transaction
  (\<open>along D\<close>: the working copy moves by \<open>D\<close>, and what is published, if anything is, has moved by
  \<open>D\<close> too) and across whole transactions (\<open>across D\<close>: the committed tables move by \<open>D\<close>). A
  program made of transactions whose steps are along \<open>D\<close> is across \<open>D\<close>.
\<close>

definition along :: "(database \<Rightarrow> database \<Rightarrow> bool) \<Rightarrow> world \<Rightarrow> world \<Rightarrow> bool" where
  "along D u v \<longleftrightarrow> D (w_db u) (w_db v) \<and>
     (D (w_committed u) (w_db u) \<longrightarrow> D (w_committed u) (w_committed v) \<and> D (w_committed v) (w_db v))"

definition across :: "(database \<Rightarrow> database \<Rightarrow> bool) \<Rightarrow> world \<Rightarrow> world \<Rightarrow> bool" where
  "across D u v \<longleftrightarrow> D (w_committed u) (w_committed v)"

locale db_order =
  fixes D :: "database \<Rightarrow> database \<Rightarrow> bool"
  assumes reflD: "D d d"
    and transD: "D a b \<Longrightarrow> D b c \<Longrightarrow> D a c"

sublocale db_order \<subseteq> txn: world_order "along D"
  by unfold_locales (auto simp: along_def reflD intro: transD)

sublocale db_order \<subseteq> req: world_order "across D"
  by unfold_locales (auto simp: across_def reflD intro: transD)

context db_order
begin

lemma same_tables:
  "w_db u = w_db v \<Longrightarrow> w_committed u = w_committed v \<Longrightarrow> along D u v"
  by (auto simp: along_def reflD)

lemma quiet_steps:
  "keeps (along D) nowM" "keeps (along D) randomM" "keeps (along D) (new_id p)" "keeps (along D) (background_task i)"
  "keeps (along D) (workspace_id_or_default ws)" "keeps (along D) get_settings"
  by (auto intro!: keepsI same_tables
    simp: nowM_def randomM_def new_id_def uuidM_def background_task_def workspace_id_or_default_def
      get_settings_def mon_simps bindM_def)

lemma commit_keeps: "keeps (along D) commitM"
  by (auto intro!: keepsI simp: commitM_def along_def reflD intro: transD)

lemma update_keeps: "(\<And>d. D d (f d)) \<Longrightarrow> keeps (along D) (update_dbM f)"
  by (rule keepsI) (auto simp: update_dbM_def along_def reflD dest: transD)

lemma world_keeps:
  "(\<And>w. w_db (f w) = w_db w \<and> w_committed (f w) = w_committed w) \<Longrightarrow> keeps (along D) (modifyM f)"
  by (auto intro!: keepsI same_tables)

lemmas steps = txn.control quiet_steps commit_keeps

lemma scope_keeps:
  assumes "keeps (along D) m"
  shows "keeps (across D) (session_scope m)"
proof (rule keepsI)
  fix w r w'
  assume run: "session_scope m w = (r, w')"
  obtain q v where m: "m (w\<lparr>w_db := w_committed w\<rparr>) = (q, v)" by fastforce
  from keepsD [OF assms m] have "D (w_committed w) (w_committed v)"
    by (simp add: along_def reflD)
  with run m show "across D w w'" by (auto simp: session_scope_def across_def)
qed

text \<open>An uncommitted transaction, one that raised before its commit included, leaves no trace.\<close>

lemma scope_quiet:
  assumes "session_scope m w = (r, w')" "\<And>u q v. m u = (q, v) \<Longrightarrow> w_committed v = w_committed u"
  shows "w_committed w' = w_committed w"
proof -
  obtain q v where m: "m (w\<lparr>w_db := w_committed w\<rparr>) = (q, v)" by fastforce
  from assms(2) [OF this] m assms(1) show ?thesis by (auto simp: session_scope_def)
qed

end

section \<open>Runs that keep records\<close>

text \<open>
  Steps that keep an invariant and, while it holds, keep every record up to a preorder: then any number of steps does.
\<close>

locale record_log =
  fixes step :: "world \<Rightarrow> world \<Rightarrow> bool" and ok :: "world \<Rightarrow> bool"
    and records :: "world \<Rightarrow> 'r set" and stays :: "'r \<Rightarrow> 'r \<Rightarrow> bool"
  assumes step_ok: "step w w' \<Longrightarrow> ok w \<Longrightarrow> ok w'"
    and step_stays: "step w w' \<Longrightarrow> ok w \<Longrightarrow> r \<in> records w \<Longrightarrow> \<exists>r' \<in> records w'. stays r r'"
    and stays_refl: "stays r r"
    and stays_trans: "stays r s \<Longrightarrow> stays s t \<Longrightarrow> stays r t"
begin

lemma runs_ok: "step\<^sup>*\<^sup>* w w' \<Longrightarrow> ok w \<Longrightarrow> ok w'"
  by (induction rule: rtranclp_induct) (auto intro: step_ok)

lemma runs_stay: "step\<^sup>*\<^sup>* w w' \<Longrightarrow> ok w \<Longrightarrow> r \<in> records w \<Longrightarrow> \<exists>r' \<in> records w'. stays r r'"
proof (induction rule: rtranclp_induct)
  case base
  then show ?case using stays_refl by blast
next
  case (step u v)
  then obtain s where s: "s \<in> records u" "stays r s" by blast
  from step_stays [OF step.hyps(2) runs_ok [OF step.hyps(1) step.prems(1)] s(1)] stays_trans [OF s(2)] show ?case by blast
qed

end

end
