(* ===== verification/Tables.thy ===== *)
theory Tables
  imports Effects "HOL-Library.List_Lexorder" "HOL-Library.Char_ord" "HOL-Library.Product_Lexorder"
begin

text \<open>
  The tables as keyed collections of rows: lookup by primary key, replacing a row, adding one.
  Their laws are one interface (\<open>row_table\<close>), interpreted on each table of the database, and the
  lemmas the components use of a table are proved once inside it. The theory also holds the parts of
  SQLAlchemy's \<^theory_text>\<open>select\<close> the queries are made of.
\<close>

section \<open>Rows by key\<close>

definition find_by :: "('r \<Rightarrow> string) \<Rightarrow> string \<Rightarrow> 'r list \<Rightarrow> 'r option" where
  "find_by key k rows = find (\<lambda>r. key r = k) rows"

definition replace_by :: "('r \<Rightarrow> string) \<Rightarrow> 'r \<Rightarrow> 'r list \<Rightarrow> 'r list" where
  "replace_by key r rows = map (\<lambda>x. if key x = key r then r else x) rows"

lemma find_by_key: "find_by key k rows = Some r \<Longrightarrow> key r = k"
  by (auto simp: find_by_def find_Some_iff)

lemma find_by_mem: "find_by key k rows = Some r \<Longrightarrow> r \<in> set rows"
  by (auto simp: find_by_def find_Some_iff)

lemma find_by_append:
  "find_by key k (rows @ [r]) =
     (case find_by key k rows of Some x \<Rightarrow> Some x | None \<Rightarrow> if key r = k then Some r else None)"
  unfolding find_by_def by (induction rows) auto

lemma find_by_replace:
  "find_by key k (replace_by key r rows) =
     (if k = key r \<and> find_by key k rows \<noteq> None then Some r else find_by key k rows)"
  unfolding find_by_def replace_by_def by (induction rows) auto

lemma find_by_None: "find_by key k rows = None \<longleftrightarrow> k \<notin> key ` set rows"
  by (auto simp: find_by_def find_None_iff)

lemma find_by_unique:
  "distinct (map key rows) \<Longrightarrow> r \<in> set rows \<Longrightarrow> find_by key (key r) rows = Some r"
  unfolding find_by_def by (induction rows) force+

lemma length_replace_by [simp]: "length (replace_by key r rows) = length rows"
  by (simp add: replace_by_def)

lemma keys_replace_by [simp]: "map key (replace_by key r rows) = map key rows"
  by (induction rows) (auto simp: replace_by_def)

lemma set_replace_by: "x \<in> set (replace_by key r rows) \<Longrightarrow> x = r \<or> (x \<in> set rows \<and> key x \<noteq> key r)"
  by (auto simp: replace_by_def split: if_splits)

lemma replace_by_self:
  "distinct (map key rows) \<Longrightarrow> find_by key (key r) rows = Some r \<Longrightarrow> replace_by key r rows = rows"
  using inj_onD [of key "set rows"]
  by (auto simp: replace_by_def distinct_map dest: find_by_mem intro!: map_idI)

section \<open>The interface of a table\<close>

locale row_table =
  fixes key :: "'row \<Rightarrow> string"
    and lookup :: "string \<Rightarrow> 'db \<Rightarrow> 'row option"
    and put :: "'row \<Rightarrow> 'db \<Rightarrow> 'db"
    and add :: "'row \<Rightarrow> 'db \<Rightarrow> 'db"
  assumes lookup_key: "lookup k d = Some r \<Longrightarrow> key r = k"
    and lookup_put:
      "lookup k (put r d) = (if k = key r \<and> lookup k d \<noteq> None then Some r else lookup k d)"
    and lookup_add:
      "lookup k (add r d) =
         (case lookup k d of Some x \<Rightarrow> Some x | None \<Rightarrow> if key r = k then Some r else None)"
begin

lemma put_same: "lookup (key r) d = Some q \<Longrightarrow> lookup (key r) (put r d) = Some r"
  by (simp add: lookup_put)

lemma put_other: "k \<noteq> key r \<Longrightarrow> lookup k (put r d) = lookup k d"
  by (simp add: lookup_put)

lemma add_same: "lookup (key r) d = None \<Longrightarrow> lookup (key r) (add r d) = Some r"
  by (simp add: lookup_add)

lemma add_old: "lookup k d = Some x \<Longrightarrow> lookup k (add r d) = Some x"
  by (simp add: lookup_add)

lemma add_other: "k \<noteq> key r \<Longrightarrow> lookup k (add r d) = lookup k d"
  by (auto simp: lookup_add split: option.splits)

lemma put_put: "key q = key r \<Longrightarrow> lookup k (put r (put q d)) = lookup k (put r d)"
  by (auto simp: lookup_put)

lemma present_put: "lookup k (put r d) = None \<longleftrightarrow> lookup k d = None"
  by (auto simp: lookup_put)

text \<open>A property of every row survives an update and an insertion that satisfy it.\<close>

lemma rows_put:
  assumes "\<And>k x. lookup k d = Some x \<Longrightarrow> P x" "P r" "lookup k (put r d) = Some x"
  shows "P x"
  using assms by (auto simp: lookup_put split: if_splits)

lemma rows_add:
  assumes "\<And>k x. lookup k d = Some x \<Longrightarrow> P x" "P r" "lookup k (add r d) = Some x"
  shows "P x"
  using assms by (auto simp: lookup_add split: if_splits option.splits)

end

definition find_workspace :: "string \<Rightarrow> database \<Rightarrow> workspace_row option" where
  "find_workspace k d = find_by wk_id k (db_workspaces d)"

definition put_workspace :: "workspace_row \<Rightarrow> database \<Rightarrow> database" where
  "put_workspace r d = d\<lparr>db_workspaces := replace_by wk_id r (db_workspaces d)\<rparr>"

definition add_workspace :: "workspace_row \<Rightarrow> database \<Rightarrow> database" where
  "add_workspace r d = d\<lparr>db_workspaces := db_workspaces d @ [r]\<rparr>"

interpretation workspace_rows: row_table wk_id find_workspace put_workspace add_workspace
  by unfold_locales
    (auto simp: find_workspace_def put_workspace_def add_workspace_def find_by_replace find_by_append dest: find_by_key)

definition find_api_key :: "string \<Rightarrow> database \<Rightarrow> api_key_row option" where
  "find_api_key k d = find_by ak_id k (db_api_keys d)"

definition put_api_key :: "api_key_row \<Rightarrow> database \<Rightarrow> database" where
  "put_api_key r d = d\<lparr>db_api_keys := replace_by ak_id r (db_api_keys d)\<rparr>"

definition add_api_key :: "api_key_row \<Rightarrow> database \<Rightarrow> database" where
  "add_api_key r d = d\<lparr>db_api_keys := db_api_keys d @ [r]\<rparr>"

interpretation api_key_rows: row_table ak_id find_api_key put_api_key add_api_key
  by unfold_locales
    (auto simp: find_api_key_def put_api_key_def add_api_key_def find_by_replace find_by_append dest: find_by_key)

definition find_agent :: "string \<Rightarrow> database \<Rightarrow> agent_row option" where
  "find_agent k d = find_by ag_id k (db_agents d)"

definition put_agent :: "agent_row \<Rightarrow> database \<Rightarrow> database" where
  "put_agent r d = d\<lparr>db_agents := replace_by ag_id r (db_agents d)\<rparr>"

definition add_agent :: "agent_row \<Rightarrow> database \<Rightarrow> database" where
  "add_agent r d = d\<lparr>db_agents := db_agents d @ [r]\<rparr>"

interpretation agent_rows: row_table ag_id find_agent put_agent add_agent
  by unfold_locales
    (auto simp: find_agent_def put_agent_def add_agent_def find_by_replace find_by_append dest: find_by_key)

definition find_version :: "string \<Rightarrow> database \<Rightarrow> agent_version_row option" where
  "find_version k d = find_by av_id k (db_versions d)"

definition put_version :: "agent_version_row \<Rightarrow> database \<Rightarrow> database" where
  "put_version r d = d\<lparr>db_versions := replace_by av_id r (db_versions d)\<rparr>"

definition add_version :: "agent_version_row \<Rightarrow> database \<Rightarrow> database" where
  "add_version r d = d\<lparr>db_versions := db_versions d @ [r]\<rparr>"

interpretation version_rows: row_table av_id find_version put_version add_version
  by unfold_locales
    (auto simp: find_version_def put_version_def add_version_def find_by_replace find_by_append dest: find_by_key)

definition find_environment :: "string \<Rightarrow> database \<Rightarrow> environment_row option" where
  "find_environment k d = find_by en_id k (db_environments d)"

definition put_environment :: "environment_row \<Rightarrow> database \<Rightarrow> database" where
  "put_environment r d = d\<lparr>db_environments := replace_by en_id r (db_environments d)\<rparr>"

definition add_environment :: "environment_row \<Rightarrow> database \<Rightarrow> database" where
  "add_environment r d = d\<lparr>db_environments := db_environments d @ [r]\<rparr>"

interpretation environment_rows: row_table en_id find_environment put_environment add_environment
  by unfold_locales
    (auto simp: find_environment_def put_environment_def add_environment_def find_by_replace find_by_append dest: find_by_key)

definition find_session :: "string \<Rightarrow> database \<Rightarrow> session_row option" where
  "find_session k d = find_by se_id k (db_sessions d)"

definition put_session :: "session_row \<Rightarrow> database \<Rightarrow> database" where
  "put_session r d = d\<lparr>db_sessions := replace_by se_id r (db_sessions d)\<rparr>"

definition add_session :: "session_row \<Rightarrow> database \<Rightarrow> database" where
  "add_session r d = d\<lparr>db_sessions := db_sessions d @ [r]\<rparr>"

interpretation session_rows: row_table se_id find_session put_session add_session
  by unfold_locales
    (auto simp: find_session_def put_session_def add_session_def find_by_replace find_by_append dest: find_by_key)

definition find_event :: "string \<Rightarrow> database \<Rightarrow> event_row option" where
  "find_event k d = find_by ev_id k (db_events d)"

definition put_event :: "event_row \<Rightarrow> database \<Rightarrow> database" where
  "put_event r d = d\<lparr>db_events := replace_by ev_id r (db_events d)\<rparr>"

definition add_event :: "event_row \<Rightarrow> database \<Rightarrow> database" where
  "add_event r d = d\<lparr>db_events := db_events d @ [r]\<rparr>"

interpretation event_rows: row_table ev_id find_event put_event add_event
  by unfold_locales
    (auto simp: find_event_def put_event_def add_event_def find_by_replace find_by_append dest: find_by_key)

definition find_resource :: "string \<Rightarrow> database \<Rightarrow> resource_row option" where
  "find_resource k d = find_by mr_id k (db_resources d)"

definition put_resource :: "resource_row \<Rightarrow> database \<Rightarrow> database" where
  "put_resource r d = d\<lparr>db_resources := replace_by mr_id r (db_resources d)\<rparr>"

definition add_resource :: "resource_row \<Rightarrow> database \<Rightarrow> database" where
  "add_resource r d = d\<lparr>db_resources := db_resources d @ [r]\<rparr>"

interpretation resource_rows: row_table mr_id find_resource put_resource add_resource
  by unfold_locales
    (auto simp: find_resource_def put_resource_def add_resource_def find_by_replace find_by_append dest: find_by_key)

lemmas table_defs =
  find_workspace_def put_workspace_def add_workspace_def find_api_key_def put_api_key_def
  add_api_key_def find_agent_def put_agent_def add_agent_def find_version_def put_version_def
  add_version_def find_environment_def put_environment_def add_environment_def find_session_def
  put_session_def add_session_def find_event_def put_event_def add_event_def find_resource_def
  put_resource_def add_resource_def

section \<open>Parts of a query\<close>

text \<open>\<open>scalar_one_or_none\<close>, \<open>order_by(created_at.desc(), id.desc())\<close>, \<open>limit\<close>.\<close>

definition scalar_one_or_none :: "'r list \<Rightarrow> 'r option res" where
  "scalar_one_or_none rows = (case rows of
      [] \<Rightarrow> Inr None | [r] \<Rightarrow> Inr (Some r) | _ \<Rightarrow> Inl MultipleResultsFound)"

definition newest_first :: "('r \<Rightarrow> int) \<Rightarrow> ('r \<Rightarrow> string) \<Rightarrow> 'r list \<Rightarrow> 'r list" where
  "newest_first created key rows = rev (sort_key (\<lambda>r. (created r, key r)) rows)"

definition limit_rows :: "nat \<Rightarrow> 'r list \<Rightarrow> 'r list" where
  "limit_rows n rows = take n rows"

lemma set_newest_first [simp]: "set (newest_first c k rows) = set rows"
  by (simp add: newest_first_def)

lemma length_newest_first [simp]: "length (newest_first c k rows) = length rows"
  by (simp add: newest_first_def)

lemma newest_first_sorted:
  "sorted_wrt (\<lambda>a b. (c b, k b) \<le> (c a, k a)) (newest_first c k rows)"
proof -
  have "sorted (map (\<lambda>r. (c r, k r)) (sort_key (\<lambda>r. (c r, k r)) rows))" by simp
  then show ?thesis
    by (simp add: newest_first_def sorted_wrt_rev sorted_map)
qed

lemma scalar_cases:
  "scalar_one_or_none rows = Inr r \<longleftrightarrow>
     (r = None \<and> rows = []) \<or> (\<exists>x. r = Some x \<and> rows = [x])"
  by (auto simp: scalar_one_or_none_def split: list.splits)

lemma filter_key_unique:
  assumes "distinct (map key rows)"
  shows "filter (\<lambda>r. key r = k \<and> P r) rows =
    (case find_by key k rows of Some r \<Rightarrow> if P r then [r] else [] | None \<Rightarrow> [])"
  using assms
proof (induction rows)
  case (Cons r rows)
  have "key r = k \<Longrightarrow> filter (\<lambda>r. key r = k \<and> P r) rows = []"
    using Cons.prems by (simp add: filter_empty_conv) (metis image_eqI)
  with Cons show ?case by (auto simp: find_by_def)
qed (simp add: find_by_def)

end
