(* ===== verification/Queries.thy ===== *)
theory Queries
  imports Tables
begin

text \<open>
  The query layer, \<open>app/db/queries/*.py\<close>: one definition per function, over the tables of \<^theory_text>\<open>World\<close>.
  An inserted row is checked against the primary key and the unique constraints of
  \<open>app/db/models/domain.py\<close>; a flush of a changed object replaces its row and moves \<open>updated_at\<close>
  (\<open>save_*\<close>), a flush of an unchanged one writes nothing. Keyword arguments with a default are the
  fields of a record (\<open>resource_args\<close>, \<open>resource_patch\<close>, \<open>session_patch\<close>).
\<close>

section \<open>Flush\<close>

definition save_agent :: "agent_row \<Rightarrow> agent_row M" where
  "save_agent r = bindM (dbM (find_agent (ag_id r))) (\<lambda>old.
     if old = Some r then returnM r
     else bindM nowM (\<lambda>t. let r' = r\<lparr>ag_updated_at := t\<rparr> in
       seqM (update_dbM (put_agent r')) (returnM r')))"

definition save_version :: "agent_version_row \<Rightarrow> agent_version_row M" where
  "save_version r = bindM (dbM (find_version (av_id r))) (\<lambda>old.
     if old = Some r then returnM r
     else bindM nowM (\<lambda>t. let r' = r\<lparr>av_updated_at := t\<rparr> in
       seqM (update_dbM (put_version r')) (returnM r')))"

definition save_environment :: "environment_row \<Rightarrow> environment_row M" where
  "save_environment r = bindM (dbM (find_environment (en_id r))) (\<lambda>old.
     if old = Some r then returnM r
     else bindM nowM (\<lambda>t. let r' = r\<lparr>en_updated_at := t\<rparr> in
       bindM (dbM (\<lambda>d. list_ex (\<lambda>x. en_id x \<noteq> en_id r \<and> en_workspace_id x = en_workspace_id r
                                   \<and> en_name x = en_name r) (db_environments d))) (\<lambda>taken.
       seqM (guardM taken IntegrityError)
         (seqM (update_dbM (put_environment r')) (returnM r')))))"

definition save_session :: "session_row \<Rightarrow> session_row M" where
  "save_session r = bindM (dbM (find_session (se_id r))) (\<lambda>old.
     if old = Some r then returnM r
     else bindM nowM (\<lambda>t. let r' = r\<lparr>se_updated_at := t\<rparr> in
       seqM (update_dbM (put_session r')) (returnM r')))"

definition save_resource :: "resource_row \<Rightarrow> resource_row M" where
  "save_resource r = bindM (dbM (find_resource (mr_id r))) (\<lambda>old.
     if old = Some r then returnM r
     else bindM nowM (\<lambda>t. let r' = r\<lparr>mr_updated_at := t\<rparr> in
       seqM (update_dbM (put_resource r')) (returnM r')))"

definition save_api_key :: "api_key_row \<Rightarrow> api_key_row M" where
  "save_api_key r = bindM (dbM (find_api_key (ak_id r))) (\<lambda>old.
     if old = Some r then returnM r
     else bindM nowM (\<lambda>t. let r' = r\<lparr>ak_updated_at := t\<rparr> in
       seqM (update_dbM (put_api_key r')) (returnM r')))"

section \<open>Resources\<close>

definition PREFIXES :: "(string \<times> string) list" where
  "PREFIXES = [(''skill'', ''skill''), (''skill_version'', ''skver''), (''file'', ''file''),
     (''vault'', ''vault''), (''credential'', ''cred''), (''memory_store'', ''memstore''),
     (''memory'', ''mem''), (''memory_version'', ''memver''), (''deployment'', ''deploy''),
     (''deployment_run'', ''deprun''), (''user_profile'', ''uprof''),
     (''user_profile_enrollment'', ''upenroll''), (''session_resource'', ''sesrsc''),
     (''session_thread'', ''thread''), (''environment_work'', ''work'')]"

definition resource_prefix :: "string \<Rightarrow> string" where
  "resource_prefix ty = (case map_of PREFIXES ty of Some p \<Rightarrow> p | None \<Rightarrow> ''res'')"

record resource_args =
  ra_data :: pdict
  ra_parent_id :: "string option"
  ra_version :: "int option"
  ra_name :: "string option"
  ra_status :: string
  ra_content :: "string option"
  ra_content_type :: "string option"
  ra_filename :: "string option"
  ra_storage_backend :: "string option"
  ra_storage_key :: "string option"
  ra_storage_url :: "string option"
  ra_size_bytes :: "int option"
  ra_sha256 :: "string option"
  ra_workspace_id :: "string option"

definition resource_args0 :: resource_args where
  "resource_args0 = \<lparr>ra_data = [], ra_parent_id = None, ra_version = None, ra_name = None,
     ra_status = ''active'', ra_content = None, ra_content_type = None, ra_filename = None,
     ra_storage_backend = None, ra_storage_key = None, ra_storage_url = None,
     ra_size_bytes = None, ra_sha256 = None, ra_workspace_id = None\<rparr>"

text \<open>SQL compares no null with another, so a missing parent or version never clashes.\<close>

definition version_taken :: "resource_row \<Rightarrow> database \<Rightarrow> bool" where
  "version_taken r d = (mr_parent_id r \<noteq> None \<and> mr_version r \<noteq> None \<and>
     list_ex (\<lambda>x. mr_resource_type x = mr_resource_type r \<and> mr_parent_id x = mr_parent_id r
                \<and> mr_version x = mr_version r) (db_resources d))"

definition insert_resource :: "resource_row \<Rightarrow> unit M" where
  "insert_resource r = bindM (dbM (\<lambda>d. find_resource (mr_id r) d \<noteq> None \<or> version_taken r d)) (\<lambda>bad.
     if bad then raiseM IntegrityError else update_dbM (add_resource r))"

definition create_resource :: "string \<Rightarrow> resource_args \<Rightarrow> resource_row M" where
  "create_resource resource_type a =
     bindM (new_id (resource_prefix resource_type)) (\<lambda>i.
     bindM (workspace_id_or_default (ra_workspace_id a)) (\<lambda>ws.
     bindM nowM (\<lambda>created. bindM nowM (\<lambda>updated.
     let r = \<lparr>mr_id = i, mr_workspace_id = ws, mr_resource_type = resource_type,
              mr_parent_id = ra_parent_id a, mr_version = ra_version a, mr_name = ra_name a,
              mr_status = ra_status a, mr_data = ra_data a, mr_content = ra_content a,
              mr_content_type = ra_content_type a, mr_filename = ra_filename a,
              mr_storage_backend = ra_storage_backend a, mr_storage_key = ra_storage_key a,
              mr_storage_url = ra_storage_url a, mr_size_bytes = ra_size_bytes a,
              mr_sha256 = ra_sha256 a, mr_archived_at = None, mr_deleted_at = None,
              mr_created_at = created, mr_updated_at = updated\<rparr>
     in seqM (insert_resource r) (returnM r)))))"

text \<open>\<open>stmt.where(column == value)\<close> when the argument is given, all rows when it is not.\<close>

definition opt_eq :: "'a option \<Rightarrow> 'a option \<Rightarrow> bool" where
  "opt_eq wanted actual = (wanted = None \<or> actual = wanted)"

definition get_resource ::
  "string \<Rightarrow> string option \<Rightarrow> string option \<Rightarrow> bool \<Rightarrow> string option \<Rightarrow> resource_row option M" where
  "get_resource i resource_type parent include_deleted ws =
     bindM (workspace_id_or_default ws) (\<lambda>ws.
     bindM (dbM (\<lambda>d. filter (\<lambda>r. mr_id r = i \<and> mr_workspace_id r = ws
         \<and> opt_eq resource_type (Some (mr_resource_type r)) \<and> opt_eq parent (mr_parent_id r)
         \<and> (include_deleted \<or> mr_deleted_at r = None)) (db_resources d))) (\<lambda>rows.
     liftE (scalar_one_or_none rows)))"

definition get_resource_by_name ::
  "string \<Rightarrow> string \<Rightarrow> string option \<Rightarrow> bool \<Rightarrow> string option \<Rightarrow> resource_row option M" where
  "get_resource_by_name resource_type name parent include_deleted ws =
     bindM (workspace_id_or_default ws) (\<lambda>ws.
     bindM (dbM (\<lambda>d. filter (\<lambda>r. mr_resource_type r = resource_type \<and> mr_name r = Some name
         \<and> mr_workspace_id r = ws \<and> opt_eq parent (mr_parent_id r)
         \<and> (include_deleted \<or> mr_deleted_at r = None)) (db_resources d))) (\<lambda>rows.
     liftE (scalar_one_or_none rows)))"

definition get_resource_by_sha256 ::
  "string \<Rightarrow> string \<Rightarrow> bool \<Rightarrow> string option \<Rightarrow> resource_row option M" where
  "get_resource_by_sha256 resource_type sha include_deleted ws =
     bindM (workspace_id_or_default ws) (\<lambda>ws.
     dbM (\<lambda>d. case sort_key mr_created_at (filter (\<lambda>r. mr_resource_type r = resource_type
         \<and> mr_sha256 r = Some sha \<and> mr_workspace_id r = ws
         \<and> (include_deleted \<or> mr_deleted_at r = None)) (db_resources d)) of
       [] \<Rightarrow> None | r # _ \<Rightarrow> Some r))"

definition count_by_storage_key ::
  "string \<Rightarrow> string \<Rightarrow> string \<Rightarrow> bool \<Rightarrow> string \<Rightarrow> resource_row list \<Rightarrow> nat" where
  "count_by_storage_key resource_type backend key include_deleted ws rows =
     length (filter (\<lambda>r. mr_resource_type r = resource_type \<and> mr_storage_backend r = Some backend
         \<and> mr_storage_key r = Some key \<and> mr_workspace_id r = ws
         \<and> (include_deleted \<or> mr_deleted_at r = None)) rows)"

definition count_resources_by_storage_key ::
  "string \<Rightarrow> string \<Rightarrow> string \<Rightarrow> bool \<Rightarrow> string option \<Rightarrow> nat M" where
  "count_resources_by_storage_key resource_type backend key include_deleted ws =
     bindM (workspace_id_or_default ws) (\<lambda>ws.
     dbM (\<lambda>d. count_by_storage_key resource_type backend key include_deleted ws (db_resources d)))"

definition list_resources ::
  "string \<Rightarrow> string option \<Rightarrow> nat \<Rightarrow> bool \<Rightarrow> bool \<Rightarrow> string option \<Rightarrow> resource_row list M" where
  "list_resources resource_type parent limit include_archived include_deleted ws =
     bindM (workspace_id_or_default ws) (\<lambda>ws.
     dbM (\<lambda>d. limit_rows limit (newest_first mr_created_at mr_id
       (filter (\<lambda>r. mr_resource_type r = resource_type \<and> mr_workspace_id r = ws
         \<and> (include_deleted \<or> mr_deleted_at r = None) \<and> opt_eq parent (mr_parent_id r)
         \<and> (include_archived \<or> mr_archived_at r = None)) (db_resources d)))))"

definition get_resource_version ::
  "string \<Rightarrow> string \<Rightarrow> int \<Rightarrow> bool \<Rightarrow> string option \<Rightarrow> resource_row option M" where
  "get_resource_version resource_type parent version include_deleted ws =
     bindM (workspace_id_or_default ws) (\<lambda>ws.
     bindM (dbM (\<lambda>d. filter (\<lambda>r. mr_resource_type r = resource_type \<and> mr_parent_id r = Some parent
         \<and> mr_version r = Some version \<and> mr_workspace_id r = ws
         \<and> (include_deleted \<or> mr_deleted_at r = None)) (db_resources d))) (\<lambda>rows.
     liftE (scalar_one_or_none rows)))"

record resource_patch =
  rp_data :: "pdict option"
  rp_name :: "string option"
  rp_status :: "string option"
  rp_content :: "string option"
  rp_content_type :: "string option"
  rp_filename :: "string option"
  rp_storage_backend :: "string option"
  rp_storage_key :: "string option"
  rp_storage_url :: "string option"
  rp_size_bytes :: "int option"
  rp_sha256 :: "string option"

definition resource_patch0 :: resource_patch where
  "resource_patch0 = \<lparr>rp_data = None, rp_name = None, rp_status = None, rp_content = None,
     rp_content_type = None, rp_filename = None, rp_storage_backend = None, rp_storage_key = None,
     rp_storage_url = None, rp_size_bytes = None, rp_sha256 = None\<rparr>"

definition given :: "'a option \<Rightarrow> 'a \<Rightarrow> 'a" where
  "given v old = (case v of None \<Rightarrow> old | Some x \<Rightarrow> x)"

definition given_opt :: "'a option \<Rightarrow> 'a option \<Rightarrow> 'a option" where
  "given_opt v old = (case v of None \<Rightarrow> old | Some x \<Rightarrow> Some x)"

lemma given_simps [simp]:
  "given None x = x" "given (Some y) x = y" "given_opt None z = z" "given_opt (Some y) z = Some y"
  by (simp_all add: given_def given_opt_def)

definition patch_resource :: "resource_patch \<Rightarrow> resource_row \<Rightarrow> resource_row" where
  "patch_resource p r = r\<lparr>
     mr_data := given (rp_data p) (mr_data r), mr_name := given_opt (rp_name p) (mr_name r),
     mr_status := given (rp_status p) (mr_status r),
     mr_content := given_opt (rp_content p) (mr_content r),
     mr_content_type := given_opt (rp_content_type p) (mr_content_type r),
     mr_filename := given_opt (rp_filename p) (mr_filename r),
     mr_storage_backend := given_opt (rp_storage_backend p) (mr_storage_backend r),
     mr_storage_key := given_opt (rp_storage_key p) (mr_storage_key r),
     mr_storage_url := given_opt (rp_storage_url p) (mr_storage_url r),
     mr_size_bytes := given_opt (rp_size_bytes p) (mr_size_bytes r),
     mr_sha256 := given_opt (rp_sha256 p) (mr_sha256 r)\<rparr>"

definition update_resource :: "resource_row \<Rightarrow> resource_patch \<Rightarrow> resource_row M" where
  "update_resource r p = save_resource (patch_resource p r)"

definition archive_resource :: "resource_row \<Rightarrow> resource_row M" where
  "archive_resource r = bindM nowM (\<lambda>t.
     save_resource (r\<lparr>mr_archived_at := Some t, mr_status := ''archived''\<rparr>))"

definition delete_resource :: "resource_row \<Rightarrow> resource_row M" where
  "delete_resource r = bindM nowM (\<lambda>t.
     save_resource (r\<lparr>mr_deleted_at := Some t, mr_status := ''deleted''\<rparr>))"

text \<open>\<^theory_text>\<open>int(max(version) or 0) + 1\<close>, over deleted rows too.\<close>

definition next_version_of :: "string \<Rightarrow> string \<Rightarrow> string \<Rightarrow> resource_row list \<Rightarrow> int" where
  "next_version_of resource_type parent ws rows =
     (case List.map_filter mr_version (filter (\<lambda>r. mr_resource_type r = resource_type
         \<and> mr_parent_id r = Some parent \<and> mr_workspace_id r = ws) rows) of
        [] \<Rightarrow> 1 | v # vs \<Rightarrow> foldl max v vs + 1)"

definition next_version :: "string \<Rightarrow> string \<Rightarrow> string option \<Rightarrow> int M" where
  "next_version resource_type parent ws = bindM (workspace_id_or_default ws) (\<lambda>ws.
     dbM (\<lambda>d. next_version_of resource_type parent ws (db_resources d)))"

text \<open>
  SQL's \<^theory_text>\<open>LIKE\<close> with an escape character, over characters compared after \<open>fold\<close>: SQLite
  compares without regard to ASCII case (\<open>lower_char\<close>), PostgreSQL exactly (\<open>\<lambda>c. c\<close>).
\<close>

fun like_match :: "(char \<Rightarrow> char) \<Rightarrow> char \<Rightarrow> string \<Rightarrow> string \<Rightarrow> bool" where
  "like_match f e [] s = (s = [])"
| "like_match f e (p # ps) s =
     (if p = e then
        (case ps of [] \<Rightarrow> False
         | q # qs \<Rightarrow> (case s of [] \<Rightarrow> False | c # cs \<Rightarrow> f q = f c \<and> like_match f e qs cs))
      else if p = CHR ''%'' then
        like_match f e ps s \<or> (case s of [] \<Rightarrow> False | c # cs \<Rightarrow> like_match f e (p # ps) cs)
      else (case s of [] \<Rightarrow> False
            | c # cs \<Rightarrow> (p = CHR ''_'' \<or> f p = f c) \<and> like_match f e ps cs))"

definition escape_char :: "char \<Rightarrow> string" where
  "escape_char c = (if c = CHR 0x5C \<or> c = CHR ''%'' \<or> c = CHR ''_'' then [CHR 0x5C, c] else [c])"

text \<open>Three passes of \<^theory_text>\<open>str.replace\<close>, the backslash first.\<close>

definition escape_like :: "string \<Rightarrow> string" where
  "escape_like v = replace_char CHR ''_'' [CHR 0x5C, CHR ''_'']
     (replace_char CHR ''%'' [CHR 0x5C, CHR ''%''] (replace_char CHR 0x5C [CHR 0x5C, CHR 0x5C] v))"

definition list_resources_by_name_prefix ::
  "(char \<Rightarrow> char) \<Rightarrow> string \<Rightarrow> string \<Rightarrow> string \<Rightarrow> nat \<Rightarrow> bool \<Rightarrow> string option \<Rightarrow> resource_row list M" where
  "list_resources_by_name_prefix f resource_type parent prefix limit include_archived ws =
     bindM (workspace_id_or_default ws) (\<lambda>ws.
     dbM (\<lambda>d. limit_rows limit (newest_first mr_created_at mr_id
       (filter (\<lambda>r. mr_resource_type r = resource_type \<and> mr_parent_id r = Some parent
         \<and> mr_workspace_id r = ws \<and> mr_deleted_at r = None
         \<and> (case mr_name r of None \<Rightarrow> False
            | Some n \<Rightarrow> n = prefix \<or> like_match f CHR 0x5C (escape_like prefix @ ''/%'') n)
         \<and> (include_archived \<or> mr_archived_at r = None)) (db_resources d)))))"

lemma escape_like_chars: "escape_like v = concat (map escape_char v)"
proof -
  have "escape_like [c] = escape_char c" for c
    by (simp add: escape_like_def escape_char_def replace_char_def)
  moreover have "escape_like (u @ v) = escape_like u @ escape_like v" for u v
    by (simp add: escape_like_def replace_char_def)
  ultimately show ?thesis
    by (induction v) (simp add: escape_like_def replace_char_def, metis append_Cons append_Nil concat.simps(2) list.simps(9))
qed

lemma like_percent_all: "like_match f CHR 0x5C ''%'' s"
  by (induction s) auto

lemma like_escaped:
  "like_match f CHR 0x5C (concat (map escape_char p) @ q) s \<longleftrightarrow>
     map f (take (length p) s) = map f p \<and> like_match f CHR 0x5C q (drop (length p) s)"
proof (induction p arbitrary: s)
  case Nil
  then show ?case by simp
next
  case (Cons c p)
  show ?case
  proof (cases s)
    case Nil
    then show ?thesis by (auto simp: escape_char_def)
  next
    case (Cons x xs)
    have "like_match f CHR 0x5C (escape_char c @ concat (map escape_char p) @ q) (x # xs)
      \<longleftrightarrow> f c = f x \<and> like_match f CHR 0x5C (concat (map escape_char p) @ q) xs"
      by (auto simp: escape_char_def)
    with Cons Cons.IH [of xs] show ?thesis by auto
  qed
qed

text \<open>The pattern for the descendants of a path matches exactly the names below it.\<close>

lemma like_descendants:
  "like_match f CHR 0x5C (escape_like p @ ''/%'') s \<longleftrightarrow>
     (\<exists>u r. s = u @ r \<and> map f u = map f (p @ ''/''))"
proof -
  have e: "escape_like p @ ''/%'' = concat (map escape_char (p @ ''/'')) @ ''%''"
    by (simp add: escape_like_chars escape_char_def)
  have "map f (take (length (p @ ''/'')) s) = map f (p @ ''/'') \<longleftrightarrow>
      (\<exists>u r. s = u @ r \<and> map f u = map f (p @ ''/''))"
    by (metis append_take_drop_id append_eq_conv_conj length_map)
  then show ?thesis
    unfolding e like_escaped by (simp only: like_percent_all simp_thms)
qed

section \<open>Agents\<close>

definition insert_agent :: "agent_row \<Rightarrow> unit M" where
  "insert_agent r = bindM (dbM (find_agent (ag_id r))) (\<lambda>old.
     if old \<noteq> None then raiseM IntegrityError else update_dbM (add_agent r))"

definition insert_version :: "agent_version_row \<Rightarrow> unit M" where
  "insert_version r = bindM (dbM (\<lambda>d. find_version (av_id r) d \<noteq> None \<or>
       list_ex (\<lambda>x. av_agent_id x = av_agent_id r \<and> av_version x = av_version r) (db_versions d)))
     (\<lambda>bad. if bad then raiseM IntegrityError else update_dbM (add_version r))"

text \<open>What the caller gives of a version; \<open>fresh_version\<close> stamps a row of it.\<close>

record version_config =
  vc_name :: string
  vc_model :: pdict
  vc_system :: "string option"
  vc_description :: "string option"
  vc_tools :: "pv list"
  vc_mcp_servers :: "pv list"
  vc_skills :: "pv list"
  vc_multiagent :: pv
  vc_runtime :: pdict
  vc_metadata :: pdict

definition fresh_version :: "string \<Rightarrow> string \<Rightarrow> int \<Rightarrow> version_config \<Rightarrow> agent_version_row M" where
  "fresh_version ws agent version c =
     bindM (new_id ''agtv'') (\<lambda>i. bindM nowM (\<lambda>created. bindM nowM (\<lambda>updated.
     let r = \<lparr>av_id = i, av_workspace_id = ws, av_agent_id = agent, av_version = version,
              av_name = vc_name c, av_model = vc_model c, av_system = vc_system c,
              av_description = vc_description c, av_tools = vc_tools c,
              av_mcp_servers = vc_mcp_servers c, av_skills = vc_skills c,
              av_multiagent = vc_multiagent c, av_runtime = vc_runtime c,
              av_metadata = vc_metadata c, av_created_at = created, av_updated_at = updated\<rparr>
     in seqM (insert_version r) (returnM r))))"

definition model_json :: "string + pdict \<Rightarrow> pdict" where
  "model_json m = (case m of Inl s \<Rightarrow> [(''id'', PStr s)] | Inr d \<Rightarrow> d)"

definition create_agent_q :: "version_config \<Rightarrow> string option \<Rightarrow> (agent_row \<times> agent_version_row) M" where
  "create_agent_q c ws_opt =
     bindM (workspace_id_or_default ws_opt) (\<lambda>ws. bindM (new_id ''agt'') (\<lambda>i.
     bindM nowM (\<lambda>created. bindM nowM (\<lambda>updated.
     let a = \<lparr>ag_id = i, ag_workspace_id = ws, ag_name = vc_name c,
              ag_description = vc_description c, ag_active_version = 1,
              ag_metadata = vc_metadata c, ag_archived_at = None,
              ag_created_at = created, ag_updated_at = updated\<rparr>
     in seqM (insert_agent a) (bindM (fresh_version ws i 1 c) (\<lambda>v. returnM (a, v)))))))"

definition get_agent :: "string \<Rightarrow> agent_row option M" where
  "get_agent i = bindM (workspace_id_or_default None) (\<lambda>ws.
     bindM (dbM (\<lambda>d. filter (\<lambda>a. ag_id a = i \<and> ag_workspace_id a = ws) (db_agents d))) (\<lambda>rows.
     liftE (scalar_one_or_none rows)))"

definition list_agents_q :: "nat \<Rightarrow> bool \<Rightarrow> agent_row list M" where
  "list_agents_q limit include_archived = bindM (workspace_id_or_default None) (\<lambda>ws.
     dbM (\<lambda>d. limit_rows limit (newest_first ag_created_at (\<lambda>_. [])
       (filter (\<lambda>a. ag_workspace_id a = ws \<and> (include_archived \<or> ag_archived_at a = None))
         (db_agents d)))))"

definition get_agent_version :: "string \<Rightarrow> int \<Rightarrow> string option \<Rightarrow> agent_version_row option M" where
  "get_agent_version agent version ws = bindM (workspace_id_or_default ws) (\<lambda>ws.
     bindM (dbM (\<lambda>d. filter (\<lambda>v. av_agent_id v = agent \<and> av_version v = version
         \<and> av_workspace_id v = ws) (db_versions d))) (\<lambda>rows.
     liftE (scalar_one_or_none rows)))"

definition get_active_agent_version :: "agent_row \<Rightarrow> agent_version_row option M" where
  "get_active_agent_version a =
     get_agent_version (ag_id a) (ag_active_version a) (Some (ag_workspace_id a))"

text \<open>The comparison \<open>update_agent\<close> makes before it adds a version, by Python's \<^theory_text>\<open>==\<close>.\<close>

definition dict_eq :: "pdict \<Rightarrow> pdict \<Rightarrow> bool" where
  "dict_eq d e = py_eq (PDict d) (PDict e)"

definition same_config :: "agent_version_row \<Rightarrow> version_config \<Rightarrow> bool" where
  "same_config v c = (av_name v = vc_name c \<and> av_description v = vc_description c
     \<and> dict_eq (av_metadata v) (vc_metadata c) \<and> dict_eq (av_model v) (vc_model c)
     \<and> av_system v = vc_system c \<and> py_eq (PList (av_tools v)) (PList (vc_tools c))
     \<and> py_eq (PList (av_mcp_servers v)) (PList (vc_mcp_servers c))
     \<and> py_eq (PList (av_skills v)) (PList (vc_skills c))
     \<and> py_eq (av_multiagent v) (vc_multiagent c) \<and> dict_eq (av_runtime v) (vc_runtime c))"

definition update_agent_q ::
  "agent_row \<Rightarrow> version_config \<Rightarrow> (agent_row \<times> agent_version_row \<times> bool) M" where
  "update_agent_q a c =
     bindM (get_active_agent_version a) (\<lambda>active.
     case active of
       None \<Rightarrow> raiseM (ValueError (''Agent '' @ ag_id a @ '' has no active version''))
     | Some v \<Rightarrow>
         if same_config v c then returnM (a, v, False)
         else (let next = ag_active_version a + 1;
                   a' = a\<lparr>ag_active_version := next, ag_name := vc_name c,
                          ag_description := vc_description c, ag_metadata := vc_metadata c\<rparr>
               in bindM (save_agent a') (\<lambda>saved.
                  bindM (fresh_version (ag_workspace_id a) (ag_id a) next c) (\<lambda>nv.
                  returnM (saved, nv, True)))))"

definition archive_agent_q :: "agent_row \<Rightarrow> agent_row M" where
  "archive_agent_q a = bindM nowM (\<lambda>t. save_agent (a\<lparr>ag_archived_at := Some t\<rparr>))"

definition agent_versions_query :: "string \<Rightarrow> agent_version_row list M" where
  "agent_versions_query agent = bindM (workspace_id_or_default None) (\<lambda>ws.
     dbM (\<lambda>d. rev (sort_key av_version (filter (\<lambda>v. av_agent_id v = agent \<and> av_workspace_id v = ws)
       (db_versions d)))))"

section \<open>Environments\<close>

definition insert_environment :: "environment_row \<Rightarrow> unit M" where
  "insert_environment r = bindM (dbM (\<lambda>d. find_environment (en_id r) d \<noteq> None \<or>
       list_ex (\<lambda>x. en_workspace_id x = en_workspace_id r \<and> en_name x = en_name r)
         (db_environments d)))
     (\<lambda>bad. if bad then raiseM IntegrityError else update_dbM (add_environment r))"

definition create_environment_q ::
  "string \<Rightarrow> pdict \<Rightarrow> string \<Rightarrow> pdict \<Rightarrow> string option \<Rightarrow> environment_row M" where
  "create_environment_q name config description metadata ws_opt =
     bindM (new_id ''env'') (\<lambda>i. bindM (workspace_id_or_default ws_opt) (\<lambda>ws.
     bindM nowM (\<lambda>created. bindM nowM (\<lambda>updated.
     let r = \<lparr>en_id = i, en_workspace_id = ws, en_name = name, en_description = description,
              en_config = config, en_metadata = metadata, en_archived_at = None,
              en_deleted_at = None, en_created_at = created, en_updated_at = updated\<rparr>
     in seqM (insert_environment r) (returnM r)))))"

definition get_environment :: "string \<Rightarrow> string option \<Rightarrow> environment_row option M" where
  "get_environment i ws = bindM (workspace_id_or_default ws) (\<lambda>ws.
     bindM (dbM (\<lambda>d. filter (\<lambda>e. en_id e = i \<and> en_workspace_id e = ws) (db_environments d))) (\<lambda>rows.
     liftE (scalar_one_or_none rows)))"

definition list_environments_q :: "nat \<Rightarrow> bool \<Rightarrow> string option \<Rightarrow> environment_row list M" where
  "list_environments_q limit include_archived ws = bindM (workspace_id_or_default ws) (\<lambda>ws.
     dbM (\<lambda>d. limit_rows limit (newest_first en_created_at (\<lambda>_. [])
       (filter (\<lambda>e. en_deleted_at e = None \<and> en_workspace_id e = ws
         \<and> (include_archived \<or> en_archived_at e = None)) (db_environments d)))))"

definition update_environment_q :: "environment_row \<Rightarrow> string option \<Rightarrow> pdict option \<Rightarrow>
    string option \<Rightarrow> pdict option \<Rightarrow> environment_row M" where
  "update_environment_q e name config description metadata =
     save_environment (e\<lparr>en_name := given name (en_name e),
       en_description := given description (en_description e),
       en_config := given config (en_config e), en_metadata := given metadata (en_metadata e)\<rparr>)"

definition archive_environment_q :: "environment_row \<Rightarrow> environment_row M" where
  "archive_environment_q e = bindM nowM (\<lambda>t. save_environment (e\<lparr>en_archived_at := Some t\<rparr>))"

definition delete_environment_q :: "environment_row \<Rightarrow> unit M" where
  "delete_environment_q e = bindM nowM (\<lambda>t.
     bindM (save_environment (e\<lparr>en_deleted_at := Some t\<rparr>)) (\<lambda>_. returnM ()))"

section \<open>Sessions\<close>

definition insert_session :: "session_row \<Rightarrow> unit M" where
  "insert_session r = bindM (dbM (find_session (se_id r))) (\<lambda>old.
     if old \<noteq> None then raiseM IntegrityError else update_dbM (add_session r))"

definition create_session_q :: "agent_row \<Rightarrow> int \<Rightarrow> environment_row \<Rightarrow> string option \<Rightarrow> pdict \<Rightarrow>
    pv list \<Rightarrow> string list \<Rightarrow> string option \<Rightarrow> session_row M" where
  "create_session_q a agent_version environment title metadata resources vault_ids ws_opt =
     bindM (workspace_id_or_default
       (Some (case ws_opt of Some x \<Rightarrow> if x \<noteq> [] then x else ag_workspace_id a
                           | None \<Rightarrow> ag_workspace_id a))) (\<lambda>ws.
     bindM (new_id ''sess'') (\<lambda>i. bindM nowM (\<lambda>created. bindM nowM (\<lambda>updated.
     let r = \<lparr>se_id = i, se_workspace_id = ws, se_agent_id = ag_id a,
              se_agent_version = agent_version, se_environment_id = en_id environment,
              se_title = title, se_status = ''idle'',
              se_status_details = [(''resources'', PList resources),
                                   (''vault_ids'', PList (map PStr vault_ids))],
              se_stop_reason = PNone, se_run_state = PNone, se_sandbox_state = PNone,
              se_metadata = metadata, se_last_event_seq = 0, se_lock_version = 0,
              se_archived_at = None, se_deleted_at = None, se_created_at = created,
              se_updated_at = updated\<rparr>
     in seqM (insert_session r) (returnM r)))))"

definition get_session :: "string \<Rightarrow> string option \<Rightarrow> session_row option M" where
  "get_session i ws = bindM (case ws of Some x \<Rightarrow> returnM x | None \<Rightarrow> workspace_id_or_default None) (\<lambda>ws.
     bindM (dbM (\<lambda>d. filter (\<lambda>s. se_id s = i \<and> se_workspace_id s = ws) (db_sessions d))) (\<lambda>rows.
     liftE (scalar_one_or_none rows)))"

definition list_sessions_q :: "nat \<Rightarrow> bool \<Rightarrow> string option \<Rightarrow> session_row list M" where
  "list_sessions_q limit include_archived ws = bindM (workspace_id_or_default ws) (\<lambda>ws.
     dbM (\<lambda>d. limit_rows limit (newest_first se_created_at (\<lambda>_. [])
       (filter (\<lambda>s. se_deleted_at s = None \<and> se_workspace_id s = ws
         \<and> (include_archived \<or> se_archived_at s = None)) (db_sessions d)))))"

record session_patch =
  sp_title :: "string option"
  sp_metadata :: "pdict option"
  sp_status :: "string option"
  sp_status_details :: "pdict option"
  sp_stop_reason :: "pv option"
  sp_run_state :: "pv option"
  sp_sandbox_state :: "pv option"

definition session_patch0 :: session_patch where
  "session_patch0 = \<lparr>sp_title = None, sp_metadata = None, sp_status = None,
     sp_status_details = None, sp_stop_reason = None, sp_run_state = None,
     sp_sandbox_state = None\<rparr>"

definition patch_session :: "session_patch \<Rightarrow> session_row \<Rightarrow> session_row" where
  "patch_session p s = s\<lparr>
     se_title := given_opt (sp_title p) (se_title s),
     se_metadata := given (sp_metadata p) (se_metadata s),
     se_status := given (sp_status p) (se_status s),
     se_status_details := given (sp_status_details p) (se_status_details s),
     se_stop_reason := given (sp_stop_reason p) (se_stop_reason s),
     se_run_state := given (sp_run_state p) (se_run_state s),
     se_sandbox_state := given (sp_sandbox_state p) (se_sandbox_state s)\<rparr>"

definition update_session_q :: "session_row \<Rightarrow> session_patch \<Rightarrow> session_row M" where
  "update_session_q s p = save_session (patch_session p s)"

definition archive_session_q :: "session_row \<Rightarrow> session_row M" where
  "archive_session_q s = bindM nowM (\<lambda>t. save_session (s\<lparr>se_archived_at := Some t\<rparr>))"

definition delete_session_q :: "session_row \<Rightarrow> session_row M" where
  "delete_session_q s = bindM nowM (\<lambda>t.
     save_session (s\<lparr>se_deleted_at := Some t, se_status := ''terminated''\<rparr>))"

section \<open>Events\<close>

definition event_source :: "string \<Rightarrow> string" where
  "event_source event_type =
     (if CHR ''.'' \<in> set event_type then takeWhile (\<lambda>c. c \<noteq> CHR ''.'') event_type else ''system'')"

definition default_processed_at :: "string \<Rightarrow> pv M" where
  "default_processed_at event_type =
     (if event_source event_type \<in> {''user'', ''system''} then returnM PNone
      else bindM nowM (\<lambda>t. returnM (PStr (isoformat t))))"

definition normalize_payload :: "string \<Rightarrow> pdict \<Rightarrow> pdict M" where
  "normalize_payload event_type payload = bindM (default_processed_at event_type) (\<lambda>p.
     returnM (dset ''processed_at'' p (dsetdefault ''type'' (PStr event_type) payload)))"

definition insert_event :: "event_row \<Rightarrow> unit M" where
  "insert_event r = bindM (dbM (\<lambda>d. find_event (ev_id r) d \<noteq> None \<or>
       list_ex (\<lambda>x. ev_session_id x = ev_session_id r \<and> ev_seq x = ev_seq r) (db_events d)))
     (\<lambda>bad. if bad then raiseM IntegrityError else update_dbM (add_event r))"

text \<open>The session object the caller holds is changed too, so the changed row is returned with the event.\<close>

definition append_event :: "session_row \<Rightarrow> string \<Rightarrow> pdict \<Rightarrow> (session_row \<times> event_row) M" where
  "append_event s event_type payload =
     (let s1 = s\<lparr>se_last_event_seq := se_last_event_seq s + 1\<rparr> in
      bindM (new_id ''evt'') (\<lambda>i.
      bindM (normalize_payload event_type payload) (\<lambda>p.
      bindM (save_session s1) (\<lambda>s2.
      bindM nowM (\<lambda>created.
      let e = \<lparr>ev_id = i, ev_workspace_id = se_workspace_id s, ev_session_id = se_id s,
               ev_seq = se_last_event_seq s1, ev_type = event_type,
               ev_source = event_source event_type, ev_payload = p, ev_created_at = created\<rparr>
      in seqM (insert_event e) (returnM (s2, e)))))))"

definition session_events :: "string \<Rightarrow> string \<Rightarrow> int \<Rightarrow> nat \<Rightarrow> event_row list \<Rightarrow> event_row list" where
  "session_events i ws after_seq limit rows = limit_rows limit (sort_key ev_seq
     (filter (\<lambda>e. ev_session_id e = i \<and> ev_workspace_id e = ws \<and> after_seq < ev_seq e) rows))"

definition list_events :: "string \<Rightarrow> int \<Rightarrow> nat \<Rightarrow> string option \<Rightarrow> event_row list M" where
  "list_events i after_seq limit ws = bindM (workspace_id_or_default ws) (\<lambda>ws.
     dbM (\<lambda>d. session_events i ws after_seq limit (db_events d)))"

definition latest_seq :: "string \<Rightarrow> string \<Rightarrow> event_row list \<Rightarrow> int" where
  "latest_seq i ws rows =
     (case rev (sort_key ev_seq (filter (\<lambda>e. ev_session_id e = i \<and> ev_workspace_id e = ws) rows)) of
        [] \<Rightarrow> 0 | e # _ \<Rightarrow> ev_seq e)"

definition get_latest_event_seq :: "string \<Rightarrow> string option \<Rightarrow> int M" where
  "get_latest_event_seq i ws = bindM (workspace_id_or_default ws) (\<lambda>ws.
     dbM (\<lambda>d. latest_seq i ws (db_events d)))"

section \<open>API keys\<close>

text \<open>
  \<open>sha256_hex\<close> stands for \<^theory_text>\<open>hashlib.sha256(..).hexdigest()\<close>, \<open>token\<close> for what
  \<^theory_text>\<open>secrets.token_urlsafe\<close> drew.
\<close>

definition generate_api_key :: "string \<Rightarrow> string" where
  "generate_api_key token = ''oma_'' @ token"

definition hash_api_key :: "(string \<Rightarrow> string) \<Rightarrow> string \<Rightarrow> string" where
  "hash_api_key sha256_hex token = sha256_hex (utf8_encode token)"

definition insert_api_key :: "api_key_row \<Rightarrow> unit M" where
  "insert_api_key r = bindM (dbM (\<lambda>d. find_api_key (ak_id r) d \<noteq> None \<or>
       list_ex (\<lambda>x. ak_key_hash x = ak_key_hash r) (db_api_keys d)))
     (\<lambda>bad. if bad then raiseM IntegrityError else update_dbM (add_api_key r))"

definition create_api_key ::
  "(string \<Rightarrow> string) \<Rightarrow> string \<Rightarrow> string \<Rightarrow> string option \<Rightarrow> string option \<Rightarrow> pdict \<Rightarrow> (api_key_row \<times> string) M" where
  "create_api_key sha256_hex fresh name ws_opt token metadata =
     (let plaintext = (case token of Some t \<Rightarrow> if t \<noteq> [] then t else generate_api_key fresh
                                   | None \<Rightarrow> generate_api_key fresh) in
      bindM (new_id ''key'') (\<lambda>i. bindM (workspace_id_or_default ws_opt) (\<lambda>ws.
      bindM nowM (\<lambda>created. bindM nowM (\<lambda>updated.
      let r = \<lparr>ak_id = i, ak_workspace_id = ws, ak_name = name,
               ak_key_hash = hash_api_key sha256_hex plaintext, ak_prefix = take 12 plaintext,
               ak_metadata = metadata, ak_last_used_at = None, ak_archived_at = None,
               ak_created_at = created, ak_updated_at = updated\<rparr>
      in seqM (insert_api_key r) (returnM (r, plaintext)))))))"

definition get_api_key_by_token ::
  "(string \<Rightarrow> string) \<Rightarrow> string \<Rightarrow> bool \<Rightarrow> api_key_row option M" where
  "get_api_key_by_token sha256_hex token include_archived =
     bindM (dbM (\<lambda>d. filter (\<lambda>k. ak_key_hash k = hash_api_key sha256_hex token
         \<and> (include_archived \<or> ak_archived_at k = None)) (db_api_keys d))) (\<lambda>rows.
     liftE (scalar_one_or_none rows))"

definition touch_api_key :: "api_key_row \<Rightarrow> api_key_row M" where
  "touch_api_key k = bindM nowM (\<lambda>t. save_api_key (k\<lparr>ak_last_used_at := Some t\<rparr>))"

definition archive_api_key :: "api_key_row \<Rightarrow> api_key_row M" where
  "archive_api_key k = bindM nowM (\<lambda>t. save_api_key (k\<lparr>ak_archived_at := Some t\<rparr>))"

end
