(* ===== verification/SessionState.thy ===== *)
theory SessionState
  imports PyVal
begin

text \<open>
  \<open>app/session_state.py\<close> (which statuses block, run, end; what a stop reason waits for) and
  \<open>app/event_validation.py\<close> (the shape of a batch of events, the outcome event). The status graph
  the rest of the program must follow is \<open>status_step\<close>, and \<open>batch_spec\<close> is the batch rule as a
  property of the list.
\<close>

definition SESSION_IDLE :: string where "SESSION_IDLE = ''idle''"
definition SESSION_RUNNING :: string where "SESSION_RUNNING = ''running''"
definition SESSION_RESCHEDULING :: string where "SESSION_RESCHEDULING = ''rescheduling''"
definition SESSION_TERMINATED :: string where "SESSION_TERMINATED = ''terminated''"

lemmas status_defs = SESSION_IDLE_def SESSION_RUNNING_def SESSION_RESCHEDULING_def
  SESSION_TERMINATED_def

definition ACTIVE_STATUSES :: "string list" where
  "ACTIVE_STATUSES = [SESSION_RUNNING, SESSION_RESCHEDULING]"

definition RUNNABLE_STATUSES :: "string list" where
  "RUNNABLE_STATUSES = [SESSION_IDLE, SESSION_RESCHEDULING]"

definition USER_EVENTS_THAT_START_WORK :: "string list" where
  "USER_EVENTS_THAT_START_WORK = [''user.message'', ''user.define_outcome'']"

definition ACTION_RESULT_EVENTS :: "string list" where
  "ACTION_RESULT_EVENTS = [''user.custom_tool_result'', ''user.tool_confirmation'', ''user.tool_result'']"

definition stop_reason_type :: "pv \<Rightarrow> string option" where
  "stop_reason_type stop_reason = (case stop_reason of
      PDict d \<Rightarrow> (let v = dget ''type'' d in if v = PNone then None else Some (py_str v))
    | _ \<Rightarrow> None)"

definition is_waiting_for_action :: "pv \<Rightarrow> bool" where
  "is_waiting_for_action stop_reason = (stop_reason_type stop_reason = Some ''requires_action'')"

definition pending_action_ids :: "pv \<Rightarrow> string list" where
  "pending_action_ids stop_reason =
     (if \<not> is_waiting_for_action stop_reason then []
      else (case stop_reason of
          PDict d \<Rightarrow> (case dget ''event_ids'' d of
              PList raw_ids \<Rightarrow> remdups (map py_str (filter (\<lambda>x. x \<noteq> PNone) raw_ids))
            | _ \<Rightarrow> [])
        | _ \<Rightarrow> []))"

definition blocks_mutation :: "string \<Rightarrow> bool" where
  "blocks_mutation status = (status \<in> set ACTIVE_STATUSES)"

definition can_start_work :: "string \<Rightarrow> pv \<Rightarrow> bool" where
  "can_start_work status stop_reason =
     (status \<in> set RUNNABLE_STATUSES \<and> \<not> is_waiting_for_action stop_reason)"

definition starts_work :: "string \<Rightarrow> bool" where
  "starts_work event_type = (event_type \<in> set USER_EVENTS_THAT_START_WORK)"

definition is_action_result :: "string \<Rightarrow> bool" where
  "is_action_result event_type = (event_type \<in> set ACTION_RESULT_EVENTS)"

lemma blocks_mutation_iff: "blocks_mutation s \<longleftrightarrow> s = ''running'' \<or> s = ''rescheduling''"
  by (simp add: blocks_mutation_def ACTIVE_STATUSES_def status_defs)

lemma can_start_work_iff:
  "can_start_work s r \<longleftrightarrow> (s = ''idle'' \<or> s = ''rescheduling'') \<and> \<not> is_waiting_for_action r"
  by (simp add: can_start_work_def RUNNABLE_STATUSES_def status_defs)

lemma pending_waiting: "pending_action_ids r \<noteq> [] \<Longrightarrow> is_waiting_for_action r"
  by (auto simp: pending_action_ids_def split: if_splits)

lemma waiting_simps [simp]:
  "\<not> is_waiting_for_action PNone"
  "is_waiting_for_action (PDict ((''type'', PStr t) # d)) \<longleftrightarrow> t = ''requires_action''"
  by (simp_all add: is_waiting_for_action_def stop_reason_type_def Let_def)

text \<open>The terminated status is final: it neither starts work nor blocks a mutation.\<close>

lemma terminated_final: "\<not> can_start_work SESSION_TERMINATED r" "\<not> blocks_mutation SESSION_TERMINATED"
  by (simp_all add: can_start_work_iff blocks_mutation_iff status_defs)

text \<open>The moves between statuses the program is meant to make.\<close>

definition SESSION_STATUSES :: "string list" where
  "SESSION_STATUSES = [''idle'', ''running'', ''rescheduling'', ''terminated'']"

definition status_step :: "string \<Rightarrow> string \<Rightarrow> bool" where
  "status_step a b = (a = b \<or> b = ''terminated'' \<or> (a, b) \<in>
     {(''idle'', ''running''), (''rescheduling'', ''running''), (''running'', ''idle''),
      (''running'', ''rescheduling''), (''rescheduling'', ''idle'')})"

section \<open>Batches of events\<close>

definition SYSTEM_MESSAGE_PREDECESSORS :: "string list" where
  "SYSTEM_MESSAGE_PREDECESSORS = [''user.custom_tool_result'', ''user.message'', ''user.tool_result'']"

definition MAX_OUTCOME_RUBRIC_TEXT_CHARS :: nat where "MAX_OUTCOME_RUBRIC_TEXT_CHARS = 262144"
definition MAX_OUTCOME_ITERATIONS :: int where "MAX_OUTCOME_ITERATIONS = 20"

definition validate_system_message_batch :: "string list \<Rightarrow> unit res" where
  "validate_system_message_batch event_types =
     (let system_indexes = filter (\<lambda>i. event_types ! i = ''system.message'') [0..<length event_types] in
      case system_indexes of
        [] \<Rightarrow> Inr ()
      | system_index # more \<Rightarrow>
          if more \<noteq> [] then Inl (HTTPException 422 ''At most one system.message event is allowed per request'')
          else if system_index \<noteq> length event_types - 1
            then Inl (HTTPException 422 ''system.message must be the final event in the request'')
          else if system_index = 0
              \<or> event_types ! (system_index - 1) \<notin> set SYSTEM_MESSAGE_PREDECESSORS
            then Inl (HTTPException 422 ''system.message must immediately follow user.message, user.tool_result, or user.custom_tool_result'')
          else Inr ())"

definition batch_spec :: "string list \<Rightarrow> bool" where
  "batch_spec types = (''system.message'' \<notin> set types \<or>
     (\<exists>pre p. types = pre @ [p, ''system.message''] \<and> ''system.message'' \<notin> set pre
       \<and> p \<in> set SYSTEM_MESSAGE_PREDECESSORS))"

lemma system_indexes_Nil:
  "filter (\<lambda>i. ts ! i = x) [0..<length ts] = [] \<longleftrightarrow> x \<notin> set ts"
  by (auto simp: filter_empty_conv in_set_conv_nth)

lemma batch_accepts_spec:
  "validate_system_message_batch types = Inr () \<longleftrightarrow> batch_spec types"
proof (cases "''system.message'' \<in> set types")
  case False
  then have "filter (\<lambda>i. types ! i = ''system.message'') [0..<length types] = []"
    by (simp only: system_indexes_Nil) simp
  then show ?thesis using False by (simp add: validate_system_message_batch_def batch_spec_def)
next
  case True
  let ?S = "''system.message''"
  obtain pre post where types: "types = pre @ ?S # post" "?S \<notin> set pre"
    using True by (meson split_list_first)
  let ?n = "length pre"
  have ix: "filter (\<lambda>i. types ! i = ?S) [0..<length types]
      = ?n # filter (\<lambda>i. types ! i = ?S) [Suc ?n..<length types]"
  proof -
    have "[0..<length types] = [0..<?n] @ ?n # [Suc ?n..<length types]"
      using upt_conv_Cons [of ?n "length types"] upt_add_eq_append [of 0 ?n "length types - ?n"]
      by (simp add: types)
    moreover have "filter (\<lambda>i. types ! i = ?S) [0..<?n] = []"
      using types by (auto simp: filter_empty_conv nth_append in_set_conv_nth)
    ultimately show ?thesis by (simp add: types)
  qed
  show ?thesis
  proof (cases "post = []")
    case post: True
    then have "validate_system_message_batch types = Inr () \<longleftrightarrow>
        pre \<noteq> [] \<and> last pre \<in> set SYSTEM_MESSAGE_PREDECESSORS"
      unfolding validate_system_message_batch_def Let_def ix
      by (auto simp: types nth_append last_conv_nth)
    moreover have "batch_spec types \<longleftrightarrow> pre \<noteq> [] \<and> last pre \<in> set SYSTEM_MESSAGE_PREDECESSORS"
    proof
      assume "batch_spec types"
      then show "pre \<noteq> [] \<and> last pre \<in> set SYSTEM_MESSAGE_PREDECESSORS"
        using types post by (auto simp: batch_spec_def)
    next
      assume p: "pre \<noteq> [] \<and> last pre \<in> set SYSTEM_MESSAGE_PREDECESSORS"
      then have "types = butlast pre @ [last pre, ?S]" "?S \<notin> set (butlast pre)"
        using types post by (auto dest: in_set_butlastD)
      with p show "batch_spec types" unfolding batch_spec_def by blast
    qed
    ultimately show ?thesis by simp
  next
    case False
    have "validate_system_message_batch types \<noteq> Inr ()"
      unfolding validate_system_message_batch_def Let_def ix
      using False by (auto simp: types split: list.split)
    moreover have "\<not> batch_spec types"
      using types False by (auto simp: batch_spec_def append_eq_append_conv2 Cons_eq_append_conv
        append_eq_Cons_conv SYSTEM_MESSAGE_PREDECESSORS_def)
    ultimately show ?thesis by simp
  qed
qed

text \<open>
  \<open>validate_user_define_outcome_event\<close>. The \<^theory_text>\<open>except\<close> clause names \<open>TypeError\<close> and \<open>ValueError\<close>
  only, so \<^theory_text>\<open>int(float("inf"))\<close> escapes as an \<open>OverflowError\<close>.
\<close>

definition outcome_iterations :: "pv \<Rightarrow> unit res" where
  "outcome_iterations v =
     (if v = PNone then Inr ()
      else (case py_int v of
          Inl TypeError \<Rightarrow> Inl (HTTPException 422 ''user.define_outcome max_iterations must be an integer'')
        | Inl (ValueError _) \<Rightarrow> Inl (HTTPException 422 ''user.define_outcome max_iterations must be an integer'')
        | Inl e \<Rightarrow> Inl e
        | Inr n \<Rightarrow> raise_if (n < 1 \<or> MAX_OUTCOME_ITERATIONS < n)
            (HTTPException 422 ''user.define_outcome max_iterations must be between 1 and 20'')))"

definition outcome_rubric :: "pv \<Rightarrow> unit res" where
  "outcome_rubric rubric = (case rubric of
     PDict r \<Rightarrow>
       (let rubric_type = dget ''type'' r in
        if rubric_type = PStr ''text'' then
          (case dget ''content'' r of
             PStr content \<Rightarrow>
               if content = [] then Inl (HTTPException 422 ''user.define_outcome rubric.content must be a non-empty string'')
               else raise_if (MAX_OUTCOME_RUBRIC_TEXT_CHARS < length content)
                 (HTTPException 422 ''user.define_outcome rubric.content is too long'')
           | _ \<Rightarrow> Inl (HTTPException 422 ''user.define_outcome rubric.content must be a non-empty string''))
        else if rubric_type = PStr ''file'' then
          (case dget ''file_id'' r of
             PStr file_id \<Rightarrow> raise_if (file_id = [])
               (HTTPException 422 ''user.define_outcome rubric.file_id must be a non-empty string'')
           | _ \<Rightarrow> Inl (HTTPException 422 ''user.define_outcome rubric.file_id must be a non-empty string''))
        else Inl (HTTPException 422 ''user.define_outcome rubric.type must be \"text\" or \"file\"''))
   | _ \<Rightarrow> Inl (HTTPException 422 ''user.define_outcome requires a rubric object''))"

definition validate_user_define_outcome_event :: "pdict \<Rightarrow> unit res" where
  "validate_user_define_outcome_event payload =
     (let description = por (dget ''description'' payload) (dget ''objective'' payload) in
      bindE (raise_if (\<not> (case description of PStr s \<Rightarrow> py_strip s \<noteq> [] | _ \<Rightarrow> False))
        (HTTPException 422 ''user.define_outcome requires a non-empty description'')) (\<lambda>_.
      bindE (outcome_rubric (dget ''rubric'' payload)) (\<lambda>_.
      outcome_iterations (dget ''max_iterations'' payload))))"

text \<open>What an accepted outcome event has.\<close>

lemma outcome_iterations_ok:
  "outcome_iterations v = Inr u \<Longrightarrow> v = PNone \<or> (\<exists>n. py_int v = Inr n \<and> 1 \<le> n \<and> n \<le> 20)"
  by (auto simp: outcome_iterations_def MAX_OUTCOME_ITERATIONS_def not_le not_less
      split: if_splits sum.splits exc.splits)

lemma outcome_event_ok:
  "validate_user_define_outcome_event p = Inr u \<Longrightarrow>
   (\<exists>s. por (dget ''description'' p) (dget ''objective'' p) = PStr s \<and> py_strip s \<noteq> []) \<and>
   (\<exists>r. dget ''rubric'' p = PDict r) \<and>
   (dget ''max_iterations'' p = PNone \<or>
     (\<exists>n. py_int (dget ''max_iterations'' p) = Inr n \<and> 1 \<le> n \<and> n \<le> 20))"
  by (auto simp: validate_user_define_outcome_event_def Let_def res_simps outcome_rubric_def
      dest!: outcome_iterations_ok split: pv.splits)

section \<open>Properties\<close>

text \<open>
  A batch of events is accepted by the system message rule exactly when it has no system message,
  or has one, as its last event, right after a user message or a tool result.
\<close>

theorem system_batch_rule:
  "validate_system_message_batch types = Inr () \<longleftrightarrow> batch_spec types"
  by (rule batch_accepts_spec)

text \<open>
  An accepted \<open>user.define_outcome\<close> has a description that is not blank, a rubric object, and an
  iteration bound, if any, from 1 to 20.
\<close>

theorem outcome_event_bounds:
  assumes "validate_user_define_outcome_event p = Inr u"
  shows "(\<exists>s. por (dget ''description'' p) (dget ''objective'' p) = PStr s \<and> py_strip s \<noteq> []) \<and>
    is_dict (dget ''rubric'' p) \<and>
    (dget ''max_iterations'' p = PNone \<or>
      (\<exists>n. py_int (dget ''max_iterations'' p) = Inr n \<and> 1 \<le> n \<and> n \<le> 20))"
  using outcome_event_ok [OF assms] by auto

theorem outcome_event_bounds_witness:
  "let p = [(''objective'', PStr ''ship it''), (''max_iterations'', PInt 3),
            (''rubric'', PDict [(''type'', PStr ''text''), (''content'', PStr ''tests pass'')])] in
   (\<exists>s. por (dget ''description'' p) (dget ''objective'' p) = PStr s \<and> py_strip s \<noteq> []) \<and>
   is_dict (dget ''rubric'' p) \<and>
   (dget ''max_iterations'' p = PNone \<or>
     (\<exists>n. py_int (dget ''max_iterations'' p) = Inr n \<and> 1 \<le> n \<and> n \<le> 20))"
proof -
  have "py_strip ''ship it'' \<noteq> []" by code_simp
  then show ?thesis
    unfolding Let_def
    by (intro outcome_event_bounds [where u = "()"])
      (simp add: validate_user_define_outcome_event_def outcome_rubric_def outcome_iterations_def
        MAX_OUTCOME_RUBRIC_TEXT_CHARS_def MAX_OUTCOME_ITERATIONS_def)
qed

text \<open>
  An iteration bound of positive or negative infinity, which \<^theory_text>\<open>json\<close> reads, is not refused as
  invalid: \<open>int\<close> raises \<open>OverflowError\<close>, which the validator does not catch.
\<close>

theorem outcome_infinity_escapes:
  "validate_user_define_outcome_event
     [(''description'', PStr ''d''), (''max_iterations'', PFloat FPosInf),
      (''rubric'', PDict [(''type'', PStr ''file''), (''file_id'', PStr ''f'')])] = Inl OverflowError"
  by code_simp

end
