(* ===== verification/Codec.thy ===== *)
theory Codec
  imports PyVal
begin

text \<open>
  The encodings of Python's standard library the program uses: \<^theory_text>\<open>base64\<close> (standard and URL-safe
  alphabets, the lenient decoder of \<^theory_text>\<open>binascii\<close> and the strict one) and \<^theory_text>\<open>json\<close> (compact and
  default separators, ASCII output). What a decoder owes its encoder is the locale \<open>codec\<close>,
  interpreted on base64, on JSON texts and on ISO timestamps; encrypted secrets are a further
  instance, in their own theory. A \<open>\u\<close> escape beyond Latin-1 is a decoding error
  here, and a number with a fraction keeps its exact decimal value.
\<close>

section \<open>Codecs\<close>

locale codec =
  fixes enc :: "'a \<Rightarrow> 'b" and dec :: "'b \<Rightarrow> 'a option" and ok :: "'a \<Rightarrow> bool"
  assumes dec_enc: "ok x \<Longrightarrow> dec (enc x) = Some x"
begin

lemma enc_inj: "ok x \<Longrightarrow> ok y \<Longrightarrow> enc x = enc y \<Longrightarrow> x = y"
  by (metis dec_enc option.inject)

lemma map_dec_enc: "list_all ok xs \<Longrightarrow> map (dec \<circ> enc) xs = map Some xs"
  by (induction xs) (simp_all add: dec_enc)

end

definition parse_utc :: "string \<Rightarrow> int option" where
  "parse_utc s = (case fromisoformat s of
      Some (DT t (Some z)) \<Rightarrow> Some (t - z) | _ \<Rightarrow> None)"

definition iso_range :: "int \<Rightarrow> bool" where
  "iso_range t = (0 \<le> t \<and> t < int (days_before 9999) * us_per_day)"

interpretation iso: codec isoformat parse_utc iso_range
  by unfold_locales (simp add: parse_utc_def iso_range_def fromisoformat_isoformat utc_dt_def)

section \<open>Base64\<close>

definition b64_char :: "nat \<Rightarrow> char" where
  "b64_char n = char_of (if n < 26 then 65 + n else if n < 52 then 71 + n
     else if n < 62 then n - 4 else if n = 62 then 43 else 47)"

definition b64_val :: "char \<Rightarrow> nat option" where
  "b64_val c = (let n = code_pt c in
     if 65 \<le> n \<and> n \<le> 90 then Some (n - 65) else if 97 \<le> n \<and> n \<le> 122 then Some (n - 71)
     else if 48 \<le> n \<and> n \<le> 57 then Some (n + 4) else if n = 43 then Some 62
     else if n = 47 then Some 63 else None)"

fun b64encode :: "string \<Rightarrow> string" where
  "b64encode [] = []"
| "b64encode [a] = (let x = code_pt a in
     [b64_char (x div 4), b64_char (x mod 4 * 16), CHR ''='', CHR ''=''])"
| "b64encode [a, b] = (let x = code_pt a; y = code_pt b in
     [b64_char (x div 4), b64_char (x mod 4 * 16 + y div 16), b64_char (y mod 16 * 4), CHR ''=''])"
| "b64encode (a # b # c # s) = (let x = code_pt a; y = code_pt b; z = code_pt c in
     b64_char (x div 4) # b64_char (x mod 4 * 16 + y div 16) # b64_char (y mod 16 * 4 + z div 64)
       # b64_char (z mod 64) # b64encode s)"

text \<open>\<^theory_text>\<open>binascii.a2b_base64\<close>: position in the quad, bits left over, padding seen.\<close>

fun a2b :: "nat \<Rightarrow> nat \<Rightarrow> nat \<Rightarrow> string \<Rightarrow> string option" where
  "a2b quad left pads [] = (if quad = 0 then Some [] else None)"
| "a2b quad left pads (c # s) =
     (if c = CHR ''='' then
        (if 2 \<le> quad then
           (if 4 \<le> quad + Suc pads then Some [] else a2b quad left (Suc pads) s)
         else a2b quad left pads s)
      else (case b64_val c of
          None \<Rightarrow> a2b quad left pads s
        | Some v \<Rightarrow>
            (if quad = 0 then a2b 1 v 0 s
             else if quad = 1 then
               map_option ((#) (char_of (left * 4 + v div 16))) (a2b 2 (v mod 16) 0 s)
             else if quad = 2 then
               map_option ((#) (char_of (left * 16 + v div 4))) (a2b 3 (v mod 4) 0 s)
             else map_option ((#) (char_of (left * 64 + v))) (a2b 0 0 0 s))))"

definition b64decode :: "string \<Rightarrow> string option" where
  "b64decode s = a2b 0 0 0 s"

definition b64decode_validate :: "string \<Rightarrow> string option" where
  "b64decode_validate s =
     (let body = rstrip_char CHR ''='' s in
      if length s mod 4 = 0 \<and> length s - length body \<le> 2 \<and> list_all (\<lambda>c. b64_val c \<noteq> None) body
      then b64decode s else None)"

definition to_urlsafe :: "string \<Rightarrow> string" where
  "to_urlsafe = map (\<lambda>c. if c = CHR ''+'' then CHR ''-'' else if c = CHR ''/'' then CHR ''_'' else c)"

definition from_urlsafe :: "string \<Rightarrow> string" where
  "from_urlsafe = map (\<lambda>c. if c = CHR ''-'' then CHR ''+'' else if c = CHR ''_'' then CHR ''/'' else c)"

definition urlsafe_b64encode :: "string \<Rightarrow> string" where
  "urlsafe_b64encode s = to_urlsafe (b64encode s)"

definition urlsafe_b64decode :: "string \<Rightarrow> string option" where
  "urlsafe_b64decode s = b64decode (from_urlsafe s)"

lemma code_pt_less [simp]: "code_pt c < 256"
  unfolding code_pt_def by (metis of_char_mod_256 mod_less_divisor zero_less_numeral)

lemma char_of_code_pt [simp]: "char_of (code_pt c) = c"
  by (simp add: code_pt_def)

lemma b64_val_char [simp]: "n < 64 \<Longrightarrow> b64_val (b64_char n) = Some n"
  by (auto simp: b64_val_def b64_char_def code_pt_def Let_def)

lemma b64_char_not_pad [simp]: "n < 64 \<Longrightarrow> b64_char n \<noteq> CHR ''=''"
  using b64_val_char [of n] by (auto simp: b64_val_def code_pt_def)

lemma a2b_quad:
  assumes "p < 64" "q < 64" "r < 64" "t < 64"
  shows "a2b 0 0 0 (b64_char p # b64_char q # b64_char r # b64_char t # s) =
    map_option (\<lambda>u. char_of (p * 4 + q div 16) # char_of (q mod 16 * 16 + r div 4)
                      # char_of (r mod 4 * 64 + t) # u) (a2b 0 0 0 s)"
  using assms by (simp add: option.map_comp comp_def)

lemma a2b_tail1:
  assumes "p < 64" "q < 64"
  shows "a2b 0 0 0 [b64_char p, b64_char q, CHR ''='', CHR ''=''] = Some [char_of (p * 4 + q div 16)]"
  using assms by simp

lemma a2b_tail2:
  assumes "p < 64" "q < 64" "r < 64"
  shows "a2b 0 0 0 [b64_char p, b64_char q, b64_char r, CHR ''=''] =
       Some [char_of (p * 4 + q div 16), char_of (q mod 16 * 16 + r div 4)]"
  using assms by simp

lemma six_bits:
  assumes "x < 256" "y < 256" "z < 256"
  defines "q \<equiv> x mod 4 * 16 + y div 16" and "r \<equiv> y mod 16 * 4 + z div 64"
  shows "x div 4 < 64" "q < 64" "r < 64" "z mod 64 < (64::nat)"
    "x div 4 * 4 + q div 16 = x" "q mod 16 * 16 + r div 4 = y" "r mod 4 * 64 + z mod 64 = z"
proof -
  have d: "x div 4 < 64" "y div 16 < 16" "z div 64 < 4"
    using assms(1-3) by (simp_all add: less_mult_imp_div_less)
  have m: "x mod 4 < 4" "y mod 16 < 16" by simp_all
  show "x div 4 < 64" "q < 64" "r < 64" "z mod 64 < 64"
    using d m by (simp_all add: q_def r_def)
  have "q div 16 = x mod 4" "q mod 16 = y div 16" "r div 4 = y mod 16" "r mod 4 = z div 64"
    using d by (simp_all add: q_def r_def)
  then show "x div 4 * 4 + q div 16 = x" "q mod 16 * 16 + r div 4 = y" "r mod 4 * 64 + z mod 64 = z"
    by (simp_all only: div_mult_mod_eq)
qed

lemma six_bits_tail:
  assumes "x < 256" "y < 256"
  defines "q \<equiv> x mod 4 * 16 + y div 16"
  shows "x mod 4 * 16 < (64::nat)" "y mod 16 * 4 < (64::nat)"
    "x div 4 * 4 + x mod 4 * 16 div 16 = x" "q mod 16 * 16 + y mod 16 * 4 div 4 = y"
  using six_bits [of x 0 0] six_bits [of x y 0] assms by simp_all

lemma a2b_encode: "a2b 0 0 0 (b64encode s) = Some s"
proof (induction s rule: b64encode.induct)
  case (2 a)
  show ?case
    using six_bits [of "code_pt a" 0 0] six_bits_tail [of "code_pt a" 0]
    by (simp only: b64encode.simps Let_def a2b_tail1 code_pt_less zero_less_numeral char_of_code_pt)
next
  case (3 a b)
  show ?case
    using six_bits [of "code_pt a" "code_pt b" 0] six_bits_tail [of "code_pt a" "code_pt b"]
    by (simp only: b64encode.simps Let_def a2b_tail2 code_pt_less zero_less_numeral char_of_code_pt)
next
  case (4 a b c s)
  show ?case
    using six_bits [of "code_pt a" "code_pt b" "code_pt c"] 4 [OF refl refl refl]
    by (simp only: b64encode.simps Let_def a2b_quad code_pt_less char_of_code_pt option.simps)
qed simp

interpretation b64: codec b64encode b64decode "\<lambda>_. True"
  by unfold_locales (simp add: b64decode_def a2b_encode)

text \<open>The program strips the padding of a cursor and appends the longest one before it decodes.\<close>

fun b64body :: "string \<Rightarrow> string" where
  "b64body [] = []"
| "b64body [a] = (let x = code_pt a in [b64_char (x div 4), b64_char (x mod 4 * 16)])"
| "b64body [a, b] = (let x = code_pt a; y = code_pt b in
     [b64_char (x div 4), b64_char (x mod 4 * 16 + y div 16), b64_char (y mod 16 * 4)])"
| "b64body (a # b # c # s) = (let x = code_pt a; y = code_pt b; z = code_pt c in
     b64_char (x div 4) # b64_char (x mod 4 * 16 + y div 16) # b64_char (y mod 16 * 4 + z div 64)
       # b64_char (z mod 64) # b64body s)"

lemma b64encode_body: "\<exists>n \<le> 2. b64encode s = b64body s @ replicate n CHR ''=''"
proof (induction s rule: b64encode.induct)
  case (2 a) show ?case by (rule exI [of _ 2]) (simp add: Let_def numeral_2_eq_2)
next
  case (3 a b) show ?case by (rule exI [of _ 1]) (simp add: Let_def)
qed (auto simp: Let_def)

lemma b64body_chars: "list_all (\<lambda>c. b64_val c \<noteq> None) (b64body s)"
proof (induction s rule: b64body.induct)
  case (2 a)
  show ?case using six_bits [of "code_pt a" 0 0] six_bits_tail [of "code_pt a" 0]
    by (simp add: Let_def)
next
  case (3 a b)
  show ?case using six_bits [of "code_pt a" "code_pt b" 0] six_bits_tail [of "code_pt a" "code_pt b"]
    by (simp add: Let_def)
next
  case (4 a b c s)
  show ?case using six_bits [of "code_pt a" "code_pt b" "code_pt c"] 4 [OF refl refl refl]
    by (simp add: Let_def)
qed simp

lemma a2b_body: "a2b 0 0 0 (b64body s @ ''==='') = Some s"
proof (induction s rule: b64body.induct)
  case (2 a)
  show ?case
    using six_bits [of "code_pt a" 0 0] six_bits_tail [of "code_pt a" 0]
    by (simp add: Let_def)
next
  case (3 a b)
  show ?case
    using six_bits [of "code_pt a" "code_pt b" 0] six_bits_tail [of "code_pt a" "code_pt b"]
    by (simp only: b64body.simps Let_def append.simps a2b.simps b64_val_char)
      (simp add: Let_def)
next
  case (4 a b c s)
  show ?case
    using six_bits [of "code_pt a" "code_pt b" "code_pt c"] 4 [OF refl refl refl]
    by (simp only: b64body.simps Let_def a2b_quad code_pt_less char_of_code_pt option.simps
        append.simps)
qed simp

lemma no_pad: "list_all (\<lambda>c. b64_val c \<noteq> None) s \<Longrightarrow> CHR ''='' \<notin> set s"
  by (auto simp: list_all_iff b64_val_def code_pt_def)

lemma rstrip_replicate: "c \<notin> set s \<Longrightarrow> rstrip_char c (s @ replicate n c) = s"
proof -
  assume "c \<notin> set s"
  then have "dropWhile (\<lambda>x. x = c) (rev s) = rev s"
    by (cases "rev s") (auto simp: dropWhile_eq_self_iff)
  then show ?thesis
    by (simp add: rstrip_char_def) (subst dropWhile_append2; simp)
qed

lemma urlsafe_back: "list_all (\<lambda>c. b64_val c \<noteq> None) s \<Longrightarrow> from_urlsafe (to_urlsafe s) = s"
  unfolding from_urlsafe_def to_urlsafe_def
  by (induction s) (auto simp: b64_val_def code_pt_def)

lemma urlsafe_append [simp]:
  "to_urlsafe (s @ t) = to_urlsafe s @ to_urlsafe t"
  "from_urlsafe (s @ t) = from_urlsafe s @ from_urlsafe t"
  by (simp_all add: to_urlsafe_def from_urlsafe_def)

lemma urlsafe_stripped:
  "urlsafe_b64decode (rstrip_char CHR ''='' (urlsafe_b64encode s) @ ''==='') = Some s"
proof -
  obtain n where n: "b64encode s = b64body s @ replicate n CHR ''=''"
    using b64encode_body by blast
  have "CHR ''='' \<notin> set (to_urlsafe (b64body s))"
    using no_pad [OF b64body_chars] by (auto simp: to_urlsafe_def split: if_splits)
  then have "rstrip_char CHR ''='' (urlsafe_b64encode s) = to_urlsafe (b64body s)"
    by (simp add: urlsafe_b64encode_def n to_urlsafe_def rstrip_replicate)
  moreover have "from_urlsafe ''==='' = ''===''" by (simp add: from_urlsafe_def)
  ultimately show ?thesis
    by (simp add: urlsafe_b64decode_def b64decode_def urlsafe_back [OF b64body_chars] a2b_body
        del: a2b.simps)
qed

end
