(* ===== verification/WorkQueue.thy ===== *)
theory WorkQueue
  imports Queries SessionState Codec
begin

text \<open>
  \<open>app/runtime/work_queue.py\<close> and the polling part of \<open>app/worker.py\<close>: the queue of session runs, its
  leases, and the execution of one work item. The turn a work item runs is the argument \<open>run\<close>
  (\<open>run_session_turn\<close> of \<^theory_text>\<open>Runner\<close>), between two transactions of its own. What the callers
  rely on is the contract \<open>lease_queue\<close>: an item whose lease has not expired is not handed out again,
  a leased one carries its owner, and no one else passes the owner check.
\<close>

definition LEASED_WORK_STATUSES :: "string list" where
  "LEASED_WORK_STATUSES = [''leased'', ''running'']"

text \<open>\<^theory_text>\<open>now + timedelta(seconds=n)\<close>, out of range beyond the years 1 to 9999.\<close>

definition add_seconds :: "int \<Rightarrow> int \<Rightarrow> int res" where
  "add_seconds t n = (let u = t + n * 1000000 in
     if 0 \<le> u \<and> u < int (days_before 9999) * us_per_day then Inr u else Inl OverflowError)"

definition utcnow_iso :: "string M" where
  "utcnow_iso = bindM nowM (\<lambda>t. returnM (isoformat t))"

definition enqueue_session_run :: "session_row \<Rightarrow> string \<Rightarrow> pdict \<Rightarrow> resource_row M" where
  "enqueue_session_run s trigger metadata =
     bindM utcnow_iso (\<lambda>queued_at.
     create_resource ''environment_work'' (resource_args0\<lparr>
       ra_parent_id := Some (se_environment_id s), ra_name := Some (''session:'' @ se_id s),
       ra_status := ''queued'',
       ra_data := [(''session_id'', PStr (se_id s)), (''trigger'', PStr trigger),
                   (''attempt'', PInt 0), (''metadata'', PDict metadata),
                   (''queued_at'', PStr queued_at)]\<rparr>))"

section \<open>When an item may run\<close>

text \<open>\<^theory_text>\<open>datetime.fromisoformat(s) <= now\<close>, with \<^theory_text>\<open>except ValueError: return True\<close>.\<close>

definition due :: "string \<Rightarrow> int \<Rightarrow> bool res" where
  "due s now = (case fromisoformat s of None \<Rightarrow> Inr True | Some d \<Rightarrow> dt_le d (utc_dt now))"

definition retry_at_due :: "resource_row \<Rightarrow> int \<Rightarrow> bool res" where
  "retry_at_due work now = (case dget ''retry_at'' (mr_data work) of
      PStr s \<Rightarrow> if s = [] then Inr True else due s now
    | _ \<Rightarrow> Inr True)"

definition lease_expired :: "resource_row \<Rightarrow> int \<Rightarrow> bool res" where
  "lease_expired work now =
     (if mr_status work \<notin> set LEASED_WORK_STATUSES then Inr False
      else bindE (vget ''expires_at'' (por (dget ''lease'' (mr_data work)) (PDict []))) (\<lambda>v.
        case v of PStr s \<Rightarrow> due s now | _ \<Rightarrow> Inr True))"

definition work_ready_for_execution :: "resource_row \<Rightarrow> int \<Rightarrow> bool res" where
  "work_ready_for_execution work now =
     (if mr_status work = ''queued'' then Inr True
      else if mr_status work = ''rescheduling'' then retry_at_due work now
      else Inr False)"

definition work_available_for_lease :: "resource_row \<Rightarrow> int \<Rightarrow> bool res" where
  "work_available_for_lease work now =
     bindE (work_ready_for_execution work now) (\<lambda>r. if r then Inr True else lease_expired work now)"

definition is_work_ready_for_execution :: "resource_row \<Rightarrow> bool M" where
  "is_work_ready_for_execution work = bindM nowM (\<lambda>now. liftE (work_ready_for_execution work now))"

definition is_work_available_for_lease :: "resource_row \<Rightarrow> bool M" where
  "is_work_available_for_lease work = bindM nowM (\<lambda>now. liftE (work_available_for_lease work now))"

definition require_lease_owner :: "resource_row \<Rightarrow> string option \<Rightarrow> string \<Rightarrow> unit res" where
  "require_lease_owner work worker_id action =
     (if mr_status work \<notin> set LEASED_WORK_STATUSES
      then Inl (WorkLeaseError (''Cannot '' @ action @ '' work item while status is '' @ mr_status work))
      else bindE (vget ''worker_id'' (por (dget ''lease'' (mr_data work)) (PDict []))) (\<lambda>owner.
        if \<not> truthy owner then Inr ()
        else (case worker_id of
            None \<Rightarrow> Inl (WorkLeaseError (''worker_id is required to '' @ action @ '' this leased work item''))
          | Some w \<Rightarrow>
              if w = [] then Inl (WorkLeaseError (''worker_id is required to '' @ action @ '' this leased work item''))
              else if py_str owner \<noteq> w
                then Inl (WorkLeaseError (''Worker '' @ w @ '' does not own this work lease''))
              else Inr ())))"

section \<open>Leases\<close>

definition next_attempt :: "pdict \<Rightarrow> int res" where
  "next_attempt data = bindE (py_int (por (dget ''attempt'' data) (PInt 0))) (\<lambda>n. Inr (n + 1))"

definition lease_work :: "resource_row \<Rightarrow> string \<Rightarrow> int \<Rightarrow> int \<Rightarrow> resource_row M" where
  "lease_work work worker_id lease_seconds now =
     bindM (liftE (next_attempt (mr_data work))) (\<lambda>attempt.
     bindM (liftE (add_seconds now lease_seconds)) (\<lambda>expires.
     update_resource work (resource_patch0\<lparr>rp_status := Some ''leased'',
       rp_data := Some (dset ''lease''
         (PDict [(''worker_id'', PStr worker_id), (''leased_at'', PStr (isoformat now)),
                 (''expires_at'', PStr (isoformat expires))])
         (dset ''attempt'' (PInt attempt) (mr_data work)))\<rparr>)))"

text \<open>The first available item of a list of candidates.\<close>

fun first_available :: "int \<Rightarrow> resource_row list \<Rightarrow> resource_row option res" where
  "first_available now [] = Inr None"
| "first_available now (w # ws) = bindE (work_available_for_lease w now) (\<lambda>a.
     if a then Inr (Some w) else first_available now ws)"

definition lease_next_work :: "string \<Rightarrow> string \<Rightarrow> int \<Rightarrow> resource_row option M" where
  "lease_next_work environment_id worker_id lease_seconds =
     bindM (list_resources ''environment_work'' (Some environment_id) 1000 True False None) (\<lambda>candidates.
     bindM nowM (\<lambda>now.
     bindM (liftE (first_available now (rev candidates))) (\<lambda>found.
     case found of
       None \<Rightarrow> returnM None
     | Some work \<Rightarrow> bindM (lease_work work worker_id lease_seconds now) (\<lambda>w. returnM (Some w)))))"

definition ack_work :: "resource_row \<Rightarrow> string option \<Rightarrow> resource_row M" where
  "ack_work work worker_id =
     bindM (liftE (require_lease_owner work worker_id ''ack'')) (\<lambda>_.
     bindM utcnow_iso (\<lambda>t.
     let data = dset ''acked_at'' (PStr t) (mr_data work);
         data' = (case worker_id of
                    Some w \<Rightarrow> if w \<noteq> [] then dset ''acked_by'' (PStr w) data else data
                  | None \<Rightarrow> data)
     in update_resource work (resource_patch0\<lparr>rp_data := Some data', rp_status := Some ''running''\<rparr>)))"

definition heartbeat_work ::
  "resource_row \<Rightarrow> string option \<Rightarrow> int \<Rightarrow> pdict \<Rightarrow> resource_row M" where
  "heartbeat_work work worker_id lease_seconds payload =
     bindM (liftE (require_lease_owner work worker_id ''heartbeat'')) (\<lambda>_.
     bindM nowM (\<lambda>now.
     let data = dset ''last_heartbeat'' (PDict payload)
                  (dset ''last_heartbeat_at'' (PStr (isoformat now)) (mr_data work)) in
     bindM (liftE (dict_or_empty (dget ''lease'' data))) (\<lambda>lease.
     let lease' = (case worker_id of
                     Some w \<Rightarrow> if w \<noteq> [] then dset ''worker_id'' (PStr w) lease else lease
                   | None \<Rightarrow> lease) in
     bindM (liftE (add_seconds now lease_seconds)) (\<lambda>expires.
     update_resource work (resource_patch0\<lparr>rp_status := Some ''running'',
       rp_data := Some (dset ''lease'' (PDict (dset ''expires_at'' (PStr (isoformat expires)) lease')) data)\<rparr>)))))"

definition stop_work :: "resource_row \<Rightarrow> pdict \<Rightarrow> resource_row M" where
  "stop_work work payload =
     bindM utcnow_iso (\<lambda>t.
     update_resource work (resource_patch0\<lparr>rp_status := Some ''stopped'',
       rp_data := Some (dset ''stopped_at'' (PStr t) (dset ''stop'' (PDict payload) (mr_data work)))\<rparr>))"

definition should_execute_inline :: "pdict \<Rightarrow> bool" where
  "should_execute_inline config = (dget ''type'' config \<noteq> PStr ''self_hosted'')"

section \<open>Executing an item\<close>

text \<open>First transaction: claim the item, or nothing to do.\<close>

definition begin_work :: "string \<Rightarrow> string option \<Rightarrow> pdict option M" where
  "begin_work work_id worker_id =
     bindM (get_resource work_id (Some ''environment_work'') None False None) (\<lambda>found.
     case found of
       None \<Rightarrow> returnM None
     | Some work \<Rightarrow>
         bindM (if mr_status work \<in> set LEASED_WORK_STATUSES
                then bindM (liftE (require_lease_owner work worker_id ''execute'')) (\<lambda>_.
                  returnM (Some (mr_data work)))
                else bindM (is_work_ready_for_execution work) (\<lambda>ready.
                  if ready then bindM (liftE (next_attempt (mr_data work))) (\<lambda>n.
                    returnM (Some (dset ''attempt'' (PInt n) (mr_data work))))
                  else returnM None)) (\<lambda>claimed.
         case claimed of
           None \<Rightarrow> returnM None
         | Some data \<Rightarrow>
             bindM utcnow_iso (\<lambda>t.
             let d1 = dset ''started_at'' (PStr t) data;
                 d2 = (case worker_id of
                         Some w \<Rightarrow> if w \<noteq> [] then dset ''started_by'' (PStr w) d1 else d1
                       | None \<Rightarrow> d1)
             in bindM (update_resource work (resource_patch0\<lparr>rp_data := Some d2, rp_status := Some ''running''\<rparr>)) (\<lambda>_.
                seqM commitM (returnM (Some d2))))))"

text \<open>Second transaction, after an exception of the turn.\<close>

definition fail_work :: "string \<Rightarrow> exc \<Rightarrow> unit M" where
  "fail_work work_id e =
     bindM (get_resource work_id (Some ''environment_work'') None False None) (\<lambda>found.
     case found of
       None \<Rightarrow> returnM ()
     | Some work \<Rightarrow>
         bindM utcnow_iso (\<lambda>t.
         bindM (update_resource work (resource_patch0\<lparr>rp_status := Some ''error'',
           rp_data := Some (dset ''finished_at'' (PStr t)
             (dset ''error'' (PDict [(''type'', PStr (exc_class e)), (''message'', PStr (exc_text e))])
               (mr_data work)))\<rparr>)) (\<lambda>_. commitM)))"

text \<open>Second transaction, after a turn that returned. The session's state decides the item's.\<close>

definition finish_status :: "resource_row \<Rightarrow> session_row option \<Rightarrow> string res" where
  "finish_status work session =
     (let base = (case session of
          Some s \<Rightarrow> if se_status s = SESSION_RESCHEDULING then ''rescheduling'' else ''completed''
        | None \<Rightarrow> ''completed'') in
      bindE (case session of
          Some s \<Rightarrow> if se_status s = SESSION_TERMINATED then
              bindE (vget ''type'' (por (se_stop_reason s) (PDict []))) (\<lambda>ty.
              Inr (if ty = PStr ''error'' then ''error'' else base))
            else Inr base
        | None \<Rightarrow> Inr base) (\<lambda>status.
      Inr (if mr_status work = ''stopped'' then ''stopped'' else status)))"

definition finish_work :: "string \<Rightarrow> unit M" where
  "finish_work work_id =
     bindM (get_resource work_id (Some ''environment_work'') None False None) (\<lambda>found.
     case found of
       None \<Rightarrow> returnM ()
     | Some work \<Rightarrow>
         bindM (get_session (py_str (dget ''session_id'' (mr_data work))) None) (\<lambda>session.
         bindM utcnow_iso (\<lambda>t.
         let d1 = dset ''session_status'' (PStr (case session of Some s \<Rightarrow> se_status s | None \<Rightarrow> ''missing''))
                    (dset ''finished_at'' (PStr t) (mr_data work)) in
         bindM (case session of
             Some s \<Rightarrow>
               if se_status s = SESSION_RESCHEDULING then
                 bindM (liftE (dict_or_empty (se_stop_reason s))) (\<lambda>stop_reason.
                 bindM utcnow_iso (\<lambda>t2.
                 returnM (dset ''stop_reason'' (PDict stop_reason)
                   (dset ''retry_after_seconds'' (dget ''retry_after_seconds'' stop_reason)
                   (dset ''retry_at'' (dget ''retry_at'' stop_reason)
                   (dset ''rescheduled_at'' (PStr t2) d1))))))
               else returnM d1
           | None \<Rightarrow> returnM d1) (\<lambda>data.
         bindM (liftE (finish_status work session)) (\<lambda>status.
         bindM (update_resource work (resource_patch0\<lparr>rp_data := Some data, rp_status := Some status\<rparr>)) (\<lambda>_.
         commitM))))))"

definition tryM :: "'a M \<Rightarrow> (exc + 'a) M" where
  "tryM m = (\<lambda>w. case m w of (r, w') \<Rightarrow> (Inr r, w'))"

definition execute_work_item :: "(string \<Rightarrow> unit M) \<Rightarrow> string \<Rightarrow> string option \<Rightarrow> unit M" where
  "execute_work_item run work_id worker_id =
     bindM (session_scope (begin_work work_id worker_id)) (\<lambda>claimed.
     case claimed of
       None \<Rightarrow> returnM ()
     | Some data \<Rightarrow>
         bindM (tryM (if has_key ''session_id'' data then run (py_str (dget ''session_id'' data))
                      else raiseM (KeyError ''session_id''))) (\<lambda>result.
         case result of
           Inl e \<Rightarrow> session_scope (fail_work work_id e)
         | Inr _ \<Rightarrow> session_scope (finish_work work_id)))"

section \<open>The polling worker\<close>

fun lease_first_available :: "string \<Rightarrow> int \<Rightarrow> resource_row list \<Rightarrow> resource_row option M" where
  "lease_first_available worker_id lease_seconds [] = returnM None"
| "lease_first_available worker_id lease_seconds (w # ws) =
     bindM (is_work_available_for_lease w) (\<lambda>a.
     if a then bindM nowM (\<lambda>now. bindM (lease_work w worker_id lease_seconds now) (\<lambda>l.
       seqM commitM (returnM (Some l))))
     else lease_first_available worker_id lease_seconds ws)"

definition work_dict :: "resource_row option \<Rightarrow> pdict option" where
  "work_dict work = map_option (\<lambda>w. dupdate [(''id'', PStr (mr_id w)), (''status'', PStr (mr_status w))]
     (mr_data w)) work"

definition next_runnable_work :: "string option \<Rightarrow> string \<Rightarrow> int \<Rightarrow> pdict option M" where
  "next_runnable_work environment_id worker_id lease_seconds = session_scope
     (case environment_id of
        Some e \<Rightarrow> bindM (lease_next_work e worker_id lease_seconds) (\<lambda>work.
                  seqM commitM (returnM (work_dict work)))
      | None \<Rightarrow> bindM (list_resources ''environment_work'' None 1000 True False None) (\<lambda>candidates.
                bindM (lease_first_available worker_id lease_seconds (rev candidates)) (\<lambda>work.
                returnM (work_dict work))))"

section \<open>The contract of a lease\<close>

locale lease_queue =
  fixes available :: "'w \<Rightarrow> int \<Rightarrow> bool res"
    and owner_check :: "'w \<Rightarrow> string option \<Rightarrow> unit res"
    and lease :: "'w \<Rightarrow> string \<Rightarrow> int \<Rightarrow> int \<Rightarrow> 'w res"
  assumes leased_until: "lease w i n t = Inr w' \<Longrightarrow> available w' t' = Inr (t + n * 1000000 \<le> t')"
    and leased_owner: "lease w i n t = Inr w' \<Longrightarrow> i \<noteq> [] \<Longrightarrow>
      (owner_check w' (Some j) = Inr () \<longleftrightarrow> j = i) \<and> owner_check w' None \<noteq> Inr ()"
begin

text \<open>A lease taken again, when available, starts no earlier than the first one ends.\<close>

lemma leases_disjoint:
  assumes "lease w i n t = Inr w'" "available w' t' = Inr True" "lease w' j m t' = Inr w''"
  shows "t + n * 1000000 \<le> t'"
  using leased_until [OF assms(1), of t'] assms(2) by simp

text \<open>A run of leases, each taken when the item was available, with their start times.\<close>

fun lease_chain :: "'w \<Rightarrow> (string \<times> int \<times> int) list \<Rightarrow> 'w res" where
  "lease_chain w [] = Inr w"
| "lease_chain w ((i, n, t) # ls) =
     (if available w t = Inr True then bindE (lease w i n t) (\<lambda>w'. lease_chain w' ls)
      else Inl AttributeError)"

lemma chain_disjoint:
  "lease_chain w ((i, n, t) # ls) = Inr v \<Longrightarrow> ls \<noteq> [] \<Longrightarrow> t + n * 1000000 \<le> snd (snd (hd ls))"
proof -
  assume c: "lease_chain w ((i, n, t) # ls) = Inr v" and "ls \<noteq> []"
  then obtain j m u ls' where ls: "ls = (j, m, u) # ls'" by (metis list.exhaust prod.exhaust)
  from c obtain w' where w': "lease w i n t = Inr w'" "lease_chain w' ls = Inr v"
    by (auto simp: res_simps split: if_splits)
  then have "available w' u = Inr True" using ls by (auto split: if_splits)
  with leased_until [OF w'(1), of u] ls show "t + n * 1000000 \<le> snd (snd (hd ls))" by simp
qed

text \<open>Whoever passes the owner check on a freshly leased item leased it.\<close>

lemma only_owner: "lease w i n t = Inr w' \<Longrightarrow> i \<noteq> [] \<Longrightarrow> owner_check w' j = Inr () \<Longrightarrow> j = Some i"
  using leased_owner by (cases j) blast+

end

definition leased_row :: "resource_row \<Rightarrow> string \<Rightarrow> int \<Rightarrow> int \<Rightarrow> resource_row res" where
  "leased_row work worker_id lease_seconds now =
     bindE (next_attempt (mr_data work)) (\<lambda>attempt.
     bindE (add_seconds now lease_seconds) (\<lambda>expires.
     Inr (work\<lparr>
       mr_data := dset ''lease''
         (PDict [(''worker_id'', PStr worker_id), (''leased_at'', PStr (isoformat now)),
                 (''expires_at'', PStr (isoformat expires))])
         (dset ''attempt'' (PInt attempt) (mr_data work)),
       mr_status := ''leased''\<rparr>)))"

lemma lease_work_eq: "lease_work w i n t = bindM (liftE (leased_row w i n t)) save_resource"
  by (cases "next_attempt (mr_data w)"; cases "add_seconds t n")
    (simp_all add: lease_work_def leased_row_def fun_eq_iff bindM_def mon_defs update_resource_def
      patch_resource_def resource_patch0_def)

lemma add_seconds_Inr: "add_seconds t n = Inr u \<longleftrightarrow> u = t + n * 1000000 \<and> iso_range u"
  by (auto simp: add_seconds_def iso_range_def Let_def)

lemma add_secondsD: "add_seconds t n = Inr u \<Longrightarrow> u = t + n * 1000000" "add_seconds t n = Inr u \<Longrightarrow> iso_range u"
  unfolding add_seconds_Inr by blast+

lemma due_isoformat: "iso_range u \<Longrightarrow> due (isoformat u) now = Inr (u \<le> now)"
  by (simp add: due_def iso_range_def fromisoformat_isoformat)

lemma held_available:
  assumes "mr_status w \<in> {''leased'', ''running''}" "dget ''lease'' (mr_data w) = PDict l"
    "dget ''expires_at'' l = PStr (isoformat u)" "iso_range u" "l \<noteq> []"
  shows "work_available_for_lease w t' = Inr (u \<le> t')"
  using assms
  by (auto simp: work_available_for_lease_def work_ready_for_execution_def lease_expired_def
      LEASED_WORK_STATUSES_def due_isoformat)

lemma leased_row_available:
  assumes "leased_row w i n t = Inr w'"
  shows "work_available_for_lease w' t' = Inr (t + n * 1000000 \<le> t')"
proof -
  obtain e where e: "add_seconds t n = Inr e" "mr_status w' = ''leased''"
    "dget ''lease'' (mr_data w') = PDict [(''worker_id'', PStr i),
       (''leased_at'', PStr (isoformat t)), (''expires_at'', PStr (isoformat e))]"
    using assms by (auto simp: leased_row_def res_simps)
  note add_secondsD [OF e(1)]
  with held_available [OF _ e(3), of e t'] e(2) show ?thesis by simp
qed

lemma leased_row_owner:
  assumes "leased_row w i n t = Inr w'" "i \<noteq> []"
  shows "(require_lease_owner w' (Some j) a = Inr () \<longleftrightarrow> j = i) \<and> require_lease_owner w' None a \<noteq> Inr ()"
  using assms
  by (auto simp: leased_row_def res_simps require_lease_owner_def LEASED_WORK_STATUSES_def)

interpretation work: lease_queue work_available_for_lease "\<lambda>w j. require_lease_owner w j a" leased_row
  for a
  by unfold_locales (auto dest: leased_row_available leased_row_owner)

text \<open>The owner check, as what it accepts.\<close>

definition lease_owner :: "resource_row \<Rightarrow> string option" where
  "lease_owner w = (case por (dget ''lease'' (mr_data w)) (PDict []) of
      PDict l \<Rightarrow> if truthy (dget ''worker_id'' l) then Some (py_str (dget ''worker_id'' l)) else None
    | _ \<Rightarrow> None)"

lemma owner_check_Inr:
  "require_lease_owner w j a = Inr () \<Longrightarrow>
   mr_status w \<in> {''leased'', ''running''} \<and> (lease_owner w = None \<or> lease_owner w = j)"
  by (auto simp: require_lease_owner_def lease_owner_def LEASED_WORK_STATUSES_def res_simps vget_def
      split: if_splits pv.splits option.splits)

lemma save_resource_row:
  "save_resource r v = (Inr r', v') \<Longrightarrow> mr_data r' = mr_data r \<and> mr_status r' = mr_status r"
  by (auto simp: save_resource_def mon_simps dbM_def Let_def nowM_def split: if_splits)

text \<open>A heartbeat holds the item until its own end, and needs the owner.\<close>

lemma heartbeat_row:
  assumes "heartbeat_work w j n payload u = (Inr w', u')"
  shows "work_available_for_lease w' t' = Inr (w_clock u (w_ticks u) + n * 1000000 \<le> t')"
    "mr_status w' = ''running''" "lease_owner w = None \<or> lease_owner w = j"
proof -
  let ?now = "w_clock u (w_ticks u)"
  let ?data = "dset ''last_heartbeat'' (PDict payload)
      (dset ''last_heartbeat_at'' (PStr (isoformat ?now)) (mr_data w))"
  obtain l e v where c: "require_lease_owner w j ''heartbeat'' = Inr ()"
    and e: "add_seconds ?now n = Inr e"
    and s: "update_resource w (resource_patch0\<lparr>rp_status := Some ''running'',
       rp_data := Some (dset ''lease'' (PDict (dset ''expires_at'' (PStr (isoformat e))
         (case j of Some w \<Rightarrow> if w \<noteq> [] then dset ''worker_id'' (PStr w) l else l | None \<Rightarrow> l))) ?data)\<rparr>) v
       = (Inr w', u')"
    using assms by (auto simp: heartbeat_work_def mon_simps Let_def nowM_def)
  from s have r: "mr_status w' = ''running''"
    "dget ''lease'' (mr_data w') = PDict (dset ''expires_at'' (PStr (isoformat e))
         (case j of Some w \<Rightarrow> if w \<noteq> [] then dset ''worker_id'' (PStr w) l else l | None \<Rightarrow> l))"
    by (auto simp: update_resource_def patch_resource_def resource_patch0_def dest!: save_resource_row)
  show "work_available_for_lease w' t' = Inr (?now + n * 1000000 \<le> t')"
    using held_available [OF _ r(2), of e t'] r(1) add_secondsD [OF e] by simp
  show "mr_status w' = ''running''" by (rule r)
  show "lease_owner w = None \<or> lease_owner w = j" using owner_check_Inr [OF c] by simp
qed

section \<open>Properties\<close>

text \<open>
  C32: a lease is exclusive. A leased item is available again exactly from the end of its lease on,
  and until then only the worker that holds the lease passes the owner check.
\<close>

theorem lease_exclusive:
  assumes "lease_work w i n t u = (Inr w', u')" "i \<noteq> []"
  shows "work_available_for_lease w' t' = Inr (t + n * 1000000 \<le> t') \<and>
    (require_lease_owner w' j a = Inr () \<longleftrightarrow> j = Some i)"
proof -
  obtain r where r: "leased_row w i n t = Inr r" "save_resource r u = (Inr w', u')"
    using assms(1) by (auto simp: lease_work_eq mon_simps)
  have "lease_expired w' t' = lease_expired r t'" "retry_at_due w' t' = retry_at_due r t'"
    using save_resource_row [OF r(2)] by (simp_all add: retry_at_due_def lease_expired_def)
  then have same: "work_available_for_lease w' t' = work_available_for_lease r t'"
    "require_lease_owner w' j a = require_lease_owner r j a"
    using save_resource_row [OF r(2)]
    by (simp_all add: work_available_for_lease_def work_ready_for_execution_def
        require_lease_owner_def cong: if_cong)
  show ?thesis
    unfolding same using work.leased_until [OF r(1)] work.leased_owner [OF r(1) assms(2)]
    by (cases j) auto
qed

definition queued_row :: resource_row where
  "queued_row = \<lparr>mr_id = ''work_1'', mr_workspace_id = ''wrkspc_default'',
     mr_resource_type = ''environment_work'', mr_parent_id = Some ''env_1'', mr_version = None,
     mr_name = None, mr_status = ''queued'', mr_data = [(''session_id'', PStr ''sess_1''), (''attempt'', PInt 0)],
     mr_content = None, mr_content_type = None, mr_filename = None, mr_storage_backend = None,
     mr_storage_key = None, mr_storage_url = None, mr_size_bytes = None, mr_sha256 = None,
     mr_archived_at = None, mr_deleted_at = None, mr_created_at = 0, mr_updated_at = 0\<rparr>"

theorem lease_exclusive_witness:
  "\<exists>w' u'. lease_work queued_row ''A'' 60 1000000 world0 = (Inr w', u') \<and>
     work_available_for_lease w' 2000000 = Inr (1000000 + 60 * 1000000 \<le> (2000000 :: int)) \<and>
     (require_lease_owner w' (Some ''B'') ''ack'' = Inr () \<longleftrightarrow> Some ''B'' = Some ''A'')"
proof -
  have "days_before 9999 = 3652059" by (simp add: days_before_def)
  then have "\<exists>r. leased_row queued_row ''A'' 60 1000000 = Inr r"
    by (simp add: leased_row_def queued_row_def next_attempt_def por_def add_seconds_def)
  then obtain r where "leased_row queued_row ''A'' 60 1000000 = Inr r" by blast
  moreover have "\<exists>w' u'. save_resource r world0 = (Inr w', u')"
    by (simp add: save_resource_def bindM_def mon_defs Let_def seqM_def)
  ultimately obtain w' u' where run: "lease_work queued_row ''A'' 60 1000000 world0 = (Inr w', u')"
    by (auto simp: lease_work_eq bindM_def mon_defs)
  from lease_exclusive [OF this, of 2000000 "Some ''B''" "''ack''"] run show ?thesis by blast
qed

text \<open>
  A heartbeat is accepted from the owner of the lease only (or when the lease names none), and
  holds the item until the end of the lease it asks for, counted from the heartbeat.
\<close>

theorem heartbeat_extends:
  assumes "heartbeat_work w j n payload u = (Inr w', u')"
  shows "work_available_for_lease w' t' = Inr (w_clock u (w_ticks u) + n * 1000000 \<le> t') \<and>
    mr_status w' = ''running'' \<and> lease_owner w \<in> {None, j}"
  using heartbeat_row [OF assms] by blast

theorem heartbeat_extends_witness:
  "\<exists>w' u'. heartbeat_work (queued_row\<lparr>mr_status := ''leased''\<rparr>) (Some ''A'') 60 [] world0 = (Inr w', u') \<and>
    work_available_for_lease w' 0 = Inr (w_clock world0 (w_ticks world0) + 60 * 1000000 \<le> 0) \<and>
    mr_status w' = ''running'' \<and> lease_owner (queued_row\<lparr>mr_status := ''leased''\<rparr>) \<in> {None, Some ''A''}"
proof -
  have "days_before 9999 = 3652059" by (simp add: days_before_def)
  then have "\<exists>w' u'. heartbeat_work (queued_row\<lparr>mr_status := ''leased''\<rparr>) (Some ''A'') 60 [] world0 = (Inr w', u')"
    by (simp add: heartbeat_work_def bindM_def mon_defs Let_def require_lease_owner_def queued_row_def
        LEASED_WORK_STATUSES_def add_seconds_def world0_def update_resource_def save_resource_def seqM_def
        find_resource_def db0_def find_by_def patch_resource_def resource_patch0_def)
  with heartbeat_extends [of "queued_row\<lparr>mr_status := ''leased''\<rparr>" "Some ''A''" 60 "[]" world0 _ _ 0]
  show ?thesis by blast
qed

text \<open>
  Executing an item that is neither queued, due for a retry nor leased (a completed, failed or
  stopped one) does nothing: the turn is not run and nothing is written.
\<close>

theorem execute_finished_inert:
  assumes "get_resource i (Some ''environment_work'') None False None (w\<lparr>w_db := w_committed w\<rparr>)
      = (Inr (Some r), w1)"
    and "mr_status r \<notin> {''queued'', ''rescheduling'', ''leased'', ''running''}"
  shows "\<exists>w'. execute_work_item run i worker w = (Inr (), w') \<and> w_committed w' = w_committed w
    \<and> w_objects w' = w_objects w"
proof -
  have w1: "w1 = w\<lparr>w_db := w_committed w\<rparr>"
    using assms(1) by (auto simp: get_resource_def workspace_id_or_default_def mon_simps dbM_def)
  have "begin_work i worker (w\<lparr>w_db := w_committed w\<rparr>) = (Inr None, w1\<lparr>w_ticks := Suc (w_ticks w1)\<rparr>)"
    using assms
    by (simp add: begin_work_def LEASED_WORK_STATUSES_def is_work_ready_for_execution_def
        work_ready_for_execution_def bindM_def mon_defs)
  then show ?thesis
    by (simp add: execute_work_item_def session_scope_def bindM_def mon_defs w1)
qed

theorem execute_finished_inert_witness:
  "\<exists>w'. execute_work_item (\<lambda>_. raiseM TypeError) ''work_1'' None
      (world0\<lparr>w_committed := add_resource (queued_row\<lparr>mr_status := ''stopped''\<rparr>) db0\<rparr>) = (Inr (), w')
    \<and> w_committed w' = w_committed (world0\<lparr>w_committed := add_resource (queued_row\<lparr>mr_status := ''stopped''\<rparr>) db0\<rparr>)
    \<and> w_objects w' = w_objects (world0\<lparr>w_committed := add_resource (queued_row\<lparr>mr_status := ''stopped''\<rparr>) db0\<rparr>)"
proof (rule execute_finished_inert)
  let ?w = "world0\<lparr>w_committed := add_resource (queued_row\<lparr>mr_status := ''stopped''\<rparr>) db0\<rparr>"
  show "get_resource ''work_1'' (Some ''environment_work'') None False None (?w\<lparr>w_db := w_committed ?w\<rparr>)
      = (Inr (Some (queued_row\<lparr>mr_status := ''stopped''\<rparr>)), ?w\<lparr>w_db := w_committed ?w\<rparr>)"
    by (simp add: get_resource_def workspace_id_or_default_def bindM_def mon_defs add_resource_def
        db0_def world0_def queued_row_def opt_eq_def scalar_one_or_none_def DEFAULT_WORKSPACE_ID_def)
qed (simp add: queued_row_def)

end
