(* ===== verification/Metadata.thy ===== *)
theory Metadata
  imports PyVal
begin

text \<open>
  \<open>app/metadata.py\<close>: the size bounds of a metadata object and the merge a patch makes. The abstract
  view of a metadata object is the finite map of its strings (\<open>md_abs\<close>); \<open>merge_metadata\<close> refines
  a pointwise override of that map, \<open>merge_spec\<close>.
\<close>

definition MAX_METADATA_KEYS :: nat where "MAX_METADATA_KEYS = 16"
definition MAX_METADATA_KEY_CHARS :: nat where "MAX_METADATA_KEY_CHARS = 64"
definition MAX_METADATA_VALUE_CHARS :: nat where "MAX_METADATA_VALUE_CHARS = 512"

definition metadata_key :: "string \<Rightarrow> string res" where
  "metadata_key k =
     (if k = [] then Inl (HTTPException 422 ''metadata keys must not be empty'')
      else if MAX_METADATA_KEY_CHARS < length k
        then Inl (HTTPException 422 ''metadata keys must be at most 64 characters'')
      else Inr k)"

definition metadata_value :: "pv \<Rightarrow> string res" where
  "metadata_value v =
     (case v of
        PStr s \<Rightarrow> if MAX_METADATA_VALUE_CHARS < length s
                   then Inl (HTTPException 422 ''metadata values must be at most 512 characters'')
                   else Inr s
      | _ \<Rightarrow> Inl (HTTPException 422 ''metadata values must be strings''))"

definition validate_metadata_size :: "(string \<times> string) list \<Rightarrow> unit res" where
  "validate_metadata_size d = raise_if (MAX_METADATA_KEYS < length d)
     (HTTPException 422 ''metadata supports at most 16 keys'')"

definition normalize_entry :: "string \<times> pv \<Rightarrow> (string \<times> string) list \<Rightarrow> (string \<times> string) list res" where
  "normalize_entry kv acc =
     (case kv of (raw_key, raw_value) \<Rightarrow>
        bindE (metadata_key raw_key) (\<lambda>key.
        bindE (raise_if (raw_value = PNone) (HTTPException 422 ''metadata values must be strings'')) (\<lambda>_.
        bindE (metadata_value raw_value) (\<lambda>v. Inr (dset key v acc)))))"

definition normalize_metadata :: "pv \<Rightarrow> (string \<times> string) list res" where
  "normalize_metadata value =
     (case value of
        PNone \<Rightarrow> Inr []
      | PDict d \<Rightarrow> bindE (foldE normalize_entry d []) (\<lambda>normalized.
                   bindE (validate_metadata_size normalized) (\<lambda>_. Inr normalized))
      | _ \<Rightarrow> Inl (HTTPException 422 ''metadata must be an object''))"

definition merge_entry :: "string \<times> pv \<Rightarrow> (string \<times> string) list \<Rightarrow> (string \<times> string) list res" where
  "merge_entry kv merged =
     (case kv of (raw_key, raw_value) \<Rightarrow>
        bindE (metadata_key raw_key) (\<lambda>key.
        bindE (if raw_value = PNone \<or> raw_value = PStr [] then Inr (dpop key merged)
               else bindE (metadata_value raw_value) (\<lambda>v. Inr (dset key v merged))) (\<lambda>merged'.
        bindE (validate_metadata_size merged') (\<lambda>_. Inr merged'))))"

definition merge_metadata :: "pv \<Rightarrow> pv \<Rightarrow> (string \<times> string) list res" where
  "merge_metadata current patch =
     bindE (normalize_metadata current) (\<lambda>merged.
     case patch of
       PNone \<Rightarrow> Inr merged
     | PDict p \<Rightarrow> foldE merge_entry p merged
     | _ \<Rightarrow> Inl (HTTPException 422 ''metadata must be an object''))"

text \<open>What a normalised metadata object is.\<close>

definition md_ok :: "(string \<times> string) list \<Rightarrow> bool" where
  "md_ok d = (wf_keys d \<and> length d \<le> MAX_METADATA_KEYS
     \<and> list_all (\<lambda>(k, v). k \<noteq> [] \<and> length k \<le> MAX_METADATA_KEY_CHARS
                          \<and> length v \<le> MAX_METADATA_VALUE_CHARS) d)"

definition md_entries_ok :: "(string \<times> string) list \<Rightarrow> bool" where
  "md_entries_ok d = (wf_keys d
     \<and> list_all (\<lambda>(k, v). k \<noteq> [] \<and> length k \<le> MAX_METADATA_KEY_CHARS
                          \<and> length v \<le> MAX_METADATA_VALUE_CHARS) d)"

text \<open>The stored form of a normalised object.\<close>

definition md_pv :: "(string \<times> string) list \<Rightarrow> pdict" where
  "md_pv d = map (\<lambda>(k, v). (k, PStr v)) d"

lemma metadata_key_Inr [simp]:
  "metadata_key k = Inr k' \<longleftrightarrow> k' = k \<and> k \<noteq> [] \<and> length k \<le> MAX_METADATA_KEY_CHARS"
  by (auto simp: metadata_key_def)

lemma metadata_value_Inr [simp]:
  "metadata_value v = Inr s \<longleftrightarrow> v = PStr s \<and> length s \<le> MAX_METADATA_VALUE_CHARS"
  by (auto simp: metadata_value_def split: pv.splits)

lemma validate_size_Inr [simp]:
  "validate_metadata_size d = Inr u \<longleftrightarrow> length d \<le> MAX_METADATA_KEYS"
  by (auto simp: validate_metadata_size_def)

lemma entries_dset:
  "md_entries_ok d \<Longrightarrow> k \<noteq> [] \<Longrightarrow> length k \<le> MAX_METADATA_KEY_CHARS \<Longrightarrow>
   length v \<le> MAX_METADATA_VALUE_CHARS \<Longrightarrow> md_entries_ok (dset k v d)"
  by (fastforce simp: md_entries_ok_def list_all_iff dest: set_dset)

lemma entries_dpop: "md_entries_ok d \<Longrightarrow> md_entries_ok (dpop k d)"
  by (fastforce simp: md_entries_ok_def list_all_iff dest: set_dpop)

lemma md_ok_iff: "md_ok d \<longleftrightarrow> md_entries_ok d \<and> length d \<le> MAX_METADATA_KEYS"
  by (auto simp: md_ok_def md_entries_ok_def)

lemma normalize_metadata_ok: "normalize_metadata v = Inr d \<Longrightarrow> md_ok d"
proof -
  have "foldE normalize_entry e [] = Inr d \<Longrightarrow> md_entries_ok d" for e
  proof (erule foldE_invariant)
    show "md_entries_ok []" by (simp add: md_entries_ok_def)
  qed (auto simp: normalize_entry_def res_simps entries_dset split: prod.splits)
  moreover have "md_ok []" by (simp add: md_ok_def)
  ultimately show "normalize_metadata v = Inr d \<Longrightarrow> md_ok d"
    by (auto simp: normalize_metadata_def md_ok_iff res_simps split: pv.splits)
qed

lemma merge_entry_ok: "merge_entry kv d = Inr e \<Longrightarrow> md_ok d \<Longrightarrow> md_ok e"
  by (auto simp: merge_entry_def md_ok_iff res_simps entries_dset entries_dpop
      split: prod.splits if_splits)

lemma merge_fold_ok: "foldE merge_entry p d = Inr e \<Longrightarrow> md_ok d \<Longrightarrow> md_ok e"
  by (erule foldE_invariant) (auto intro: merge_entry_ok)

lemma merge_metadata_ok: "merge_metadata c p = Inr d \<Longrightarrow> md_ok d"
  by (cases p) (auto simp: merge_metadata_def res_simps dest: normalize_metadata_ok
      intro: merge_fold_ok)

section \<open>The merge as an override of maps\<close>

definition md_abs :: "(string \<times> string) list \<Rightarrow> string \<Rightarrow> string option" where
  "md_abs d = map_of d"

definition override_entry :: "(string \<Rightarrow> string option) \<Rightarrow> string \<times> pv \<Rightarrow> string \<Rightarrow> string option" where
  "override_entry m kv = (case kv of (k, v) \<Rightarrow>
     m(k := (case v of PStr s \<Rightarrow> if s = [] then None else Some s | _ \<Rightarrow> None)))"

definition merge_spec :: "(string \<Rightarrow> string option) \<Rightarrow> pdict \<Rightarrow> string \<Rightarrow> string option" where
  "merge_spec m p k = (case map_of p k of
      None \<Rightarrow> m k
    | Some v \<Rightarrow> (case v of PStr s \<Rightarrow> if s = [] then None else Some s | _ \<Rightarrow> None))"

lemma merge_entry_abs:
  "merge_entry kv d = Inr e \<Longrightarrow> md_abs e = override_entry (md_abs d) kv"
  by (auto simp: merge_entry_def override_entry_def md_abs_def res_simps
      split: prod.splits if_splits)

lemma merge_fold_abs:
  "foldE merge_entry p d = Inr e \<Longrightarrow> md_abs e = foldl override_entry (md_abs d) p"
  by (induction p arbitrary: d) (auto simp: res_simps merge_entry_abs)

lemma override_fold: "wf_keys p \<Longrightarrow> foldl override_entry m p = merge_spec m p"
proof (induction p arbitrary: m)
  case Nil
  then show ?case by (simp add: merge_spec_def fun_eq_iff)
next
  case (Cons kv p)
  obtain k v where kv: "kv = (k, v)" by fastforce
  with Cons have "map_of p k = None" by (simp add: map_of_eq_None_iff)
  then have "merge_spec (override_entry m kv) p = merge_spec m (kv # p)"
    by (auto simp: merge_spec_def override_entry_def fun_eq_iff kv split: option.split)
  with Cons show ?case by simp
qed

lemma normalize_fold_md_pv:
  "md_entries_ok (acc @ d) \<Longrightarrow> foldE normalize_entry (md_pv d) acc = Inr (acc @ d)"
proof (induction d arbitrary: acc)
  case (Cons kv d)
  obtain k v where kv: "kv = (k, v)" by fastforce
  have fresh: "dset k v acc = acc @ [(k, v)]"
  proof -
    have "k \<notin> fst ` set acc" using Cons.prems kv by (auto simp: md_entries_ok_def)
    then show ?thesis by (induction acc) auto
  qed
  from Cons.prems kv have "normalize_entry (k, PStr v) acc = Inr (acc @ [(k, v)])"
    by (auto simp: normalize_entry_def res_simps fresh md_entries_ok_def metadata_key_def
        metadata_value_def)
  with Cons.IH [of "acc @ [kv]"] Cons.prems kv show ?case by (simp add: md_pv_def)
qed (simp add: md_pv_def)

text \<open>Normalising stored metadata changes nothing.\<close>

lemma normalize_md_pv: "md_ok d \<Longrightarrow> normalize_metadata (PDict (md_pv d)) = Inr d"
  using normalize_fold_md_pv [of "[]" d]
  by (simp add: normalize_metadata_def md_ok_iff validate_metadata_size_def raise_if_def)

lemma normalize_md_abs:
  assumes "normalize_metadata (PDict d) = Inr e"
  shows "\<forall>k s. md_abs e k = Some s \<longrightarrow> (k, PStr s) \<in> set d"
proof -
  have "foldE normalize_entry d [] = Inr e"
    using assms by (auto simp: normalize_metadata_def res_simps)
  then show ?thesis
  proof (rule foldE_invariant)
    fix x u v assume "x \<in> set d" "\<forall>k s. md_abs u k = Some s \<longrightarrow> (k, PStr s) \<in> set d"
      "normalize_entry x u = Inr v"
    then show "\<forall>k s. md_abs v k = Some s \<longrightarrow> (k, PStr s) \<in> set d"
      by (auto simp: normalize_entry_def md_abs_def res_simps split: prod.splits if_splits)
  qed (simp add: md_abs_def)
qed

section \<open>Properties\<close>

text \<open>
  Whatever a client patches, the metadata the server stores stays in bounds: at most 16 distinct
  keys of 1 to 64 characters, values of at most 512 characters; and storing it normalises to itself.
\<close>

theorem metadata_bounded:
  assumes "merge_metadata c p = Inr d"
  shows "md_ok d \<and> normalize_metadata (PDict (md_pv d)) = Inr d"
  using merge_metadata_ok [OF assms] normalize_md_pv by blast

theorem metadata_bounded_witness:
  "md_ok [(''b'', ''2''), (''c'', ''3'')] \<and>
   normalize_metadata (PDict (md_pv [(''b'', ''2''), (''c'', ''3'')])) = Inr [(''b'', ''2''), (''c'', ''3'')]"
  by (rule metadata_bounded [where c = "PDict [(''a'', PStr ''1''), (''b'', PStr ''2'')]"
        and p = "PDict [(''a'', PStr []), (''c'', PStr ''3'')]"]) code_simp

text \<open>
  A metadata patch is a pointwise override of the stored map: a key patched with a non-empty
  string gets it, a key patched with null or the empty string is gone, every other key is unchanged.
\<close>

theorem metadata_merge_overrides:
  assumes "md_ok c" "wf_keys p" "merge_metadata (PDict (md_pv c)) (PDict p) = Inr d"
  shows "md_abs d = merge_spec (md_abs c) p"
proof -
  have "foldE merge_entry p c = Inr d"
    using assms(1,3) normalize_md_pv [OF assms(1)] by (simp add: merge_metadata_def)
  with merge_fold_abs override_fold [OF assms(2)] show ?thesis by simp
qed

theorem metadata_merge_overrides_witness:
  "md_abs [(''b'', ''2''), (''c'', ''3'')] =
   merge_spec (md_abs [(''a'', ''1''), (''b'', ''2'')]) [(''a'', PNone), (''c'', PStr ''3'')]"
  by (rule metadata_merge_overrides) code_simp+

end
