(* ===== verification/Json.thy ===== *)
theory Json
  imports Codec
begin

text \<open>
  \<^theory_text>\<open>json.dumps\<close> (ASCII output; compact or default separators) and \<^theory_text>\<open>json.loads\<close>. The reader is
  fuelled by the length of its input, which suffices since every level of nesting and every item
  consumes a character (\<open>loads_dumps\<close> needs no more). Reading back what was written gives the value
  again, for every value without floats and datetimes.
\<close>

section \<open>Writing\<close>

definition json_char :: "char \<Rightarrow> string" where
  "json_char c = (let n = code_pt c in
     if c = CHR 0x22 then [CHR 0x5C, CHR 0x22]
     else if c = CHR 0x5C then [CHR 0x5C, CHR 0x5C]
     else if n = 10 then [CHR 0x5C, CHR ''n'']
     else if n = 13 then [CHR 0x5C, CHR ''r'']
     else if n = 9 then [CHR 0x5C, CHR ''t'']
     else if n = 12 then [CHR 0x5C, CHR ''f'']
     else if n = 8 then [CHR 0x5C, CHR ''b'']
     else if 32 \<le> n \<and> n \<le> 126 then [c]
     else [CHR 0x5C, CHR ''u'', CHR ''0'', CHR ''0'', hex_dig (n div 16), hex_dig n])"

definition json_str :: "string \<Rightarrow> string" where
  "json_str s = CHR 0x22 # concat (map json_char s) @ [CHR 0x22]"

definition json_float :: "pyfloat \<Rightarrow> string" where
  "json_float f = (case f of FFin _ r \<Rightarrow> r | FPosInf \<Rightarrow> ''Infinity'' | FNegInf \<Rightarrow> ''-Infinity'' | FNaN \<Rightarrow> ''NaN'')"

fun dumps :: "string \<Rightarrow> string \<Rightarrow> pv \<Rightarrow> string" where
  "dumps is ks PNone = ''null''"
| "dumps is ks (PBool b) = (if b then ''true'' else ''false'')"
| "dumps is ks (PInt i) = int_str i"
| "dumps is ks (PFloat f) = json_float f"
| "dumps is ks (PStr s) = json_str s"
| "dumps is ks (PList xs) = ''['' @ py_join is (map (dumps is ks) xs) @ '']''"
| "dumps is ks (PDict d) = ''{'' @ py_join is (map (\<lambda>(k, v). json_str k @ ks @ dumps is ks v) d) @ ''}''"
| "dumps is ks (PTime t) = json_str (isoformat t)"

abbreviation dumps_compact :: "pv \<Rightarrow> string" where
  "dumps_compact \<equiv> dumps '','' '':''"

section \<open>Reading\<close>

definition json_ws :: "char \<Rightarrow> bool" where
  "json_ws c = (c = CHR '' '' \<or> code_pt c = 9 \<or> code_pt c = 10 \<or> code_pt c = 13)"

definition skip_ws :: "string \<Rightarrow> string" where
  "skip_ws = dropWhile json_ws"

definition hex_val :: "char \<Rightarrow> nat option" where
  "hex_val c = (let n = code_pt c in
     if 48 \<le> n \<and> n \<le> 57 then Some (n - 48) else if 97 \<le> n \<and> n \<le> 102 then Some (n - 87)
     else if 65 \<le> n \<and> n \<le> 70 then Some (n - 55) else None)"

definition hex2_val :: "char \<Rightarrow> char \<Rightarrow> nat option" where
  "hex2_val a b = (case (hex_val a, hex_val b) of (Some x, Some y) \<Rightarrow> Some (x * 16 + y) | _ \<Rightarrow> None)"

definition unescape :: "char \<Rightarrow> char option" where
  "unescape c =
     (if c = CHR 0x22 \<or> c = CHR 0x5C \<or> c = CHR ''/'' then Some c
      else if c = CHR ''n'' then Some (CHR 0x0A) else if c = CHR ''r'' then Some (CHR 0x0D)
      else if c = CHR ''t'' then Some (CHR 0x09) else if c = CHR ''f'' then Some (CHR 0x0C)
      else if c = CHR ''b'' then Some (CHR 0x08) else None)"

text \<open>The rest of a string literal, after its opening quote.\<close>

definition cons_fst :: "'a \<Rightarrow> 'a list \<times> 'b \<Rightarrow> 'a list \<times> 'b" where
  "cons_fst c p = (case p of (cs, r) \<Rightarrow> (c # cs, r))"

fun jstr :: "string \<Rightarrow> (string \<times> string) option" where
  "jstr [] = None"
| "jstr (c # s) =
     (if c = CHR 0x22 then Some ([], s)
      else if c = CHR 0x5C then
        (case s of
           [] \<Rightarrow> None
         | e # r \<Rightarrow>
             if e = CHR ''u'' then
               (case r of
                  a # b # h # l # q \<Rightarrow>
                    if a = CHR ''0'' \<and> b = CHR ''0'' then
                      (case hex2_val h l of
                         None \<Rightarrow> None | Some n \<Rightarrow> map_option (cons_fst (char_of n)) (jstr q))
                    else None
                | _ \<Rightarrow> None)
             else (case unescape e of None \<Rightarrow> None | Some x \<Rightarrow> map_option (cons_fst x) (jstr r)))
      else if code_pt c < 32 then None
      else map_option (cons_fst c) (jstr s))"

text \<open>\<open>-?(0|[1-9][0-9]*)(\.[0-9]+)?([eE][-+]?[0-9]+)?\<close>\<close>

definition split_digits :: "string \<Rightarrow> string \<times> string" where
  "split_digits s = (takeWhile is_digit s, dropWhile is_digit s)"

definition jint_part :: "string \<Rightarrow> (string \<times> string) option" where
  "jint_part s = (case s of [] \<Rightarrow> None
     | c # r \<Rightarrow> if c = CHR ''0'' then Some ([c], r)
                else if is_digit c then Some (split_digits s) else None)"

definition jfrac_part :: "string \<Rightarrow> string \<times> string" where
  "jfrac_part s = (case s of
     c # r \<Rightarrow> if c = CHR ''.'' \<and> takeWhile is_digit r \<noteq> [] then split_digits r else ([], s)
   | [] \<Rightarrow> ([], s))"

definition jexp_part :: "string \<Rightarrow> int option \<times> string" where
  "jexp_part s = (case s of
     c # r \<Rightarrow>
       if c = CHR ''e'' \<or> c = CHR ''E'' then
         (let neg = (case r of x # _ \<Rightarrow> x = CHR ''-'' | [] \<Rightarrow> False);
              r' = (case r of x # q \<Rightarrow> if x = CHR ''-'' \<or> x = CHR ''+'' then q else r | [] \<Rightarrow> r) in
          case parse_nat (takeWhile is_digit r') of
            None \<Rightarrow> (None, s)
          | Some n \<Rightarrow> (Some (if neg then - int n else int n), dropWhile is_digit r'))
       else (None, s)
   | [] \<Rightarrow> (None, s))"

definition dec_rat :: "bool \<Rightarrow> string \<Rightarrow> string \<Rightarrow> int \<Rightarrow> rat" where
  "dec_rat neg ip fp ex =
     (let digits = (case parse_nat (ip @ fp) of Some n \<Rightarrow> n | None \<Rightarrow> 0);
          sh = ex - int (length fp);
          m = (if neg then - of_nat digits else of_nat digits) in
      if 0 \<le> sh then m * 10 ^ nat sh else m / 10 ^ nat (- sh))"

definition jnum :: "string \<Rightarrow> (pv \<times> string) option" where
  "jnum s =
     (let neg = (case s of x # _ \<Rightarrow> x = CHR ''-'' | [] \<Rightarrow> False);
          s' = (if neg then tl s else s) in
      case jint_part s' of
        None \<Rightarrow> None
      | Some (ip, r) \<Rightarrow>
          (case jfrac_part r of (fp, r1) \<Rightarrow> (case jexp_part r1 of (ex, r2) \<Rightarrow>
             if fp = [] \<and> ex = None then
               (case parse_nat ip of None \<Rightarrow> None
                | Some n \<Rightarrow> Some (PInt (if neg then - int n else int n), r))
             else Some (PFloat (FFin (dec_rat neg ip fp (case ex of None \<Rightarrow> 0 | Some e \<Rightarrow> e))
                                    (take (length s - length r2) s)), r2))))"

definition jlit :: "string \<Rightarrow> (pv \<times> string) option" where
  "jlit s = (if startswith ''null'' s then Some (PNone, drop 4 s)
     else if startswith ''true'' s then Some (PBool True, drop 4 s)
     else if startswith ''false'' s then Some (PBool False, drop 5 s)
     else if startswith ''NaN'' s then Some (PFloat FNaN, drop 3 s)
     else if startswith ''Infinity'' s then Some (PFloat FPosInf, drop 8 s)
     else if startswith ''-Infinity'' s then Some (PFloat FNegInf, drop 9 s)
     else jnum s)"

fun jval :: "nat \<Rightarrow> string \<Rightarrow> (pv \<times> string) option"
  and jitems :: "nat \<Rightarrow> string \<Rightarrow> (pv list \<times> string) option"
  and jmembers :: "nat \<Rightarrow> string \<Rightarrow> (pdict \<times> string) option"
where
  "jval 0 s = None"
| "jval (Suc n) s = (case s of
     [] \<Rightarrow> None
   | c # r \<Rightarrow>
       if c = CHR 0x22 then map_option (\<lambda>(t, q). (PStr t, q)) (jstr r)
       else if c = CHR ''['' then
         (case skip_ws r of
            [] \<Rightarrow> None
          | x # q \<Rightarrow> if x = CHR '']'' then Some (PList [], q)
                     else map_option (\<lambda>(xs, u). (PList xs, u)) (jitems n (x # q)))
       else if c = CHR ''{'' then
         (case skip_ws r of
            [] \<Rightarrow> None
          | x # q \<Rightarrow> if x = CHR ''}'' then Some (PDict [], q)
                     else map_option (\<lambda>(d, u). (PDict (dupdate [] d), u)) (jmembers n (x # q)))
       else jlit s)"
| "jitems 0 s = None"
| "jitems (Suc n) s = (case jval n s of
     None \<Rightarrow> None
   | Some (v, r) \<Rightarrow>
       (case skip_ws r of
          [] \<Rightarrow> None
        | x # q \<Rightarrow> if x = CHR '']'' then Some ([v], q)
                   else if x = CHR '','' then map_option (cons_fst v) (jitems n (skip_ws q))
                   else None))"
| "jmembers 0 s = None"
| "jmembers (Suc n) s = (case s of
     [] \<Rightarrow> None
   | c # r \<Rightarrow>
       if c \<noteq> CHR 0x22 then None
       else (case jstr r of
          None \<Rightarrow> None
        | Some (k, r1) \<Rightarrow>
            (case skip_ws r1 of
               [] \<Rightarrow> None
             | x # q \<Rightarrow>
                 if x \<noteq> CHR '':'' then None
                 else (case jval n (skip_ws q) of
                    None \<Rightarrow> None
                  | Some (v, r2) \<Rightarrow>
                      (case skip_ws r2 of
                         [] \<Rightarrow> None
                       | y # z \<Rightarrow> if y = CHR ''}'' then Some ([(k, v)], z)
                                  else if y = CHR '','' then
                                    map_option (cons_fst (k, v)) (jmembers n (skip_ws z))
                                  else None)))))"

definition loads :: "string \<Rightarrow> pv option" where
  "loads s = (case jval (Suc (2 * length s)) (skip_ws s) of
     Some (v, r) \<Rightarrow> if skip_ws r = [] then Some v else None
   | None \<Rightarrow> None)"

section \<open>Reading back\<close>

lemma hex_val_dig [simp]: "hex_val (hex_dig n) = Some (n mod 16)"
proof -
  have "n mod 16 < 16" by simp
  moreover have "\<forall>k \<in> {0..<16}. hex_val (''0123456789abcdef'' ! k) = Some k"
    by (simp add: hex_val_def code_pt_def atLeastLessThan_nat_numeral)
  ultimately show ?thesis by (simp add: hex_dig_def)
qed

lemma hex2_val_digs: "n < 256 \<Longrightarrow> hex2_val (hex_dig (n div 16)) (hex_dig n) = Some n"
  by (simp add: hex2_val_def less_mult_imp_div_less div_mult_mod_eq)

lemma code_pt_inj: "code_pt c = code_pt d \<Longrightarrow> c = d"
  by (simp add: code_pt_def)

lemma ctrl_chars:
  "code_pt c = 8 \<Longrightarrow> c = CHR 0x08" "code_pt c = 9 \<Longrightarrow> c = CHR 0x09"
  "code_pt c = 10 \<Longrightarrow> c = CHR 0x0A" "code_pt c = 12 \<Longrightarrow> c = CHR 0x0C"
  "code_pt c = 13 \<Longrightarrow> c = CHR 0x0D"
  by (rule code_pt_inj, simp add: code_pt_def)+

lemma jstr_char: "jstr (json_char c @ t) = map_option (cons_fst c) (jstr t)"
proof -
  consider "code_pt c \<in> {8, 9, 10, 12, 13}" | "32 \<le> code_pt c \<and> code_pt c \<le> 126"
    | "code_pt c \<notin> {8, 9, 10, 12, 13}" "\<not> (32 \<le> code_pt c \<and> code_pt c \<le> 126)"
    by blast
  then show ?thesis
  proof cases
    case 1
    then have "c = CHR 0x08 \<or> c = CHR 0x09 \<or> c = CHR 0x0A \<or> c = CHR 0x0C \<or> c = CHR 0x0D"
      using ctrl_chars by auto
    then show ?thesis
      by (auto simp: json_char_def unescape_def code_pt_def)
  next
    case 2
    then show ?thesis
      by (auto simp: json_char_def Let_def unescape_def)
  next
    case 3
    then have "json_char c = [CHR 0x5C, CHR ''u'', CHR ''0'', CHR ''0'', hex_dig (code_pt c div 16),
        hex_dig (code_pt c)]"
      by (auto simp: json_char_def Let_def code_pt_def)
    then show ?thesis by (simp add: hex2_val_digs)
  qed
qed

lemma jstr_json: "jstr (concat (map json_char s) @ CHR 0x22 # rest) = Some (s, rest)"
  by (induction s) (simp_all add: jstr_char cons_fst_def)

text \<open>What follows a value inside a text.\<close>

definition delim :: "string \<Rightarrow> bool" where
  "delim r = (case r of [] \<Rightarrow> True | c # _ \<Rightarrow> c = CHR '','' \<or> c = CHR '']'' \<or> c = CHR ''}'')"

lemma delim_no_digit: "delim r \<Longrightarrow> takeWhile is_digit r = [] \<and> dropWhile is_digit r = r"
  by (auto simp: delim_def is_digit_def code_pt_def split: list.splits)

lemma digits_split:
  "delim r \<Longrightarrow> takeWhile is_digit (nat_str n @ r) = nat_str n \<and> dropWhile is_digit (nat_str n @ r) = r"
  by (simp add: takeWhile_append2 dropWhile_append2 nat_str_digits delim_no_digit)

lemma nat_str_hd: "0 < n \<Longrightarrow> \<exists>c t. nat_str n = c # t \<and> is_digit c \<and> c \<noteq> CHR ''0''"
proof (induction n rule: nat_str.induct)
  case (1 n)
  show ?case
  proof (cases "n < 10")
    case True
    have "code_pt (dig n) \<noteq> code_pt CHR ''0''"
      using True 1(2) by (simp add: code_pt_dig) (simp add: code_pt_def)
    then have "dig n \<noteq> CHR ''0''" by metis
    with True show ?thesis by (subst nat_str.simps) simp
  next
    case False
    then have "0 < n div 10" by simp
    with 1(1) False obtain c t where "nat_str (n div 10) = c # t" "is_digit c" "c \<noteq> CHR ''0''"
      by blast
    with False show ?thesis by (subst nat_str.simps) simp
  qed
qed

lemma jint_part_nat: "delim r \<Longrightarrow> jint_part (nat_str n @ r) = Some (nat_str n, r)"
proof (cases "n = 0")
  case True
  moreover have "dig 0 = CHR ''0''" by (rule code_pt_inj) (simp, simp add: code_pt_def)
  ultimately show ?thesis by (subst (1 2) nat_str.simps) (simp add: jint_part_def)
next
  case False
  assume d: "delim r"
  from False nat_str_hd obtain c t where c: "nat_str n = c # t" "is_digit c" "c \<noteq> CHR ''0''" by blast
  with digits_split [OF d, of n] show ?thesis
    by (simp add: jint_part_def split_digits_def)
qed

lemma delim_parts: "delim r \<Longrightarrow> jfrac_part r = ([], r) \<and> jexp_part r = (None, r)"
  by (auto simp: delim_def jfrac_part_def jexp_part_def split: list.splits)

lemma not_minus_digit: "is_digit c \<Longrightarrow> c \<noteq> CHR ''-''"
  by (auto simp: is_digit_def code_pt_def)

lemma jnum_int: "delim r \<Longrightarrow> jnum (int_str i @ r) = Some (PInt i, r)"
proof -
  assume d: "delim r"
  have first: "\<exists>c t. nat_str n = c # t \<and> c \<noteq> CHR ''-''" for n
    by (metis list.exhaust list.set_intros(1) nat_str_digits nat_str_ne not_minus_digit)
  show ?thesis
  proof (cases "i < 0")
    case True
    with d show ?thesis
      by (simp add: jnum_def int_str_def Let_def jint_part_nat delim_parts)
  next
    case False
    obtain c t where "nat_str (nat i) = c # t" "c \<noteq> CHR ''-''" using first by blast
    with False d jint_part_nat [OF d, of "nat i"] show ?thesis
      by (simp add: jnum_def int_str_def Let_def delim_parts) (metis nat_0_le not_less parse_nat_str option.simps(5))
  qed
qed

lemma jlit_int: "delim r \<Longrightarrow> jlit (int_str i @ r) = Some (PInt i, r)"
proof -
  assume d: "delim r"
  obtain c t where c: "int_str i = c # t" "c = CHR ''-'' \<or> is_digit c"
    "c = CHR ''-'' \<Longrightarrow> \<exists>x u. t = x # u \<and> is_digit x"
  proof (cases "i < 0")
    case True
    obtain x u where "nat_str (nat (- i)) = x # u" by (cases "nat_str (nat (- i))") auto
    moreover from this have "is_digit x" by (metis list.set_intros(1) nat_str_digits)
    ultimately show ?thesis using that True by (simp add: int_str_def)
  next
    case False
    obtain x u where "nat_str (nat i) = x # u" by (cases "nat_str (nat i)") auto
    moreover from this have "is_digit x" by (metis list.set_intros(1) nat_str_digits)
    ultimately show ?thesis using that False by (auto simp: int_str_def dest: not_minus_digit)
  qed
  then have "\<not> startswith ''null'' (int_str i @ r)" "\<not> startswith ''true'' (int_str i @ r)"
    "\<not> startswith ''false'' (int_str i @ r)" "\<not> startswith ''NaN'' (int_str i @ r)"
    "\<not> startswith ''Infinity'' (int_str i @ r)" "\<not> startswith ''-Infinity'' (int_str i @ r)"
    by (auto simp: startswith_def is_digit_def code_pt_def)
  then show ?thesis using jnum_int [OF d] by (simp add: jlit_def)
qed

text \<open>The values that survive a trip through a text: no float, no datetime, distinct keys.\<close>

fun jsonable :: "pv \<Rightarrow> bool" where
  "jsonable (PFloat _) = False"
| "jsonable (PTime _) = False"
| "jsonable (PList xs) = list_all jsonable xs"
| "jsonable (PDict d) = (wf_keys d \<and> list_all (\<lambda>(_, v). jsonable v) d)"
| "jsonable _ = True"

definition no_ws :: "string \<Rightarrow> bool" where
  "no_ws s = (case s of [] \<Rightarrow> False
     | c # _ \<Rightarrow> \<not> json_ws c \<and> c \<noteq> CHR '']'' \<and> c \<noteq> CHR ''}'')"

lemma skip_no_ws: "no_ws s \<Longrightarrow> skip_ws (s @ r) = s @ r"
  by (cases s) (simp_all add: no_ws_def skip_ws_def)

lemma digit_no_ws: "is_digit c \<Longrightarrow> \<not> json_ws c \<and> c \<noteq> CHR '']'' \<and> c \<noteq> CHR ''}'' \<and> c \<noteq> CHR 0x22
    \<and> c \<noteq> CHR ''['' \<and> c \<noteq> CHR ''{''"
  by (auto simp: is_digit_def json_ws_def code_pt_def)

lemma int_str_hd: "\<exists>c t. int_str i = c # t \<and> (c = CHR ''-'' \<or> is_digit c)"
  by (metis int_str_def list.exhaust list.set_intros(1) nat_str_digits nat_str_ne)

lemma dumps_no_ws: "jsonable v \<Longrightarrow> no_ws (dumps_compact v)"
proof (cases v)
  case (PInt i)
  obtain c t where "int_str i = c # t" "c = CHR ''-'' \<or> is_digit c" using int_str_hd by blast
  then show ?thesis
    using PInt by (auto simp: no_ws_def is_digit_def json_ws_def code_pt_def)
qed (auto simp: no_ws_def json_ws_def code_pt_def json_str_def)

lemma jval_int: "delim r \<Longrightarrow> jval (Suc n) (int_str i @ r) = Some (PInt i, r)"
proof -
  assume "delim r"
  obtain c t where c: "int_str i = c # t" "c = CHR ''-'' \<or> is_digit c" using int_str_hd by blast
  have "jval (Suc n) (int_str i @ r) = jlit (int_str i @ r)"
    using c digit_no_ws [of c] by auto
  with jlit_int [OF \<open>delim r\<close>] show ?thesis by simp
qed

text \<open>What the reader must do on the text of a value, whatever follows.\<close>

definition reads :: "pv \<Rightarrow> bool" where
  "reads v = (\<forall>n r. length (dumps_compact v) < n \<longrightarrow> delim r \<longrightarrow> jval n (dumps_compact v @ r) = Some (v, r))"

lemma delim_simps [simp]: "delim (CHR '','' # r)" "delim (CHR '']'' # r)" "delim (CHR ''}'' # r)" "delim []"
  by (simp_all add: delim_def)

lemma skip_punct [simp]:
  "skip_ws (CHR '','' # r) = CHR '','' # r" "skip_ws (CHR '']'' # r) = CHR '']'' # r"
  "skip_ws (CHR ''}'' # r) = CHR ''}'' # r" "skip_ws (CHR '':'' # r) = CHR '':'' # r"
  "skip_ws (CHR 0x22 # r) = CHR 0x22 # r" "skip_ws [] = []"
  by (simp_all add: skip_ws_def json_ws_def code_pt_def)

lemma readsD: "reads v \<Longrightarrow> length (dumps_compact v) < n \<Longrightarrow> delim r \<Longrightarrow>
    jval n (dumps_compact v @ r) = Some (v, r)"
  by (simp add: reads_def)

lemma jitems_reads:
  "xs \<noteq> [] \<Longrightarrow> list_all (\<lambda>v. reads v \<and> no_ws (dumps_compact v)) xs \<Longrightarrow>
   Suc (length (py_join '','' (map dumps_compact xs))) < n \<Longrightarrow>
   jitems n (py_join '','' (map dumps_compact xs) @ CHR '']'' # r) = Some (xs, r)"
proof (induction xs arbitrary: n)
  case (Cons v xs)
  from Cons.prems(3) obtain m where n: "n = Suc m" by (cases n) auto
  have v: "reads v" "no_ws (dumps_compact v)" using Cons.prems(2) by auto
  show ?case
  proof (cases xs)
    case Nil
    have "jval m (dumps_compact v @ CHR '']'' # r) = Some (v, CHR '']'' # r)"
      using Nil Cons.prems(3) n by (intro readsD v) auto
    with Nil n show ?thesis by simp
  next
    case (Cons w ws)
    let ?t = "py_join '','' (map dumps_compact xs)"
    have j: "py_join '','' (map dumps_compact (v # xs)) = dumps_compact v @ CHR '','' # ?t"
      using Cons by simp
    have "jval m (dumps_compact v @ CHR '','' # ?t @ CHR '']'' # r)
        = Some (v, CHR '','' # ?t @ CHR '']'' # r)"
      using Cons.prems(3) n unfolding j by (intro readsD v) auto
    moreover have "jitems m (?t @ CHR '']'' # r) = Some (xs, r)"
      using Cons.prems Cons n unfolding j by (intro Cons.IH) auto
    moreover have "no_ws ?t"
    proof -
      have "no_ws (dumps_compact w)" using Cons.prems(2) Cons by simp
      then show ?thesis using Cons by (cases ws; cases "dumps_compact w") (auto simp: no_ws_def)
    qed
    ultimately show ?thesis
      unfolding j n by (simp add: skip_no_ws cons_fst_def)
  qed
qed simp

definition member_text :: "string \<times> pv \<Rightarrow> string" where
  "member_text kv = (case kv of (k, v) \<Rightarrow> json_str k @ '':'' @ dumps_compact v)"

lemma dumps_dict: "dumps_compact (PDict d) = ''{'' @ py_join '','' (map member_text d) @ ''}''"
proof -
  have "member_text = (\<lambda>(k, v). json_str k @ '':'' @ dumps_compact v)"
    by (simp add: fun_eq_iff member_text_def)
  then show ?thesis by simp
qed

lemma json_str_Cons: "json_str k @ r = CHR 0x22 # concat (map json_char k) @ CHR 0x22 # r"
  by (simp add: json_str_def)

lemma jmembers_reads:
  "d \<noteq> [] \<Longrightarrow> list_all (\<lambda>(k, v). reads v \<and> no_ws (dumps_compact v)) d \<Longrightarrow>
   Suc (length (py_join '','' (map member_text d))) < n \<Longrightarrow>
   jmembers n (py_join '','' (map member_text d) @ CHR ''}'' # r) = Some (d, r)"
proof (induction d arbitrary: n)
  case (Cons kv d)
  obtain k v where kv: "kv = (k, v)" by fastforce
  from Cons.prems(3) obtain m where n: "n = Suc m" by (cases n) auto
  have v: "reads v" "no_ws (dumps_compact v)" using Cons.prems(2) kv by auto
  have one: "jmembers n (member_text kv @ u) =
      (case skip_ws u of [] \<Rightarrow> None
       | y # z \<Rightarrow> if y = CHR ''}'' then Some ([(k, v)], z)
                  else if y = CHR '','' then map_option (cons_fst (k, v)) (jmembers m (skip_ws z))
                  else None)"
    if "delim u" "length (dumps_compact v) < m" for u
    unfolding n member_text_def kv
    using readsD [OF v(1) that(2,1)] skip_no_ws [OF v(2), of u]
    by (simp add: json_str_Cons jstr_json)
  show ?case
  proof (cases d)
    case Nil
    have "length (dumps_compact v) < m" using Nil Cons.prems(3) n by (simp add: kv member_text_def)
    then show ?thesis using Nil kv one [of "CHR ''}'' # r"] by simp
  next
    case (Cons kw ws)
    let ?t = "py_join '','' (map member_text d)"
    have j: "py_join '','' (map member_text (kv # d)) = member_text kv @ CHR '','' # ?t"
      using Cons by simp
    have m: "length (dumps_compact v) < m"
      using Cons.prems(3) n unfolding j by (simp add: kv member_text_def)
    have "jmembers m (?t @ CHR ''}'' # r) = Some (d, r)"
      using Cons.prems Cons n unfolding j by (intro Cons.IH) (auto simp: kv)
    moreover have "skip_ws (?t @ CHR ''}'' # r) = ?t @ CHR ''}'' # r"
      using Cons by (cases kw; cases ws) (simp_all add: member_text_def json_str_def)
    ultimately show ?thesis
      unfolding j using m kv one [of "CHR '','' # ?t @ CHR ''}'' # r"] by (simp add: cons_fst_def)
  qed
qed simp

lemma dupdate_new: "wf_keys (e @ d) \<Longrightarrow> dupdate e d = e @ d"
proof (induction d arbitrary: e)
  case (Cons kv d)
  obtain k v where kv: "kv = (k, v)" by fastforce
  have "dset k v e = e @ [(k, v)]"
  proof -
    have "k \<notin> fst ` set e" using Cons.prems kv by auto
    then show ?thesis by (induction e) auto
  qed
  with Cons.IH [of "e @ [kv]"] Cons.prems kv show ?case by simp
qed simp

lemma jval_list: "jval (Suc n) (CHR ''['' # t @ r) =
    (case skip_ws (t @ r) of [] \<Rightarrow> None
     | x # q \<Rightarrow> if x = CHR '']'' then Some (PList [], q)
                else map_option (\<lambda>(xs, u). (PList xs, u)) (jitems n (x # q)))"
  by simp

lemma jval_dict: "jval (Suc n) (CHR ''{'' # t @ r) =
    (case skip_ws (t @ r) of [] \<Rightarrow> None
     | x # q \<Rightarrow> if x = CHR ''}'' then Some (PDict [], q)
                else map_option (\<lambda>(d, u). (PDict (dupdate [] d), u)) (jmembers n (x # q)))"
  by simp

lemma reads_list:
  assumes "list_all (\<lambda>v. reads v \<and> no_ws (dumps_compact v)) xs"
  shows "reads (PList xs)"
  unfolding reads_def
proof (intro allI impI)
  fix n r assume n: "length (dumps_compact (PList xs)) < n" and "delim r"
  then obtain m where m: "n = Suc m" by (cases n) auto
  let ?t = "py_join '','' (map dumps_compact xs)"
  show "jval n (dumps_compact (PList xs) @ r) = Some (PList xs, r)"
  proof (cases xs)
    case Nil
    then show ?thesis by (simp add: m)
  next
    case (Cons w ws)
    have "no_ws (dumps_compact w)" using assms Cons by simp
    then have w: "no_ws ?t"
      using Cons by (cases ws; cases "dumps_compact w") (auto simp: no_ws_def)
    have i: "jitems m (?t @ CHR '']'' # r) = Some (xs, r)"
      using Cons n m by (intro jitems_reads assms) auto
    from w obtain c u where t: "?t = c # u" "c \<noteq> CHR '']''"
      by (cases ?t) (auto simp: no_ws_def)
    have "dumps_compact (PList xs) @ r = CHR ''['' # ?t @ CHR '']'' # r" by simp
    then show ?thesis
      unfolding m using jval_list [of m ?t "CHR '']'' # r"] skip_no_ws [OF w, of "CHR '']'' # r"] i t
      by (simp del: jval.simps dumps.simps)
  qed
qed

lemma reads_dict:
  assumes "list_all (\<lambda>(k, v). reads v \<and> no_ws (dumps_compact v)) d" "wf_keys d"
  shows "reads (PDict d)"
  unfolding reads_def
proof (intro allI impI)
  fix n r assume n: "length (dumps_compact (PDict d)) < n" and "delim r"
  then obtain m where m: "n = Suc m" by (cases n) auto
  let ?t = "py_join '','' (map member_text d)"
  show "jval n (dumps_compact (PDict d) @ r) = Some (PDict d, r)"
  proof (cases d)
    case Nil
    then show ?thesis by (simp add: m)
  next
    case (Cons kw ws)
    have i: "jmembers m (?t @ CHR ''}'' # r) = Some (d, r)"
      using Cons n m by (intro jmembers_reads assms(1)) (auto simp: dumps_dict simp del: dumps.simps)
    obtain u where t: "?t = CHR 0x22 # u"
      using Cons by (cases kw; cases ws) (simp_all add: member_text_def json_str_def)
    have "dumps_compact (PDict d) @ r = CHR ''{'' # ?t @ CHR ''}'' # r" by (simp add: dumps_dict del: dumps.simps)
    then show ?thesis
      unfolding m using jval_dict [of m ?t "CHR ''}'' # r"] i t dupdate_new [of "[]" d] assms(2)
      by (simp del: jval.simps dumps.simps)
  qed
qed

lemma reads_jsonable: "jsonable v \<Longrightarrow> reads v"
proof (induction v)
  case (PInt i)
  show ?case unfolding reads_def
  proof (intro allI impI)
    fix n r assume "length (dumps_compact (PInt i)) < n" "delim r"
    then show "jval n (dumps_compact (PInt i) @ r) = Some (PInt i, r)"
      by (cases n) (simp_all add: jval_int del: jval.simps)
  qed
next
  case (PStr s)
  show ?case unfolding reads_def
  proof (intro allI impI)
    fix n r assume "length (dumps_compact (PStr s)) < n"
    then show "jval n (dumps_compact (PStr s) @ r) = Some (PStr s, r)"
      by (cases n) (simp_all add: json_str_def jstr_json)
  qed
next
  case (PList xs)
  then show ?case by (intro reads_list) (auto simp: list_all_iff intro: dumps_no_ws)
next
  case (PDict d)
  then show ?case by (intro reads_dict) (fastforce simp: list_all_iff intro: dumps_no_ws)+
qed (auto simp: reads_def jlit_def startswith_def elim!: less_natE)

lemma loads_dumps: "jsonable v \<Longrightarrow> loads (dumps_compact v) = Some v"
  using readsD [OF reads_jsonable, of v "Suc (2 * length (dumps_compact v))" "[]"]
    skip_no_ws [OF dumps_no_ws, of v "[]"]
  by (simp add: loads_def del: jval.simps)

interpretation json: codec dumps_compact loads jsonable
  by unfold_locales (rule loads_dumps)

end
