(* ===== verification/Pagination.thy ===== *)
theory Pagination
  imports Json Tables
begin

text \<open>
  \<open>app/pagination.py\<close> and the list envelope of \<open>app/models/common.py\<close>: offset pages behind an
  opaque, expiring cursor, pages around an item id, the \<open>created_at\<close> filters and the sort order.
  A cursor is the URL-safe base64 of a JSON object without its padding; \<open>decode_encode_page\<close> rests on
  the two codecs. \<open>walk_pages\<close> follows the cursors a server hands out until there is none;
  \<open>walk_all\<close> says that it sees every item once, in order.
\<close>

section \<open>List responses\<close>

record 'a list_response =
  lr_data :: "'a list"
  lr_has_more :: bool
  lr_first_id :: "string option"
  lr_last_id :: "string option"
  lr_next_page :: "string option"

text \<open>\<open>_item_id\<close> and \<open>id_of\<close> on a response dict.\<close>

definition item_id :: "pdict \<Rightarrow> string option" where
  "item_id d = (case dget ''id'' d of PStr s \<Rightarrow> Some s | _ \<Rightarrow> None)"

definition from_items :: "('a \<Rightarrow> string option) \<Rightarrow> 'a list \<Rightarrow> bool \<Rightarrow> string option \<Rightarrow> 'a list_response" where
  "from_items idf items has_more next_page =
     \<lparr>lr_data = items, lr_has_more = has_more,
      lr_first_id = (if items = [] then None else idf (hd items)),
      lr_last_id = (if items = [] then None else idf (last items)),
      lr_next_page = next_page\<rparr>"

section \<open>Cursors\<close>

definition DEFAULT_LIMIT :: int where "DEFAULT_LIMIT = 50"
definition MAX_LIMIT :: int where "MAX_LIMIT = 1000"
definition PAGE_CURSOR_TTL_SECONDS :: int where "PAGE_CURSOR_TTL_SECONDS = 15 * 60"

text \<open>\<^theory_text>\<open>int(datetime.now(timezone.utc).timestamp())\<close>\<close>

definition epoch_seconds :: "int \<Rightarrow> int" where
  "epoch_seconds t = (let d = t - 62135596800 * 1000000 in
     if 0 \<le> d then d div 1000000 else - ((- d) div 1000000))"

definition page_limit :: "int option \<Rightarrow> int \<Rightarrow> int" where
  "page_limit value max_limit = (case value of
      None \<Rightarrow> DEFAULT_LIMIT | Some v \<Rightarrow> max 1 (min v max_limit))"

definition cursor_expires_at :: "pdict \<Rightarrow> int option res" where
  "cursor_expires_at cursor = (case dget ''expires_at'' cursor of
      PNone \<Rightarrow> Inr None
    | v \<Rightarrow> bindE (py_int v) (\<lambda>i. Inr (Some i)))"

text \<open>\<^theory_text>\<open>bytes.decode("utf-8")\<close>, for text within Latin-1.\<close>

fun utf8_decode :: "string \<Rightarrow> string option" where
  "utf8_decode [] = Some []"
| "utf8_decode (c # s) =
     (if code_pt c < 128 then map_option ((#) c) (utf8_decode s)
      else if code_pt c = 194 \<or> code_pt c = 195 then
        (case s of
           [] \<Rightarrow> None
         | d # r \<Rightarrow> if 128 \<le> code_pt d \<and> code_pt d < 192
                    then map_option ((#) (char_of ((code_pt c - 192) * 64 + (code_pt d - 128)))) (utf8_decode r)
                    else None)
      else None)"

text \<open>The \<^theory_text>\<open>try\<close> block of \<open>_decode_page\<close>; every exception in it becomes the same 400.\<close>

definition read_cursor :: "string \<Rightarrow> (int \<times> int option) option" where
  "read_cursor value =
     (let payload = removeprefix ''page_'' value in
      if \<not> list_all (\<lambda>c. code_pt c < 128) payload then None
      else (case urlsafe_b64decode (payload @ ''==='') of
          None \<Rightarrow> None
        | Some bytes \<Rightarrow>
            (case utf8_decode bytes of
               None \<Rightarrow> None
             | Some text \<Rightarrow>
                 (case loads text of
                    Some (PDict cursor) \<Rightarrow>
                      (case bindE (py_int (dget ''offset'' cursor)) (\<lambda>offset.
                            bindE (cursor_expires_at cursor) (\<lambda>e. Inr (offset, e))) of
                         Inl _ \<Rightarrow> None | Inr r \<Rightarrow> Some r)
                  | _ \<Rightarrow> None))))"

definition decode_page :: "string option \<Rightarrow> int M" where
  "decode_page value =
     (case value of
        None \<Rightarrow> returnM 0
      | Some v \<Rightarrow>
          if v = [] then returnM 0
          else if \<not> startswith ''page_'' v then raiseM (HTTPException 400 ''Invalid page cursor'')
          else (case read_cursor v of
              None \<Rightarrow> raiseM (HTTPException 400 ''Invalid page cursor'')
            | Some (offset, None) \<Rightarrow> returnM (max 0 offset)
            | Some (offset, Some expires_at) \<Rightarrow>
                bindM nowM (\<lambda>t.
                if expires_at \<le> epoch_seconds t
                then raiseM (HTTPException 400 ''Expired page cursor'')
                else returnM (max 0 offset))))"

definition cursor_text :: "int \<Rightarrow> int \<Rightarrow> string" where
  "cursor_text offset expires_at =
     dumps_compact (PDict [(''offset'', PInt offset), (''expires_at'', PInt expires_at)])"

definition encode_page :: "int \<Rightarrow> string M" where
  "encode_page offset = bindM nowM (\<lambda>t.
     returnM (''page_'' @ rstrip_char CHR ''='' (urlsafe_b64encode
       (utf8_encode (cursor_text offset (epoch_seconds t + PAGE_CURSOR_TTL_SECONDS))))))"

section \<open>Pages\<close>

definition paginate ::
  "('a \<Rightarrow> string option) \<Rightarrow> 'a list \<Rightarrow> int option \<Rightarrow> string option \<Rightarrow> int \<Rightarrow> 'a list_response M" where
  "paginate idf all_items limit page max_limit =
     (let page_size = page_limit limit max_limit in
      bindM (decode_page page) (\<lambda>offset.
      let sliced = take (nat page_size) (drop (nat offset) all_items);
          next_offset = offset + page_size
      in bindM (if next_offset < int (length all_items)
                then bindM (encode_page next_offset) (\<lambda>c. returnM (Some c))
                else returnM None) (\<lambda>next_page.
         returnM (from_items idf sliced (next_page \<noteq> None) next_page))))"

fun index_from :: "('a \<Rightarrow> string option) \<Rightarrow> nat \<Rightarrow> 'a list \<Rightarrow> string \<Rightarrow> nat res" where
  "index_from idf n [] i = Inl (HTTPException 400 ''Invalid pagination cursor'')"
| "index_from idf n (x # xs) i = (if idf x = Some i then Inr n else index_from idf (Suc n) xs i)"

definition index_of :: "('a \<Rightarrow> string option) \<Rightarrow> 'a list \<Rightarrow> string \<Rightarrow> nat res" where
  "index_of idf items i = index_from idf 0 items i"

definition index_after :: "('a \<Rightarrow> string option) \<Rightarrow> 'a list \<Rightarrow> string \<Rightarrow> nat res" where
  "index_after idf items i = bindE (index_of idf items i) (\<lambda>n. Inr (n + 1))"

definition given_str :: "string option \<Rightarrow> bool" where
  "given_str s = (case s of None \<Rightarrow> False | Some x \<Rightarrow> x \<noteq> [])"

definition paginate_by_id :: "('a \<Rightarrow> string option) \<Rightarrow> 'a list \<Rightarrow> int option \<Rightarrow> string option \<Rightarrow>
    string option \<Rightarrow> int \<Rightarrow> 'a list_response res" where
  "paginate_by_id idf all_items limit after_id before_id max_limit =
     bindE (raise_if (given_str after_id \<and> given_str before_id)
       (HTTPException 400 ''Only one of after_id or before_id may be provided'')) (\<lambda>_.
     let page_size = nat (page_limit limit max_limit) in
     bindE (if given_str after_id then index_after idf all_items (the after_id)
            else if given_str before_id then
              bindE (index_of idf all_items (the before_id)) (\<lambda>n. Inr (n - page_size))
            else Inr 0) (\<lambda>offset.
     let sliced = take page_size (drop offset all_items);
         has_more = offset + page_size < length all_items
     in Inr (from_items idf sliced has_more None)))"

section \<open>Filters and order on creation time\<close>

definition parse_datetime :: "pv \<Rightarrow> pydt option res" where
  "parse_datetime v = (case v of
      PNone \<Rightarrow> Inr None
    | PTime t \<Rightarrow> Inr (Some (utc_dt t))
    | PStr s \<Rightarrow> (case fromisoformat (replace_char CHR ''Z'' ''+00:00'' s) of
                   None \<Rightarrow> Inl (ValueError ''Invalid isoformat string'')
                 | Some d \<Rightarrow> Inr (Some d))
    | _ \<Rightarrow> Inl AttributeError)"

definition created_at_of :: "pdict \<Rightarrow> pydt option res" where
  "created_at_of d = parse_datetime (dget ''created_at'' d)"

definition dt_lt :: "pydt \<Rightarrow> pydt \<Rightarrow> bool res" where
  "dt_lt a b = bindE (dt_le b a) (\<lambda>le. Inr (\<not> le))"

text \<open>One bound: without it nothing is skipped, with it \<open>skip\<close> decides.\<close>

definition bound_skips :: "(pydt \<Rightarrow> pydt \<Rightarrow> bool res) \<Rightarrow> pydt \<Rightarrow> pydt option \<Rightarrow> bool res" where
  "bound_skips skip value b = (case b of None \<Rightarrow> Inr False | Some x \<Rightarrow> skip value x)"

definition keep_item ::
  "pydt option \<Rightarrow> pydt option \<Rightarrow> pydt option \<Rightarrow> pydt option \<Rightarrow> pydt option \<Rightarrow> bool res" where
  "keep_item gt gte lt lte value = (case value of
      None \<Rightarrow> Inr False
    | Some v \<Rightarrow>
        bindE (bound_skips dt_le v gt) (\<lambda>s1. if s1 then Inr False else
        bindE (bound_skips dt_lt v gte) (\<lambda>s2. if s2 then Inr False else
        bindE (bound_skips (\<lambda>x y. dt_le y x) v lt) (\<lambda>s3. if s3 then Inr False else
        bindE (bound_skips (\<lambda>x y. dt_lt y x) v lte) (\<lambda>s4. Inr (\<not> s4))))))"

fun filterE :: "('a \<Rightarrow> bool res) \<Rightarrow> 'a list \<Rightarrow> 'a list res" where
  "filterE p [] = Inr []"
| "filterE p (x # xs) = bindE (p x) (\<lambda>b. bindE (filterE p xs) (\<lambda>ys. Inr (if b then x # ys else ys)))"

definition filter_created_at ::
  "('a \<Rightarrow> pydt option res) \<Rightarrow> 'a list \<Rightarrow> pv \<Rightarrow> pv \<Rightarrow> pv \<Rightarrow> pv \<Rightarrow> 'a list res" where
  "filter_created_at created items created_at_gt created_at_gte created_at_lt created_at_lte =
     bindE (parse_datetime created_at_gt) (\<lambda>gt.
     bindE (parse_datetime created_at_gte) (\<lambda>gte.
     bindE (parse_datetime created_at_lt) (\<lambda>lt.
     bindE (parse_datetime created_at_lte) (\<lambda>lte.
     filterE (\<lambda>item. bindE (created item) (keep_item gt gte lt lte)) items))))"

definition normalize_sort_order :: "string option \<Rightarrow> string \<Rightarrow> string res" where
  "normalize_sort_order order dflt =
     (let normalized = py_lower (case order of None \<Rightarrow> dflt
                                 | Some s \<Rightarrow> if s = [] then dflt else s) in
      if normalized \<in> {''asc'', ''desc''} then Inr normalized
      else Inl (HTTPException 422 ''order must be asc or desc''))"

text \<open>
  \<^theory_text>\<open>sorted\<close> on \<open>(created_at or datetime.min, id or "")\<close>. \<^theory_text>\<open>datetime.min\<close> is naive, so an item
  without a time sorts only among naive ones; \<^theory_text>\<open>reverse=True\<close> keeps equal items in place.
\<close>

definition sort_time :: "pydt option \<Rightarrow> pydt" where
  "sort_time d = (case d of None \<Rightarrow> DT 0 None | Some x \<Rightarrow> x)"

definition instant :: "pydt \<Rightarrow> int" where
  "instant d = (case dt_off d of None \<Rightarrow> dt_wall d | Some z \<Rightarrow> dt_wall d - z)"

definition sort_by_created_at ::
  "('a \<Rightarrow> pydt option res) \<Rightarrow> ('a \<Rightarrow> string option) \<Rightarrow> 'a list \<Rightarrow> string option \<Rightarrow> 'a list res" where
  "sort_by_created_at created idf items order =
     bindE (normalize_sort_order order ''desc'') (\<lambda>o'.
     bindE (mapE (\<lambda>x. bindE (created x) (\<lambda>d. Inr (sort_time d))) items) (\<lambda>times.
     let keyed = zip times items;
         key = (\<lambda>(d, x). (instant d, case idf x of None \<Rightarrow> [] | Some i \<Rightarrow> i));
         aware = (\<lambda>d. dt_off d \<noteq> None)
     in if \<not> (list_all aware times \<or> list_all (\<lambda>d. \<not> aware d) times) then Inl TypeError
        else Inr (map snd (if o' = ''desc'' then rev (sort_key key (rev keyed))
                           else sort_key key keyed))))"

section \<open>Cursors read back\<close>

lemma utf8_ascii: "list_all (\<lambda>c. code_pt c < 128) s \<Longrightarrow> utf8_encode s = s"
  by (induction s) (simp_all add: utf8_encode_def utf8_char_def Let_def)

lemma utf8_decode_ascii: "list_all (\<lambda>c. code_pt c < 128) s \<Longrightarrow> utf8_decode s = Some s"
  by (induction s) simp_all

lemma digit_ascii: "is_digit c \<Longrightarrow> code_pt c < 128"
  by (simp add: is_digit_def)

lemma int_str_ascii: "list_all (\<lambda>c. code_pt c < 128) (int_str i)"
  by (auto simp: int_str_def list_all_iff dest: nat_str_digits digit_ascii) (simp add: code_pt_def)

lemma cursor_text_ascii: "list_all (\<lambda>c. code_pt c < 128) (cursor_text offset e)"
  using int_str_ascii [unfolded code_pt_def]
  by (simp add: cursor_text_def json_str_def json_char_def Let_def code_pt_def)

lemma urlsafe_ascii: "list_all (\<lambda>c. code_pt c < 128) (rstrip_char CHR ''='' (urlsafe_b64encode s))"
proof -
  obtain n where n: "b64encode s = b64body s @ replicate n CHR ''=''"
    using b64encode_body by blast
  have "code_pt c < 128" if "b64_val c \<noteq> None" for c
    using that by (auto simp: b64_val_def Let_def split: if_splits)
  then have "list_all (\<lambda>c. code_pt c < 128) (to_urlsafe (b64body s))"
    using b64body_chars [of s] by (auto simp: to_urlsafe_def list_all_iff) (simp_all add: code_pt_def)
  moreover have "CHR ''='' \<notin> set (to_urlsafe (b64body s))"
    using no_pad [OF b64body_chars] by (auto simp: to_urlsafe_def split: if_splits)
  then have "rstrip_char CHR ''='' (urlsafe_b64encode s) = to_urlsafe (b64body s)"
    by (simp add: urlsafe_b64encode_def n to_urlsafe_def rstrip_replicate)
  ultimately show ?thesis by simp
qed

definition make_cursor :: "int \<Rightarrow> int \<Rightarrow> string" where
  "make_cursor offset expires_at = ''page_'' @ rstrip_char CHR ''='' (urlsafe_b64encode
     (utf8_encode (cursor_text offset expires_at)))"

lemma read_make_cursor: "read_cursor (make_cursor offset e) = Some (offset, Some e)"
proof -
  let ?p = "rstrip_char CHR ''='' (urlsafe_b64encode (utf8_encode (cursor_text offset e)))"
  have "loads (cursor_text offset e)
      = Some (PDict [(''offset'', PInt offset), (''expires_at'', PInt e)])"
    unfolding cursor_text_def by (rule loads_dumps) simp
  moreover have "removeprefix ''page_'' (make_cursor offset e) = ?p"
    unfolding make_cursor_def by (rule removeprefix_append)
  ultimately show ?thesis
    using urlsafe_ascii [of "utf8_encode (cursor_text offset e)"]
      urlsafe_stripped [of "utf8_encode (cursor_text offset e)"]
    by (simp add: read_cursor_def Let_def utf8_ascii cursor_text_ascii utf8_decode_ascii
        cursor_expires_at_def)
qed

interpretation cursor: codec "\<lambda>(o1, e). make_cursor o1 e"
  "\<lambda>s. case read_cursor s of Some (n, Some e) \<Rightarrow> Some (n, e) | _ \<Rightarrow> None" "\<lambda>_. True"
  by unfold_locales (auto simp: read_make_cursor)

lemma encode_page_run:
  "encode_page offset w =
     (Inr (make_cursor offset (epoch_seconds (w_clock w (w_ticks w)) + PAGE_CURSOR_TTL_SECONDS)),
      w\<lparr>w_ticks := Suc (w_ticks w)\<rparr>)"
  by (simp add: encode_page_def bindM_def mon_defs make_cursor_def)

lemma make_cursor_start: "make_cursor offset e \<noteq> []" "startswith ''page_'' (make_cursor offset e)"
  unfolding make_cursor_def by (simp, rule startswith_append)

lemma decode_make_cursor:
  "decode_page (Some (make_cursor offset e)) w =
     (if e \<le> epoch_seconds (w_clock w (w_ticks w))
      then Inl (HTTPException 400 ''Expired page cursor'') else Inr (max 0 offset),
      w\<lparr>w_ticks := Suc (w_ticks w)\<rparr>)"
  using make_cursor_start by (simp add: decode_page_def read_make_cursor bindM_def mon_defs)

section \<open>Walking the pages\<close>

text \<open>Ask for a page, then for the page its cursor names, until there is no cursor.\<close>

fun walk_pages ::
  "nat \<Rightarrow> ('a \<Rightarrow> string option) \<Rightarrow> 'a list \<Rightarrow> int option \<Rightarrow> int \<Rightarrow> string option \<Rightarrow> 'a list M" where
  "walk_pages 0 idf items limit mx page = returnM []"
| "walk_pages (Suc n) idf items limit mx page =
     bindM (paginate idf items limit page mx) (\<lambda>r.
     case lr_next_page r of
       None \<Rightarrow> returnM (lr_data r)
     | Some c \<Rightarrow> bindM (walk_pages n idf items limit mx (Some c)) (\<lambda>rest. returnM (lr_data r @ rest)))"

definition steady :: "world \<Rightarrow> bool" where
  "steady w = (\<forall>k. epoch_seconds (w_clock w (Suc k)) < epoch_seconds (w_clock w k) + PAGE_CURSOR_TTL_SECONDS)"

lemma steady_tick [simp]: "steady (w\<lparr>w_ticks := n\<rparr>) = steady w"
  by (simp add: steady_def)

lemma page_limit_pos: "1 \<le> page_limit limit mx"
  by (auto simp: page_limit_def DEFAULT_LIMIT_def split: option.splits)

text \<open>One page from a position already decoded.\<close>

lemma paginate_run:
  assumes "decode_page page w = (Inr offset, w')" "0 \<le> offset" "L = page_limit limit mx"
  shows "paginate idf items limit page mx w =
    (if offset + L < int (length items)
     then (Inr (from_items idf (take (nat L) (drop (nat offset) items)) True
             (Some (make_cursor (offset + L)
               (epoch_seconds (w_clock w' (w_ticks w')) + PAGE_CURSOR_TTL_SECONDS)))),
           w'\<lparr>w_ticks := Suc (w_ticks w')\<rparr>)
     else (Inr (from_items idf (take (nat L) (drop (nat offset) items)) False None), w'))"
  using assms(1)
  by (simp add: paginate_def Let_def assms(3) bindM_def mon_defs encode_page_run)

lemma walk_from:
  assumes "decode_page page w = (Inr offset, w')" "0 \<le> offset" "steady w'"
    "int (length items) \<le> offset + int n * page_limit limit mx" "0 < n"
  shows "\<exists>w''. walk_pages n idf items limit mx page w = (Inr (drop (nat offset) items), w'')"
  using assms
proof (induction n arbitrary: page w w' offset)
  case (Suc n)
  let ?L = "page_limit limit mx"
  note run = paginate_run [OF Suc.prems(1,2) refl, where limit = limit and mx = mx and idf = idf and items = items]
  show ?case
  proof (cases "offset + ?L < int (length items)")
    case False
    have "int (length items) \<le> offset + ?L" using False by simp
    then have "take (nat ?L) (drop (nat offset) items) = drop (nat offset) items"
      using Suc.prems(2) by (simp add: nat_le_iff le_nat_iff)
    with False run show ?thesis by (simp add: bindM_def from_items_def mon_defs)
  next
    case True
    let ?e = "epoch_seconds (w_clock w' (w_ticks w')) + PAGE_CURSOR_TTL_SECONDS"
    let ?w1 = "w'\<lparr>w_ticks := Suc (w_ticks w')\<rparr>"
    let ?o = "offset + ?L"
    have L: "1 \<le> ?L" by (rule page_limit_pos)
    have "epoch_seconds (w_clock w' (Suc (w_ticks w'))) < ?e"
      using Suc.prems(3) unfolding steady_def by blast
    then have dec: "decode_page (Some (make_cursor ?o ?e)) ?w1
        = (Inr ?o, ?w1\<lparr>w_ticks := Suc (w_ticks ?w1)\<rparr>)"
      using Suc.prems(2) L by (simp add: decode_make_cursor)
    have n: "0 < n" using Suc.prems(4) True by (cases n) auto
    have "int (length items) \<le> ?o + int n * ?L"
      using Suc.prems(4) by (simp add: algebra_simps)
    then obtain w2 where "walk_pages n idf items limit mx (Some (make_cursor ?o ?e)) ?w1
        = (Inr (drop (nat ?o) items), w2)"
      using Suc.IH [OF dec] Suc.prems(2,3) L n by auto
    moreover have "nat ?o = nat ?L + nat offset" using Suc.prems(2) L by simp
    then have "take (nat ?L) (drop (nat offset) items) @ drop (nat ?o) items = drop (nat offset) items"
      by (metis append_take_drop_id drop_drop)
    ultimately show ?thesis
      using True run by (simp add: bindM_def from_items_def mon_defs)
  qed
qed simp

section \<open>Properties\<close>

text \<open>
  A page cursor the server hands out is read back as the same offset for fifteen minutes, and
  refused as expired from then on.
\<close>

theorem cursor_roundtrip:
  assumes "encode_page offset w = (Inr c, w')" "0 \<le> offset"
  shows "fst (decode_page (Some c) u) =
    (if epoch_seconds (w_clock u (w_ticks u)) < epoch_seconds (w_clock w (w_ticks w)) + 15 * 60
     then Inr offset else Inl (HTTPException 400 ''Expired page cursor''))"
  using assms by (auto simp: encode_page_run decode_make_cursor PAGE_CURSOR_TTL_SECONDS_def)

theorem cursor_roundtrip_witness:
  "fst (decode_page (Some (make_cursor 50 1698884100)) world0) =
    (if epoch_seconds (w_clock world0 (w_ticks world0)) < epoch_seconds (w_clock world0 (w_ticks world0)) + 15 * 60
     then Inr 50 else Inl (HTTPException 400 ''Expired page cursor''))"
proof (rule cursor_roundtrip)
  have "epoch_seconds (w_clock world0 (w_ticks world0)) + PAGE_CURSOR_TTL_SECONDS = 1698884100"
    by (simp add: world0_def epoch_seconds_def PAGE_CURSOR_TTL_SECONDS_def)
  then show "encode_page 50 world0 = (Inr (make_cursor 50 1698884100), world0\<lparr>w_ticks := Suc (w_ticks world0)\<rparr>)"
    by (simp add: encode_page_run)
qed simp

text \<open>
  C37: a client that follows the cursors from the first page on sees every item exactly once and in
  order, whatever page size it asks for, as long as it asks for each page before its cursor expires.
\<close>

theorem walk_all:
  assumes "steady w" "length items \<le> n" "0 < n"
  shows "\<exists>w'. walk_pages n idf items limit mx None w = (Inr items, w')"
proof -
  have "int n * 1 \<le> int n * page_limit limit mx"
    using page_limit_pos [of limit mx] by (intro mult_left_mono) auto
  then have "int (length items) \<le> 0 + int n * page_limit limit mx" using assms(2) by simp
  from walk_from [OF _ _ assms(1) this assms(3), of None w idf] show ?thesis
    by (simp add: decode_page_def mon_defs)
qed

theorem walk_all_witness:
  "\<exists>w'. walk_pages 3 (\<lambda>_. None) [10, 20, 30 :: nat] (Some 2) MAX_LIMIT None world0 = (Inr [10, 20, 30], w')"
proof (rule walk_all)
  have "epoch_seconds (63834480000000000 + 1000000 * int (Suc k))
      < epoch_seconds (63834480000000000 + 1000000 * int k) + PAGE_CURSOR_TTL_SECONDS" for k
    by (simp add: epoch_seconds_def Let_def PAGE_CURSOR_TTL_SECONDS_def)
  then show "steady world0" by (simp add: steady_def world0_def del: of_nat_Suc)
qed simp_all

end
