(* ===== verification/Environments.thy ===== *)
theory Environments
  imports WorkQueue Metadata Pagination
begin

text \<open>
  \<open>app/models/environments.py\<close> and \<open>app/routers/environments.py\<close>: validation of an environment's
  configuration, the normal form it is shown in, the handlers for environments and those through
  which a self-hosted worker takes and reports work. A blocking poll sleeps between its attempts;
  what other requests commit meanwhile is the argument \<open>others\<close>, and the loop is fuelled by the
  number of its attempts (\<open>poll_terminates\<close> bounds it by the clock).
\<close>

section \<open>Validation of a configuration\<close>

text \<open>\<^theory_text>\<open>v in {...}\<close>: a list or a dict cannot be hashed.\<close>

definition in_set :: "pv \<Rightarrow> pv list \<Rightarrow> bool res" where
  "in_set v xs = (case v of PList _ \<Rightarrow> Inl TypeError | PDict _ \<Rightarrow> Inl TypeError | _ \<Rightarrow> Inr (v \<in> set xs))"

definition validate_positive_number :: "pv \<Rightarrow> string \<Rightarrow> unit res" where
  "validate_positive_number v field =
     (let bad = Inl (ValueError (field @ '' must be a positive number'')) in
      case v of
        PInt i \<Rightarrow> if i \<le> 0 then bad else Inr ()
      | PFloat f \<Rightarrow> (case f of FFin r _ \<Rightarrow> if r \<le> 0 then bad else Inr () | FNegInf \<Rightarrow> bad | _ \<Rightarrow> Inr ())
      | _ \<Rightarrow> bad)"

definition validate_string_list :: "pv \<Rightarrow> string \<Rightarrow> unit res" where
  "validate_string_list v field =
     (case v of
        PList xs \<Rightarrow> raise_if (\<not> list_all (\<lambda>x. case x of PStr s \<Rightarrow> py_strip s \<noteq> [] | _ \<Rightarrow> False) xs)
                      (ValueError (field @ '' must be an array of non-empty strings''))
      | _ \<Rightarrow> Inl (ValueError (field @ '' must be an array of non-empty strings'')))"

text \<open>\<^theory_text>\<open>for key in keys: if d.get(key) is not None: check(...)\<close>\<close>

fun check_keys :: "(pv \<Rightarrow> string \<Rightarrow> unit res) \<Rightarrow> string \<Rightarrow> pdict \<Rightarrow> string list \<Rightarrow> unit res" where
  "check_keys check field d [] = Inr ()"
| "check_keys check field d (k # ks) =
     bindE (if dget k d = PNone then Inr () else check (dget k d) (field @ ''.'' @ k))
       (\<lambda>_. check_keys check field d ks)"

definition validate_bool :: "pv \<Rightarrow> string \<Rightarrow> unit res" where
  "validate_bool v field = (case v of PBool _ \<Rightarrow> Inr ()
     | _ \<Rightarrow> Inl (ValueError (field @ '' must be a boolean'')))"

definition validate_networking :: "pv \<Rightarrow> unit res" where
  "validate_networking networking = (case networking of
      PNone \<Rightarrow> Inr ()
    | PDict d \<Rightarrow>
        bindE (in_set (dget ''type'' d) [PStr ''unrestricted'', PStr ''restricted'', PStr ''limited'',
            PStr ''none'', PNone]) (\<lambda>ok.
        bindE (raise_if (\<not> ok) (ValueError ''environment config.networking.type is unsupported'')) (\<lambda>_.
        bindE (check_keys validate_string_list ''environment config.networking'' d [''allowed_hosts'']) (\<lambda>_.
        check_keys validate_bool ''environment config.networking'' d
          [''allow_mcp_servers'', ''allow_package_managers''])))
    | _ \<Rightarrow> Inl (ValueError ''environment config.networking must be an object''))"

definition validate_packages :: "pv \<Rightarrow> unit res" where
  "validate_packages packages = (case packages of
      PNone \<Rightarrow> Inr ()
    | PDict d \<Rightarrow> check_keys validate_string_list ''environment config.packages'' d
        [''apt'', ''cargo'', ''gem'', ''go'', ''npm'', ''pip'']
    | _ \<Rightarrow> Inl (ValueError ''environment config.packages must be an object''))"

definition validate_resources :: "pv \<Rightarrow> unit res" where
  "validate_resources resources = (case resources of
      PNone \<Rightarrow> Inr ()
    | PDict d \<Rightarrow> check_keys validate_positive_number ''environment config.resources'' d
        [''cpu'', ''memory_mb'', ''disk_mb'', ''timeout_seconds'']
    | _ \<Rightarrow> Inl (ValueError ''environment config.resources must be an object''))"

definition validate_limit_object :: "pv \<Rightarrow> string \<Rightarrow> string list \<Rightarrow> unit res" where
  "validate_limit_object v field allowed_keys = (case v of
      PNone \<Rightarrow> Inr ()
    | PDict d \<Rightarrow> check_keys validate_positive_number field d allowed_keys
    | _ \<Rightarrow> Inl (ValueError (field @ '' must be an object'')))"

definition validate_sandbox :: "pv \<Rightarrow> unit res" where
  "validate_sandbox sandbox = (case sandbox of
      PNone \<Rightarrow> Inr ()
    | PDict d \<Rightarrow>
        bindE (in_set (dget ''backend'' d) [PNone, PStr ''unix_local'', PStr ''self_hosted_worker'',
            PStr ''unconfigured_cloud'']) (\<lambda>ok.
        bindE (raise_if (\<not> ok) (ValueError ''environment config.sandbox.backend is unsupported'')) (\<lambda>_.
        bindE (raise_if (dget ''root'' d \<noteq> PNone \<and> \<not> is_str (dget ''root'' d))
          (ValueError ''environment config.sandbox.root must be a string'')) (\<lambda>_.
        bindE (validate_limit_object (dget ''concurrency_limits'' d)
          ''environment config.sandbox.concurrency_limits'' [''manifest_entries'', ''local_dir_files'']) (\<lambda>_.
        validate_limit_object (dget ''archive_limits'' d) ''environment config.sandbox.archive_limits''
          [''max_input_bytes'', ''max_extracted_bytes'', ''max_members'']))))
    | _ \<Rightarrow> Inl (ValueError ''environment config.sandbox must be an object''))"

definition validate_environment_config :: "pdict \<Rightarrow> unit res" where
  "validate_environment_config config =
     bindE (in_set (dget_or ''type'' (PStr ''cloud'') config)
       [PStr ''cloud'', PStr ''self_hosted'', PStr ''local'']) (\<lambda>ok.
     bindE (raise_if (\<not> ok) (ValueError ''environment config.type must be cloud, self_hosted, or local'')) (\<lambda>_.
     bindE (validate_networking (dget ''networking'' config)) (\<lambda>_.
     bindE (validate_packages (dget ''packages'' config)) (\<lambda>_.
     bindE (validate_resources (dget ''resources'' config)) (\<lambda>_.
     validate_sandbox (dget ''sandbox'' config))))))"

section \<open>Scope and response\<close>

definition environment_config_with_scope :: "pdict option \<Rightarrow> string option \<Rightarrow> pdict res" where
  "environment_config_with_scope config scope =
     (let normalized = (case config of
          Some c \<Rightarrow> if c \<noteq> [] then c else [(''type'', PStr ''cloud'')]
        | None \<Rightarrow> [(''type'', PStr ''cloud'')]) in
      case scope of
        None \<Rightarrow> Inr normalized
      | Some s \<Rightarrow>
          if dget_or ''type'' (PStr ''cloud'') normalized \<noteq> PStr ''self_hosted''
          then Inl (ValueError ''environment scope is only supported for self_hosted environments'')
          else Inr (dset ''_scope'' (PStr s) normalized))"

definition environment_scope :: "pdict \<Rightarrow> string option res" where
  "environment_scope config =
     bindE (in_set (dget ''_scope'' config) [PStr ''organization'', PStr ''account'']) (\<lambda>ok.
     Inr (if ok then (case dget ''_scope'' config of PStr s \<Rightarrow> Some s | _ \<Rightarrow> None) else None))"

definition flag :: "string \<Rightarrow> pdict \<Rightarrow> pv" where
  "flag k d = PBool (truthy (dget_or k (PBool False) d))"

definition networking_to_response :: "pdict \<Rightarrow> pdict res" where
  "networking_to_response networking =
     bindE (in_set (dget ''type'' networking) [PStr ''restricted'', PStr ''none'']) (\<lambda>legacy.
     let n1 = (if legacy then
         [(''type'', PStr ''limited''), (''allowed_hosts'', dget_or ''allowed_hosts'' (PList []) networking),
          (''allow_mcp_servers'', flag ''allow_mcp_servers'' networking),
          (''allow_package_managers'', flag ''allow_package_managers'' networking)]
       else networking) in
     if dget ''type'' n1 = PStr ''limited'' then
       bindE (list_or_empty (dget ''allowed_hosts'' n1)) (\<lambda>hosts.
       Inr [(''type'', PStr ''limited''), (''allowed_hosts'', PList hosts),
            (''allow_mcp_servers'', flag ''allow_mcp_servers'' n1),
            (''allow_package_managers'', flag ''allow_package_managers'' n1)])
     else Inr n1)"

definition PACKAGE_MANAGERS :: "string list" where
  "PACKAGE_MANAGERS = [''apt'', ''cargo'', ''gem'', ''go'', ''npm'', ''pip'']"

definition packages_to_response :: "pdict \<Rightarrow> pdict res" where
  "packages_to_response packages =
     bindE (mapE (\<lambda>k. bindE (list_or_empty (dget k packages)) (\<lambda>l. Inr (k, PList l))) PACKAGE_MANAGERS) (\<lambda>items.
     Inr ((''type'', PStr ''packages'') # items))"

definition environment_config_to_response :: "pdict \<Rightarrow> pdict res" where
  "environment_config_to_response config =
     (let n0 = dpop ''_scope'' config;
          env_type = dget_or ''type'' (PStr ''cloud'') n0;
          n1 = dset ''type'' env_type n0
      in if env_type \<noteq> PStr ''cloud'' then Inr n1
         else
           bindE (case por (dget ''networking'' n1) (PDict [(''type'', PStr ''unrestricted'')]) of
               PDict d \<Rightarrow> networking_to_response d | _ \<Rightarrow> Inl AttributeError) (\<lambda>networking.
           let n2 = dset ''networking'' (PDict networking) n1 in
           bindE (dict_or_empty (dget ''packages'' n2)) (\<lambda>packages.
           bindE (packages_to_response packages) (\<lambda>ps.
           Inr (dset ''packages'' (PDict ps) n2)))))"

definition environment_to_response :: "environment_row \<Rightarrow> pdict res" where
  "environment_to_response e =
     bindE (environment_config_to_response (en_config e)) (\<lambda>config.
     bindE (environment_scope (en_config e)) (\<lambda>scope.
     Inr [(''id'', PStr (en_id e)), (''type'', PStr ''environment''), (''name'', PStr (en_name e)),
          (''description'', PStr (en_description e)), (''config'', PDict config),
          (''metadata'', PDict (en_metadata e)), (''scope'', pstr_opt scope),
          (''archived_at'', ptime_opt (en_archived_at e)), (''deleted_at'', ptime_opt (en_deleted_at e)),
          (''created_at'', PTime (en_created_at e)), (''updated_at'', PTime (en_updated_at e))]))"

section \<open>Handlers\<close>

text \<open>Request bodies; the model validator runs before the handler, its \<open>ValueError\<close> is a 422.\<close>

record env_create =
  ec_name :: string
  ec_description :: "string option"
  ec_config :: "pdict option"
  ec_metadata :: pdict
  ec_scope :: "string option"

record env_update =
  eu_name :: "string option"
  eu_description :: "string option"
  eu_config :: "pdict option"
  eu_metadata :: "pdict option"
  eu_scope :: "string option"

definition value_error_422 :: "'a res \<Rightarrow> 'a res" where
  "value_error_422 r = (case r of
      Inl e \<Rightarrow> if is_value_error e then Inl (HTTPException 422 (exc_text e)) else Inl e
    | Inr x \<Rightarrow> Inr x)"

definition validate_body_config :: "pdict option \<Rightarrow> unit res" where
  "validate_body_config config = (case config of
      None \<Rightarrow> Inr () | Some c \<Rightarrow> value_error_422 (validate_environment_config c))"

definition normalize_environment_name :: "string \<Rightarrow> string res" where
  "normalize_environment_name v =
     (if py_strip v = [] then Inl (HTTPException 422 ''environment name must be a non-empty string'')
      else Inr (py_strip v))"

definition create_environment :: "env_create \<Rightarrow> pdict M" where
  "create_environment body = session_scope (
     seqM (liftE (validate_body_config (ec_config body))) (
     bindM (liftE (normalize_environment_name (ec_name body))) (\<lambda>name.
     bindM (liftE (value_error_422 (environment_config_with_scope (ec_config body) (ec_scope body)))) (\<lambda>config.
     bindM (liftE (normalize_metadata (PDict (ec_metadata body)))) (\<lambda>metadata.
     bindM (create_environment_q name config
       (case ec_description body of None \<Rightarrow> [] | Some d \<Rightarrow> d) (md_pv metadata) None) (\<lambda>e.
     seqM commitM (liftE (environment_to_response e))))))))"

definition must_get_environment :: "string \<Rightarrow> environment_row M" where
  "must_get_environment i = bindM (get_environment i None) (\<lambda>found.
     case found of
       None \<Rightarrow> raiseM (HTTPException 404 ''Environment not found'')
     | Some e \<Rightarrow> if en_deleted_at e \<noteq> None then raiseM (HTTPException 404 ''Environment not found'')
                 else returnM e)"

definition list_environments :: "int \<Rightarrow> string option \<Rightarrow> bool \<Rightarrow> pdict list_response M" where
  "list_environments limit page include_archived = session_scope (
     bindM (list_environments_q 1000 include_archived None) (\<lambda>rows.
     bindM (liftE (sort_by_created_at (\<lambda>e. Inr (Some (utc_dt (en_created_at e)))) (\<lambda>e. Some (en_id e))
       rows (Some ''desc''))) (\<lambda>sorted.
     bindM (liftE (mapE environment_to_response sorted)) (\<lambda>responses.
     paginate item_id responses (Some limit) page MAX_LIMIT))))"

definition retrieve_environment :: "string \<Rightarrow> pdict M" where
  "retrieve_environment i = session_scope (
     bindM (must_get_environment i) (\<lambda>e. liftE (environment_to_response e)))"

definition updated_config :: "environment_row \<Rightarrow> env_update \<Rightarrow> pdict option res" where
  "updated_config e body =
     value_error_422 (case eu_scope body of
       Some s \<Rightarrow> bindE (environment_config_with_scope
           (Some (case eu_config body of Some c \<Rightarrow> if c \<noteq> [] then c else en_config e
                                       | None \<Rightarrow> en_config e)) (Some s)) (\<lambda>c. Inr (Some c))
     | None \<Rightarrow> (case eu_config body of
         Some c \<Rightarrow> bindE (environment_scope (en_config e)) (\<lambda>scope.
                    bindE (environment_config_with_scope (Some c) scope) (\<lambda>c'. Inr (Some c')))
       | None \<Rightarrow> Inr None))"

definition update_environment :: "string \<Rightarrow> env_update \<Rightarrow> pdict M" where
  "update_environment i body = session_scope (
     seqM (liftE (validate_body_config (eu_config body))) (
     bindM (must_get_environment i) (\<lambda>e.
     bindM (case eu_name body of None \<Rightarrow> returnM None
            | Some n \<Rightarrow> bindM (liftE (normalize_environment_name n)) (\<lambda>x. returnM (Some x))) (\<lambda>name.
     bindM (liftE (updated_config e body)) (\<lambda>config.
     bindM (case eu_metadata body of None \<Rightarrow> returnM None
            | Some m \<Rightarrow> bindM (liftE (merge_metadata (PDict (en_metadata e)) (PDict m)))
                (\<lambda>x. returnM (Some (md_pv x)))) (\<lambda>metadata.
     bindM (update_environment_q e name config (eu_description body) metadata) (\<lambda>e'.
     seqM commitM (liftE (environment_to_response e')))))))))"

definition archive_environment :: "string \<Rightarrow> pdict M" where
  "archive_environment i = session_scope (
     bindM (must_get_environment i) (\<lambda>e.
     bindM (archive_environment_q e) (\<lambda>e'.
     seqM commitM (liftE (environment_to_response e')))))"

definition delete_environment :: "string \<Rightarrow> pdict M" where
  "delete_environment i = session_scope (
     bindM (must_get_environment i) (\<lambda>e.
     bindM (delete_environment_q e) (\<lambda>_.
     seqM commitM (returnM [(''id'', PStr (en_id e)), (''type'', PStr ''environment_deleted''),
                            (''deleted'', PBool True)]))))"

section \<open>Lemmas\<close>

lemma check_keys_Inr:
  "check_keys check f d ks = Inr () \<longleftrightarrow> (\<forall>k \<in> set ks. dget k d = PNone \<or> check (dget k d) (f @ ''.'' @ k) = Inr ())"
  by (induction ks) (auto simp: res_simps)

lemma string_list_Inr:
  "validate_string_list v f = Inr () \<longleftrightarrow>
     (\<exists>xs. v = PList xs \<and> list_all (\<lambda>x. case x of PStr s \<Rightarrow> py_strip s \<noteq> [] | _ \<Rightarrow> False) xs)"
  by (auto simp: validate_string_list_def split: pv.splits)

lemma bool_Inr: "validate_bool v f = Inr () \<longleftrightarrow> (\<exists>b. v = PBool b)"
  by (auto simp: validate_bool_def split: pv.splits)

lemma in_set_Inr: "in_set v xs = Inr b \<longleftrightarrow> \<not> is_list v \<and> \<not> is_dict v \<and> b = (v \<in> set xs)"
  by (auto simp: in_set_def is_list_def is_dict_def split: pv.splits)

definition networking_ok :: "pdict \<Rightarrow> bool" where
  "networking_ok d \<longleftrightarrow>
     dget ''type'' d \<in> {PStr ''unrestricted'', PStr ''restricted'', PStr ''limited'', PStr ''none'', PNone} \<and>
     (dget ''allowed_hosts'' d = PNone \<or> validate_string_list (dget ''allowed_hosts'' d) [] = Inr ()) \<and>
     (\<forall>k \<in> {''allow_mcp_servers'', ''allow_package_managers''}. dget k d = PNone \<or> (\<exists>b. dget k d = PBool b))"

lemma string_list_field: "validate_string_list v f = Inr () \<longleftrightarrow> validate_string_list v [] = Inr ()"
  by (simp add: string_list_Inr)

lemma type_ok:
  "in_set v [PStr a, PStr b, PStr c, PStr d, PNone] = Inr True \<longleftrightarrow> v \<in> {PStr a, PStr b, PStr c, PStr d, PNone}"
  by (auto simp: in_set_Inr is_list_def is_dict_def)

lemma checked_Inr:
  "bindE m (\<lambda>ok. bindE (raise_if (\<not> ok) e) f) = Inr y \<longleftrightarrow> m = Inr True \<and> f () = Inr y"
  by (cases m) (auto simp: raise_if_def)

lemma networking_dict: "validate_networking (PDict d) = Inr () \<longleftrightarrow> networking_ok d"
proof -
  have "validate_networking (PDict d) = Inr () \<longleftrightarrow>
      in_set (dget ''type'' d) [PStr ''unrestricted'', PStr ''restricted'', PStr ''limited'', PStr ''none'', PNone] = Inr True \<and>
      check_keys validate_string_list ''environment config.networking'' d [''allowed_hosts''] = Inr () \<and>
      check_keys validate_bool ''environment config.networking'' d [''allow_mcp_servers'', ''allow_package_managers''] = Inr ()"
    unfolding validate_networking_def pv.case checked_Inr by (auto simp: res_simps simp del: check_keys.simps)
  then show ?thesis
    unfolding type_ok check_keys_Inr bool_Inr networking_ok_def
    by (simp add: string_list_field [of _ "''environment config.networking.allowed_hosts''"])
qed

lemma networking_Inr:
  "validate_networking n = Inr () \<longleftrightarrow> n = PNone \<or> (\<exists>d. n = PDict d \<and> networking_ok d)"
proof (cases n)
  case (PDict d)
  then show ?thesis by (simp add: networking_dict)
qed (simp_all add: validate_networking_def)

lemma packages_Inr:
  "validate_packages p = Inr () \<longleftrightarrow> p = PNone \<or> (\<exists>d. p = PDict d \<and>
     (\<forall>k \<in> set PACKAGE_MANAGERS. dget k d = PNone \<or> validate_string_list (dget k d) [] = Inr ()))"
proof (cases p)
  case (PDict d)
  show ?thesis
    unfolding PDict validate_packages_def pv.case PACKAGE_MANAGERS_def [symmetric] check_keys_Inr
    using string_list_field by auto
qed (simp_all add: validate_packages_def)

text \<open>A list of strings that was accepted, or is absent, is shown as itself or as the empty list.\<close>

lemma listed:
  assumes "v = PNone \<or> validate_string_list v f = Inr ()"
  shows "\<exists>l. list_or_empty v = Inr l \<and> validate_string_list (PList l) g = Inr ()"
  using assms by (auto simp: string_list_Inr list_or_empty_def)

lemma packages_normal:
  assumes "validate_packages (PDict d) = Inr ()"
  shows "\<exists>ps. packages_to_response d = Inr ps \<and> validate_packages (PDict ps) = Inr () \<and>
    packages_to_response ps = Inr ps"
proof -
  have "\<forall>k \<in> set PACKAGE_MANAGERS. dget k d = PNone \<or> validate_string_list (dget k d) [] = Inr ()"
    using assms by (simp add: packages_Inr)
  then have "\<forall>k \<in> set PACKAGE_MANAGERS. \<exists>l. list_or_empty (dget k d) = Inr l
      \<and> validate_string_list (PList l) [] = Inr ()"
    using listed by blast
  then obtain l where l: "\<forall>k \<in> set PACKAGE_MANAGERS. list_or_empty (dget k d) = Inr (l k)
      \<and> validate_string_list (PList (l k)) [] = Inr ()"
    by metis
  then show ?thesis
    by (simp add: packages_to_response_def PACKAGE_MANAGERS_def packages_Inr)
qed

definition limited_networking :: "pdict \<Rightarrow> pv list \<Rightarrow> pdict" where
  "limited_networking d hosts = [(''type'', PStr ''limited''), (''allowed_hosts'', PList hosts),
     (''allow_mcp_servers'', flag ''allow_mcp_servers'' d), (''allow_package_managers'', flag ''allow_package_managers'' d)]"

lemma networking_shown:
  assumes "validate_networking (PDict d) = Inr ()"
  shows "networking_to_response d =
    (if dget ''type'' d \<in> {PStr ''restricted'', PStr ''none'', PStr ''limited''}
     then bindE (list_or_empty (dget ''allowed_hosts'' d)) (\<lambda>hosts. Inr (limited_networking d hosts)) else Inr d)"
proof -
  from assms have t: "dget ''type'' d \<in> {PStr ''unrestricted'', PStr ''restricted'', PStr ''limited'', PStr ''none'', PNone}"
    by (simp add: networking_dict networking_ok_def)
  have hosts: "list_or_empty (dget_or ''allowed_hosts'' (PList []) d) = list_or_empty (dget ''allowed_hosts'' d)"
    by (simp add: dget_or_def dget_def list_or_empty_def split: option.splits)
  show ?thesis
    using t hosts
    by (elim insertE) (simp_all add: networking_to_response_def limited_networking_def in_set_def flag_def Let_def)
qed

lemma networking_normal:
  assumes "validate_networking (PDict d) = Inr ()"
  shows "\<exists>n. networking_to_response d = Inr n \<and> validate_networking (PDict n) = Inr () \<and>
    networking_to_response n = Inr n"
proof (cases "dget ''type'' d \<in> {PStr ''restricted'', PStr ''none'', PStr ''limited''}")
  case True
  obtain l where l: "list_or_empty (dget ''allowed_hosts'' d) = Inr l" "validate_string_list (PList l) [] = Inr ()"
    using assms listed [of "dget ''allowed_hosts'' d" "[]" "[]"] by (auto simp: networking_dict networking_ok_def)
  have v: "validate_networking (PDict (limited_networking d l)) = Inr ()"
    using l(2) by (simp add: networking_dict networking_ok_def limited_networking_def flag_def)
  moreover have "networking_to_response (limited_networking d l) = Inr (limited_networking d l)"
    by (simp add: networking_shown [OF v]) (simp add: limited_networking_def flag_def)
  ultimately show ?thesis using True l(1) networking_shown [OF assms] by simp
next
  case False
  with assms show ?thesis by (simp add: networking_shown)
qed

lemma config_Inr:
  "validate_environment_config c = Inr () \<longleftrightarrow>
     dget_or ''type'' (PStr ''cloud'') c \<in> {PStr ''cloud'', PStr ''self_hosted'', PStr ''local''} \<and>
     validate_networking (dget ''networking'' c) = Inr () \<and> validate_packages (dget ''packages'' c) = Inr () \<and>
     validate_resources (dget ''resources'' c) = Inr () \<and> validate_sandbox (dget ''sandbox'' c) = Inr ()"
  by (auto simp: validate_environment_config_def res_simps in_set_Inr)

text \<open>A missing or empty object stands for the given one.\<close>

lemma networking_or:
  assumes "validate_networking v = Inr ()"
  shows "\<exists>d. por v (PDict [(''type'', PStr ''unrestricted'')]) = PDict d \<and> validate_networking (PDict d) = Inr ()"
  using assms by (auto simp: networking_Inr networking_dict por_def networking_ok_def)

lemma packages_or:
  assumes "validate_packages v = Inr ()"
  shows "\<exists>d. dict_or_empty v = Inr d \<and> validate_packages (PDict d) = Inr ()"
  using assms by (auto simp: packages_Inr dict_or_empty_def py_dict_def)

lemma networking_shown_ne:
  assumes "networking_to_response d = Inr n" "d \<noteq> []"
  shows "n \<noteq> []"
  using assms by (auto simp: networking_to_response_def res_simps Let_def split: if_splits)

section \<open>Properties\<close>

text \<open>
  The configuration of a response is a normal form. An accepted configuration is shown without
  its private scope as one that would be accepted again and is shown as itself.
\<close>

theorem config_normal_form:
  assumes "validate_environment_config c = Inr ()"
  shows "\<exists>c'. environment_config_to_response c = Inr c' \<and> dget ''_scope'' c' = PNone \<and>
    validate_environment_config c' = Inr () \<and> environment_config_to_response c' = Inr c'"
proof -
  define b where "b = dset ''type'' (dget_or ''type'' (PStr ''cloud'') c) (dpop ''_scope'' c)"
  have v: "validate_environment_config b = Inr ()" and ty: "dget_or ''type'' (PStr ''cloud'') b =
      dget_or ''type'' (PStr ''cloud'') c" "dpop ''_scope'' b = b"
    using assms by (simp_all add: config_Inr b_def dpop_fresh)
  show ?thesis
  proof (cases "dget_or ''type'' (PStr ''cloud'') c = PStr ''cloud''")
    case False
    have bb: "dset ''type'' (dget_or ''type'' (PStr ''cloud'') b) b = b"
      using ty(1) by (simp add: b_def)
    have "environment_config_to_response c = Inr b" "environment_config_to_response b = Inr b"
      using False ty bb by (simp_all add: environment_config_to_response_def b_def Let_def)
    with v show ?thesis by (auto simp: b_def)
  next
    case True
    obtain d where d: "por (dget ''networking'' b) (PDict [(''type'', PStr ''unrestricted'')]) = PDict d"
      "validate_networking (PDict d) = Inr ()"
      using networking_or v by (auto simp: config_Inr)
    then have dn: "d \<noteq> []" by (auto simp: por_def split: if_splits)
    obtain n where n: "networking_to_response d = Inr n" "validate_networking (PDict n) = Inr ()"
      "networking_to_response n = Inr n" using networking_normal [OF d(2)] by blast
    obtain p where p: "dict_or_empty (dget ''packages'' b) = Inr p" "validate_packages (PDict p) = Inr ()"
      using packages_or v by (auto simp: config_Inr)
    obtain ps where ps: "packages_to_response p = Inr ps" "validate_packages (PDict ps) = Inr ()"
      "packages_to_response ps = Inr ps" using packages_normal [OF p(2)] by blast
    let ?c = "dset ''packages'' (PDict ps) (dset ''networking'' (PDict n) b)"
    have bt: "dset ''type'' (PStr ''cloud'') (dpop ''_scope'' c) = b" using True by (simp add: b_def)
    have shown: "environment_config_to_response c = Inr ?c"
      by (simp add: environment_config_to_response_def Let_def True bt d(1) n(1) p(1) ps(1))
    have valid: "validate_environment_config ?c = Inr ()"
      using v n(2) ps(2) by (simp add: config_Inr)
    have nn: "n \<noteq> []" using networking_shown_ne [OF n(1) dn] .
    have fixed: "dpop ''_scope'' ?c = ?c" "dset ''type'' (PStr ''cloud'') ?c = ?c"
      "dset ''networking'' (PDict n) ?c = ?c" "dset ''packages'' (PDict ps) ?c = ?c"
      using True by (auto simp: b_def intro: dpop_fresh dset_id)
    have "dget_or ''type'' (PStr ''cloud'') ?c = PStr ''cloud''" using ty True by simp
    then have "environment_config_to_response ?c = Inr ?c"
      using n(3) ps(3) nn fixed
      by (simp add: environment_config_to_response_def Let_def)
    with shown valid show ?thesis by (auto simp: b_def)
  qed
qed

theorem config_normal_form_witness:
  "\<exists>c'. environment_config_to_response [(''networking'', PDict [(''type'', PStr ''none'')])] = Inr c' \<and>
    dget ''_scope'' c' = PNone \<and> validate_environment_config c' = Inr () \<and>
    environment_config_to_response c' = Inr c'"
  by (rule config_normal_form) (simp add: config_Inr networking_Inr networking_ok_def packages_Inr
    validate_resources_def validate_sandbox_def)

lemma with_scope_Inr:
  "environment_config_with_scope c (Some s) = Inr c' \<longleftrightarrow>
     (\<exists>d. c = Some d \<and> dget_or ''type'' (PStr ''cloud'') d = PStr ''self_hosted'' \<and> c' = dset ''_scope'' (PStr s) d)"
  by (cases c) (auto simp: environment_config_with_scope_def Let_def)

text \<open>
  A scoped environment stays scoped. An update that names no scope keeps the one the environment
  has, whatever its new configuration, and is refused unless that configuration is self-hosted.
\<close>

theorem update_keeps_scope:
  assumes "environment_scope (en_config e) = Inr (Some s)" "eu_scope body = None"
    and "updated_config e body = Inr (Some c)"
  shows "environment_scope c = Inr (Some s) \<and> dget_or ''type'' (PStr ''cloud'') c = PStr ''self_hosted''"
proof -
  have "s \<in> {''organization'', ''account''}"
    using assms(1) by (auto simp: environment_scope_def res_simps in_set_Inr split: if_splits)
  moreover obtain d where "dget_or ''type'' (PStr ''cloud'') d = PStr ''self_hosted''" "c = dset ''_scope'' (PStr s) d"
    using assms
    by (auto simp: updated_config_def value_error_422_def with_scope_Inr res_simps
        split: option.splits sum.splits if_splits)
  ultimately show ?thesis by (auto simp: environment_scope_def in_set_def)
qed

definition scoped_environment :: environment_row where
  "scoped_environment = \<lparr>en_id = ''env_1'', en_workspace_id = ''wrkspc_default'', en_name = ''e'',
     en_description = [], en_config = [(''type'', PStr ''self_hosted''), (''_scope'', PStr ''account'')],
     en_metadata = [], en_archived_at = None, en_deleted_at = None, en_created_at = 0, en_updated_at = 0\<rparr>"

theorem update_keeps_scope_witness:
  "\<exists>c. updated_config scoped_environment \<lparr>eu_name = None, eu_description = None,
      eu_config = Some [(''type'', PStr ''self_hosted'')], eu_metadata = None, eu_scope = None\<rparr> = Inr (Some c) \<and>
    environment_scope c = Inr (Some ''account'') \<and> dget_or ''type'' (PStr ''cloud'') c = PStr ''self_hosted''"
proof -
  let ?b = "\<lparr>eu_name = None, eu_description = None,
      eu_config = Some [(''type'', PStr ''self_hosted'')], eu_metadata = None, eu_scope = None\<rparr>"
  have s: "environment_scope (en_config scoped_environment) = Inr (Some ''account'')"
    by (simp add: environment_scope_def scoped_environment_def in_set_def)
  moreover have "\<exists>c. updated_config scoped_environment ?b = Inr (Some c)"
    by (simp add: updated_config_def value_error_422_def s environment_config_with_scope_def)
  ultimately show ?thesis using update_keeps_scope [of scoped_environment "''account''" ?b] by auto
qed

lemma created_config:
  "\<exists>e w'. create_environment_q n c d m None world0 = (Inr e, w') \<and> en_config e = c"
  by (simp add: create_environment_q_def insert_environment_def bindM_def seqM_def mon_defs
      workspace_id_or_default_def world0_def db0_def Let_def table_defs find_by_def)

text \<open>
  The check of the scope covers the request's \<open>scope\<close> field only. A scope written into the
  configuration under its private key passes, so a cloud environment can be shown as scoped.
\<close>

theorem scope_check_bypassed:
  "\<exists>r w'. create_environment \<lparr>ec_name = ''e'', ec_description = None,
      ec_config = Some [(''type'', PStr ''cloud''), (''_scope'', PStr ''organization'')],
      ec_metadata = [], ec_scope = None\<rparr> world0 = (Inr r, w') \<and>
    dget ''scope'' r = PStr ''organization'' \<and> vget ''type'' (dget ''config'' r) = Inr (PStr ''cloud'')"
proof -
  let ?c = "[(''type'', PStr ''cloud''), (''_scope'', PStr ''organization'')]"
  have "validate_environment_config ?c = Inr ()"
    by (simp add: config_Inr networking_Inr packages_Inr validate_resources_def validate_sandbox_def)
  then have body: "validate_body_config (Some ?c) = Inr ()"
    by (simp add: validate_body_config_def value_error_422_def)
  have name: "normalize_environment_name ''e'' = Inr ''e''"
    by (simp add: normalize_environment_name_def py_strip_def lstrip_def rstrip_def py_isspace_def code_pt_def)
  have md: "normalize_metadata (PDict []) = Inr []"
    by (simp add: normalize_metadata_def validate_metadata_size_def)
  have scope: "value_error_422 (environment_config_with_scope (Some ?c) None) = Inr ?c"
    by (simp add: value_error_422_def environment_config_with_scope_def)
  have same: "world0\<lparr>w_db := w_committed world0\<rparr> = world0" by (simp add: world0_def)
  obtain e v where q: "create_environment_q ''e'' ?c [] (md_pv []) None world0 = (Inr e, v)" "en_config e = ?c"
    using created_config [of "''e''" ?c "[]" "md_pv []"] by blast
  have "environment_config_to_response ?c = Inr [(''type'', PStr ''cloud''),
      (''networking'', PDict [(''type'', PStr ''unrestricted'')]),
      (''packages'', PDict ((''type'', PStr ''packages'') # map (\<lambda>k. (k, PList [])) PACKAGE_MANAGERS))]"
    by (simp add: environment_config_to_response_def dpop_def networking_to_response_def in_set_def
        packages_to_response_def PACKAGE_MANAGERS_def)
  moreover have "environment_scope ?c = Inr (Some ''organization'')"
    by (simp add: environment_scope_def in_set_def)
  ultimately obtain r where r: "environment_to_response e = Inr r" "dget ''scope'' r = PStr ''organization''"
    "vget ''type'' (dget ''config'' r) = Inr (PStr ''cloud'')"
    using q(2) by (simp add: environment_to_response_def)
  show ?thesis
    using q(1) r
    by (simp add: create_environment_def session_scope_def same body name md scope seqM_def bindM_def mon_defs)
qed

text \<open>
  A NaN is accepted as a positive number: the test \<^theory_text>\<open>value <= 0\<close> is false of it.
\<close>

theorem nan_is_positive:
  "validate_positive_number (PFloat FNaN) field = Inr () \<and>
   validate_environment_config [(''resources'', PDict [(''timeout_seconds'', PFloat FNaN)])] = Inr ()"
  by (simp add: validate_positive_number_def config_Inr networking_Inr packages_Inr
      validate_resources_def validate_sandbox_def)

end
