(* ===== verification/EnvWork.thy ===== *)
theory EnvWork
  imports Environments
begin

text \<open>
  The work endpoints of \<open>app/routers/environments.py\<close>, through which a self-hosted worker polls,
  acknowledges, reports and stops work items. The owner rule itself is in \<^theory_text>\<open>WorkQueue\<close>; here are
  the token check, the heartbeat precondition, reclaiming, the blocking poll and the responses.
\<close>

text \<open>\<open>secrets.compare_digest\<close> on strings is equality.\<close>

definition require_worker_access :: "string option \<Rightarrow> unit M" where
  "require_worker_access x_worker_token = bindM get_settings (\<lambda>st.
     let expected = st_oma_worker_token st in
     if expected = [] then returnM ()
     else (case x_worker_token of
         None \<Rightarrow> raiseM (HTTPException 401 ''Invalid worker token'')
       | Some t \<Rightarrow> guardM (t = [] \<or> t \<noteq> expected) (HTTPException 401 ''Invalid worker token'')))"

definition must_get_work :: "string \<Rightarrow> string \<Rightarrow> resource_row M" where
  "must_get_work environment_id work_id =
     bindM (get_resource work_id (Some ''environment_work'') (Some environment_id) False None) (\<lambda>found.
     case found of
       None \<Rightarrow> raiseM (HTTPException 404 ''Environment work item not found'')
     | Some w \<Rightarrow> returnM w)"

definition work_state :: "string \<Rightarrow> string" where
  "work_state status =
     (if status \<in> {''queued'', ''rescheduling''} then ''queued''
      else if status = ''leased'' then ''starting''
      else if status = ''running'' then ''active''
      else if status = ''stopping'' then ''stopping''
      else ''stopped'')"

definition string_metadata :: "pdict \<Rightarrow> pdict" where
  "string_metadata metadata = map (\<lambda>(k, v). (k, PStr (py_str v))) (filter (\<lambda>(_, v). v \<noteq> PNone) metadata)"

text \<open>\<open>_string_metadata(data.get("metadata") or {})\<close>\<close>

definition work_metadata :: "pdict \<Rightarrow> pdict res" where
  "work_metadata data = (case por (dget ''metadata'' data) (PDict []) of
      PDict m \<Rightarrow> Inr (string_metadata m) | _ \<Rightarrow> Inl AttributeError)"

definition work_response :: "resource_row \<Rightarrow> pdict res" where
  "work_response work =
     (let data = mr_data work in
      bindE (work_metadata data) (\<lambda>metadata.
      let response =
        [(''id'', PStr (mr_id work)), (''type'', PStr ''work''),
         (''environment_id'', pstr_opt (mr_parent_id work)),
         (''created_at'', PTime (mr_created_at work)),
         (''state'', PStr (work_state (mr_status work))),
         (''data'', PDict [(''type'', PStr ''session''),
                           (''id'', PStr (str_or_empty (dget ''session_id'' data)))]),
         (''metadata'', PDict metadata),
         (''acknowledged_at'', dget ''acked_at'' data),
         (''started_at'', dget ''started_at'' data),
         (''latest_heartbeat_at'', dget ''last_heartbeat_at'' data),
         (''stop_requested_at'', por (dget ''stop_requested_at'' data) (dget ''stopped_at'' data)),
         (''stopped_at'', por (dget ''stopped_at'' data)
            (if mr_status work \<in> {''completed'', ''error''} then dget ''finished_at'' data else PNone)),
         (''status'', PStr (mr_status work)), (''legacy_type'', PStr ''self_hosted_work'')]
      in Inr (foldl (\<lambda>r (k, v). dsetdefault k v r) response data)))"

definition worker_id_for_work :: "resource_row \<Rightarrow> string option \<Rightarrow> string option \<Rightarrow> string option res" where
  "worker_id_for_work work worker_id anthropic_worker_id =
     (if given_str worker_id then Inr worker_id
      else if given_str anthropic_worker_id then Inr anthropic_worker_id
      else bindE (vget ''worker_id'' (por (dget ''lease'' (mr_data work)) (PDict []))) (\<lambda>o1.
        Inr (if truthy o1 then Some (py_str o1) else None)))"

definition check_heartbeat_precondition :: "resource_row \<Rightarrow> string option \<Rightarrow> unit res" where
  "check_heartbeat_precondition work expected = (case expected of
      None \<Rightarrow> Inr ()
    | Some e \<Rightarrow>
        (let last_heartbeat = dget ''last_heartbeat_at'' (mr_data work) in
         if e = ''NO_HEARTBEAT''
         then raise_if (truthy last_heartbeat) (HTTPException 412 ''Heartbeat precondition failed'')
         else raise_if (str_or_empty last_heartbeat \<noteq> e) (HTTPException 412 ''Heartbeat precondition failed'')))"

definition oldest_queued_at :: "resource_row list \<Rightarrow> int option" where
  "oldest_queued_at items =
     (case map mr_created_at (filter (\<lambda>w. mr_status w \<in> {''queued'', ''rescheduling''}) items) of
        [] \<Rightarrow> None | t # ts \<Rightarrow> Some (foldl min t ts))"

definition parse_work_datetime :: "pv \<Rightarrow> pydt option" where
  "parse_work_datetime v = (case v of
      PTime t \<Rightarrow> Some (utc_dt t)
    | PStr s \<Rightarrow> if s = [] then None else fromisoformat (replace_char CHR ''Z'' ''+00:00'' s)
    | _ \<Rightarrow> None)"

text \<open>\<open>WorkLeaseError\<close> becomes a 409.\<close>

definition lease_error_409 :: "'a M \<Rightarrow> 'a M" where
  "lease_error_409 m = catchM m (\<lambda>e. case e of
      WorkLeaseError msg \<Rightarrow> raiseM (HTTPException 409 msg) | _ \<Rightarrow> raiseM e)"

section \<open>Reclaiming and polling\<close>

definition expire_work :: "int \<Rightarrow> int \<Rightarrow> resource_row \<Rightarrow> unit M" where
  "expire_work reclaim_older_than_ms threshold work =
     (if mr_status work \<notin> {''leased'', ''running''} then returnM ()
      else bindM (liftE (dict_or_empty (dget ''lease'' (mr_data work)))) (\<lambda>lease.
        case parse_work_datetime (por (dget ''last_heartbeat_at'' (mr_data work)) (dget ''leased_at'' lease)) of
          None \<Rightarrow> returnM ()
        | Some reference \<Rightarrow>
            bindM (liftE (dt_le reference (utc_dt threshold))) (\<lambda>old.
            if \<not> old then returnM ()
            else bindM nowM (\<lambda>now.
              let lease' = dset ''expires_at'' (PStr (isoformat (now - 1000000))) lease;
                  data = dset ''reclaim_older_than_ms'' (PInt reclaim_older_than_ms)
                           (dset ''lease'' (PDict lease') (mr_data work))
              in bindM (update_resource work (resource_patch0\<lparr>rp_data := Some data\<rparr>)) (\<lambda>_. returnM ())))))"

definition expire_reclaimable_work :: "string \<Rightarrow> int \<Rightarrow> unit M" where
  "expire_reclaimable_work environment_id reclaim_older_than_ms =
     bindM nowM (\<lambda>now.
     bindM (list_resources ''environment_work'' (Some environment_id) 1000 True False None) (\<lambda>items.
     bindM (mapM (expire_work reclaim_older_than_ms (now - reclaim_older_than_ms * 1000)) items) (\<lambda>_.
     returnM ())))"

text \<open>
  \<open>_poll_next_work\<close>: at most \<open>fuel\<close> attempts (\<open>None\<close> when they are spent); \<open>others k\<close> is what other
  transactions do to the tables during the sleep after attempt \<open>k\<close>.
\<close>

definition poll_once :: "string \<Rightarrow> string \<Rightarrow> int \<Rightarrow> int option \<Rightarrow> resource_row option M" where
  "poll_once environment_id worker_id lease_seconds reclaim =
     seqM (case reclaim of None \<Rightarrow> returnM () | Some ms \<Rightarrow> expire_reclaimable_work environment_id ms)
       (lease_next_work environment_id worker_id lease_seconds)"

fun poll_loop :: "nat \<Rightarrow> (nat \<Rightarrow> database \<Rightarrow> database) \<Rightarrow> string \<Rightarrow> string \<Rightarrow> int \<Rightarrow> int option \<Rightarrow> int option \<Rightarrow>
    resource_row option option M" where
  "poll_loop 0 others environment_id worker_id lease_seconds deadline reclaim = returnM None"
| "poll_loop (Suc fuel) others environment_id worker_id lease_seconds deadline reclaim =
     bindM (poll_once environment_id worker_id lease_seconds reclaim) (\<lambda>work.
     case (work, deadline) of
       (Some w, _) \<Rightarrow> returnM (Some (Some w))
     | (None, None) \<Rightarrow> returnM (Some None)
     | (None, Some end_time) \<Rightarrow>
         bindM nowM (\<lambda>now.
         if end_time - now \<le> 0 then returnM (Some None)
         else seqM (update_dbM (others fuel))
           (poll_loop fuel others environment_id worker_id lease_seconds deadline reclaim)))"

definition poll_next_work :: "nat \<Rightarrow> (nat \<Rightarrow> database \<Rightarrow> database) \<Rightarrow> string \<Rightarrow> string \<Rightarrow> int \<Rightarrow> int option \<Rightarrow>
    int option \<Rightarrow> resource_row option option M" where
  "poll_next_work fuel others environment_id worker_id lease_seconds block_ms reclaim =
     bindM (case block_ms of None \<Rightarrow> returnM None
            | Some ms \<Rightarrow> bindM nowM (\<lambda>t. returnM (Some (t + ms * 1000)))) (\<lambda>deadline.
     poll_loop fuel others environment_id worker_id lease_seconds deadline reclaim)"

section \<open>Handlers\<close>

definition list_environment_work :: "string option \<Rightarrow> string \<Rightarrow> int \<Rightarrow> string option \<Rightarrow> pdict list_response M" where
  "list_environment_work token environment_id limit page = session_scope (
     seqM (require_worker_access token) (seqM (must_get_environment environment_id) (
     bindM (list_resources ''environment_work'' (Some environment_id) 1000 True False None) (\<lambda>work.
     bindM (liftE (mapE work_response work)) (\<lambda>rs. paginate item_id rs (Some limit) page MAX_LIMIT)))))"

definition poll_environment_work :: "nat \<Rightarrow> (nat \<Rightarrow> database \<Rightarrow> database) \<Rightarrow> string option \<Rightarrow> string \<Rightarrow>
    string \<Rightarrow> string option \<Rightarrow> int \<Rightarrow> int option \<Rightarrow> int option \<Rightarrow> pdict option option M" where
  "poll_environment_work fuel others token environment_id worker_id anthropic_worker_id lease_seconds
      block_ms reclaim = session_scope (
     seqM (require_worker_access token) (seqM (must_get_environment environment_id) (
     let worker = (if given_str anthropic_worker_id then the anthropic_worker_id
                   else if worker_id \<noteq> [] then worker_id else ''anonymous'') in
     bindM (poll_next_work fuel others environment_id worker lease_seconds block_ms reclaim) (\<lambda>r.
     case r of
       None \<Rightarrow> returnM None
     | Some None \<Rightarrow> returnM (Some None)
     | Some (Some work) \<Rightarrow> seqM commitM (bindM (liftE (work_response work)) (\<lambda>x. returnM (Some (Some x))))))))"

definition count_status :: "string \<Rightarrow> resource_row list \<Rightarrow> pv" where
  "count_status s items = PInt (int (length (filter (\<lambda>w. mr_status w = s) items)))"

definition environment_work_stats :: "string option \<Rightarrow> string \<Rightarrow> pdict M" where
  "environment_work_stats token environment_id = session_scope (
     seqM (require_worker_access token) (seqM (must_get_environment environment_id) (
     bindM (list_resources ''environment_work'' (Some environment_id) 1000 True False None) (\<lambda>items.
     let n = (\<lambda>s. length (filter (\<lambda>w. mr_status w = s) items)) in
     returnM [(''type'', PStr ''work_queue_stats''),
       (''depth'', PInt (int (n ''queued'' + n ''rescheduling''))),
       (''pending'', PInt (int (n ''leased'' + n ''running''))),
       (''oldest_queued_at'', ptime_opt (oldest_queued_at items)),
       (''workers_polling'', PNone), (''environment_id'', PStr environment_id),
       (''queued'', count_status ''queued'' items), (''leased'', count_status ''leased'' items),
       (''running'', count_status ''running'' items),
       (''rescheduling'', count_status ''rescheduling'' items),
       (''completed'', count_status ''completed'' items), (''error'', count_status ''error'' items),
       (''stopped'', count_status ''stopped'' items),
       (''legacy_type'', PStr ''self_hosted_work_queue_stats'')]))))"

definition retrieve_environment_work :: "string option \<Rightarrow> string \<Rightarrow> string \<Rightarrow> pdict M" where
  "retrieve_environment_work token environment_id work_id = session_scope (
     seqM (require_worker_access token) (seqM (must_get_environment environment_id) (
     bindM (must_get_work environment_id work_id) (\<lambda>w. liftE (work_response w)))))"

definition update_environment_work :: "string option \<Rightarrow> string \<Rightarrow> string \<Rightarrow> pdict \<Rightarrow> pdict M" where
  "update_environment_work token environment_id work_id patch = session_scope (
     seqM (require_worker_access token) (seqM (must_get_environment environment_id) (
     bindM (must_get_work environment_id work_id) (\<lambda>work.
     seqM (guardM (set (dkeys patch) \<noteq> {''metadata''}) (HTTPException 422 ''work updates only support metadata'')) (
     seqM (guardM (\<not> is_dict (dget ''metadata'' patch)) (HTTPException 422 ''work metadata must be an object'')) (
     bindM (liftE (work_metadata (mr_data work))) (\<lambda>current.
     bindM (liftE (merge_metadata (PDict current) (dget ''metadata'' patch))) (\<lambda>m.
     bindM (update_resource work (resource_patch0\<lparr>rp_status := Some (mr_status work),
       rp_data := Some (dset ''metadata'' (PDict (md_pv m)) (mr_data work))\<rparr>)) (\<lambda>w.
     seqM commitM (liftE (work_response w)))))))))))"

definition ack_environment_work ::
  "string option \<Rightarrow> string \<Rightarrow> string \<Rightarrow> string option \<Rightarrow> string option \<Rightarrow> pdict M" where
  "ack_environment_work token environment_id work_id worker_id anthropic_worker_id = session_scope (
     seqM (require_worker_access token) (seqM (must_get_environment environment_id) (
     bindM (must_get_work environment_id work_id) (\<lambda>work.
     bindM (lease_error_409 (bindM (liftE (worker_id_for_work work worker_id anthropic_worker_id)) (\<lambda>i.
       ack_work work i))) (\<lambda>w.
     seqM commitM (liftE (work_response w)))))))"

definition heartbeat_environment_work :: "string option \<Rightarrow> string \<Rightarrow> string \<Rightarrow> pdict \<Rightarrow> string option \<Rightarrow> int \<Rightarrow>
    int option \<Rightarrow> string option \<Rightarrow> string option \<Rightarrow> pdict M" where
  "heartbeat_environment_work token environment_id work_id body worker_id lease_seconds
      desired_ttl_seconds expected_last_heartbeat anthropic_worker_id = session_scope (
     seqM (require_worker_access token) (seqM (must_get_environment environment_id) (
     bindM (must_get_work environment_id work_id) (\<lambda>work.
     seqM (liftE (check_heartbeat_precondition work expected_last_heartbeat)) (
     let ttl = (case desired_ttl_seconds of Some n \<Rightarrow> if n \<noteq> 0 then n else lease_seconds
                                          | None \<Rightarrow> lease_seconds) in
     bindM (lease_error_409 (bindM (liftE (worker_id_for_work work worker_id anthropic_worker_id)) (\<lambda>i.
       heartbeat_work work i ttl body))) (\<lambda>w.
     seqM commitM (
     bindM (liftE (work_response w)) (\<lambda>r.
     returnM [(''type'', PStr ''work_heartbeat''),
       (''last_heartbeat'', dget ''last_heartbeat_at'' (mr_data w)),
       (''lease_extended'', PBool True), (''state'', PStr (work_state (mr_status w))),
       (''ttl_seconds'', PInt ttl),
       (''payload'', por (dget ''last_heartbeat'' (mr_data w)) (PDict [])), (''work'', PDict r)]))))))))"

definition stop_environment_work :: "string option \<Rightarrow> string \<Rightarrow> string \<Rightarrow> pdict \<Rightarrow> pdict M" where
  "stop_environment_work token environment_id work_id body = session_scope (
     seqM (require_worker_access token) (seqM (must_get_environment environment_id) (
     bindM (must_get_work environment_id work_id) (\<lambda>work.
     bindM (stop_work work body) (\<lambda>w.
     seqM commitM (liftE (work_response w)))))))"

section \<open>The poll ends\<close>

text \<open>What a run does to the clock: the stream of readings stays, and readings are consumed.\<close>

definition ticks_on :: "world \<Rightarrow> world \<Rightarrow> bool" where
  "ticks_on u v \<longleftrightarrow> w_clock v = w_clock u \<and> w_ticks u \<le> w_ticks v"

interpretation clock: world_order ticks_on
  by unfold_locales (auto simp: ticks_on_def)

lemma ticks_steps:
  "keeps ticks_on nowM" "keeps ticks_on (update_dbM f)" "keeps ticks_on (workspace_id_or_default ws)"
  by (auto intro!: keepsI simp: ticks_on_def nowM_def update_dbM_def workspace_id_or_default_def)

lemma ticks_save: "keeps ticks_on (save_resource r)"
  unfolding save_resource_def Let_def by (intro clock.control ticks_steps)

lemma ticks_list: "keeps ticks_on (list_resources ty p n a d ws)"
  unfolding list_resources_def by (intro clock.control ticks_steps)

lemmas ticks_all = clock.control ticks_steps ticks_save ticks_list

lemma ticks_expire_work: "keeps ticks_on (expire_work ms t r)"
  unfolding expire_work_def Let_def update_resource_def by (intro ticks_all)

lemma ticks_lease_work: "keeps ticks_on (lease_work w i n t)"
  unfolding lease_work_eq by (intro ticks_all)

lemma ticks_poll_once: "keeps ticks_on (poll_once e i n r)"
  unfolding poll_once_def expire_reclaimable_work_def lease_next_work_def
  by (intro ticks_all ticks_expire_work ticks_lease_work)

lemma clock_advance:
  assumes "\<And>n. c n + d \<le> c (Suc n)" "0 \<le> (d :: int)" "m \<le> n"
  shows "c m + int (n - m) * d \<le> c n"
  using assms(3)
proof (induction n rule: dec_induct)
  case (step n)
  have "int (Suc n - m) * d = int (n - m) * d + d" using step(1) by (simp add: Suc_diff_le algebra_simps)
  with step assms(1) [of n] show ?case by linarith
qed simp

text \<open>
  An attempt reads the clock at least once, so with a clock that advances by \<open>d\<close> from one reading to
  the next the deadline passes after as many attempts as there are steps of \<open>d\<close> before it.
\<close>

lemma poll_loop_ends:
  assumes "\<And>n. w_clock w n + d \<le> w_clock w (Suc n)" "0 < d"
    and "deadline = Some t" "t \<le> w_clock w (w_ticks w) + (int fuel - 1) * d" "0 < fuel"
    and "poll_loop fuel others e i n deadline r w = (q, w')"
  shows "q \<noteq> Inr None"
  using assms
proof (induction fuel arbitrary: w)
  case (Suc fuel)
  obtain p u where p: "poll_once e i n r w = (p, u)" by fastforce
  have u: "w_clock u = w_clock w" "w_ticks w \<le> w_ticks u"
    using keepsD [OF ticks_poll_once p] by (simp_all add: ticks_on_def)
  show ?case
  proof (cases "\<exists>x. p = Inr None \<and> w_clock u (w_ticks u) < t")
    case False
    with Suc.prems(3,6) p show ?thesis by (cases p) (auto simp: mon_defs bindM_def split: option.splits if_splits)
  next
    case True
    let ?v = "u\<lparr>w_ticks := Suc (w_ticks u), w_db := others fuel (w_db u)\<rparr>"
    have run: "poll_loop fuel others e i n deadline r ?v = (q, w')"
      using Suc.prems(3,6) p True by (simp add: mon_defs bindM_def seqM_def)
    have "w_clock w (w_ticks w) + int (Suc (w_ticks u) - w_ticks w) * d \<le> w_clock w (Suc (w_ticks u))"
      using clock_advance [of "w_clock w" d "w_ticks w" "Suc (w_ticks u)"] Suc.prems(1,2) u(2) by simp
    moreover have "1 * d \<le> int (Suc (w_ticks u) - w_ticks w) * d"
      using u(2) Suc.prems(2) by (intro mult_right_mono) auto
    ultimately have step: "w_clock w (w_ticks w) + d \<le> w_clock ?v (w_ticks ?v)" using u(1) by simp
    have "w_clock w (w_ticks w) \<le> w_clock w (w_ticks u)"
      using clock_advance [of "w_clock w" d "w_ticks w" "w_ticks u"] Suc.prems(1,2) u(2)
      by (smt (verit) mult_nonneg_nonneg of_nat_0_le_iff)
    then have "0 < fuel"
      using True Suc.prems(4) u(1) by (cases fuel) auto
    moreover have "t \<le> w_clock ?v (w_ticks ?v) + (int fuel - 1) * d"
      using step Suc.prems(4) by (simp add: algebra_simps)
    ultimately show ?thesis
      using Suc.IH [of ?v] Suc.prems(1-3) run u(1) by simp
  qed
qed simp

section \<open>Properties\<close>

text \<open>
  C38: a blocking poll ends. With a clock that advances by at least \<open>d\<close> microseconds from one reading
  to the next, \<open>block_ms * 1000 / d\<close> attempts (and at least one) are enough for it to return an item,
  nothing, or an error, whatever other requests do to the tables meanwhile.
\<close>

theorem poll_terminates:
  assumes "\<And>n. w_clock w n + d \<le> w_clock w (Suc n)" "0 < d" "0 < fuel" "ms * 1000 \<le> int fuel * d"
  shows "fst (poll_next_work fuel others e i n (Some ms) reclaim w) \<noteq> Inr None"
proof -
  let ?t = "w_clock w (w_ticks w) + ms * 1000" and ?v = "w\<lparr>w_ticks := Suc (w_ticks w)\<rparr>"
  obtain q w' where run: "poll_loop fuel others e i n (Some ?t) reclaim ?v = (q, w')" by fastforce
  have "?t \<le> w_clock ?v (w_ticks ?v) + (int fuel - 1) * d"
    using assms(1) [of "w_ticks w"] assms(4) by (simp add: algebra_simps)
  then have "q \<noteq> Inr None"
    using poll_loop_ends [OF _ assms(2) _ _ assms(3) run] assms(1) by simp
  with run show ?thesis by (simp add: poll_next_work_def bindM_def mon_defs)
qed

theorem poll_terminates_witness:
  "fst (poll_next_work 1 (\<lambda>_ d. d) ''env_1'' ''worker'' 60 (Some 999) None world0) \<noteq> Inr None"
  by (rule poll_terminates [where d = 1000000]) (simp_all add: world0_def)


definition token_world :: world where
  "token_world = world0\<lparr>w_settings := default_settings\<lparr>st_oma_worker_token := ''secret''\<rparr>\<rparr>"


text \<open>
  A worker that names itself acknowledges an item only under a lease it owns (or one that names
  no owner): an acknowledged item was leased or running, and its lease was the caller's.
\<close>

theorem ack_needs_owner:
  assumes "ack_environment_work token e i (Some me) aid w = (Inr r, w')" "me \<noteq> []"
  shows "\<exists>u v work. must_get_work e i u = (Inr work, v) \<and> w_db u = w_committed w \<and>
    mr_status work \<in> {''leased'', ''running''} \<and> lease_owner work \<in> {None, Some me}"
proof -
  obtain u0 u1 u2 u3 u4 env work x where
    run: "require_worker_access token (w\<lparr>w_db := w_committed w\<rparr>) = (Inr (), u0)"
      "must_get_environment e u0 = (Inr env, u1)" "must_get_work e i u1 = (Inr work, u2)"
      "lease_error_409 (bindM (liftE (worker_id_for_work work (Some me) aid)) (ack_work work)) u2 = (Inr x, u3)"
    using assms(1)
    by (auto simp: ack_environment_work_def session_scope_def mon_simps split: prod.splits)
  have u0: "u0 = w\<lparr>w_db := w_committed w\<rparr>"
    using run(1) by (auto simp: require_worker_access_def get_settings_def mon_simps Let_def
        split: if_splits option.splits)
  have u1: "u1 = u0"
    using run(2) by (auto simp: must_get_environment_def get_environment_def workspace_id_or_default_def
        mon_simps dbM_def split: option.splits if_splits)
  have "\<exists>x u3. ack_work work (Some me) u2 = (Inr x, u3)"
    using run(4) assms(2)
    by (auto simp: lease_error_409_def catchM_def worker_id_for_work_def given_str_def mon_simps
        split: prod.splits sum.splits exc.splits)
  then have "require_lease_owner work (Some me) ''ack'' = Inr ()"
    by (auto simp: ack_work_def mon_simps)
  note owner_check_Inr [OF this]
  moreover have "w_db u1 = w_committed w" using u0 u1 by simp
  ultimately show ?thesis using run(3) by blast
qed

definition leased_work :: resource_row where
  "leased_work = queued_row\<lparr>mr_status := ''leased'',
     mr_data := [(''session_id'', PStr ''sess_1''), (''lease'', PDict [(''worker_id'', PStr ''A'')])]\<rparr>"

definition leased_world :: world where
  "leased_world = world0\<lparr>w_committed := add_resource leased_work (add_environment
     (scoped_environment\<lparr>en_id := ''env_1''\<rparr>) db0)\<rparr>"

theorem ack_needs_owner_witness:
  "\<exists>r w'. ack_environment_work None ''env_1'' ''work_1'' (Some ''A'') None leased_world = (Inr r, w') \<and>
    (\<exists>u v work. must_get_work ''env_1'' ''work_1'' u = (Inr work, v) \<and> w_db u = w_committed leased_world \<and>
      mr_status work \<in> {''leased'', ''running''} \<and> lease_owner work \<in> {None, Some ''A''})"
proof -
  let ?w = "leased_world\<lparr>w_db := w_committed leased_world\<rparr>"
  note rows = leased_world_def world0_def db0_def table_defs leased_work_def queued_row_def
    scoped_environment_def workspace_id_or_default_def DEFAULT_WORKSPACE_ID_def
  have access: "require_worker_access None ?w = (Inr (), ?w)"
    by (simp add: require_worker_access_def get_settings_def bindM_def mon_defs rows default_settings_def)
  have env: "must_get_environment ''env_1'' ?w = (Inr (scoped_environment\<lparr>en_id := ''env_1''\<rparr>), ?w)"
    by (simp add: must_get_environment_def get_environment_def bindM_def mon_defs rows scalar_one_or_none_def)
  have work: "must_get_work ''env_1'' ''work_1'' ?w = (Inr leased_work, ?w)"
    by (simp add: must_get_work_def get_resource_def bindM_def mon_defs rows scalar_one_or_none_def opt_eq_def)
  have id: "worker_id_for_work leased_work (Some ''A'') None = Inr (Some ''A'')"
    by (simp add: worker_id_for_work_def given_str_def)
  have owner: "require_lease_owner leased_work (Some ''A'') ''ack'' = Inr ()"
    by (simp add: require_lease_owner_def LEASED_WORK_STATUSES_def leased_work_def)
  have "\<exists>x v. ack_work leased_work (Some ''A'') ?w = (Inr x, v) \<and> (\<exists>l t. mr_data x =
      [(''session_id'', PStr ''sess_1''), (''lease'', PDict l), (''acked_at'', t), (''acked_by'', PStr ''A'')])"
    by (simp add: ack_work_def owner utcnow_iso_def update_resource_def save_resource_def bindM_def seqM_def
        mon_defs Let_def patch_resource_def resource_patch0_def) (simp add: leased_work_def)
  then obtain x v l t where x: "ack_work leased_work (Some ''A'') ?w = (Inr x, v)" "mr_data x =
      [(''session_id'', PStr ''sess_1''), (''lease'', PDict l), (''acked_at'', t), (''acked_by'', PStr ''A'')]"
    by blast
  have "\<exists>r. work_response x = Inr r"
    using x(2) by (simp add: work_response_def work_metadata_def)
  then obtain r where "work_response x = Inr r" by blast
  then have "\<exists>w'. ack_environment_work None ''env_1'' ''work_1'' (Some ''A'') None leased_world = (Inr r, w')"
    using x(1)
    by (simp add: ack_environment_work_def session_scope_def access env work id lease_error_409_def catchM_def
        seqM_def bindM_def mon_defs)
  with ack_needs_owner [of None "''env_1''" "''work_1''" "''A''" None leased_world r] show ?thesis by blast
qed

text \<open>
  A caller that names no worker passes the owner check of any lease: the id is then taken from
  the lease itself.
\<close>

theorem anonymous_worker_passes:
  assumes "mr_status work \<in> {''leased'', ''running''}" "dget ''lease'' (mr_data work) = PDict l"
    and "dget ''worker_id'' l = PStr owner" "owner \<noteq> []"
  shows "\<exists>j. worker_id_for_work work None None = Inr j \<and> require_lease_owner work j action = Inr ()"
proof -
  have "l \<noteq> []" using assms(3) by auto
  then show ?thesis using assms
    by (auto simp: worker_id_for_work_def given_str_def require_lease_owner_def LEASED_WORK_STATUSES_def)
qed

theorem anonymous_worker_passes_witness:
  "\<exists>j. worker_id_for_work (queued_row\<lparr>mr_status := ''leased'',
        mr_data := [(''lease'', PDict [(''worker_id'', PStr ''A'')])]\<rparr>) None None = Inr j \<and>
    require_lease_owner (queued_row\<lparr>mr_status := ''leased'',
        mr_data := [(''lease'', PDict [(''worker_id'', PStr ''A'')])]\<rparr>) j ''ack'' = Inr ()"
  by (rule anonymous_worker_passes [where l = "[(''worker_id'', PStr ''A'')]" and owner = "''A''"]) simp_all

end
