(* ===== verification/Storage.thy ===== *)
theory Storage
  imports Tables
begin

text \<open>
  \<open>app/storage.py\<close>: the configuration of the object store, object keys and public URLs, and the
  operations on the store, which is \<open>w_objects\<close>, one bucket. Objects are outside the transaction
  of the tables. As S3 documents it, a put or a copy replaces the object under its key, deleting a
  missing object succeeds, reading or copying one fails. The hash and the guess of a media type
  from a file name are the arguments \<open>sha256_hex\<close> and \<open>guess_type\<close>.
\<close>

section \<open>Configuration\<close>

record storage_config =
  os_backend :: string
  os_bucket_name :: string
  os_public_url :: string
  os_access_key_id :: string
  os_secret_access_key :: string
  os_endpoint_url :: "string option"
  os_region :: string

definition OBJECT_STORAGE_BACKENDS :: "string list" where
  "OBJECT_STORAGE_BACKENDS = [''s3'']"

definition object_storage_settings :: "storage_config option M" where
  "object_storage_settings = bindM get_settings (\<lambda>s.
     if st_s3_access_key_id s \<noteq> [] \<and> st_s3_secret_access_key s \<noteq> [] \<and> st_s3_bucket_name s \<noteq> []
       \<and> st_s3_public_url s \<noteq> []
     then returnM (Some \<lparr>os_backend = ''s3'', os_bucket_name = st_s3_bucket_name s,
       os_public_url = st_s3_public_url s, os_access_key_id = st_s3_access_key_id s,
       os_secret_access_key = st_s3_secret_access_key s,
       os_endpoint_url = (if st_s3_endpoint_url s \<noteq> [] then Some (st_s3_endpoint_url s) else None),
       os_region = (if st_s3_region s \<noteq> [] then st_s3_region s else ''auto'')\<rparr>)
     else returnM None)"

definition require_object_storage :: "storage_config M" where
  "require_object_storage = bindM object_storage_settings (\<lambda>c. case c of
      None \<Rightarrow> raiseM (StorageConfigurationError (''S3-compatible object storage requires S3_ACCESS_KEY_ID, ''
        @ ''S3_SECRET_ACCESS_KEY, S3_BUCKET_NAME, and S3_PUBLIC_URL''))
    | Some config \<Rightarrow> returnM config)"

definition object_storage_configured :: "bool M" where
  "object_storage_configured = bindM object_storage_settings (\<lambda>c. returnM (c \<noteq> None))"

definition object_storage_backend_label :: "string M" where
  "object_storage_backend_label = bindM require_object_storage (\<lambda>c. returnM (os_backend c))"

definition should_store_in_object_storage :: "bool M" where
  "should_store_in_object_storage = bindM require_object_storage (\<lambda>_. returnM True)"

definition is_object_storage_backend :: "string option \<Rightarrow> bool" where
  "is_object_storage_backend v = (case v of
      None \<Rightarrow> False | Some s \<Rightarrow> s \<noteq> [] \<and> py_lower s \<in> set OBJECT_STORAGE_BACKENDS)"

section \<open>Keys and URLs\<close>

text \<open>\<^theory_text>\<open>re.sub(r"[^...]+", r, s)\<close>: every run of characters outside the class becomes one \<open>r\<close>.\<close>

fun sub_runs :: "(char \<Rightarrow> bool) \<Rightarrow> char \<Rightarrow> bool \<Rightarrow> string \<Rightarrow> string" where
  "sub_runs ok r inside [] = []"
| "sub_runs ok r inside (c # cs) =
     (if ok c then c # sub_runs ok r False cs
      else if inside then sub_runs ok r True cs else r # sub_runs ok r True cs)"

definition is_alnum :: "char \<Rightarrow> bool" where
  "is_alnum c = (let n = code_pt c in
     (48 \<le> n \<and> n \<le> 57) \<or> (65 \<le> n \<and> n \<le> 90) \<or> (97 \<le> n \<and> n \<le> 122))"

definition filename_char :: "char \<Rightarrow> bool" where
  "filename_char c = (is_alnum c \<or> c \<in> set ''._-'')"

definition path_char :: "char \<Rightarrow> bool" where
  "path_char c = (is_alnum c \<or> c \<in> set ''._=-'')"

definition safe_filename :: "string \<Rightarrow> string" where
  "safe_filename v =
     (let candidate = py_strip (last (split_on CHR ''/'' (if v \<noteq> [] then v else ''object'')));
          cut = take 180 (sub_runs filename_char CHR ''_'' False candidate)
      in if cut \<noteq> [] then cut else ''object'')"

definition safe_path_part :: "string \<Rightarrow> string" where
  "safe_path_part v =
     (let cut = take 120 (sub_runs path_char CHR ''_'' False (py_strip v))
      in if cut \<noteq> [] then cut else ''oma'')"

text \<open>\<^theory_text>\<open>strftime("%Y-%m-%d")\<close> is the date part of the ISO form.\<close>

definition object_key :: "string \<Rightarrow> string \<Rightarrow> string \<Rightarrow> string option \<Rightarrow> string option \<Rightarrow> string M" where
  "object_key namespace category filename content_sha256 ws =
     bindM nowM (\<lambda>t.
     bindM (workspace_id_or_default ws) (\<lambda>workspace.
     bindM (case content_sha256 of
              Some h \<Rightarrow> if h \<noteq> [] then returnM (take 16 h) else new_id ''obj''
            | None \<Rightarrow> new_id ''obj'') (\<lambda>unique.
     returnM (''workspaces/'' @ safe_path_part workspace @ ''/''
       @ safe_path_part (if namespace \<noteq> [] then namespace else ''oma'') @ ''/''
       @ safe_path_part (if category \<noteq> [] then category else ''general'') @ ''/''
       @ take 10 (isoformat t) @ ''/'' @ unique @ ''_'' @ safe_filename filename))))"

definition public_url_for_key :: "string \<Rightarrow> string M" where
  "public_url_for_key key = bindM require_object_storage (\<lambda>c.
     returnM (rstrip_char CHR ''/'' (os_public_url c) @ ''/'' @ key))"

definition key_from_public_url :: "string \<Rightarrow> string M" where
  "key_from_public_url url = bindM require_object_storage (\<lambda>c.
     returnM (removeprefix (rstrip_char CHR ''/'' (os_public_url c) @ ''/'') url))"

section \<open>Operations on the store\<close>

definition put_object :: "string \<Rightarrow> stored_object \<Rightarrow> unit M" where
  "put_object key ob = modifyM (\<lambda>w. w\<lparr>w_objects := dset key ob (w_objects w)\<rparr>)"

definition get_object :: "string \<Rightarrow> stored_object M" where
  "get_object key = bindM (getsM (\<lambda>w. map_of (w_objects w) key)) (\<lambda>found. case found of
      None \<Rightarrow> raiseM (External ''NoSuchKey'' [] 404) | Some ob \<Rightarrow> returnM ob)"

record stored_file =
  sf_backend :: string
  sf_key :: string
  sf_url :: string
  sf_content_type :: string
  sf_size_bytes :: int
  sf_sha256 :: string

definition save_file_bytes :: "(string \<Rightarrow> string) \<Rightarrow> (string \<Rightarrow> string option) \<Rightarrow> string \<Rightarrow> string option \<Rightarrow>
    string \<Rightarrow> string \<Rightarrow> string \<Rightarrow> string option \<Rightarrow> stored_file M" where
  "save_file_bytes sha256_hex guess_type data mime_type namespace filename category ws =
     bindM require_object_storage (\<lambda>config.
     let content_type = (case mime_type of
           Some m \<Rightarrow> if m \<noteq> [] then m else (case guess_type filename of
                        Some g \<Rightarrow> if g \<noteq> [] then g else ''application/octet-stream''
                      | None \<Rightarrow> ''application/octet-stream'')
         | None \<Rightarrow> (case guess_type filename of
                        Some g \<Rightarrow> if g \<noteq> [] then g else ''application/octet-stream''
                      | None \<Rightarrow> ''application/octet-stream''));
         sha256 = sha256_hex data in
     bindM (object_key namespace category filename (Some sha256) ws) (\<lambda>key.
     seqM (put_object key \<lparr>ob_body = data, ob_content_type = Some content_type\<rparr>) (
     bindM (public_url_for_key key) (\<lambda>url.
     returnM \<lparr>sf_backend = os_backend config, sf_key = key, sf_url = url, sf_content_type = content_type,
              sf_size_bytes = int (length data), sf_sha256 = sha256\<rparr>))))"

definition download_file_with_type :: "string \<Rightarrow> (string \<times> string option) M" where
  "download_file_with_type key = bindM require_object_storage (\<lambda>_.
     bindM (get_object key) (\<lambda>ob. returnM (ob_body ob, ob_content_type ob)))"

definition download_file :: "string \<Rightarrow> string M" where
  "download_file key = bindM (download_file_with_type key) (\<lambda>(data, _). returnM data)"

definition copy_file :: "string \<Rightarrow> string \<Rightarrow> string option \<Rightarrow> unit M" where
  "copy_file source_key destination_key content_type = bindM require_object_storage (\<lambda>_.
     bindM (get_object source_key) (\<lambda>ob.
     put_object destination_key (case content_type of
         Some t \<Rightarrow> if t \<noteq> [] then ob\<lparr>ob_content_type := Some t\<rparr> else ob
       | None \<Rightarrow> ob)))"

definition delete_file :: "string \<Rightarrow> unit M" where
  "delete_file key = bindM require_object_storage (\<lambda>_.
     modifyM (\<lambda>w. w\<lparr>w_objects := dpop key (w_objects w)\<rparr>))"

text \<open>\<^theory_text>\<open>head_object\<close> answers the content type and length of an object; \<open>presign\<close> is the client's
  \<^theory_text>\<open>generate_presigned_url\<close>, of the configuration, key, media type and number of seconds.\<close>

definition get_file_info :: "string \<Rightarrow> (string option \<times> int option) M" where
  "get_file_info key = bindM require_object_storage (\<lambda>_.
     bindM (getsM (\<lambda>w. map_of (w_objects w) key)) (\<lambda>found. case found of
       None \<Rightarrow> raiseM (External ''ClientError'' [] 404)
     | Some ob \<Rightarrow> returnM (ob_content_type ob, Some (int (length (ob_body ob))))))"

definition create_presigned_upload_url ::
  "(storage_config \<Rightarrow> string \<Rightarrow> string \<Rightarrow> int \<Rightarrow> string res) \<Rightarrow> string \<Rightarrow> string \<Rightarrow> int \<Rightarrow> string M" where
  "create_presigned_upload_url presign key mime_type expires_in =
     bindM require_object_storage (\<lambda>config. liftE (presign config key mime_type expires_in))"

section \<open>Lemmas\<close>

lemma sub_runs_chars: "c \<in> set (sub_runs ok r b s) \<Longrightarrow> ok c \<or> c = r"
  by (induction ok r b s rule: sub_runs.induct) (auto split: if_splits)

lemma default_chars:
  "list_all path_char ''_oma''" "list_all filename_char ''_object''"
  by (simp_all add: path_char_def filename_char_def is_alnum_def code_pt_def)

lemma safe_path_part_chars: "c \<in> set (safe_path_part v) \<Longrightarrow> path_char c"
  using default_chars(1) sub_runs_chars [of c path_char "CHR ''_''" False "py_strip v"]
  unfolding list_all_iff safe_path_part_def Let_def
  by (simp split: if_splits) (blast dest: in_set_takeD)+

lemma safe_filename_chars: "c \<in> set (safe_filename v) \<Longrightarrow> filename_char c"
  using default_chars(2) sub_runs_chars [of c filename_char "CHR ''_''" False
    "py_strip (last (split_on CHR ''/'' (if v \<noteq> [] then v else ''object'')))"]
  unfolding list_all_iff safe_filename_def Let_def
  by (simp split: if_splits) (blast dest: in_set_takeD)+

lemma safe_nonempty: "safe_path_part v \<noteq> []" "safe_filename v \<noteq> []"
  by (auto simp: safe_path_part_def safe_filename_def Let_def)

lemma safe_lengths: "length (safe_path_part v) \<le> 120" "length (safe_filename v) \<le> 180"
  by (auto simp: safe_path_part_def safe_filename_def Let_def)

lemma no_slash: "CHR ''/'' \<notin> set (safe_path_part v)" "CHR ''/'' \<notin> set (safe_filename v)"
  using safe_path_part_chars [of "CHR ''/''"] safe_filename_chars [of "CHR ''/''"]
  by (auto simp: path_char_def filename_char_def is_alnum_def code_pt_def)

text \<open>
  The store is outside the transaction: its operations leave the tables and the workspace of the request alone.
\<close>

definition tables_kept :: "world \<Rightarrow> world \<Rightarrow> bool" where
  "tables_kept u v \<longleftrightarrow> w_db v = w_db u \<and> w_committed v = w_committed u \<and> w_workspace v = w_workspace u"

interpretation kept: world_order tables_kept
  by unfold_locales (auto simp: tables_kept_def)

lemma kept_quiet:
  "keeps tables_kept nowM" "keeps tables_kept (new_id p)" "keeps tables_kept (workspace_id_or_default ws)"
  "keeps tables_kept get_settings" "keeps tables_kept (put_object k ob)" "keeps tables_kept (getsM g)"
  by (auto intro!: keepsI simp: tables_kept_def mon_defs get_settings_def put_object_def
      workspace_id_or_default_def)

lemma kept_config: "keeps tables_kept require_object_storage"
  unfolding require_object_storage_def object_storage_settings_def
  by (intro kept.control kept_quiet)

lemma kept_store:
  "keeps tables_kept (object_key n c f h ws)" "keeps tables_kept (public_url_for_key k)"
  "keeps tables_kept (get_object k)" "keeps tables_kept (copy_file k k' t)" "keeps tables_kept (delete_file k)"
  unfolding object_key_def public_url_for_key_def get_object_def copy_file_def delete_file_def
  by (intro kept.control kept_quiet kept_config | auto intro!: keepsI simp: tables_kept_def)+

lemma public_url_pure [simp]: "public_url_for_key k w = (Inr u, v) \<Longrightarrow> v = w"
  by (auto simp: public_url_for_key_def require_object_storage_def object_storage_settings_def
      get_settings_def mon_simps split: option.splits if_splits)

text \<open>The date in a key: ten characters without a slash.\<close>

lemma dig_no_slash: "n < 10 \<Longrightarrow> dig n \<noteq> CHR ''/''" "n < 10 \<Longrightarrow> CHR ''/'' \<noteq> dig n"
proof -
  have "of_char (dig n) \<noteq> (47 :: nat)" if "n < 10" using that by (simp add: dig_def)
  moreover have "of_char (CHR ''/'') = (47 :: nat)" by simp
  ultimately show "n < 10 \<Longrightarrow> dig n \<noteq> CHR ''/''" "n < 10 \<Longrightarrow> CHR ''/'' \<noteq> dig n" by metis+
qed

lemma nat_str_no_slash: "CHR ''/'' \<notin> set (nat_str n)"
  by (induction n rule: nat_str.induct) (subst nat_str.simps, auto simp: dig_no_slash)

lemma iso_date_take: "take 10 (isoformat t) = iso_date (nat (t div us_per_day))"
  by (cases "ymd (nat (t div us_per_day))") (simp add: isoformat_def iso_date_def pad4_def pad2_def)

lemma iso_date_no_slash: "CHR ''/'' \<notin> set (iso_date d)"
  by (cases "ymd d") (simp add: iso_date_def pad4_def pad2_def dig_no_slash [symmetric] dig_no_slash)

section \<open>Properties\<close>

text \<open>
  An object key has six segments, whatever names it is made of: the tenant's segment, which
  follows \<open>workspaces\<close>, is the sanitised workspace id, so no file name, category or namespace can
  reach the keys of another workspace.
\<close>

theorem object_key_segments:
  assumes "object_key namespace category filename sha ws w = (Inr key, w')"
    and "\<And>h. sha = Some h \<Longrightarrow> CHR ''/'' \<notin> set h" "\<And>n. CHR ''/'' \<notin> set (w_uuids w n)"
  shows "\<exists>workspace ns cat date file. split_on CHR ''/'' key =
      [''workspaces'', safe_path_part workspace, ns, cat, date, file] \<and>
    workspace_id_or_default ws w = (Inr workspace, w)"
proof -
  obtain unique u workspace date where k: "key = ''workspaces/'' @ safe_path_part workspace @ ''/''
       @ safe_path_part (if namespace \<noteq> [] then namespace else ''oma'') @ ''/''
       @ safe_path_part (if category \<noteq> [] then category else ''general'') @ ''/''
       @ date @ ''/'' @ unique @ ''_'' @ safe_filename filename"
    and ws: "workspace_id_or_default ws w = (Inr workspace, w)"
    and date: "CHR ''/'' \<notin> set date" and unique: "CHR ''/'' \<notin> set unique"
    using assms
    by (fastforce simp: object_key_def mon_simps workspace_id_or_default_def nowM_def new_id_def uuidM_def
        iso_date_take iso_date_no_slash split: option.splits if_splits dest: in_set_takeD)
  have "split_on CHR ''/'' key = [''workspaces'', safe_path_part workspace,
      safe_path_part (if namespace \<noteq> [] then namespace else ''oma''),
      safe_path_part (if category \<noteq> [] then category else ''general''), date,
      unique @ ''_'' @ safe_filename filename]"
    unfolding k using date unique no_slash
    by (simp only: append_assoc append_Cons append_Nil) (simp add: split_on_append split_on_fresh)
  with ws show ?thesis by blast
qed

theorem object_key_segments_witness:
  "\<exists>key w'. object_key ''sessions_1'' ''resources'' ''../../a b.txt'' None (Some ''../other'') world0 = (Inr key, w') \<and>
    (\<exists>workspace ns cat date file. split_on CHR ''/'' key =
      [''workspaces'', safe_path_part workspace, ns, cat, date, file] \<and>
    workspace_id_or_default (Some ''../other'') world0 = (Inr workspace, world0))"
proof -
  have "\<exists>key w'. object_key ''sessions_1'' ''resources'' ''../../a b.txt'' None (Some ''../other'') world0 = (Inr key, w')"
    by (simp add: object_key_def bindM_def mon_defs workspace_id_or_default_def)
  moreover have "CHR ''/'' \<notin> set (w_uuids world0 n)" for n
    unfolding world0_def by (simp add: nat_str_no_slash)
  ultimately show ?thesis
    using object_key_segments [of "''sessions_1''" "''resources''" "''../../a b.txt''" None "Some ''../other''" world0]
    by fastforce
qed

end
