(* ===== verification/Secrets.thy ===== *)
theory Secrets
  imports Pagination Queries
begin

text \<open>
  \<open>app/secret_cipher.py\<close> (encryption at rest of the secret values inside a JSON value) and
  \<open>app/models/resources.py\<close> (the response of a resource, with secrets redacted). AES-256-GCM is
  not in the repository: \<open>seal\<close> and \<open>opn\<close> stand for \<^theory_text>\<open>AESGCM(key).encrypt\<close> and \<^theory_text>\<open>decrypt\<close>, and
  \<open>aead_law\<close> is what the library documents of them, that decryption inverts encryption under the
  same key and nonce.
\<close>

definition ENCRYPTED_PREFIX :: string where "ENCRYPTED_PREFIX = ''enc:v1:''"
definition NONCE_BYTES :: nat where "NONCE_BYTES = 12"

definition SECRET_VALUE_KEYS :: "string list" where
  "SECRET_VALUE_KEYS = [''access_token'', ''api_key'', ''apikey'', ''client_secret'', ''password'',
     ''private_key'', ''refresh_token'', ''secret_value'', ''token'']"

definition normal_key :: "string \<Rightarrow> string" where
  "normal_key key = replace_char CHR ''-'' ''_'' (py_lower key)"

definition is_secret_key :: "string \<Rightarrow> bool" where
  "is_secret_key key = (let n = normal_key key in
     n \<in> set SECRET_VALUE_KEYS \<or> endswith ''_token'' n \<or> endswith ''_api_key'' n)"

definition encryption_key :: "string option M" where
  "encryption_key = bindM get_settings (\<lambda>st.
     let encoded = py_strip (st_oma_encryption_key st) in
     if encoded = [] then returnM None
     else (case b64decode_validate encoded of
         None \<Rightarrow> raiseM (ValueError ''OMA_ENCRYPTION_KEY must be base64-encoded'')
       | Some key \<Rightarrow>
           if length key \<noteq> 32
           then raiseM (ValueError ''OMA_ENCRYPTION_KEY must decode to exactly 32 bytes'')
           else returnM (Some key)))"

definition encrypt_secret :: "(string \<Rightarrow> string \<Rightarrow> string \<Rightarrow> string) \<Rightarrow> string \<Rightarrow> string M" where
  "encrypt_secret seal value = bindM encryption_key (\<lambda>key.
     case key of
       None \<Rightarrow> returnM value
     | Some k \<Rightarrow>
         if startswith ENCRYPTED_PREFIX value then returnM value
         else bindM randomM (\<lambda>nonce.
           let ciphertext = seal k nonce (utf8_encode value)
           in returnM (ENCRYPTED_PREFIX @ b64encode (nonce @ ciphertext))))"

definition decrypt_secret :: "(string \<Rightarrow> string \<Rightarrow> string \<Rightarrow> string option) \<Rightarrow> string \<Rightarrow> string M" where
  "decrypt_secret opn value =
     (if \<not> startswith ENCRYPTED_PREFIX value then returnM value
      else bindM encryption_key (\<lambda>key.
        case key of
          None \<Rightarrow> raiseM (ValueError ''Found an encrypted secret but OMA_ENCRYPTION_KEY is not configured'')
        | Some k \<Rightarrow>
            (case b64decode (drop (length ENCRYPTED_PREFIX) value) of
               None \<Rightarrow> raiseM (ValueError ''Incorrect padding'')
             | Some raw \<Rightarrow>
                 (case opn k (take NONCE_BYTES raw) (drop NONCE_BYTES raw) of
                    None \<Rightarrow> raiseM InvalidTag
                  | Some plaintext \<Rightarrow>
                      (case utf8_decode plaintext of
                         None \<Rightarrow> raiseM (ValueError ''invalid utf-8'')
                       | Some text \<Rightarrow> returnM text)))))"

text \<open>\<open>_walk\<close>\<close>

fun walk :: "(string \<Rightarrow> string M) \<Rightarrow> pv \<Rightarrow> pv M" where
  "walk f (PDict d) = bindM (mapM (\<lambda>(k, v). bindM
       (if is_secret_key k then
          (case v of PStr s \<Rightarrow> bindM (f s) (\<lambda>t. returnM (PStr t)) | _ \<Rightarrow> walk f v)
        else walk f v)
       (\<lambda>u. returnM (k, u))) d) (\<lambda>e. returnM (PDict e))"
| "walk f (PList xs) = bindM (mapM (walk f) xs) (\<lambda>ys. returnM (PList ys))"
| "walk f v = returnM v"

definition encrypt_secret_values :: "(string \<Rightarrow> string \<Rightarrow> string \<Rightarrow> string) \<Rightarrow> pv \<Rightarrow> pv M" where
  "encrypt_secret_values seal v = walk (encrypt_secret seal) v"

definition decrypt_secret_values :: "(string \<Rightarrow> string \<Rightarrow> string \<Rightarrow> string option) \<Rightarrow> pv \<Rightarrow> pv M" where
  "decrypt_secret_values opn v = walk (decrypt_secret opn) v"

section \<open>Decryption undoes encryption\<close>

definition aead_law ::
  "(string \<Rightarrow> string \<Rightarrow> string \<Rightarrow> string) \<Rightarrow> (string \<Rightarrow> string \<Rightarrow> string \<Rightarrow> string option) \<Rightarrow> bool" where
  "aead_law seal opn = (\<forall>k n p. opn k n (seal k n p) = Some p)"

lemma utf8_decode_encode: "utf8_decode (utf8_encode s) = Some s"
proof (induction s)
  case (Cons c s)
  show ?case
  proof (cases "code_pt c < 128")
    case True
    with Cons show ?thesis by (simp add: utf8_encode_def utf8_char_def Let_def)
  next
    case False
    let ?n = "code_pt c"
    have "?n < 256" by simp
    then have "?n div 64 = 2 \<or> ?n div 64 = 3" using False by linarith
    then have a: "code_pt (char_of (192 + ?n div 64)) = 192 + ?n div 64"
      by (auto simp: code_pt_def)
    have m: "?n mod 64 < 64" by simp
    then have b: "code_pt (char_of (128 + ?n mod 64)) = 128 + ?n mod 64"
      by (simp only: code_pt_def of_char_of) simp
    have u: "utf8_encode (c # s) = char_of (192 + ?n div 64) # char_of (128 + ?n mod 64) # utf8_encode s"
      using False by (simp add: utf8_encode_def utf8_char_def Let_def)
    have j: "(192 + ?n div 64 - 192) * 64 + (128 + ?n mod 64 - 128) = ?n"
      by (simp add: div_mult_mod_eq)
    show ?thesis
      unfolding u utf8_decode.simps(2) a b list.case
      using \<open>?n div 64 = 2 \<or> ?n div 64 = 3\<close> m Cons j by auto
  qed
qed (simp add: utf8_encode_def)

interpretation utf8: codec utf8_encode utf8_decode "\<lambda>_. True"
  by unfold_locales (simp add: utf8_decode_encode)

text \<open>The key depends on the settings only.\<close>

definition key_of :: "settings \<Rightarrow> string option res" where
  "key_of st = (let encoded = py_strip (st_oma_encryption_key st) in
     if encoded = [] then Inr None
     else (case b64decode_validate encoded of
         None \<Rightarrow> Inl (ValueError ''OMA_ENCRYPTION_KEY must be base64-encoded'')
       | Some key \<Rightarrow> if length key \<noteq> 32
           then Inl (ValueError ''OMA_ENCRYPTION_KEY must decode to exactly 32 bytes'')
           else Inr (Some key)))"

lemma encryption_key_run: "encryption_key w = (key_of (w_settings w), w)"
  by (simp add: encryption_key_def key_of_def bindM_def get_settings_def mon_defs Let_def
      split: option.split)

text \<open>The random stream gives nonces of the length that is asked for.\<close>

definition nonces :: "world \<Rightarrow> bool" where
  "nonces w = (\<forall>k. length (w_random w k) = NONCE_BYTES)"

lemma encrypt_run:
  assumes "key_of (w_settings w) = Inr (Some k)" "\<not> startswith ENCRYPTED_PREFIX v"
  shows "encrypt_secret seal v w =
    (Inr (ENCRYPTED_PREFIX @ b64encode (w_random w (w_random_draws w)
        @ seal k (w_random w (w_random_draws w)) (utf8_encode v))),
     w\<lparr>w_random_draws := Suc (w_random_draws w)\<rparr>)"
  using assms by (simp add: encrypt_secret_def bindM_def encryption_key_run mon_defs Let_def)

lemma decrypt_run:
  assumes "key_of (w_settings w) = Inr (Some k)" "aead_law seal opn" "length n = NONCE_BYTES"
  shows "decrypt_secret opn (ENCRYPTED_PREFIX @ b64encode (n @ seal k n (utf8_encode v))) w = (Inr v, w)"
proof -
  have "opn k n (seal k n (utf8_encode v)) = Some (utf8_encode v)"
    using assms(2) by (simp add: aead_law_def)
  then show ?thesis
    using assms(1,3) b64.dec_enc
    by (simp add: decrypt_secret_def bindM_def encryption_key_run mon_defs utf8_decode_encode)
qed

text \<open>A property of every string the walk transforms.\<close>

fun secrets_all :: "(string \<Rightarrow> bool) \<Rightarrow> pv \<Rightarrow> bool" where
  "secrets_all P (PDict d) = list_all (\<lambda>(k, v).
     if is_secret_key k then (case v of PStr s \<Rightarrow> P s | _ \<Rightarrow> secrets_all P v) else secrets_all P v) d"
| "secrets_all P (PList xs) = list_all (secrets_all P) xs"
| "secrets_all P v = True"

definition keyed :: "string \<Rightarrow> world \<Rightarrow> bool" where
  "keyed k w = (key_of (w_settings w) = Inr (Some k))"

text \<open>\<open>f\<close> turns \<open>x\<close> into a \<open>Q\<close> value that \<open>g\<close> turns back, in every world with the key.\<close>

definition undone :: "string \<Rightarrow> ('a \<Rightarrow> 'b M) \<Rightarrow> ('b \<Rightarrow> 'a M) \<Rightarrow> ('b \<Rightarrow> bool) \<Rightarrow> 'a \<Rightarrow> bool" where
  "undone k f g Q x = (\<forall>w. keyed k w \<and> nonces w \<longrightarrow>
     (\<exists>y w'. f x w = (Inr y, w') \<and> keyed k w' \<and> nonces w' \<and> w_settings w' = w_settings w
        \<and> (\<forall>u. keyed k u \<longrightarrow> g y u = (Inr x, u)) \<and> Q y))"

lemma undoneE:
  assumes "undone k f g Q x" "keyed k w" "nonces w"
  obtains y w' where "f x w = (Inr y, w')" "keyed k w'" "nonces w'" "w_settings w' = w_settings w"
    "\<And>u. keyed k u \<Longrightarrow> g y u = (Inr x, u)" "Q y"
  using assms unfolding undone_def by blast

lemma undone_map:
  "list_all (undone k f g Q) xs \<Longrightarrow> undone k (mapM f) (mapM g) (list_all Q) xs"
proof (induction xs)
  case Nil
  then show ?case by (simp add: undone_def)
next
  case (Cons x xs)
  from Cons have x: "undone k f g Q x" and xs: "undone k (mapM f) (mapM g) (list_all Q) xs" by auto
  show ?case unfolding undone_def
  proof (intro allI impI)
    fix w assume w: "keyed k w \<and> nonces w"
    obtain y w1 where 1: "f x w = (Inr y, w1)" "keyed k w1" "nonces w1" "w_settings w1 = w_settings w"
      "\<And>u. keyed k u \<Longrightarrow> g y u = (Inr x, u)" "Q y"
      using x w by (elim undoneE) auto
    obtain ys w2 where 2: "mapM f xs w1 = (Inr ys, w2)" "keyed k w2" "nonces w2"
      "w_settings w2 = w_settings w1" "\<And>u. keyed k u \<Longrightarrow> mapM g ys u = (Inr xs, u)" "list_all Q ys"
      using xs 1(2,3) by (elim undoneE) auto
    have "mapM f (x # xs) w = (Inr (y # ys), w2)"
      using 1(1) 2(1) by (simp add: bindM_def mon_defs)
    moreover have "\<And>u. keyed k u \<Longrightarrow> mapM g (y # ys) u = (Inr (x # xs), u)"
      using 1(5) 2(5) by (simp add: bindM_def mon_defs)
    ultimately show "\<exists>y w'. mapM f (x # xs) w = (Inr y, w') \<and> keyed k w' \<and> nonces w'
        \<and> w_settings w' = w_settings w
        \<and> (\<forall>u. keyed k u \<longrightarrow> mapM g y u = (Inr (x # xs), u)) \<and> list_all Q y"
      using 1(4,6) 2(2-4,6) by (intro exI [of _ "y # ys"] exI [of _ w2]) simp
  qed
qed

lemma undone_bind:
  assumes "undone k f g Q x" "\<And>y. Q y \<Longrightarrow> R (h y)"
    and "\<And>y u. keyed k u \<Longrightarrow> g y u = (Inr x, u) \<Longrightarrow> g' (h y) u = (Inr x', u)"
    and "f' x' = bindM (f x) (\<lambda>y. returnM (h y))"
  shows "undone k f' g' R x'"
  unfolding undone_def
proof (intro allI impI)
  fix w assume w: "keyed k w \<and> nonces w"
  obtain y w1 where 1: "f x w = (Inr y, w1)" "keyed k w1" "nonces w1" "w_settings w1 = w_settings w"
      "\<And>u. keyed k u \<Longrightarrow> g y u = (Inr x, u)" "Q y"
    using assms(1) w by (elim undoneE) auto
  then have "f' x' w = (Inr (h y), w1)" by (simp add: assms(4) bindM_def mon_defs)
  with 1 assms(2,3) show "\<exists>y w'. f' x' w = (Inr y, w') \<and> keyed k w' \<and> nonces w'
      \<and> w_settings w' = w_settings w \<and> (\<forall>u. keyed k u \<longrightarrow> g' y u = (Inr x', u)) \<and> R y"
    by blast
qed

abbreviation sealed :: "string \<Rightarrow> bool" where
  "sealed s \<equiv> startswith ENCRYPTED_PREFIX s"

lemma undone_secret:
  assumes "aead_law seal opn" "\<not> sealed v"
  shows "undone k (encrypt_secret seal) (decrypt_secret opn) sealed v"
  unfolding undone_def
proof (intro allI impI)
  fix w assume w: "keyed k w \<and> nonces w"
  let ?n = "w_random w (w_random_draws w)"
  have n: "length ?n = NONCE_BYTES" using w by (simp add: nonces_def)
  have "encrypt_secret seal v w = (Inr (ENCRYPTED_PREFIX @ b64encode (?n @ seal k ?n (utf8_encode v))),
      w\<lparr>w_random_draws := Suc (w_random_draws w)\<rparr>)"
    using w assms(2) by (intro encrypt_run) (simp_all add: keyed_def)
  moreover have "decrypt_secret opn (ENCRYPTED_PREFIX @ b64encode (?n @ seal k ?n (utf8_encode v))) u
      = (Inr v, u)" if "keyed k u" for u
    using decrypt_run [of u k seal opn ?n v] that assms(1) n by (simp add: keyed_def)
  ultimately show "\<exists>y w'. encrypt_secret seal v w = (Inr y, w') \<and> keyed k w' \<and> nonces w'
      \<and> w_settings w' = w_settings w \<and> (\<forall>u. keyed k u \<longrightarrow> decrypt_secret opn y u = (Inr v, u)) \<and> sealed y"
    using w by (auto simp: keyed_def nonces_def)
qed

lemma undone_return: "walk f v = returnM v \<Longrightarrow> walk g v = returnM v \<Longrightarrow> Q v \<Longrightarrow> undone k (walk f) (walk g) Q v"
  by (simp add: undone_def)

definition walk_item :: "(string \<Rightarrow> string M) \<Rightarrow> string \<times> pv \<Rightarrow> (string \<times> pv) M" where
  "walk_item f kv = (case kv of (k, v) \<Rightarrow> bindM
     (if is_secret_key k then
        (case v of PStr s \<Rightarrow> bindM (f s) (\<lambda>t. returnM (PStr t)) | _ \<Rightarrow> walk f v)
      else walk f v)
     (\<lambda>u. returnM (k, u)))"

definition item_all :: "(string \<Rightarrow> bool) \<Rightarrow> string \<times> pv \<Rightarrow> bool" where
  "item_all P kv = (case kv of (k, v) \<Rightarrow>
     if is_secret_key k then (case v of PStr s \<Rightarrow> P s | _ \<Rightarrow> secrets_all P v) else secrets_all P v)"

lemma walk_dict: "walk f (PDict d) = bindM (mapM (walk_item f) d) (\<lambda>e. returnM (PDict e))"
  by (simp add: walk_item_def [abs_def] case_prod_unfold)

lemma secrets_dict: "secrets_all P (PDict d) = list_all (item_all P) d"
  by (simp add: item_all_def [abs_def] case_prod_unfold)

lemma undone_item:
  assumes a: "aead_law seal opn" and i: "item_all (\<lambda>s. \<not> sealed s) (key, v)"
    and v: "secrets_all (\<lambda>s. \<not> sealed s) v \<Longrightarrow>
      undone k (walk (encrypt_secret seal)) (walk (decrypt_secret opn)) (secrets_all sealed) v"
  shows "undone k (walk_item (encrypt_secret seal)) (walk_item (decrypt_secret opn)) (item_all sealed) (key, v)"
proof (cases "is_secret_key key \<and> is_str v")
  case True
  then obtain s where s: "v = PStr s" by (auto dest: is_strD)
  with i True have "\<not> sealed s" by (simp add: item_all_def)
  from undone_secret [OF a this] show ?thesis
  proof (rule undone_bind)
    show "item_all sealed (key, PStr y)" if "sealed y" for y
      using that True by (simp add: item_all_def)
    show "walk_item (decrypt_secret opn) (key, PStr y) u = (Inr (key, v), u)"
      if "keyed k u" "decrypt_secret opn y u = (Inr s, u)" for y u
      using that True by (simp add: walk_item_def s bindM_def mon_defs)
    show "walk_item (encrypt_secret seal) (key, v)
        = bindM (encrypt_secret seal s) (\<lambda>y. returnM (key, PStr y))"
      using True by (simp add: walk_item_def s monad_laws)
  qed
next
  case False
  have w: "walk_item f (key, x) = bindM (walk f x) (\<lambda>u. returnM (key, u))" if "is_str x = is_str v" for f x
    using False that by (cases x) (auto simp: walk_item_def monad_laws)
  have "secrets_all (\<lambda>s. \<not> sealed s) v"
    using False i by (cases v) (auto simp: item_all_def simp del: secrets_all.simps(1,2) split: if_splits)
  from v [OF this] show ?thesis
    unfolding undone_def
  proof (intro allI impI, elim allE impE)
    fix w assume "keyed k w \<and> nonces w" then show "keyed k w \<and> nonces w" .
  next
    fix w assume "\<exists>y w'. walk (encrypt_secret seal) v w = (Inr y, w') \<and> keyed k w' \<and> nonces w' \<and>
        w_settings w' = w_settings w \<and> (\<forall>u. keyed k u \<longrightarrow> walk (decrypt_secret opn) y u = (Inr v, u)) \<and>
        secrets_all sealed y"
    then obtain y w' where y: "walk (encrypt_secret seal) v w = (Inr y, w')" "keyed k w'" "nonces w'"
      "w_settings w' = w_settings w" "\<And>u. keyed k u \<Longrightarrow> walk (decrypt_secret opn) y u = (Inr v, u)"
      "secrets_all sealed y"
      by blast
    have str: "is_str y = is_str v"
      using y(1) by (cases v) (auto simp: mon_simps is_str_def)
    then have "item_all sealed (key, y)" using False y(6) by (cases y) (auto simp: item_all_def)
    with y str show "\<exists>y w'. walk_item (encrypt_secret seal) (key, v) w = (Inr y, w') \<and> keyed k w' \<and> nonces w' \<and>
        w_settings w' = w_settings w \<and> (\<forall>u. keyed k u \<longrightarrow> walk_item (decrypt_secret opn) y u = (Inr (key, v), u)) \<and>
        item_all sealed y"
      by (intro exI [of _ "(key, y)"] exI [of _ w']) (simp add: w bindM_def mon_defs)
  qed
qed

lemma walk_undone:
  "aead_law seal opn \<Longrightarrow> secrets_all (\<lambda>s. \<not> sealed s) v \<Longrightarrow>
   undone k (walk (encrypt_secret seal)) (walk (decrypt_secret opn)) (secrets_all sealed) v"
proof (induction v)
  case (PList xs)
  then have "list_all (undone k (walk (encrypt_secret seal)) (walk (decrypt_secret opn)) (secrets_all sealed)) xs"
    by (auto simp: list_all_iff)
  from undone_map [OF this] show ?case
    by (rule undone_bind [where h = PList]) (simp_all add: bindM_def mon_defs)
next
  case (PDict d)
  have "undone k (walk_item (encrypt_secret seal)) (walk_item (decrypt_secret opn)) (item_all sealed) x"
    if "x \<in> set d" for x
  proof (cases x)
    case (Pair key v)
    with PDict.IH [OF that] PDict.prems that show ?thesis
      by (auto intro!: undone_item simp: secrets_dict list_all_iff simp del: secrets_all.simps)
  qed
  then have "list_all (undone k (walk_item (encrypt_secret seal)) (walk_item (decrypt_secret opn)) (item_all sealed)) d"
    by (simp add: list_all_iff)
  from undone_map [OF this] show ?case
    by (rule undone_bind [where h = PDict]) (simp_all only: walk_dict secrets_dict, simp add: bindM_def mon_defs)
qed (auto intro: undone_return)

section \<open>Responses\<close>

definition SECRET_KEY_PARTS :: "string list" where
  "SECRET_KEY_PARTS = [''secret'', ''token'', ''api_key'', ''apikey'', ''password'', ''private_key'',
     ''client_secret'']"

definition looks_secret_key :: "string \<Rightarrow> bool" where
  "looks_secret_key key = list_ex (\<lambda>part. str_contains part (normal_key key)) SECRET_KEY_PARTS"

fun redact_secret_values :: "pv \<Rightarrow> pv" where
  "redact_secret_values (PDict d) = PDict (map (\<lambda>(k, v).
     (k, if looks_secret_key k then PStr ''redacted'' else redact_secret_values v)) d)"
| "redact_secret_values (PList xs) = PList (map redact_secret_values xs)"
| "redact_secret_values v = v"

definition redact_dict :: "pdict \<Rightarrow> pdict" where
  "redact_dict d = map (\<lambda>(k, v).
     (k, if looks_secret_key k then PStr ''redacted'' else redact_secret_values v)) d"

definition redacted_resource_data :: "resource_row \<Rightarrow> pdict" where
  "redacted_resource_data r =
     (if mr_resource_type r \<in> {''credential'', ''vault'', ''user_profile''}
      then redact_dict (mr_data r) else mr_data r)"

text \<open>\<^theory_text>\<open>if x is not None: data.setdefault(k, x)\<close>\<close>

definition default_opt :: "string \<Rightarrow> pv option \<Rightarrow> pdict \<Rightarrow> pdict" where
  "default_opt k v d = (case v of None \<Rightarrow> d | Some x \<Rightarrow> dsetdefault k x d)"

definition resource_to_response :: "resource_row \<Rightarrow> string option \<Rightarrow> pdict" where
  "resource_to_response r public_type =
     (let d0 = dupdate (redacted_resource_data r)
            [(''id'', PStr (mr_id r)),
             (''type'', PStr (case public_type of
                Some t \<Rightarrow> if t \<noteq> [] then t else mr_resource_type r | None \<Rightarrow> mr_resource_type r)),
             (''created_at'', PTime (mr_created_at r)), (''updated_at'', PTime (mr_updated_at r)),
             (''archived_at'', ptime_opt (mr_archived_at r))];
          d1 = default_opt ''version'' (map_option PInt (mr_version r)) d0;
          d2 = default_opt ''name'' (map_option PStr (mr_name r)) d1;
          d3 = (if mr_status r \<noteq> [] then dsetdefault ''status'' (PStr (mr_status r)) d2 else d2);
          d4 = (case mr_deleted_at r of None \<Rightarrow> d3 | Some t \<Rightarrow> dset ''deleted_at'' (PTime t) d3);
          d5 = default_opt ''filename'' (map_option PStr (mr_filename r)) d4;
          d6 = default_opt ''mime_type'' (map_option PStr (mr_content_type r)) d5;
          d7 = (case mr_size_bytes r of
                  Some n \<Rightarrow> dsetdefault ''size_bytes'' (PInt n) d6
                | None \<Rightarrow> default_opt ''size_bytes''
                    (map_option (\<lambda>c. PInt (int (length c))) (mr_content r)) d6);
          d8 = default_opt ''sha256'' (map_option PStr (mr_sha256 r)) d7
      in default_opt ''storage'' (map_option (\<lambda>b. PDict [(''backend'', PStr b),
           (''key'', pstr_opt (mr_storage_key r)), (''url'', pstr_opt (mr_storage_url r))])
           (mr_storage_backend r)) d8)"

definition deleted_response :: "resource_row \<Rightarrow> string option \<Rightarrow> pdict" where
  "deleted_response r public_type =
     [(''id'', PStr (mr_id r)),
      (''type'', PStr (case public_type of
          Some t \<Rightarrow> if t \<noteq> [] then t else ''deleted_'' @ mr_resource_type r
        | None \<Rightarrow> ''deleted_'' @ mr_resource_type r)),
      (''deleted'', PBool True)]"

definition encode_content :: "string option \<Rightarrow> string option" where
  "encode_content content = map_option b64encode content"

text \<open>No value sits under a key that looks secret, at any depth.\<close>

fun redacted :: "pv \<Rightarrow> bool" where
  "redacted (PDict d) = list_all (\<lambda>(k, v). if looks_secret_key k then v = PStr ''redacted'' else redacted v) d"
| "redacted (PList xs) = list_all redacted xs"
| "redacted v = True"

lemma redact_redacted: "redacted (redact_secret_values v)"
  by (induction v) (auto simp: list_all_iff)

lemma redacted_fixed: "redacted v \<Longrightarrow> redact_secret_values v = v"
proof (induction v)
  case (PDict d)
  then show ?case by (auto simp: list_all_iff intro!: map_idI split: if_splits)
next
  case (PList xs)
  then show ?case by (auto simp: list_all_iff intro!: map_idI)
qed auto

lemma redact_dict_pv: "PDict (redact_dict d) = redact_secret_values (PDict d)"
  by (simp add: redact_dict_def)

text \<open>Setting further keys that do not look secret keeps a dict redacted.\<close>

lemma redacted_dset:
  "redacted (PDict d) \<Longrightarrow> \<not> looks_secret_key k \<Longrightarrow> redacted v \<Longrightarrow> redacted (PDict (dset k v d))"
  by (fastforce simp: list_all_iff dest: set_dset)

lemma redacted_default:
  "redacted (PDict d) \<Longrightarrow> \<not> looks_secret_key k \<Longrightarrow> redacted v \<Longrightarrow> redacted (PDict (dsetdefault k v d))"
  by (auto simp: dsetdefault_def list_all_iff)

lemma redacted_default_opt:
  "redacted (PDict d) \<Longrightarrow> \<not> looks_secret_key k \<Longrightarrow> (\<And>x. v = Some x \<Longrightarrow> redacted x) \<Longrightarrow>
   redacted (PDict (default_opt k v d))"
  by (cases v) (simp_all add: default_opt_def redacted_default del: redacted.simps(1))

lemma response_keys_plain:
  "\<not> looks_secret_key ''id''" "\<not> looks_secret_key ''type''" "\<not> looks_secret_key ''created_at''"
  "\<not> looks_secret_key ''updated_at''" "\<not> looks_secret_key ''archived_at''"
  "\<not> looks_secret_key ''version''" "\<not> looks_secret_key ''name''" "\<not> looks_secret_key ''status''"
  "\<not> looks_secret_key ''deleted_at''" "\<not> looks_secret_key ''filename''"
  "\<not> looks_secret_key ''mime_type''" "\<not> looks_secret_key ''size_bytes''"
  "\<not> looks_secret_key ''sha256''" "\<not> looks_secret_key ''storage''"
  "\<not> looks_secret_key ''backend''" "\<not> looks_secret_key ''key''" "\<not> looks_secret_key ''url''"
  by code_simp+

lemma redacted_optional:
  assumes "redacted (PDict d)"
  shows "redacted (PDict (case x of None \<Rightarrow> d | Some t \<Rightarrow> dset ''deleted_at'' (PTime t) d))"
    "redacted (PDict (if c then dsetdefault ''status'' (PStr s) d else d))"
    "redacted (PDict (case n of Some i \<Rightarrow> dsetdefault ''size_bytes'' (PInt i) d
       | None \<Rightarrow> default_opt ''size_bytes'' (map_option (\<lambda>b. PInt (f b)) m) d))"
  using assms
  by (auto simp del: redacted.simps(1) split: option.split
      intro!: redacted_dset redacted_default redacted_default_opt response_keys_plain)

lemma redacted_storage:
  "redacted (PDict [(''backend'', PStr b), (''key'', pstr_opt k), (''url'', pstr_opt u)])"
  by (cases k; cases u) (simp_all add: response_keys_plain)

lemma response_redacted:
  assumes "mr_resource_type r \<in> {''credential'', ''vault'', ''user_profile''}"
  shows "redacted (PDict (resource_to_response r t))"
proof -
  have "redacted (PDict (redacted_resource_data r))"
    using assms redact_redacted [of "PDict (mr_data r)"]
    by (auto simp: redacted_resource_data_def redact_dict_def simp del: redacted.simps(1))
  then have "redacted (PDict (dupdate (redacted_resource_data r)
      [(''id'', PStr i), (''type'', PStr ty), (''created_at'', PTime c), (''updated_at'', PTime u),
       (''archived_at'', ptime_opt a)]))" for i ty c u a
    by (cases a) (simp_all add: redacted_dset response_keys_plain del: redacted.simps(1))
  then show ?thesis
    unfolding resource_to_response_def Let_def
    by (intro redacted_default_opt redacted_optional response_keys_plain)
      (auto simp: redacted_storage simp del: redacted.simps(1))
qed

section \<open>Properties\<close>

text \<open>
  C35: with a key configured, encryption followed by decryption is the identity on every JSON value
  none of whose secrets already starts with the ciphertext prefix, and in between every string under
  a secret key is ciphertext.
\<close>

theorem secrets_roundtrip:
  assumes "aead_law seal opn" "key_of (w_settings w) = Inr (Some k)" "nonces w"
    and "secrets_all (\<lambda>s. \<not> sealed s) v"
  shows "\<exists>e w'. encrypt_secret_values seal v w = (Inr e, w') \<and> secrets_all sealed e
    \<and> decrypt_secret_values opn e w' = (Inr v, w')"
  using walk_undone [OF assms(1,4), of k] assms(2,3)
  by (fastforce simp: undone_def keyed_def encrypt_secret_values_def decrypt_secret_values_def)

definition keyed_world :: world where
  "keyed_world = world0\<lparr>w_settings := default_settings\<lparr>st_oma_encryption_key :=
     ''AAAAAAAAAAAAAAAAAAAAAAAAAAAAAAAAAAAAAAAAAAA=''\<rparr>\<rparr>"

theorem secrets_roundtrip_witness:
  "\<exists>e w'. encrypt_secret_values (\<lambda>k n p. n @ p) (PDict [(''token'', PStr ''s3cret'')]) keyed_world = (Inr e, w')
    \<and> secrets_all sealed e
    \<and> decrypt_secret_values (\<lambda>k n c. Some (drop (length n) c)) e w' = (Inr (PDict [(''token'', PStr ''s3cret'')]), w')"
proof (rule secrets_roundtrip)
  show "aead_law (\<lambda>k n p. n @ p) (\<lambda>k n c. Some (drop (length n) c))" by (simp add: aead_law_def)
  show "key_of (w_settings keyed_world) = Inr (Some (replicate 32 (CHR 0x00)))" by code_simp
  show "nonces keyed_world" by (simp add: nonces_def keyed_world_def world0_def NONCE_BYTES_def)
  show "secrets_all (\<lambda>s. \<not> sealed s) (PDict [(''token'', PStr ''s3cret'')])" by code_simp
qed


definition credential_row :: resource_row where
  "credential_row = \<lparr>mr_id = ''cred_1'', mr_workspace_id = ''w'', mr_resource_type = ''credential'',
     mr_parent_id = Some ''vault_1'', mr_version = None, mr_name = None, mr_status = ''active'',
     mr_data = [(''auth'', PDict [(''access_token'', PStr ''s3cret'')])], mr_content = None,
     mr_content_type = None, mr_filename = None, mr_storage_backend = None, mr_storage_key = None,
     mr_storage_url = None, mr_size_bytes = None, mr_sha256 = None, mr_archived_at = None,
     mr_deleted_at = None, mr_created_at = 0, mr_updated_at = 0\<rparr>"


end
