(* ===== verification/SessionResources.thy ===== *)
theory SessionResources
  imports Storage Secrets Queries "HOL-Library.Multiset"
begin

text \<open>
  \<open>app/session_resources.py\<close>: the files, repositories and memory stores attached to a session. A
  file is copied to a key of the session and gets a row of its own; the copy is deleted with the
  last row that refers to it. Repository tokens are checked for and never kept.
\<close>

definition MAX_SESSION_FILE_RESOURCES :: nat where "MAX_SESSION_FILE_RESOURCES = 100"
definition MAX_SESSION_MEMORY_STORE_RESOURCES :: nat where "MAX_SESSION_MEMORY_STORE_RESOURCES = 8"

section \<open>Paths\<close>

text \<open>
  \<^theory_text>\<open>urlparse(url).path\<close>: leading control characters and spaces and all tabs and line ends go, then
  the scheme, the host, fragment, query and, for the schemes that have them, parameters are split
  off. (A bracketed host is taken to be a valid IPv6 address.)
\<close>

definition scheme_char :: "char \<Rightarrow> bool" where
  "scheme_char c = (is_alnum c \<or> c \<in> set ''+-.'')"

definition split_scheme :: "string \<Rightarrow> string \<times> string" where
  "split_scheme url = (case split_once CHR '':'' url of
      None \<Rightarrow> ([], url)
    | Some (s, rest) \<Rightarrow>
        if s \<noteq> [] \<and> is_alnum (hd s) \<and> \<not> is_digit (hd s) \<and> list_all scheme_char s
        then (py_lower s, rest) else ([], url))"

definition uses_params :: "string list" where
  "uses_params = [[], ''ftp'', ''hdl'', ''prospero'', ''http'', ''https'', ''imap'', ''itms'',
     ''itms-services'', ''shttp'', ''rtsp'', ''rtsps'', ''rtspu'', ''sip'', ''sips'', ''mms'', ''sftp'', ''tel'']"

definition before_char :: "char \<Rightarrow> string \<Rightarrow> string" where
  "before_char c s = takeWhile (\<lambda>x. x \<noteq> c) s"

text \<open>\<^theory_text>\<open>_splitparams\<close> cuts at the first semicolon of the last segment.\<close>

definition split_params :: "string \<Rightarrow> string" where
  "split_params url =
     (if CHR ''/'' \<in> set url
      then (let seg = last (split_on CHR ''/'' url) in
        take (length url - length seg) url @ before_char CHR '';'' seg)
      else before_char CHR '';'' url)"

definition url_path :: "string \<Rightarrow> string res" where
  "url_path url =
     (let u0 = filter (\<lambda>c. code_pt c \<notin> {9, 10, 13}) (dropWhile (\<lambda>c. code_pt c \<le> 32) url);
          (scheme, u1) = split_scheme u0;
          netloc = (if startswith ''//'' u1 then takeWhile (\<lambda>c. c \<notin> set ''/?#'') (drop 2 u1) else []);
          u2 = (if startswith ''//'' u1 then dropWhile (\<lambda>c. c \<notin> set ''/?#'') (drop 2 u1) else u1)
      in if (CHR ''['' \<in> set netloc) \<noteq> (CHR '']'' \<in> set netloc) then Inl (ValueError ''Invalid IPv6 URL'')
         else let path = before_char CHR ''?'' (before_char CHR ''#'' u2)
              in Inr (if scheme \<in> set uses_params \<and> CHR '';'' \<in> set path then split_params path else path))"

definition safe_mount_segment :: "string \<Rightarrow> string" where
  "safe_mount_segment v =
     py_lower (strip_char CHR ''-'' (sub_runs filename_char CHR ''-'' False (py_strip v)))"

definition github_repo_name :: "string \<Rightarrow> string res" where
  "github_repo_name url = bindE (url_path url) (\<lambda>parsed.
     let path = (if parsed \<noteq> [] then parsed else url);
         seg = last (split_on CHR ''/'' (rstrip_char CHR ''/'' path));
         name = (if seg \<noteq> [] then seg else ''repository'');
         name' = (if endswith ''.git'' name then take (length name - 4) name else name);
         safe = safe_mount_segment name'
     in Inr (if safe \<noteq> [] then safe else ''repository''))"

definition default_github_mount_path :: "string \<Rightarrow> string res" where
  "default_github_mount_path url = bindE (github_repo_name url) (\<lambda>n.
     Inr (''/workspace/'' @ (if n \<noteq> [] then n else ''repository'')))"

definition memory_store_mount_path :: "string \<Rightarrow> string \<Rightarrow> string" where
  "memory_store_mount_path name fallback =
     ''/mnt/memory/'' @ (if safe_mount_segment name \<noteq> [] then safe_mount_segment name
       else if safe_mount_segment fallback \<noteq> [] then safe_mount_segment fallback else ''memory'')"

definition validate_mount_path :: "string \<Rightarrow> unit res" where
  "validate_mount_path v = raise_if (\<not> startswith ''/'' v) (HTTPException 422 ''mount_path must be absolute'')"

section \<open>Attaching\<close>

definition count_type :: "string \<Rightarrow> resource_row list \<Rightarrow> nat" where
  "count_type ty rows = length (filter (\<lambda>r. dget ''type'' (mr_data r) = PStr ty) rows)"

definition session_resource_rows :: "session_row \<Rightarrow> resource_row list M" where
  "session_resource_rows s =
     list_resources ''session_resource'' (Some (se_id s)) 1000 True False (Some (se_workspace_id s))"

definition ensure_file_resource_capacity :: "session_row \<Rightarrow> unit M" where
  "ensure_file_resource_capacity s = bindM (session_resource_rows s) (\<lambda>rows.
     guardM (count_type ''file'' rows \<ge> MAX_SESSION_FILE_RESOURCES)
       (HTTPException 422 ''A session can have at most 100 file resources''))"

definition ensure_memory_store_resource_capacity :: "session_row \<Rightarrow> unit M" where
  "ensure_memory_store_resource_capacity s = bindM (session_resource_rows s) (\<lambda>rows.
     guardM (count_type ''memory_store'' rows \<ge> MAX_SESSION_MEMORY_STORE_RESOURCES)
       (HTTPException 422 ''A session can have at most 8 memory store resources''))"

definition storage_error_500 :: "'a M \<Rightarrow> 'a M" where
  "storage_error_500 m = catchM m (\<lambda>e. case e of
      StorageConfigurationError msg \<Rightarrow> raiseM (HTTPException 500 msg) | _ \<Rightarrow> raiseM e)"

definition pint_opt :: "int option \<Rightarrow> pv" where
  "pint_opt v = (case v of None \<Rightarrow> PNone | Some i \<Rightarrow> PInt i)"

definition or_str :: "string option \<Rightarrow> string \<Rightarrow> string" where
  "or_str a b = (case a of Some x \<Rightarrow> if x \<noteq> [] then x else b | None \<Rightarrow> b)"

definition copy_file_for_session_resource :: "resource_row \<Rightarrow> string \<Rightarrow> string \<Rightarrow> pdict option M" where
  "copy_file_for_session_resource f session_id ws =
     (case mr_storage_key f of
        Some k \<Rightarrow>
          if \<not> is_object_storage_backend (mr_storage_backend f) \<or> k = [] then returnM None
          else
            (let filename = or_str (mr_filename f) (or_str (mr_name f) (mr_id f)) in
             bindM (object_key (''sessions_'' @ session_id) ''resources'' filename (mr_sha256 f) (Some ws)) (\<lambda>dest.
             seqM (storage_error_500 (copy_file k dest (mr_content_type f))) (
             bindM (public_url_for_key dest) (\<lambda>url.
             returnM (Some
               [(''source_file_id'', PStr (mr_id f)), (''filename'', PStr filename),
                (''mime_type'', PStr (or_str (mr_content_type f) ''application/octet-stream'')),
                (''size_bytes'', pint_opt (mr_size_bytes f)), (''sha256'', pstr_opt (mr_sha256 f)),
                (''storage'', PDict [(''backend'', pstr_opt (mr_storage_backend f)),
                   (''key'', PStr dest), (''url'', PStr url)])])))))
      | None \<Rightarrow> returnM None)"

text \<open>The columns of the copy are those of the dict above, read back from it.\<close>

definition pv_str :: "pv \<Rightarrow> string option" where
  "pv_str v = (case v of PStr s \<Rightarrow> Some s | _ \<Rightarrow> None)"

definition pv_int :: "pv \<Rightarrow> int option" where
  "pv_int v = (case v of PInt i \<Rightarrow> Some i | _ \<Rightarrow> None)"

definition sub_dict :: "string \<Rightarrow> pdict \<Rightarrow> pdict" where
  "sub_dict k d = (case dget k d of PDict e \<Rightarrow> e | _ \<Rightarrow> [])"

definition create_session_scoped_file :: "resource_row \<Rightarrow> pdict \<Rightarrow> string \<Rightarrow> string \<Rightarrow> resource_row M" where
  "create_session_scoped_file source copied session_id ws =
     (let storage = sub_dict ''storage'' copied in
      create_resource ''file'' (resource_args0\<lparr>
        ra_name := pv_str (dget ''filename'' copied), ra_filename := pv_str (dget ''filename'' copied),
        ra_content_type := pv_str (dget ''mime_type'' copied),
        ra_data := [(''filename'', dget ''filename'' copied), (''mime_type'', dget ''mime_type'' copied),
                    (''source_file_id'', PStr (mr_id source)),
                    (''scope'', PDict [(''type'', PStr ''session''), (''id'', PStr session_id)])],
        ra_storage_backend := pv_str (dget ''backend'' storage),
        ra_storage_key := pv_str (dget ''key'' storage), ra_storage_url := pv_str (dget ''url'' storage),
        ra_size_bytes := pv_int (dget ''size_bytes'' copied), ra_sha256 := pv_str (dget ''sha256'' copied),
        ra_workspace_id := Some ws\<rparr>))"

definition normalize_file_session_resource :: "pdict \<Rightarrow> string \<Rightarrow> string \<Rightarrow> pdict M" where
  "normalize_file_session_resource data ws session_id =
     (let file_id = str_or_empty (dget ''file_id'' data) in
      seqM (guardM (file_id = []) (HTTPException 422 ''file session resources require file_id'')) (
      bindM (get_resource file_id (Some ''file'') None False (Some ws)) (\<lambda>found.
      case found of
        None \<Rightarrow> raiseM (HTTPException 404 ''File not found'')
      | Some f \<Rightarrow>
          (let mount_path = py_str (por (dget ''mount_path'' data) (PStr (''/mnt/session/uploads/'' @ file_id))) in
           seqM (liftE (validate_mount_path mount_path)) (
           bindM (copy_file_for_session_resource f session_id ws) (\<lambda>copied.
           case copied of
             None \<Rightarrow> raiseM (HTTPException 500 ''File object is not stored in object storage'')
           | Some c \<Rightarrow>
               bindM (create_session_scoped_file f c session_id ws) (\<lambda>session_file.
               returnM [(''type'', PStr ''file''), (''file_id'', PStr (mr_id session_file)),
                 (''source_file_id'', PStr file_id), (''mount_path'', PStr mount_path),
                 (''read_only'', PBool True), (''session_file'', PDict c)])))))))"

definition normalize_github_checkout :: "pv \<Rightarrow> pdict res" where
  "normalize_github_checkout v = (case v of
      PDict d \<Rightarrow>
        (let ty = str_or_empty (dget ''type'' d) in
         if ty = ''branch'' then
           (let name = str_or_empty (dget ''name'' d) in
            if name = [] then Inl (HTTPException 422 ''branch checkout requires name'')
            else Inr [(''type'', PStr ''branch''), (''name'', PStr name)])
         else if ty = ''commit'' then
           (let sha = str_or_empty (dget ''sha'' d) in
            if sha = [] then Inl (HTTPException 422 ''commit checkout requires sha'')
            else Inr [(''type'', PStr ''commit''), (''sha'', PStr sha)])
         else Inl (HTTPException 422 ''checkout type must be branch or commit''))
    | _ \<Rightarrow> Inl (HTTPException 422 ''github_repository checkout must be an object''))"

definition normalize_github_session_resource :: "pdict \<Rightarrow> pdict M" where
  "normalize_github_session_resource data =
     (let url = str_or_empty (dget ''url'' data); token = str_or_empty (dget ''authorization_token'' data) in
      seqM (guardM (url = []) (HTTPException 422 ''github_repository session resources require url'')) (
      seqM (guardM (token = [])
        (HTTPException 422 ''github_repository session resources require authorization_token'')) (
      bindM (if truthy (dget ''mount_path'' data) then returnM (py_str (dget ''mount_path'' data))
             else liftE (default_github_mount_path url)) (\<lambda>mount_path.
      seqM (liftE (validate_mount_path mount_path)) (
      bindM nowM (\<lambda>t.
      let normalized = [(''type'', PStr ''github_repository''), (''url'', PStr url),
            (''mount_path'', PStr mount_path), (''authorization_token_present'', PBool True),
            (''authorization_token_updated_at'', PStr (isoformat t))] in
      if dget ''checkout'' data \<noteq> PNone
      then bindM (liftE (normalize_github_checkout (dget ''checkout'' data))) (\<lambda>c.
        returnM (normalized @ [(''checkout'', PDict c)]))
      else returnM normalized))))))"

text \<open>What is kept of a store that is there and not archived.\<close>

definition memory_store_entry :: "pdict \<Rightarrow> string \<Rightarrow> resource_row \<Rightarrow> pdict res" where
  "memory_store_entry data i store =
     (let access = py_str (por (dget ''access'' data) (PStr ''read_write'')); store_data = mr_data store;
          name = (if given_str (mr_name store) then the (mr_name store)
                  else py_str (por (dget ''name'' store_data) (PStr i)));
          normalized = [(''type'', PStr ''memory_store''), (''memory_store_id'', PStr i),
            (''access'', PStr access), (''name'', PStr name),
            (''description'', PStr (str_or_empty (dget ''description'' store_data))),
            (''mount_path'', PStr (memory_store_mount_path name i))];
          instructions = str_or_empty (dget ''instructions'' data) in
      bindE (raise_if (access \<notin> set [''read_write'', ''read_only''])
        (HTTPException 422 ''memory_store access must be read_write or read_only'')) (\<lambda>_.
      if dget ''instructions'' data = PNone then Inr normalized
      else bindE (raise_if (length instructions > 4096)
        (HTTPException 422 ''memory_store instructions must be 4096 characters or fewer'')) (\<lambda>_.
        Inr (normalized @ [(''instructions'', PStr instructions)]))))"

definition normalize_memory_store_session_resource :: "pdict \<Rightarrow> string \<Rightarrow> pdict M" where
  "normalize_memory_store_session_resource data ws =
     (let i = str_or_empty (dget ''memory_store_id'' data) in
      seqM (guardM (i = []) (HTTPException 422 ''memory_store session resources require memory_store_id'')) (
      bindM (get_resource i (Some ''memory_store'') None False (Some ws)) (\<lambda>found.
      case found of
        None \<Rightarrow> raiseM (HTTPException 404 ''Memory store not found'')
      | Some store \<Rightarrow>
          seqM (guardM (mr_archived_at store \<noteq> None) (HTTPException 404 ''Memory store not found''))
            (liftE (memory_store_entry data i store)))))"

definition normalize_session_resource_data :: "pv \<Rightarrow> string list \<Rightarrow> string \<Rightarrow> string \<Rightarrow> pdict M" where
  "normalize_session_resource_data data allowed_types ws session_id = (case data of
      PDict d \<Rightarrow>
        (let ty = str_or_empty (dget ''type'' d) in
         seqM (guardM (ty \<notin> set allowed_types)
           (HTTPException 422 (''Session resource type must be one of: '' @ py_join '', '' (sort allowed_types)))) (
         if ty = ''file'' then normalize_file_session_resource d ws session_id
         else if ty = ''github_repository'' then normalize_github_session_resource d
         else if ty = ''memory_store'' then normalize_memory_store_session_resource d ws
         else raiseM (HTTPException 422 (''Unsupported session resource type: '' @ ty))))
    | _ \<Rightarrow> raiseM (HTTPException 422 ''Session resource must be an object''))"

definition session_resource_name :: "pdict \<Rightarrow> string option res" where
  "session_resource_name data =
     (let ty = dget ''type'' data in
      if ty = PStr ''file'' then Inr (pv_str (dget ''file_id'' data))
      else if ty = PStr ''github_repository''
        then bindE (github_repo_name (str_or_empty (dget ''url'' data))) (\<lambda>n. Inr (Some n))
      else if ty = PStr ''memory_store''
        then Inr (pv_str (por (dget ''name'' data) (dget ''memory_store_id'' data)))
      else Inr (pv_str (dget ''name'' data)))"

definition create_session_resource :: "session_row \<Rightarrow> pv \<Rightarrow> string list \<Rightarrow> resource_row M" where
  "create_session_resource s data allowed_types =
     (let ty = (case data of PDict d \<Rightarrow> dget ''type'' d | _ \<Rightarrow> PNone) in
      seqM (if ty = PStr ''file'' then ensure_file_resource_capacity s else returnM ()) (
      seqM (if ty = PStr ''memory_store'' then ensure_memory_store_resource_capacity s else returnM ()) (
      bindM (normalize_session_resource_data data allowed_types (se_workspace_id s) (se_id s)) (\<lambda>normalized.
      bindM (liftE (session_resource_name normalized)) (\<lambda>name.
      create_resource ''session_resource'' (resource_args0\<lparr>ra_parent_id := Some (se_id s),
        ra_name := name, ra_data := normalized, ra_workspace_id := Some (se_workspace_id s)\<rparr>))))))"

section \<open>Rotating a token, deleting\<close>

definition rotate_session_resource_token :: "resource_row \<Rightarrow> pdict \<Rightarrow> pdict M" where
  "rotate_session_resource_token r data =
     seqM (guardM (dget ''type'' (mr_data r) \<noteq> PStr ''github_repository'')
       (HTTPException 422 ''Only github_repository session resources support token rotation'')) (
     seqM (guardM (str_or_empty (dget ''authorization_token'' data) = [])
       (HTTPException 422 ''authorization_token is required'')) (
     bindM nowM (\<lambda>t.
     returnM (dpop ''authorization_token'' (dset ''authorization_token_updated_at'' (PStr (isoformat t))
       (dset ''authorization_token_present'' (PBool True) (mr_data r)))))))"

text \<open>The row of the file a session resource owns, when it owns one.\<close>

definition owned_by :: "resource_row \<Rightarrow> resource_row \<Rightarrow> bool" where
  "owned_by r f = (case dget ''scope'' (mr_data f) of
      PDict scope \<Rightarrow> dget ''type'' scope = PStr ''session'' \<and> dget ''id'' scope = pstr_opt (mr_parent_id r)
    | _ \<Rightarrow> False)"

definition release_object :: "string \<Rightarrow> resource_row \<Rightarrow> unit M" where
  "release_object ws f = (case (mr_storage_backend f, mr_storage_key f) of
      (Some backend, Some key) \<Rightarrow>
        if is_object_storage_backend (Some backend) \<and> key \<noteq> []
        then bindM (count_resources_by_storage_key ''file'' backend key False (Some ws)) (\<lambda>n.
             if n \<le> 1 then delete_file key else returnM ())
        else returnM ()
    | _ \<Rightarrow> returnM ())"

definition delete_session_resource_file :: "resource_row \<Rightarrow> unit M" where
  "delete_session_resource_file r =
     (case (dget ''type'' (mr_data r), dget ''file_id'' (mr_data r)) of
        (PStr ty, PStr file_id) \<Rightarrow>
          if ty \<noteq> ''file'' \<or> file_id = [] then returnM ()
          else bindM (get_resource file_id (Some ''file'') None False (Some (mr_workspace_id r))) (\<lambda>found.
            case found of
              None \<Rightarrow> returnM ()
            | Some f \<Rightarrow>
                if \<not> owned_by r f then returnM ()
                else seqM (release_object (mr_workspace_id r) f)
                  (bindM (delete_resource f) (\<lambda>_. returnM ())))
      | _ \<Rightarrow> returnM ())"

definition ensure_session_resource_deletable :: "resource_row \<Rightarrow> unit res" where
  "ensure_session_resource_deletable r = raise_if (dget ''type'' (mr_data r) = PStr ''memory_store'')
     (HTTPException 422 ''memory_store session resources cannot be removed after creation'')"

section \<open>Responses\<close>

definition stamped :: "resource_row \<Rightarrow> pdict" where
  "stamped r = [(''created_at'', PTime (mr_created_at r)), (''updated_at'', PTime (mr_updated_at r))]"

definition session_resource_response :: "resource_row \<Rightarrow> pdict res" where
  "session_resource_response r =
     (let data = mr_data r; ty = dget ''type'' data in
      if ty = PStr ''file'' \<or> truthy (dget ''file_id'' data) then
        (let file_id = str_or_empty (dget ''file_id'' data) in
         Inr ([(''id'', PStr (mr_id r)), (''type'', PStr ''file''), (''file_id'', PStr file_id),
               (''mount_path'', por (dget ''mount_path'' data) (PStr (''/mnt/session/uploads/'' @ file_id)))]
              @ stamped r))
      else if ty = PStr ''github_repository'' then
        bindE (if truthy (dget ''mount_path'' data) then Inr (py_str (dget ''mount_path'' data))
               else default_github_mount_path (str_or_empty (dget ''url'' data))) (\<lambda>mount_path.
        Inr ([(''id'', PStr (mr_id r)), (''type'', PStr ''github_repository''),
              (''url'', PStr (str_or_empty (dget ''url'' data))), (''mount_path'', PStr mount_path)]
             @ stamped r
             @ (if dget ''checkout'' data \<noteq> PNone then [(''checkout'', dget ''checkout'' data)] else [])))
      else if ty = PStr ''memory_store'' then
        Inr (filter (\<lambda>(_, v). v \<noteq> PNone)
          ([(''id'', PStr (mr_id r)), (''type'', PStr ''memory_store''),
            (''memory_store_id'', PStr (str_or_empty (dget ''memory_store_id'' data))),
            (''access'', por (dget ''access'' data) (PStr ''read_write'')),
            (''description'', PStr (str_or_empty (dget ''description'' data))),
            (''mount_path'', dget ''mount_path'' data), (''name'', dget ''name'' data)]
           @ stamped r @ [(''instructions'', dget ''instructions'' data)]))
      else Inr (dpop ''authorization_token'' (resource_to_response r (Some ''session_resource''))))"

definition session_resources_response :: "session_row \<Rightarrow> pv list M" where
  "session_resources_response s = bindM (session_resource_rows s) (\<lambda>rows.
     if rows \<noteq> [] then liftE (mapE (\<lambda>r. bindE (session_resource_response r) (\<lambda>d. Inr (PDict d))) rows)
     else liftE (list_or_empty (dget ''resources'' (se_status_details s))))"

definition session_has_memory_store :: "session_row \<Rightarrow> string \<Rightarrow> bool M" where
  "session_has_memory_store s memory_store_id = bindM (session_resource_rows s) (\<lambda>rows.
     if list_ex (\<lambda>r. dget ''memory_store_id'' (mr_data r) = PStr memory_store_id) rows then returnM True
     else (case dget_or ''resources'' (PList []) (se_status_details s) of
         PList xs \<Rightarrow> returnM (list_ex (\<lambda>x. case x of
             PDict d \<Rightarrow> dget ''memory_store_id'' d = PStr memory_store_id | _ \<Rightarrow> False) xs)
       | PDict _ \<Rightarrow> returnM False
       | PStr _ \<Rightarrow> returnM False
       | _ \<Rightarrow> raiseM TypeError))"

section \<open>Lemmas\<close>

text \<open>Reads, as functions of the tables.\<close>

definition ws_of :: "string option \<Rightarrow> world \<Rightarrow> string" where
  "ws_of v w = (case fst (workspace_id_or_default v w) of Inr x \<Rightarrow> x | Inl _ \<Rightarrow> [])"

lemma ws_run [mon_defs]: "workspace_id_or_default v w = (Inr (ws_of v w), w)"
  by (simp add: ws_of_def workspace_id_or_default_def mon_defs)

lemma ws_of_Some [simp]: "x \<noteq> [] \<Longrightarrow> ws_of (Some x) w = x"
  by (simp add: ws_of_def workspace_id_or_default_def mon_defs)

lemma ws_of_update [simp]:
  "ws_of v (w\<lparr>w_db := d\<rparr>) = ws_of v w" "ws_of v (w\<lparr>w_ticks := n\<rparr>) = ws_of v w"
  "ws_of v (w\<lparr>w_draws := n\<rparr>) = ws_of v w" "ws_of v (w\<lparr>w_committed := d\<rparr>) = ws_of v w"
  by (simp_all add: ws_of_def workspace_id_or_default_def mon_defs split: option.split)

lemma get_resource_Inr:
  assumes "get_resource i ty parent del ws w = (Inr (Some r), w')"
  shows "w' = w \<and> r \<in> set (db_resources (w_db w)) \<and> mr_id r = i \<and> mr_workspace_id r = ws_of ws w \<and>
    opt_eq ty (Some (mr_resource_type r)) \<and> opt_eq parent (mr_parent_id r) \<and> (del \<or> mr_deleted_at r = None)"
proof -
  from assms have "w' = w" and s: "scalar_one_or_none (filter (\<lambda>r. mr_id r = i \<and> mr_workspace_id r = ws_of ws w
         \<and> opt_eq ty (Some (mr_resource_type r)) \<and> opt_eq parent (mr_parent_id r)
         \<and> (del \<or> mr_deleted_at r = None)) (db_resources (w_db w))) = Inr (Some r)"
    by (auto simp: get_resource_def bindM_def mon_defs)
  from s have "filter (\<lambda>r. mr_id r = i \<and> mr_workspace_id r = ws_of ws w
         \<and> opt_eq ty (Some (mr_resource_type r)) \<and> opt_eq parent (mr_parent_id r)
         \<and> (del \<or> mr_deleted_at r = None)) (db_resources (w_db w)) = [r]"
    by (simp add: scalar_cases)
  then have "r \<in> set (filter (\<lambda>r. mr_id r = i \<and> mr_workspace_id r = ws_of ws w
         \<and> opt_eq ty (Some (mr_resource_type r)) \<and> opt_eq parent (mr_parent_id r)
         \<and> (del \<or> mr_deleted_at r = None)) (db_resources (w_db w)))" by simp
  with \<open>w' = w\<close> show ?thesis by simp
qed

text \<open>A row that is there and changed is written; one that is the same is not.\<close>

lemma save_resource_run:
  assumes "distinct (map mr_id (db_resources (w_db w)))" "q \<in> set (db_resources (w_db w))"
    "mr_id r = mr_id q" "r \<noteq> q"
  shows "save_resource r w = (let r' = r\<lparr>mr_updated_at := w_clock w (w_ticks w)\<rparr> in
    (Inr r', w\<lparr>w_ticks := Suc (w_ticks w), w_db := put_resource r' (w_db w)\<rparr>))"
proof -
  have "find_resource (mr_id r) (w_db w) = Some q"
    using assms by (simp add: find_resource_def find_by_unique)
  with assms(4) show ?thesis
    by (simp add: save_resource_def bindM_def seqM_def mon_defs Let_def)
qed

lemma delete_resource_run:
  assumes "distinct (map mr_id (db_resources (w_db w)))" "f \<in> set (db_resources (w_db w))"
    "mr_deleted_at f = None" "delete_resource f w = (q, w')"
  shows "\<exists>f'. q = Inr f' \<and> db_resources (w_db w') = replace_by mr_id f' (db_resources (w_db w)) \<and>
    mr_id f' = mr_id f \<and> mr_deleted_at f' \<noteq> None \<and> w_objects w' = w_objects w \<and> w_committed w' = w_committed w"
proof -
  define f1 where "f1 = f\<lparr>mr_deleted_at := Some (w_clock w (w_ticks w)), mr_status := ''deleted''\<rparr>"
  have ne: "mr_deleted_at f1 \<noteq> mr_deleted_at f" using assms(3) by (simp add: f1_def)
  then have "f1 \<noteq> f" by metis
  then have "save_resource f1 (w\<lparr>w_ticks := Suc (w_ticks w)\<rparr>) = (q, w')"
    using assms(4) by (simp add: delete_resource_def bindM_def mon_defs f1_def)
  then have "let r' = f1\<lparr>mr_updated_at := w_clock w (Suc (w_ticks w))\<rparr> in
      q = Inr r' \<and> w' = w\<lparr>w_ticks := Suc (Suc (w_ticks w)), w_db := put_resource r' (w_db w)\<rparr>"
    using save_resource_run [of "w\<lparr>w_ticks := Suc (w_ticks w)\<rparr>" f f1] assms(1,2) \<open>f1 \<noteq> f\<close>
    by (simp add: Let_def f1_def)
  then show ?thesis by (auto simp: Let_def put_resource_def f1_def)
qed

text \<open>Creating a resource appends its row and touches nothing else of the tables or the store.\<close>

lemma create_resource_run:
  assumes "create_resource ty a w = (Inr r, w')"
  shows "db_resources (w_db w') = db_resources (w_db w) @ [r]" "w_db w' = w_db w\<lparr>db_resources := db_resources (w_db w) @ [r]\<rparr>"
    "mr_resource_type r = ty" "mr_data r = ra_data a" "mr_parent_id r = ra_parent_id a" "mr_name r = ra_name a"
    "mr_status r = ra_status a" "mr_workspace_id r = ws_of (ra_workspace_id a) w" "mr_deleted_at r = None"
    "w_committed w' = w_committed w" "w_objects w' = w_objects w"
  using assms
  by (auto simp: create_resource_def bindM_def seqM_def mon_defs insert_resource_def Let_def add_resource_def
      split: if_splits)

lemma kept_error: "keeps tables_kept m \<Longrightarrow> keeps tables_kept (storage_error_500 m)"
  unfolding storage_error_500_def
  by (rule kept.catch_keeps) (auto simp: kept.pure_steps split: exc.split)

lemma kept_copy: "keeps tables_kept (copy_file_for_session_resource f i ws)"
  unfolding copy_file_for_session_resource_def Let_def
  by (intro kept.control kept_store kept_error)

lemma copy_file_run:
  assumes "copy_file_for_session_resource f i ws w = (q, w')"
  shows "w_db w' = w_db w \<and> w_committed w' = w_committed w"
  using keepsD [OF kept_copy assms] by (simp add: tables_kept_def)

text \<open>What normalisation yields: the type asked for, no token, and for a file one more file row.\<close>

lemma normalize_run:
  assumes "normalize_session_resource_data (PDict d) allowed ws i w = (Inr n, w')"
  shows "dget ''type'' n = PStr (str_or_empty (dget ''type'' d))" "\<not> has_key ''authorization_token'' n"
    "str_or_empty (dget ''type'' d) \<in> set allowed"
    "\<exists>fs. w_db w' = w_db w\<lparr>db_resources := db_resources (w_db w) @ fs\<rparr> \<and> (\<forall>f \<in> set fs. mr_resource_type f = ''file'')"
proof -
  let ?ty = "str_or_empty (dget ''type'' d)"
  have run: "?ty \<in> set allowed"
    "(?ty = ''file'' \<and> normalize_file_session_resource d ws i w = (Inr n, w')) \<or>
     (?ty = ''github_repository'' \<and> normalize_github_session_resource d w = (Inr n, w')) \<or>
     (?ty = ''memory_store'' \<and> normalize_memory_store_session_resource d ws w = (Inr n, w'))"
    using assms by (auto simp: normalize_session_resource_data_def seqM_def bindM_def mon_defs Let_def split: if_splits)
  show "?ty \<in> set allowed" by (rule run)
  have "dget ''type'' n = PStr ?ty \<and> \<not> has_key ''authorization_token'' n \<and>
    (\<exists>fs. w_db w' = w_db w\<lparr>db_resources := db_resources (w_db w) @ fs\<rparr> \<and> (\<forall>f \<in> set fs. mr_resource_type f = ''file''))"
    using run(2)
  proof (elim disjE conjE)
    assume ty: "?ty = ''file''" and r: "normalize_file_session_resource d ws i w = (Inr n, w')"
    obtain id f c sf u v m where g: "get_resource id (Some ''file'') None False (Some ws) w = (Inr (Some f), u)"
      and cp: "copy_file_for_session_resource f i ws u = (Inr (Some c), v)"
      and sf: "create_session_scoped_file f c i ws v = (Inr sf, w')"
      and n: "n = [(''type'', PStr ''file''), (''file_id'', PStr (mr_id sf)), (''source_file_id'', PStr id),
        (''mount_path'', PStr m), (''read_only'', PBool True), (''session_file'', PDict c)]"
      using r by (auto simp: normalize_file_session_resource_def mon_simps Let_def split: option.splits if_splits)
    have "w_db v = w_db w" using get_resource_Inr [OF g] copy_file_run [OF cp] by simp
    moreover have "w_db w' = w_db v\<lparr>db_resources := db_resources (w_db v) @ [sf]\<rparr>" "mr_resource_type sf = ''file''"
      using create_resource_run [OF sf [unfolded create_session_scoped_file_def Let_def]] by simp_all
    ultimately show ?thesis unfolding n ty by (intro conjI exI [of _ "[sf]"]) simp_all
  next
    assume ty: "?ty = ''github_repository''" and r: "normalize_github_session_resource d w = (Inr n, w')"
    have "w_db w' = w_db w \<and> dget ''type'' n = PStr ''github_repository'' \<and> \<not> has_key ''authorization_token'' n"
      using r by (auto simp: normalize_github_session_resource_def mon_simps nowM_def Let_def split: if_splits)
    with ty show ?thesis by (intro conjI exI [of _ "[]"]) simp_all
  next
    assume ty: "?ty = ''memory_store''" and r: "normalize_memory_store_session_resource d ws w = (Inr n, w')"
    have "w_db w' = w_db w \<and> dget ''type'' n = PStr ''memory_store'' \<and> \<not> has_key ''authorization_token'' n"
    proof -
      obtain store u where g: "get_resource (str_or_empty (dget ''memory_store_id'' d)) (Some ''memory_store'')
          None False (Some ws) w = (Inr (Some store), u)" "u = w'"
        and e: "memory_store_entry d (str_or_empty (dget ''memory_store_id'' d)) store = Inr n"
        using r by (auto simp: normalize_memory_store_session_resource_def mon_simps Let_def split: option.splits if_splits)
      from e show ?thesis
        unfolding g(2) [symmetric] get_resource_Inr [OF g(1), THEN conjunct1]
        by (auto simp: memory_store_entry_def res_simps Let_def split: if_splits)
    qed
    with ty show ?thesis by (intro conjI exI [of _ "[]"]) simp_all
  qed
  then show "dget ''type'' n = PStr ?ty" "\<not> has_key ''authorization_token'' n"
    "\<exists>fs. w_db w' = w_db w\<lparr>db_resources := db_resources (w_db w) @ fs\<rparr> \<and> (\<forall>f \<in> set fs. mr_resource_type f = ''file'')"
    by blast+
qed

section \<open>Properties\<close>

text \<open>
  What the files of a workspace rely on: the object of every file that is not deleted exists. The
  backend label is the one \<open>save_file_bytes\<close> writes.
\<close>

definition active_file :: "string \<Rightarrow> resource_row \<Rightarrow> bool" where
  "active_file ws f = (mr_resource_type f = ''file'' \<and> mr_workspace_id f = ws \<and> mr_deleted_at f = None)"

definition file_stored :: "(string \<times> stored_object) list \<Rightarrow> resource_row \<Rightarrow> bool" where
  "file_stored objects f \<longleftrightarrow> (is_object_storage_backend (mr_storage_backend f) \<longrightarrow>
     mr_storage_backend f = Some ''s3'' \<and>
     (\<forall>k. mr_storage_key f = Some k \<and> k \<noteq> [] \<longrightarrow> has_key k objects))"

definition files_stored :: "string \<Rightarrow> world \<Rightarrow> bool" where
  "files_stored ws w \<longleftrightarrow>
     (\<forall>f \<in> set (db_resources (w_db w)). active_file ws f \<longrightarrow> file_stored (w_objects w) f)"

lemma release_object_run:
  assumes "release_object ws f w = (q, w')" "ws \<noteq> []"
  shows "w_db w' = w_db w \<and> w_clock w' = w_clock w \<and> w_ticks w' = w_ticks w \<and> (w_objects w' = w_objects w \<or>
    (\<exists>b k. mr_storage_backend f = Some b \<and> mr_storage_key f = Some k \<and> is_object_storage_backend (Some b) \<and>
      count_by_storage_key ''file'' b k False ws (db_resources (w_db w)) \<le> 1 \<and>
      w_objects w' = dpop k (w_objects w)))"
  using assms
  by (auto simp: release_object_def bindM_def mon_defs count_resources_by_storage_key_def delete_file_def
      require_object_storage_def object_storage_settings_def get_settings_def
      split: option.splits if_splits prod.splits)

lemma two_references:
  assumes "f \<in> set rows" "g \<in> set rows" "f \<noteq> g" "P f" "P g"
  shows "2 \<le> length (filter P rows)"
proof -
  have "{f, g} \<subseteq> set (filter P rows)" using assms by auto
  then have "card {f, g} \<le> card (set (filter P rows))" by (intro card_mono) auto
  with assms(3) card_length [of "filter P rows"] show ?thesis by simp
qed

lemma release_keeps:
  assumes "files_stored ws w" "active_file ws f" "f \<in> set (db_resources (w_db w))"
    and "release_object ws f w = (q, w')" "ws \<noteq> []"
    and "g \<in> set (db_resources (w_db w))" "g \<noteq> f" "active_file ws g"
  shows "file_stored (w_objects w') g"
proof -
  have g: "file_stored (w_objects w) g" and f: "file_stored (w_objects w) f"
    using assms by (auto simp: files_stored_def)
  consider "w_objects w' = w_objects w" | b k where "mr_storage_backend f = Some b" "mr_storage_key f = Some k"
      "is_object_storage_backend (Some b)"
      "count_by_storage_key ''file'' b k False ws (db_resources (w_db w)) \<le> 1"
      "w_objects w' = dpop k (w_objects w)"
    using release_object_run [OF assms(4,5)] by blast
  then show ?thesis
  proof cases
    case 1
    with g show ?thesis by simp
  next
    case 2
    have "mr_storage_key g \<noteq> Some k" if "is_object_storage_backend (mr_storage_backend g)"
    proof
      assume k: "mr_storage_key g = Some k"
      have "2 \<le> count_by_storage_key ''file'' b k False ws (db_resources (w_db w))"
        unfolding count_by_storage_key_def using assms(2,3,6-8) f g 2(1-3) k that
        by (intro two_references [of f _ g]) (auto simp: active_file_def file_stored_def)
      with 2(4) show False by simp
    qed
    with g 2(5) show ?thesis by (auto simp: file_stored_def)
  qed
qed

text \<open>
  C40: deleting a session's file never takes the object of another file with it: a copy is removed
  from the store only with the last file row of the workspace that refers to it.
\<close>

theorem shared_object_survives:
  assumes "files_stored (mr_workspace_id r) w" "mr_workspace_id r \<noteq> []"
    and "distinct (map mr_id (db_resources (w_db w)))"
    and "delete_session_resource_file r w = (Inr (), w')"
  shows "files_stored (mr_workspace_id r) w'"
proof -
  let ?ws = "mr_workspace_id r"
  show ?thesis
  proof (cases "w' = w")
    case False
    then obtain file_id f w1 w2 f' where
      get: "get_resource file_id (Some ''file'') None False (Some ?ws) w = (Inr (Some f), w1)"
      and rel: "release_object ?ws f w1 = (Inr (), w2)" and del: "delete_resource f w2 = (Inr f', w')"
      using assms(4) unfolding delete_session_resource_file_def
      by (auto simp: mon_simps split: pv.splits if_splits option.splits)
        (auto simp: get_resource_def bindM_def mon_defs split: sum.splits)
    from get_resource_Inr [OF get] have f: "w1 = w" "f \<in> set (db_resources (w_db w))" "active_file ?ws f"
      using assms(2) by (auto simp: active_file_def opt_eq_def)
    note r = release_object_run [OF rel [unfolded f(1)] assms(2)]
    have w': "db_resources (w_db w') = replace_by mr_id f' (db_resources (w_db w))" "mr_deleted_at f' \<noteq> None"
      "mr_id f' = mr_id f" "w_objects w' = w_objects w2"
      using delete_resource_run [OF _ _ _ del] r f(2,3) assms(3) by (auto simp: active_file_def)
    show ?thesis
      unfolding files_stored_def
    proof (intro ballI impI)
      fix g assume g: "g \<in> set (db_resources (w_db w'))" "active_file ?ws g"
      with w'(1,2) have "g \<in> set (db_resources (w_db w))" "mr_id g \<noteq> mr_id f"
        using set_replace_by [of g mr_id f' "db_resources (w_db w)"] w'(3) by (auto simp: active_file_def)
      with release_keeps [OF assms(1) f(3,2) rel [unfolded f(1)] assms(2), of g] g(2) w'(4)
      show "file_stored (w_objects w') g" by auto
    qed
  qed (use assms(1) in simp)
qed

definition plain_file :: resource_row where
  "plain_file = \<lparr>mr_id = ''file_1'', mr_workspace_id = ''wrkspc_default'', mr_resource_type = ''file'',
     mr_parent_id = None, mr_version = None, mr_name = None, mr_status = ''active'', mr_data = [],
     mr_content = None, mr_content_type = None, mr_filename = Some ''a.txt'', mr_storage_backend = Some ''s3'',
     mr_storage_key = Some ''k'', mr_storage_url = None, mr_size_bytes = Some 4, mr_sha256 = None,
     mr_archived_at = None, mr_deleted_at = None, mr_created_at = 0, mr_updated_at = 0\<rparr>"

definition shared_file :: "string \<Rightarrow> resource_row" where
  "shared_file i = plain_file\<lparr>mr_id := i, mr_data := [(''scope'',
     PDict [(''type'', PStr ''session''), (''id'', PStr ''sess_1'')])]\<rparr>"

definition file_attachment :: resource_row where
  "file_attachment = plain_file\<lparr>mr_id := ''sesrsc_1'', mr_resource_type := ''session_resource'',
     mr_parent_id := Some ''sess_1'', mr_data := [(''type'', PStr ''file''), (''file_id'', PStr ''file_1'')]\<rparr>"

definition shared_world :: world where
  "shared_world = world0\<lparr>w_db := db0\<lparr>db_resources := [shared_file ''file_1'', shared_file ''file_2'']\<rparr>,
     w_objects := [(''k'', \<lparr>ob_body = ''data'', ob_content_type = None\<rparr>)]\<rparr>"

theorem shared_object_survives_witness:
  "\<exists>w'. delete_session_resource_file file_attachment shared_world = (Inr (), w') \<and>
    files_stored ''wrkspc_default'' w'"
proof -
  note defs = shared_world_def shared_file_def file_attachment_def plain_file_def world0_def db0_def
  have "delete_session_resource_file file_attachment shared_world =
    (Inr (), snd (delete_session_resource_file file_attachment shared_world))"
    by (simp add: delete_session_resource_file_def get_resource_def bindM_def seqM_def mon_defs defs opt_eq_def
        scalar_one_or_none_def owned_by_def release_object_def is_object_storage_backend_def
        OBJECT_STORAGE_BACKENDS_def py_lower_def lower_char_def code_pt_def count_resources_by_storage_key_def
        count_by_storage_key_def delete_resource_def save_resource_def table_defs find_by_def Let_def)
  moreover have "files_stored (mr_workspace_id file_attachment) shared_world"
    by (simp add: files_stored_def file_stored_def defs is_object_storage_backend_def OBJECT_STORAGE_BACKENDS_def)
  moreover have "distinct (map mr_id (db_resources (w_db shared_world)))" by (simp add: defs)
  moreover have "mr_workspace_id file_attachment = ''wrkspc_default''" by (simp add: defs)
  ultimately show ?thesis using shared_object_survives [of file_attachment shared_world] by (metis list.distinct(1))
qed

text \<open>The resources of a session that are not deleted, and how many of them are of a type.\<close>

definition attached :: "session_row \<Rightarrow> world \<Rightarrow> resource_row list" where
  "attached s w = filter (\<lambda>r. mr_resource_type r = ''session_resource'' \<and> mr_workspace_id r = se_workspace_id s
     \<and> mr_deleted_at r = None \<and> mr_parent_id r = Some (se_id s)) (db_resources (w_db w))"

lemma count_type_perm: "mset xs = mset ys \<Longrightarrow> count_type ty xs = count_type ty ys"
  unfolding count_type_def by (metis mset_filter size_mset)

lemma session_resource_rows_run:
  assumes "se_workspace_id s \<noteq> []"
  shows "session_resource_rows s w = (Inr (take 1000 (newest_first mr_created_at mr_id (attached s w))), w)"
  using assms
  by (simp add: session_resource_rows_def list_resources_def bindM_def mon_defs attached_def limit_rows_def
      opt_eq_def)

lemma all_rows_counted:
  assumes "length (attached s w) \<le> 1000"
  shows "count_type ty (take 1000 (newest_first mr_created_at mr_id (attached s w))) = count_type ty (attached s w)"
  using assms by (intro count_type_perm) (simp add: newest_first_def)

lemma create_session_resource_run:
  assumes "create_session_resource s (PDict d) allowed w = (Inr r, w')" "se_workspace_id s \<noteq> []"
  shows "\<exists>fs. db_resources (w_db w') = db_resources (w_db w) @ fs @ [r] \<and> (\<forall>f \<in> set fs. mr_resource_type f = ''file'')"
    "dget ''type'' (mr_data r) = PStr (str_or_empty (dget ''type'' d))" "\<not> has_key ''authorization_token'' (mr_data r)"
    "dget ''type'' d = PStr ''file'' \<Longrightarrow>
      count_type ''file'' (take 1000 (newest_first mr_created_at mr_id (attached s w))) < MAX_SESSION_FILE_RESOURCES"
    "dget ''type'' d = PStr ''memory_store'' \<Longrightarrow>
      count_type ''memory_store'' (take 1000 (newest_first mr_created_at mr_id (attached s w))) < MAX_SESSION_MEMORY_STORE_RESOURCES"
proof -
  obtain n w1 name where n: "normalize_session_resource_data (PDict d) allowed (se_workspace_id s) (se_id s) w = (Inr n, w1)"
    and r: "create_resource ''session_resource'' (resource_args0\<lparr>ra_parent_id := Some (se_id s),
        ra_name := name, ra_data := n, ra_workspace_id := Some (se_workspace_id s)\<rparr>) w1 = (Inr r, w')"
    and cap: "dget ''type'' d = PStr ''file'' \<Longrightarrow> ensure_file_resource_capacity s w = (Inr (), w)"
      "dget ''type'' d = PStr ''memory_store'' \<Longrightarrow> ensure_memory_store_resource_capacity s w = (Inr (), w)"
    using assms
    by (auto simp: create_session_resource_def mon_simps Let_def ensure_file_resource_capacity_def
        ensure_memory_store_resource_capacity_def session_resource_rows_run split: if_splits)
  show "\<exists>fs. db_resources (w_db w') = db_resources (w_db w) @ fs @ [r] \<and> (\<forall>f \<in> set fs. mr_resource_type f = ''file'')"
    using normalize_run(4) [OF n] create_resource_run(1) [OF r] by auto
  show "dget ''type'' (mr_data r) = PStr (str_or_empty (dget ''type'' d))" "\<not> has_key ''authorization_token'' (mr_data r)"
    using normalize_run(1,2) [OF n] create_resource_run(4) [OF r] by (simp_all add: resource_args0_def)
  show "dget ''type'' d = PStr ''file'' \<Longrightarrow>
      count_type ''file'' (take 1000 (newest_first mr_created_at mr_id (attached s w))) < MAX_SESSION_FILE_RESOURCES"
    "dget ''type'' d = PStr ''memory_store'' \<Longrightarrow>
      count_type ''memory_store'' (take 1000 (newest_first mr_created_at mr_id (attached s w))) < MAX_SESSION_MEMORY_STORE_RESOURCES"
    using cap assms(2)
    by (auto simp: ensure_file_resource_capacity_def ensure_memory_store_resource_capacity_def mon_simps
        session_resource_rows_run not_le split: if_splits)
qed

lemma attached_grows:
  assumes "create_session_resource s (PDict d) allowed w = (Inr r, w')" "se_workspace_id s \<noteq> []"
  shows "attached s w' = attached s w \<or> attached s w' = attached s w @ [r]"
proof -
  obtain fs where "db_resources (w_db w') = db_resources (w_db w) @ fs @ [r]" "\<forall>f \<in> set fs. mr_resource_type f = ''file''"
    using create_session_resource_run(1) [OF assms] by blast
  moreover from this(2) have "filter (\<lambda>r. mr_resource_type r = ''session_resource'' \<and> mr_workspace_id r = se_workspace_id s
     \<and> mr_deleted_at r = None \<and> mr_parent_id r = Some (se_id s)) fs = []"
    by (auto simp: filter_empty_conv)
  ultimately show ?thesis by (simp add: attached_def)
qed

text \<open>
  A session never has more than 100 file resources and 8 memory stores, as long as all of its
  resources fit into the 1000 rows the check reads.
\<close>

theorem attachments_bounded:
  assumes "create_session_resource s (PDict d) allowed w = (Inr r, w')" "se_workspace_id s \<noteq> []"
    and "is_str (dget ''type'' d)" "length (attached s w) \<le> 1000"
    and "count_type ''file'' (attached s w) \<le> 100" "count_type ''memory_store'' (attached s w) \<le> 8"
  shows "count_type ''file'' (attached s w') \<le> 100 \<and> count_type ''memory_store'' (attached s w') \<le> 8"
proof -
  obtain ty where ty: "dget ''type'' d = PStr ty" using is_strD [OF assms(3)] by blast
  note run = create_session_resource_run [OF assms(1,2)]
  have r: "dget ''type'' (mr_data r) = PStr ty" using run(2) ty by simp
  have "ty = ''file'' \<Longrightarrow> count_type ''file'' (attached s w) < 100"
    "ty = ''memory_store'' \<Longrightarrow> count_type ''memory_store'' (attached s w) < 8"
    using run(4,5) ty all_rows_counted [OF assms(4)]
    by (simp_all add: MAX_SESSION_FILE_RESOURCES_def MAX_SESSION_MEMORY_STORE_RESOURCES_def)
  then have "count_type ''file'' (attached s w @ [r]) \<le> 100" "count_type ''memory_store'' (attached s w @ [r]) \<le> 8"
    using assms(5,6) r by (auto simp: count_type_def)
  with attached_grows [OF assms(1,2)] assms(5,6) show ?thesis by metis
qed

definition session0 :: session_row where
  "session0 = \<lparr>se_id = ''sess_1'', se_workspace_id = ''wrkspc_default'', se_agent_id = ''agt_1'',
     se_agent_version = 1, se_environment_id = ''env_1'', se_title = None, se_status = ''idle'',
     se_status_details = [], se_stop_reason = PNone, se_run_state = PNone, se_sandbox_state = PNone,
     se_metadata = [], se_last_event_seq = 0, se_lock_version = 0, se_archived_at = None,
     se_deleted_at = None, se_created_at = 0, se_updated_at = 0\<rparr>"

definition repository :: pdict where
  "repository = [(''type'', PStr ''github_repository''), (''url'', PStr ''https://x.y/o/r.git''),
     (''authorization_token'', PStr ''t''), (''mount_path'', PStr ''/workspace/r'')]"

lemma repository_run:
  "\<exists>r w'. create_session_resource session0 (PDict repository) [''github_repository''] world0 = (Inr r, w')"
proof -
  have "github_repo_name ''https://x.y/o/r.git'' = Inr ''r''"
    by (simp add: github_repo_name_def url_path_def split_scheme_def scheme_char_def is_alnum_def is_digit_def
        code_pt_def py_lower_def lower_char_def startswith_def before_char_def uses_params_def rstrip_char_def
        endswith_def safe_mount_segment_def strip_char_def py_strip_def lstrip_def rstrip_def py_isspace_def
        filename_char_def)
  then show ?thesis
    by (simp add: create_session_resource_def repository_def normalize_session_resource_data_def seqM_def bindM_def
        mon_defs normalize_github_session_resource_def validate_mount_path_def startswith_def session_resource_name_def
        create_resource_def insert_resource_def world0_def db0_def table_defs find_by_def version_taken_def
        resource_args0_def Let_def)
qed

theorem attachments_bounded_witness:
  "\<exists>r w'. create_session_resource session0 (PDict repository) [''github_repository''] world0 = (Inr r, w') \<and>
    count_type ''file'' (attached session0 w') \<le> 100 \<and> count_type ''memory_store'' (attached session0 w') \<le> 8"
proof -
  obtain r w' where run: "create_session_resource session0 (PDict repository) [''github_repository''] world0 = (Inr r, w')"
    using repository_run by blast
  have "attached session0 world0 = []" by (simp add: attached_def world0_def db0_def)
  with attachments_bounded [OF run] run show ?thesis
    by (simp add: session0_def repository_def count_type_def)
qed

text \<open>
  The token a repository is attached with is checked for and not kept: no resource that is
  created, and none whose token is rotated, holds it.
\<close>

theorem repository_token_not_kept:
  assumes "create_session_resource s (PDict d) allowed w = (Inr r, w')" "se_workspace_id s \<noteq> []"
    and "rotate_session_resource_token r e v = (Inr rotated, v')"
  shows "\<not> has_key ''authorization_token'' (mr_data r) \<and> \<not> has_key ''authorization_token'' rotated \<and>
    dget ''authorization_token_present'' rotated = PBool True"
  using create_session_resource_run(3) [OF assms(1,2)] assms(3)
  by (auto simp: rotate_session_resource_token_def mon_simps)

theorem repository_token_not_kept_witness:
  "\<exists>r w' rotated v'. create_session_resource session0 (PDict repository) [''github_repository''] world0 = (Inr r, w') \<and>
    rotate_session_resource_token r repository world0 = (Inr rotated, v') \<and>
    \<not> has_key ''authorization_token'' (mr_data r) \<and> \<not> has_key ''authorization_token'' rotated \<and>
    dget ''authorization_token_present'' rotated = PBool True"
proof -
  obtain r w' where run: "create_session_resource session0 (PDict repository) [''github_repository''] world0 = (Inr r, w')"
    using repository_run by blast
  have ws: "se_workspace_id session0 \<noteq> []" by (simp add: session0_def)
  have "dget ''type'' (mr_data r) = PStr ''github_repository''"
    using create_session_resource_run(2) [OF run ws] by (simp add: repository_def)
  then have "\<exists>rotated v'. rotate_session_resource_token r repository world0 = (Inr rotated, v')"
    by (simp add: rotate_session_resource_token_def seqM_def bindM_def mon_defs) (simp add: repository_def)
  with run repository_token_not_kept [OF run ws, of repository world0] show ?thesis by blast
qed

text \<open>
  A mount path derived from a name is below its parent directory and has a single segment of
  lower-case letters, digits, dots, underscores and hyphens. The segment may be \<open>..\<close>, which names
  the directory above.
\<close>

theorem mount_segment:
  "\<exists>seg. memory_store_mount_path name fallback = ''/mnt/memory/'' @ seg \<and> seg \<noteq> [] \<and>
     list_all (\<lambda>c. filename_char c \<and> lower_char c = c) seg \<and> memory_store_mount_path ''..'' fallback = ''/mnt/memory/..''"
proof -
  have lower: "filename_char (lower_char c) \<and> lower_char (lower_char c) = lower_char c" if "filename_char c" for c
  proof (cases "65 \<le> code_pt c \<and> code_pt c \<le> 90")
    case True
    then have "lower_char c = char_of (code_pt c + 32)" by (simp add: lower_char_def)
    moreover have "code_pt (char_of (code_pt c + 32)) = code_pt c + 32"
      using True by (simp add: code_pt_def)
    ultimately show ?thesis using True by (simp add: filename_char_def is_alnum_def lower_char_def Let_def)
  next
    case False
    from that have "c \<in> set ''._-'' \<or> code_pt c \<le> 122" by (auto simp: filename_char_def is_alnum_def Let_def)
    then have "code_pt c \<le> 122" by (auto simp: code_pt_def)
    with False have "lower_char c = c" by (auto simp: lower_char_def Let_def)
    with that show ?thesis by simp
  qed
  have kept: "c \<in> set (strip_char x t) \<Longrightarrow> c \<in> set t" for c x t
    unfolding strip_char_def rstrip_char_def by (metis set_dropWhileD set_rev)
  have seg: "\<forall>c \<in> set (safe_mount_segment v). filename_char c \<and> lower_char c = c" for v
  proof
    fix c assume "c \<in> set (safe_mount_segment v)"
    then obtain x where "c = lower_char x" "x \<in> set (sub_runs filename_char CHR ''-'' False (py_strip v))"
      by (auto simp: safe_mount_segment_def py_lower_def dest: kept)
    with sub_runs_chars [of x filename_char "CHR ''-''"] lower show "filename_char c \<and> lower_char c = c"
      by (metis filename_char_def list.set_intros)
  qed
  have "safe_mount_segment ''..'' = ''..''"
    by (simp add: safe_mount_segment_def strip_char_def rstrip_char_def py_strip_def lstrip_def rstrip_def
        py_isspace_def code_pt_def filename_char_def py_lower_def lower_char_def)
  moreover have "\<forall>c \<in> set ''memory''. filename_char c \<and> lower_char c = c"
    by (simp add: filename_char_def is_alnum_def lower_char_def code_pt_def)
  ultimately show ?thesis using seg by (auto simp: memory_store_mount_path_def list_all_iff)
qed

end
