(* ===== verification/AgentContract.thy ===== *)
theory AgentContract
  imports PyVal "HOL-Library.List_Lexorder" "HOL-Library.Char_ord"
begin

text \<open>
  \<open>app/agent_contract.py\<close>: normalisation of an agent's tools, the limits on them, and the pairing of
  MCP servers with the toolsets that refer to them. The lemmas give the shape of a normalised tool
  list (\<open>tool_ok\<close>), that normalising it again changes nothing, and what the two validators accept.
\<close>

definition MAX_AGENT_TOOLS :: nat where "MAX_AGENT_TOOLS = 128"
definition MAX_CUSTOM_TOOL_NAME_CHARS :: nat where "MAX_CUSTOM_TOOL_NAME_CHARS = 128"
definition MAX_CUSTOM_TOOL_DESCRIPTION_CHARS :: nat where "MAX_CUSTOM_TOOL_DESCRIPTION_CHARS = 1024"

text \<open>\<open>^[A-Za-z0-9_-]+$\<close> with \<^theory_text>\<open>fullmatch\<close>.\<close>

definition tool_name_char :: "char \<Rightarrow> bool" where
  "tool_name_char c = (let n = code_pt c in (65 \<le> n \<and> n \<le> 90) \<or> (97 \<le> n \<and> n \<le> 122)
     \<or> is_digit c \<or> c = CHR ''_'' \<or> c = CHR ''-'')"

definition tool_name_re :: "string \<Rightarrow> bool" where
  "tool_name_re s = (s \<noteq> [] \<and> list_all tool_name_char s)"

section \<open>Normalisation\<close>

definition normalize_tool_config :: "pv \<Rightarrow> pv \<Rightarrow> pdict \<Rightarrow> bool \<Rightarrow> pv res" where
  "normalize_tool_config config fallback_enabled fallback_policy require_name =
     (case config of
        PDict d \<Rightarrow>
          bindE (raise_if (require_name \<and> \<not> truthy (dget ''name'' d))
            (HTTPException 422 ''tool configs entries require name'')) (\<lambda>_.
          let d1 = (if dget ''enabled'' d = PNone then dset ''enabled'' fallback_enabled d else d);
              keep = (case dget ''permission_policy'' d1 of
                        PDict p \<Rightarrow> truthy (dget ''type'' p) | _ \<Rightarrow> False);
              d2 = (if keep then d1 else dset ''permission_policy'' (PDict fallback_policy) d1)
          in Inr (PDict d2))
      | _ \<Rightarrow> Inl (HTTPException 422 ''tool configs entries must be objects''))"

definition normalize_toolset :: "pdict \<Rightarrow> string \<Rightarrow> pdict res" where
  "normalize_toolset tool default_policy_type =
     bindE (normalize_tool_config
       (case dget ''default_config'' tool of PDict d \<Rightarrow> PDict d | _ \<Rightarrow> PDict [])
       (PBool True) [(''type'', PStr default_policy_type)] False) (\<lambda>default_config.
     let n1 = dset ''default_config'' default_config tool;
         dc = (case default_config of PDict d \<Rightarrow> d | _ \<Rightarrow> []);
         policy = (case dget ''permission_policy'' dc of PDict p \<Rightarrow> p | _ \<Rightarrow> [])
     in bindE (list_or_empty (dget ''configs'' n1)) (\<lambda>configs.
        bindE (mapE (\<lambda>c. normalize_tool_config c (dget ''enabled'' dc) policy True) configs) (\<lambda>cs.
        Inr (dset ''configs'' (PList cs) n1))))"

definition custom_description :: "string \<Rightarrow> pdict \<Rightarrow> pdict res" where
  "custom_description name tool =
     (case dget ''description'' tool of
        PNone \<Rightarrow> Inr (dset ''description'' (PStr (''Custom tool '' @ name @ ''.'')) tool)
      | PStr d \<Rightarrow>
          if d = [] then Inl (HTTPException 422 ''custom tool description must be a non-empty string'')
          else if MAX_CUSTOM_TOOL_DESCRIPTION_CHARS < length d
            then Inl (HTTPException 422 ''custom tool description must be at most 1024 characters'')
          else Inr tool
      | _ \<Rightarrow> Inl (HTTPException 422 ''custom tool description must be a non-empty string''))"

definition custom_schema :: "pdict \<Rightarrow> pdict res" where
  "custom_schema tool =
     (case dget ''input_schema'' tool of
        PDict s \<Rightarrow>
          if dget ''type'' s = PStr ''object'' then Inr tool
          else Inl (HTTPException 422 ''custom tool input_schema.type must be \"object\"'')
      | _ \<Rightarrow> Inr (dset ''input_schema''
          (PDict [(''type'', PStr ''object''), (''properties'', PDict [])]) tool))"

definition normalize_custom_tool :: "pdict \<Rightarrow> pdict res" where
  "normalize_custom_tool tool =
     (case dget ''name'' tool of
        PStr name \<Rightarrow>
          if name = [] then Inl (HTTPException 422 ''custom tools require name'')
          else if MAX_CUSTOM_TOOL_NAME_CHARS < length name \<or> \<not> tool_name_re name
            then Inl (HTTPException 422 ''custom tool name must be 1-128 characters using letters, digits, underscores, or hyphens'')
          else bindE (custom_description name tool) custom_schema
      | _ \<Rightarrow> Inl (HTTPException 422 ''custom tools require name''))"

definition normalize_agent_tool :: "pv \<Rightarrow> pv res" where
  "normalize_agent_tool tool =
     (case tool of
        PDict d \<Rightarrow>
          (let tool_type = dget ''type'' d in
           if tool_type = PStr ''agent_toolset_20260401''
             then bindE (normalize_toolset d ''always_allow'') (\<lambda>n. Inr (PDict n))
           else if tool_type = PStr ''mcp_toolset'' then
             bindE (normalize_toolset d ''always_ask'') (\<lambda>n.
             (case dget ''mcp_server_name'' n of
                PStr s \<Rightarrow> if s = [] then Inl (HTTPException 422 ''mcp_toolset entries require mcp_server_name'')
                          else Inr (PDict n)
              | _ \<Rightarrow> Inl (HTTPException 422 ''mcp_toolset entries require mcp_server_name'')))
           else if tool_type = PStr ''custom''
             then bindE (normalize_custom_tool d) (\<lambda>n. Inr (PDict n))
           else Inr (PDict d))
      | _ \<Rightarrow> Inl (HTTPException 422 ''tools entries must be objects''))"

definition agent_tool_count :: "pv \<Rightarrow> nat" where
  "agent_tool_count tool = (case tool of
      PDict d \<Rightarrow>
        if dget ''type'' d = PStr ''custom'' then 1
        else (case dget ''configs'' d of
            PList cs \<Rightarrow> if cs \<noteq> [] then length cs else 1
          | _ \<Rightarrow> 1)
    | _ \<Rightarrow> 1)"

text \<open>The names of the custom tools, in order: \<^theory_text>\<open>str(tool.get("name") or "")\<close>.\<close>

definition custom_name :: "pv \<Rightarrow> string option" where
  "custom_name tool = (case tool of
      PDict d \<Rightarrow> if dget ''type'' d = PStr ''custom'' then Some (str_or_empty (dget ''name'' d)) else None
    | _ \<Rightarrow> None)"

definition fresh_custom_name :: "pv \<Rightarrow> string list \<Rightarrow> string list res" where
  "fresh_custom_name tool names = (case custom_name tool of
      None \<Rightarrow> Inr names
    | Some n \<Rightarrow> if n \<in> set names
                then Inl (HTTPException 422 (''Duplicate custom tool name: '' @ n))
                else Inr (n # names))"

definition validate_agent_tool_limits :: "pv list \<Rightarrow> unit res" where
  "validate_agent_tool_limits tools =
     bindE (raise_if (MAX_AGENT_TOOLS < sum_list (map agent_tool_count tools))
       (HTTPException 422 ''tools supports at most 128 tools across all toolsets'')) (\<lambda>_.
     bindE (foldE fresh_custom_name tools []) (\<lambda>_. Inr ()))"

definition normalize_agent_tools :: "pv \<Rightarrow> pv list res" where
  "normalize_agent_tools tools = (case tools of
      PList ts \<Rightarrow> bindE (mapE normalize_agent_tool ts) (\<lambda>normalized.
                 bindE (validate_agent_tool_limits normalized) (\<lambda>_. Inr normalized))
    | _ \<Rightarrow> Inl (HTTPException 422 ''tools must be an array''))"

section \<open>MCP servers\<close>

definition add_server :: "pv \<Rightarrow> string list \<Rightarrow> string list res" where
  "add_server server names = (case server of
      PDict s \<Rightarrow>
        if dget ''type'' s \<noteq> PStr ''url''
          then Inl (HTTPException 422 ''mcp_servers entries must have type \"url\"'')
        else (case dget ''name'' s of
            PStr name \<Rightarrow>
              if name = [] then Inl (HTTPException 422 ''mcp_servers entries require name'')
              else (case dget ''url'' s of
                  PStr url \<Rightarrow>
                    if url = [] then Inl (HTTPException 422 ''mcp_servers entries require url'')
                    else if name \<in> set names
                      then Inl (HTTPException 422 (''Duplicate MCP server name: '' @ name))
                    else Inr (name # names)
                | _ \<Rightarrow> Inl (HTTPException 422 ''mcp_servers entries require url''))
          | _ \<Rightarrow> Inl (HTTPException 422 ''mcp_servers entries require name''))
    | _ \<Rightarrow> Inl (HTTPException 422 ''mcp_servers entries must be objects''))"

definition add_reference :: "string list \<Rightarrow> pv \<Rightarrow> string list \<Rightarrow> string list res" where
  "add_reference server_names tool refs = (case tool of
      PDict d \<Rightarrow>
        if dget ''type'' d \<noteq> PStr ''mcp_toolset'' then Inr refs
        else (case dget ''mcp_server_name'' d of
            PStr name \<Rightarrow>
              if name = [] then Inl (HTTPException 422 ''mcp_toolset entries require mcp_server_name'')
              else if name \<notin> set server_names
                then Inl (HTTPException 422 (''mcp_toolset references undeclared MCP server: '' @ name))
              else Inr (List.insert name refs)
          | _ \<Rightarrow> Inl (HTTPException 422 ''mcp_toolset entries require mcp_server_name''))
    | _ \<Rightarrow> Inr refs)"

definition validate_mcp_bindings :: "pv list \<Rightarrow> pv list \<Rightarrow> unit res" where
  "validate_mcp_bindings mcp_servers tools =
     bindE (raise_if (20 < length mcp_servers) (HTTPException 422 ''mcp_servers supports at most 20 servers'')) (\<lambda>_.
     bindE (foldE add_server mcp_servers []) (\<lambda>server_names.
     bindE (foldE (add_reference server_names) tools []) (\<lambda>tool_refs.
     let unreferenced = filter (\<lambda>n. n \<notin> set tool_refs) server_names in
     raise_if (unreferenced \<noteq> []) (HTTPException 422
       (''MCP servers must be referenced by mcp_toolset: '' @ py_join '', '' (sort unreferenced))))))"

section \<open>The shape of a normalised tool\<close>

definition config_ok :: "bool \<Rightarrow> pv \<Rightarrow> bool" where
  "config_ok named v = (case v of
      PDict d \<Rightarrow> dget ''enabled'' d \<noteq> PNone
        \<and> (case dget ''permission_policy'' d of PDict p \<Rightarrow> truthy (dget ''type'' p) | _ \<Rightarrow> False)
        \<and> (named \<longrightarrow> truthy (dget ''name'' d))
    | _ \<Rightarrow> False)"

definition toolset_ok :: "pdict \<Rightarrow> bool" where
  "toolset_ok d = (config_ok False (dget ''default_config'' d)
     \<and> (case dget ''configs'' d of PList cs \<Rightarrow> list_all (config_ok True) cs | _ \<Rightarrow> False))"

definition custom_ok :: "pdict \<Rightarrow> bool" where
  "custom_ok d =
     ((case dget ''name'' d of PStr n \<Rightarrow> tool_name_re n \<and> length n \<le> MAX_CUSTOM_TOOL_NAME_CHARS | _ \<Rightarrow> False)
    \<and> (case dget ''description'' d of
         PStr s \<Rightarrow> s \<noteq> [] \<and> length s \<le> MAX_CUSTOM_TOOL_DESCRIPTION_CHARS | _ \<Rightarrow> False)
    \<and> (case dget ''input_schema'' d of PDict s \<Rightarrow> dget ''type'' s = PStr ''object'' | _ \<Rightarrow> False))"

definition tool_ok :: "pv \<Rightarrow> bool" where
  "tool_ok v = (case v of
      PDict d \<Rightarrow>
        (if dget ''type'' d = PStr ''agent_toolset_20260401'' then toolset_ok d
         else if dget ''type'' d = PStr ''mcp_toolset''
           then toolset_ok d \<and> (case dget ''mcp_server_name'' d of PStr s \<Rightarrow> s \<noteq> [] | _ \<Rightarrow> False)
         else if dget ''type'' d = PStr ''custom'' then custom_ok d else True)
    | _ \<Rightarrow> False)"

lemma policy_ok_cases:
  "(case v of PDict p \<Rightarrow> truthy (dget k p) | _ \<Rightarrow> False) \<longleftrightarrow> (\<exists>p. v = PDict p \<and> truthy (dget k p))"
  by (cases v) auto

lemma config_result_ok:
  assumes "normalize_tool_config c fe fp req = Inr n" "fe \<noteq> PNone" "truthy (dget ''type'' fp)"
  shows "config_ok req n"
  using assms
  by (cases c) (auto simp: normalize_tool_config_def config_ok_def res_simps Let_def policy_ok_cases
      split: if_splits)

lemma config_ok_fixed:
  assumes "config_ok req c"
  shows "normalize_tool_config c fe fp req = Inr c"
  using assms
  by (cases c) (auto simp: normalize_tool_config_def config_ok_def raise_if_def Let_def policy_ok_cases)

lemma config_ok_dict: "config_ok req n \<Longrightarrow> \<exists>d. n = PDict d"
  by (cases n) (auto simp: config_ok_def)

lemma toolset_result_ok:
  assumes "normalize_toolset d t = Inr n" "t \<noteq> []"
  shows "toolset_ok n" "\<And>k. k \<notin> {''default_config'', ''configs''} \<Longrightarrow> dget k n = dget k d"
proof -
  obtain dc xs cs where dc:
      "normalize_tool_config (case dget ''default_config'' d of PDict d \<Rightarrow> PDict d | _ \<Rightarrow> PDict [])
        (PBool True) [(''type'', PStr t)] False = Inr dc"
    and cs: "mapE (\<lambda>c. normalize_tool_config c
        (dget ''enabled'' (case dc of PDict d \<Rightarrow> d | _ \<Rightarrow> []))
        (case dget ''permission_policy'' (case dc of PDict d \<Rightarrow> d | _ \<Rightarrow> []) of PDict p \<Rightarrow> p | _ \<Rightarrow> [])
        True) xs = Inr cs"
    and n: "n = dset ''configs'' (PList cs) (dset ''default_config'' dc d)"
    using assms(1) unfolding normalize_toolset_def Let_def by (auto simp: res_simps)
  have dc_ok: "config_ok False dc"
    using config_result_ok [OF dc] assms(2) by simp
  then obtain e where e: "dc = PDict e" using config_ok_dict by blast
  have "config_ok True c" if "c \<in> set cs" for c
  proof -
    from mapE_Inr_set [OF cs that] obtain x where "normalize_tool_config x (dget ''enabled'' e)
        (case dget ''permission_policy'' e of PDict p \<Rightarrow> p | _ \<Rightarrow> []) True = Inr c"
      by (auto simp: e)
    then show ?thesis
      using dc_ok by (elim config_result_ok) (auto simp: e config_ok_def policy_ok_cases)
  qed
  then show "toolset_ok n" using dc_ok by (simp add: toolset_ok_def n list_all_iff)
  show "\<And>k. k \<notin> {''default_config'', ''configs''} \<Longrightarrow> dget k n = dget k d" by (auto simp: n)
qed

lemma mapE_id: "(\<And>x. x \<in> set xs \<Longrightarrow> f x = Inr x) \<Longrightarrow> mapE f xs = Inr xs"
  by (induction xs) auto

lemma toolset_ok_fixed:
  assumes "toolset_ok d"
  shows "normalize_toolset d t = Inr d"
proof -
  obtain dc where dc: "dget ''default_config'' d = PDict dc" "config_ok False (PDict dc)"
    using assms config_ok_dict [of False "dget ''default_config'' d"] by (auto simp: toolset_ok_def)
  obtain cs where cs: "dget ''configs'' d = PList cs" "list_all (config_ok True) cs"
    using assms by (cases "dget ''configs'' d") (auto simp: toolset_ok_def)
  have "dset ''default_config'' (PDict dc) d = d" "dset ''configs'' (PList cs) d = d"
    using dc cs by (simp_all add: dset_id)
  moreover have "mapE (\<lambda>c. normalize_tool_config c fe fp True) cs = Inr cs" for fe fp
    using cs(2) by (intro mapE_id config_ok_fixed) (auto simp: list_all_iff)
  moreover have "list_or_empty (PList cs) = Inr cs" by simp
  ultimately show ?thesis
    using dc cs by (simp add: normalize_toolset_def Let_def config_ok_fixed)
qed

lemma custom_description_ok:
  assumes "custom_description name d = Inr n" "length name \<le> MAX_CUSTOM_TOOL_NAME_CHARS"
  shows "\<exists>s. dget ''description'' n = PStr s \<and> s \<noteq> [] \<and> length s \<le> MAX_CUSTOM_TOOL_DESCRIPTION_CHARS"
    "\<And>k. k \<noteq> ''description'' \<Longrightarrow> dget k n = dget k d"
  using assms
  by (cases "dget ''description'' d";
      force simp: custom_description_def MAX_CUSTOM_TOOL_NAME_CHARS_def
        MAX_CUSTOM_TOOL_DESCRIPTION_CHARS_def split: if_splits)+

lemma custom_schema_ok:
  assumes "custom_schema d = Inr n"
  shows "\<exists>s. dget ''input_schema'' n = PDict s \<and> dget ''type'' s = PStr ''object''"
    "\<And>k. k \<noteq> ''input_schema'' \<Longrightarrow> dget k n = dget k d"
  using assms
  by (cases "dget ''input_schema'' d"; force simp: custom_schema_def split: if_splits)+

lemma custom_result_ok:
  assumes "normalize_custom_tool d = Inr n"
  shows "custom_ok n" "dget ''type'' n = dget ''type'' d"
proof -
  obtain name where name: "dget ''name'' d = PStr name"
    using assms by (cases "dget ''name'' d") (simp_all add: normalize_custom_tool_def)
  with assms obtain m where l: "length name \<le> MAX_CUSTOM_TOOL_NAME_CHARS" "tool_name_re name"
    and m: "custom_description name d = Inr m" "custom_schema m = Inr n"
    by (auto simp: normalize_custom_tool_def res_simps split: if_splits)
  note d = custom_description_ok [OF m(1) l(1)] and s = custom_schema_ok [OF m(2)]
  from d s name l show "custom_ok n" by (auto simp: custom_ok_def)
  from d(2) s(2) show "dget ''type'' n = dget ''type'' d" by simp
qed

lemma custom_ok_fixed: 
  assumes "custom_ok d"
  shows "normalize_custom_tool d = Inr d"
proof -
  obtain name where name: "dget ''name'' d = PStr name" "tool_name_re name"
      "length name \<le> MAX_CUSTOM_TOOL_NAME_CHARS"
    using assms by (cases "dget ''name'' d") (simp_all add: custom_ok_def)
  obtain s where s: "dget ''description'' d = PStr s" "s \<noteq> []"
      "length s \<le> MAX_CUSTOM_TOOL_DESCRIPTION_CHARS"
    using assms by (cases "dget ''description'' d") (simp_all add: custom_ok_def)
  obtain i where i: "dget ''input_schema'' d = PDict i" "dget ''type'' i = PStr ''object''"
    using assms by (cases "dget ''input_schema'' d") (simp_all add: custom_ok_def)
  from name have "name \<noteq> []" by (auto simp: tool_name_re_def)
  with name s i show ?thesis
    by (simp add: normalize_custom_tool_def custom_description_def custom_schema_def)
qed

lemma normalize_agent_tool_ok:
  assumes "normalize_agent_tool t = Inr n"
  shows "tool_ok n"
proof -
  obtain d where t: "t = PDict d"
    using assms by (cases t) (simp_all add: normalize_agent_tool_def)
  let ?ty = "dget ''type'' d"
  consider "?ty = PStr ''agent_toolset_20260401''" | "?ty = PStr ''mcp_toolset''"
    | "?ty = PStr ''custom''" | "?ty \<notin> {PStr ''agent_toolset_20260401'', PStr ''mcp_toolset'', PStr ''custom''}"
    by blast
  then show ?thesis
  proof cases
    case 1
    with assms t obtain m where "normalize_toolset d ''always_allow'' = Inr m" "n = PDict m"
      by (auto simp: normalize_agent_tool_def res_simps)
    with 1 toolset_result_ok [of d _ m] show ?thesis by (simp add: tool_ok_def)
  next
    case 2
    with assms t obtain m where m: "normalize_toolset d ''always_ask'' = Inr m"
      "(case dget ''mcp_server_name'' m of
          PStr s \<Rightarrow> if s = [] then Inl (HTTPException 422 ''mcp_toolset entries require mcp_server_name'')
                    else Inr (PDict m)
        | _ \<Rightarrow> Inl (HTTPException 422 ''mcp_toolset entries require mcp_server_name'')) = Inr n"
      by (auto simp: normalize_agent_tool_def res_simps)
    then obtain s where "dget ''mcp_server_name'' m = PStr s" "s \<noteq> []" "n = PDict m"
      by (cases "dget ''mcp_server_name'' m") (simp_all split: if_splits)
    with 2 toolset_result_ok [OF m(1)] show ?thesis by (simp add: tool_ok_def)
  next
    case 3
    with assms t obtain m where "normalize_custom_tool d = Inr m" "n = PDict m"
      by (auto simp: normalize_agent_tool_def res_simps)
    with 3 custom_result_ok [of d m] show ?thesis by (simp add: tool_ok_def)
  next
    case 4
    with assms t have "n = PDict d" by (simp add: normalize_agent_tool_def)
    with 4 show ?thesis by (simp add: tool_ok_def)
  qed
qed

lemma tool_ok_fixed:
  assumes "tool_ok t"
  shows "normalize_agent_tool t = Inr t"
proof -
  obtain d where t: "t = PDict d"
    using assms by (cases t) (simp_all add: tool_ok_def)
  show ?thesis
  proof (cases "dget ''type'' d = PStr ''mcp_toolset''")
    case True
    with assms t obtain s where "toolset_ok d" "dget ''mcp_server_name'' d = PStr s" "s \<noteq> []"
      by (cases "dget ''mcp_server_name'' d") (simp_all add: tool_ok_def)
    with True t show ?thesis by (simp add: normalize_agent_tool_def toolset_ok_fixed)
  next
    case False
    with assms t show ?thesis
      by (simp add: normalize_agent_tool_def tool_ok_def toolset_ok_fixed custom_ok_fixed Let_def
          split: if_splits)
  qed
qed

section \<open>Tool lists\<close>

text \<open>The names of the custom tools of a list, in order.\<close>

definition custom_names :: "pv list \<Rightarrow> string list" where
  "custom_names tools = List.map_filter custom_name tools"

definition tools_ok :: "pv list \<Rightarrow> bool" where
  "tools_ok ts = (list_all tool_ok ts \<and> sum_list (map agent_tool_count ts) \<le> MAX_AGENT_TOOLS
     \<and> distinct (custom_names ts))"

lemma fresh_names_iff:
  "foldE fresh_custom_name ts acc = Inr r \<Longrightarrow> distinct acc \<Longrightarrow>
   distinct (rev (custom_names ts) @ acc) \<and> r = rev (custom_names ts) @ acc"
proof (induction ts arbitrary: acc)
  case (Cons t ts)
  show ?case
  proof (cases "custom_name t")
    case None
    then have "fresh_custom_name t acc = Inr acc" "custom_names (t # ts) = custom_names ts"
      by (simp_all add: fresh_custom_name_def custom_names_def map_filter_simps)
    with Cons.IH [of acc] Cons.prems show ?thesis by auto
  next
    case (Some n)
    from Cons.prems(1) obtain m where m: "fresh_custom_name t acc = Inr m"
        "foldE fresh_custom_name ts m = Inr r"
      by (auto simp: res_simps)
    with Some have n: "n \<notin> set acc" "foldE fresh_custom_name ts (n # acc) = Inr r"
      by (auto simp: fresh_custom_name_def [of t] split: if_splits)
    from Cons.IH [OF n(2)] Cons.prems(2) n(1) Some show ?thesis
      by (simp add: custom_names_def map_filter_simps)
  qed
qed (simp add: custom_names_def map_filter_simps)

lemma fresh_names_complete:
  "distinct (rev (custom_names ts) @ acc) \<Longrightarrow> foldE fresh_custom_name ts acc = Inr (rev (custom_names ts) @ acc)"
proof (induction ts arbitrary: acc)
  case (Cons t ts)
  show ?case
  proof (cases "custom_name t")
    case None
    with Cons show ?thesis
      by (simp add: fresh_custom_name_def custom_names_def map_filter_simps)
  next
    case (Some n)
    with Cons.prems have "n \<notin> set acc" "distinct (rev (custom_names ts) @ (n # acc))"
      by (auto simp: custom_names_def map_filter_simps)
    with Cons.IH [of "n # acc"] Some show ?thesis
      by (simp add: fresh_custom_name_def custom_names_def map_filter_simps)
  qed
qed (simp add: custom_names_def map_filter_simps)

lemma limits_iff:
  "validate_agent_tool_limits ts = Inr () \<longleftrightarrow>
     sum_list (map agent_tool_count ts) \<le> MAX_AGENT_TOOLS \<and> distinct (custom_names ts)"
  using fresh_names_iff [of ts "[]"] fresh_names_complete [of ts "[]"]
  by (auto simp: validate_agent_tool_limits_def res_simps raise_if_def)

lemma normalize_tools_ok: "normalize_agent_tools v = Inr ts \<Longrightarrow> tools_ok ts"
proof -
  assume a: "normalize_agent_tools v = Inr ts"
  then obtain us where v: "v = PList us"
    by (cases v) (simp_all add: normalize_agent_tools_def)
  with a have m: "mapE normalize_agent_tool us = Inr ts" and l: "validate_agent_tool_limits ts = Inr ()"
    by (auto simp: normalize_agent_tools_def res_simps)
  have "tool_ok t" if "t \<in> set ts" for t
    using mapE_Inr_set [OF m that] normalize_agent_tool_ok by blast
  with l show "tools_ok ts" by (simp add: tools_ok_def limits_iff list_all_iff)
qed

lemma normalize_tools_fixed: "tools_ok ts \<Longrightarrow> normalize_agent_tools (PList ts) = Inr ts"
proof -
  assume a: "tools_ok ts"
  have "mapE normalize_agent_tool ts = Inr ts"
    using a by (intro mapE_id tool_ok_fixed) (auto simp: tools_ok_def list_all_iff)
  moreover have "validate_agent_tool_limits ts = Inr ()" using a by (simp add: limits_iff tools_ok_def)
  ultimately show ?thesis by (simp add: normalize_agent_tools_def)
qed

section \<open>What the MCP check accepts\<close>

definition server_name :: "pv \<Rightarrow> string option" where
  "server_name v = (case v of PDict d \<Rightarrow> (case dget ''name'' d of PStr n \<Rightarrow> Some n | _ \<Rightarrow> None) | _ \<Rightarrow> None)"

definition toolset_ref :: "pv \<Rightarrow> string option" where
  "toolset_ref t = (case t of
      PDict d \<Rightarrow> if dget ''type'' d = PStr ''mcp_toolset''
                 then (case dget ''mcp_server_name'' d of PStr n \<Rightarrow> Some n | _ \<Rightarrow> None) else None
    | _ \<Rightarrow> None)"

lemma add_server_Inr:
  assumes "add_server s names = Inr r"
  shows "\<exists>n. server_name s = Some n \<and> n \<noteq> [] \<and> n \<notin> set names \<and> r = n # names"
proof -
  obtain d where d: "s = PDict d" using assms by (cases s) (simp_all add: add_server_def)
  obtain n where n: "dget ''name'' d = PStr n"
    using assms d by (cases "dget ''name'' d") (simp_all add: add_server_def split: if_splits)
  obtain u where u: "dget ''url'' d = PStr u"
    using assms d n by (cases "dget ''url'' d") (simp_all add: add_server_def split: if_splits)
  from assms d n u show ?thesis by (simp add: add_server_def server_name_def split: if_splits)
qed

lemma servers_Inr:
  "foldE add_server ss names = Inr r \<Longrightarrow> distinct names \<Longrightarrow>
   distinct r \<and> set r = set names \<union> {n. \<exists>s \<in> set ss. server_name s = Some n}"
proof (induction ss arbitrary: names)
  case (Cons s ss)
  from Cons.prems(1) obtain q where q: "add_server s names = Inr q" "foldE add_server ss q = Inr r"
    by (auto simp: res_simps)
  from add_server_Inr [OF q(1)] Cons.IH [OF q(2)] Cons.prems(2) show ?case by fastforce
qed simp

lemma add_reference_Inr:
  assumes "add_reference names t refs = Inr r"
  shows "(toolset_ref t = None \<and> r = refs) \<or>
    (\<exists>n. toolset_ref t = Some n \<and> n \<in> set names \<and> set r = insert n (set refs))"
proof (cases t)
  case (PDict d)
  show ?thesis
  proof (cases "dget ''type'' d = PStr ''mcp_toolset''")
    case True
    then obtain n where n: "dget ''mcp_server_name'' d = PStr n"
      using assms PDict by (cases "dget ''mcp_server_name'' d") (simp_all add: add_reference_def)
    with True assms PDict show ?thesis
      by (auto simp: add_reference_def toolset_ref_def split: if_splits)
  next
    case False
    with assms PDict show ?thesis by (simp add: add_reference_def toolset_ref_def)
  qed
qed (use assms in \<open>simp_all add: add_reference_def toolset_ref_def\<close>)

lemma references_Inr:
  "foldE (add_reference names) ts refs = Inr r \<Longrightarrow> set refs \<subseteq> set names \<Longrightarrow>
   set r \<subseteq> set names \<and> set r = set refs \<union> {n. \<exists>t \<in> set ts. toolset_ref t = Some n}"
proof (induction ts arbitrary: refs)
  case (Cons t ts)
  from Cons.prems(1) obtain q where q: "add_reference names t refs = Inr q"
      "foldE (add_reference names) ts q = Inr r"
    by (auto simp: res_simps)
  from add_reference_Inr [OF q(1)] Cons.prems(2) have "set q \<subseteq> set names" by auto
  from Cons.IH [OF q(2) this] add_reference_Inr [OF q(1)] show ?case by fastforce
qed simp

lemma mcp_bindings_ok:
  assumes "validate_mcp_bindings servers tools = Inr u"
  shows "length servers \<le> 20"
    "{n. \<exists>s \<in> set servers. server_name s = Some n} = {n. \<exists>t \<in> set tools. toolset_ref t = Some n}"
proof -
  obtain names refs where n: "foldE add_server servers [] = Inr names"
    and r: "foldE (add_reference names) tools [] = Inr refs"
    and e: "\<forall>x \<in> set names. x \<in> set refs" and l: "length servers \<le> 20"
    using assms by (auto simp: validate_mcp_bindings_def res_simps Let_def filter_empty_conv)
  show "length servers \<le> 20" by (rule l)
  have "set names = {n. \<exists>s \<in> set servers. server_name s = Some n}"
    using servers_Inr [OF n] by simp
  moreover have b: "set refs \<subseteq> set names" "set refs = {n. \<exists>t \<in> set tools. toolset_ref t = Some n}"
    using references_Inr [OF r] by (auto simp only: list.set empty_subsetI Un_empty_left)
  moreover have "set names = set refs" using b(1) e by blast
  ultimately show "{n. \<exists>s \<in> set servers. server_name s = Some n}
      = {n. \<exists>t \<in> set tools. toolset_ref t = Some n}"
    by simp
qed

section \<open>Properties\<close>

text \<open>
  C33: a normalised tool list is well formed (every toolset has a complete default configuration and
  named, complete configs, every custom tool a valid name, description and object schema, at most
  128 tools, no custom name twice), and normalising it again changes nothing.
\<close>

theorem tools_normal_form:
  assumes "normalize_agent_tools v = Inr ts"
  shows "tools_ok ts \<and> normalize_agent_tools (PList ts) = Inr ts"
  using normalize_tools_ok [OF assms] normalize_tools_fixed by blast

theorem tools_normal_form_witness:
  "let ts = [PDict [(''type'', PStr ''custom''), (''name'', PStr ''f''),
        (''description'', PStr ''Custom tool f.''),
        (''input_schema'', PDict [(''type'', PStr ''object''), (''properties'', PDict [])])]] in
   tools_ok ts \<and> normalize_agent_tools (PList ts) = Inr ts"
  unfolding Let_def
  by (rule tools_normal_form [where v = "PList [PDict [(''type'', PStr ''custom''), (''name'', PStr ''f'')]]"])
    code_simp

text \<open>
  C34: an accepted pairing of MCP servers and tools has at most 20 servers, with distinct names, and
  the names the toolsets refer to are exactly the declared ones.
\<close>

theorem mcp_bindings_exact:
  assumes "validate_mcp_bindings servers tools = Inr u"
  shows "length servers \<le> 20 \<and>
    {n. \<exists>s \<in> set servers. server_name s = Some n} = {n. \<exists>t \<in> set tools. toolset_ref t = Some n} \<and>
    distinct (List.map_filter server_name servers)"
proof -
  obtain names where n: "foldE add_server servers [] = Inr names"
    using assms by (auto simp: validate_mcp_bindings_def res_simps)
  have "foldE add_server ss acc = Inr r \<Longrightarrow> distinct acc \<Longrightarrow>
      r = rev (List.map_filter server_name ss) @ acc \<and> distinct r" for ss acc r
  proof (induction ss arbitrary: acc)
    case (Cons s ss)
    from Cons.prems(1) obtain q where q: "add_server s acc = Inr q" "foldE add_server ss q = Inr r"
      by (auto simp: res_simps)
    from add_server_Inr [OF q(1)] Cons.IH [OF q(2)] Cons.prems(2) show ?case
      by (auto simp: map_filter_simps disjoint_iff)
  qed (simp add: map_filter_simps)
  from this [OF n] have "distinct (List.map_filter server_name servers)" by auto
  with mcp_bindings_ok [OF assms] show ?thesis by blast
qed

theorem mcp_bindings_exact_witness:
  "let servers = [PDict [(''type'', PStr ''url''), (''name'', PStr ''a''), (''url'', PStr ''u'')]];
       tools = [PDict [(''type'', PStr ''mcp_toolset''), (''mcp_server_name'', PStr ''a'')]] in
   length servers \<le> 20 \<and>
   {n. \<exists>s \<in> set servers. server_name s = Some n} = {n. \<exists>t \<in> set tools. toolset_ref t = Some n} \<and>
   distinct (List.map_filter server_name servers)"
  unfolding Let_def by (rule mcp_bindings_exact) code_simp

end
