(* ===== verification/Sessions.thy ===== *)
theory Sessions
  imports SessionResources SessionState AgentContract WorkQueue Metadata Pagination
begin

text \<open>
  \<open>app/models/sessions.py\<close> and the session part of \<open>app/routers/sessions.py\<close>: creating a session from
  an agent version and an environment, its responses, the overlay of its agent configuration, and
  the operations on its life cycle. A session row is threaded through the steps that change it, as
  the mapped object is in the code; the tables hold the row it was last flushed as.
\<close>

section \<open>Requests\<close>

record session_create =
  sc_agent :: "string + (string \<times> int option)"
  sc_environment_id :: string
  sc_title :: "string option"
  sc_metadata :: pdict
  sc_resources :: "pdict list"
  sc_vault_ids :: "string list"

record session_update =
  su_title :: "string option"
  su_metadata :: "pdict option"
  su_agent :: "pdict option"
  su_vault_ids :: "string list option"

definition resolve_agent_ref :: "string + (string \<times> int option) \<Rightarrow> string \<times> int option" where
  "resolve_agent_ref agent = (case agent of Inl i \<Rightarrow> (i, None) | Inr ref \<Rightarrow> ref)"

section \<open>Responses\<close>

definition session_to_response :: "session_row \<Rightarrow> pv \<Rightarrow> pv list \<Rightarrow> pdict res" where
  "session_to_response s agent resources =
     (let details = se_status_details s in
      bindE (list_or_empty (dget ''outcome_evaluations'' details)) (\<lambda>outcomes.
      bindE (dict_or_empty (dget ''stats'' details)) (\<lambda>stats.
      bindE (dict_or_empty (dget ''usage'' details)) (\<lambda>usage.
      bindE (list_or_empty (dget ''vault_ids'' details)) (\<lambda>vault_ids.
      Inr [(''id'', PStr (se_id s)), (''type'', PStr ''session''), (''agent'', agent),
        (''agent_id'', PStr (se_agent_id s)), (''agent_version'', PInt (se_agent_version s)),
        (''environment_id'', PStr (se_environment_id s)), (''title'', pstr_opt (se_title s)),
        (''status'', PStr (se_status s)), (''status_details'', PDict details),
        (''stop_reason'', se_stop_reason s), (''run_state'', se_run_state s),
        (''sandbox_state'', se_sandbox_state s), (''metadata'', PDict (se_metadata s)),
        (''resources'', PList resources), (''outcome_evaluations'', PList outcomes),
        (''stats'', PDict stats), (''usage'', PDict usage), (''vault_ids'', PList vault_ids),
        (''last_event_seq'', PInt (se_last_event_seq s)),
        (''archived_at'', ptime_opt (se_archived_at s)), (''deleted_at'', ptime_opt (se_deleted_at s)),
        (''deployment_id'', dget ''deployment_id'' details),
        (''created_at'', PTime (se_created_at s)), (''updated_at'', PTime (se_updated_at s))])))))"

definition session_agent_snapshot :: "agent_version_row \<Rightarrow> pdict \<Rightarrow> pdict res" where
  "session_agent_snapshot v details =
     bindE (dict_or_empty (dget ''agent'' details)) (\<lambda>overlay.
     Inr [(''id'', PStr (av_agent_id v)), (''type'', PStr ''agent''), (''name'', PStr (av_name v)),
       (''version'', PInt (av_version v)), (''model'', PDict (av_model v)), (''system'', pstr_opt (av_system v)),
       (''description'', pstr_opt (av_description v)),
       (''tools'', dget_or ''tools'' (PList (av_tools v)) overlay),
       (''mcp_servers'', dget_or ''mcp_servers'' (PList (av_mcp_servers v)) overlay),
       (''skills'', PList (av_skills v)), (''multiagent'', av_multiagent v)])"

definition session_response :: "session_row \<Rightarrow> pdict M" where
  "session_response s =
     bindM (get_agent_version (se_agent_id s) (se_agent_version s) (Some (se_workspace_id s))) (\<lambda>version.
     bindM (case version of
         None \<Rightarrow> returnM PNone
       | Some v \<Rightarrow> bindM (liftE (session_agent_snapshot v (se_status_details s))) (\<lambda>a. returnM (PDict a))) (\<lambda>agent.
     bindM (session_resources_response s) (\<lambda>resources.
     liftE (session_to_response s agent resources))))"

text \<open>
  \<^theory_text>\<open>model_dump(mode="json")\<close>: datetimes become their ISO text, with \<open>Z\<close> for UTC.
\<close>

definition iso_z :: "int \<Rightarrow> string" where
  "iso_z t = take (length (isoformat t) - 6) (isoformat t) @ ''Z''"

fun json_mode :: "pv \<Rightarrow> pv" where
  "json_mode (PTime t) = PStr (iso_z t)"
| "json_mode (PList xs) = PList (map json_mode xs)"
| "json_mode (PDict d) = PDict (map (\<lambda>(k, v). (k, json_mode v)) d)"
| "json_mode v = v"

section \<open>Creating\<close>

definition validate_session_vault_id :: "string \<Rightarrow> string \<Rightarrow> string list \<Rightarrow> string list M" where
  "validate_session_vault_id ws vault_id resolved =
     seqM (guardM (vault_id = []) (HTTPException 422 ''vault_ids must not contain empty values'')) (
     if vault_id \<in> set resolved then returnM resolved
     else bindM (get_resource vault_id (Some ''vault'') None False (Some ws)) (\<lambda>found.
       case found of
         None \<Rightarrow> raiseM (HTTPException 404 ''Vault not found'')
       | Some vault \<Rightarrow> seqM (guardM (mr_archived_at vault \<noteq> None) (HTTPException 404 ''Vault not found''))
           (returnM (resolved @ [vault_id]))))"

definition validate_session_vault_ids :: "string list \<Rightarrow> string \<Rightarrow> string list M" where
  "validate_session_vault_ids vault_ids ws = foldM (validate_session_vault_id ws) vault_ids []"

definition primary_thread_id :: "session_row \<Rightarrow> string" where
  "primary_thread_id s = ''thrd_'' @ se_id s @ ''_primary''"

definition session_thread_agent_snapshot :: "agent_version_row \<Rightarrow> pdict" where
  "session_thread_agent_snapshot v =
     [(''id'', PStr (av_agent_id v)), (''type'', PStr ''agent''), (''name'', PStr (av_name v)),
      (''version'', PInt (av_version v)), (''model'', PDict (av_model v)), (''system'', pstr_opt (av_system v)),
      (''description'', pstr_opt (av_description v)), (''tools'', PList (av_tools v)),
      (''mcp_servers'', PList (av_mcp_servers v)), (''skills'', PList (av_skills v))]"

definition create_session_thread :: "session_row \<Rightarrow> pv \<Rightarrow> unit M" where
  "create_session_thread s entry = (case entry of
      PDict d \<Rightarrow>
        if dget ''type'' d \<noteq> PStr ''agent'' \<or> \<not> truthy (dget ''id'' d) \<or> dget ''version'' d = PNone
        then returnM ()
        else
          bindM (liftE (py_int (dget ''version'' d))) (\<lambda>version.
          bindM (get_agent_version (py_str (dget ''id'' d)) version (Some (se_workspace_id s))) (\<lambda>found.
          case found of
            None \<Rightarrow> raiseM (HTTPException 422 (''Referenced multiagent version not found: ''
              @ py_str (dget ''id'' d) @ ''@'' @ py_str (dget ''version'' d)))
          | Some v \<Rightarrow>
              bindM (create_resource ''session_thread'' (resource_args0\<lparr>
                ra_parent_id := Some (se_id s),
                ra_name := Some (''agent:'' @ py_str (dget ''id'' d) @ '':'' @ py_str (dget ''version'' d)),
                ra_status := ''idle'',
                ra_data := [(''status'', PStr ''idle''), (''parent_thread_id'', PStr (primary_thread_id s)),
                  (''agent'', PDict (session_thread_agent_snapshot v)),
                  (''multiagent'', PDict [(''type'', PStr ''delegated_agent''),
                     (''coordinator_agent_id'', PStr (se_agent_id s)),
                     (''coordinator_agent_version'', PInt (se_agent_version s))])],
                ra_workspace_id := Some (se_workspace_id s)\<rparr>)) (\<lambda>_. returnM ())))
    | _ \<Rightarrow> returnM ())"

definition create_multiagent_session_threads :: "session_row \<Rightarrow> agent_version_row \<Rightarrow> unit M" where
  "create_multiagent_session_threads s version =
     (case por (av_multiagent version) (PDict []) of
        PDict multiagent \<Rightarrow>
          (case por (dget ''agents'' multiagent) (PList []) of
             PList roster \<Rightarrow> bindM (mapM (create_session_thread s) roster) (\<lambda>_. returnM ())
           | _ \<Rightarrow> returnM ())
      | _ \<Rightarrow> returnM ())"

definition status_event :: "string \<Rightarrow> string \<Rightarrow> pv \<Rightarrow> pdict" where
  "status_event event_type status stop_reason =
     [(''type'', PStr event_type), (''status'', PStr status), (''stop_reason'', stop_reason)]"

definition reason :: "string \<Rightarrow> pv" where
  "reason ty = PDict [(''type'', PStr ty)]"

definition create_session :: "session_create \<Rightarrow> pdict M" where
  "create_session body = session_scope (
     let (agent_id, version) = resolve_agent_ref (sc_agent body) in
     bindM (get_agent agent_id) (\<lambda>found.
     case found of
       None \<Rightarrow> raiseM (HTTPException 404 ''Agent not found'')
     | Some agent \<Rightarrow>
     seqM (guardM (ag_archived_at agent \<noteq> None) (HTTPException 404 ''Agent not found'')) (
     let pinned = (case version of Some v \<Rightarrow> if v \<noteq> 0 then v else ag_active_version agent
                                 | None \<Rightarrow> ag_active_version agent) in
     bindM (get_agent_version (ag_id agent) pinned None) (\<lambda>found_version.
     case found_version of
       None \<Rightarrow> raiseM (HTTPException 404 ''Agent version not found'')
     | Some agent_version \<Rightarrow>
     bindM (get_environment (sc_environment_id body) None) (\<lambda>found_env.
     case found_env of
       None \<Rightarrow> raiseM (HTTPException 404 ''Environment not found'')
     | Some environment \<Rightarrow>
     seqM (guardM (en_deleted_at environment \<noteq> None \<or> en_archived_at environment \<noteq> None)
       (HTTPException 404 ''Environment not found'')) (
     bindM (validate_session_vault_ids (sc_vault_ids body) (ag_workspace_id agent)) (\<lambda>vault_ids.
     bindM (liftE (normalize_metadata (PDict (sc_metadata body)))) (\<lambda>metadata.
     bindM (create_session_q agent (av_version agent_version) environment (sc_title body)
       (md_pv metadata) [] vault_ids None) (\<lambda>s.
     bindM (mapM (\<lambda>d. create_session_resource s (PDict d) [''file'', ''github_repository'', ''memory_store''])
       (sc_resources body)) (\<lambda>_.
     seqM (create_multiagent_session_threads s agent_version) (
     bindM (append_event s ''session.status_idle'' (status_event ''session.status_idle'' ''idle'' (reason ''end_turn''))) (\<lambda>(s', _).
     seqM commitM (session_response s')))))))))))))"

section \<open>Reading and listing\<close>

definition must_get_session :: "string \<Rightarrow> session_row M" where
  "must_get_session i = bindM (get_session i None) (\<lambda>found.
     case found of
       None \<Rightarrow> raiseM (HTTPException 404 ''Session not found'')
     | Some s \<Rightarrow> if se_deleted_at s \<noteq> None then raiseM (HTTPException 404 ''Session not found'')
                 else returnM s)"

definition retrieve_session :: "string \<Rightarrow> pdict M" where
  "retrieve_session i = session_scope (bindM (must_get_session i) session_response)"

definition SESSION_LIST_STATUSES :: "string list" where
  "SESSION_LIST_STATUSES = [SESSION_IDLE, SESSION_RUNNING, SESSION_RESCHEDULING, SESSION_TERMINATED]"

record session_filter =
  sf_limit :: int
  sf_page :: "string option"
  sf_include_archived :: bool
  sf_order :: string
  sf_agent_id :: "string option"
  sf_agent_version :: "int option"
  sf_memory_store_id :: "string option"
  sf_deployment_id :: "string option"
  sf_statuses :: "string list"
  sf_gt :: pv
  sf_gte :: pv
  sf_lt :: pv
  sf_lte :: pv

fun filterM :: "('a \<Rightarrow> bool M) \<Rightarrow> 'a list \<Rightarrow> 'a list M" where
  "filterM p [] = returnM []"
| "filterM p (x # xs) = bindM (p x) (\<lambda>b. bindM (filterM p xs) (\<lambda>ys. returnM (if b then x # ys else ys)))"

definition session_created :: "session_row \<Rightarrow> pydt option res" where
  "session_created s = Inr (Some (utc_dt (se_created_at s)))"

definition filter_sessions :: "session_filter \<Rightarrow> session_row list \<Rightarrow> session_row list res" where
  "filter_sessions f sessions =
     bindE (filter_created_at session_created sessions (sf_gt f) (sf_gte f) (sf_lt f) (sf_lte f)) (\<lambda>s1.
     bindE (raise_if (\<not> set (sf_statuses f) \<subseteq> set SESSION_LIST_STATUSES)
       (HTTPException 422 ''statuses must be idle, rescheduling, running, or terminated'')) (\<lambda>_.
     let s2 = (if sf_statuses f \<noteq> [] then filter (\<lambda>s. se_status s \<in> set (sf_statuses f)) s1 else s1);
         s3 = (case sf_agent_id f of None \<Rightarrow> s2
               | Some i \<Rightarrow> filter (\<lambda>s. se_agent_id s = i \<and> opt_eq (sf_agent_version f) (Some (se_agent_version s))) s2)
     in Inr s3))"

definition list_sessions :: "session_filter \<Rightarrow> pdict list_response M" where
  "list_sessions f = session_scope (
     bindM (list_sessions_q 1000 (sf_include_archived f) None) (\<lambda>rows.
     bindM (liftE (filter_sessions f rows)) (\<lambda>s3.
     bindM (case sf_memory_store_id f of None \<Rightarrow> returnM s3
            | Some m \<Rightarrow> filterM (\<lambda>s. session_has_memory_store s m) s3) (\<lambda>s4.
     let s5 = (case sf_deployment_id f of None \<Rightarrow> s4
               | Some i \<Rightarrow> filter (\<lambda>s. str_or_empty (dget ''deployment_id'' (se_metadata s)) = i) s4) in
     bindM (liftE (sort_by_created_at session_created (\<lambda>s. Some (se_id s)) s5 (Some (sf_order f)))) (\<lambda>sorted.
     bindM (mapM session_response sorted) (\<lambda>responses.
     paginate item_id responses (Some (sf_limit f)) (sf_page f) MAX_LIMIT))))))"

section \<open>The agent overlay\<close>

text \<open>What a \<^theory_text>\<open>for\<close> loop reads of a value.\<close>

definition iter_list :: "pv \<Rightarrow> pv list res" where
  "iter_list v = (case v of
      PList xs \<Rightarrow> Inr xs | PDict d \<Rightarrow> Inr (map (\<lambda>(k, _). PStr k) d)
    | PStr s \<Rightarrow> Inr (map (\<lambda>c. PStr [c]) s) | _ \<Rightarrow> Inl TypeError)"

definition overlay_tools :: "pdict \<Rightarrow> pdict \<Rightarrow> pdict res" where
  "overlay_tools update overlay =
     (if has_key ''tools'' update then
        (case por (dget ''tools'' update) (PList []) of
           PList ts \<Rightarrow> bindE (normalize_agent_tools (PList ts)) (\<lambda>tools. Inr (dset ''tools'' (PList tools) overlay))
         | _ \<Rightarrow> Inl (HTTPException 422 ''agent.tools must be an array or null''))
      else Inr overlay)"

definition overlay_servers :: "pdict \<Rightarrow> pdict \<Rightarrow> pdict res" where
  "overlay_servers update overlay =
     (if has_key ''mcp_servers'' update then
        (case por (dget ''mcp_servers'' update) (PList []) of
           PList ss \<Rightarrow> Inr (dset ''mcp_servers'' (PList ss) overlay)
         | _ \<Rightarrow> Inl (HTTPException 422 ''agent.mcp_servers must be an array or null''))
      else Inr overlay)"

text \<open>The overlay an update makes of the one stored, over the agent version \<open>v\<close>.\<close>

definition new_overlay :: "agent_version_row \<Rightarrow> pdict \<Rightarrow> pdict \<Rightarrow> pdict res" where
  "new_overlay v update details =
     bindE (dict_or_empty (dget ''agent'' details)) (\<lambda>overlay.
     bindE (overlay_tools update overlay) (\<lambda>o1.
     bindE (overlay_servers update o1) (\<lambda>o2.
     bindE (iter_list (dget_or ''mcp_servers'' (PList (av_mcp_servers v)) o2)) (\<lambda>servers.
     bindE (iter_list (dget_or ''tools'' (PList (av_tools v)) o2)) (\<lambda>tools.
     bindE (validate_mcp_bindings servers tools) (\<lambda>_. Inr o2))))))"

definition merge_session_agent_overlay :: "session_row \<Rightarrow> pdict \<Rightarrow> pdict M" where
  "merge_session_agent_overlay s update =
     (let unsupported = extra_keys [''tools'', ''mcp_servers''] update in
      seqM (guardM (unsupported \<noteq> []) (HTTPException 422
        (''Unsupported session agent update fields: '' @ py_join '', '' (sort unsupported)))) (
      bindM (get_agent_version (se_agent_id s) (se_agent_version s) None) (\<lambda>found.
      case found of
        None \<Rightarrow> raiseM (HTTPException 404 ''Agent version not found'')
      | Some v \<Rightarrow> bindM (liftE (new_overlay v update (se_status_details s))) (\<lambda>overlay.
          returnM (dset ''agent'' (PDict overlay) (se_status_details s))))))"

section \<open>The life cycle\<close>

definition update_session :: "string \<Rightarrow> session_update \<Rightarrow> pdict M" where
  "update_session i body = session_scope (
     bindM (must_get_session i) (\<lambda>s.
     seqM (guardM (blocks_mutation (se_status s))
       (HTTPException 409 (''Cannot update a '' @ se_status s @ '' session''))) (
     seqM (guardM (su_vault_ids body \<noteq> None)
       (HTTPException 422 ''Session vault_ids updates are reserved and not supported'')) (
     bindM (case su_agent body of
         None \<Rightarrow> returnM None
       | Some update \<Rightarrow>
           seqM (guardM (se_status s \<noteq> SESSION_IDLE \<or> is_waiting_for_action (se_stop_reason s))
             (HTTPException 409 ''Session agent config can only be updated while idle''))
             (bindM (merge_session_agent_overlay s update) (\<lambda>d. returnM (Some d)))) (\<lambda>status_details.
     bindM (case su_metadata body of
         None \<Rightarrow> returnM None
       | Some m \<Rightarrow> bindM (liftE (merge_metadata (PDict (se_metadata s)) (PDict m))) (\<lambda>x. returnM (Some (md_pv x)))) (\<lambda>metadata.
     bindM (update_session_q s (session_patch0\<lparr>sp_title := su_title body, sp_metadata := metadata,
       sp_status_details := status_details\<rparr>)) (\<lambda>s1.
     bindM (session_response s1) (\<lambda>response.
     bindM (append_event s1 ''session.updated''
       [(''type'', PStr ''session.updated''), (''session'', json_mode (PDict response))]) (\<lambda>_.
     seqM commitM (returnM response))))))))))"

definition archive_session :: "string \<Rightarrow> pdict M" where
  "archive_session i = session_scope (
     bindM (must_get_session i) (\<lambda>s.
     seqM (guardM (blocks_mutation (se_status s))
       (HTTPException 409 (''Cannot archive a '' @ se_status s @ '' session''))) (
     bindM (archive_session_q s) (\<lambda>s1.
     seqM commitM (session_response s1)))))"

definition delete_session :: "string \<Rightarrow> pdict M" where
  "delete_session i = session_scope (
     bindM (must_get_session i) (\<lambda>s.
     seqM (guardM (blocks_mutation (se_status s))
       (HTTPException 409 (''Cannot delete a '' @ se_status s @ '' session''))) (
     bindM (delete_session_q s) (\<lambda>s1.
     bindM (append_event s1 ''session.deleted'' [(''type'', PStr ''session.deleted'')]) (\<lambda>_.
     seqM commitM (returnM
       [(''id'', PStr (se_id s)), (''type'', PStr ''session_deleted''), (''deleted'', PBool True)]))))))"

definition cancel_session :: "string \<Rightarrow> pdict M" where
  "cancel_session i = session_scope (
     bindM (must_get_session i) (\<lambda>s.
     bindM (update_session_q s (session_patch0\<lparr>sp_status := Some SESSION_TERMINATED,
       sp_stop_reason := Some (reason ''cancelled'')\<rparr>)) (\<lambda>s1.
     bindM (append_event s1 ''session.status_terminated''
       (status_event ''session.status_terminated'' ''terminated'' (reason ''cancelled''))) (\<lambda>(s2, _).
     seqM commitM (session_response s2)))))"

text \<open>The environment of a session, deleted ones refused.\<close>

definition must_get_environment_of :: "session_row \<Rightarrow> environment_row M" where
  "must_get_environment_of s = bindM (get_environment (se_environment_id s) None) (\<lambda>found.
     case found of
       None \<Rightarrow> raiseM (HTTPException 404 ''Environment not found'')
     | Some e \<Rightarrow> seqM (guardM (en_deleted_at e \<noteq> None) (HTTPException 404 ''Environment not found''))
         (returnM e))"

definition resume_session :: "string \<Rightarrow> pdict M" where
  "resume_session i = session_scope (
     bindM (must_get_session i) (\<lambda>s.
     seqM (guardM (se_status s = SESSION_TERMINATED) (HTTPException 409 ''Terminated sessions cannot be resumed'')) (
     seqM (guardM (is_waiting_for_action (se_stop_reason s))
       (HTTPException 409 ''Session requires action results before it can resume'')) (
     seqM (guardM (\<not> can_start_work (se_status s) (se_stop_reason s))
       (HTTPException 409 (''Cannot resume a '' @ se_status s @ '' session''))) (
     bindM (must_get_environment_of s) (\<lambda>environment.
     bindM (enqueue_session_run s ''session.resume'' []) (\<lambda>work.
     seqM commitM (
     seqM (if should_execute_inline (en_config environment) then background_task (mr_id work) else returnM ())
       (session_response s)))))))))"

end
