(* ===== verification/SessionEvents.thy ===== *)
theory SessionEvents
  imports Sessions Environments
begin

text \<open>
  The event part of \<open>app/routers/sessions.py\<close> and \<open>app/models/events.py\<close>: which batches of events a
  session accepts in which state, what an accepted batch does, and the responses and the stream in
  which events are read back. A session that waits for actions takes only their results, each
  once, for a pending event of the fitting type; when the last one is in, a run is queued.
\<close>

section \<open>Requests and responses\<close>

text \<open>An event of a request: its type and its further fields; \<open>model_dump\<close> puts the type first.\<close>

record event_input =
  ei_type :: string
  ei_fields :: pdict

definition event_payload :: "event_input \<Rightarrow> pdict" where
  "event_payload e = (''type'', PStr (ei_type e)) # ei_fields e"

definition event_to_response :: "event_row \<Rightarrow> pdict" where
  "event_to_response e = dupdate (ev_payload e)
     [(''id'', PStr (ev_id e)), (''type'', PStr (ev_type e)), (''session_id'', PStr (ev_session_id e)),
      (''seq'', PInt (ev_seq e)), (''created_at'', PTime (ev_created_at e))]"

text \<open>
  The dump of the response model: its fields in their order, then the others; \<open>processed_at\<close> is
  read as a datetime and printed as one.
\<close>

definition EVENT_FIELDS :: "string list" where
  "EVENT_FIELDS = [''id'', ''type'', ''session_id'', ''seq'', ''created_at'', ''processed_at'']"

definition event_public :: "event_row \<Rightarrow> pdict" where
  "event_public e =
     (let d = event_to_response e;
          d' = dset ''processed_at'' (case dget ''processed_at'' d of
              PStr s \<Rightarrow> (if endswith ''+00:00'' s then PStr (take (length s - 6) s @ ''Z'') else PStr s)
            | v \<Rightarrow> v) d
      in map (\<lambda>k. (k, json_mode (dget k d'))) EVENT_FIELDS
         @ map (\<lambda>(k, v). (k, json_mode v)) (filter (\<lambda>(k, _). k \<notin> set EVENT_FIELDS) d'))"

definition event_to_sse :: "event_row \<Rightarrow> string" where
  "event_to_sse e = ''id: '' @ int_str (ev_seq e) @ [CHR 0x0A] @ ''event: '' @ ev_type e @ [CHR 0x0A]
     @ ''data: '' @ dumps_compact (PDict (event_public e)) @ [CHR 0x0A, CHR 0x0A]"

section \<open>Action results\<close>

definition action_result_target :: "string \<Rightarrow> pdict \<Rightarrow> string option" where
  "action_result_target event_type payload =
     (if event_type = ''user.custom_tool_result'' then
        (let v = dget ''custom_tool_use_id'' payload in if truthy v then Some (py_str v) else None)
      else if event_type \<in> {''user.tool_confirmation'', ''user.tool_result''} then
        (let v = dget ''tool_use_id'' payload in if truthy v then Some (py_str v) else None)
      else None)"

definition resolved_action_ids :: "event_row list \<Rightarrow> string list" where
  "resolved_action_ids events =
     List.map_filter (\<lambda>e. case action_result_target (ev_type e) (ev_payload e) of
       Some i \<Rightarrow> if i \<noteq> [] then Some i else None | None \<Rightarrow> None) events"

definition validate_action_result_matches_blocker :: "string \<Rightarrow> pdict \<Rightarrow> string \<Rightarrow> unit res" where
  "validate_action_result_matches_blocker result_type payload blocker_type =
     (if result_type = ''user.custom_tool_result'' then
        raise_if (blocker_type \<noteq> ''agent.custom_tool_use'')
          (HTTPException 409 ''custom_tool_result must target agent.custom_tool_use'')
      else if result_type = ''user.tool_result'' then
        raise_if (blocker_type \<noteq> ''agent.tool_use'') (HTTPException 409 ''tool_result must target agent.tool_use'')
      else if result_type = ''user.tool_confirmation'' then
        bindE (raise_if (blocker_type \<notin> {''agent.tool_use'', ''agent.mcp_tool_use''})
          (HTTPException 409 ''tool_confirmation must target agent tool use'')) (\<lambda>_.
        bindE (in_set (dget ''result'' payload) [PStr ''allow'', PStr ''deny'']) (\<lambda>ok.
        bindE (raise_if (\<not> ok) (HTTPException 422 ''tool_confirmation.result must be \"allow\" or \"deny\"'')) (\<lambda>_.
        raise_if (dget ''result'' payload \<noteq> PStr ''deny'' \<and> dget ''deny_message'' payload \<noteq> PNone)
          (HTTPException 422 ''tool_confirmation.deny_message is only allowed when result is deny''))))
      else Inr ())"

text \<open>One result against the pending ids, the resolved ones and the targets of the batch so far.\<close>

definition validate_action_result ::
  "string list \<Rightarrow> event_row list \<Rightarrow> event_input \<Rightarrow> string list \<Rightarrow> string list res" where
  "validate_action_result pending history e targets =
     (case action_result_target (ei_type e) (event_payload e) of
        None \<Rightarrow> Inl (HTTPException 422 (ei_type e @ '' must reference a blocking event''))
      | Some i \<Rightarrow>
          if i = [] then Inl (HTTPException 422 (ei_type e @ '' must reference a blocking event''))
          else if i \<notin> set pending then Inl (HTTPException 409 (''Action event is not pending: '' @ i))
          else if i \<in> set (resolved_action_ids history) \<or> i \<in> set targets
            then Inl (HTTPException 409 (''Action event is already resolved: '' @ i))
          else (case find (\<lambda>h. ev_id h = i) history of
              None \<Rightarrow> Inl (HTTPException 404 (''Blocking event not found: '' @ i))
            | Some b \<Rightarrow> bindE (validate_action_result_matches_blocker (ei_type e) (event_payload e) (ev_type b))
                (\<lambda>_. Inr (i # targets))))"

definition validate_action_results :: "session_row \<Rightarrow> event_input list \<Rightarrow> unit M" where
  "validate_action_results s inputs =
     bindM (list_events (se_id s) 0 1000 None) (\<lambda>history.
     bindM (liftE (foldE (validate_action_result (pending_action_ids (se_stop_reason s)) history) inputs []))
       (\<lambda>_. returnM ()))"

definition all_pending_actions_resolved :: "session_row \<Rightarrow> bool M" where
  "all_pending_actions_resolved s =
     (let pending = pending_action_ids (se_stop_reason s) in
      if pending = [] then returnM False
      else bindM (list_events (se_id s) 0 1000 None) (\<lambda>history.
        returnM (set pending \<subseteq> set (resolved_action_ids history))))"

section \<open>Accepting a batch\<close>

definition validate_outcomes :: "event_input list \<Rightarrow> unit res" where
  "validate_outcomes inputs = bindE (mapE (\<lambda>e. validate_user_define_outcome_event (event_payload e))
     (filter (\<lambda>e. ei_type e = ''user.define_outcome'') inputs)) (\<lambda>_. Inr ())"

definition validate_event_batch :: "session_row \<Rightarrow> event_input list \<Rightarrow> unit M" where
  "validate_event_batch s inputs =
     (let types = map ei_type inputs in
      seqM (liftE (validate_system_message_batch types)) (
      seqM (liftE (validate_outcomes inputs)) (
      if se_status s \<in> set ACTIVE_STATUSES then
        (if types = [''user.interrupt''] then returnM ()
         else raiseM (HTTPException 409 (''Cannot send events while session is '' @ se_status s)))
      else if is_waiting_for_action (se_stop_reason s) then
        (if types = [''user.interrupt''] then returnM ()
         else
           (let results = filter (\<lambda>e. ei_type e \<noteq> ''system.message'') inputs in
            if results = [] \<or> \<not> list_all (\<lambda>e. ei_type e \<in> set ACTION_RESULT_EVENTS) results
            then raiseM (HTTPException 409 ''Session is waiting for required action results'')
            else validate_action_results s results))
      else guardM (list_ex (\<lambda>t. t \<in> set ACTION_RESULT_EVENTS) types)
        (HTTPException 409 ''Session is not waiting for action results''))))"

text \<open>What the loop over the batch carries: the session, the flags and the responses so far.\<close>

record batch_state =
  bs_session :: session_row
  bs_appended :: "pdict list"
  bs_should_run :: bool
  bs_should_interrupt :: bool
  bs_resolved :: bool

definition append_input :: "event_input \<Rightarrow> batch_state \<Rightarrow> batch_state M" where
  "append_input e b =
     bindM (append_event (bs_session b) (ei_type e) (event_payload e)) (\<lambda>(s, ev).
     let b' = b\<lparr>bs_session := s, bs_appended := bs_appended b @ [event_to_response ev]\<rparr> in
     if ei_type e = ''user.interrupt'' then returnM (b'\<lparr>bs_should_interrupt := True\<rparr>)
     else if starts_work (ei_type e) then returnM (b'\<lparr>bs_should_run := True\<rparr>)
     else if is_action_result (ei_type e) then
       bindM (all_pending_actions_resolved s) (\<lambda>r. returnM (b'\<lparr>bs_resolved := r, bs_should_run := r\<rparr>))
     else returnM b')"

definition finish_batch :: "batch_state \<Rightarrow> resource_row option M" where
  "finish_batch b =
     (if bs_should_interrupt b then
        bindM (update_session_q (bs_session b) (session_patch0\<lparr>sp_status := Some SESSION_IDLE,
          sp_stop_reason := Some (reason ''interrupted'')\<rparr>)) (\<lambda>s.
        bindM (append_event s ''session.status_idle''
          (status_event ''session.status_idle'' SESSION_IDLE (reason ''interrupted''))) (\<lambda>_.
        returnM None))
      else if bs_should_run b then
        bindM (if bs_resolved b
               then update_session_q (bs_session b) (session_patch0\<lparr>sp_status := Some SESSION_IDLE,
                 sp_stop_reason := Some (reason ''action_submitted'')\<rparr>)
               else returnM (bs_session b)) (\<lambda>s.
        bindM (enqueue_session_run s ''session.events''
          [(''event_ids'', PList (map (dget ''id'') (bs_appended b)))]) (\<lambda>work.
        returnM (Some work)))
      else returnM None)"

definition send_events :: "string \<Rightarrow> event_input list \<Rightarrow> pdict list M" where
  "send_events i inputs = session_scope (
     bindM (must_get_session i) (\<lambda>s.
     seqM (guardM (se_archived_at s \<noteq> None) (HTTPException 409 ''Session is archived'')) (
     seqM (guardM (se_status s = SESSION_TERMINATED) (HTTPException 409 ''Session is terminated'')) (
     bindM (must_get_environment_of s) (\<lambda>environment.
     seqM (validate_event_batch s inputs) (
     bindM (foldM append_input inputs \<lparr>bs_session = s, bs_appended = [], bs_should_run = False,
       bs_should_interrupt = False, bs_resolved = False\<rparr>) (\<lambda>b.
     bindM (finish_batch b) (\<lambda>work.
     seqM commitM (
     seqM (case work of Some w \<Rightarrow> if should_execute_inline (en_config environment) then background_task (mr_id w)
                                 else returnM ()
           | None \<Rightarrow> returnM ())
       (returnM (bs_appended b)))))))))))"

section \<open>Reading events\<close>

record event_filter =
  ef_after_seq :: int
  ef_limit :: int
  ef_page :: "string option"
  ef_order :: string
  ef_types :: "string list"
  ef_gt :: pv
  ef_gte :: pv
  ef_lt :: pv
  ef_lte :: pv

definition list_session_events :: "string \<Rightarrow> event_filter \<Rightarrow> pdict list_response M" where
  "list_session_events i f = session_scope (
     bindM (must_get_session i) (\<lambda>s.
     bindM (list_events (se_id s) (ef_after_seq f) 1000 None) (\<lambda>events.
     bindM (liftE (filter_created_at (\<lambda>e. Inr (Some (utc_dt (ev_created_at e)))) events
       (ef_gt f) (ef_gte f) (ef_lt f) (ef_lte f))) (\<lambda>e1.
     let e2 = (if ef_types f \<noteq> [] then filter (\<lambda>e. ev_type e \<in> set (ef_types f)) e1 else e1) in
     bindM (liftE (normalize_sort_order (Some (ef_order f)) ''asc'')) (\<lambda>order.
     let e3 = (if order = ''desc'' then rev e2 else e2) in
     paginate item_id (map event_to_response e3) (Some (ef_limit f)) (ef_page f) MAX_LIMIT)))))"

section \<open>Threads of events\<close>

definition event_thread_id :: "event_row \<Rightarrow> string option" where
  "event_thread_id e =
     (if truthy (dget ''thread_id'' (ev_payload e)) then Some (py_str (dget ''thread_id'' (ev_payload e)))
      else (case dget ''thread'' (ev_payload e) of
          PDict t \<Rightarrow> if truthy (dget ''id'' t) then Some (py_str (dget ''id'' t)) else None
        | _ \<Rightarrow> None))"

definition event_belongs_to_thread :: "event_row \<Rightarrow> string \<Rightarrow> string \<Rightarrow> bool" where
  "event_belongs_to_thread e thread_id primary =
     (if thread_id = primary then event_thread_id e \<in> {None, Some [], Some primary}
      else event_thread_id e = Some thread_id)"

section \<open>The stream\<close>

text \<open>
  One round of \<open>event_generator\<close>: what it yields, the sequence number it goes on from (\<open>None\<close>: the
  stream ends), and whether it sleeps before the next round.
\<close>

record stream_round =
  sr_output :: "string list"
  sr_next :: "int option"
  sr_sleeps :: bool

definition not_found_chunk :: string where
  "not_found_chunk = ''event: error'' @ [CHR 0x0A]
     @ ''data: {\"type\":\"not_found_error\",\"message\":\"Session not found\"}'' @ [CHR 0x0A, CHR 0x0A]"

definition ping_chunk :: string where
  "ping_chunk = '': ping'' @ [CHR 0x0A, CHR 0x0A]"

definition stream_filter :: "string option \<Rightarrow> session_row \<Rightarrow> event_row list \<Rightarrow> event_row list" where
  "stream_filter thread_id s events = (case thread_id of
      None \<Rightarrow> events
    | Some t \<Rightarrow> filter (\<lambda>e. event_belongs_to_thread e t (primary_thread_id s)) events)"

definition stream_step :: "string \<Rightarrow> string option \<Rightarrow> int \<Rightarrow> stream_round M" where
  "stream_step i thread_id current_seq = session_scope (
     bindM (get_session i None) (\<lambda>found.
     case found of
       None \<Rightarrow> returnM \<lparr>sr_output = [not_found_chunk], sr_next = None, sr_sleeps = False\<rparr>
     | Some s \<Rightarrow>
         if se_deleted_at s \<noteq> None
         then returnM \<lparr>sr_output = [not_found_chunk], sr_next = None, sr_sleeps = False\<rparr>
         else bindM (list_events i current_seq 100 None) (\<lambda>events.
           if events = [] then returnM \<lparr>sr_output = [ping_chunk], sr_next = Some current_seq, sr_sleeps = True\<rparr>
           else let mine = stream_filter thread_id s events in
             returnM \<lparr>sr_output = map event_to_sse mine,
               sr_next = Some (if mine = [] then current_seq else ev_seq (last mine)), sr_sleeps = False\<rparr>)))"

text \<open>
  A stream of at most \<open>n\<close> rounds; \<open>others k\<close> is what other transactions commit before a round, and
  the client hangs up when the rounds are used up.
\<close>

fun stream_rounds :: "nat \<Rightarrow> (nat \<Rightarrow> database \<Rightarrow> database) \<Rightarrow> string \<Rightarrow> string option \<Rightarrow> int \<Rightarrow> string list M" where
  "stream_rounds 0 others i thread_id current_seq = returnM []"
| "stream_rounds (Suc n) others i thread_id current_seq =
     seqM (modifyM (\<lambda>w. w\<lparr>w_committed := others n (w_committed w)\<rparr>)) (
     bindM (stream_step i thread_id current_seq) (\<lambda>r.
     case sr_next r of
       None \<Rightarrow> returnM (sr_output r)
     | Some next \<Rightarrow> bindM (stream_rounds n others i thread_id next) (\<lambda>rest. returnM (sr_output r @ rest))))"

end
