(* ===== verification/SessionThreads.thy ===== *)
theory SessionThreads
  imports SessionEvents
begin

text \<open>
  The sub-resources of a session in \<open>app/routers/sessions.py\<close>: its attached resources and its
  threads. The primary thread has no row: it is the session itself under a derived id.
\<close>

section \<open>Resources of a session\<close>

definition must_get_session_resource :: "string \<Rightarrow> string \<Rightarrow> resource_row M" where
  "must_get_session_resource i resource_id =
     bindM (get_resource resource_id (Some ''session_resource'') (Some i) False None) (\<lambda>found.
     case found of
       None \<Rightarrow> raiseM (HTTPException 404 ''Session resource not found'')
     | Some r \<Rightarrow> returnM r)"

definition add_session_resource :: "string \<Rightarrow> pdict \<Rightarrow> pdict M" where
  "add_session_resource i data = session_scope (
     bindM (must_get_session i) (\<lambda>s.
     bindM (create_session_resource s (PDict data) [''file'']) (\<lambda>r.
     seqM commitM (liftE (session_resource_response r)))))"

definition list_session_resources :: "string \<Rightarrow> int \<Rightarrow> string option \<Rightarrow> pdict list_response M" where
  "list_session_resources i limit page = session_scope (
     seqM (must_get_session i) (
     bindM (list_resources ''session_resource'' (Some i) 1000 True False None) (\<lambda>rows.
     bindM (liftE (mapE session_resource_response rows)) (\<lambda>responses.
     paginate item_id responses (Some limit) page MAX_LIMIT))))"

definition retrieve_session_resource :: "string \<Rightarrow> string \<Rightarrow> pdict M" where
  "retrieve_session_resource i resource_id = session_scope (
     seqM (must_get_session i) (
     bindM (must_get_session_resource i resource_id) (\<lambda>r. liftE (session_resource_response r))))"

definition update_session_resource :: "string \<Rightarrow> string \<Rightarrow> pdict \<Rightarrow> pdict M" where
  "update_session_resource i resource_id body = session_scope (
     seqM (must_get_session i) (
     bindM (must_get_session_resource i resource_id) (\<lambda>r.
     bindM (rotate_session_resource_token r body) (\<lambda>data.
     bindM (update_resource r (resource_patch0\<lparr>rp_data := Some data\<rparr>)) (\<lambda>r1.
     seqM commitM (liftE (session_resource_response r1)))))))"

definition delete_session_resource :: "string \<Rightarrow> string \<Rightarrow> pdict M" where
  "delete_session_resource i resource_id = session_scope (
     seqM (must_get_session i) (
     bindM (must_get_session_resource i resource_id) (\<lambda>r.
     seqM (liftE (ensure_session_resource_deletable r)) (
     seqM (delete_session_resource_file r) (
     bindM (delete_resource r) (\<lambda>_.
     seqM commitM (returnM
       [(''id'', PStr (mr_id r)), (''type'', PStr ''session_resource_deleted''), (''deleted'', PBool True)])))))))"

section \<open>Threads\<close>

text \<open>\<open>None\<close> is the primary thread. (\<open>archived\<close> of the source is never passed.)\<close>

definition session_thread_response :: "session_row \<Rightarrow> resource_row option \<Rightarrow> pdict M" where
  "session_thread_response s thread =
     bindM (get_agent_version (se_agent_id s) (se_agent_version s) (Some (se_workspace_id s))) (\<lambda>version.
     let data = (case thread of Some t \<Rightarrow> mr_data t | None \<Rightarrow> []);
         archived_at = (case thread of
             Some t \<Rightarrow> ptime_opt (mr_archived_at t)
           | None \<Rightarrow> por (dget ''primary_thread_archived_at'' (se_status_details s)) PNone);
         status = por (dget ''status'' data) (PStr (se_status s)) in
     bindM (liftE (in_set status (map PStr [''running'', ''idle'', ''rescheduling'', ''terminated'']))) (\<lambda>known.
     returnM [(''id'', PStr (case thread of Some t \<Rightarrow> mr_id t | None \<Rightarrow> primary_thread_id s)),
       (''type'', PStr ''session_thread''), (''session_id'', PStr (se_id s)),
       (''agent'', por (dget ''agent'' data) (case version of
           Some v \<Rightarrow> PDict (session_thread_agent_snapshot v) | None \<Rightarrow> PNone)),
       (''status'', if known then status else PStr ''idle''),
       (''parent_thread_id'', dget ''parent_thread_id'' data),
       (''stats'', por (dget ''stats'' data) (PDict [])), (''usage'', por (dget ''usage'' data) (PDict [])),
       (''archived_at'', archived_at),
       (''created_at'', PTime (case thread of Some t \<Rightarrow> mr_created_at t | None \<Rightarrow> se_created_at s)),
       (''updated_at'', PTime (case thread of Some t \<Rightarrow> mr_updated_at t | None \<Rightarrow> se_updated_at s))]))"

definition get_session_thread :: "session_row \<Rightarrow> string option \<Rightarrow> string \<Rightarrow> resource_row option M" where
  "get_session_thread s ws thread_id =
     (if thread_id = primary_thread_id s then returnM None
      else bindM (get_resource thread_id (Some ''session_thread'') (Some (se_id s)) False ws) (\<lambda>found.
        case found of
          None \<Rightarrow> raiseM (HTTPException 404 ''Session thread not found'')
        | Some t \<Rightarrow> returnM (Some t)))"

definition must_get_session_thread :: "session_row \<Rightarrow> string \<Rightarrow> resource_row option M" where
  "must_get_session_thread s thread_id = get_session_thread s (Some (se_workspace_id s)) thread_id"

definition list_session_threads :: "string \<Rightarrow> int \<Rightarrow> string option \<Rightarrow> pdict list_response M" where
  "list_session_threads i limit page = session_scope (
     bindM (must_get_session i) (\<lambda>s.
     bindM (list_resources ''session_thread'' (Some i) 1000 True False None) (\<lambda>threads.
     bindM (mapM (\<lambda>t. session_thread_response s (Some t)) threads) (\<lambda>responses.
     bindM (session_thread_response s None) (\<lambda>primary.
     paginate item_id (primary # responses) (Some limit) page MAX_LIMIT)))))"

definition retrieve_session_thread :: "string \<Rightarrow> string \<Rightarrow> pdict M" where
  "retrieve_session_thread i thread_id = session_scope (
     bindM (must_get_session i) (\<lambda>s.
     bindM (get_session_thread s None thread_id) (session_thread_response s)))"

definition archive_session_thread :: "string \<Rightarrow> string \<Rightarrow> pdict M" where
  "archive_session_thread i thread_id = session_scope (
     bindM (must_get_session i) (\<lambda>s.
     bindM (get_session_thread s None thread_id) (\<lambda>thread.
     case thread of
       None \<Rightarrow>
         bindM nowM (\<lambda>t.
         bindM (update_session_q s (session_patch0\<lparr>sp_status_details := Some
           (dset ''primary_thread_archived_at'' (PStr (isoformat t)) (se_status_details s))\<rparr>)) (\<lambda>s1.
         seqM commitM (session_thread_response s1 None)))
     | Some t \<Rightarrow>
         bindM (archive_resource t) (\<lambda>t1.
         seqM commitM (session_thread_response s (Some t1))))))"

definition list_session_thread_events ::
  "string \<Rightarrow> string \<Rightarrow> int \<Rightarrow> int \<Rightarrow> string option \<Rightarrow> pdict list_response M" where
  "list_session_thread_events i thread_id after_seq limit page = session_scope (
     bindM (must_get_session i) (\<lambda>s.
     seqM (must_get_session_thread s thread_id) (
     bindM (list_events i after_seq 1000 None) (\<lambda>events.
     paginate item_id
       (map event_to_response (filter (\<lambda>e. event_belongs_to_thread e thread_id (primary_thread_id s)) events))
       (Some limit) page MAX_LIMIT))))"

text \<open>The stream of a thread: the thread must exist, then the rounds of \<open>stream_step\<close>.\<close>

definition stream_session_thread_events ::
  "nat \<Rightarrow> (nat \<Rightarrow> database \<Rightarrow> database) \<Rightarrow> string \<Rightarrow> string \<Rightarrow> int \<Rightarrow> string list M" where
  "stream_session_thread_events n others i thread_id after_seq =
     seqM (session_scope (bindM (must_get_session i) (\<lambda>s. must_get_session_thread s thread_id)))
       (stream_rounds n others i (Some thread_id) after_seq)"

end
