(* ===== verification/RunHistory.thy ===== *)
theory RunHistory
  imports Environments
begin

text \<open>
  What a turn reads of a session's events in \<open>app/runtime/runner.py\<close>: the text of a payload, the
  latest message, action result or outcome of the user, and the evaluation of an outcome.
\<close>

section \<open>Texts\<close>

definition text_part :: "pv \<Rightarrow> string option" where
  "text_part block = (case block of
      PDict d \<Rightarrow> (case dget ''text'' d of PStr s \<Rightarrow> Some s | _ \<Rightarrow> None)
    | PStr s \<Rightarrow> Some s
    | _ \<Rightarrow> None)"

definition text_from_payload :: "pdict \<Rightarrow> string" where
  "text_from_payload payload = (case dget ''content'' payload of
      PStr s \<Rightarrow> s
    | PList blocks \<Rightarrow> py_join [CHR 0x0A] (List.map_filter text_part blocks)
    | _ \<Rightarrow> (case por (dget ''text'' payload) (dget ''message'' payload) of PStr s \<Rightarrow> s | _ \<Rightarrow> []))"

section \<open>Outcomes\<close>

definition outcome_objective :: "pdict \<Rightarrow> string" where
  "outcome_objective payload = py_str (por (dget ''description'' payload) (por (dget ''objective'' payload)
     (por (dget ''goal'' payload) (por (dget ''name'' payload) (por (PStr (text_from_payload payload))
       (PStr ''Complete the requested outcome.''))))))"

definition outcome_max_iterations :: "pdict \<Rightarrow> int res" where
  "outcome_max_iterations payload =
     (case py_int (por (dget ''max_iterations'' payload) (por (dget ''max_turns'' payload) (PInt 3))) of
        Inr n \<Rightarrow> Inr (if n < 1 then 1 else if 20 < n then 20 else n)
      | Inl e \<Rightarrow> if e = TypeError \<or> is_value_error e then Inr 3 else Inl e)"

definition outcome_spec :: "pdict \<Rightarrow> pdict res" where
  "outcome_spec payload = bindE (outcome_max_iterations payload) (\<lambda>n.
     Inr [(''objective'', PStr (outcome_objective payload)),
       (''rubric'', por (dget ''rubric'' payload) (por (dget ''criteria'' payload) (dget ''success_criteria'' payload))),
       (''max_iterations'', PInt n)])"

definition outcome_prompt :: "pdict \<Rightarrow> string res" where
  "outcome_prompt payload = bindE (outcome_spec payload) (\<lambda>outcome.
     let objective = py_str (dget ''objective'' outcome); rubric = dget ''rubric'' outcome in
     Inr (if truthy rubric then objective @ [CHR 0x0A] @ ''Rubric: '' @ py_str rubric else objective))"

definition latest_outcome_event :: "event_row list \<Rightarrow> event_row option" where
  "latest_outcome_event history = find (\<lambda>e. ev_type e = ''user.define_outcome'') (rev history)"

definition float_one :: pv where "float_one = PFloat (FFin 1 ''1.0'')"
definition float_zero :: pv where "float_zero = PFloat (FFin 0 ''0.0'')"

definition outcome_evaluation_from_history :: "event_row list \<Rightarrow> string \<Rightarrow> pdict option res" where
  "outcome_evaluation_from_history history final_text = (case latest_outcome_event history of
      None \<Rightarrow> Inr None
    | Some e \<Rightarrow> bindE (outcome_spec (ev_payload e)) (\<lambda>outcome.
        let passed = (py_strip final_text \<noteq> []) in
        Inr (Some [(''outcome'', PDict outcome),
          (''result'', PDict [(''type'', PStr ''deterministic_local_grader''), (''passed'', PBool passed),
             (''score'', if passed then float_one else float_zero),
             (''summary'', PStr (if passed then ''Final response was produced.'' else ''No final response was produced.''))]),
          (''grader_context'', PDict [(''type'', PStr ''local_deterministic''),
             (''max_iterations'', dget ''max_iterations'' outcome), (''rubric'', dget ''rubric'' outcome)])])))"

section \<open>The latest word of the user\<close>

fun latest_text_in :: "event_row list \<Rightarrow> string res" where
  "latest_text_in [] = Inr []"
| "latest_text_in (e # rest) =
     (if ev_type e = ''user.message'' then Inr (text_from_payload (ev_payload e))
      else if ev_type e = ''user.define_outcome'' then outcome_prompt (ev_payload e)
      else latest_text_in rest)"

definition latest_user_text :: "event_row list \<Rightarrow> string res" where
  "latest_user_text history = latest_text_in (rev history)"

definition latest_user_action_event :: "event_row list \<Rightarrow> event_row option" where
  "latest_user_action_event history =
     (case find (\<lambda>e. startswith ''user.'' (ev_type e)) (rev history) of
        None \<Rightarrow> None
      | Some e \<Rightarrow> if ev_type e \<in> {''user.custom_tool_result'', ''user.tool_confirmation'', ''user.tool_result''}
                  then Some e else None)"

definition local_prefix :: string where
  "local_prefix = ''Open Managed Agents local runtime ''"

definition local_action_result_text :: "event_row \<Rightarrow> string" where
  "local_action_result_text e =
     (let text = text_from_payload (ev_payload e) in
      if ev_type e = ''user.custom_tool_result'' then
        local_prefix @ ''received custom tool result: '' @ (if text \<noteq> [] then text else ''custom tool result received'')
      else if ev_type e = ''user.tool_result'' then
        local_prefix @ ''received tool result: '' @ (if text \<noteq> [] then text else ''tool result received'')
      else if dget ''result'' (ev_payload e) = PStr ''deny'' then
        local_prefix @ ''received tool denial: ''
          @ py_str (por (dget ''deny_message'' (ev_payload e)) (PStr ''tool use denied''))
      else local_prefix @ ''received tool confirmation: allow'')"

section \<open>The input of the agents SDK\<close>

definition input_item :: "event_row \<Rightarrow> pdict option" where
  "input_item e =
     (let text = text_from_payload (ev_payload e) in
      if text = [] then None
      else if ev_type e = ''user.message'' then Some [(''role'', PStr ''user''), (''content'', PStr text)]
      else if ev_type e = ''agent.message'' then Some [(''role'', PStr ''assistant''), (''content'', PStr text)]
      else None)"

definition history_to_openai_input :: "event_row list \<Rightarrow> pdict list" where
  "history_to_openai_input history =
     (let items = List.map_filter input_item history in
      if items = [] then [[(''role'', PStr ''user''), (''content'', PStr [])]] else items)"

end
