(* ===== verification/Providers.thy ===== *)
theory Providers
  imports Effects
begin

text \<open>
  \<open>app/runtime/providers.py\<close>: which model provider an agent's model names, with the credentials and
  capabilities configured for it. The process environment is the argument \<open>getenv\<close>.
\<close>

record capabilities =
  cp_chat_completions :: bool
  cp_responses_api :: bool
  cp_streaming :: bool
  cp_tool_calls :: bool
  cp_hosted_tools :: bool
  cp_multimodal_input :: bool
  cp_reasoning_traces :: bool
  cp_unsupported_parameters :: "string list"

record provider_config =
  pc_provider :: string
  pc_model_id :: string
  pc_api_key :: "string option"
  pc_base_url :: "string option"
  pc_use_responses :: bool
  pc_capabilities :: capabilities

definition clean_optional_str :: "pv \<Rightarrow> string option" where
  "clean_optional_str v = (if v = PNone then None
     else (let text = py_strip (py_str v) in if text = [] then None else Some text))"

definition normalize_provider_name :: "string \<Rightarrow> string" where
  "normalize_provider_name v = replace_char CHR ''-'' ''_'' (py_lower (py_strip v))"

definition upper_char :: "char \<Rightarrow> char" where
  "upper_char c = (let n = code_pt c in
     if (97 \<le> n \<and> n \<le> 122) \<or> (224 \<le> n \<and> n \<le> 254 \<and> n \<noteq> 247) then char_of (n - 32) else c)"

text \<open>\<^theory_text>\<open>str.upper\<close>; the sharp s becomes two letters. (The micro sign and y with diaeresis, whose
  capitals are outside Latin-1, are kept.)\<close>

definition py_upper :: "string \<Rightarrow> string" where
  "py_upper s = concat (map (\<lambda>c. if code_pt c = 223 then ''SS'' else [upper_char c]) s)"

definition or_env :: "(string \<Rightarrow> string option) \<Rightarrow> string \<Rightarrow> string \<Rightarrow> string" where
  "or_env getenv direct name = (if direct \<noteq> [] then direct else (case getenv name of Some v \<Rightarrow> v | None \<Rightarrow> []))"

definition openai_provider :: "(string \<Rightarrow> string option) \<Rightarrow> settings \<Rightarrow> pdict" where
  "openai_provider getenv st =
     [(''api_key'', PStr (or_env getenv (st_openai_api_key st) ''OPENAI_API_KEY'')),
      (''api_key_env'', PStr ''OPENAI_API_KEY''),
      (''base_url'', PStr (or_env getenv (st_openai_base_url st) ''OPENAI_BASE_URL'')),
      (''default_model'', PStr (st_oma_default_openai_model st)),
      (''use_responses'', PBool (st_openai_use_responses st)),
      (''capabilities'', PDict
        [(''chat_completions'', PBool True), (''responses_api'', PBool (st_openai_use_responses st)),
         (''streaming'', PBool True), (''tool_calls'', PBool True),
         (''hosted_tools'', PBool (st_openai_use_responses st)), (''multimodal_input'', PBool True),
         (''reasoning_traces'', PBool (st_openai_use_responses st))])]"

definition compatible_defaults :: "string \<Rightarrow> pdict \<Rightarrow> pdict" where
  "compatible_defaults name config =
     dsetdefault ''capabilities'' (PDict
       [(''chat_completions'', PBool True), (''responses_api'', PBool False), (''streaming'', PBool True),
        (''tool_calls'', PBool True), (''hosted_tools'', PBool False), (''multimodal_input'', PBool False),
        (''reasoning_traces'', PBool False),
        (''unsupported_parameters'', PList [PStr ''previous_response_id'', PStr ''conversation_id'', PStr ''prompt''])])
     (dsetdefault ''use_responses'' (PBool False)
     (dsetdefault ''api_key_env'' (PStr (py_upper name @ ''_API_KEY'')) config))"

definition provider_registry :: "(string \<Rightarrow> string option) \<Rightarrow> settings \<Rightarrow> (string \<times> pdict) list" where
  "provider_registry getenv st =
     foldl (\<lambda>registry (raw_name, config).
         let name = normalize_provider_name raw_name in
         if name = [] then registry else dset name (compatible_defaults name config) registry)
       [(''openai'', openai_provider getenv st)] (st_oma_openai_compatible_providers st)"

text \<open>\<^theory_text>\<open>provider/model\<close> or \<^theory_text>\<open>provider:model\<close>, both parts given.\<close>

definition split_provider :: "char \<Rightarrow> string option \<Rightarrow> (string \<times> string) option" where
  "split_provider sep raw = (case raw of None \<Rightarrow> None
     | Some s \<Rightarrow> (case split_once sep s of
         Some (p, m) \<Rightarrow> if p \<noteq> [] \<and> m \<noteq> [] then Some (p, m) else None | None \<Rightarrow> None))"

definition provider_and_model :: "pdict \<Rightarrow> settings \<Rightarrow> string \<times> string option" where
  "provider_and_model model st =
     (let raw_model_id = clean_optional_str (por (dget ''id'' model) (dget ''model'' model));
          raw_provider = clean_optional_str (por (dget ''provider'' model) (por (dget ''provider_id'' model)
            (por (dget ''vendor'' model) (dget ''source'' model)))) in
      case raw_provider of
        Some p \<Rightarrow> (normalize_provider_name p, raw_model_id)
      | None \<Rightarrow>
          (case split_provider CHR ''/'' raw_model_id of
             Some (p, m) \<Rightarrow> (normalize_provider_name p, Some m)
           | None \<Rightarrow>
               (case split_provider CHR '':'' raw_model_id of
                  Some (p, m) \<Rightarrow> (normalize_provider_name p, Some m)
                | None \<Rightarrow> (normalize_provider_name (st_oma_default_model_provider st), raw_model_id))))"

definition resolve_api_key :: "(string \<Rightarrow> string option) \<Rightarrow> pdict \<Rightarrow> string option" where
  "resolve_api_key getenv config = (case clean_optional_str (dget ''api_key'' config) of
      Some k \<Rightarrow> Some k
    | None \<Rightarrow> (case clean_optional_str (dget ''api_key_env'' config) of
        Some name \<Rightarrow> Some (case getenv name of Some v \<Rightarrow> v | None \<Rightarrow> []) | None \<Rightarrow> None))"

definition iter_items :: "pv \<Rightarrow> pv list res" where
  "iter_items v = (case v of
      PList xs \<Rightarrow> Inr xs | PDict d \<Rightarrow> Inr (map (\<lambda>(k, _). PStr k) d)
    | PStr s \<Rightarrow> Inr (map (\<lambda>c. PStr [c]) s) | _ \<Rightarrow> Inl TypeError)"

definition capabilities_of :: "string \<Rightarrow> bool \<Rightarrow> pdict \<Rightarrow> capabilities res" where
  "capabilities_of provider use_responses config =
     bindE (dict_or_empty (dget ''capabilities'' config)) (\<lambda>raw.
     let openai = (provider = ''openai'') in
     bindE (iter_items (por (dget ''unsupported_parameters'' raw) (PList []))) (\<lambda>unsupported.
     Inr \<lparr>cp_chat_completions = truthy (dget_or ''chat_completions'' (PBool True) raw),
       cp_responses_api = truthy (dget_or ''responses_api'' (PBool use_responses) raw),
       cp_streaming = truthy (dget_or ''streaming'' (PBool True) raw),
       cp_tool_calls = truthy (dget_or ''tool_calls'' (PBool True) raw),
       cp_hosted_tools = truthy (dget_or ''hosted_tools'' (PBool (openai \<and> use_responses)) raw),
       cp_multimodal_input = truthy (dget_or ''multimodal_input'' (PBool openai) raw),
       cp_reasoning_traces = truthy (dget_or ''reasoning_traces'' (PBool (openai \<and> use_responses)) raw),
       cp_unsupported_parameters = map py_str unsupported\<rparr>))"

definition resolve_runtime_provider :: "(string \<Rightarrow> string option) \<Rightarrow> pdict \<Rightarrow> settings \<Rightarrow> provider_config res" where
  "resolve_runtime_provider getenv model st =
     (let (provider, explicit_model_id) = provider_and_model model st in
      case map_of (provider_registry getenv st) provider of
        None \<Rightarrow> Inl (ProviderConfigurationError (''Unknown model provider: '' @ provider))
      | Some config \<Rightarrow>
          (let m0 = (case explicit_model_id of Some m \<Rightarrow> m | None \<Rightarrow> str_or_empty (dget ''default_model'' config));
               model_id = (if provider = ''openai'' \<and> startswith ''claude-'' m0
                           then py_str (por (dget ''default_model'' config) (PStr m0)) else m0) in
           bindE (raise_if (model_id = []) (ProviderConfigurationError (''Provider '' @ provider @ '' requires a model id''))) (\<lambda>_.
           let api_key = resolve_api_key getenv config in
           if api_key = None \<or> api_key = Some [] then
             Inl (ProviderConfigurationError (''Provider '' @ provider @ '' requires an API key in ''
               @ py_str (por (dget ''api_key_env'' config) (PStr (py_upper provider @ ''_API_KEY'')))))
           else
             (let use_responses = truthy (dget_or ''use_responses'' (PBool False) config) in
              bindE (capabilities_of provider use_responses config) (\<lambda>cp.
              Inr \<lparr>pc_provider = provider, pc_model_id = model_id, pc_api_key = api_key,
                   pc_base_url = clean_optional_str (dget ''base_url'' config),
                   pc_use_responses = use_responses, pc_capabilities = cp\<rparr>)))))"

definition runtime_provider_configured :: "(string \<Rightarrow> string option) \<Rightarrow> pdict \<Rightarrow> settings \<Rightarrow> bool res" where
  "runtime_provider_configured getenv model st = (case resolve_runtime_provider getenv model st of
      Inr config \<Rightarrow> Inr (pc_api_key config \<noteq> None \<and> pc_api_key config \<noteq> Some [])
    | Inl (ProviderConfigurationError msg) \<Rightarrow>
        if str_contains ''requires an API key'' msg then Inr False else Inl (ProviderConfigurationError msg)
    | Inl e \<Rightarrow> Inl e)"

definition provider_capabilities :: "(string \<Rightarrow> string option) \<Rightarrow> string \<Rightarrow> settings \<Rightarrow> capabilities res" where
  "provider_capabilities getenv provider st =
     (let normalized = normalize_provider_name provider in
      case map_of (provider_registry getenv st) normalized of
        None \<Rightarrow> Inl (ProviderConfigurationError (''Unknown model provider: '' @ provider))
      | Some config \<Rightarrow> capabilities_of normalized (truthy (dget_or ''use_responses'' (PBool False) config)) config)"

end
