(* ===== verification/RunTools.thy ===== *)
theory RunTools
  imports Environments Providers
begin

text \<open>
  The tools of an agent in \<open>app/runtime/runner.py\<close>: which of them ask the user first, and how the
  configured ones become tools of the agents SDK. The constructors of the SDK are the arguments
  \<open>'t sdk_tools\<close>; they may raise. What is filtered is kept with its reason.
\<close>

section \<open>Tool types and permissions\<close>

definition normalized_tool_type :: "pdict \<Rightarrow> string option" where
  "normalized_tool_type spec =
     (let raw = por (dget ''type'' spec) (por (dget ''tool_type'' spec) (dget ''name'' spec)) in
      if raw = PNone then None else Some (normalize_provider_name (py_str raw)))"

definition policy_type :: "pv \<Rightarrow> string option" where
  "policy_type policy = (case policy of
      PDict p \<Rightarrow> if truthy (dget ''type'' p) then Some (py_str (dget ''type'' p)) else None
    | _ \<Rightarrow> None)"

definition permission_policy_type :: "pdict \<Rightarrow> string \<Rightarrow> string" where
  "permission_policy_type config dflt =
     (let candidates = (case dget ''default_config'' config of PDict d \<Rightarrow> [d, config] | _ \<Rightarrow> [config]) in
      case List.map_filter (\<lambda>c. policy_type (dget ''permission_policy'' c)) candidates of
        p # _ \<Rightarrow> p | [] \<Rightarrow> dflt)"

definition always_ask_name :: "pv \<Rightarrow> string option" where
  "always_ask_name config = (case config of
      PDict c \<Rightarrow>
        if dget ''enabled'' c = PBool False then None
        else if permission_policy_type c [] = ''always_ask''
        then Some (if truthy (dget ''name'' c) then py_str (dget ''name'' c) else ''tool'')
        else None
    | _ \<Rightarrow> None)"

definition first_configured_always_ask_tool :: "pdict \<Rightarrow> string option" where
  "first_configured_always_ask_tool tool = (case dget ''configs'' tool of
      PList configs \<Rightarrow> (case List.map_filter always_ask_name configs of n # _ \<Rightarrow> Some n | [] \<Rightarrow> None)
    | _ \<Rightarrow> None)"

definition redact_key :: "string \<Rightarrow> pdict \<Rightarrow> pdict" where
  "redact_key k d = (if has_key k d then dset k (PStr ''redacted'') d else d)"

definition public_tool_summary :: "pdict \<Rightarrow> pdict" where
  "public_tool_summary tool = redact_key ''headers'' (redact_key ''authorization'' tool)"

definition confirmation :: "string \<Rightarrow> string \<Rightarrow> pdict \<Rightarrow> pdict" where
  "confirmation event_type name tool = [(''event_type'', PStr event_type), (''name'', PStr name),
     (''tool'', PDict (public_tool_summary tool))]"

definition confirmation_tool :: "pv \<Rightarrow> pdict option" where
  "confirmation_tool v = (case v of
      PDict tool \<Rightarrow>
        (let tool_type = normalized_tool_type tool in
         if tool_type = Some ''custom'' then None
         else if tool_type = Some ''mcp_toolset'' \<and> permission_policy_type tool ''always_ask'' = ''always_ask''
         then Some (confirmation ''agent.mcp_tool_use''
           (py_str (por (dget ''mcp_server_name'' tool) (por (dget ''name'' tool) (PStr ''mcp_tool'')))) tool)
         else if tool_type = Some ''agent_toolset_20260401'' then
           (case first_configured_always_ask_tool tool of
              Some n \<Rightarrow> Some (confirmation ''agent.tool_use'' n tool)
            | None \<Rightarrow> if permission_policy_type tool ''always_allow'' = ''always_ask''
                      then Some (confirmation ''agent.tool_use'' ''bash'' tool) else None)
         else None)
    | _ \<Rightarrow> None)"

definition first_confirmation_tool :: "pv list \<Rightarrow> pdict option" where
  "first_confirmation_tool tools =
     (case List.map_filter confirmation_tool tools of c # _ \<Rightarrow> Some c | [] \<Rightarrow> None)"

definition custom_tool :: "pv \<Rightarrow> pdict option" where
  "custom_tool v = (case v of
      PDict tool \<Rightarrow> if normalized_tool_type tool = Some ''custom'' then Some tool else None
    | _ \<Rightarrow> None)"

definition first_custom_tool :: "pv list \<Rightarrow> pdict option" where
  "first_custom_tool tools = (case List.map_filter custom_tool tools of t # _ \<Rightarrow> Some t | [] \<Rightarrow> None)"

section \<open>Tools of the SDK\<close>

record 't sdk_tools =
  sk_web_search :: "pdict \<Rightarrow> 't res"
  sk_file_search :: "pdict \<Rightarrow> 't res"
  sk_code_interpreter :: "pdict \<Rightarrow> 't res"
  sk_hosted_mcp :: "pdict \<Rightarrow> 't res"
  sk_image_generation :: "pdict \<Rightarrow> 't res"

text \<open>A spec maps to a tool, to the reason it is refused, or to nothing.\<close>

datatype 't mapped = Unmapped | Refused string | Mapped 't

definition made :: "'t res \<Rightarrow> 't mapped res" where
  "made r = bindE r (\<lambda>t. Inr (Mapped t))"

definition tool_specs :: "pv list \<Rightarrow> pv list \<Rightarrow> pdict list" where
  "tool_specs tools mcp_servers =
     List.map_filter (\<lambda>t. case t of PDict d \<Rightarrow> Some d | _ \<Rightarrow> None) tools
     @ List.map_filter (\<lambda>s. case s of PDict d \<Rightarrow> Some (dupdate [(''type'', PStr ''mcp'')] d) | _ \<Rightarrow> None) mcp_servers"

definition HOSTED_TOOL_TYPES :: "string list" where
  "HOSTED_TOOL_TYPES = [''web_search'', ''web_search_preview'', ''file_search'', ''code_interpreter'',
     ''hosted_mcp'', ''mcp'', ''image_generation'']"

definition is_hosted_tool_type :: "string \<Rightarrow> bool" where
  "is_hosted_tool_type tool_type = (tool_type \<in> set HOSTED_TOOL_TYPES)"

definition spec_label :: "pdict \<Rightarrow> pv" where
  "spec_label spec = por (dget ''server_label'' spec) (por (dget ''label'' spec)
     (por (dget ''name'' spec) (dget ''id'' spec)))"

definition tool_summary :: "pdict \<Rightarrow> nat \<Rightarrow> string option \<Rightarrow> pdict" where
  "tool_summary spec index tool_type =
     [(''index'', PInt (int index)),
      (''type'', PStr (case tool_type of Some t \<Rightarrow> if t \<noteq> [] then t else ''unknown'' | None \<Rightarrow> ''unknown''))]
     @ (if truthy (spec_label spec) then [(''label'', PStr (py_str (spec_label spec)))] else [])
     @ (if truthy (dget ''connector_id'' spec) then [(''connector_id'', PStr (py_str (dget ''connector_id'' spec)))] else [])"

definition keep_key :: "string \<Rightarrow> pdict \<Rightarrow> pdict" where
  "keep_key k d = (if has_key k d then [(k, dget k d)] else [])"

definition keep_dict :: "string \<Rightarrow> pdict \<Rightarrow> pdict" where
  "keep_dict k d = (if is_dict (dget k d) then [(k, dget k d)] else [])"

definition keep_bool :: "string \<Rightarrow> pdict \<Rightarrow> pdict" where
  "keep_bool k d = (if has_key k d then [(k, PBool (truthy (dget k d)))] else [])"

definition MCP_CONFIG_KEYS :: "string list" where
  "MCP_CONFIG_KEYS = [''server_url'', ''connector_id'', ''authorization'', ''headers'', ''allowed_tools'',
     ''require_approval'', ''server_description'', ''defer_loading'', ''tunnel_id'']"

text \<open>\<open>Inl\<close> is the reason.\<close>

definition mcp_tool_config :: "pdict \<Rightarrow> string + pdict" where
  "mcp_tool_config spec =
     (if \<not> truthy (spec_label spec) then Inl ''missing_server_label''
      else
        (let config = [(''type'', PStr ''mcp''), (''server_label'', PStr (py_str (spec_label spec)))]
               @ concat (map (\<lambda>k. if dget k spec \<noteq> PNone then [(k, dget k spec)] else []) MCP_CONFIG_KEYS);
             config1 = (if \<not> has_key ''server_url'' config \<and> truthy (dget ''url'' spec)
                        then dset ''server_url'' (dget ''url'' spec) config else config) in
         if \<not> has_key ''server_url'' config1 \<and> \<not> has_key ''connector_id'' config1
         then Inl ''missing_server_url_or_connector_id'' else Inr config1))"

definition IMAGE_KEYS :: "string list" where
  "IMAGE_KEYS = [''model'', ''quality'', ''size'', ''output_format'', ''output_compression'', ''background'',
     ''moderation'', ''partial_images'', ''input_fidelity'', ''action'']"

definition map_file_search :: "'t sdk_tools \<Rightarrow> pdict \<Rightarrow> 't mapped res" where
  "map_file_search sdk spec =
     (let raw = por (dget ''vector_store_ids'' spec) (dget ''vector_store_id'' spec) in
      case (case raw of PStr s \<Rightarrow> PList [PStr s] | v \<Rightarrow> v) of
        PList ids \<Rightarrow>
          if ids = [] then Inr (Refused ''missing_vector_store_ids'')
          else
            bindE (if dget ''max_num_results'' spec \<noteq> PNone
                   then bindE (py_int (dget ''max_num_results'' spec)) (\<lambda>n. Inr [(''max_num_results'', PInt n)])
                   else Inr []) (\<lambda>limit.
            made (sk_file_search sdk ([(''vector_store_ids'', PList (map (\<lambda>i. PStr (py_str i)) ids))] @ limit
              @ keep_bool ''include_search_results'' spec @ keep_dict ''ranking_options'' spec
              @ keep_dict ''filters'' spec)))
      | _ \<Rightarrow> Inr (Refused ''missing_vector_store_ids''))"

definition map_hosted_tool :: "'t sdk_tools \<Rightarrow> string \<Rightarrow> pdict \<Rightarrow> 't mapped res" where
  "map_hosted_tool sdk tool_type spec =
     (if tool_type \<in> {''web_search'', ''web_search_preview''} then
        (let context_size = por (dget ''search_context_size'' spec) (dget ''context_size'' spec) in
         bindE (in_set context_size [PStr ''low'', PStr ''medium'', PStr ''high'']) (\<lambda>known.
         made (sk_web_search sdk ((if known then [(''search_context_size'', context_size)] else [])
           @ keep_dict ''user_location'' spec @ keep_dict ''filters'' spec
           @ keep_bool ''external_web_access'' spec))))
      else if tool_type = ''file_search'' then map_file_search sdk spec
      else if tool_type = ''code_interpreter'' then
        made (sk_code_interpreter sdk [(''type'', PStr ''code_interpreter''),
          (''container'', por (dget ''container'' spec) (PDict [(''type'', PStr ''auto'')]))])
      else if tool_type \<in> {''hosted_mcp'', ''mcp''} then
        (case mcp_tool_config spec of
           Inl why \<Rightarrow> Inr (Refused why)
         | Inr config \<Rightarrow> made (sk_hosted_mcp sdk config))
      else if tool_type = ''image_generation'' then
        made (sk_image_generation sdk ((''type'', PStr ''image_generation'')
          # concat (map (\<lambda>k. keep_key k spec) IMAGE_KEYS)))
      else Inr Unmapped)"

text \<open>The three lists of the result: the tools, the summaries of them and of the filtered specs.\<close>

definition sdk_tool_step ::
  "'t sdk_tools \<Rightarrow> capabilities \<Rightarrow> nat \<times> pdict \<Rightarrow> 't list \<times> pdict list \<times> pdict list \<Rightarrow>
    ('t list \<times> pdict list \<times> pdict list) res" where
  "sdk_tool_step sdk cp entry acc =
     (let (index, spec) = entry; (ts, enabled, filtered) = acc;
          summary = tool_summary spec index (normalized_tool_type spec);
          refuse = (\<lambda>why. Inr (ts, enabled, filtered @ [dset ''reason'' (PStr why) summary])) in
      case normalized_tool_type spec of
        None \<Rightarrow> refuse ''missing_tool_type''
      | Some tool_type \<Rightarrow>
          if \<not> cp_hosted_tools cp \<and> is_hosted_tool_type tool_type
          then refuse ''provider_does_not_support_hosted_tools''
          else bindE (map_hosted_tool sdk tool_type spec) (\<lambda>m.
            case m of
              Unmapped \<Rightarrow> refuse ''unsupported_tool_type''
            | Refused why \<Rightarrow> refuse why
            | Mapped t \<Rightarrow> Inr (ts @ [t], enabled @ [summary], filtered)))"

definition sdk_tools_for_provider ::
  "'t sdk_tools \<Rightarrow> pv list \<Rightarrow> pv list \<Rightarrow> capabilities \<Rightarrow> ('t list \<times> pdict list \<times> pdict list) res" where
  "sdk_tools_for_provider sdk tools mcp_servers cp =
     (let specs = tool_specs tools mcp_servers in
      foldE (sdk_tool_step sdk cp) (zip [0..<length specs] specs) ([], [], []))"

section \<open>Model settings\<close>

definition sub_settings :: "string \<Rightarrow> pdict \<Rightarrow> pdict" where
  "sub_settings k d = (case dget k d of PDict s \<Rightarrow> s | _ \<Rightarrow> [])"

definition unsupported_settings :: "capabilities \<Rightarrow> string list" where
  "unsupported_settings cp = cp_unsupported_parameters cp
     @ (if cp_reasoning_traces cp then [] else [''reasoning''])
     @ (if cp_responses_api cp then []
        else [''store'', ''prompt_cache_retention'', ''response_include'', ''context_management''])"

text \<open>\<open>allowed\<close> and \<open>build\<close> are the annotations and the constructor of \<^theory_text>\<open>ModelSettings\<close>.\<close>

definition model_settings_for_provider ::
  "string list \<Rightarrow> (pdict \<Rightarrow> 'ms res) \<Rightarrow> pdict \<Rightarrow> pdict \<Rightarrow> capabilities \<Rightarrow> ('ms \<times> pdict) res" where
  "model_settings_for_provider allowed build runtime model cp =
     (let raw = dupdate (dupdate [] (sub_settings ''settings'' model)) (sub_settings ''model_settings'' runtime);
          keep = (\<lambda>(k, _). k \<in> set allowed \<and> k \<notin> set (unsupported_settings cp)) in
      if raw = [] then bindE (build []) (\<lambda>ms. Inr (ms, []))
      else bindE (build (filter keep raw)) (\<lambda>ms. Inr (ms, filter (\<lambda>x. \<not> keep x) raw)))"

section \<open>What is passed on\<close>

text \<open>Every spec is accounted for: it is enabled, with a tool made for it, or filtered with a reason.\<close>

lemma tool_step_counts:
  assumes "sdk_tool_step sdk cp entry (ts, es, fs) = Inr (ts', es', fs')"
  shows "(length ts' = Suc (length ts) \<and> length es' = Suc (length es) \<and> fs' = fs) \<or>
    (ts' = ts \<and> es' = es \<and> length fs' = Suc (length fs))"
proof (cases "normalized_tool_type (snd entry)")
  case None
  with assms show ?thesis by (cases entry) (auto simp: sdk_tool_step_def Let_def)
next
  case (Some ty)
  show ?thesis
  proof (cases "map_hosted_tool sdk ty (snd entry)")
    case (Inl e)
    with assms Some show ?thesis by (cases entry) (auto simp: sdk_tool_step_def Let_def split: if_splits)
  next
    case (Inr m)
    with assms Some show ?thesis
      by (cases entry; cases m) (auto simp: sdk_tool_step_def Let_def split: if_splits)
  qed
qed

lemma tools_counted:
  "foldE (sdk_tool_step sdk cp) entries (ts, es, fs) = Inr (ts', es', fs') \<Longrightarrow> length ts = length es \<Longrightarrow>
   length ts' = length es' \<and> length es' + length fs' = length es + length fs + length entries"
proof (induction entries arbitrary: ts es fs)
  case (Cons x xs)
  from Cons.prems(1) obtain ts1 es1 fs1 where step: "sdk_tool_step sdk cp x (ts, es, fs) = Inr (ts1, es1, fs1)"
    and rest: "foldE (sdk_tool_step sdk cp) xs (ts1, es1, fs1) = Inr (ts', es', fs')"
    by (auto simp: res_simps)
  from Cons.IH [OF rest] tool_step_counts [OF step] Cons.prems(2) show ?case by auto
qed simp

end
