(* ===== verification/RunStream.thy ===== *)
theory RunStream
  imports Json
begin

text \<open>
  The events of an SDK run as events of the session, in \<open>app/runtime/runner.py\<close>. An object of the SDK
  is what the code reads of it: its attributes, what \<open>model_dump\<close> returns if it has one, and its two
  texts. Such objects are true values. (A list of objects where a JSON value is stored is refused by
  the JSON encoder with a \<open>TypeError\<close>, which is raised here already.)
\<close>

datatype sdk_val =
    SData pv
  | SList "sdk_val list"
  | SObj "(string \<times> sdk_val) list" "pv option" string string

text \<open>The texts of an object are its \<^theory_text>\<open>str\<close> and its \<^theory_text>\<open>repr\<close>.\<close>

fun sdk_repr :: "sdk_val \<Rightarrow> string" where
  "sdk_repr (SData v) = py_repr v"
| "sdk_repr (SList xs) = ''['' @ py_join '', '' (map sdk_repr xs) @ '']''"
| "sdk_repr (SObj _ _ _ r) = r"

definition sdk_str :: "sdk_val \<Rightarrow> string" where
  "sdk_str v = (case v of SData d \<Rightarrow> py_str d | SObj _ _ s _ \<Rightarrow> s | SList _ \<Rightarrow> sdk_repr v)"

definition sdk_truthy :: "sdk_val \<Rightarrow> bool" where
  "sdk_truthy v = (case v of SData d \<Rightarrow> truthy d | SList xs \<Rightarrow> xs \<noteq> [] | SObj _ _ _ _ \<Rightarrow> True)"

definition sdk_or :: "sdk_val \<Rightarrow> sdk_val \<Rightarrow> sdk_val" where
  "sdk_or v w = (if sdk_truthy v then v else w)"

definition sdk_list :: "sdk_val \<Rightarrow> sdk_val list option" where
  "sdk_list v = (case v of SData (PList xs) \<Rightarrow> Some (map SData xs) | SList xs \<Rightarrow> Some xs | _ \<Rightarrow> None)"

definition raw_get :: "sdk_val \<Rightarrow> string \<Rightarrow> sdk_val" where
  "raw_get v k = (case v of
      SData (PDict d) \<Rightarrow> SData (dget k d)
    | SObj attrs _ _ _ \<Rightarrow> (case map_of attrs k of Some x \<Rightarrow> x | None \<Rightarrow> SData PNone)
    | _ \<Rightarrow> SData PNone)"

definition jsonish :: "sdk_val \<Rightarrow> pv res" where
  "jsonish v = (case v of
      SData d \<Rightarrow> Inr d
    | SList _ \<Rightarrow> Inl TypeError
    | SObj _ (Some dump) _ _ \<Rightarrow> Inr dump
    | SObj _ None _ r \<Rightarrow> Inr (PStr r))"

definition first_truthy :: "sdk_val \<Rightarrow> string list \<Rightarrow> string option" where
  "first_truthy raw keys = map_option (\<lambda>k. sdk_str (raw_get raw k)) (find (\<lambda>k. sdk_truthy (raw_get raw k)) keys)"

definition raw_item_name :: "sdk_val \<Rightarrow> string \<Rightarrow> string" where
  "raw_item_name raw fallback =
     (case first_truthy raw [''name'', ''tool_name'', ''server_label'', ''type''] of Some s \<Rightarrow> s | None \<Rightarrow> fallback)"

definition raw_item_id :: "sdk_val \<Rightarrow> string option" where
  "raw_item_id raw = first_truthy raw [''call_id'', ''id'', ''tool_call_id'']"

definition item_text :: "sdk_val \<Rightarrow> sdk_val" where
  "item_text v = sdk_or (raw_get v ''text'') (raw_get v ''output_text'')"

definition text_from_raw_openai_item :: "sdk_val \<Rightarrow> string" where
  "text_from_raw_openai_item raw =
     (case sdk_list (raw_get raw ''content'') of
        None \<Rightarrow> if sdk_truthy (item_text raw) then sdk_str (item_text raw) else []
      | Some blocks \<Rightarrow> py_join [CHR 0x0A] (map (\<lambda>b. sdk_str (item_text b)) (filter (\<lambda>b. sdk_truthy (item_text b)) blocks)))"

definition tool_input_from_raw_item :: "sdk_val \<Rightarrow> pv res" where
  "tool_input_from_raw_item raw =
     (let arguments = raw_get raw ''arguments'' in
      case arguments of
        SData (PStr s) \<Rightarrow> Inr (case loads s of Some v \<Rightarrow> v | None \<Rightarrow> PStr s)
      | SData PNone \<Rightarrow> jsonish raw
      | _ \<Rightarrow> jsonish arguments)"

fun sorted_keys :: "pv \<Rightarrow> pv" where
  "sorted_keys (PList xs) = PList (map sorted_keys xs)"
| "sorted_keys (PDict d) = PDict (sort_key fst (map (\<lambda>(k, v). (k, sorted_keys v)) d))"
| "sorted_keys v = v"

record stream_item =
  it_raw :: sdk_val
  it_output :: sdk_val

definition tool_output_from_item :: "stream_item option \<Rightarrow> sdk_val \<Rightarrow> string res" where
  "tool_output_from_item item raw =
     (let out0 = (case item of Some i \<Rightarrow> it_output i | None \<Rightarrow> SData PNone);
          out = (if out0 = SData PNone then sdk_or (raw_get raw ''output'') (raw_get raw ''content'') else out0) in
      case out of
        SData (PStr s) \<Rightarrow> Inr s
      | _ \<Rightarrow> bindE (jsonish out) (\<lambda>v. Inr (dumps_compact (sorted_keys v))))"

text \<open>An event of the stream; \<open>sv_agent\<close> is the name of the new agent.\<close>

record sdk_event =
  sv_type :: string
  sv_name :: string
  sv_agent :: sdk_val
  sv_item :: "stream_item option"

definition raw_stream_item :: "stream_item option \<Rightarrow> sdk_val" where
  "raw_stream_item item = (case item of None \<Rightarrow> SData (PDict []) | Some i \<Rightarrow> it_raw i)"

definition sdk_source :: "string \<times> pv" where
  "sdk_source = (''source'', PStr ''openai_agents_sdk'')"

definition json_block :: "pv \<Rightarrow> string \<times> pv" where
  "json_block v = (''content'', PList [PDict [(''type'', PStr ''json''), (''json'', v)]])"

definition text_block :: "string \<Rightarrow> string \<times> pv" where
  "text_block s = (''content'', PList [PDict [(''type'', PStr ''text''), (''text'', PStr s)]])"

definition tool_fields :: "string \<Rightarrow> sdk_val \<Rightarrow> string \<Rightarrow> pdict \<Rightarrow> pdict" where
  "tool_fields ty raw fallback mid = [(''type'', PStr ty), (''name'', PStr (raw_item_name raw fallback))]
     @ mid @ [(''tool_use_id'', pstr_opt (raw_item_id raw))]"

definition use_event :: "string \<Rightarrow> sdk_val \<Rightarrow> string \<Rightarrow> pv \<Rightarrow> pdict" where
  "use_event ty raw fallback inp = tool_fields ty raw fallback [(''input'', inp)]"

definition result_event :: "string \<Rightarrow> sdk_val \<Rightarrow> string \<Rightarrow> string \<times> pv \<Rightarrow> pdict" where
  "result_event ty raw fallback content = tool_fields ty raw fallback [] @ [content, sdk_source]"

definition map_openai_stream_event :: "sdk_event \<Rightarrow> pdict option res" where
  "map_openai_stream_event event =
     (if sv_type event = ''agent_updated_stream_event'' then
        Inr (Some [(''type'', PStr ''agent.thinking''),
          json_block (PDict [(''event'', PStr ''agent_updated''),
            (''name'', PStr (if sdk_truthy (sv_agent event) then sdk_str (sv_agent event) else ''agent''))]), sdk_source])
      else if sv_type event \<noteq> ''run_item_stream_event'' then Inr None
      else
        (let name = sv_name event; raw = raw_stream_item (sv_item event); text = text_from_raw_openai_item raw in
         if name = ''message_output_created'' then
           Inr (if text = [] then None else Some [(''type'', PStr ''agent.message''), text_block text, sdk_source])
         else if name = ''tool_called'' then
           bindE (tool_input_from_raw_item raw) (\<lambda>inp.
           Inr (Some (use_event ''agent.tool_use'' raw ''tool'' inp @ [sdk_source])))
         else if name = ''tool_search_called'' then
           bindE (jsonish raw) (\<lambda>inp. Inr (Some (use_event ''agent.tool_use'' raw ''tool_search'' inp @ [sdk_source])))
         else if name = ''mcp_approval_requested'' then
           bindE (jsonish raw) (\<lambda>inp. Inr (Some (use_event ''agent.mcp_tool_use'' raw ''mcp_tool'' inp
             @ [(''permission_policy'', PDict [(''type'', PStr ''always_ask'')]),
                (''requires_confirmation'', PBool True), sdk_source])))
         else if name = ''tool_output'' then
           bindE (tool_output_from_item (sv_item event) raw) (\<lambda>out.
           Inr (Some (result_event ''agent.tool_result'' raw ''tool'' (text_block out))))
         else if name = ''tool_search_output_created'' then
           bindE (jsonish raw) (\<lambda>j. Inr (Some (result_event ''agent.tool_result'' raw ''tool_search'' (json_block j))))
         else if name = ''mcp_approval_response'' then
           bindE (jsonish raw) (\<lambda>j. Inr (Some (result_event ''agent.mcp_tool_result'' raw ''mcp_tool'' (json_block j))))
         else if name = ''mcp_list_tools'' then
           bindE (jsonish raw) (\<lambda>j. Inr (Some (result_event ''agent.mcp_tool_result'' raw ''mcp'' (json_block j))))
         else if name = ''reasoning_item_created'' then
           bindE (jsonish raw) (\<lambda>j. Inr (Some [(''type'', PStr ''agent.thinking''), json_block j, sdk_source]))
         else if name = ''handoff_requested'' then
           bindE (jsonish raw) (\<lambda>j. Inr (Some [(''type'', PStr ''agent.thinking''),
             json_block (PDict [(''event'', PStr ''handoff_requested''), (''item'', j)]), sdk_source]))
         else if name \<in> {''handoff_occured'', ''handoff_occurred''} then
           bindE (jsonish raw) (\<lambda>j. Inr (Some [(''type'', PStr ''agent.thinking''),
             json_block (PDict [(''event'', PStr ''handoff_occurred''), (''item'', j)]), sdk_source]))
         else Inr None))"

text \<open>What \<open>_safe_state\<close> and \<open>_safe_usage\<close> read: \<open>to_json\<close>, \<open>model_dump\<close> or the \<^theory_text>\<open>repr\<close>.\<close>

datatype sdk_state = StateJson pv | StateDump pv | StateRepr string

definition safe_state :: "sdk_state res \<Rightarrow> pv" where
  "safe_state r = (case r of
      Inl _ \<Rightarrow> PNone
    | Inr (StateJson payload) \<Rightarrow> PDict [(''format'', PStr ''openai_agents_sdk_run_state''),
        (''schema_version'', case payload of PDict d \<Rightarrow> dget ''$schemaVersion'' d | _ \<Rightarrow> PNone), (''payload'', payload)]
    | Inr (StateDump v) \<Rightarrow> v
    | Inr (StateRepr s) \<Rightarrow> PDict [(''repr'', PStr s)])"

definition safe_usage :: "sdk_val \<Rightarrow> pv" where
  "safe_usage usage = (case usage of
      SData PNone \<Rightarrow> PNone
    | SObj _ (Some dump) _ _ \<Rightarrow> dump
    | _ \<Rightarrow> PDict [(''repr'', PStr (sdk_repr usage))])"

section \<open>Which mapped events ask the user\<close>

lemma mapped_confirmation:
  assumes "map_openai_stream_event event = Inr (Some e)" "truthy (dget ''requires_confirmation'' e)"
  shows "dget ''type'' e = PStr ''agent.mcp_tool_use''"
  using assms
  by (auto simp: map_openai_stream_event_def Let_def res_simps use_event_def result_event_def tool_fields_def
      json_block_def text_block_def sdk_source_def split: if_splits)

lemma mapped_typed:
  assumes "map_openai_stream_event event = Inr (Some e)"
  shows "\<exists>t. dget ''type'' e = PStr t"
  using assms
  by (auto simp: map_openai_stream_event_def Let_def res_simps use_event_def result_event_def tool_fields_def
      json_block_def text_block_def sdk_source_def split: if_splits)

end
