(* ===== verification/RunContext.thy ===== *)
theory RunContext
  imports Sessions
begin

text \<open>
  The context of a turn in \<open>app/runtime/runner.py\<close>: the agent version with the session's overlay, the
  memory of the attached stores, and which MCP servers a credential of the session's vaults fits.
  A server without one is reported in the session's events, and the turn goes on.
\<close>

definition MAX_MEMORY_CONTEXT_STORES :: nat where "MAX_MEMORY_CONTEXT_STORES = 8"
definition MAX_MEMORY_CONTEXT_ITEMS_PER_STORE :: nat where "MAX_MEMORY_CONTEXT_ITEMS_PER_STORE = 20"
definition MAX_MEMORY_CONTEXT_CONTENT_CHARS :: nat where "MAX_MEMORY_CONTEXT_CONTENT_CHARS = 1000"

section \<open>The effective agent version\<close>

definition overlaid :: "string \<Rightarrow> pdict \<Rightarrow> pv list \<Rightarrow> pv list" where
  "overlaid k overlay dflt = (case dget_or k (PList dflt) overlay of PList xs \<Rightarrow> xs | _ \<Rightarrow> dflt)"

definition effective_agent_version :: "agent_version_row \<Rightarrow> pdict \<Rightarrow> agent_version_row" where
  "effective_agent_version v details =
     (let overlay = (case dget ''agent'' details of PDict d \<Rightarrow> d | _ \<Rightarrow> []) in
      v\<lparr>av_tools := overlaid ''tools'' overlay (av_tools v),
        av_mcp_servers := overlaid ''mcp_servers'' overlay (av_mcp_servers v)\<rparr>)"

section \<open>Memory\<close>

definition memory_context_item :: "resource_row \<Rightarrow> pdict" where
  "memory_context_item memory =
     (let data = mr_data memory; content = str_or_empty (dget ''content'' data) in
      [(''memory_id'', PStr (mr_id memory)), (''path'', dget ''path'' data), (''path_key'', dget ''path_key'' data),
       (''version'', dget ''version'' data),
       (''content'', PStr (if MAX_MEMORY_CONTEXT_CONTENT_CHARS < length content
          then take MAX_MEMORY_CONTEXT_CONTENT_CHARS content @ ''...'' else content))])"

definition memory_store_context :: "session_row \<Rightarrow> resource_row \<Rightarrow> pv list M" where
  "memory_store_context s r =
     (let data = mr_data r; store = str_or_empty (dget ''memory_store_id'' data) in
      if store = [] then returnM []
      else bindM (list_resources ''memory'' (Some store) MAX_MEMORY_CONTEXT_ITEMS_PER_STORE True False
          (Some (se_workspace_id s))) (\<lambda>memories.
        returnM [PDict [(''memory_store_id'', PStr store), (''name'', dget ''name'' data),
          (''mount_path'', dget ''mount_path'' data), (''access'', dget ''access'' data),
          (''instructions'', dget ''instructions'' data),
          (''memories'', PList (map (\<lambda>m. PDict (memory_context_item m))
             (filter (\<lambda>m. \<not> truthy (dget ''redacted'' (mr_data m))) memories)))]]))"

section \<open>Credentials of MCP servers\<close>

definition normalized_mcp_url :: "pv \<Rightarrow> string" where
  "normalized_mcp_url v = rstrip_char CHR ''/'' (py_strip (str_or_empty v))"

text \<open>The first credential of an URL wins.\<close>

definition credential_auth :: "resource_row \<Rightarrow> pdict option" where
  "credential_auth credential = (case por (dget ''auth'' (mr_data credential)) (PDict []) of
      PDict auth \<Rightarrow> Some auth | _ \<Rightarrow> None)"

definition credential_url :: "resource_row \<Rightarrow> string" where
  "credential_url credential = (case credential_auth credential of
      Some auth \<Rightarrow> normalized_mcp_url (dget ''mcp_server_url'' auth) | None \<Rightarrow> [])"

definition credential_for :: "resource_row list \<Rightarrow> string \<Rightarrow> resource_row option" where
  "credential_for credentials url = (if url = [] then None else find (\<lambda>c. credential_url c = url) credentials)"

definition resolve_mcp_server :: "resource_row list \<Rightarrow> pdict \<Rightarrow> pdict + pdict" where
  "resolve_mcp_server credentials server =
     (let server_url = str_or_empty (dget ''url'' server); name = str_or_empty (dget ''name'' server) in
      case credential_for credentials (normalized_mcp_url (PStr server_url)) of
        None \<Rightarrow> Inl [(''type'', PStr ''mcp_auth_missing''), (''mcp_server_name'', PStr name),
          (''mcp_server_url'', PStr server_url)]
      | Some credential \<Rightarrow> Inr [(''type'', PStr ''mcp_auth''), (''status'', PStr ''matched''),
          (''mcp_server_name'', PStr name), (''mcp_server_url'', PStr server_url),
          (''credential_id'', PStr (mr_id credential)), (''vault_id'', pstr_opt (mr_parent_id credential)),
          (''auth_type'', PStr (py_str (por (dget ''type'' (case credential_auth credential of Some a \<Rightarrow> a | None \<Rightarrow> []))
             (PStr ''mcp_oauth''))))])"

definition mcp_auth_result :: "resource_row list \<Rightarrow> pdict list \<Rightarrow> pdict" where
  "mcp_auth_result credentials servers =
     (let resolved = map (resolve_mcp_server credentials) servers in
      [(''servers'', PList (map (\<lambda>r. PDict (case r of
          Inl error \<Rightarrow> error @ [(''status'', PStr ''missing''), (''credential_id'', PNone), (''vault_id'', PNone)]
        | Inr m \<Rightarrow> m)) resolved)),
       (''errors'', PList (List.map_filter (\<lambda>r. case r of Inl error \<Rightarrow> Some (PDict error) | Inr _ \<Rightarrow> None) resolved))])"

definition mcp_auth_context_for_session :: "session_row \<Rightarrow> agent_version_row \<Rightarrow> pdict M" where
  "mcp_auth_context_for_session s v =
     (let servers = List.map_filter (\<lambda>x. case x of PDict d \<Rightarrow> Some d | _ \<Rightarrow> None) (av_mcp_servers v) in
      if servers = [] then returnM [(''servers'', PList []), (''errors'', PList [])]
      else
        bindM (liftE (iter_list (por (dget ''vault_ids'' (se_status_details s)) (PList [])))) (\<lambda>vaults.
        bindM (mapM (\<lambda>i. list_resources ''credential'' (Some (py_str i)) 1000 False False
          (Some (se_workspace_id s))) vaults) (\<lambda>found.
        returnM (mcp_auth_result (concat found) servers))))"

definition runtime_context_for_session :: "session_row \<Rightarrow> agent_version_row \<Rightarrow> pdict M" where
  "runtime_context_for_session s v =
     bindM (list_resources ''session_resource'' (Some (se_id s)) 1000 True False (Some (se_workspace_id s))) (\<lambda>rows.
     bindM (mapM (memory_store_context s) (take MAX_MEMORY_CONTEXT_STORES
       (filter (\<lambda>r. dget ''type'' (mr_data r) = PStr ''memory_store'') rows))) (\<lambda>stores.
     bindM (mcp_auth_context_for_session s v) (\<lambda>mcp.
     returnM [(''memory_stores'', PList (concat stores)), (''mcp_auth'', PDict mcp)])))"

section \<open>What the results of a turn show of it\<close>

definition memory_context_for_run_state :: "pdict option \<Rightarrow> pdict" where
  "memory_context_for_run_state ctx = [(''memory_stores'', (case ctx of
      Some c \<Rightarrow> (case dget ''memory_stores'' c of PList xs \<Rightarrow> PList xs | _ \<Rightarrow> PList [])
    | None \<Rightarrow> PList []))]"

definition list_field :: "string \<Rightarrow> pdict \<Rightarrow> pv list" where
  "list_field k d = (case dget k d of PList xs \<Rightarrow> xs | _ \<Rightarrow> [])"

definition mcp_context_for_run_state :: "pdict option \<Rightarrow> pdict" where
  "mcp_context_for_run_state ctx =
     (let mcp = (case ctx of Some c \<Rightarrow> (case dget ''mcp_auth'' c of PDict d \<Rightarrow> d | _ \<Rightarrow> []) | None \<Rightarrow> []) in
      [(''servers'', PList (list_field ''servers'' mcp)), (''errors'', PList (list_field ''errors'' mcp))])"

definition memory_line :: "pv \<Rightarrow> string res" where
  "memory_line memory = (case memory of
      PDict m \<Rightarrow> Inr (''  - '' @ py_str (por (dget ''path'' m) (por (dget ''path_key'' m) (dget ''memory_id'' m)))
        @ '': '' @ str_or_empty (dget ''content'' m))
    | _ \<Rightarrow> Inl AttributeError)"

definition store_lines :: "pv \<Rightarrow> string list res" where
  "store_lines store = (case store of
      PDict d \<Rightarrow>
        bindE (iter_list (por (dget ''memories'' d) (PList []))) (\<lambda>memories.
        bindE (mapE memory_line memories) (\<lambda>lines.
        Inr ([''- Store '' @ py_str (por (dget ''name'' d) (dget ''memory_store_id'' d)) @ '':'']
          @ (if truthy (dget ''instructions'' d) then [''  Instructions: '' @ py_str (dget ''instructions'' d)] else [])
          @ lines)))
    | _ \<Rightarrow> Inl AttributeError)"

definition memory_context_prompt :: "pdict option \<Rightarrow> string res" where
  "memory_context_prompt ctx =
     (let stores = list_field ''memory_stores'' (memory_context_for_run_state ctx) in
      if stores = [] then Inr []
      else bindE (mapE store_lines stores) (\<lambda>lines.
        Inr (py_join [CHR 0x0A] (''Memory context:'' # concat lines))))"

definition instructions_with_runtime_context :: "string \<Rightarrow> pdict option \<Rightarrow> string res" where
  "instructions_with_runtime_context base ctx = bindE (memory_context_prompt ctx) (\<lambda>prompt.
     Inr (if prompt = [] then base else base @ [CHR 0x0A, CHR 0x0A] @ prompt))"

text \<open>One event per server without a credential; the result says whether there was one.\<close>

definition mcp_error_event :: "pdict \<Rightarrow> pdict" where
  "mcp_error_event error = dupdate
     [(''type'', PStr ''session.error''), (''error_type'', PStr ''mcp_auth_missing''),
      (''message'', PStr (''MCP credential not found for ''
         @ py_str (por (dget ''mcp_server_name'' error) (dget ''mcp_server_url'' error))))] error"

definition append_error :: "pv \<Rightarrow> session_row \<Rightarrow> session_row M" where
  "append_error error s = (case error of
      PDict d \<Rightarrow> bindM (append_event s ''session.error'' (mcp_error_event d)) (\<lambda>(s', _). returnM s')
    | _ \<Rightarrow> raiseM AttributeError)"

definition append_runtime_context_events :: "session_row \<Rightarrow> pdict \<Rightarrow> bool M" where
  "append_runtime_context_events s ctx =
     (let errors = list_field ''errors'' (mcp_context_for_run_state (Some ctx)) in
      bindM (foldM append_error errors s) (\<lambda>_. returnM (errors \<noteq> [])))"

section \<open>Bounds and matches\<close>

lemma memory_item_bounded:
  "dget ''content'' (memory_context_item m) = PStr c \<Longrightarrow> length c \<le> 1003"
  by (auto simp: memory_context_item_def Let_def MAX_MEMORY_CONTEXT_CONTENT_CHARS_def split: if_splits)

lemma credential_for_Some:
  "credential_for cs url = Some c \<Longrightarrow> url \<noteq> [] \<and> c \<in> set cs \<and> credential_url c = url"
  by (auto simp: credential_for_def find_Some_iff split: if_splits)

lemma credential_for_None:
  "credential_for cs url = None \<longleftrightarrow> url = [] \<or> (\<forall>c \<in> set cs. credential_url c \<noteq> url)"
  by (auto simp: credential_for_def find_None_iff)

end
