(* ===== verification/Sandbox.thy ===== *)
theory Sandbox
  imports World
begin

text \<open>
  \<open>app/runtime/sandbox.py\<close>: what sandbox an environment's configuration asks for. The objects of the
  agents SDK a Unix sandbox is configured with are the argument \<open>unix_local_run_config\<close>, which may
  raise; the summary is computed here.
\<close>

record 'rc sandbox_plan =
  sb_enabled :: bool
  sb_backend :: string
  sb_sdk_supported :: bool
  sb_run_config :: "'rc option"
  sb_summary :: pdict

definition default_backend_for_env :: "string \<Rightarrow> string" where
  "default_backend_for_env env_type =
     (if env_type = ''local'' then ''unix_local''
      else if env_type = ''self_hosted'' then ''self_hosted_worker'' else ''unconfigured_cloud'')"

definition is_unhashable :: "pv \<Rightarrow> bool" where
  "is_unhashable v = (is_list v \<or> is_dict v)"

definition networking_summary :: "pdict \<Rightarrow> pdict res" where
  "networking_summary config =
     bindE (py_dict (por (dget ''networking'' config) (PDict [(''type'', PStr ''unrestricted'')]))) (\<lambda>networking.
     let raw = por (dget ''type'' networking) (PStr ''unrestricted'') in
     bindE (raise_if (is_unhashable raw) TypeError) (\<lambda>_.
     let ty = (if raw \<in> {PStr ''restricted'', PStr ''none''} then PStr ''limited'' else raw) in
     bindE (list_or_empty (dget ''allowed_hosts'' networking)) (\<lambda>hosts.
     Inr [(''type'', ty), (''allowed_hosts'', PList (if ty = PStr ''unrestricted'' then [] else hosts)),
       (''allow_mcp_servers'', PBool (truthy (dget_or ''allow_mcp_servers'' (PBool False) networking))),
       (''allow_package_managers'', PBool (truthy (dget_or ''allow_package_managers'' (PBool False) networking)))])))"

definition package_summary :: "pdict \<Rightarrow> pdict res" where
  "package_summary config =
     bindE (dict_or_empty (dget ''packages'' config)) (\<lambda>packages.
     mapE (\<lambda>k. bindE (list_or_empty (dget k packages)) (\<lambda>l. Inr (k, PList l)))
       [''apt'', ''cargo'', ''gem'', ''go'', ''npm'', ''pip''])"

definition resource_summary :: "pdict \<Rightarrow> pdict res" where
  "resource_summary config =
     bindE (dict_or_empty (dget ''resources'' config)) (\<lambda>resources.
     Inr (map (\<lambda>k. (k, dget k resources)) (filter (\<lambda>k. dget k resources \<noteq> PNone)
       [''cpu'', ''memory_mb'', ''disk_mb'', ''timeout_seconds''])))"

definition environment_policy_summary :: "pdict \<Rightarrow> pdict res" where
  "environment_policy_summary config =
     bindE (networking_summary config) (\<lambda>n. bindE (package_summary config) (\<lambda>p.
     bindE (resource_summary config) (\<lambda>r.
     Inr [(''networking'', PDict n), (''packages'', PDict p), (''resources'', PDict r)])))"

definition sandbox_plan_from_environment :: "(pdict \<Rightarrow> 'rc res) \<Rightarrow> pdict \<Rightarrow> 'rc sandbox_plan res" where
  "sandbox_plan_from_environment unix_local_run_config env_config =
     bindE (dict_or_empty (dget ''sandbox'' env_config)) (\<lambda>sandbox_config.
     let env_type = py_str (por (dget ''type'' env_config) (PStr ''cloud''));
         enabled = truthy (dget_or ''enabled'' (PBool False) sandbox_config);
         backend = py_str (por (dget ''backend'' sandbox_config) (PStr (default_backend_for_env env_type))) in
     bindE (environment_policy_summary env_config) (\<lambda>policy.
     if \<not> enabled then
       Inr \<lparr>sb_enabled = False, sb_backend = backend, sb_sdk_supported = False, sb_run_config = None,
         sb_summary = [(''enabled'', PBool False), (''environment_type'', PStr env_type),
           (''backend'', PStr backend), (''reason'', PStr ''sandbox is disabled for this environment''),
           (''policy'', PDict policy)]\<rparr>
     else if backend = ''unix_local'' then
       bindE (unix_local_run_config sandbox_config) (\<lambda>run_config.
       Inr \<lparr>sb_enabled = True, sb_backend = backend, sb_sdk_supported = True, sb_run_config = Some run_config,
         sb_summary = [(''enabled'', PBool True), (''environment_type'', PStr env_type),
           (''backend'', PStr backend), (''sdk'', PStr ''openai_agents_sdk''),
           (''capabilities'', por (dget ''capabilities'' sandbox_config)
              (PList [PStr ''filesystem'', PStr ''shell'', PStr ''compaction''])),
           (''root'', por (dget ''root'' sandbox_config) (PStr ''/workspace'')), (''policy'', PDict policy)]\<rparr>)
     else Inl (SandboxConfigurationError (''Sandbox backend '' @ repr_str backend
       @ '' is not wired yet; supported backend: unix_local''))))"

end
