(* ===== verification/RunExecute.thy ===== *)
theory RunExecute
  imports RunHistory RunTools RunStream RunContext Sandbox
begin

text \<open>
  The execution step of a turn in \<open>app/runtime/runner.py\<close>: which backend runs it, the local
  deterministic backend, and the agents SDK. The SDK is the argument \<open>sdk\<close>: its constructors, and
  \<open>sk_run\<close> for a run, which gives the stream of events, the final output and the rest of the result
  or raises.
\<close>

section \<open>Results\<close>

record runtime_result =
  rr_final_text :: string
  rr_tool_events :: "pdict list"
  rr_requires_action :: bool
  rr_run_state :: pdict
  rr_sandbox_state :: pdict
  rr_usage :: pv

section \<open>The local backend\<close>

definition local_state :: "agent_version_row \<Rightarrow> pdict option \<Rightarrow> pdict \<Rightarrow> pdict" where
  "local_state v ctx extra = [(''backend'', PStr ''local''), (''agent_version_id'', PStr (av_id v))] @ extra
     @ [(''memory_context'', PDict (memory_context_for_run_state ctx)), (''mcp_auth'', PDict (mcp_context_for_run_state ctx))]"

definition local_result :: "agent_version_row \<Rightarrow> pdict option \<Rightarrow> 'rc sandbox_plan \<Rightarrow> pdict \<Rightarrow> string \<Rightarrow> pdict list \<Rightarrow> runtime_result" where
  "local_result v ctx plan extra text tool_events =
     \<lparr>rr_final_text = text, rr_tool_events = tool_events, rr_requires_action = (tool_events \<noteq> []),
      rr_run_state = local_state v ctx extra,
      rr_sandbox_state = dset ''runtime_backend'' (PStr ''local'') (sb_summary plan), rr_usage = PNone\<rparr>"

definition prompt_input :: "string \<Rightarrow> string \<times> pv" where
  "prompt_input latest = (''input'', PDict [(''prompt'', PStr latest)])"

definition custom_tool_event :: "pdict \<Rightarrow> string \<Rightarrow> pdict" where
  "custom_tool_event tool latest =
     [(''type'', PStr ''agent.custom_tool_use''), (''name'', PStr (py_str (por (dget ''name'' tool) (PStr ''custom_tool'')))),
      prompt_input latest, (''tool'', PDict (public_tool_summary tool))]"

definition confirmation_event :: "pdict \<Rightarrow> string \<Rightarrow> pdict" where
  "confirmation_event c latest =
     [(''type'', dget ''event_type'' c), (''name'', dget ''name'' c), prompt_input latest,
      (''permission_policy'', PDict [(''type'', PStr ''always_ask'')]), (''tool'', dget ''tool'' c)]"

definition local_answer :: "agent_version_row \<Rightarrow> pdict option \<Rightarrow> 'rc sandbox_plan \<Rightarrow> string \<Rightarrow> runtime_result res" where
  "local_answer v ctx plan latest =
     (if latest = [] then Inr (local_result v ctx plan [] (local_prefix @ ''is idle.'') [])
      else (case first_custom_tool (av_tools v) of
          Some tool \<Rightarrow> Inr (local_result v ctx plan [(''pending_action'', PStr ''custom_tool'')] []
            [custom_tool_event tool latest])
        | None \<Rightarrow> (case first_confirmation_tool (av_tools v) of
              Some c \<Rightarrow> Inr (local_result v ctx plan [(''pending_action'', PStr ''tool_confirmation'')] []
                [confirmation_event c latest])
            | None \<Rightarrow> bindE (memory_context_prompt ctx) (\<lambda>prompt.
                let text = local_prefix @ ''received: '' @ latest in
                Inr (local_result v ctx plan []
                  (if prompt = [] then text else text @ [CHR 0x0A, CHR 0x0A] @ prompt) [])))))"

definition execute_local :: "(pdict \<Rightarrow> 'rc res) \<Rightarrow> agent_version_row \<Rightarrow> event_row list \<Rightarrow> pdict \<Rightarrow> pdict option \<Rightarrow> runtime_result res" where
  "execute_local unix_config v history env_config ctx =
     bindE (sandbox_plan_from_environment unix_config env_config) (\<lambda>plan.
     case latest_user_action_event history of
       Some e \<Rightarrow> Inr (local_result v ctx plan [(''resumed_from'', PStr (ev_type e))] (local_action_result_text e) [])
     | None \<Rightarrow> bindE (latest_user_text history) (local_answer v ctx plan))"

section \<open>The agents SDK\<close>

record ('t, 'ms, 'rc) agent_spec =
  as_sandboxed :: bool
  as_name :: string
  as_instructions :: string
  as_settings :: 'ms
  as_tools :: "'t list"
  as_run_config :: "'rc option"
  as_input :: "pdict list"
  as_provider :: provider_config
  as_trace :: pdict

record run_outcome =
  ro_events :: "sdk_event list"
  ro_final_output :: sdk_val
  ro_state :: "sdk_state res"
  ro_usage :: sdk_val

record ('t, 'ms, 'rc) sdk =
  sk_import :: "exc option"
  sk_tools :: "'t sdk_tools"
  sk_settings_fields :: "string list"
  sk_model_settings :: "pdict \<Rightarrow> 'ms res"
  sk_unix_config :: "pdict \<Rightarrow> 'rc res"
  sk_run :: "('t, 'ms, 'rc) agent_spec \<Rightarrow> run_outcome res"

definition capabilities_dict :: "capabilities \<Rightarrow> pdict" where
  "capabilities_dict cp =
     [(''chat_completions'', PBool (cp_chat_completions cp)), (''responses_api'', PBool (cp_responses_api cp)),
      (''streaming'', PBool (cp_streaming cp)), (''tool_calls'', PBool (cp_tool_calls cp)),
      (''hosted_tools'', PBool (cp_hosted_tools cp)), (''multimodal_input'', PBool (cp_multimodal_input cp)),
      (''reasoning_traces'', PBool (cp_reasoning_traces cp)),
      (''unsupported_parameters'', PList (map PStr (cp_unsupported_parameters cp)))]"

definition collect_events :: "sdk_event list \<Rightarrow> pdict list res" where
  "collect_events events = bindE (mapE map_openai_stream_event events) (\<lambda>mapped.
     Inr (List.map_filter (\<lambda>m. m) mapped))"

definition trace_metadata :: "agent_version_row \<Rightarrow> provider_config \<Rightarrow> 'rc sandbox_plan \<Rightarrow> pdict" where
  "trace_metadata v provider plan =
     [(''managed_agent_id'', PStr (av_agent_id v)), (''managed_agent_version'', PInt (av_version v)),
      (''model_provider'', PStr (pc_provider provider)), (''model'', PStr (pc_model_id provider)),
      (''sandbox_backend'', PStr (sb_backend plan)), (''sandbox_enabled'', PBool (sb_enabled plan))]"

definition sdk_result :: "provider_config \<Rightarrow> 'rc sandbox_plan \<Rightarrow> pdict option \<Rightarrow> pdict \<Rightarrow> pdict list \<Rightarrow> pdict list \<Rightarrow>
    run_outcome \<Rightarrow> pdict list \<Rightarrow> runtime_result" where
  "sdk_result provider plan ctx removed enabled filtered outcome tool_events =
     \<lparr>rr_final_text = (if sdk_truthy (ro_final_output outcome) then sdk_str (ro_final_output outcome) else []),
      rr_tool_events = tool_events,
      rr_requires_action = list_ex (\<lambda>e. truthy (dget ''requires_confirmation'' e)) tool_events,
      rr_run_state = [(''backend'', PStr ''openai_agents_sdk''), (''provider'', PStr (pc_provider provider)),
        (''model'', PStr (pc_model_id provider)),
        (''provider_capabilities'', PDict (capabilities_dict (pc_capabilities provider))),
        (''filtered_model_settings'', PDict removed), (''enabled_sdk_tools'', PList (map PDict enabled)),
        (''filtered_tools'', PList (map PDict filtered)),
        (''memory_context'', PDict (memory_context_for_run_state ctx)),
        (''mcp_auth'', PDict (mcp_context_for_run_state ctx)), (''sdk_state'', safe_state (ro_state outcome))],
      rr_sandbox_state = sb_summary plan, rr_usage = safe_usage (ro_usage outcome)\<rparr>"

definition execute_openai ::
  "('t, 'ms, 'rc) sdk \<Rightarrow> (string \<Rightarrow> string option) \<Rightarrow> settings \<Rightarrow> agent_version_row \<Rightarrow> event_row list \<Rightarrow>
    pdict \<Rightarrow> pdict option \<Rightarrow> runtime_result res" where
  "execute_openai sdk getenv st v history env_config ctx =
     (case sk_import sdk of Some e \<Rightarrow> Inl e | None \<Rightarrow>
     bindE (resolve_runtime_provider getenv (av_model v) st) (\<lambda>provider.
     bindE (model_settings_for_provider (sk_settings_fields sdk) (sk_model_settings sdk) (av_runtime v)
       (av_model v) (pc_capabilities provider)) (\<lambda>(settings, removed).
     bindE (sdk_tools_for_provider (sk_tools sdk) (av_tools v) (av_mcp_servers v) (pc_capabilities provider))
       (\<lambda>(tools, enabled, filtered).
     bindE (sandbox_plan_from_environment (sk_unix_config sdk) env_config) (\<lambda>plan.
     bindE (instructions_with_runtime_context
       (case av_system v of Some s \<Rightarrow> if s \<noteq> [] then s else ''You are a helpful managed agent.''
        | None \<Rightarrow> ''You are a helpful managed agent.'') ctx) (\<lambda>instructions.
     bindE (sk_run sdk \<lparr>as_sandboxed = (sb_enabled plan \<and> sb_sdk_supported plan), as_name = av_name v,
       as_instructions = instructions, as_settings = settings, as_tools = tools,
       as_run_config = sb_run_config plan, as_input = history_to_openai_input history,
       as_provider = provider, as_trace = trace_metadata v provider plan\<rparr>) (\<lambda>outcome.
     bindE (collect_events (ro_events outcome)) (\<lambda>tool_events.
     Inr (sdk_result provider plan ctx removed enabled filtered outcome tool_events)))))))))"

section \<open>The choice of a backend\<close>

definition is_import_error :: "exc \<Rightarrow> bool" where
  "is_import_error e = (exc_class e \<in> {''ImportError'', ''ModuleNotFoundError''})"

definition chosen_backend :: "(string \<Rightarrow> string option) \<Rightarrow> settings \<Rightarrow> pdict \<Rightarrow> string res" where
  "chosen_backend getenv st model =
     (if st_oma_runtime_backend st = ''auto'' then
        bindE (runtime_provider_configured getenv model st) (\<lambda>ok. Inr (if ok then ''openai'' else ''local''))
      else Inr (st_oma_runtime_backend st))"

definition execute ::
  "('t, 'ms, 'rc) sdk \<Rightarrow> (string \<Rightarrow> string option) \<Rightarrow> settings \<Rightarrow> agent_version_row \<Rightarrow> event_row list \<Rightarrow>
    pdict \<Rightarrow> pdict option \<Rightarrow> runtime_result res" where
  "execute sdk getenv st v history env_config ctx =
     (let locally = execute_local (sk_unix_config sdk) v history env_config ctx in
      bindE (chosen_backend getenv st (av_model v)) (\<lambda>backend.
      if backend \<in> {''openai'', ''openai_compatible''} then
        (case execute_openai sdk getenv st v history env_config ctx of
           Inr r \<Rightarrow> Inr r
         | Inl e \<Rightarrow> if is_import_error e \<and> st_oma_runtime_backend st \<noteq> ''openai'' then locally else Inl e)
      else locally))"

section \<open>Which events of a result wait for the user\<close>

definition REQUIRED_ACTION_TYPES :: "string list" where
  "REQUIRED_ACTION_TYPES = [''agent.custom_tool_use'', ''agent.tool_use'', ''agent.mcp_tool_use'']"

definition event_type_of :: "pdict \<Rightarrow> string res" where
  "event_type_of e = (case dget ''type'' e of PStr t \<Rightarrow> Inr t | _ \<Rightarrow> Inl (KeyError ''type''))"

definition explicit_confirmation :: "runtime_result \<Rightarrow> bool" where
  "explicit_confirmation result = list_ex (\<lambda>e. truthy (dget ''requires_confirmation'' e)) (rr_tool_events result)"

definition is_required_action_event :: "runtime_result \<Rightarrow> pdict \<Rightarrow> bool \<Rightarrow> bool" where
  "is_required_action_event result event explicit =
     (rr_requires_action result \<and> dget ''type'' event \<in> set (map PStr REQUIRED_ACTION_TYPES)
      \<and> (if explicit then truthy (dget ''requires_confirmation'' event) else True))"

text \<open>A result that requires action names an event to act on, and every event of a result has a type.\<close>

definition well_asked :: "runtime_result \<Rightarrow> bool" where
  "well_asked r = (list_all (\<lambda>e. \<exists>t. dget ''type'' e = PStr t) (rr_tool_events r) \<and>
     (rr_requires_action r \<longrightarrow>
        list_ex (\<lambda>e. is_required_action_event r e (explicit_confirmation r)) (rr_tool_events r)))"

lemma confirmation_tool_type:
  assumes "confirmation_tool v = Some c"
  shows "dget ''event_type'' c \<in> {PStr ''agent.mcp_tool_use'', PStr ''agent.tool_use''}"
  using assms
  by (auto simp: confirmation_tool_def confirmation_def Let_def split: pv.splits if_splits option.splits)

lemma map_filter_mem: "y \<in> set (List.map_filter f xs) \<Longrightarrow> \<exists>x \<in> set xs. f x = Some y"
  by (auto simp: List.map_filter_def)

lemma first_confirmation_type:
  assumes "first_confirmation_tool ts = Some c"
  shows "dget ''event_type'' c \<in> {PStr ''agent.mcp_tool_use'', PStr ''agent.tool_use''}"
proof -
  obtain cs where "List.map_filter confirmation_tool ts = c # cs"
    using assms by (auto simp: first_confirmation_tool_def split: list.splits)
  then have "c \<in> set (List.map_filter confirmation_tool ts)" by simp
  then obtain v where "confirmation_tool v = Some c" by (blast dest: map_filter_mem)
  then show ?thesis by (rule confirmation_tool_type)
qed

lemma local_result_asked:
  "well_asked (local_result v ctx plan extra text [])"
  "dget ''type'' e \<in> set (map PStr REQUIRED_ACTION_TYPES) \<Longrightarrow> \<not> truthy (dget ''requires_confirmation'' e) \<Longrightarrow>
   well_asked (local_result v ctx plan extra text [e])"
  by (auto simp: well_asked_def local_result_def is_required_action_event_def explicit_confirmation_def)

lemma local_answer_asked: "local_answer v ctx plan latest = Inr r \<Longrightarrow> well_asked r"
  using first_confirmation_type [of "av_tools v"]
  by (auto simp: local_answer_def res_simps custom_tool_event_def confirmation_event_def prompt_input_def
      REQUIRED_ACTION_TYPES_def Let_def split: if_splits option.splits intro!: local_result_asked)

lemma execute_local_asked: "execute_local u v h c ctx = Inr r \<Longrightarrow> well_asked r"
  by (auto simp: execute_local_def res_simps split: option.splits
      intro: local_answer_asked local_result_asked)

lemma collect_events_typed:
  assumes "collect_events es = Inr ts" "e \<in> set ts"
  shows "(\<exists>t. dget ''type'' e = PStr t) \<and>
    (truthy (dget ''requires_confirmation'' e) \<longrightarrow> dget ''type'' e = PStr ''agent.mcp_tool_use'')"
proof -
  obtain ms where ms: "mapE map_openai_stream_event es = Inr ms" "ts = List.map_filter (\<lambda>m. m) ms"
    using assms(1) by (auto simp: collect_events_def res_simps)
  from ms(2) assms(2) have "Some e \<in> set ms" by (auto dest: map_filter_mem)
  with mapE_Inr_set [OF ms(1)] obtain ev where "map_openai_stream_event ev = Inr (Some e)" by blast
  with mapped_typed [OF this] mapped_confirmation [OF this] show ?thesis by blast
qed

lemma sdk_result_asked:
  assumes "collect_events es = Inr ts"
  shows "well_asked (sdk_result provider plan ctx removed enabled filtered outcome ts)"
  using collect_events_typed [OF assms]
  unfolding well_asked_def sdk_result_def is_required_action_event_def explicit_confirmation_def
    REQUIRED_ACTION_TYPES_def list_all_iff list_ex_iff
  by simp blast

lemma execute_openai_asked: "execute_openai sdk g st v h c ctx = Inr r \<Longrightarrow> well_asked r"
  by (auto simp: execute_openai_def res_simps dest: sdk_result_asked split: option.splits prod.splits)

lemma execute_asked: "execute sdk g st v h c ctx = Inr r \<Longrightarrow> well_asked r"
  by (auto simp: execute_def Let_def res_simps split: if_splits sum.splits
      intro: execute_local_asked execute_openai_asked)

end
