(* ===== verification/RunErrors.thy ===== *)
theory RunErrors
  imports Environments WorkQueue SessionState
begin

text \<open>
  Failures of a turn in \<open>app/runtime/runner.py\<close>: which of them are transient, and how long to wait
  before the next attempt. What an exception of a library carries besides its class and message
  (\<open>status_code\<close>, \<open>retry_after\<close>, a response's header) is read from \<open>info\<close>, by the handle of
  \<open>External\<close>. \<^theory_text>\<open>int(float(v))\<close> is given with the rounding of \<^theory_text>\<open>float\<close>.
\<close>

section \<open>Floats\<close>

fun bits :: "nat \<Rightarrow> nat" where
  "bits n = (if n = 0 then 0 else Suc (bits (n div 2)))"

declare bits.simps [simp del]

definition half_even :: "rat \<Rightarrow> int" where
  "half_even x = (let f = \<lfloor>x\<rfloor>; r = x - of_int f in
     if r < 1/2 then f else if 1/2 < r then f + 1 else if even f then f else f + 1)"

definition pow2 :: "int \<Rightarrow> rat" where
  "pow2 e = (if 0 \<le> e then 2 ^ nat e else 1 / 2 ^ nat (- e))"

text \<open>The double nearest to a positive rational, ties to the even one; \<open>None\<close> when it is infinite.\<close>

definition round_pos :: "rat \<Rightarrow> rat option" where
  "round_pos r =
     (let (n, d) = quotient_of r;
          e0 = int (bits (nat n)) - int (bits (nat d)) - 53;
          e1 = (if 2 ^ 53 \<le> r / pow2 e0 then e0 + 1 else e0);
          e = max e1 (- 1074);
          q = of_int (half_even (r / pow2 e)) * pow2 e in
      if 2 ^ 1024 \<le> q then None else Some q)"

definition round_double :: "rat \<Rightarrow> rat option" where
  "round_double r = (if r = 0 then Some 0 else if 0 < r then round_pos r
     else map_option uminus (round_pos (- r)))"

text \<open>Digits of a float literal: groups of them with single underscores between.\<close>

definition digit_part :: "string \<Rightarrow> string option" where
  "digit_part s = (if s = [] then Some [] else
     (case parse_nat s of None \<Rightarrow> None | Some _ \<Rightarrow> Some (filter is_digit s)))"

definition sign_of :: "string \<Rightarrow> bool \<times> string" where
  "sign_of s = (case s of
      c # cs \<Rightarrow> if c = CHR ''-'' then (True, cs) else if c = CHR ''+'' then (False, cs) else (False, s)
    | [] \<Rightarrow> (False, s))"

definition exponent_of :: "string \<Rightarrow> int option" where
  "exponent_of s = (let (neg, ds) = sign_of s in
     map_option (\<lambda>n. if neg then - int n else int n) (parse_nat ds))"

definition float_mantissa :: "string \<Rightarrow> (string \<times> string) option" where
  "float_mantissa s = (let (ip, fp) = (case split_once CHR ''.'' s of Some (a, b) \<Rightarrow> (a, b) | None \<Rightarrow> (s, [])) in
     case digit_part ip of None \<Rightarrow> None
     | Some i \<Rightarrow> (case digit_part fp of None \<Rightarrow> None
       | Some f \<Rightarrow> if i = [] \<and> f = [] then None else Some (i, f)))"

definition float_body :: "bool \<Rightarrow> string \<Rightarrow> rat option" where
  "float_body neg s =
     (let low = py_lower s in
      case split_once CHR ''e'' low of
        None \<Rightarrow> map_option (\<lambda>(i, f). dec_rat neg i f 0) (float_mantissa low)
      | Some (m, x) \<Rightarrow> (case exponent_of x of None \<Rightarrow> None
          | Some e \<Rightarrow> map_option (\<lambda>(i, f). dec_rat neg i f e) (float_mantissa m)))"

definition float_error :: exc where
  "float_error = ValueError ''could not convert string to float''"

text \<open>\<^theory_text>\<open>int(float(v))\<close>.\<close>

definition int_of_double :: "exc \<Rightarrow> rat \<Rightarrow> int res" where
  "int_of_double too_big r = (case round_double r of Some q \<Rightarrow> Inr (trunc_rat q) | None \<Rightarrow> Inl too_big)"

definition int_float_of_str :: "string \<Rightarrow> int res" where
  "int_float_of_str s =
     (let (neg, body) = sign_of (py_strip s); low = py_lower body in
      if low \<in> {''inf'', ''infinity''} then Inl OverflowError
      else if low = ''nan'' then Inl (ValueError ''cannot convert float NaN to integer'')
      else case float_body neg body of None \<Rightarrow> Inl float_error | Some r \<Rightarrow> int_of_double OverflowError r)"

definition int_float :: "pv \<Rightarrow> int res" where
  "int_float v = (case v of
      PBool b \<Rightarrow> Inr (if b then 1 else 0)
    | PInt i \<Rightarrow> int_of_double OverflowError (of_int i)
    | PFloat f \<Rightarrow> py_int_float f
    | PStr s \<Rightarrow> int_float_of_str s
    | _ \<Rightarrow> Inl TypeError)"

section \<open>What an exception carries\<close>

record exc_info =
  xi_status_code :: pv
  xi_status :: pv
  xi_retry_after :: pv
  xi_retry_header :: pv
  xi_network :: bool

definition no_info :: exc_info where
  "no_info = \<lparr>xi_status_code = PNone, xi_status = PNone, xi_retry_after = PNone, xi_retry_header = PNone,
     xi_network = False\<rparr>"

definition info_of :: "(nat \<Rightarrow> exc_info) \<Rightarrow> exc \<Rightarrow> exc_info" where
  "info_of info e = (case e of
      External _ _ n \<Rightarrow> info n
    | HTTPException c _ \<Rightarrow> no_info\<lparr>xi_status_code := PInt (int c)\<rparr>
    | _ \<Rightarrow> no_info)"

section \<open>Transient errors\<close>

definition MAX_TRANSIENT_RETRY_ATTEMPTS :: int where "MAX_TRANSIENT_RETRY_ATTEMPTS = 3"
definition DEFAULT_RETRY_AFTER_SECONDS :: int where "DEFAULT_RETRY_AFTER_SECONDS = 5"
definition MAX_RETRY_AFTER_SECONDS :: int where "MAX_RETRY_AFTER_SECONDS = 300"

text \<open>\<^theory_text>\<open>except (TypeError, ValueError)\<close> around a conversion.\<close>

definition tolerant :: "'a res \<Rightarrow> 'a option res" where
  "tolerant r = (case r of Inr x \<Rightarrow> Inr (Some x)
    | Inl e \<Rightarrow> if e = TypeError \<or> is_value_error e then Inr None else Inl e)"

definition status_code :: "(nat \<Rightarrow> exc_info) \<Rightarrow> exc \<Rightarrow> int option res" where
  "status_code info e =
     bindE (tolerant (py_int (xi_status_code (info_of info e)))) (\<lambda>code.
     case code of Some n \<Rightarrow> Inr (Some n) | None \<Rightarrow> tolerant (py_int (xi_status (info_of info e))))"

definition positive_int :: "pv \<Rightarrow> int option res" where
  "positive_int v = bindE (tolerant (int_float v)) (\<lambda>parsed.
     Inr (case parsed of Some n \<Rightarrow> if 0 < n then Some n else None | None \<Rightarrow> None))"

definition retry_after_seconds :: "(nat \<Rightarrow> exc_info) \<Rightarrow> exc \<Rightarrow> int \<Rightarrow> int res" where
  "retry_after_seconds info e attempt =
     bindE (positive_int (xi_retry_after (info_of info e))) (\<lambda>direct.
     case direct of Some n \<Rightarrow> Inr (min n MAX_RETRY_AFTER_SECONDS)
     | None \<Rightarrow>
       bindE (positive_int (xi_retry_header (info_of info e))) (\<lambda>parsed.
       case parsed of Some n \<Rightarrow> Inr (min n MAX_RETRY_AFTER_SECONDS)
       | None \<Rightarrow> Inr (min (DEFAULT_RETRY_AFTER_SECONDS * 2 ^ nat (max (attempt - 1) 0)) MAX_RETRY_AFTER_SECONDS)))"

definition TRANSIENT_MARKERS :: "string list" where
  "TRANSIENT_MARKERS = [''ratelimit'', ''rate_limit'', ''timeout'', ''connection'', ''temporar'',
     ''serviceunavailable'', ''internalserver'']"

definition is_transient_runtime_error :: "(nat \<Rightarrow> exc_info) \<Rightarrow> exc \<Rightarrow> bool res" where
  "is_transient_runtime_error info e =
     bindE (status_code info e) (\<lambda>code.
     Inr ((case code of Some n \<Rightarrow> n \<in> {408, 409, 425, 429} \<or> 500 \<le> n | None \<Rightarrow> False)
       \<or> xi_network (info_of info e)
       \<or> list_ex (\<lambda>m. str_contains m (py_lower (exc_class e))) TRANSIENT_MARKERS))"

section \<open>The next state of a failed session\<close>

text \<open>What \<open>_mark_transient_runtime_failure\<close> computes before it writes.\<close>

record retry_plan =
  pl_attempt :: int
  pl_after :: int
  pl_retry_at :: int
  pl_details :: pdict
  pl_final :: bool
  pl_stop_reason :: pdict

definition retry_attempt :: "pdict \<Rightarrow> int res" where
  "retry_attempt details =
     bindE (dict_or_empty (dget ''runtime_retry'' details)) (\<lambda>retry_state.
     bindE (py_int (por (dget ''attempt'' retry_state) (PInt 0))) (\<lambda>n. Inr (n + 1)))"

definition pint_or_none :: "int option \<Rightarrow> pv" where
  "pint_or_none n = (case n of Some i \<Rightarrow> PInt i | None \<Rightarrow> PNone)"

definition retry_plan_of :: "(nat \<Rightarrow> exc_info) \<Rightarrow> exc \<Rightarrow> pdict \<Rightarrow> int \<Rightarrow> int \<Rightarrow> int \<Rightarrow> retry_plan res" where
  "retry_plan_of info e details attempt after now =
     bindE (add_seconds now after) (\<lambda>retry_at.
     bindE (status_code info e) (\<lambda>code.
     let retry = [(''attempt'', PInt attempt), (''max_attempts'', PInt MAX_TRANSIENT_RETRY_ATTEMPTS),
           (''retry_after_seconds'', PInt after), (''retry_at'', PStr (isoformat retry_at)),
           (''error'', PDict [(''type'', PStr (exc_class e)), (''message'', PStr (exc_text e)),
              (''status_code'', pint_or_none code)])];
         final = (MAX_TRANSIENT_RETRY_ATTEMPTS \<le> attempt) in
     Inr \<lparr>pl_attempt = attempt, pl_after = after, pl_retry_at = retry_at,
       pl_details = dset ''runtime_retry'' (PDict retry) details, pl_final = final,
       pl_stop_reason =
         (if final then [(''type'', PStr ''error''), (''transient'', PBool True), (''attempt'', PInt attempt),
            (''max_attempts'', PInt MAX_TRANSIENT_RETRY_ATTEMPTS), (''error_type'', PStr (exc_class e))]
          else [(''type'', PStr ''transient_error''), (''error_type'', PStr (exc_class e)),
            (''attempt'', PInt attempt), (''max_attempts'', PInt MAX_TRANSIENT_RETRY_ATTEMPTS),
            (''retry_after_seconds'', PInt after), (''retry_at'', PStr (isoformat retry_at))])\<rparr>))"

section \<open>Bounds\<close>

lemma positive_int_pos: "positive_int v = Inr (Some n) \<Longrightarrow> 0 < n"
  by (auto simp: positive_int_def res_simps split: option.splits if_splits)

lemma backoff_bounds: "1 \<le> min (DEFAULT_RETRY_AFTER_SECONDS * 2 ^ k) MAX_RETRY_AFTER_SECONDS"
proof -
  have "(1 :: int) \<le> 2 ^ k" by simp
  then have "(1 :: int) \<le> 5 * 2 ^ k" by linarith
  then show ?thesis by (simp add: DEFAULT_RETRY_AFTER_SECONDS_def MAX_RETRY_AFTER_SECONDS_def)
qed

lemma retry_after_bounds: "retry_after_seconds info e attempt = Inr n \<Longrightarrow> 1 \<le> n \<and> n \<le> 300"
  using backoff_bounds [of "nat (max (attempt - 1) 0)"]
  by (auto simp: retry_after_seconds_def res_simps MAX_RETRY_AFTER_SECONDS_def
      dest!: positive_int_pos split: option.splits)

end
