(* ===== verification/Runner.thy ===== *)
theory Runner
  imports RunExecute RunErrors
begin

text \<open>
  A turn of a session, \<open>_run_session_turn\<close> of \<open>app/runtime/runner.py\<close>: four transactions (it starts,
  it loads what it runs on, it ends, or it fails) with the execution of the agent between them.
  Between two transactions, and while the agent runs, other requests commit: \<open>others k\<close> is what they
  made of the committed tables before the turn's next transaction.
\<close>

section \<open>The start\<close>

definition turn_begin :: "string \<Rightarrow> bool M" where
  "turn_begin i = session_scope (
     bindM (get_session i None) (\<lambda>found.
     case found of
       None \<Rightarrow> returnM False
     | Some s \<Rightarrow>
         if se_deleted_at s \<noteq> None then returnM False
         else if \<not> can_start_work (se_status s) (se_stop_reason s) then returnM False
         else
           bindM (update_session_q s (session_patch0\<lparr>sp_status := Some SESSION_RUNNING,
             sp_stop_reason := Some (reason ''in_progress'')\<rparr>)) (\<lambda>s1.
           bindM (append_event s1 ''session.status_running''
             [(''type'', PStr ''session.status_running''), (''status'', PStr SESSION_RUNNING)]) (\<lambda>_.
           seqM commitM (returnM True)))))"

section \<open>What it runs on\<close>

record turn_input =
  ti_version :: agent_version_row
  ti_history :: "event_row list"
  ti_env_config :: pdict
  ti_context :: pdict

definition turn_load :: "string \<Rightarrow> turn_input option M" where
  "turn_load i = session_scope (
     bindM (get_session i None) (\<lambda>found.
     case found of
       None \<Rightarrow> returnM None
     | Some s \<Rightarrow>
     bindM (get_agent (se_agent_id s)) (\<lambda>agent.
     seqM (guardM (agent = None) (RuntimeError (''Agent '' @ se_agent_id s @ '' not found''))) (
     bindM (get_agent_version (se_agent_id s) (se_agent_version s) None) (\<lambda>found_version.
     case found_version of
       None \<Rightarrow> raiseM (RuntimeError (''Agent version '' @ int_str (se_agent_version s) @ '' not found''))
     | Some version \<Rightarrow>
     bindM (get_environment (se_environment_id s) None) (\<lambda>environment.
     case environment of
       None \<Rightarrow> raiseM (RuntimeError (''Environment '' @ se_environment_id s @ '' not found''))
     | Some env \<Rightarrow>
     seqM (guardM (en_deleted_at env \<noteq> None)
       (RuntimeError (''Environment '' @ se_environment_id s @ '' not found''))) (
     bindM (list_events (se_id s) 0 500 None) (\<lambda>history.
     let v = effective_agent_version version (se_status_details s) in
     bindM (runtime_context_for_session s v) (\<lambda>ctx.
     bindM (append_runtime_context_events s ctx) (\<lambda>emitted.
     seqM (if emitted then commitM else returnM ())
       (returnM (Some \<lparr>ti_version = v, ti_history = history, ti_env_config = en_config env,
         ti_context = ctx\<rparr>))))))))))))"

section \<open>The end\<close>

definition status_details_without_runtime_retry :: "pdict \<Rightarrow> pdict" where
  "status_details_without_runtime_retry details = dpop ''runtime_retry'' details"

definition status_details_with_outcome_evaluation :: "pdict \<Rightarrow> pdict \<Rightarrow> pdict res" where
  "status_details_with_outcome_evaluation details evaluation =
     bindE (list_or_empty (dget ''outcome_evaluations'' details)) (\<lambda>evaluations.
     Inr (dset ''outcome_evaluations'' (PList (evaluations @ [PDict evaluation])) details))"

definition append_tool_event :: "runtime_result \<Rightarrow> pdict \<Rightarrow> session_row \<times> string list \<Rightarrow> (session_row \<times> string list) M" where
  "append_tool_event result e acc =
     bindM (liftE (event_type_of e)) (\<lambda>ty.
     bindM (append_event (fst acc) ty e) (\<lambda>(s, row).
     returnM (s, if is_required_action_event result e (explicit_confirmation result)
                 then snd acc @ [ev_id row] else snd acc)))"

definition idle_event :: "pv \<Rightarrow> pv \<Rightarrow> pdict" where
  "idle_event stop_reason usage = [(''type'', PStr ''session.status_idle''), (''status'', PStr SESSION_IDLE),
     (''stop_reason'', stop_reason), (''usage'', por usage (PDict []))]"

definition idle_patch :: "runtime_result \<Rightarrow> pdict \<Rightarrow> pv \<Rightarrow> session_patch" where
  "idle_patch result details stop_reason = session_patch0\<lparr>sp_status := Some SESSION_IDLE,
     sp_status_details := Some details, sp_stop_reason := Some stop_reason,
     sp_run_state := Some (PDict (rr_run_state result)),
     sp_sandbox_state := Some (PDict (rr_sandbox_state result))\<rparr>"

text \<open>\<open>status_idle\<close>: the session row and the event that announces it, then the commit.\<close>

definition go_idle :: "session_row \<Rightarrow> runtime_result \<Rightarrow> pdict \<Rightarrow> pv \<Rightarrow> unit M" where
  "go_idle s result details stop_reason =
     bindM (update_session_q s (idle_patch result details stop_reason)) (\<lambda>s1.
     bindM (append_event s1 ''session.status_idle'' (idle_event stop_reason (rr_usage result))) (\<lambda>_. commitM))"

definition finish_requires_action :: "session_row \<Rightarrow> runtime_result \<Rightarrow> string list \<Rightarrow> unit M" where
  "finish_requires_action s result blocking =
     go_idle s result (status_details_without_runtime_retry (se_status_details s))
       (PDict [(''type'', PStr ''requires_action''), (''event_ids'', PList (map PStr blocking))])"

definition record_outcome :: "session_row \<Rightarrow> event_row list \<Rightarrow> runtime_result \<Rightarrow> (session_row \<times> pdict) M" where
  "record_outcome s history result =
     (let details = status_details_without_runtime_retry (se_status_details s) in
      bindM (liftE (outcome_evaluation_from_history history (rr_final_text result))) (\<lambda>evaluation.
      case evaluation of
        None \<Rightarrow> returnM (s, details)
      | Some d \<Rightarrow>
          bindM (append_event s ''span.outcome_evaluation_end''
            (dupdate [(''type'', PStr ''span.outcome_evaluation_end'')] d)) (\<lambda>(s1, row).
          bindM (liftE (status_details_with_outcome_evaluation details (dset ''event_id'' (PStr (ev_id row)) d))) (\<lambda>d1.
          returnM (s1, d1)))))"

definition finish_end_turn :: "session_row \<Rightarrow> event_row list \<Rightarrow> runtime_result \<Rightarrow> unit M" where
  "finish_end_turn s history result =
     bindM (if rr_final_text result \<noteq> []
                \<and> \<not> list_ex (\<lambda>e. dget ''type'' e = PStr ''agent.message'') (rr_tool_events result)
            then bindM (append_event s ''agent.message'' [(''type'', PStr ''agent.message''),
                   text_block (rr_final_text result)]) (\<lambda>(s1, _). returnM s1)
            else returnM s) (\<lambda>s1.
     bindM (record_outcome s1 history result) (\<lambda>(s2, details).
     go_idle s2 result details (reason ''end_turn'')))"

definition turn_finish :: "string \<Rightarrow> event_row list \<Rightarrow> runtime_result \<Rightarrow> unit M" where
  "turn_finish i history result = session_scope (
     bindM (get_session i None) (\<lambda>found.
     case found of
       None \<Rightarrow> returnM ()
     | Some s \<Rightarrow>
         if se_status s \<noteq> SESSION_RUNNING \<or> is_waiting_for_action (se_stop_reason s) then returnM ()
         else bindM (foldM (append_tool_event result) (rr_tool_events result) (s, [])) (\<lambda>(s1, blocking).
           if rr_requires_action result then finish_requires_action s1 result blocking
           else finish_end_turn s1 history result)))"

section \<open>Failure\<close>

definition error_event :: "exc \<Rightarrow> pdict \<Rightarrow> pdict" where
  "error_event e extra = [(''type'', PStr ''session.error''), (''message'', PStr (exc_text e)),
     (''error_type'', PStr (exc_class e))] @ extra"

definition announce_failure :: "session_row \<Rightarrow> exc \<Rightarrow> pdict \<Rightarrow> string \<Rightarrow> string \<Rightarrow> pv \<Rightarrow> unit M" where
  "announce_failure s e extra event_type status stop_reason =
     bindM (append_event s ''session.error'' (error_event e extra)) (\<lambda>(s1, _).
     bindM (append_event s1 event_type (status_event event_type status stop_reason)) (\<lambda>_. returnM ()))"

definition mark_transient_runtime_failure :: "(nat \<Rightarrow> exc_info) \<Rightarrow> session_row \<Rightarrow> exc \<Rightarrow> unit M" where
  "mark_transient_runtime_failure info s e =
     bindM (liftE (retry_attempt (se_status_details s))) (\<lambda>attempt.
     bindM (liftE (retry_after_seconds info e attempt)) (\<lambda>after.
     bindM nowM (\<lambda>now.
     bindM (liftE (retry_plan_of info e (se_status_details s) attempt after now)) (\<lambda>plan.
     let status = (if pl_final plan then SESSION_TERMINATED else SESSION_RESCHEDULING);
         event_type = (if pl_final plan then ''session.status_terminated'' else ''session.status_rescheduled'');
         stop_reason = PDict (pl_stop_reason plan) in
     bindM (update_session_q s (session_patch0\<lparr>sp_status := Some status,
       sp_status_details := Some (pl_details plan), sp_stop_reason := Some stop_reason\<rparr>)) (\<lambda>s1.
     announce_failure s1 e [(''transient'', PBool True), (''attempt'', PInt attempt)]
       event_type status stop_reason)))))"

definition mark_failure :: "session_row \<Rightarrow> exc \<Rightarrow> unit M" where
  "mark_failure s e =
     bindM (update_session_q s (session_patch0\<lparr>sp_status := Some SESSION_TERMINATED,
       sp_stop_reason := Some (reason ''error'')\<rparr>)) (\<lambda>s1.
     announce_failure s1 e [] ''session.status_terminated'' SESSION_TERMINATED (reason ''error''))"

definition turn_fail :: "(nat \<Rightarrow> exc_info) \<Rightarrow> string \<Rightarrow> exc \<Rightarrow> unit M" where
  "turn_fail info i e =
     bindM (liftE (is_transient_runtime_error info e)) (\<lambda>transient. session_scope (
     bindM (get_session i None) (\<lambda>found.
     case found of
       None \<Rightarrow> returnM ()
     | Some s \<Rightarrow> seqM (if transient then mark_transient_runtime_failure info s e else mark_failure s e) commitM)))"

section \<open>The turn\<close>

definition others_commit :: "(database \<Rightarrow> database) \<Rightarrow> unit M" where
  "others_commit f = modifyM (\<lambda>w. w\<lparr>w_committed := f (w_committed w)\<rparr>)"

definition turn_body :: "(turn_input \<Rightarrow> runtime_result res) \<Rightarrow> (nat \<Rightarrow> database \<Rightarrow> database) \<Rightarrow> string \<Rightarrow> unit M" where
  "turn_body run others i =
     seqM (others_commit (others 0)) (
     bindM (turn_load i) (\<lambda>loaded.
     case loaded of
       None \<Rightarrow> returnM ()
     | Some ti \<Rightarrow>
         bindM (liftE (run ti)) (\<lambda>result.
         seqM (others_commit (others 1)) (turn_finish i (ti_history ti) result))))"

definition run_session_turn_body ::
  "(nat \<Rightarrow> exc_info) \<Rightarrow> (turn_input \<Rightarrow> runtime_result res) \<Rightarrow> (nat \<Rightarrow> database \<Rightarrow> database) \<Rightarrow> string \<Rightarrow> unit M" where
  "run_session_turn_body info run others i =
     bindM (turn_begin i) (\<lambda>started.
     if \<not> started then returnM ()
     else catchM (turn_body run others i) (\<lambda>e. seqM (others_commit (others 2)) (turn_fail info i e)))"

text \<open>\<open>run\<close> in a turn of the program: the chosen backend, on what the turn has loaded.\<close>

definition execute_turn :: "('t, 'ms, 'rc) sdk \<Rightarrow> (string \<Rightarrow> string option) \<Rightarrow> settings \<Rightarrow> turn_input \<Rightarrow> runtime_result res" where
  "execute_turn sdk getenv st ti =
     execute sdk getenv st (ti_version ti) (ti_history ti) (ti_env_config ti) (Some (ti_context ti))"

text \<open>
  \<open>run_session_turn\<close> keeps the sessions with a turn in this process; a second turn of one of them
  returns at once. \<open>running'\<close> is the set another task left when the turn ends.
\<close>

definition enter_turn :: "string \<Rightarrow> string list \<Rightarrow> string list option" where
  "enter_turn i running = (if i \<in> set running then None else Some (i # running))"

definition leave_turn :: "string \<Rightarrow> string list \<Rightarrow> string list" where
  "leave_turn i running = removeAll i running"

definition run_session_turn :: "(string \<Rightarrow> unit M) \<Rightarrow> string \<Rightarrow> string list \<Rightarrow> (string list \<Rightarrow> string list) \<Rightarrow>
    world \<Rightarrow> ((exc + unit) \<times> world) \<times> string list" where
  "run_session_turn turn i running others w = (case enter_turn i running of
      None \<Rightarrow> ((Inr (), w), running)
    | Some running1 \<Rightarrow> (turn i w, leave_turn i (others running1)))"

end
