(* ===== verification/SessionLogic.thy ===== *)
theory SessionLogic
  imports SessionThreads Runner
begin

text \<open>
  A small program logic for the transactions on sessions: what a program does to the log of the
  sessions, that is to their rows and events. The interface \<open>log_invariant\<close> says which changes of the
  log an invariant must survive: a held row is rewritten along an edge of the status graph, an event
  is appended with the next sequence number, a fresh idle session is added. The operations of
  \<^theory_text>\<open>Sessions\<close>, \<^theory_text>\<open>SessionEvents\<close>, \<^theory_text>\<open>SessionThreads\<close> and \<^theory_text>\<open>Runner\<close> make no other change, which is proved
  here once for every such invariant.
\<close>

section \<open>The log\<close>

type_synonym slog = "session_row list \<times> event_row list"

definition slog_of :: "database \<Rightarrow> slog" where
  "slog_of d = (db_sessions d, db_events d)"

definition held :: "session_row \<Rightarrow> slog \<Rightarrow> bool" where
  "held s l \<longleftrightarrow> find_by se_id (se_id s) (fst l) = Some s"

definition put_row :: "session_row \<Rightarrow> slog \<Rightarrow> slog" where
  "put_row s l = (replace_by se_id s (fst l), snd l)"

definition counted :: "session_row \<Rightarrow> int \<Rightarrow> session_row" where
  "counted s t = s\<lparr>se_last_event_seq := se_last_event_seq s + 1, se_updated_at := t\<rparr>"

lemma held_put: "held s l \<Longrightarrow> se_id s' = se_id s \<Longrightarrow> held s' (put_row s' l)"
  by (simp add: held_def put_row_def find_by_replace)

lemma held_snd [simp]: "held s (ss, es @ fs) = held s (ss, es)" "fst (put_row s l) = replace_by se_id s (fst l)"
  "snd (put_row s l) = snd l"
  by (simp_all add: held_def put_row_def)

lemma heldI: "distinct (map se_id (fst l)) \<Longrightarrow> s \<in> set (fst l) \<Longrightarrow> held s l"
  by (simp add: held_def find_by_unique)

lemma slog_updates [simp]:
  "slog_of (put_session s d) = put_row s (slog_of d)"
  "slog_of (add_event e d) = (db_sessions d, db_events d @ [e])"
  "slog_of (add_session s d) = (db_sessions d @ [s], db_events d)"
  "slog_of (add_resource r d) = slog_of d" "slog_of (put_resource r d) = slog_of d"
  "fst (slog_of d) = db_sessions d" "snd (slog_of d) = db_events d"
  by (simp_all add: slog_of_def put_session_def add_event_def add_session_def add_resource_def
      put_resource_def put_row_def)

section \<open>Triples\<close>

text \<open>
  From a log with \<open>P\<close>, the program ends, if it returns, in one with \<open>Q\<close> for its result; what it
  publishes satisfies \<open>C\<close>, and what was published before does.
\<close>

definition triple :: "(slog \<Rightarrow> bool) \<Rightarrow> (slog \<Rightarrow> bool) \<Rightarrow> 'a M \<Rightarrow> ('a \<Rightarrow> slog \<Rightarrow> bool) \<Rightarrow> bool" where
  "triple C P m Q \<longleftrightarrow> (\<forall>w r w'. C (slog_of (w_committed w)) \<longrightarrow> P (slog_of (w_db w)) \<longrightarrow> m w = (r, w') \<longrightarrow>
     C (slog_of (w_committed w')) \<and> (\<forall>x. r = Inr x \<longrightarrow> Q x (slog_of (w_db w'))))"

lemma tripleI:
  "(\<And>w r w'. C (slog_of (w_committed w)) \<Longrightarrow> P (slog_of (w_db w)) \<Longrightarrow> m w = (r, w') \<Longrightarrow>
     C (slog_of (w_committed w')) \<and> (\<forall>x. r = Inr x \<longrightarrow> Q x (slog_of (w_db w')))) \<Longrightarrow> triple C P m Q"
  by (simp add: triple_def)

lemma tripleD:
  "triple C P m Q \<Longrightarrow> m w = (r, w') \<Longrightarrow> C (slog_of (w_committed w)) \<Longrightarrow> P (slog_of (w_db w)) \<Longrightarrow>
     C (slog_of (w_committed w')) \<and> (\<forall>x. r = Inr x \<longrightarrow> Q x (slog_of (w_db w')))"
  by (simp add: triple_def)

lemma triple_bind:
  assumes "triple C P m Q" "\<And>x. triple C (Q x) (f x) R"
  shows "triple C P (bindM m f) R"
proof (rule tripleI)
  fix w r w'
  assume w: "C (slog_of (w_committed w))" "P (slog_of (w_db w))" and run: "bindM m f w = (r, w')"
  obtain q v where m: "m w = (q, v)" by fastforce
  note mid = tripleD [OF assms(1) m w]
  show "C (slog_of (w_committed w')) \<and> (\<forall>x. r = Inr x \<longrightarrow> R x (slog_of (w_db w')))"
  proof (cases q)
    case (Inl e)
    with run m mid show ?thesis by auto
  next
    case (Inr x)
    with run m have "f x v = (r, w')" by simp
    from tripleD [OF assms(2) this] mid Inr show ?thesis by blast
  qed
qed

lemma triple_seq:
  "triple C P m (\<lambda>_. Q) \<Longrightarrow> triple C Q n R \<Longrightarrow> triple C P (seqM m n) R"
  unfolding seqM_def by (rule triple_bind)

lemma triple_pre: "triple C P m Q \<Longrightarrow> (\<And>l. P' l \<Longrightarrow> P l) \<Longrightarrow> triple C P' m Q"
  by (auto simp: triple_def)

lemma triple_post: "triple C P m Q \<Longrightarrow> (\<And>x l. Q x l \<Longrightarrow> Q' x l) \<Longrightarrow> triple C P m Q'"
  by (auto simp: triple_def)

lemma triple_if: "(c \<Longrightarrow> triple C P m Q) \<Longrightarrow> (\<not> c \<Longrightarrow> triple C P n Q) \<Longrightarrow> triple C P (if c then m else n) Q"
  by simp

lemma triple_option:
  "(v = None \<Longrightarrow> triple C P m Q) \<Longrightarrow> (\<And>x. v = Some x \<Longrightarrow> triple C P (f x) Q) \<Longrightarrow>
   triple C P (case v of None \<Rightarrow> m | Some x \<Rightarrow> f x) Q"
  by (cases v) simp_all

lemma triple_prod: "(\<And>x y. p = (x, y) \<Longrightarrow> triple C P (f x y) Q) \<Longrightarrow> triple C P (case p of (x, y) \<Rightarrow> f x y) Q"
  by (cases p) simp

lemma triple_guard: "(\<not> c \<Longrightarrow> triple C P m Q) \<Longrightarrow> triple C P (seqM (guardM c e) m) Q"
  by (cases c) (auto simp: triple_def guardM_def seqM_def bindM_def raiseM_def returnM_def)

lemma triple_raise: "triple C P (raiseM e) Q"
  by (simp add: triple_def)

lemma triple_return: "triple C (Q x) (returnM x) Q"
  by (simp add: triple_def)

lemma triple_commit: "triple C C commitM (\<lambda>_. C)"
  by (simp add: triple_def mon_defs)

lemma triple_commit_pre: "(\<And>l. P l \<Longrightarrow> C l) \<Longrightarrow> triple C P commitM (\<lambda>_. P)"
  by (simp add: triple_def mon_defs)

lemma triple_fact: "(F \<Longrightarrow> triple C P m Q) \<Longrightarrow> triple C (\<lambda>l. F \<and> P l) m Q"
  by (simp add: triple_def)

lemma triple_fold:
  "(\<And>x s. triple C (P s) (f x s) P) \<Longrightarrow> triple C (P s) (foldM f xs s) P"
proof (induction xs arbitrary: s)
  case Nil
  show ?case by (simp add: triple_return)
next
  case (Cons x xs)
  show ?case by (simp add: triple_bind [OF Cons.prems Cons.IH [OF Cons.prems]])
qed

text \<open>A whole transaction.\<close>

lemma triple_scope:
  assumes "triple C C m Q" "session_scope m w = (r, w')" "C (slog_of (w_committed w))"
  shows "C (slog_of (w_committed w'))"
proof -
  obtain q v where m: "m (w\<lparr>w_db := w_committed w\<rparr>) = (q, v)" by fastforce
  from tripleD [OF assms(1) m] assms(3) have "C (slog_of (w_committed v))" by simp
  with m assms(2) show ?thesis by (auto simp: session_scope_def)
qed

section \<open>Programs that leave the log alone\<close>

definition same_log :: "world \<Rightarrow> world \<Rightarrow> bool" where
  "same_log u v \<longleftrightarrow> slog_of (w_db v) = slog_of (w_db u) \<and> slog_of (w_committed v) = slog_of (w_committed u)"

interpretation quiet: world_order same_log
  by unfold_locales (auto simp: same_log_def)

lemma triple_quiet: "keeps same_log m \<Longrightarrow> triple C P m (\<lambda>_. P)"
  by (rule tripleI) (auto simp: same_log_def dest!: keepsD)

named_theorems log_quiet \<open>programs that leave the log of the sessions alone\<close>

lemma quiet_primitives [log_quiet]:
  "keeps same_log nowM" "keeps same_log (new_id p)" "keeps same_log (workspace_id_or_default ws)"
  "keeps same_log (update_dbM (add_resource r))" "keeps same_log (update_dbM (put_resource r))"
  "keeps same_log (background_task i)"
  by (auto intro!: keepsI simp: same_log_def mon_defs background_task_def workspace_id_or_default_def bindM_def)

lemma kept_log: "keeps tables_kept m \<Longrightarrow> keeps same_log m"
  by (auto simp: keeps_def same_log_def tables_kept_def)

lemmas quiet_store [log_quiet] = kept_store [THEN kept_log]

lemma quiet_resources [log_quiet]:
  "keeps same_log (get_resource i ty p d ws)" "keeps same_log (list_resources rty p n ia d ws)"
  "keeps same_log (save_resource r)" "keeps same_log (insert_resource r)" "keeps same_log (create_resource rty a)"
  unfolding get_resource_def list_resources_def save_resource_def insert_resource_def create_resource_def Let_def
  by (intro quiet.control log_quiet)+

lemma quiet_changes [log_quiet]:
  "keeps same_log (update_resource r q)" "keeps same_log (archive_resource r)" "keeps same_log (delete_resource r)"
  unfolding update_resource_def archive_resource_def delete_resource_def
  by (intro quiet.control log_quiet)+

lemma quiet_reads [log_quiet]:
  "keeps same_log (get_agent i)" "keeps same_log (get_agent_version i n ws)" "keeps same_log (get_environment i ws)"
  "keeps same_log (get_session i ws)" "keeps same_log (list_events i n k ws)"
  unfolding get_agent_def get_agent_version_def get_environment_def get_session_def list_events_def
  by (intro quiet.control log_quiet)+

lemma quiet_storage_error [log_quiet]: "keeps same_log m \<Longrightarrow> keeps same_log (storage_error_500 m)"
  unfolding storage_error_500_def by (intro quiet.catch_keeps) (auto split: exc.split intro: quiet.pure_steps)

lemma quiet_attachments [log_quiet]:
  "keeps same_log (ensure_file_resource_capacity s)" "keeps same_log (ensure_memory_store_resource_capacity s)"
  "keeps same_log (session_resource_rows s)" "keeps same_log (copy_file_for_session_resource f i ws)"
  "keeps same_log (create_session_scoped_file f c i ws)"
  unfolding ensure_file_resource_capacity_def ensure_memory_store_resource_capacity_def session_resource_rows_def
    copy_file_for_session_resource_def create_session_scoped_file_def Let_def
  by (intro quiet.control log_quiet)+

lemma quiet_normalize [log_quiet]:
  "keeps same_log (normalize_file_session_resource d ws i)" "keeps same_log (normalize_github_session_resource d)"
  "keeps same_log (normalize_memory_store_session_resource d ws)"
  unfolding normalize_file_session_resource_def normalize_github_session_resource_def
    normalize_memory_store_session_resource_def Let_def
  by (intro quiet.control log_quiet)+

lemma quiet_normalize_data [log_quiet]: "keeps same_log (normalize_session_resource_data v ts ws i)"
  unfolding normalize_session_resource_data_def Let_def
  by (cases v) (auto intro!: quiet.control log_quiet)

lemma quiet_session_resource [log_quiet]:
  "keeps same_log (create_session_resource s v ts)" "keeps same_log (session_resources_response s)"
  unfolding create_session_resource_def session_resources_response_def Let_def
  by (intro quiet.control log_quiet)+

lemma quiet_response [log_quiet]:
  "keeps same_log (session_response s)" "keeps same_log (session_thread_response s t)"
  unfolding session_response_def session_thread_response_def Let_def
  by (intro quiet.control log_quiet)+

lemma quiet_threads [log_quiet]:
  "keeps same_log (create_session_thread s e)" "keeps same_log (create_multiagent_session_threads s v)"
proof -
  show thread: "keeps same_log (create_session_thread s e)" for e
    unfolding create_session_thread_def by (cases e) (auto intro!: quiet.control log_quiet)
  show "keeps same_log (create_multiagent_session_threads s v)"
    unfolding create_multiagent_session_threads_def
    by (auto intro!: quiet.control thread split: pv.split)
qed

lemma quiet_session [log_quiet]:
  "keeps same_log (must_get_session i)" "keeps same_log (must_get_environment_of s)"
  "keeps same_log (enqueue_session_run s t md)" "keeps same_log (validate_session_vault_ids vs ws)"
  "keeps same_log (merge_session_agent_overlay s u)" "keeps same_log (get_session_thread s wso t)"
  unfolding must_get_session_def must_get_environment_of_def enqueue_session_run_def utcnow_iso_def
    validate_session_vault_ids_def validate_session_vault_id_def merge_session_agent_overlay_def
    get_session_thread_def Let_def
  by (intro quiet.control log_quiet)+

lemma quiet_events [log_quiet]:
  "keeps same_log (validate_action_results s es)" "keeps same_log (all_pending_actions_resolved s)"
  unfolding validate_action_results_def all_pending_actions_resolved_def Let_def
  by (intro quiet.control log_quiet)+

lemma quiet_batch [log_quiet]: "keeps same_log (validate_event_batch s es)"
  unfolding validate_event_batch_def Let_def by (intro quiet.control log_quiet)

lemma quiet_context [log_quiet]:
  "keeps same_log (memory_store_context s r)" "keeps same_log (mcp_auth_context_for_session s v)"
  unfolding memory_store_context_def mcp_auth_context_for_session_def Let_def
  by (intro quiet.control log_quiet)+

lemma quiet_runtime_context [log_quiet]: "keeps same_log (runtime_context_for_session s v)"
  unfolding runtime_context_for_session_def by (intro quiet.control log_quiet)

section \<open>Programs that publish only what satisfies an invariant\<close>

definition pub :: "(slog \<Rightarrow> bool) \<Rightarrow> (slog \<Rightarrow> bool) \<Rightarrow> 'a M \<Rightarrow> bool" where
  "pub C P m \<longleftrightarrow> triple C P m (\<lambda>_ _. True)"

definition publishes :: "(slog \<Rightarrow> bool) \<Rightarrow> 'a M \<Rightarrow> bool" where
  "publishes C m \<longleftrightarrow> (\<forall>w r w'. m w = (r, w') \<longrightarrow> C (slog_of (w_committed w)) \<longrightarrow> C (slog_of (w_committed w')))"

lemma pub_triple: "triple C P m Q \<Longrightarrow> pub C P m"
  unfolding pub_def by (erule triple_post) simp

lemma pub_bind: "triple C P m Q \<Longrightarrow> (\<And>x. pub C (Q x) (f x)) \<Longrightarrow> pub C P (bindM m f)"
  unfolding pub_def by (rule triple_bind)

lemma pub_seq: "triple C P m Q \<Longrightarrow> (\<And>x. pub C (Q x) n) \<Longrightarrow> pub C P (seqM m n)"
  unfolding seqM_def by (rule pub_bind)

lemma pub_quiet: "keeps same_log m \<Longrightarrow> pub C P m"
  by (rule pub_triple [OF triple_quiet])

lemma pub_if: "(c \<Longrightarrow> pub C P m) \<Longrightarrow> (\<not> c \<Longrightarrow> pub C P n) \<Longrightarrow> pub C P (if c then m else n)"
  by simp

lemma pub_option:
  "(v = None \<Longrightarrow> pub C P m) \<Longrightarrow> (\<And>x. v = Some x \<Longrightarrow> pub C P (f x)) \<Longrightarrow>
   pub C P (case v of None \<Rightarrow> m | Some x \<Rightarrow> f x)"
  by (cases v) simp_all

lemma pub_prod: "(\<And>x y. p = (x, y) \<Longrightarrow> pub C P (f x y)) \<Longrightarrow> pub C P (case p of (x, y) \<Rightarrow> f x y)"
  by (cases p) simp

lemma pub_let: "pub C P (f v) \<Longrightarrow> pub C P (let x = v in f x)"
  by simp

lemma pub_guard: "(\<not> c \<Longrightarrow> pub C P m) \<Longrightarrow> pub C P (seqM (guardM c e) m)"
  unfolding pub_def by (rule triple_guard)

lemma pub_fact: "(F \<Longrightarrow> pub C P m) \<Longrightarrow> pub C (\<lambda>l. F \<and> P l) m"
  unfolding pub_def by (rule triple_fact)

lemma pub_pre: "pub C P m \<Longrightarrow> (\<And>l. P' l \<Longrightarrow> P l) \<Longrightarrow> pub C P' m"
  unfolding pub_def by (rule triple_pre)

lemma pub_raise: "pub C P (raiseM e)" "pub C P (returnM x)" "pub C P (liftE y)"
  by (simp_all add: pub_def triple_def)

lemma pub_commit: "(\<And>l. P l \<Longrightarrow> C l) \<Longrightarrow> pub C P commitM"
  by (rule pub_triple [OF triple_commit_pre])

lemma publishes_scope: "pub C C m \<Longrightarrow> publishes C (session_scope m)"
  unfolding publishes_def pub_def by (metis triple_scope)

lemma publishesD: "publishes C m \<Longrightarrow> m w = (r, w') \<Longrightarrow> C (slog_of (w_committed w)) \<Longrightarrow> C (slog_of (w_committed w'))"
  by (simp add: publishes_def)

lemma publishes_bind:
  assumes "publishes C m" "\<And>x. publishes C (f x)"
  shows "publishes C (bindM m f)"
  unfolding publishes_def
proof (intro allI impI)
  fix w r w'
  assume run: "bindM m f w = (r, w')" and c: "C (slog_of (w_committed w))"
  obtain q v where m: "m w = (q, v)" by fastforce
  from publishesD [OF assms(1) m c] run m publishesD [OF assms(2)]
  show "C (slog_of (w_committed w'))" by (cases q) auto
qed

lemma publishes_catch:
  assumes "publishes C m" "\<And>e. publishes C (h e)"
  shows "publishes C (catchM m h)"
  unfolding publishes_def
proof (intro allI impI)
  fix w r w'
  assume run: "catchM m h w = (r, w')" and c: "C (slog_of (w_committed w))"
  obtain q v where m: "m w = (q, v)" by fastforce
  from publishesD [OF assms(1) m c] run m publishesD [OF assms(2)]
  show "C (slog_of (w_committed w'))" by (cases q) (auto simp: catchM_def)
qed

lemma publishes_others: "(\<And>d. C (slog_of d) \<Longrightarrow> C (slog_of (f d))) \<Longrightarrow> publishes C (others_commit f)"
  by (auto simp: publishes_def others_commit_def)

lemma publishes_pure: "publishes C (returnM x)" "publishes C (liftE y)" "publishes C (raiseM e)"
  by (auto simp: publishes_def)

section \<open>What the operations do to the log\<close>

definition same_key :: "session_row \<Rightarrow> session_row \<Rightarrow> bool" where
  "same_key s s' \<longleftrightarrow> se_id s' = se_id s \<and> se_last_event_seq s' = se_last_event_seq s
     \<and> se_workspace_id s' = se_workspace_id s"

definition revised :: "session_row \<Rightarrow> session_row \<Rightarrow> bool" where
  "revised s s' \<longleftrightarrow> s' = s\<lparr>se_updated_at := se_updated_at s'\<rparr>"

lemma revisedD:
  "revised s s' \<Longrightarrow> se_id s' = se_id s \<and> se_status s' = se_status s \<and> se_stop_reason s' = se_stop_reason s
     \<and> se_last_event_seq s' = se_last_event_seq s"
  unfolding revised_def by (metis session_row.surjective session_row.update_convs(18) session_row.ext_inject)

lemma counted_simps [simp]:
  "se_id (counted s t) = se_id s" "se_status (counted s t) = se_status s"
  "se_workspace_id (counted s t) = se_workspace_id s" "se_status_details (counted s t) = se_status_details s"
  "se_stop_reason (counted s t) = se_stop_reason s"
  "se_last_event_seq (counted s t) = se_last_event_seq s + 1"
  by (simp_all add: counted_def)

lemma patch_simps [simp]:
  "se_workspace_id (patch_session p s) = se_workspace_id s"
  "se_status_details (patch_session p s) = given (sp_status_details p) (se_status_details s)"
  "se_id (patch_session p s) = se_id s" "se_last_event_seq (patch_session p s) = se_last_event_seq s"
  "se_status (patch_session p s) = given (sp_status p) (se_status s)"
  "se_stop_reason (patch_session p s) = given (sp_stop_reason p) (se_stop_reason s)"
  by (simp_all add: patch_session_def)

lemma save_session_steps:
  assumes "save_session r w = (q, w')"
  obtains "q = Inr r" "w' = w" "find_session (se_id r) (w_db w) = Some r"
  | "q = Inr (r\<lparr>se_updated_at := w_clock w (w_ticks w)\<rparr>)" "w_committed w' = w_committed w"
    "w_db w' = put_session (r\<lparr>se_updated_at := w_clock w (w_ticks w)\<rparr>) (w_db w)"
proof (cases "find_session (se_id r) (w_db w) = Some r")
  case True
  with assms show thesis by (intro that(1)) (simp_all add: save_session_def bindM_def mon_defs)
next
  case False
  with assms have "q = Inr (r\<lparr>se_updated_at := w_clock w (w_ticks w)\<rparr>)"
    "w' = w\<lparr>w_ticks := Suc (w_ticks w), w_db := put_session (r\<lparr>se_updated_at := w_clock w (w_ticks w)\<rparr>) (w_db w)\<rparr>"
    by (simp_all add: save_session_def bindM_def mon_defs Let_def seqM_def)
  then show thesis by (intro that(2)) simp_all
qed

lemma append_event_steps:
  assumes "append_event s ty p w = (q, w')" "held s (slog_of (w_db w))"
  shows "w_committed w' = w_committed w \<and> (\<forall>s' e. q = Inr (s', e) \<longrightarrow>
     (\<exists>t. s' = counted s t \<and> w_db w' = add_event e (put_session s' (w_db w))) \<and>
     ev_session_id e = se_id s \<and> ev_seq e = se_last_event_seq s + 1 \<and> ev_type e = ty \<and>
     ev_workspace_id e = se_workspace_id s \<and> ev_id e \<notin> ev_id ` set (db_events (w_db w)))"
proof -
  have new: "find_session (se_id s) d \<noteq> Some (s\<lparr>se_last_event_seq := se_last_event_seq s + 1\<rparr>)"
    if "held s (slog_of d)" for d
  proof -
    have "find_session (se_id s) d = Some s" using that by (simp add: held_def find_session_def)
    moreover have "se_last_event_seq s \<noteq> se_last_event_seq (s\<lparr>se_last_event_seq := se_last_event_seq s + 1\<rparr>)"
      by simp
    ultimately show ?thesis by (metis option.inject)
  qed
  from assms new [OF assms(2)] show ?thesis
    by (auto simp: append_event_def save_session_def insert_event_def normalize_payload_def default_processed_at_def
        bindM_def seqM_def mon_defs Let_def counted_def find_event_def find_by_None put_session_def
        split: if_splits prod.splits sum.splits)
qed

lemma get_session_held:
  assumes "get_session i ws w = (Inr (Some s), w')" "distinct (map se_id (db_sessions (w_db w)))"
  shows "w' = w \<and> se_id s = i \<and> held s (slog_of (w_db w))"
proof -
  obtain ws' where "w' = w" and one: "scalar_one_or_none (filter (\<lambda>s. se_id s = i \<and> se_workspace_id s = ws')
      (db_sessions (w_db w))) = Inr (Some s)"
    using assms(1) by (auto simp: get_session_def mon_simps dbM_def workspace_id_or_default_def split: option.splits)
  from one have "s \<in> set (filter (\<lambda>s. se_id s = i \<and> se_workspace_id s = ws') (db_sessions (w_db w)))"
    by (simp add: scalar_cases)
  with \<open>w' = w\<close> show ?thesis by (auto intro: heldI [OF _] simp: assms(2))
qed

end
