(* ===== verification/SessionLog.thy ===== *)
theory SessionLog
  imports SessionLogic
begin

text \<open>
  Invariants of the sessions' log, for every operation of the program on sessions. \<open>log_invariant\<close> is
  the contract; its clients are the requests and the transactions of a turn, each proved to publish
  only logs that satisfy the invariant. The contract is provided twice: by the numbering of events
  (\<open>log_ok\<close>) and by the graph of statuses (\<open>on_graph\<close>).
\<close>

lemma raiseM_bind: "bindM (raiseM e) f = raiseM e"
  by (simp add: bindM_def raiseM_def)

lemma bind_if: "bindM (if c then m else n) f = (if c then bindM m f else bindM n f)"
  by simp

lemma pub_false: "(\<And>l. \<not> P l) \<Longrightarrow> pub C P m"
  by (simp add: pub_def triple_def)

section \<open>The contract\<close>

locale log_invariant =
  fixes I :: "slog \<Rightarrow> bool"
    and edge :: "string \<Rightarrow> string \<Rightarrow> bool"
  assumes ids: "I l \<Longrightarrow> distinct (map se_id (fst l))"
    and typed: "I l \<Longrightarrow> held s l \<Longrightarrow> se_status s \<in> set SESSION_STATUSES"
    and rewrite: "I l \<Longrightarrow> held s l \<Longrightarrow> same_key s s' \<Longrightarrow> edge (se_status s) (se_status s') \<Longrightarrow> I (put_row s' l)"
    and append: "I l \<Longrightarrow> held s l \<Longrightarrow> ev_session_id e = se_id s \<Longrightarrow>
        ev_workspace_id e = se_workspace_id s \<Longrightarrow> ev_seq e = se_last_event_seq s + 1 \<Longrightarrow>
        ev_id e \<notin> ev_id ` set (snd l) \<Longrightarrow> I (replace_by se_id (counted s t) (fst l), snd l @ [e])"
    and create: "I l \<Longrightarrow> se_id s \<notin> se_id ` set (fst l) \<Longrightarrow> se_last_event_seq s = 0 \<Longrightarrow>
        se_status s = SESSION_IDLE \<Longrightarrow> I (fst l @ [s], snd l)"
    and step_edge: "status_step a b \<Longrightarrow> edge a b"
begin

abbreviation K :: "session_row \<Rightarrow> slog \<Rightarrow> bool" where
  "K s \<equiv> \<lambda>l. I l \<and> held s l"

lemma K_inv: "K s l \<Longrightarrow> I l"
  by simp

lemma save_triple:
  assumes "same_key s r" "edge (se_status s) (se_status r)"
  shows "triple I (K s) (save_session r) (\<lambda>r' l. revised r r' \<and> K r' l)"
proof (rule tripleI)
  fix w q w'
  assume c: "I (slog_of (w_committed w))" and k: "K s (slog_of (w_db w))" and run: "save_session r w = (q, w')"
  show "I (slog_of (w_committed w')) \<and> (\<forall>x. q = Inr x \<longrightarrow> revised r x \<and> K x (slog_of (w_db w')))"
  proof (rule save_session_steps [OF run])
    assume "q = Inr r" "w' = w" "find_session (se_id r) (w_db w) = Some r"
    with c k show ?thesis by (simp add: revised_def held_def find_session_def)
  next
    let ?r = "r\<lparr>se_updated_at := w_clock w (w_ticks w)\<rparr>"
    assume q: "q = Inr ?r" "w_committed w' = w_committed w" "w_db w' = put_session ?r (w_db w)"
    have "I (put_row ?r (slog_of (w_db w)))" "held ?r (put_row ?r (slog_of (w_db w)))"
      using k assms by (auto intro: rewrite held_put simp: same_key_def)
    with q c show ?thesis by (simp add: revised_def)
  qed
qed

lemma update_triple:
  assumes "status_step (se_status s) (given (sp_status p) (se_status s))"
  shows "triple I (K s) (update_session_q s p) (\<lambda>r' l. revised (patch_session p s) r' \<and> K r' l)"
  unfolding update_session_q_def
  using assms by (intro save_triple step_edge) (simp_all add: same_key_def)

lemma append_triple:
  "triple I (K s) (append_event s ty p) (\<lambda>x l. (\<exists>t. fst x = counted s t) \<and> K (fst x) l)"
proof (rule tripleI)
  fix w q w'
  assume c: "I (slog_of (w_committed w))" and k: "K s (slog_of (w_db w))" and run: "append_event s ty p w = (q, w')"
  from append_event_steps [OF run] k have w': "w_committed w' = w_committed w"
    and steps: "\<And>s' e. q = Inr (s', e) \<Longrightarrow> \<exists>t. s' = counted s t \<and> w_db w' = add_event e (put_session s' (w_db w))"
      "\<And>s' e. q = Inr (s', e) \<Longrightarrow> ev_session_id e = se_id s \<and> ev_workspace_id e = se_workspace_id s \<and> ev_seq e = se_last_event_seq s + 1 \<and>
        ev_id e \<notin> ev_id ` set (db_events (w_db w))"
    by auto
  have "(\<exists>t. fst x = counted s t) \<and> K (fst x) (slog_of (w_db w'))" if q: "q = Inr x" for x
  proof -
    obtain s' e where x: "x = (s', e)" by fastforce
    from steps [of s' e] q x obtain t where t: "s' = counted s t" "w_db w' = add_event e (put_session s' (w_db w))"
      and e: "ev_session_id e = se_id s" "ev_workspace_id e = se_workspace_id s" "ev_seq e = se_last_event_seq s + 1" "ev_id e \<notin> ev_id ` set (db_events (w_db w))"
      by auto
    from append [of "slog_of (w_db w)" s e t] k e t have "I (slog_of (w_db w'))"
      by (simp add: slog_of_def put_session_def add_event_def)
    moreover from k t have "held s' (slog_of (w_db w'))"
      using held_put [of s "slog_of (w_db w)" s'] by (simp add: slog_of_def put_session_def add_event_def put_row_def)
    ultimately show ?thesis using x t by auto
  qed
  with w' c show "I (slog_of (w_committed w')) \<and> (\<forall>x. q = Inr x \<longrightarrow> (\<exists>t. fst x = counted s t) \<and> K (fst x) (slog_of (w_db w')))"
    by simp
qed

text \<open>Bound to a pair, as the handlers write it.\<close>

lemma append_pub:
  assumes "\<And>s' e. (\<exists>t. s' = counted s t) \<Longrightarrow> pub I (K s') (f (s', e))"
  shows "pub I (K s) (bindM (append_event s ty p) f)"
  by (rule pub_bind [OF append_triple]) (auto intro!: pub_fact assms)

lemma update_pub:
  assumes "status_step (se_status s) (given (sp_status p) (se_status s))"
    and "\<And>s'. revised (patch_session p s) s' \<Longrightarrow> pub I (K s') (f s')"
  shows "pub I (K s) (bindM (update_session_q s p) f)"
  by (rule pub_bind [OF update_triple [OF assms(1)]]) (rule pub_fact, rule assms(2))

lemma get_triple: "triple I I (get_session i ws) (\<lambda>r l. I l \<and> (\<forall>s. r = Some s \<longrightarrow> held s l))"
proof (rule tripleI)
  fix w q w'
  assume c: "I (slog_of (w_committed w))" "I (slog_of (w_db w))" and run: "get_session i ws w = (q, w')"
  have "keeps same_log (get_session i ws)" by (rule log_quiet)
  from keepsD [OF this run] c have "I (slog_of (w_committed w'))" "I (slog_of (w_db w'))"
    by (simp_all add: same_log_def)
  moreover have "held s (slog_of (w_db w'))" if "q = Inr (Some s)" for s
    using get_session_held [of i ws w s w'] run that ids [OF c(2)] by simp
  ultimately show "I (slog_of (w_committed w')) \<and> (\<forall>x. q = Inr x \<longrightarrow> I (slog_of (w_db w')) \<and> (\<forall>s. x = Some s \<longrightarrow> held s (slog_of (w_db w'))))"
    by blast
qed

lemma get_pub:
  assumes "pub I I (f None)" "\<And>s. se_status s \<in> set SESSION_STATUSES \<Longrightarrow> pub I (K s) (f (Some s))"
  shows "pub I I (bindM (get_session i ws) f)"
proof (rule pub_bind [OF get_triple])
  fix r
  show "pub I (\<lambda>l. I l \<and> (\<forall>s. r = Some s \<longrightarrow> held s l)) (f r)"
  proof (cases r)
    case None
    with assms(1) show ?thesis by simp
  next
    case (Some s)
    show ?thesis
    proof (cases "se_status s \<in> set SESSION_STATUSES")
      case True
      from pub_pre [OF assms(2) [OF True]] Some show ?thesis by simp
    next
      case False
      show ?thesis by (rule pub_false) (use typed False Some in blast)
    qed
  qed
qed

lemma must_get_pub:
  assumes "\<And>s. se_status s \<in> set SESSION_STATUSES \<Longrightarrow> pub I (K s) (f s)"
  shows "pub I I (bindM (must_get_session i) f)"
  unfolding must_get_session_def monad_laws
proof (rule get_pub)
  show "pub I I (bindM (case None of None \<Rightarrow> raiseM (HTTPException 404 ''Session not found'')
      | Some s \<Rightarrow> if se_deleted_at s \<noteq> None then raiseM (HTTPException 404 ''Session not found'') else returnM s) f)"
    by (simp add: raiseM_bind pub_raise)
  fix s :: session_row
  assume "se_status s \<in> set SESSION_STATUSES"
  from assms [OF this] show "pub I (K s) (bindM (case Some s of None \<Rightarrow> raiseM (HTTPException 404 ''Session not found'')
      | Some s \<Rightarrow> if se_deleted_at s \<noteq> None then raiseM (HTTPException 404 ''Session not found'') else returnM s) f)"
    by (simp add: raiseM_bind pub_raise monad_laws)
qed

lemma quiet_pub:
  "keeps same_log m \<Longrightarrow> (\<And>x. pub I P (f x)) \<Longrightarrow> pub I P (bindM m f)"
  "keeps same_log m \<Longrightarrow> pub I P n \<Longrightarrow> pub I P (seqM m n)"
  by (rule pub_bind [OF triple_quiet], assumption, simp) (rule pub_seq [OF triple_quiet], assumption, simp)

lemma commit_pub: "pub I P n \<Longrightarrow> (\<And>l. P l \<Longrightarrow> I l) \<Longrightarrow> pub I P (seqM commitM n)"
  by (rule pub_seq [OF triple_commit_pre])

lemmas flow = pub_guard pub_if pub_option pub_prod pub_let pub_raise

end

section \<open>The requests\<close>

context log_invariant
begin

lemma archive_session_pub: "publishes I (archive_session i)"
  unfolding archive_session_def archive_session_q_def monad_laws
  by (intro publishes_scope must_get_pub pub_guard quiet_pub log_quiet
      pub_bind [OF save_triple] pub_fact commit_pub pub_quiet | simp add: same_key_def step_edge status_step_def)+

lemma delete_session_pub: "publishes I (delete_session i)"
  unfolding delete_session_def delete_session_q_def monad_laws
  by (intro publishes_scope must_get_pub pub_guard quiet_pub log_quiet append_pub
      pub_bind [OF save_triple] pub_fact commit_pub pub_raise
      | simp add: same_key_def step_edge status_step_def)+

lemma cancel_session_pub: "publishes I (cancel_session i)"
  unfolding cancel_session_def
  by (intro publishes_scope must_get_pub update_pub append_pub pub_prod commit_pub pub_quiet log_quiet
      | simp add: session_patch0_def status_step_def status_defs)+

lemma resume_session_pub: "publishes I (resume_session i)"
  unfolding resume_session_def
  by (intro publishes_scope must_get_pub pub_guard quiet_pub commit_pub pub_quiet log_quiet quiet.control | simp)+

lemma update_session_pub: "publishes I (update_session i body)"
  unfolding update_session_def
  by (intro publishes_scope must_get_pub pub_guard quiet_pub update_pub append_pub commit_pub pub_raise
      log_quiet quiet.control | simp add: session_patch0_def status_step_def)+

lemma archive_thread_pub: "publishes I (archive_session_thread i t)"
  unfolding archive_session_thread_def
  by (intro publishes_scope must_get_pub quiet_pub pub_option update_pub commit_pub pub_quiet
      log_quiet quiet.control | simp add: session_patch0_def status_step_def)+

lemma create_q_pub:
  assumes "\<And>s. pub I (K s) (f s)"
  shows "pub I I (bindM (create_session_q a v env title md rs vids ws) f)"
proof (rule pub_bind [where Q = "\<lambda>s. K s"])
  show "triple I I (create_session_q a v env title md rs vids ws) (\<lambda>s. K s)"
  proof (rule tripleI)
    fix w q w'
    assume c: "I (slog_of (w_committed w))" and i: "I (slog_of (w_db w))"
      and run: "create_session_q a v env title md rs vids ws w = (q, w')"
    have q: "w_committed w' = w_committed w \<and> (\<forall>r. q = Inr r \<longrightarrow>
        se_id r \<notin> se_id ` set (db_sessions (w_db w)) \<and> se_last_event_seq r = 0 \<and> se_status r = SESSION_IDLE \<and>
        w_db w' = add_session r (w_db w))"
      using run by (auto simp: create_session_q_def insert_session_def bindM_def seqM_def mon_defs ws_run Let_def
          SESSION_IDLE_def find_session_def find_by_None split: if_splits)
    show "I (slog_of (w_committed w')) \<and> (\<forall>x. q = Inr x \<longrightarrow> K x (slog_of (w_db w')))"
    proof (intro conjI allI impI)
      fix x
      assume "q = Inr x"
      with q have r: "se_id x \<notin> se_id ` set (db_sessions (w_db w))" "se_last_event_seq x = 0"
        "se_status x = SESSION_IDLE" "w_db w' = add_session x (w_db w)" by auto
      from create [OF i, of x] r show "I (slog_of (w_db w'))" by (simp add: slog_of_def add_session_def)
      from r show "held x (slog_of (w_db w'))"
        using ids [OF \<open>I (slog_of (w_db w'))\<close>] by (intro heldI) (simp_all add: slog_of_def add_session_def)
    qed (simp add: q c)
  qed
qed (rule assms)

lemma create_session_pub: "publishes I (create_session body)"
  unfolding create_session_def Let_def
  by (intro publishes_scope pub_prod pub_guard quiet_pub pub_option create_q_pub append_pub commit_pub
      pub_quiet pub_raise log_quiet quiet.control | simp)+

lemma append_input_triple:
  "triple I (\<lambda>l. se_status (bs_session b) = st \<and> K (bs_session b) l) (append_input e b)
     (\<lambda>b' l. se_status (bs_session b') = st \<and> K (bs_session b') l)"
  unfolding append_input_def Let_def
proof (rule triple_fact, rule triple_bind [OF append_triple])
  fix x :: "session_row \<times> event_row"
  assume st: "se_status (bs_session b) = st"
  obtain s' ev where x: "x = (s', ev)" by fastforce
  note q = triple_quiet [OF quiet_events(2)]
  show "triple I (\<lambda>l. (\<exists>t. fst x = counted (bs_session b) t) \<and> K (fst x) l)
     (case x of (s, ev) \<Rightarrow>
        if ei_type e = ''user.interrupt'' then returnM (b\<lparr>bs_session := s, bs_appended := bs_appended b @ [event_to_response ev], bs_should_interrupt := True\<rparr>)
        else if starts_work (ei_type e) then returnM (b\<lparr>bs_session := s, bs_appended := bs_appended b @ [event_to_response ev], bs_should_run := True\<rparr>)
        else if is_action_result (ei_type e) then
          bindM (all_pending_actions_resolved s) (\<lambda>r. returnM (b\<lparr>bs_session := s, bs_appended := bs_appended b @ [event_to_response ev], bs_resolved := r, bs_should_run := r\<rparr>))
        else returnM (b\<lparr>bs_session := s, bs_appended := bs_appended b @ [event_to_response ev]\<rparr>))
     (\<lambda>b' l. se_status (bs_session b') = st \<and> K (bs_session b') l)"
    unfolding x prod.case fst_conv
    by (rule triple_fact, intro triple_if triple_bind [OF q])
      (auto simp: triple_def mon_defs st)
qed

lemma finish_batch_triple:
  assumes "se_status (bs_session b) \<in> set SESSION_STATUSES" "se_status (bs_session b) \<noteq> SESSION_TERMINATED"
    and that: "\<And>x s. pub I (K s) (f x)"
  shows "pub I (K (bs_session b)) (bindM (finish_batch b) f)"
proof -
  have "status_step (se_status (bs_session b)) SESSION_IDLE"
    using assms by (auto simp: SESSION_STATUSES_def status_step_def status_defs)
  then show ?thesis
    unfolding finish_batch_def
    by (auto simp: bind_if monad_laws session_patch0_def
        intro!: update_pub append_pub quiet_pub(1) [OF quiet_session(3)] that)
qed

lemma send_events_pub: "publishes I (send_events i inputs)"
  unfolding send_events_def
proof (intro publishes_scope must_get_pub pub_guard, rule quiet_pub, rule log_quiet, rule quiet_pub, rule log_quiet)
  fix s :: session_row and env :: environment_row
  assume s: "se_status s \<in> set SESSION_STATUSES" "se_status s \<noteq> SESSION_TERMINATED"
  let ?b = "\<lparr>bs_session = s, bs_appended = [], bs_should_run = False, bs_should_interrupt = False, bs_resolved = False\<rparr> :: batch_state"
  let ?P = "\<lambda>(b :: batch_state) l. se_status (bs_session b) = se_status s \<and> K (bs_session b) l"
  let ?rest = "\<lambda>b. bindM (finish_batch b) (\<lambda>work. seqM commitM (
     seqM (case work of Some w \<Rightarrow> if should_execute_inline (en_config env) then background_task (mr_id w)
                                 else returnM ()
           | None \<Rightarrow> returnM ())
       (returnM (bs_appended b))))"
  have fold: "triple I (?P ?b) (foldM append_input inputs ?b) ?P"
    by (rule triple_fold) (rule append_input_triple)
  have "pub I (?P ?b) (bindM (foldM append_input inputs ?b) ?rest)"
  proof (rule pub_bind [OF fold], rule pub_fact)
    fix b :: batch_state
    assume "se_status (bs_session b) = se_status s"
    with s have "se_status (bs_session b) \<in> set SESSION_STATUSES" "se_status (bs_session b) \<noteq> SESSION_TERMINATED"
      by simp_all
    then show "pub I (K (bs_session b)) (?rest b)"
      by (rule finish_batch_triple)
        (intro commit_pub pub_quiet log_quiet quiet.control | simp)+
  qed
  then show "pub I (K s) (bindM (foldM append_input inputs ?b) ?rest)"
    by (rule pub_pre) simp
qed

text \<open>Of a turn: its start, its context and its end.\<close>

lemma begin_step: "can_start_work a r \<Longrightarrow> status_step a SESSION_RUNNING"
  by (auto simp: can_start_work_def RUNNABLE_STATUSES_def status_step_def status_defs)

lemma turn_begin_pub: "publishes I (turn_begin i)"
  unfolding turn_begin_def
  by (rule publishes_scope, rule get_pub, simp add: pub_raise, simp only: option.case)
    (intro pub_if pub_raise update_pub append_pub commit_pub | simp add: session_patch0_def begin_step)+

lemma append_error_triple: "triple I (K s) (append_error error s) K"
proof (cases error)
  case (PDict d)
  then show ?thesis
    by (simp add: append_error_def)
      (rule triple_bind [OF append_triple], rule triple_fact, auto simp: triple_def mon_defs split: prod.splits)
qed (simp_all add: append_error_def triple_raise)

lemma turn_load_pub: "publishes I (turn_load i)"
  unfolding turn_load_def append_runtime_context_events_def Let_def monad_laws
  by (rule publishes_scope, rule get_pub, simp add: pub_raise, simp only: option.case,
      rule quiet_pub, rule log_quiet, rule pub_guard, rule quiet_pub, rule log_quiet, rule pub_option, rule pub_raise,
      rule quiet_pub, rule log_quiet, rule pub_option, rule pub_raise, rule pub_guard,
      rule quiet_pub, rule log_quiet, rule quiet_pub, rule log_quiet,
      rule pub_bind [OF triple_fold [of I K, OF append_error_triple]])
    (auto simp: pub_def triple_def mon_defs seqM_def bindM_def)

lemma tool_event_triple:
  "triple I (\<lambda>l. se_status (fst acc) = st \<and> K (fst acc) l) (append_tool_event result e acc)
     (\<lambda>acc' l. se_status (fst acc') = st \<and> K (fst acc') l)"
  unfolding append_tool_event_def
  by (rule triple_fact, rule triple_bind [OF triple_quiet [OF quiet.pure_steps(3)]], rule triple_bind [OF append_triple],
      rule triple_fact)
    (auto simp: triple_def mon_defs split: prod.splits)

lemma go_idle_pub: "se_status s = SESSION_RUNNING \<Longrightarrow> pub I (K s) (go_idle s result details why)"
  unfolding go_idle_def
  by (intro update_pub append_pub pub_commit | simp add: idle_patch_def session_patch0_def status_step_def status_defs)+

lemma record_outcome_triple:
  "triple I (K s) (record_outcome s history result) (\<lambda>x l. se_status (fst x) = se_status s \<and> K (fst x) l)"
  unfolding record_outcome_def Let_def
  by (rule triple_bind [OF triple_quiet [OF quiet.pure_steps(3)]], rule triple_option, simp add: triple_def mon_defs,
      rule triple_bind [OF append_triple], rule triple_fact)
    (auto simp: triple_def mon_defs bindM_def split: prod.splits sum.splits)

lemma finish_end_turn_pub:
  assumes "se_status s = SESSION_RUNNING"
  shows "pub I (K s) (finish_end_turn s history result)"
proof -
  have said: "triple I (K s) (if c then bindM (append_event s ty p) (\<lambda>(s1, _). returnM s1) else returnM s)
      (\<lambda>s1 l. se_status s1 = se_status s \<and> K s1 l)" for c ty p
    by (rule triple_if, rule triple_bind [OF append_triple], rule triple_fact)
      (auto simp: triple_def mon_defs split: prod.splits)
  show ?thesis
    unfolding finish_end_turn_def
    by (rule pub_bind [OF said], rule pub_fact, rule pub_bind [OF record_outcome_triple], rule pub_fact)
      (auto intro!: go_idle_pub simp: assms split: prod.splits)
qed

lemma turn_finish_pub: "publishes I (turn_finish i history result)"
  unfolding turn_finish_def finish_requires_action_def
  by (rule publishes_scope, rule get_pub, simp add: pub_raise, simp only: option.case, rule pub_if, rule pub_raise,
      rule pub_bind [OF triple_pre [OF triple_fold [where P = "\<lambda>acc l. se_status (fst acc) = SESSION_RUNNING \<and> K (fst acc) l",
        OF tool_event_triple]]])
    (auto intro!: go_idle_pub finish_end_turn_pub pub_fact pub_if split: prod.splits)

end

text \<open>Of the sub-resources of a session.\<close>

lemma quiet_subresources [log_quiet]:
  "keeps same_log (must_get_session_resource i r)" "keeps same_log (rotate_session_resource_token row body)"
  "keeps same_log (release_object ws row)" "keeps same_log (delete_session_resource_file row)"
proof -
  show release: "keeps same_log (release_object ws row)" for ws row
    unfolding release_object_def count_resources_by_storage_key_def Let_def
    by (intro quiet.control log_quiet quiet_storage_error)+
  show "keeps same_log (must_get_session_resource i r)" "keeps same_log (rotate_session_resource_token row body)"
    unfolding must_get_session_resource_def rotate_session_resource_token_def Let_def
    by (intro quiet.control log_quiet)+
  show "keeps same_log (delete_session_resource_file row)"
    unfolding delete_session_resource_file_def
    by (auto split: pv.split prod.split intro!: quiet.control log_quiet release)
qed

context log_invariant
begin

lemma attach_pub: "publishes I (add_session_resource i data)"
  unfolding add_session_resource_def
  by (intro publishes_scope must_get_pub quiet_pub commit_pub pub_raise log_quiet | simp)+

lemma rotate_pub: "publishes I (update_session_resource i r body)"
  unfolding update_session_resource_def seqM_def
  by (intro publishes_scope must_get_pub quiet_pub commit_pub [unfolded seqM_def] pub_raise log_quiet | simp)+

lemma detach_pub: "publishes I (delete_session_resource i r)"
  unfolding delete_session_resource_def seqM_def
  by (intro publishes_scope must_get_pub quiet_pub commit_pub [unfolded seqM_def] pub_raise log_quiet quiet.pure_steps | simp)+

end

section \<open>Failing turns\<close>

text \<open>A failing turn sets its status whatever the session's is.\<close>

locale free_invariant = log_invariant +
  assumes free: "b \<in> set SESSION_STATUSES \<Longrightarrow> edge a b"
begin

lemma force_pub:
  assumes "given (sp_status p) (se_status s) \<in> set SESSION_STATUSES"
    and "\<And>s'. revised (patch_session p s) s' \<Longrightarrow> pub I (K s') (f s')"
  shows "pub I (K s) (bindM (update_session_q s p) f)"
  unfolding update_session_q_def
  using assms by (intro pub_bind [OF save_triple] pub_fact free) (simp_all add: same_key_def)

lemma announce_pub:
  assumes "\<And>s'. pub I (K s') (f ())"
  shows "pub I (K s) (bindM (announce_failure s e x ty st why) f)"
  unfolding announce_failure_def monad_laws
  by (intro append_pub | simp add: monad_laws assms)+

lemma turn_fail_pub: "publishes I (turn_fail info i e)"
proof -
  have failed: "pub I (K s) (seqM (if transient then mark_transient_runtime_failure info s e else mark_failure s e) commitM)"
    for s transient
    unfolding mark_transient_runtime_failure_def mark_failure_def seqM_def bind_if monad_laws Let_def
    by (intro pub_if quiet_pub quiet.pure_steps log_quiet force_pub announce_pub pub_commit
        | simp add: session_patch0_def SESSION_STATUSES_def status_defs)+
  show ?thesis
    unfolding turn_fail_def
    by (intro publishes_bind publishes_pure publishes_scope, rule get_pub, simp add: pub_raise, simp add: failed)
qed

text \<open>A whole turn, whatever the agent does and the others commit meanwhile.\<close>

lemma turn_pub:
  assumes "\<And>k d. I (slog_of d) \<Longrightarrow> I (slog_of (others k d))"
  shows "publishes I (run_session_turn_body info run others i)"
proof -
  have body: "publishes I (turn_body run others i)"
    unfolding turn_body_def seqM_def
    by (intro publishes_bind publishes_others assms turn_load_pub)
      (auto split: option.split intro!: publishes_bind publishes_pure publishes_others assms turn_finish_pub)
  show ?thesis
    unfolding run_session_turn_body_def seqM_def
    by (intro publishes_bind turn_begin_pub)
      (auto intro!: publishes_catch publishes_bind publishes_others publishes_pure assms body turn_fail_pub)
qed

end

end
