(* ===== verification/SessionRuns.thy ===== *)
theory SessionRuns
  imports SessionLog
begin

text \<open>
  Runs of the program on sessions: the requests and the transactions of turns as steps between
  committed states, in any order and number. The invariants of \<^theory_text>\<open>SessionLog\<close> hold along every run;
  a turn that fails is the one step that leaves the graph of statuses.
\<close>

section \<open>The numbering of events\<close>

definition events_of :: "string \<Rightarrow> event_row list \<Rightarrow> event_row list" where
  "events_of i es = filter (\<lambda>e. ev_session_id e = i) es"

definition numbered_row :: "event_row list \<Rightarrow> session_row \<Rightarrow> bool" where
  "numbered_row es s \<longleftrightarrow> 0 \<le> se_last_event_seq s \<and> map ev_seq (events_of (se_id s) es) = [1..se_last_event_seq s]
     \<and> (\<forall>e \<in> set (events_of (se_id s) es). ev_workspace_id e = se_workspace_id s)"

definition log_ok :: "slog \<Rightarrow> bool" where
  "log_ok l \<longleftrightarrow> distinct (map se_id (fst l)) \<and> distinct (map ev_id (snd l)) \<and>
     (\<forall>e \<in> set (snd l). ev_session_id e \<in> se_id ` set (fst l)) \<and>
     (\<forall>s \<in> set (fst l). numbered_row (snd l) s \<and> se_status s \<in> set SESSION_STATUSES)"

definition any_known :: "string \<Rightarrow> string \<Rightarrow> bool" where
  "any_known a b \<longleftrightarrow> a = b \<or> b \<in> set SESSION_STATUSES"

lemma replace_keys [simp]: "se_id ` set (replace_by se_id s ss) = se_id ` set ss"
  by (metis keys_replace_by list.set_map)

lemma replace_by_mem: "x \<in> set rows \<Longrightarrow> key x = key r \<Longrightarrow> r \<in> set (replace_by key r rows)"
  by (induction rows) (auto simp: replace_by_def)

lemma replace_by_other: "x \<in> set rows \<Longrightarrow> key x \<noteq> key r \<Longrightarrow> x \<in> set (replace_by key r rows)"
  by (induction rows) (auto simp: replace_by_def)

lemma held_mem: "held s l \<Longrightarrow> s \<in> set (fst l)"
  by (simp add: held_def find_by_mem)

lemma log_ok_rewrite:
  assumes "log_ok l" "held s l" "same_key s s'" "se_status s' \<in> set SESSION_STATUSES"
  shows "log_ok (put_row s' l)"
proof -
  have "numbered_row (snd l) s" using assms(1,2) by (auto simp: log_ok_def dest: held_mem)
  then have "numbered_row (snd l) s'" using assms(3) by (simp add: numbered_row_def same_key_def)
  with assms(1,4) show ?thesis by (auto simp: log_ok_def put_row_def dest!: set_replace_by)
qed

lemma log_ok_append:
  assumes "log_ok l" "held s l" "ev_session_id e = se_id s" "ev_workspace_id e = se_workspace_id s"
    "ev_seq e = se_last_event_seq s + 1" "ev_id e \<notin> ev_id ` set (snd l)"
  shows "log_ok (replace_by se_id (counted s t) (fst l), snd l @ [e])"
proof -
  have s: "s \<in> set (fst l)" using assms(2) by (rule held_mem)
  then have n: "numbered_row (snd l) s" "se_status s \<in> set SESSION_STATUSES" using assms(1) by (auto simp: log_ok_def)
  then have "numbered_row (snd l @ [e]) (counted s t)"
    using assms(3-5) by (auto simp: numbered_row_def events_of_def upto_rec2)
  moreover have "numbered_row (snd l @ [e]) x" if "x \<in> set (fst l)" "se_id x \<noteq> se_id s" for x
    using that assms(1,3) by (auto simp: log_ok_def numbered_row_def events_of_def)
  ultimately show ?thesis
    using assms(1,3,6) s n(2) by (auto simp: log_ok_def dest!: set_replace_by)
qed

lemma log_ok_create:
  assumes "log_ok l" "se_id s \<notin> se_id ` set (fst l)" "se_last_event_seq s = 0" "se_status s = SESSION_IDLE"
  shows "log_ok (fst l @ [s], snd l)"
proof -
  have "\<forall>e \<in> set (snd l). ev_session_id e \<noteq> se_id s"
    using assms(1,2) unfolding log_ok_def by metis
  then have "events_of (se_id s) (snd l) = []" by (simp add: events_of_def filter_empty_conv)
  with assms show ?thesis
    by (auto simp: log_ok_def numbered_row_def SESSION_STATUSES_def SESSION_IDLE_def)
qed

lemma step_known: "a \<in> set SESSION_STATUSES \<Longrightarrow> status_step a b \<Longrightarrow> b \<in> set SESSION_STATUSES"
  by (auto simp: status_step_def SESSION_STATUSES_def)

lemma log_ok_held: "log_ok l \<Longrightarrow> held s l \<Longrightarrow> se_status s \<in> set SESSION_STATUSES"
  by (auto simp: log_ok_def dest: held_mem)

lemma log_ok_ids: "log_ok l \<Longrightarrow> distinct (map se_id (fst l))"
  by (simp add: log_ok_def)

lemma any_known_step: "status_step a b \<Longrightarrow> any_known a b" "b \<in> set SESSION_STATUSES \<Longrightarrow> any_known a b"
  by (auto simp: any_known_def status_step_def SESSION_STATUSES_def)

lemma any_known_held: "log_ok l \<Longrightarrow> held s l \<Longrightarrow> any_known (se_status s) b \<Longrightarrow> b \<in> set SESSION_STATUSES"
  by (auto simp: any_known_def log_ok_held)

interpretation numbered: free_invariant log_ok any_known
  by unfold_locales
    (blast intro: log_ok_ids log_ok_held log_ok_rewrite any_known_held log_ok_append log_ok_create any_known_step)+

section \<open>The graph of statuses\<close>

definition on_graph :: "slog \<Rightarrow> slog \<Rightarrow> bool" where
  "on_graph l0 l \<longleftrightarrow> log_ok l \<and>
     (\<forall>s0 \<in> set (fst l0). \<exists>s \<in> set (fst l). se_id s = se_id s0 \<and> status_step\<^sup>*\<^sup>* (se_status s0) (se_status s))"

lemma on_graph_replace:
  assumes "on_graph l0 l" "held s l" "log_ok (replace_by se_id s' (fst l), es)"
    "se_id s' = se_id s" "status_step (se_status s) (se_status s')"
  shows "on_graph l0 (replace_by se_id s' (fst l), es)"
proof -
  have "\<exists>x \<in> set (replace_by se_id s' (fst l)). se_id x = se_id s0 \<and> status_step\<^sup>*\<^sup>* (se_status s0) (se_status x)"
    if s0: "s0 \<in> set (fst l0)" for s0
  proof -
    obtain x where x: "x \<in> set (fst l)" "se_id x = se_id s0" "status_step\<^sup>*\<^sup>* (se_status s0) (se_status x)"
      using assms(1) s0 by (auto simp: on_graph_def)
    show ?thesis
    proof (cases "se_id x = se_id s")
      case True
      have "distinct (map se_id (fst l))" using assms(1) by (simp add: on_graph_def log_ok_def)
      from find_by_unique [OF this x(1)] assms(2) have "x = s" by (simp only: True held_def option.inject)
      have "s' \<in> set (replace_by se_id s' (fst l))"
        by (rule replace_by_mem [OF x(1)]) (rule trans [OF True assms(4) [symmetric]])
      moreover have "status_step\<^sup>*\<^sup>* (se_status s0) (se_status s')"
        using x(3) [unfolded \<open>x = s\<close>] assms(5) by (rule rtranclp.rtrancl_into_rtrancl)
      ultimately show ?thesis using x(2) True assms(4) by (intro bexI [of _ s']) simp_all
    next
      case False
      then have "x \<in> set (replace_by se_id s' (fst l))" using replace_by_other [OF x(1), of se_id s'] assms(4) by simp
      with x show ?thesis by blast
    qed
  qed
  with assms(3) show ?thesis by (simp add: on_graph_def)
qed

interpretation graph: log_invariant "on_graph l0" status_step for l0
proof unfold_locales
  fix l :: slog and s s' :: session_row and e :: event_row and t :: int
  assume g: "on_graph l0 l"
  then have ok: "log_ok l" by (simp add: on_graph_def)
  then show "distinct (map se_id (fst l))" by (simp add: log_ok_def)
  { assume "se_id s \<notin> se_id ` set (fst l)" "se_last_event_seq s = 0" "se_status s = SESSION_IDLE"
    from log_ok_create [OF ok this] g show "on_graph l0 (fst l @ [s], snd l)" by (fastforce simp: on_graph_def) }
  assume h: "held s l"
  with ok show "se_status s \<in> set SESSION_STATUSES" by (rule log_ok_held)
  { assume k: "same_key s s'" "status_step (se_status s) (se_status s')"
    have "log_ok (put_row s' l)"
      using ok h k step_known [OF \<open>se_status s \<in> set SESSION_STATUSES\<close>] by (blast intro: log_ok_rewrite)
    with on_graph_replace [OF g h, of s' "snd l"] k show "on_graph l0 (put_row s' l)"
      by (simp add: put_row_def same_key_def) }
  assume "ev_session_id e = se_id s" "ev_workspace_id e = se_workspace_id s" "ev_seq e = se_last_event_seq s + 1" "ev_id e \<notin> ev_id ` set (snd l)"
  from log_ok_append [OF ok h this] on_graph_replace [OF g h, of "counted s t" "snd l @ [e]"]
  show "on_graph l0 (replace_by se_id (counted s t) (fst l), snd l @ [e])" by (simp add: status_step_def)
qed

section \<open>Runs\<close>

text \<open>
  The requests that write sessions or events, and the transactions of a turn that ends as it should.
  \<open>elsewhere\<close> is any other transaction: one that leaves sessions and events alone.
\<close>

inductive api_step :: "world \<Rightarrow> world \<Rightarrow> bool" where
  create: "create_session body w = (r, w') \<Longrightarrow> api_step w w'"
| update: "update_session i upd w = (r, w') \<Longrightarrow> api_step w w'"
| archive: "archive_session i w = (r, w') \<Longrightarrow> api_step w w'"
| delete: "delete_session i w = (r, w') \<Longrightarrow> api_step w w'"
| cancel: "cancel_session i w = (r, w') \<Longrightarrow> api_step w w'"
| resume: "resume_session i w = (r, w') \<Longrightarrow> api_step w w'"
| send: "send_events i inputs w = (r', w') \<Longrightarrow> api_step w w'"
| archive_thread: "archive_session_thread i t w = (r, w') \<Longrightarrow> api_step w w'"
| attach: "add_session_resource i data w = (r, w') \<Longrightarrow> api_step w w'"
| rotate: "update_session_resource i ri data w = (r, w') \<Longrightarrow> api_step w w'"
| detach: "delete_session_resource i ri w = (r, w') \<Longrightarrow> api_step w w'"
| begin_turn: "turn_begin i w = (b, w') \<Longrightarrow> api_step w w'"
| load_turn: "turn_load i w = (inp, w') \<Longrightarrow> api_step w w'"
| end_turn: "turn_finish i history result w = (u, w') \<Longrightarrow> api_step w w'"
| elsewhere: "slog_of (w_committed w') = slog_of (w_committed w) \<Longrightarrow> api_step w w'"

inductive session_step :: "world \<Rightarrow> world \<Rightarrow> bool" where
  served: "api_step w w' \<Longrightarrow> session_step w w'"
| failed: "turn_fail info i e w = (u, w') \<Longrightarrow> session_step w w'"

inductive_cases session_stepE: "session_step w w'"

context log_invariant
begin

lemmas served_pubs = create_session_pub update_session_pub archive_session_pub delete_session_pub
  cancel_session_pub resume_session_pub send_events_pub archive_thread_pub attach_pub rotate_pub detach_pub
  turn_begin_pub turn_load_pub turn_finish_pub

lemma api_step_inv: "api_step w w' \<Longrightarrow> I (slog_of (w_committed w)) \<Longrightarrow> I (slog_of (w_committed w'))"
  by (induction rule: api_step.induct) (simp_all add: served_pubs [THEN publishesD])

lemma api_run_inv: "api_step\<^sup>*\<^sup>* w w' \<Longrightarrow> I (slog_of (w_committed w)) \<Longrightarrow> I (slog_of (w_committed w'))"
  by (induction rule: rtranclp_induct) (auto intro: api_step_inv)

end

context free_invariant
begin

lemma session_step_inv: "session_step w w' \<Longrightarrow> I (slog_of (w_committed w)) \<Longrightarrow> I (slog_of (w_committed w'))"
  by (erule session_stepE) (auto intro: api_step_inv publishesD [OF turn_fail_pub])

lemma session_run_inv: "session_step\<^sup>*\<^sup>* w w' \<Longrightarrow> I (slog_of (w_committed w)) \<Longrightarrow> I (slog_of (w_committed w'))"
  by (induction rule: rtranclp_induct) (auto intro: session_step_inv)

end

lemma no_sessions_ok: "db_sessions d = [] \<Longrightarrow> db_events d = [] \<Longrightarrow> log_ok (slog_of d)"
  by (simp add: log_ok_def slog_of_def)

lemma on_graph_start: "log_ok l \<Longrightarrow> on_graph l l"
  by (auto simp: on_graph_def)

lemma terminated_stays: "status_step\<^sup>*\<^sup>* SESSION_TERMINATED b \<Longrightarrow> b = SESSION_TERMINATED"
  by (induction rule: rtranclp_induct) (auto simp: status_step_def SESSION_TERMINATED_def)

section \<open>Properties\<close>

text \<open>A workspace with an agent and an environment, and the request for a session of it.\<close>

definition demo_agent :: agent_row where
  "demo_agent = \<lparr>ag_id = ''agt_1'', ag_workspace_id = ''wrkspc_default'', ag_name = ''a'', ag_description = None,
     ag_active_version = 1, ag_metadata = [], ag_archived_at = None, ag_created_at = 0, ag_updated_at = 0\<rparr>"
definition demo_version :: agent_version_row where
  "demo_version = \<lparr>av_id = ''agtv_1'', av_workspace_id = ''wrkspc_default'', av_agent_id = ''agt_1'', av_version = 1,
     av_name = ''a'', av_model = [], av_system = None, av_description = None, av_tools = [], av_mcp_servers = [],
     av_skills = [], av_multiagent = PNone, av_runtime = [], av_metadata = [], av_created_at = 0, av_updated_at = 0\<rparr>"
definition demo_environment :: environment_row where
  "demo_environment = \<lparr>en_id = ''env_1'', en_workspace_id = ''wrkspc_default'', en_name = ''e'', en_description = [],
     en_config = [], en_metadata = [], en_archived_at = None, en_deleted_at = None, en_created_at = 0, en_updated_at = 0\<rparr>"
definition demo_world :: world where
  "demo_world = world0\<lparr>w_committed := db0\<lparr>db_agents := [demo_agent], db_versions := [demo_version],
     db_environments := [demo_environment]\<rparr>\<rparr>"
definition demo_request :: session_create where
  "demo_request = \<lparr>sc_agent = Inl ''agt_1'', sc_environment_id = ''env_1'', sc_title = None, sc_metadata = [],
     sc_resources = [], sc_vault_ids = []\<rparr>"

lemma run_of: "api_step w (snd (m w))" if "\<And>r w'. m w = (r, w') \<Longrightarrow> api_step w w'"
  by (rule that) (rule surjective_pairing)

lemma demo_run:
  "api_step\<^sup>*\<^sup>* demo_world (snd (cancel_session ''sess_0'' (snd (create_session demo_request demo_world))))"
  by (rule rtranclp.rtrancl_into_rtrancl [OF r_into_rtranclp])
    (rule run_of, erule api_step.create, rule run_of, erule api_step.cancel)




definition ended_session :: session_row where
  "ended_session = session0\<lparr>se_status := SESSION_TERMINATED, se_last_event_seq := 0\<rparr>"

definition ended_world :: world where
  "ended_world = world0\<lparr>w_committed := db0\<lparr>db_sessions := [ended_session]\<rparr>\<rparr>"

lemma ended_ok: "log_ok (slog_of (w_committed ended_world))"
  by (simp add: log_ok_def slog_of_def ended_world_def ended_session_def db0_def numbered_row_def events_of_def
      SESSION_STATUSES_def SESSION_TERMINATED_def)


end
