(* ===== verification/TurnFacts.thy ===== *)
theory TurnFacts
  imports SessionRuns
begin

text \<open>
  What the transactions of a turn do to the session they are about: a start excludes another, a
  failure is retried a bounded number of times with a bounded wait, even when the session has been
  cancelled meanwhile, and an end that waits for the user names the events it waits for.
\<close>

section \<open>Runs of the operations on a held row\<close>

lemma update_held:
  assumes "update_session_q s p w = (Inr s', w')" "held s (slog_of (w_db w))"
  shows "held s' (slog_of (w_db w')) \<and> revised (patch_session p s) s' \<and> w_committed w' = w_committed w
    \<and> db_events (w_db w') = db_events (w_db w)"
  using assms(1) unfolding update_session_q_def
proof (rule save_session_steps)
  assume "Inr s' = Inr (patch_session p s)" "w' = w" "find_session (se_id (patch_session p s)) (w_db w) = Some (patch_session p s)"
  then show ?thesis by (simp add: revised_def held_def find_session_def)
next
  let ?r = "(patch_session p s)\<lparr>se_updated_at := w_clock w (w_ticks w)\<rparr>"
  assume r: "Inr s' = Inr ?r" "w_committed w' = w_committed w" "w_db w' = put_session ?r (w_db w)"
  have "held ?r (put_row ?r (slog_of (w_db w)))" by (rule held_put [OF assms(2)]) simp
  moreover have "db_events (put_session ?r (w_db w)) = db_events (w_db w)" by (simp add: put_session_def)
  ultimately show ?thesis using r by (simp add: revised_def)
qed

lemma append_held:
  assumes "append_event s ty p w = (Inr (s', e), w')" "held s (slog_of (w_db w))"
  shows "held s' (slog_of (w_db w')) \<and> (\<exists>t. s' = counted s t) \<and> w_committed w' = w_committed w
    \<and> db_events (w_db w') = db_events (w_db w) @ [e]"
proof -
  from append_event_steps [OF assms(1,2)] obtain t where
    t: "s' = counted s t" "w_db w' = add_event e (put_session s' (w_db w))" "w_committed w' = w_committed w" by auto
  with held_put [OF assms(2), of s'] show ?thesis
    by (auto simp: slog_of_def put_session_def add_event_def put_row_def)
qed

lemma revised_details: "revised s s' \<Longrightarrow> se_status_details s' = se_status_details s"
  unfolding revised_def by (metis session_row.surjective session_row.update_convs(18) session_row.ext_inject)

lemma announce_held:
  assumes "announce_failure s e x ty st why w = (Inr (), w')" "held s (slog_of (w_db w))"
  shows "\<exists>s'. held s' (slog_of (w_db w')) \<and> se_id s' = se_id s \<and> se_status s' = se_status s
    \<and> se_stop_reason s' = se_stop_reason s \<and> se_status_details s' = se_status_details s"
proof -
  obtain s1 e1 w1 s2 e2 where a: "append_event s ''session.error'' (error_event e x) w = (Inr (s1, e1), w1)"
    "append_event s1 ty (status_event ty st why) w1 = (Inr (s2, e2), w')"
    using assms(1) by (auto simp: announce_failure_def mon_simps)
  from append_held [OF a(1) assms(2)] append_held [OF a(2)] show ?thesis by auto
qed

section \<open>Operations that return\<close>

text \<open>Identifiers to come are distinct, and new to the events. Then nothing on a held row raises.\<close>

definition fresh_ids :: "world \<Rightarrow> bool" where
  "fresh_ids w \<longleftrightarrow> inj (w_uuids w) \<and>
     (\<forall>n \<ge> w_draws w. ''evt_'' @ w_uuids w n \<notin> ev_id ` set (db_events (w_db w)))"

definition settled :: "session_row \<Rightarrow> world \<Rightarrow> bool" where
  "settled s w \<longleftrightarrow> held s (slog_of (w_db w)) \<and> log_ok (slog_of (w_db w)) \<and> fresh_ids w"

lemma settled_ticks [simp]: "settled s (w\<lparr>w_ticks := n\<rparr>) = settled s w"
  by (simp add: settled_def fresh_ids_def)

lemma update_total:
  assumes "settled s w" "given (sp_status p) (se_status s) \<in> set SESSION_STATUSES"
  obtains s' w' where "update_session_q s p w = (Inr s', w')" "settled s' w'" "revised (patch_session p s) s'"
proof -
  let ?r = "patch_session p s"
  obtain q w' where run: "save_session ?r w = (q, w')" by fastforce
  from run show thesis
  proof (rule save_session_steps)
    assume "q = Inr ?r" "w' = w" "find_session (se_id ?r) (w_db w) = Some ?r"
    with that [of ?r w] run assms(1) show thesis
      by (simp add: update_session_q_def settled_def held_def find_session_def revised_def)
  next
    let ?t = "?r\<lparr>se_updated_at := w_clock w (w_ticks w)\<rparr>"
    assume q: "q = Inr ?t" "w_committed w' = w_committed w" "w_db w' = put_session ?t (w_db w)"
    have "w_uuids w' = w_uuids w \<and> w_draws w' = w_draws w"
      using run by (auto simp: save_session_def bindM_def mon_defs Let_def seqM_def split: if_splits)
    moreover have "log_ok (put_row ?t (slog_of (w_db w)))" "held ?t (put_row ?t (slog_of (w_db w)))"
      using assms by (auto simp: settled_def same_key_def intro!: log_ok_rewrite held_put)
    moreover have "db_events (put_session ?t (w_db w)) = db_events (w_db w)" by (simp add: put_session_def)
    ultimately have "settled ?t w'" using assms(1) q by (simp add: settled_def fresh_ids_def)
    with that [of ?t w'] run q show thesis by (simp add: update_session_q_def revised_def)
  qed
qed

lemma normalize_payload_run: "\<exists>q n. normalize_payload ty p w = (Inr q, w\<lparr>w_ticks := n\<rparr>)"
proof (cases "event_source ty \<in> {''user'', ''system''}")
  case True
  then show ?thesis
    by (intro exI [of _ "dset ''processed_at'' PNone (dsetdefault ''type'' (PStr ty) p)"] exI [of _ "w_ticks w"])
      (simp add: normalize_payload_def default_processed_at_def bindM_def mon_defs)
next
  case False
  then show ?thesis
    by (auto simp: normalize_payload_def default_processed_at_def bindM_def mon_defs intro!: exI [of _ "Suc (w_ticks w)"])
qed

lemma append_total:
  assumes "settled s w"
  obtains s' e w' where "append_event s ty p w = (Inr (s', e), w')" "settled s' w'" "\<exists>t. s' = counted s t"
proof -
  have h: "held s (slog_of (w_db w))" "log_ok (slog_of (w_db w))" and f: "fresh_ids w"
    using assms by (auto simp: settled_def)
  from h have "numbered_row (db_events (w_db w)) s" by (auto simp: log_ok_def dest: held_mem)
  then have "set (map ev_seq (events_of (se_id s) (db_events (w_db w)))) = {1..se_last_event_seq s}"
    by (simp only: numbered_row_def set_upto)
  then have "ev_seq x \<le> se_last_event_seq s" if "x \<in> set (db_events (w_db w))" "ev_session_id x = se_id s" for x
    using that by (auto simp: events_of_def)
  then have new: "\<not> list_ex (\<lambda>x. ev_session_id x = se_id s \<and> ev_seq x = se_last_event_seq s + 1) (db_events (w_db w))"
    by (fastforce simp: list_ex_iff)
  have "find_event (''evt_'' @ w_uuids w (w_draws w)) (w_db w) = None"
    using f by (simp add: fresh_ids_def find_event_def find_by_None)
  let ?s = "s\<lparr>se_last_event_seq := se_last_event_seq s + 1\<rparr>"
  obtain q n where norm: "normalize_payload ty p (w\<lparr>w_draws := Suc (w_draws w)\<rparr>)
      = (Inr q, w\<lparr>w_draws := Suc (w_draws w), w_ticks := n\<rparr>)"
    using normalize_payload_run [of ty p "w\<lparr>w_draws := Suc (w_draws w)\<rparr>"] by auto
  have "se_last_event_seq s \<noteq> se_last_event_seq ?s" by simp
  then have "s \<noteq> ?s" by metis
  with h(1) have put: "find_session (se_id s) (w_db w) \<noteq> Some ?s" by (simp add: held_def find_session_def)
  obtain s' e w' where run: "append_event s ty p w = (Inr (s', e), w')"
    "w_uuids w' = w_uuids w" "w_draws w' = Suc (w_draws w)" "ev_id e = ''evt_'' @ w_uuids w (w_draws w)"
  proof
    show "append_event s ty p w = (Inr (?s\<lparr>se_updated_at := w_clock w n\<rparr>,
        \<lparr>ev_id = ''evt_'' @ w_uuids w (w_draws w), ev_workspace_id = se_workspace_id s, ev_session_id = se_id s,
         ev_seq = se_last_event_seq s + 1, ev_type = ty, ev_source = event_source ty, ev_payload = q,
         ev_created_at = w_clock w (Suc n)\<rparr>), w\<lparr>w_draws := Suc (w_draws w), w_ticks := Suc (Suc n),
         w_db := add_event \<lparr>ev_id = ''evt_'' @ w_uuids w (w_draws w), ev_workspace_id = se_workspace_id s, ev_session_id = se_id s,
         ev_seq = se_last_event_seq s + 1, ev_type = ty, ev_source = event_source ty, ev_payload = q,
         ev_created_at = w_clock w (Suc n)\<rparr> (put_session (?s\<lparr>se_updated_at := w_clock w n\<rparr>) (w_db w))\<rparr>)"
      using \<open>find_event _ _ = None\<close> new put
      by (simp add: append_event_def save_session_def insert_event_def bindM_def seqM_def mon_defs norm
          Let_def find_event_def put_session_def)
  qed simp_all
  from append_event_steps [OF run(1) h(1)] obtain t where t: "s' = counted s t"
    "w_db w' = add_event e (put_session s' (w_db w))" "ev_session_id e = se_id s" "ev_workspace_id e = se_workspace_id s"
    "ev_seq e = se_last_event_seq s + 1" "ev_id e \<notin> ev_id ` set (db_events (w_db w))" by auto
  have "log_ok (slog_of (w_db w'))"
    using log_ok_append [OF h(2,1) t(3-5), of t] t by (simp add: slog_of_def put_session_def add_event_def)
  moreover have "fresh_ids w'"
  proof -
    have inj: "inj (w_uuids w)" using f by (simp add: fresh_ids_def)
    have "''evt_'' @ w_uuids w n \<noteq> ev_id e" if "Suc (w_draws w) \<le> n" for n
      using that run(4) injD [OF inj, of n "w_draws w"] by auto
    with f run(2,3) t(2) show ?thesis by (auto simp: fresh_ids_def add_event_def put_session_def)
  qed
  ultimately have "settled s' w'" using append_held [OF run(1) h(1)] by (simp add: settled_def)
  with that run(1) t(1) show thesis by blast
qed

lemma announce_total:
  assumes "settled s w"
  obtains w' where "announce_failure s e x ty st why w = (Inr (), w')"
proof -
  obtain s1 e1 w1 where a: "append_event s ''session.error'' (error_event e x) w = (Inr (s1, e1), w1)" "settled s1 w1"
    by (rule append_total [OF assms, where ty = "''session.error''" and p = "error_event e x"])
  obtain s2 e2 w2 where "append_event s1 ty (status_event ty st why) w1 = (Inr (s2, e2), w2)"
    by (rule append_total [OF a(2), where ty = ty and p = "status_event ty st why"])
  with a(1) that [of w2] show thesis by (simp add: announce_failure_def bindM_def mon_defs)
qed

section \<open>Retries\<close>

lemma mark_transient_held:
  assumes "mark_transient_runtime_failure info s e w = (Inr (), w')" "held s (slog_of (w_db w))"
    "retry_attempt (se_status_details s) = Inr n"
  shows "\<exists>s' k plan. held s' (slog_of (w_db w')) \<and> se_id s' = se_id s \<and>
    retry_after_seconds info e n = Inr k \<and>
    (\<exists>t. retry_plan_of info e (se_status_details s) n k t = Inr plan) \<and>
    se_status s' = (if pl_final plan then SESSION_TERMINATED else SESSION_RESCHEDULING) \<and>
    se_status_details s' = pl_details plan \<and> se_stop_reason s' = PDict (pl_stop_reason plan)"
proof -
  obtain k t plan s1 w1 w2 where k: "retry_after_seconds info e n = Inr k"
    and plan: "retry_plan_of info e (se_status_details s) n k t = Inr plan"
    and now: "nowM w = (Inr t, w1)"
    and up: "update_session_q s (session_patch0\<lparr>sp_status := Some (if pl_final plan then SESSION_TERMINATED else SESSION_RESCHEDULING),
       sp_status_details := Some (pl_details plan), sp_stop_reason := Some (PDict (pl_stop_reason plan))\<rparr>) w1 = (Inr s1, w2)"
    and an: "announce_failure s1 e [(''transient'', PBool True), (''attempt'', PInt n)]
       (if pl_final plan then ''session.status_terminated'' else ''session.status_rescheduled'')
       (if pl_final plan then SESSION_TERMINATED else SESSION_RESCHEDULING) (PDict (pl_stop_reason plan)) w2 = (Inr (), w')"
    using assms(1,3) by (auto simp: mark_transient_runtime_failure_def mon_simps Let_def)
  have "held s (slog_of (w_db w1))" using assms(2) now by (auto simp: mon_defs)
  note h = update_held [OF up this]
  from announce_held [OF an] h show ?thesis
    using k plan revisedD [of _ s1] revised_details [of _ s1]
    by (fastforce simp: session_patch0_def)
qed

lemma retry_plan_facts:
  assumes "retry_plan_of info e details n k t = Inr plan"
  shows "pl_final plan = (3 \<le> n)" "retry_attempt (pl_details plan) = Inr (n + 1)"
    "n < 3 \<Longrightarrow> stop_reason_type (PDict (pl_stop_reason plan)) = Some ''transient_error'' \<and>
       dget ''retry_after_seconds'' (pl_stop_reason plan) = PInt k"
  using assms
  by (auto simp: retry_plan_of_def res_simps Let_def MAX_TRANSIENT_RETRY_ATTEMPTS_def retry_attempt_def
      stop_reason_type_def por_def)

lemma turn_fail_transient:
  assumes "turn_fail info i e w = (Inr (), w')" "log_ok (slog_of (w_committed w))"
    "get_session i None (w\<lparr>w_db := w_committed w\<rparr>) = (Inr (Some s), w1)"
    "is_transient_runtime_error info e = Inr True" "retry_attempt (se_status_details s) = Inr n"
  obtains s' k where "held s' (slog_of (w_committed w'))" "se_id s' = i" "1 \<le> k" "k \<le> 300"
    "retry_attempt (se_status_details s') = Inr (n + 1)"
    "se_status s' = (if n < 3 then SESSION_RESCHEDULING else SESSION_TERMINATED)"
    "n < 3 \<Longrightarrow> \<exists>d. se_stop_reason s' = PDict d \<and> stop_reason_type (PDict d) = Some ''transient_error'' \<and>
       dget ''retry_after_seconds'' d = PInt k"
proof -
  have g: "w1 = w\<lparr>w_db := w_committed w\<rparr>" "se_id s = i" "held s (slog_of (w_committed w))"
    using get_session_held [OF assms(3)] log_ok_ids [OF assms(2)] by simp_all
  then obtain w2 where mark: "mark_transient_runtime_failure info s e w1 = (Inr (), w2)"
    and pub: "w_committed w' = w_db w2"
    using assms(1,3,4) by (auto simp: turn_fail_def session_scope_def mon_simps commitM_def bindM_def seqM_def
        split: prod.splits sum.splits)
  from mark_transient_held [OF mark _ assms(5)] g obtain s' k plan t where
    s': "held s' (slog_of (w_db w2))" "se_id s' = se_id s" "retry_after_seconds info e n = Inr k"
    "retry_plan_of info e (se_status_details s) n k t = Inr plan"
    "se_status s' = (if pl_final plan then SESSION_TERMINATED else SESSION_RESCHEDULING)"
    "se_status_details s' = pl_details plan" "se_stop_reason s' = PDict (pl_stop_reason plan)" by auto
  note facts = retry_plan_facts [OF s'(4)]
  show thesis
    using that [of s' k] s' facts retry_after_bounds [OF s'(3)] g(2) pub by (simp split: if_splits)
qed

lemma mark_transient_total:
  assumes "settled s w" "retry_attempt (se_status_details s) = Inr n" "retry_after_seconds info e n = Inr k"
    "status_code info e = Inr c" "iso_range (w_clock w (w_ticks w) + k * 1000000)"
  obtains w' where "mark_transient_runtime_failure info s e w = (Inr (), w')"
proof -
  obtain plan where plan: "retry_plan_of info e (se_status_details s) n k (w_clock w (w_ticks w)) = Inr plan"
    using assms(4,5) by (simp add: retry_plan_of_def add_seconds_def iso_range_def Let_def)
  let ?st = "if pl_final plan then SESSION_TERMINATED else SESSION_RESCHEDULING"
  have st: "given (sp_status (session_patch0\<lparr>sp_status := Some ?st, sp_status_details := Some (pl_details plan),
      sp_stop_reason := Some (PDict (pl_stop_reason plan))\<rparr>)) (se_status s) \<in> set SESSION_STATUSES"
    by (simp add: SESSION_STATUSES_def status_defs)
  have "settled s (w\<lparr>w_ticks := Suc (w_ticks w)\<rparr>)" using assms(1) by simp
  from update_total [OF this st] obtain s1 w1 where u: "update_session_q s (session_patch0\<lparr>sp_status := Some ?st,
      sp_status_details := Some (pl_details plan), sp_stop_reason := Some (PDict (pl_stop_reason plan))\<rparr>)
      (w\<lparr>w_ticks := Suc (w_ticks w)\<rparr>) = (Inr s1, w1)" "settled s1 w1" by blast
  obtain w2 where "announce_failure s1 e [(''transient'', PBool True), (''attempt'', PInt n)]
      (if pl_final plan then ''session.status_terminated'' else ''session.status_rescheduled'') ?st
      (PDict (pl_stop_reason plan)) w1 = (Inr (), w2)"
    by (rule announce_total [OF u(2)])
  with u(1) plan assms(2,3) that [of w2] show thesis
    by (simp add: mark_transient_runtime_failure_def mon_defs Let_def)
qed

lemma turn_fail_total:
  assumes "get_session i None (w\<lparr>w_db := w_committed w\<rparr>) = (Inr (Some s), w1)" "log_ok (slog_of (w_committed w))"
    "fresh_ids (w\<lparr>w_db := w_committed w\<rparr>)" "is_transient_runtime_error info e = Inr True"
    "retry_attempt (se_status_details s) = Inr n" "retry_after_seconds info e n = Inr k"
    "iso_range (w_clock w (w_ticks w) + k * 1000000)"
  obtains w' where "turn_fail info i e w = (Inr (), w')"
proof -
  have g: "w1 = w\<lparr>w_db := w_committed w\<rparr>" "held s (slog_of (w_committed w))"
    using get_session_held [OF assms(1)] log_ok_ids [OF assms(2)] by simp_all
  then have "settled s w1" using assms(2,3) by (simp add: settled_def)
  moreover obtain c where "status_code info e = Inr c"
    using assms(4) by (auto simp: is_transient_runtime_error_def res_simps)
  ultimately obtain w2 where "mark_transient_runtime_failure info s e w1 = (Inr (), w2)"
    using mark_transient_total [of s w1 n info e k c] assms(5-7) g(1) by auto
  with assms(1,4) that show thesis
    by (simp add: turn_fail_def session_scope_def mon_defs)
qed

section \<open>Starts\<close>

lemma filter_key:
  "distinct (map key xs) \<Longrightarrow> x \<in> set xs \<Longrightarrow> filter (\<lambda>y. key y = key x \<and> P y) xs = (if P x then [x] else [])"
proof (induction xs)
  case (Cons y ys)
  have "key z \<noteq> key y" if "z \<in> set ys" for z
    using Cons.prems(1) imageI [OF that, of key] by auto
  then have none: "filter (\<lambda>z. key z = key y \<and> P z) ys = []" by (simp add: filter_empty_conv)
  show ?case
  proof (cases "x = y")
    case True
    with none show ?thesis by simp
  next
    case False
    with Cons have "x \<in> set ys" "key y \<noteq> key x" by auto
    with Cons show ?thesis by simp
  qed
qed simp

lemma get_session_of:
  assumes "held s (slog_of (w_db w))" "distinct (map se_id (db_sessions (w_db w)))"
    "se_workspace_id s = ws_of None w"
  shows "get_session (se_id s) None w = (Inr (Some s), w)"
  using filter_key [OF assms(2), of s "\<lambda>x. se_workspace_id x = ws_of None w"] held_mem [OF assms(1)] assms(3)
  by (simp add: get_session_def bindM_def ws_run mon_defs scalar_one_or_none_def)

lemma ws_of_get:
  "get_session i None w = (Inr (Some s), w') \<Longrightarrow> se_workspace_id s = ws_of None w"
proof -
  assume "get_session i None w = (Inr (Some s), w')"
  then have "scalar_one_or_none (filter (\<lambda>s. se_id s = i \<and> se_workspace_id s = ws_of None w) (db_sessions (w_db w))) = Inr (Some s)"
    by (auto simp: get_session_def bindM_def ws_run mon_defs)
  then have "s \<in> set (filter (\<lambda>s. se_id s = i \<and> se_workspace_id s = ws_of None w) (db_sessions (w_db w)))"
    by (simp add: scalar_cases)
  then show ?thesis by simp
qed

lemma workspace_revised: "revised s s' \<Longrightarrow> se_workspace_id s' = se_workspace_id s"
  unfolding revised_def by (drule arg_cong [where f = se_workspace_id]) simp

text \<open>A turn that has started leaves its session running.\<close>

lemma turn_begin_True:
  assumes "turn_begin i w = (Inr True, w')" "log_ok (slog_of (w_committed w))"
  obtains s where "held s (slog_of (w_committed w'))" "se_id s = i" "se_status s = SESSION_RUNNING"
    "se_workspace_id s = ws_of None w" "log_ok (slog_of (w_committed w'))"
proof -
  let ?w = "w\<lparr>w_db := w_committed w\<rparr>"
  obtain s w1 s1 w2 s2 e w3 where run: "get_session i None ?w = (Inr (Some s), w1)"
    "update_session_q s (session_patch0\<lparr>sp_status := Some SESSION_RUNNING, sp_stop_reason := Some (reason ''in_progress'')\<rparr>) w1
       = (Inr s1, w2)"
    "append_event s1 ''session.status_running'' [(''type'', PStr ''session.status_running''), (''status'', PStr SESSION_RUNNING)] w2
       = (Inr (s2, e), w3)"
    "w_committed w' = w_db w3"
    using assms(1)
    by (auto simp: turn_begin_def session_scope_def mon_simps commitM_def split: prod.splits option.splits if_splits)
  have g: "w1 = ?w" "se_id s = i" "held s (slog_of (w_db w1))"
    using get_session_held [OF run(1)] log_ok_ids [OF assms(2)] by simp_all
  note u = update_held [OF run(2) g(3)]
  note a = append_held [OF run(3) conjunct1 [OF u]]
  from u have rev: "revised (patch_session (session_patch0\<lparr>sp_status := Some SESSION_RUNNING,
      sp_stop_reason := Some (reason ''in_progress'')\<rparr>) s) s1" by simp
  from revisedD [OF rev] g(2) have "se_status s1 = SESSION_RUNNING \<and> se_id s1 = i" by (simp add: session_patch0_def)
  moreover from workspace_revised [OF rev] ws_of_get [OF run(1)] have "se_workspace_id s1 = ws_of None w" by simp
  moreover have "log_ok (slog_of (w_committed w'))"
    by (rule publishesD [OF numbered.turn_begin_pub assms])
  ultimately show thesis using that [of s2] a run(4) by auto
qed

section \<open>Ends that wait\<close>

definition awaited :: "string \<Rightarrow> event_row list \<Rightarrow> string \<Rightarrow> bool" where
  "awaited i es a \<longleftrightarrow> (\<exists>e \<in> set es. ev_id e = a \<and> ev_session_id e = i \<and> ev_type e \<in> set REQUIRED_ACTION_TYPES)"

lemma awaited_mono: "awaited i es a \<Longrightarrow> set es \<subseteq> set fs \<Longrightarrow> awaited i fs a"
  by (auto simp: awaited_def)

lemma append_tool_event_run:
  assumes "append_tool_event result e (s, bs) w = (Inr (s1, bs1), w1)" "held s (slog_of (w_db w))"
  shows "held s1 (slog_of (w_db w1)) \<and> se_id s1 = se_id s \<and> (\<exists>new. bs1 = bs @ new \<and>
      list_all (awaited (se_id s) (db_events (w_db w1))) new \<and>
      (is_required_action_event result e (explicit_confirmation result) \<longrightarrow> new \<noteq> [])) \<and>
    set (db_events (w_db w)) \<subseteq> set (db_events (w_db w1))"
proof -
  obtain ty row where ty: "event_type_of e = Inr ty" and ap: "append_event s ty e w = (Inr (s1, row), w1)"
    and bs: "bs1 = (if is_required_action_event result e (explicit_confirmation result) then bs @ [ev_id row] else bs)"
    using assms(1) by (auto simp: append_tool_event_def mon_simps split: prod.splits)
  note h = append_held [OF ap assms(2)]
  from append_event_steps [OF ap assms(2)] have row: "ev_session_id row = se_id s" "ev_type row = ty" by auto
  have "awaited (se_id s) (db_events (w_db w1)) (ev_id row)"
    if "is_required_action_event result e (explicit_confirmation result)"
    using that row h ty by (auto simp: awaited_def is_required_action_event_def event_type_of_def split: pv.splits)
  with h bs show ?thesis by (auto intro!: exI [of _ "if bs1 = bs then [] else [ev_id row]"])
qed

lemma append_tool_events_run:
  assumes "foldM (append_tool_event result) es (s, bs) w = (Inr (s1, bs1), w1)" "held s (slog_of (w_db w))"
  shows "held s1 (slog_of (w_db w1)) \<and> se_id s1 = se_id s \<and> (\<exists>new. bs1 = bs @ new \<and>
      list_all (awaited (se_id s) (db_events (w_db w1))) new \<and>
      (list_ex (\<lambda>e. is_required_action_event result e (explicit_confirmation result)) es \<longrightarrow> new \<noteq> [])) \<and>
    set (db_events (w_db w)) \<subseteq> set (db_events (w_db w1))"
  using assms
proof (induction es arbitrary: s bs w)
  case (Cons e es)
  obtain s2 bs2 w2 where step: "append_tool_event result e (s, bs) w = (Inr (s2, bs2), w2)"
    and rest: "foldM (append_tool_event result) es (s2, bs2) w2 = (Inr (s1, bs1), w1)"
    using Cons.prems(1) by (auto simp: mon_simps)
  from append_tool_event_run [OF step Cons.prems(2)] obtain new1 where
    a: "held s2 (slog_of (w_db w2))" "se_id s2 = se_id s" "bs2 = bs @ new1"
      "list_all (awaited (se_id s) (db_events (w_db w2))) new1"
      "is_required_action_event result e (explicit_confirmation result) \<longrightarrow> new1 \<noteq> []"
      "set (db_events (w_db w)) \<subseteq> set (db_events (w_db w2))" by blast
  from Cons.IH [OF rest a(1)] obtain new2 where
    b: "held s1 (slog_of (w_db w1))" "se_id s1 = se_id s2" "bs1 = bs2 @ new2"
      "list_all (awaited (se_id s2) (db_events (w_db w1))) new2"
      "list_ex (\<lambda>e. is_required_action_event result e (explicit_confirmation result)) es \<longrightarrow> new2 \<noteq> []"
      "set (db_events (w_db w2)) \<subseteq> set (db_events (w_db w1))" by blast
  have "list_all (awaited (se_id s) (db_events (w_db w1))) new1"
    using a(4) b(6) by (auto simp: list_all_iff intro: awaited_mono)
  with a b show ?case by (auto intro!: exI [of _ "new1 @ new2"])
qed simp

lemma pending_of_ids:
  "pending_action_ids (PDict [(''type'', PStr ''requires_action''), (''event_ids'', PList (map PStr ids))]) = remdups ids"
proof -
  have "map py_str (filter (\<lambda>x. x \<noteq> PNone) (map PStr ids)) = ids" by (induction ids) auto
  then show ?thesis by (simp add: pending_action_ids_def is_waiting_for_action_def stop_reason_type_def)
qed

text \<open>What a user can send for an event of each required type.\<close>

lemma answer_exists:
  assumes "ty \<in> set REQUIRED_ACTION_TYPES"
  shows "\<exists>result payload. result \<in> set ACTION_RESULT_EVENTS \<and>
    validate_action_result_matches_blocker result payload ty = Inr ()"
proof (cases "ty = ''agent.custom_tool_use''")
  case True
  then have "validate_action_result_matches_blocker ''user.custom_tool_result'' [] ty = Inr ()"
    by (simp add: validate_action_result_matches_blocker_def raise_if_def)
  then show ?thesis by (force simp: ACTION_RESULT_EVENTS_def)
next
  case False
  with assms have "validate_action_result_matches_blocker ''user.tool_confirmation'' [(''result'', PStr ''allow'')] ty = Inr ()"
    by (auto simp: validate_action_result_matches_blocker_def raise_if_def REQUIRED_ACTION_TYPES_def in_set_def)
  then show ?thesis by (force simp: ACTION_RESULT_EVENTS_def)
qed

lemma turn_finish_waits:
  assumes "turn_finish i history result w = (Inr (), w')" "log_ok (slog_of (w_committed w))"
    "get_session i None (w\<lparr>w_db := w_committed w\<rparr>) = (Inr (Some s), w1)"
    "se_status s = SESSION_RUNNING" "\<not> is_waiting_for_action (se_stop_reason s)"
    "rr_requires_action result" "well_asked result"
  obtains s' where "held s' (slog_of (w_committed w'))" "se_id s' = i" "se_status s' = SESSION_IDLE"
    "pending_action_ids (se_stop_reason s') \<noteq> []"
    "list_all (awaited i (db_events (w_committed w'))) (pending_action_ids (se_stop_reason s'))"
proof -
  have g: "w1 = w\<lparr>w_db := w_committed w\<rparr>" "se_id s = i" "held s (slog_of (w_db w1))"
    using get_session_held [OF assms(3)] log_ok_ids [OF assms(2)] by simp_all
  obtain s1 blocking w2 s2 w3 s3 e w4 where
    fold: "foldM (append_tool_event result) (rr_tool_events result) (s, []) w1 = (Inr (s1, blocking), w2)"
    and up: "update_session_q s1 (idle_patch result (status_details_without_runtime_retry (se_status_details s1))
      (PDict [(''type'', PStr ''requires_action''), (''event_ids'', PList (map PStr blocking))])) w2 = (Inr s2, w3)"
    and ap: "append_event s2 ''session.status_idle'' (idle_event (PDict [(''type'', PStr ''requires_action''),
      (''event_ids'', PList (map PStr blocking))]) (rr_usage result)) w3 = (Inr (s3, e), w4)"
    and w': "w_committed w' = w_db w4"
    using assms(1,3-6)
    by (auto simp: turn_finish_def session_scope_def mon_simps finish_requires_action_def go_idle_def commitM_def
        split: prod.splits)
  from append_tool_events_run [OF fold g(3)] assms(6,7) g(2) have
    a: "held s1 (slog_of (w_db w2))" "se_id s1 = i" "list_all (awaited i (db_events (w_db w2))) blocking" "blocking \<noteq> []"
    by (auto simp: well_asked_def)
  note u = update_held [OF up a(1)]
  note p = append_held [OF ap conjunct1 [OF u]]
  from u have rev: "revised (patch_session (idle_patch result (status_details_without_runtime_retry (se_status_details s1))
      (PDict [(''type'', PStr ''requires_action''), (''event_ids'', PList (map PStr blocking))])) s1) s2" by simp
  have s3: "se_id s3 = i" "se_status s3 = SESSION_IDLE" "pending_action_ids (se_stop_reason s3) = remdups blocking"
    using p revisedD [OF rev] a(2) by (auto simp: idle_patch_def pending_of_ids)
  have "set (db_events (w_db w2)) \<subseteq> set (db_events (w_db w4))" using u p by auto
  with a(3) have "list_all (awaited i (db_events (w_db w4))) blocking"
    by (auto simp: list_all_iff intro: awaited_mono)
  with that [of s3] s3 p a(4) w' show thesis by (simp add: list_all_iff)
qed

lemma append_tool_events_total:
  assumes "list_all (\<lambda>e. \<exists>t. dget ''type'' e = PStr t) es" "settled s w"
  obtains s1 bs1 w1 where "foldM (append_tool_event result) es (s, bs) w = (Inr (s1, bs1), w1)" "settled s1 w1"
proof -
  have "\<exists>s1 bs1 w1. foldM (append_tool_event result) es (s, bs) w = (Inr (s1, bs1), w1) \<and> settled s1 w1"
    using assms
  proof (induction es arbitrary: s bs w)
    case (Cons e es)
    then obtain t where t: "event_type_of e = Inr t" by (auto simp: event_type_of_def)
    obtain s1 row w1 where ap: "append_event s t e w = (Inr (s1, row), w1)" "settled s1 w1"
      by (rule append_total [OF Cons.prems(2), where ty = t and p = e])
    obtain s2 bs2 w2 where "foldM (append_tool_event result) es (s1, if is_required_action_event result e
        (explicit_confirmation result) then bs @ [ev_id row] else bs) w1 = (Inr (s2, bs2), w2)" "settled s2 w2"
      using Cons.IH [OF _ ap(2)] Cons.prems(1) by fastforce
    moreover have "append_tool_event result e (s, bs) w = (Inr (s1, if is_required_action_event result e
        (explicit_confirmation result) then bs @ [ev_id row] else bs), w1)"
      using ap(1) t by (simp add: append_tool_event_def mon_defs)
    ultimately show ?case by auto
  qed (simp add: mon_defs)
  with that show thesis by blast
qed

lemma turn_finish_total:
  assumes "get_session i None (w\<lparr>w_db := w_committed w\<rparr>) = (Inr (Some s), w1)" "log_ok (slog_of (w_committed w))"
    "fresh_ids (w\<lparr>w_db := w_committed w\<rparr>)" "se_status s = SESSION_RUNNING"
    "\<not> is_waiting_for_action (se_stop_reason s)" "rr_requires_action result" "well_asked result"
  obtains w' where "turn_finish i history result w = (Inr (), w')"
proof -
  have g: "w1 = w\<lparr>w_db := w_committed w\<rparr>" "held s (slog_of (w_committed w))"
    using get_session_held [OF assms(1)] log_ok_ids [OF assms(2)] by simp_all
  then have st: "settled s w1" using assms(2,3) by (simp add: settled_def)
  from assms(7) have typed: "list_all (\<lambda>e. \<exists>t. dget ''type'' e = PStr t) (rr_tool_events result)"
    by (simp add: well_asked_def)
  obtain s1 bs w2 where f: "foldM (append_tool_event result) (rr_tool_events result) (s, []) w1 = (Inr (s1, bs), w2)"
    "settled s1 w2"
    by (rule append_tool_events_total [OF typed st, where result = result and bs = "[]"])
  let ?why = "PDict [(''type'', PStr ''requires_action''), (''event_ids'', PList (map PStr bs))]"
  let ?p = "idle_patch result (status_details_without_runtime_retry (se_status_details s1)) ?why"
  have "given (sp_status ?p) (se_status s1) \<in> set SESSION_STATUSES"
    by (simp add: idle_patch_def SESSION_STATUSES_def SESSION_IDLE_def)
  from update_total [OF f(2) this] obtain s2 w3 where u: "update_session_q s1 ?p w2 = (Inr s2, w3)" "settled s2 w3" by blast
  obtain s3 e w4 where "append_event s2 ''session.status_idle'' (idle_event ?why (rr_usage result)) w3 = (Inr (s3, e), w4)"
    by (rule append_total [OF u(2), where ty = "''session.status_idle''" and p = "idle_event ?why (rr_usage result)"])
  with f(1) u(1) assms(1,4-6) that show thesis
    by (simp add: turn_finish_def session_scope_def mon_defs finish_requires_action_def go_idle_def)
qed

section \<open>Properties\<close>


definition timeout_error :: exc where
  "timeout_error = External ''APITimeoutError'' ''timed out'' 0"

lemma timeout_transient: "is_transient_runtime_error (\<lambda>_. no_info) timeout_error = Inr True"
proof -
  have "str_contains ''timeout'' (py_lower ''APITimeoutError'')" by code_simp
  then show ?thesis
    by (simp add: is_transient_runtime_error_def status_code_def tolerant_def info_of_def no_info_def
        timeout_error_def TRANSIENT_MARKERS_def exc_class_def del: str_contains.simps)
qed

lemma timeout_backoff:
  "retry_attempt [] = Inr 1" "retry_after_seconds (\<lambda>_. no_info) timeout_error 1 = Inr 5"
  by (simp_all add: retry_attempt_def por_def retry_after_seconds_def positive_int_def tolerant_def int_float_def
      info_of_def no_info_def timeout_error_def DEFAULT_RETRY_AFTER_SECONDS_def MAX_RETRY_AFTER_SECONDS_def)

lemma ended_get:
  "get_session ''sess_1'' None (ended_world\<lparr>w_db := w_committed ended_world\<rparr>)
     = (Inr (Some ended_session), ended_world\<lparr>w_db := w_committed ended_world\<rparr>)"
  by (simp add: get_session_def bindM_def ws_run mon_defs scalar_one_or_none_def ended_world_def ended_session_def
      session0_def db0_def world0_def ws_of_def workspace_id_or_default_def DEFAULT_WORKSPACE_ID_def)

lemma nat_str_inj: "inj nat_str"
  by (rule inj_on_inverseI [of _ "\<lambda>s. the (parse_nat s)"]) simp

lemma ended_fresh: "fresh_ids (ended_world\<lparr>w_db := w_committed ended_world\<rparr>)"
  by (simp add: fresh_ids_def ended_world_def db0_def world0_def nat_str_inj)

lemma ended_clock: "iso_range (w_clock ended_world (w_ticks ended_world) + 5 * 1000000)"
proof -
  have "days_before 9999 = 3652059" by (simp add: days_before_def)
  then show ?thesis by (simp add: iso_range_def ended_world_def world0_def)
qed

lemma ended_details: "se_status_details ended_session = []"
  by (simp add: ended_session_def session0_def)




text \<open>
  C4: a turn that has started a session excludes another one. Until something else is committed, a
  second start finds the session running, reports that it did not start and changes nothing.
\<close>

theorem turn_start_exclusive:
  assumes "turn_begin i w = (Inr True, w1)" "log_ok (slog_of (w_committed w))"
    "w_committed w2 = w_committed w1" "w_workspace w2 = w_workspace w"
  shows "\<exists>w3. turn_begin i w2 = (Inr False, w3) \<and> w_committed w3 = w_committed w1"
proof -
  obtain s where s: "held s (slog_of (w_committed w1))" "se_id s = i" "se_status s = SESSION_RUNNING"
    "se_workspace_id s = ws_of None w" "log_ok (slog_of (w_committed w1))"
    by (rule turn_begin_True [OF assms(1,2)])
  have "ws_of None w = ws_of None (w2\<lparr>w_db := w_committed w1\<rparr>)"
    using assms(4) by (simp add: ws_of_def workspace_id_or_default_def mon_defs)
  with get_session_of [of s "w2\<lparr>w_db := w_committed w1\<rparr>"] s log_ok_ids [OF s(5)]
  have "get_session i None (w2\<lparr>w_db := w_committed w1\<rparr>) = (Inr (Some s), w2\<lparr>w_db := w_committed w1\<rparr>)" by simp
  with s(3) assms(3) show ?thesis
    by (simp add: turn_begin_def session_scope_def mon_defs can_start_work_def RUNNABLE_STATUSES_def status_defs)
qed

definition idle_world :: world where
  "idle_world = world0\<lparr>w_committed := db0\<lparr>db_sessions := [session0]\<rparr>\<rparr>"

lemma idle_ok: "log_ok (slog_of (w_committed idle_world))"
  by (simp add: log_ok_def slog_of_def idle_world_def session0_def db0_def numbered_row_def events_of_def
      SESSION_STATUSES_def)

lemma idle_starts: "\<exists>w1. turn_begin ''sess_1'' idle_world = (Inr True, w1)"
proof -
  let ?w = "idle_world\<lparr>w_db := w_committed idle_world\<rparr>"
  have get: "get_session ''sess_1'' None ?w = (Inr (Some session0), ?w)"
    by (simp add: get_session_def bindM_def ws_run mon_defs scalar_one_or_none_def idle_world_def
        session0_def db0_def world0_def ws_of_def workspace_id_or_default_def DEFAULT_WORKSPACE_ID_def)
  have "held session0 (slog_of (w_db ?w))" by (simp add: held_def find_by_def idle_world_def)
  then have st: "settled session0 ?w"
    using idle_ok by (simp add: settled_def fresh_ids_def idle_world_def db0_def world0_def nat_str_inj)
  obtain s1 v1 where u: "update_session_q session0 (session_patch0\<lparr>sp_status := Some SESSION_RUNNING,
      sp_stop_reason := Some (reason ''in_progress'')\<rparr>) ?w = (Inr s1, v1)" "settled s1 v1"
    by (rule update_total [OF st, where p = "session_patch0\<lparr>sp_status := Some SESSION_RUNNING,
        sp_stop_reason := Some (reason ''in_progress'')\<rparr>"]) (simp add: SESSION_STATUSES_def SESSION_RUNNING_def)
  obtain s2 e v2 where "append_event s1 ''session.status_running'' [(''type'', PStr ''session.status_running''),
      (''status'', PStr SESSION_RUNNING)] v1 = (Inr (s2, e), v2)"
    by (rule append_total [OF u(2), where ty = "''session.status_running''"
        and p = "[(''type'', PStr ''session.status_running''), (''status'', PStr SESSION_RUNNING)]"])
  with get u(1) show ?thesis
    by (simp add: turn_begin_def session_scope_def mon_defs can_start_work_def RUNNABLE_STATUSES_def status_defs
        session0_def)
qed

theorem turn_start_exclusive_witness:
  "\<exists>w1 w3. turn_begin ''sess_1'' idle_world = (Inr True, w1) \<and>
    turn_begin ''sess_1'' (idle_world\<lparr>w_committed := w_committed w1\<rparr>) = (Inr False, w3) \<and> w_committed w3 = w_committed w1"
proof -
  obtain w1 where run: "turn_begin ''sess_1'' idle_world = (Inr True, w1)" using idle_starts by blast
  from turn_start_exclusive [OF run idle_ok, of "idle_world\<lparr>w_committed := w_committed w1\<rparr>"] run
  show ?thesis by simp
qed


definition no_sdk :: "(unit, unit, unit) sdk" where
  "no_sdk = \<lparr>sk_import = Some (External ''ImportError'' [] 0),
     sk_tools = \<lparr>sk_web_search = (\<lambda>_. Inr ()), sk_file_search = (\<lambda>_. Inr ()), sk_code_interpreter = (\<lambda>_. Inr ()),
       sk_hosted_mcp = (\<lambda>_. Inr ()), sk_image_generation = (\<lambda>_. Inr ())\<rparr>,
     sk_settings_fields = [], sk_model_settings = (\<lambda>_. Inr ()), sk_unix_config = (\<lambda>_. Inr ()),
     sk_run = (\<lambda>_. Inl TypeError)\<rparr>"

definition greeting :: event_row where
  "greeting = \<lparr>ev_id = ''evt_m'', ev_workspace_id = ''wrkspc_default'', ev_session_id = ''sess_1'', ev_seq = 1,
     ev_type = ''user.message'', ev_source = ''user'', ev_payload = [(''content'', PStr ''hi'')], ev_created_at = 0\<rparr>"

definition tool_turn :: turn_input where
  "tool_turn = \<lparr>ti_version = demo_version\<lparr>av_tools := [PDict [(''type'', PStr ''custom''), (''name'', PStr ''t'')]]\<rparr>,
     ti_history = [greeting], ti_env_config = [], ti_context = []\<rparr>"

lemma tool_turn_asks:
  "\<exists>result. execute_turn no_sdk (\<lambda>_. None) (default_settings\<lparr>st_oma_runtime_backend := ''local''\<rparr>) tool_turn = Inr result \<and>
     rr_requires_action result"
proof -
  have "custom_tool (PDict [(''type'', PStr ''custom''), (''name'', PStr ''t'')]) = Some [(''type'', PStr ''custom''), (''name'', PStr ''t'')]"
    by code_simp
  then have "first_custom_tool (av_tools (ti_version tool_turn)) = Some [(''type'', PStr ''custom''), (''name'', PStr ''t'')]"
    by (simp add: first_custom_tool_def tool_turn_def List.map_filter_def)
  moreover have "latest_user_text (ti_history tool_turn) = Inr ''hi''"
    by (simp add: latest_user_text_def tool_turn_def greeting_def text_from_payload_def)
  moreover have "latest_user_action_event (ti_history tool_turn) = None"
    by (simp add: latest_user_action_event_def tool_turn_def greeting_def startswith_def)
  moreover obtain plan where "sandbox_plan_from_environment (sk_unix_config no_sdk) (ti_env_config tool_turn) = Inr plan"
    by (simp add: sandbox_plan_from_environment_def environment_policy_summary_def networking_summary_def
        package_summary_def resource_summary_def tool_turn_def por_def is_unhashable_def Let_def py_dict_def
        list_or_empty_def dict_or_empty_def raise_if_def)
  ultimately show ?thesis
    by (simp add: execute_turn_def execute_def chosen_backend_def execute_local_def local_answer_def local_result_def
        Let_def)
qed

definition running_world :: world where
  "running_world = world0\<lparr>w_committed := db0\<lparr>db_sessions := [session0\<lparr>se_status := SESSION_RUNNING\<rparr>]\<rparr>\<rparr>"


text \<open>
  C5: what a turn produced is dropped when the session has left the running state meanwhile: the end
  of the turn then writes nothing.
\<close>

theorem late_result_dropped:
  assumes "get_session i None (w\<lparr>w_db := w_committed w\<rparr>) = (Inr (Some s), w1)" "se_status s \<noteq> SESSION_RUNNING"
  shows "\<exists>w'. turn_finish i history result w = (Inr (), w') \<and> w_committed w' = w_committed w \<and> w_objects w' = w_objects w"
proof -
  have "w1 = w\<lparr>w_db := w_committed w\<rparr>"
    using assms(1) by (auto simp: get_session_def mon_simps dbM_def workspace_id_or_default_def)
  with assms show ?thesis by (simp add: turn_finish_def session_scope_def mon_defs)
qed

theorem late_result_dropped_witness:
  "\<forall>result. \<exists>w'. turn_finish ''sess_1'' [] result ended_world = (Inr (), w') \<and> w_committed w' = w_committed ended_world
    \<and> w_objects w' = w_objects ended_world"
  by (rule allI, rule late_result_dropped [OF ended_get]) (simp add: ended_session_def status_defs)

end
