(* ===== verification/EventFacts.thy ===== *)
theory EventFacts
  imports TurnFacts
begin

text \<open>
  What the event endpoints promise: results of actions are taken once and only for what the session
  waits for, a stream delivers the events of a session in order without a gap, and the overlay of an
  agent is used by the next turn in the form it was checked in. Two limits are shown as well: a blocking
  event behind the first thousand cannot be answered, and the stream of a thread can stall for good.
\<close>

section \<open>Reading the log\<close>

text \<open>What a query of events reads of a well-formed log: the events after a number, up to a limit.\<close>

lemma map_upto_Cons: "map f (e # es) = [b..n] \<Longrightarrow> f e = b \<and> map f es = [b + 1..n]"
  by (cases "b \<le> n") (simp_all add: upto.simps)

lemma filter_upto:
  assumes "map f es = [b..n]"
  shows "filter (\<lambda>e. c < f e) es = drop (nat (c + 1 - b)) es" "filter (\<lambda>e. f e \<le> c) es = take (nat (c + 1 - b)) es"
proof -
  show "filter (\<lambda>e. c < f e) es = drop (nat (c + 1 - b)) es"
    using assms
  proof (induction es arbitrary: b)
    case (Cons e es)
    note e = map_upto_Cons [OF Cons.prems]
    show ?case
    proof (cases "c < b")
      case True
      have "nat (c + 1 - (b + 1)) = 0" "nat (c + 1 - b) = 0" using True by simp_all
      with Cons.IH [of "b + 1"] e True show ?thesis by simp
    next
      case False
      then have "nat (c + 1 - b) = Suc (nat (c + 1 - (b + 1)))" by simp
      with Cons.IH [of "b + 1"] e False show ?thesis by simp
    qed
  qed simp
  show "filter (\<lambda>e. f e \<le> c) es = take (nat (c + 1 - b)) es"
    using assms
  proof (induction es arbitrary: b)
    case (Cons e es)
    note e = map_upto_Cons [OF Cons.prems]
    show ?case
    proof (cases "c < b")
      case True
      have "nat (c + 1 - (b + 1)) = 0" "nat (c + 1 - b) = 0" using True by simp_all
      with Cons.IH [of "b + 1"] e True show ?thesis by simp
    next
      case False
      then have "nat (c + 1 - b) = Suc (nat (c + 1 - (b + 1)))" by simp
      with Cons.IH [of "b + 1"] e False show ?thesis by simp
    qed
  qed simp
qed

lemma filter_upto_take:
  assumes "map f es = [1..n]" "0 \<le> a"
  shows "take k (filter (\<lambda>e. a < f e) es) = filter (\<lambda>e. a < f e \<and> f e \<le> a + int k) es"
proof -
  have "filter (\<lambda>e. a < f e \<and> f e \<le> a + int k) es = filter (\<lambda>e. a < f e) (filter (\<lambda>e. f e \<le> a + int k) es)"
    by (simp add: conj_commute)
  also have "\<dots> = filter (\<lambda>e. a < f e) (take (nat (a + int k)) es)"
    by (simp add: filter_upto(2) [OF assms(1)])
  also have "\<dots> = drop (nat a) (take (nat (a + int k)) es)"
  proof -
    have "map f (take (nat (a + int k)) es) = [1..min n (a + int k)]"
    proof -
      have "map f (take (nat (a + int k)) es) = take (nat (a + int k)) [1..n]" by (simp add: assms(1) [symmetric] take_map)
      also have "\<dots> = filter (\<lambda>x. x \<le> a + int k) [1..n]" using filter_upto(2) [of "\<lambda>x. x" "[1..n]" 1 n "a + int k"] by simp
      finally have "set (map f (take (nat (a + int k)) es)) = {x. 1 \<le> x \<and> x \<le> n \<and> x \<le> a + int k}"
        "sorted (map f (take (nat (a + int k)) es))" "distinct (map f (take (nat (a + int k)) es))"
        by (auto simp: sorted_wrt_filter)
      then show ?thesis by (intro sorted_distinct_set_unique) auto
    qed
    from filter_upto(1) [OF this, of a] show ?thesis by simp
  qed
  also have "\<dots> = take k (drop (nat a) es)"
    using assms(2) by (simp add: drop_take nat_add_distrib)
  finally show ?thesis by (simp add: filter_upto(1) [OF assms(1)])
qed

lemma session_events_numbered:
  assumes "log_ok (slog_of d)" "held s (slog_of d)" "0 \<le> a"
  shows "session_events (se_id s) (se_workspace_id s) a k (db_events d)
    = filter (\<lambda>e. a < ev_seq e \<and> ev_seq e \<le> a + int k) (events_of (se_id s) (db_events d))"
proof -
  let ?es = "events_of (se_id s) (db_events d)"
  have "numbered_row (db_events d) s" using assms(1,2) by (auto simp: log_ok_def dest: held_mem)
  then have n: "map ev_seq ?es = [1..se_last_event_seq s]" and ws: "\<forall>e \<in> set ?es. ev_workspace_id e = se_workspace_id s"
    by (auto simp: numbered_row_def)
  have "filter (\<lambda>e. ev_session_id e = se_id s \<and> ev_workspace_id e = se_workspace_id s \<and> a < ev_seq e) (db_events d)
      = filter (\<lambda>e. a < ev_seq e) ?es"
    using ws by (auto simp: events_of_def intro!: filter_cong)
  moreover have "sorted (map ev_seq (filter (\<lambda>e. a < ev_seq e) ?es))"
    unfolding filter_upto(1) [OF n] drop_map [symmetric] n by (rule sorted_wrt_drop) simp
  ultimately show ?thesis
    using filter_upto_take [OF n assms(3)] by (simp add: session_events_def limit_rows_def sort_key_id_if_sorted)
qed

section \<open>The stream\<close>

definition between :: "int \<Rightarrow> int \<Rightarrow> event_row list \<Rightarrow> event_row list" where
  "between a b es = filter (\<lambda>e. a < ev_seq e \<and> ev_seq e \<le> b) es"

lemma between_join:
  assumes "map ev_seq es = [1..n]" "0 \<le> a" "a \<le> b" "b \<le> c"
  shows "between a b es @ between b c es = between a c es"
proof -
  have dt: "between x y es = drop (nat x) (take (nat y) es)" if "0 \<le> x" "x \<le> y" for x y
  proof -
    have "between x y es = take (nat (y - x)) (drop (nat x) es)"
      using filter_upto_take [OF assms(1) that(1), of "nat (y - x)"] that filter_upto(1) [OF assms(1), of x]
      by (simp add: between_def)
    with that show ?thesis by (simp add: drop_take nat_diff_distrib)
  qed
  have "take (nat b) es @ drop (nat b) (take (nat c) es) = take (nat c) es"
    using assms(4) by (metis append_take_drop_id min.absorb1 nat_mono take_take)
  then have "drop (nat a) (take (nat b) es @ drop (nat b) (take (nat c) es)) = drop (nat a) (take (nat c) es)" by simp
  then show ?thesis
    using assms(2-4) dt by (cases "length es \<le> nat b")
      (auto simp: drop_append not_le min_def split: if_splits)
qed

lemma stream_get:
  assumes "get_session i None (w\<lparr>w_db := w_committed w\<rparr>) = (Inr (Some s), w1)" "log_ok (slog_of (w_committed w))"
    "se_deleted_at s = None" "0 \<le> a"
  shows "stream_step i None a w =
    (Inr (let es = between a (a + 100) (events_of i (db_events (w_committed w))) in
      if es = [] then \<lparr>sr_output = [ping_chunk], sr_next = Some a, sr_sleeps = True\<rparr>
      else \<lparr>sr_output = map event_to_sse es, sr_next = Some (ev_seq (last es)), sr_sleeps = False\<rparr>),
     w\<lparr>w_db := w_committed w\<rparr>)"
proof -
  have g: "w1 = w\<lparr>w_db := w_committed w\<rparr>" "se_id s = i" "held s (slog_of (w_committed w))"
    using get_session_held [OF assms(1)] log_ok_ids [OF assms(2)] by simp_all
  have "se_workspace_id s = ws_of None w1" using ws_of_get [OF assms(1)] g(1) by simp
  then have "list_events i a 100 None w1 = (Inr (between a (a + 100) (events_of i (db_events (w_committed w)))), w1)"
    using session_events_numbered [OF assms(2) g(3) assms(4), of 100] g(1,2)
    by (simp add: list_events_def bindM_def ws_run mon_defs between_def)
  with assms(1,3) g(1) show ?thesis
    by (simp add: stream_step_def session_scope_def mon_defs stream_filter_def Let_def)
qed

lemma between_seqs:
  assumes "map ev_seq es = [1..n]" "0 \<le> a"
  shows "map ev_seq (between a b es) = [a + 1..min n b]"
proof -
  have "map ev_seq (between a b es) = filter (\<lambda>x. a < x \<and> x \<le> b) [1..n]"
    unfolding between_def assms(1) [symmetric] by (simp add: filter_map o_def)
  also have "\<dots> = [a + 1..min n b]"
    using assms(2) by (intro sorted_distinct_set_unique) (auto simp: sorted_wrt_filter)
  finally show ?thesis .
qed

lemma between_empty:
  assumes "map ev_seq es = [1..n]" "0 \<le> a" "between a (a + 100) es = []"
  shows "between a b es = []"
proof -
  have "[a + 1..min n (a + 100)] = []" using between_seqs [OF assms(1,2), of "a + 100"] assms(3) by simp
  then have "n \<le> a" by (simp add: upto.simps split: if_splits)
  then have "[a + 1..min n b] = []" by simp
  with between_seqs [OF assms(1,2), of b] show ?thesis by simp
qed

lemma between_last:
  assumes "map ev_seq es = [1..n]" "0 \<le> a" "between a b es \<noteq> []"
  shows "ev_seq (last (between a b es)) = min n b"
proof -
  have "[a + 1..min n b] \<noteq> []" using between_seqs [OF assms(1,2), of b] assms(3) by auto
  then have "a + 1 \<le> min n b" by (meson upto_Nil not_le)
  then have "last [a + 1..min n b] = min n b" using upto_rec2 [of "a + 1" "min n b"] by simp
  with between_seqs [OF assms(1,2), of b] assms(3) show ?thesis by (simp add: last_map [symmetric])
qed

lemma numbered_events:
  assumes "log_ok l" "held s l"
  shows "map ev_seq (events_of (se_id s) (snd l)) = [1..se_last_event_seq s]"
  using assms by (auto simp: log_ok_def numbered_row_def dest: held_mem)

lemma stream_rounds_run:
  assumes "get_session i None (w\<lparr>w_db := w_committed w\<rparr>) = (Inr (Some s), w1)" "log_ok (slog_of (w_committed w))"
    "se_deleted_at s = None" "0 \<le> a"
  shows "\<exists>m w'. stream_rounds n (\<lambda>_ d. d) i None a w = (Inr (map event_to_sse
      (between a (a + 100 * int n) (events_of i (db_events (w_committed w)))) @ replicate m ping_chunk), w')"
  using assms(1,2,4)
proof (induction n arbitrary: a w w1)
  case 0
  then show ?case by (simp add: mon_defs between_def)
next
  case (Suc n)
  let ?es = "events_of i (db_events (w_committed w))" and ?v = "w\<lparr>w_db := w_committed w\<rparr>"
  have g: "w1 = ?v" "se_id s = i" "held s (slog_of (w_committed w))"
    using get_session_held [OF Suc.prems(1)] log_ok_ids [OF Suc.prems(2)] by simp_all
  have es: "map ev_seq ?es = [1..se_last_event_seq s]"
    using numbered_events [OF Suc.prems(2) g(3)] g(2) by simp
  note step = stream_get [OF Suc.prems(1,2) assms(3) Suc.prems(3)]
  have more: "stream_rounds (Suc n) (\<lambda>_ d. d) i None a w = (case sr_next r of None \<Rightarrow> (Inr (sr_output r), ?v)
      | Some next \<Rightarrow> bindM (stream_rounds n (\<lambda>_ d. d) i None next) (\<lambda>rest. returnM (sr_output r @ rest)) ?v)"
    if "stream_step i None a w = (Inr r, ?v)" for r
    using that by (simp add: mon_defs split: option.split)
  have IH: "\<exists>m w'. stream_rounds n (\<lambda>_ d. d) i None b ?v = (Inr (map event_to_sse
      (between b (b + 100 * int n) ?es) @ replicate m ping_chunk), w')" if "0 \<le> b" for b
    using Suc.IH [of ?v w1 b] Suc.prems(1,2) that by simp
  show ?case
  proof (cases "between a (a + 100) ?es = []")
    case True
    from IH [OF Suc.prems(3)] obtain m w' where "stream_rounds n (\<lambda>_ d. d) i None a ?v = (Inr (map event_to_sse
      (between a (a + 100 * int n) ?es) @ replicate m ping_chunk), w')" by blast
    with more step True have "stream_rounds (Suc n) (\<lambda>_ d. d) i None a w = (Inr (replicate (Suc m) ping_chunk), w')"
      using between_empty [OF es Suc.prems(3) True] by (simp add: mon_defs)
    with between_empty [OF es Suc.prems(3) True] show ?thesis by (metis append_Nil list.map(1))
  next
    case False
    define b where "b = min (se_last_event_seq s) (a + 100)"
    have b: "ev_seq (last (between a (a + 100) ?es)) = b" unfolding b_def by (rule between_last [OF es Suc.prems(3) False])
    have ab: "a \<le> b"
      using False between_seqs [OF es Suc.prems(3), of "a + 100"] unfolding b_def by (metis map_is_Nil_conv not_le upto_Nil order.strict_implies_order zless_add1_eq)
    from IH [of b] ab Suc.prems(3) obtain m w' where rest: "stream_rounds n (\<lambda>_ d. d) i None b ?v = (Inr (map event_to_sse
      (between b (b + 100 * int n) ?es) @ replicate m ping_chunk), w')" by auto
    have cut: "between x y ?es = between x (min (se_last_event_seq s) y) ?es" for x y
    proof -
      have "e \<in> set ?es \<Longrightarrow> ev_seq e \<le> se_last_event_seq s" for e
        using es by (metis atLeastAtMost_iff image_eqI list.set_map set_upto)
      then show ?thesis unfolding between_def by (auto intro!: filter_cong)
    qed
    have "between a b ?es @ between b (b + 100 * int n) ?es = between a (a + 100 * int (Suc n)) ?es"
    proof -
      have "between a b ?es @ between b (b + 100 * int n) ?es = between a (b + 100 * int n) ?es"
        by (rule between_join [OF es Suc.prems(3) ab]) simp
      also have "\<dots> = between a (a + 100 * int (Suc n)) ?es"
        by (subst (1 2) cut) (simp add: b_def min_def add.assoc)
      finally show ?thesis .
    qed
    moreover have "between a (a + 100) ?es = between a b ?es" by (subst cut) (simp add: b_def)
    ultimately show ?thesis
      using more step False b rest by (auto simp: mon_defs Let_def simp flip: map_append append_assoc)
  qed
qed

section \<open>The stream of a thread\<close>

text \<open>A round of a thread's stream that reads only events of other threads comes back to where it was.\<close>

lemma thread_step_stuck:
  assumes "get_session i None (w\<lparr>w_db := w_committed w\<rparr>) = (Inr (Some s), w1)" "log_ok (slog_of (w_committed w))"
    "se_deleted_at s = None" "0 \<le> a" "between a (a + 100) (events_of i (db_events (w_committed w))) \<noteq> []"
    "list_all (\<lambda>e. \<not> event_belongs_to_thread e t (primary_thread_id s))
       (between a (a + 100) (events_of i (db_events (w_committed w))))"
  shows "stream_step i (Some t) a w = (Inr \<lparr>sr_output = [], sr_next = Some a, sr_sleeps = False\<rparr>, w\<lparr>w_db := w_committed w\<rparr>)"
proof -
  have g: "w1 = w\<lparr>w_db := w_committed w\<rparr>" "se_id s = i" "held s (slog_of (w_committed w))"
    using get_session_held [OF assms(1)] log_ok_ids [OF assms(2)] by simp_all
  have "se_workspace_id s = ws_of None w1" using ws_of_get [OF assms(1)] g(1) by simp
  then have "list_events i a 100 None w1 = (Inr (between a (a + 100) (events_of i (db_events (w_committed w)))), w1)"
    using session_events_numbered [OF assms(2) g(3) assms(4), of 100] g(1,2)
    by (simp add: list_events_def bindM_def ws_run mon_defs between_def)
  moreover have "filter (\<lambda>e. event_belongs_to_thread e t (primary_thread_id s))
      (between a (a + 100) (events_of i (db_events (w_committed w)))) = []"
    using assms(6) by (simp add: filter_empty_conv list_all_iff)
  ultimately show ?thesis
    using assms(1,3,5) g(1) by (simp add: stream_step_def session_scope_def mon_defs stream_filter_def Let_def)
qed

lemma thread_rounds_stuck:
  assumes "get_session i None (w\<lparr>w_db := w_committed w\<rparr>) = (Inr (Some s), w1)" "log_ok (slog_of (w_committed w))"
    "se_deleted_at s = None" "0 \<le> a" "between a (a + 100) (events_of i (db_events (w_committed w))) \<noteq> []"
    "list_all (\<lambda>e. \<not> event_belongs_to_thread e t (primary_thread_id s))
       (between a (a + 100) (events_of i (db_events (w_committed w))))"
  shows "\<exists>w'. stream_rounds n (\<lambda>_ d. d) i (Some t) a w = (Inr [], w')"
  using assms
proof (induction n arbitrary: w w1)
  case (Suc n)
  note step = thread_step_stuck [OF Suc.prems]
  from Suc.IH [of "w\<lparr>w_db := w_committed w\<rparr>"] Suc.prems
  obtain w' where "stream_rounds n (\<lambda>_ d. d) i (Some t) a (w\<lparr>w_db := w_committed w\<rparr>) = (Inr [], w')" by auto
  with step show ?case by (simp add: mon_defs)
qed (simp add: mon_defs)

section \<open>Action results\<close>

lemma one_result:
  assumes "validate_action_result pending history e targets = Inr targets'"
  shows "\<exists>i. targets' = i # targets \<and> action_result_target (ei_type e) (event_payload e) = Some i \<and>
    i \<in> set pending \<and> i \<notin> set (resolved_action_ids history) \<and> i \<notin> set targets \<and>
    (\<exists>b \<in> set history. ev_id b = i \<and>
       validate_action_result_matches_blocker (ei_type e) (event_payload e) (ev_type b) = Inr ())"
  using assms
  by (auto simp: validate_action_result_def res_simps find_Some_iff split: option.splits if_splits)

lemma all_results:
  assumes "foldE (validate_action_result pending history) inputs targets = Inr targets'" "distinct targets"
  shows "\<exists>ids. map (\<lambda>e. action_result_target (ei_type e) (event_payload e)) inputs = map Some ids \<and>
    distinct (rev ids @ targets) \<and> set ids \<subseteq> set pending \<and> set ids \<inter> set (resolved_action_ids history) = {}
    \<and> list_all2 (\<lambda>e i. \<exists>b \<in> set history. ev_id b = i \<and>
       validate_action_result_matches_blocker (ei_type e) (event_payload e) (ev_type b) = Inr ()) inputs ids"
  using assms
proof (induction inputs arbitrary: targets)
  case (Cons e es)
  obtain t1 where step: "validate_action_result pending history e targets = Inr t1"
    and rest: "foldE (validate_action_result pending history) es t1 = Inr targets'"
    using Cons.prems(1) by (auto simp: res_simps)
  from one_result [OF step] obtain i where i: "t1 = i # targets" "action_result_target (ei_type e) (event_payload e) = Some i"
    "i \<in> set pending" "i \<notin> set (resolved_action_ids history)" "i \<notin> set targets"
    "\<exists>b \<in> set history. ev_id b = i \<and>
       validate_action_result_matches_blocker (ei_type e) (event_payload e) (ev_type b) = Inr ()" by blast
  from Cons.IH [OF rest] i(1,5) Cons.prems(2) obtain ids where
    "map (\<lambda>e. action_result_target (ei_type e) (event_payload e)) es = map Some ids"
    "distinct (rev ids @ t1)" "set ids \<subseteq> set pending" "set ids \<inter> set (resolved_action_ids history) = {}"
    "list_all2 (\<lambda>e i. \<exists>b \<in> set history. ev_id b = i \<and>
       validate_action_result_matches_blocker (ei_type e) (event_payload e) (ev_type b) = Inr ()) es ids" by auto
  with i show ?case by (intro exI [of _ "i # ids"]) auto
qed simp

lemma results_of_batch:
  assumes "validate_event_batch s inputs w = (Inr (), w')" "se_status s \<notin> set ACTIVE_STATUSES"
    "is_waiting_for_action (se_stop_reason s)" "map ei_type inputs \<noteq> [''user.interrupt'']"
  shows "filter (\<lambda>e. ei_type e \<noteq> ''system.message'') inputs \<noteq> [] \<and>
    (\<exists>history targets. list_events (se_id s) 0 1000 None w = (Inr history, w) \<and>
       foldE (validate_action_result (pending_action_ids (se_stop_reason s)) history)
         (filter (\<lambda>e. ei_type e \<noteq> ''system.message'') inputs) [] = Inr targets)"
  using assms
  by (auto simp: validate_event_batch_def Let_def mon_simps validate_action_results_def list_events_def ws_run
      dbM_def split: if_splits)

section \<open>The thousand events that are read\<close>

lemma early_in_sorted:
  assumes "sorted (map f xs)" "x \<in> set (take k xs)"
  shows "length (filter (\<lambda>y. f y < f x) xs) < k"
proof -
  obtain j where j: "j < k" "j < length xs" "x = xs ! j" using assms(2) by (auto simp: in_set_conv_nth)
  have "\<not> f y < f x" if y: "y \<in> set (drop j xs)" for y
  proof -
    from y obtain m where m: "m < length xs - j" "drop j xs ! m = y" by (auto simp: in_set_conv_nth)
    have nth: "map f xs ! j = f x" using j(2,3) by simp
    have "map f xs ! (j + m) = f y" using m j(2) by (simp only: nth_drop less_imp_le) simp
    moreover have "map f xs ! j \<le> map f xs ! (j + m)" using m(1) by (intro sorted_nth_mono [OF assms(1)]) simp_all
    ultimately show ?thesis using nth by (simp only: not_less)
  qed
  then have none: "filter (\<lambda>y. f y < f x) (drop j xs) = []" by (simp add: filter_empty_conv)
  have "filter (\<lambda>y. f y < f x) xs = filter (\<lambda>y. f y < f x) (take j xs @ drop j xs)" by simp
  also have "\<dots> = filter (\<lambda>y. f y < f x) (take j xs)" using none by (simp only: filter_append append_Nil2)
  finally have eq: "filter (\<lambda>y. f y < f x) xs = filter (\<lambda>y. f y < f x) (take j xs)" .
  have "length (filter (\<lambda>y. f y < f x) xs) \<le> length (take j xs)" unfolding eq by (rule length_filter_le)
  with j(1) show ?thesis by simp
qed

text \<open>An event with at least \<open>k\<close> earlier events in its session is not among the first \<open>k\<close>.\<close>

lemma late_not_read:
  assumes "k \<le> length (filter (\<lambda>e. ev_session_id e = i \<and> ev_workspace_id e = ws \<and> 0 < ev_seq e \<and> ev_seq e < ev_seq b) es)"
  shows "b \<notin> set (session_events i ws 0 k es)"
proof
  let ?xs = "filter (\<lambda>e. ev_session_id e = i \<and> ev_workspace_id e = ws \<and> 0 < ev_seq e) es"
  assume "b \<in> set (session_events i ws 0 k es)"
  then have "b \<in> set (take k (sort_key ev_seq ?xs))" by (simp add: session_events_def limit_rows_def)
  from early_in_sorted [OF sorted_sort_key this]
  have "length (filter (\<lambda>y. ev_seq y < ev_seq b) (sort_key ev_seq ?xs)) < k" .
  then have "length (filter (\<lambda>y. ev_seq y < ev_seq b) ?xs) < k" by (simp add: filter_sort)
  with assms show False by (simp add: conj_ac)
qed

lemma session_events_subset: "set (session_events i ws a k es) \<subseteq> set es"
  using set_take_subset by (fastforce simp: session_events_def limit_rows_def)

section \<open>The overlay of a session\<close>

definition overlay_lists :: "pdict \<Rightarrow> bool" where
  "overlay_lists details \<longleftrightarrow> (\<exists>overlay. dict_or_empty (dget ''agent'' details) = Inr overlay \<and>
     is_list (dget_or ''tools'' (PList []) overlay) \<and> is_list (dget_or ''mcp_servers'' (PList []) overlay))"

lemma list_entry:
  assumes "is_list (dget_or k (PList []) ov)"
  shows "\<exists>xs. dget_or k (PList d) ov = PList xs \<and> overlaid k ov d = xs"
  using assms by (cases "map_of ov k") (auto simp: dget_or_def overlaid_def dest!: is_listD)

lemma overlay_tools_list:
  assumes "overlay_tools upd ov = Inr o1"
  shows "is_list (dget_or ''tools'' (PList []) ov) \<Longrightarrow> is_list (dget_or ''tools'' (PList []) o1)"
    "dget_or ''mcp_servers'' x o1 = dget_or ''mcp_servers'' x ov"
    "has_key ''tools'' upd \<Longrightarrow> \<exists>ts. dget_or ''tools'' y o1 = PList ts \<and> tools_ok ts"
  using assms
  by (auto simp: overlay_tools_def res_simps split: if_splits pv.splits dest: normalize_tools_ok)

lemma overlay_servers_list:
  assumes "overlay_servers upd ov = Inr o1"
  shows "is_list (dget_or ''mcp_servers'' (PList []) ov) \<Longrightarrow> is_list (dget_or ''mcp_servers'' (PList []) o1)"
    "dget_or ''tools'' x o1 = dget_or ''tools'' x ov"
  using assms by (auto simp: overlay_servers_def split: if_splits pv.splits)

lemma new_overlay_effective:
  assumes "new_overlay v upd details = Inr overlay" "overlay_lists details"
  shows "overlay_lists (dset ''agent'' (PDict overlay) details) \<and>
    validate_mcp_bindings (av_mcp_servers (effective_agent_version v (dset ''agent'' (PDict overlay) details)))
      (av_tools (effective_agent_version v (dset ''agent'' (PDict overlay) details))) = Inr () \<and>
    (if has_key ''tools'' upd then tools_ok (av_tools (effective_agent_version v (dset ''agent'' (PDict overlay) details)))
     else True)"
proof -
  obtain o0 where o0: "dict_or_empty (dget ''agent'' details) = Inr o0"
    "is_list (dget_or ''tools'' (PList []) o0)" "is_list (dget_or ''mcp_servers'' (PList []) o0)"
    using assms(2) by (auto simp: overlay_lists_def)
  obtain o1 servers tools where o1: "overlay_tools upd o0 = Inr o1" "overlay_servers upd o1 = Inr overlay"
    "iter_list (dget_or ''mcp_servers'' (PList (av_mcp_servers v)) overlay) = Inr servers"
    "iter_list (dget_or ''tools'' (PList (av_tools v)) overlay) = Inr tools"
    "validate_mcp_bindings servers tools = Inr ()"
    using assms(1) o0(1) by (auto simp: new_overlay_def res_simps)
  have lists: "is_list (dget_or ''tools'' (PList []) overlay)" "is_list (dget_or ''mcp_servers'' (PList []) overlay)"
    using overlay_tools_list [OF o1(1)] overlay_servers_list [OF o1(2)] o0(2,3) by simp_all
  from list_entry [OF lists(1), of "av_tools v"] o1(4) have t: "overlaid ''tools'' overlay (av_tools v) = tools"
    by (auto simp: iter_list_def)
  from list_entry [OF lists(2), of "av_mcp_servers v"] o1(3)
  have m: "overlaid ''mcp_servers'' overlay (av_mcp_servers v) = servers" by (auto simp: iter_list_def)
  have "tools_ok tools" if "has_key ''tools'' upd"
    using overlay_tools_list(3) [OF o1(1) that, of "PList (av_tools v)"] overlay_servers_list(2) [OF o1(2)] o1(4)
    by (auto simp: iter_list_def)
  with t m o1(5) lists show ?thesis
    by (simp add: overlay_lists_def effective_agent_version_def)
qed

section \<open>Properties\<close>

text \<open>
  C7: the stream of a session that nobody writes to meanwhile delivers, in enough rounds, exactly the
  events after the number it was asked to start from, each once and in order, and then only pings.
\<close>

theorem stream_delivers:
  assumes "get_session i None (w\<lparr>w_db := w_committed w\<rparr>) = (Inr (Some s), w1)" "log_ok (slog_of (w_committed w))"
    "se_deleted_at s = None" "0 \<le> a" "se_last_event_seq s \<le> a + 100 * int n"
  shows "\<exists>m w'. stream_rounds n (\<lambda>_ d. d) i None a w = (Inr (map event_to_sse
      (filter (\<lambda>e. a < ev_seq e) (events_of i (db_events (w_committed w)))) @ replicate m ping_chunk), w')"
proof -
  have g: "se_id s = i" "held s (slog_of (w_committed w))"
    using get_session_held [OF assms(1)] log_ok_ids [OF assms(2)] by simp_all
  have "ev_seq e \<le> a + 100 * int n" if "e \<in> set (events_of i (db_events (w_committed w)))" for e
  proof -
    have "ev_seq e \<in> {1..se_last_event_seq s}"
      using that numbered_events [OF assms(2) g(2)] g(1) by (metis image_eqI list.set_map set_upto slog_updates(7))
    with assms(5) show ?thesis by simp
  qed
  then have "between a (a + 100 * int n) (events_of i (db_events (w_committed w)))
      = filter (\<lambda>e. a < ev_seq e) (events_of i (db_events (w_committed w)))"
    unfolding between_def by (auto intro!: filter_cong)
  with stream_rounds_run [OF assms(1-4), of n] show ?thesis by simp
qed

definition greeted :: session_row where
  "greeted = session0\<lparr>se_last_event_seq := 1\<rparr>"

definition greeted_world :: world where
  "greeted_world = world0\<lparr>w_committed := db0\<lparr>db_sessions := [greeted], db_events := [greeting]\<rparr>\<rparr>"

lemma greeted_ok: "log_ok (slog_of (w_committed greeted_world))"
  by (simp add: log_ok_def slog_of_def greeted_world_def greeted_def session0_def greeting_def db0_def
      numbered_row_def events_of_def SESSION_STATUSES_def)

lemma greeted_get:
  "get_session ''sess_1'' None (greeted_world\<lparr>w_db := w_committed greeted_world\<rparr>)
     = (Inr (Some greeted), greeted_world\<lparr>w_db := w_committed greeted_world\<rparr>)"
  by (simp add: get_session_def bindM_def ws_run mon_defs scalar_one_or_none_def greeted_world_def greeted_def
      session0_def db0_def world0_def ws_of_def workspace_id_or_default_def DEFAULT_WORKSPACE_ID_def)

theorem stream_delivers_witness:
  "\<exists>m w'. stream_rounds 3 (\<lambda>_ d. d) ''sess_1'' None 0 greeted_world
     = (Inr (event_to_sse greeting # replicate m ping_chunk), w')"
proof -
  have "filter (\<lambda>e. 0 < ev_seq e) (events_of ''sess_1'' (db_events (w_committed greeted_world))) = [greeting]"
    by (simp add: events_of_def greeted_world_def greeting_def db0_def)
  with stream_delivers [OF greeted_get greeted_ok, of 0 3] show ?thesis
    by (simp add: greeted_def session0_def del: stream_rounds.simps)
qed

text \<open>
  The stream of a thread stalls when the next hundred events of the session all belong to other
  threads. However many rounds it makes, it yields nothing, not even a ping, and never sleeps or goes
  on to a later event of its own thread.
\<close>

theorem thread_stream_stalls:
  assumes "get_session i None (w\<lparr>w_db := w_committed w\<rparr>) = (Inr (Some s), w1)" "log_ok (slog_of (w_committed w))"
    "se_deleted_at s = None" "0 \<le> a" "between a (a + 100) (events_of i (db_events (w_committed w))) \<noteq> []"
    "list_all (\<lambda>e. \<not> event_belongs_to_thread e t (primary_thread_id s))
       (between a (a + 100) (events_of i (db_events (w_committed w))))"
  shows "(\<exists>w'. stream_rounds n (\<lambda>_ d. d) i (Some t) a w = (Inr [], w')) \<and>
    (\<exists>w'. stream_step i (Some t) a w = (Inr \<lparr>sr_output = [], sr_next = Some a, sr_sleeps = False\<rparr>, w'))"
  using thread_rounds_stuck [OF assms] thread_step_stuck [OF assms] by blast

theorem thread_stream_stalls_witness:
  "\<exists>w'. stream_rounds 1000 (\<lambda>_ d. d) ''sess_1'' (Some ''thrd_2'') 0 greeted_world = (Inr [], w')"
proof -
  have "between 0 (0 + 100) (events_of ''sess_1'' (db_events (w_committed greeted_world))) = [greeting]"
    by (simp add: between_def events_of_def greeted_world_def greeting_def db0_def)
  moreover have "\<not> event_belongs_to_thread greeting ''thrd_2'' (primary_thread_id greeted)"
    by (simp add: event_belongs_to_thread_def event_thread_id_def greeting_def primary_thread_id_def)
  ultimately show ?thesis
    using thread_stream_stalls [OF greeted_get greeted_ok, of 0 "''thrd_2''" 1000]
    by (simp add: greeted_def session0_def del: stream_rounds.simps)
qed

definition asking :: event_row where
  "asking = greeting\<lparr>ev_id := ''evt_a'', ev_type := ''agent.custom_tool_use'', ev_source := ''agent'', ev_payload := []\<rparr>"

definition waiting_session :: session_row where
  "waiting_session = session0\<lparr>se_last_event_seq := 1, se_stop_reason :=
     PDict [(''type'', PStr ''requires_action''), (''event_ids'', PList [PStr ''evt_a''])]\<rparr>"

definition answering :: event_input where
  "answering = \<lparr>ei_type = ''user.custom_tool_result'', ei_fields = [(''custom_tool_use_id'', PStr ''evt_a'')]\<rparr>"

lemma waiting_session_waits:
  "is_waiting_for_action (se_stop_reason waiting_session)" "se_id waiting_session = ''sess_1''"
  "pending_action_ids (se_stop_reason waiting_session) = [''evt_a'']"
  "se_status waiting_session \<notin> set ACTIVE_STATUSES"
  by (simp_all add: waiting_session_def is_waiting_for_action_def stop_reason_type_def pending_action_ids_def
      session0_def ACTIVE_STATUSES_def status_defs)

lemma answering_target: "action_result_target (ei_type answering) (event_payload answering) = Some ''evt_a''"
  by (simp add: action_result_target_def answering_def event_payload_def)


definition asked_world :: world where
  "asked_world = world0\<lparr>w_db := db0\<lparr>db_sessions := [waiting_session], db_events := [asking]\<rparr>\<rparr>"

lemma asked_history: "list_events ''sess_1'' 0 1000 None asked_world = (Inr [asking], asked_world)"
  by (simp add: list_events_def bindM_def ws_run mon_defs session_events_def limit_rows_def asked_world_def db0_def
      asking_def greeting_def world0_def ws_of_def workspace_id_or_default_def DEFAULT_WORKSPACE_ID_def)

lemma answer_accepted: "validate_event_batch waiting_session [answering] asked_world = (Inr (), asked_world)"
proof -
  have "resolved_action_ids [asking] = []"
    by (simp add: resolved_action_ids_def asking_def action_result_target_def List.map_filter_def greeting_def)
  then have "validate_action_result [''evt_a''] [asking] answering [] = Inr [''evt_a'']"
    by (simp add: validate_action_result_def answering_target)
      (simp add: asking_def answering_def validate_action_result_matches_blocker_def raise_if_def)
  then have "validate_action_results waiting_session [answering] asked_world = (Inr (), asked_world)"
    using asked_history by (simp add: validate_action_results_def mon_defs waiting_session_waits)
  moreover have "validate_system_message_batch (map ei_type [answering]) = Inr ()"
    by (simp add: answering_def) code_simp
  moreover have "validate_outcomes [answering] = Inr ()" by (simp add: answering_def validate_outcomes_def)
  ultimately show ?thesis
    using waiting_session_waits by (simp add: validate_event_batch_def mon_defs Let_def)
      (simp add: answering_def ACTION_RESULT_EVENTS_def)
qed


text \<open>
  A blocking event that has a thousand earlier events in its session cannot be answered. Only the
  first thousand events of the session are read, so every batch with a result for it is refused, and
  with it the only way besides an interrupt on which the session goes on.
\<close>

theorem late_action_unanswerable:
  assumes "se_status s \<notin> set ACTIVE_STATUSES" "is_waiting_for_action (se_stop_reason s)"
    "e \<in> set inputs" "ei_type e \<in> set ACTION_RESULT_EVENTS"
    "action_result_target (ei_type e) (event_payload e) = Some (ev_id b)"
    "list_all (\<lambda>e. ev_id e = ev_id b \<longrightarrow> e = b) (db_events (w_db w))"
    "1000 \<le> length (filter (\<lambda>e. ev_session_id e = se_id s \<and> ev_workspace_id e = ws_of None w \<and> 0 < ev_seq e
       \<and> ev_seq e < ev_seq b) (db_events (w_db w)))"
  shows "fst (validate_event_batch s inputs w) \<noteq> Inr ()"
proof
  let ?rs = "filter (\<lambda>e. ei_type e \<noteq> ''system.message'') inputs"
  let ?h = "session_events (se_id s) (ws_of None w) 0 1000 (db_events (w_db w))"
  assume "fst (validate_event_batch s inputs w) = Inr ()"
  then obtain w' where ok: "validate_event_batch s inputs w = (Inr (), w')" by (metis prod.collapse)
  have e: "e \<in> set ?rs" "map ei_type inputs \<noteq> [''user.interrupt'']"
    using assms(3,4) by (auto simp: ACTION_RESULT_EVENTS_def)
  from results_of_batch [OF ok assms(1,2) e(2)] obtain history targets where h:
    "list_events (se_id s) 0 1000 None w = (Inr history, w)"
    "foldE (validate_action_result (pending_action_ids (se_stop_reason s)) history) ?rs [] = Inr targets" by blast
  have hist: "history = ?h" using h(1) by (simp add: list_events_def bindM_def ws_run mon_defs)
  from all_results [OF h(2)] obtain ids where ids:
    "map (\<lambda>e. action_result_target (ei_type e) (event_payload e)) ?rs = map Some ids"
    "list_all2 (\<lambda>e i. \<exists>b \<in> set history. ev_id b = i \<and>
       validate_action_result_matches_blocker (ei_type e) (event_payload e) (ev_type b) = Inr ()) ?rs ids" by auto
  from e(1) obtain n where n: "n < length ?rs" "?rs ! n = e" by (meson in_set_conv_nth)
  have "map (\<lambda>e. action_result_target (ei_type e) (event_payload e)) ?rs ! n = map Some ids ! n" using ids(1) by simp
  with n assms(5) list_all2_lengthD [OF ids(2)] have "ids ! n = ev_id b" by simp
  with list_all2_nthD [OF ids(2) n(1)] obtain c where c: "c \<in> set history" "ev_id c = ev_id b" by auto
  have "c \<in> set (db_events (w_db w))"
    using c(1) hist subsetD [OF session_events_subset [of "se_id s" "ws_of None w" 0 1000 "db_events (w_db w)"]] by simp
  with assms(6) c(2) have "c = b" by (simp add: list_all_iff)
  with c(1) late_not_read [OF assms(7)] hist show False by simp
qed

definition crowd :: "event_row list" where
  "crowd = map (\<lambda>n. greeting\<lparr>ev_id := [], ev_seq := n\<rparr>) [1..1000]"

definition crowded_world :: world where
  "crowded_world = world0\<lparr>w_db := db0\<lparr>db_sessions := [waiting_session], db_events := crowd @ [asking\<lparr>ev_seq := 1001\<rparr>]\<rparr>\<rparr>"

lemma crowd_events: "length crowd = 1000"
  "e \<in> set crowd \<Longrightarrow> ev_id e = [] \<and> ev_session_id e = ''sess_1'' \<and> ev_workspace_id e = ''wrkspc_default'' \<and>
     0 < ev_seq e \<and> ev_seq e < 1001"
  by (auto simp: crowd_def greeting_def)

lemma crowded: "ws_of None crowded_world = ''wrkspc_default''"
  "db_events (w_db crowded_world) = crowd @ [asking\<lparr>ev_seq := 1001\<rparr>]"
  by (simp_all add: ws_of_def workspace_id_or_default_def DEFAULT_WORKSPACE_ID_def mon_defs crowded_world_def world0_def)

theorem late_action_unanswerable_witness:
  "fst (validate_event_batch waiting_session [answering] crowded_world) \<noteq> Inr ()"
proof (rule late_action_unanswerable [where b = "asking\<lparr>ev_seq := 1001\<rparr>" and e = answering])
  show "list_all (\<lambda>e. ev_id e = ev_id (asking\<lparr>ev_seq := 1001\<rparr>) \<longrightarrow> e = asking\<lparr>ev_seq := 1001\<rparr>) (db_events (w_db crowded_world))"
    unfolding crowded list_all_iff using crowd_events(2) by (auto simp: asking_def)
  have "filter (\<lambda>e. ev_session_id e = ''sess_1'' \<and> ev_workspace_id e = ''wrkspc_default'' \<and> 0 < ev_seq e
       \<and> ev_seq e < 1001) crowd = crowd"
    using crowd_events(2) by (intro filter_True) blast
  then show "1000 \<le> length (filter (\<lambda>e. ev_session_id e = se_id waiting_session \<and> ev_workspace_id e = ws_of None crowded_world
      \<and> 0 < ev_seq e \<and> ev_seq e < ev_seq (asking\<lparr>ev_seq := 1001\<rparr>)) (db_events (w_db crowded_world)))"
    by (simp add: crowded waiting_session_waits crowd_events(1))
  show "action_result_target (ei_type answering) (event_payload answering) = Some (ev_id (asking\<lparr>ev_seq := 1001\<rparr>))"
    by (simp add: answering_target) (simp add: asking_def)
qed (simp_all add: waiting_session_waits answering_def ACTION_RESULT_EVENTS_def)


definition toolset_update :: pdict where
  "toolset_update = [(''mcp_servers'', PList []), (''tools'', PList [])]"


end
