(* ===== verification/Agents.thy ===== *)
theory Agents
  imports AgentContract Environments Metadata Pagination
begin

text \<open>
  \<open>app/routers/agents.py\<close> and \<open>app/models/agents.py\<close>: agents as a pointer to the active one of a growing
  list of version snapshots. Creating an agent makes version 1; an update names the version it is based
  on and, when it changes the configuration, adds the next one; archiving makes the agent read-only.
\<close>

section \<open>Requests and responses\<close>

text \<open>
  The fields of a request have the types pydantic checked. An update lists the fields that were given
  (\<^theory_text>\<open>exclude_unset\<close>), except the version, in the order of the model.
\<close>

record agent_create =
  ac_name :: string
  ac_model :: pv
  ac_system :: "string option"
  ac_description :: "string option"
  ac_tools :: "pv list"
  ac_mcp_servers :: "pv list"
  ac_skills :: "pv list"
  ac_multiagent :: pv
  ac_metadata :: pdict
  ac_runtime :: pdict

record agent_update =
  au_version :: int
  au_fields :: pdict

definition version_to_response :: "agent_version_row \<Rightarrow> pdict" where
  "version_to_response v =
     [(''id'', PStr (av_id v)), (''type'', PStr ''agent_version''), (''agent_id'', PStr (av_agent_id v)),
      (''version'', PInt (av_version v)), (''name'', PStr (av_name v)), (''model'', PDict (av_model v)),
      (''system'', pstr_opt (av_system v)), (''description'', pstr_opt (av_description v)),
      (''tools'', PList (av_tools v)), (''mcp_servers'', PList (av_mcp_servers v)), (''skills'', PList (av_skills v)),
      (''multiagent'', av_multiagent v), (''metadata'', PDict (av_metadata v)), (''runtime'', PDict (av_runtime v)),
      (''created_at'', PTime (av_created_at v))]"

definition version_to_agent_response :: "agent_row \<Rightarrow> agent_version_row \<Rightarrow> pdict" where
  "version_to_agent_response a v =
     [(''id'', PStr (ag_id a)), (''type'', PStr ''agent''), (''name'', PStr (av_name v)),
      (''version'', PInt (av_version v)), (''model'', PDict (av_model v)), (''system'', pstr_opt (av_system v)),
      (''description'', pstr_opt (av_description v)), (''tools'', PList (av_tools v)),
      (''mcp_servers'', PList (av_mcp_servers v)), (''skills'', PList (av_skills v)), (''multiagent'', av_multiagent v),
      (''metadata'', PDict (av_metadata v)), (''archived_at'', ptime_opt (ag_archived_at a)),
      (''created_at'', PTime (av_created_at v)), (''updated_at'', PTime (av_updated_at v))]"

definition agent_to_response :: "agent_row \<Rightarrow> agent_version_row \<Rightarrow> pdict" where
  "agent_to_response a v =
     [(''id'', PStr (ag_id a)), (''type'', PStr ''agent''), (''name'', PStr (ag_name a)),
      (''version'', PInt (av_version v)), (''model'', PDict (av_model v)), (''system'', pstr_opt (av_system v)),
      (''description'', pstr_opt (ag_description a)), (''tools'', PList (av_tools v)),
      (''mcp_servers'', PList (av_mcp_servers v)), (''skills'', PList (av_skills v)), (''multiagent'', av_multiagent v),
      (''metadata'', PDict (ag_metadata a)), (''archived_at'', ptime_opt (ag_archived_at a)),
      (''created_at'', PTime (ag_created_at a)), (''updated_at'', PTime (ag_updated_at a))]"

section \<open>Name and model\<close>

definition normalize_agent_name :: "pv \<Rightarrow> string \<Rightarrow> string res" where
  "normalize_agent_name v field_name = (case v of
      PStr s \<Rightarrow> if py_strip s = [] then Inl (HTTPException 422 (field_name @ '' must be a non-empty string''))
                else Inr (py_strip s)
    | _ \<Rightarrow> Inl (HTTPException 422 (field_name @ '' must be a non-empty string'')))"

definition model_speed_ok :: "pdict \<Rightarrow> unit res" where
  "model_speed_ok m =
     (if has_key ''speed'' m then
        bindE (in_set (dget ''speed'' m) [PNone, PStr ''standard'', PStr ''fast'']) (\<lambda>ok.
        raise_if (\<not> ok) (HTTPException 422 ''model.speed must be standard or fast''))
      else Inr ())"

definition normalize_agent_model :: "pv \<Rightarrow> pdict res" where
  "normalize_agent_model v = (case v of
      PStr s \<Rightarrow> if py_strip s = [] then Inl (HTTPException 422 ''model id must be a non-empty string'')
                else Inr [(''id'', PStr (py_strip s))]
    | PDict d \<Rightarrow> (case por (dget ''id'' d) (dget ''model'' d) of
          PStr m \<Rightarrow> if py_strip m = [] then Inl (HTTPException 422 ''model.id must be a non-empty string'')
                    else let normalized = dset ''id'' (PStr (py_strip m)) d in
                      bindE (model_speed_ok normalized) (\<lambda>_. Inr normalized)
        | _ \<Rightarrow> Inl (HTTPException 422 ''model.id must be a non-empty string''))
    | _ \<Rightarrow> Inl (HTTPException 422 ''model must be a string or object''))"

section \<open>The roster of a coordinator\<close>

record roster =
  ro_seen :: "string list"
  ro_self :: bool
  ro_agents :: "pv list"

definition pinned_version :: "agent_row \<Rightarrow> pv \<Rightarrow> int res" where
  "pinned_version a raw_version =
     (if raw_version = PNone then Inr (ag_active_version a)
      else (case py_int raw_version of
          Inl TypeError \<Rightarrow> Inl (HTTPException 422 ''multiagent agent version must be an integer'')
        | Inl (ValueError _) \<Rightarrow> Inl (HTTPException 422 ''multiagent agent version must be an integer'')
        | Inl e \<Rightarrow> Inl e
        | Inr n \<Rightarrow> Inr n))"

definition roster_self :: "string option \<Rightarrow> pdict \<Rightarrow> roster \<Rightarrow> roster res" where
  "roster_self self_agent_id entry acc =
     bindE (raise_if (ro_self acc) (HTTPException 422 ''multiagent.agents may include at most one self entry'')) (\<lambda>_.
     let resolved_key = (case self_agent_id of Some i \<Rightarrow> if i \<noteq> [] then i else ''self'' | None \<Rightarrow> ''self'') in
     bindE (raise_if (resolved_key \<in> set (ro_seen acc))
       (HTTPException 422 ''multiagent.agents entries must reference distinct agents'')) (\<lambda>_.
     Inr \<lparr>ro_seen = resolved_key # ro_seen acc, ro_self = True, ro_agents = ro_agents acc @ [PDict entry]\<rparr>))"

definition roster_agent :: "pdict \<Rightarrow> roster \<Rightarrow> roster M" where
  "roster_agent entry acc = (case dget ''id'' entry of
      PStr agent_id \<Rightarrow>
        seqM (guardM (agent_id = []) (HTTPException 422 ''multiagent agent entries require id'')) (
        bindM (get_agent agent_id) (\<lambda>found.
        case found of
          None \<Rightarrow> raiseM (HTTPException 422 (''Referenced agent not found: '' @ agent_id))
        | Some a \<Rightarrow>
        seqM (guardM (ag_archived_at a \<noteq> None) (HTTPException 422 (''Referenced agent not found: '' @ agent_id))) (
        bindM (liftE (pinned_version a (dget ''version'' entry))) (\<lambda>pinned.
        seqM (guardM (pinned < 1) (HTTPException 422 ''multiagent agent version must be at least 1'')) (
        bindM (get_agent_version agent_id pinned (Some (ag_workspace_id a))) (\<lambda>found_version.
        case found_version of
          None \<Rightarrow> raiseM (HTTPException 422 (''Referenced agent version not found: '' @ agent_id @ ''@'' @ int_str pinned))
        | Some v \<Rightarrow>
        seqM (guardM (av_multiagent v \<noteq> PNone)
          (HTTPException 422 ''multiagent agents cannot reference another multiagent agent'')) (
        seqM (guardM (agent_id \<in> set (ro_seen acc))
          (HTTPException 422 ''multiagent.agents entries must reference distinct agents'')) (
        returnM (acc\<lparr>ro_seen := agent_id # ro_seen acc, ro_agents := ro_agents acc @
          [PDict (dset ''version'' (PInt pinned) (dset ''id'' (PStr agent_id) (dset ''type'' (PStr ''agent'') entry)))]\<rparr>)))))))))
    | _ \<Rightarrow> raiseM (HTTPException 422 ''multiagent agent entries require id''))"

definition roster_entry :: "string option \<Rightarrow> pv \<Rightarrow> roster \<Rightarrow> roster M" where
  "roster_entry self_agent_id raw acc =
     (case (case raw of PStr s \<Rightarrow> PDict [(''type'', PStr ''agent''), (''id'', PStr s)] | v \<Rightarrow> v) of
        PDict entry \<Rightarrow>
          if dget ''type'' entry = PStr ''self'' then liftE (roster_self self_agent_id entry acc)
          else if dget ''type'' entry \<noteq> PStr ''agent''
            then raiseM (HTTPException 422 ''multiagent.agents entries must be \"agent\" or \"self\"'')
          else roster_agent entry acc
      | _ \<Rightarrow> raiseM (HTTPException 422 ''multiagent.agents entries must be strings or objects''))"

definition normalize_multiagent_roster :: "pv \<Rightarrow> string option \<Rightarrow> pv M" where
  "normalize_multiagent_roster multiagent self_agent_id = (case multiagent of
      PNone \<Rightarrow> returnM PNone
    | PDict normalized \<Rightarrow>
        seqM (guardM (dget ''type'' normalized \<noteq> PStr ''coordinator'')
          (HTTPException 422 ''multiagent.type must be \"coordinator\"'')) (
        case dget_or ''agents'' (PList []) normalized of
          PList agents \<Rightarrow>
            seqM (guardM (agents = []) (HTTPException 422 ''multiagent.agents must contain at least one agent'')) (
            seqM (guardM (20 < length agents) (HTTPException 422 ''multiagent.agents supports at most 20 agents'')) (
            bindM (foldM (roster_entry self_agent_id) agents \<lparr>ro_seen = [], ro_self = False, ro_agents = []\<rparr>) (\<lambda>r.
            returnM (PDict (dset ''agents'' (PList (ro_agents r)) normalized)))))
        | _ \<Rightarrow> raiseM (HTTPException 422 ''multiagent.agents must be an array''))
    | _ \<Rightarrow> raiseM (HTTPException 422 ''multiagent must be an object''))"

definition resolve_entry :: "string \<Rightarrow> int \<Rightarrow> pv \<Rightarrow> pv res" where
  "resolve_entry agent_id version entry = (case entry of
      PDict d \<Rightarrow> Inr (PDict (if dget ''type'' d = PStr ''self''
        then [(''type'', PStr ''agent''), (''id'', PStr agent_id), (''version'', PInt version)] else d))
    | v \<Rightarrow> bindE (py_dict v) (\<lambda>d. Inr (PDict d)))"

definition resolve_multiagent_self_entries :: "pdict \<Rightarrow> string \<Rightarrow> int \<Rightarrow> pdict res" where
  "resolve_multiagent_self_entries multiagent agent_id version =
     bindE (list_or_empty (dget ''agents'' multiagent)) (\<lambda>entries.
     bindE (mapE (resolve_entry agent_id version) entries) (\<lambda>agents.
     Inr (dset ''agents'' (PList agents) multiagent)))"

section \<open>Skills\<close>

record skill_refs =
  sr_keys :: "(string \<times> string \<times> string) list"
  sr_refs :: "pv list"

definition add_skill_ref :: "string \<Rightarrow> string \<Rightarrow> string \<Rightarrow> skill_refs \<Rightarrow> skill_refs" where
  "add_skill_ref ty skill_id version acc =
     (if (ty, skill_id, version) \<in> set (sr_keys acc) then acc
      else \<lparr>sr_keys = (ty, skill_id, version) # sr_keys acc,
             sr_refs = sr_refs acc @ [PDict [(''type'', PStr ty), (''skill_id'', PStr skill_id), (''version'', PStr version)]]\<rparr>)"

definition requested_skill_version :: "pdict \<Rightarrow> string" where
  "requested_skill_version entry =
     (let requested = dget_or ''version'' (PStr ''latest'') entry in
      if requested = PNone \<or> requested = PStr [] \<or> requested = PStr ''latest'' then ''latest'' else py_str requested)"

definition check_skill_version :: "resource_row \<Rightarrow> string \<Rightarrow> string \<Rightarrow> unit M" where
  "check_skill_version skill skill_id version =
     (if version = ''latest'' then
        guardM (\<not> truthy (dget ''latest_version'' (mr_data skill)))
          (HTTPException 422 (''Skill has no latest version: '' @ skill_id))
      else (case py_int (PStr version) of
          Inl e \<Rightarrow> raiseM (if is_value_error e then HTTPException 422 ''skill version must be an integer or latest'' else e)
        | Inr n \<Rightarrow> bindM (get_resource_version ''skill_version'' skill_id n False None) (\<lambda>found.
            guardM (found = None) (HTTPException 422 (''Skill version not found: '' @ skill_id @ ''@'' @ version)))))"

definition skill_ref :: "pv \<Rightarrow> skill_refs \<Rightarrow> skill_refs M" where
  "skill_ref raw acc = (case raw of
      PDict entry \<Rightarrow>
        let skill_type = py_str (por (dget ''type'' entry) (PStr ''custom'')) in
        (case por (dget ''id'' entry) (dget ''skill_id'' entry) of
           PStr skill_id \<Rightarrow>
             if skill_id = [] then raiseM (HTTPException 422 ''skills entries require skill_id'')
             else let version = requested_skill_version entry in
             if skill_type = ''anthropic'' then returnM (add_skill_ref ''anthropic'' skill_id version acc)
             else if skill_type \<notin> {''custom'', ''skill''}
               then raiseM (HTTPException 422 ''skills entries type must be \"custom\" or \"anthropic\"'')
             else bindM (get_resource skill_id (Some ''skill'') None False None) (\<lambda>found.
               case found of
                 None \<Rightarrow> raiseM (HTTPException 422 (''Skill not found: '' @ skill_id))
               | Some skill \<Rightarrow> seqM (check_skill_version skill skill_id version)
                   (returnM (add_skill_ref ''custom'' skill_id version acc)))
         | _ \<Rightarrow> raiseM (HTTPException 422 ''skills entries require skill_id''))
    | _ \<Rightarrow> raiseM (HTTPException 422 ''skills entries must be objects''))"

definition normalize_skill_refs :: "pv \<Rightarrow> pv list M" where
  "normalize_skill_refs skills = (case skills of
      PList entries \<Rightarrow> bindM (foldM skill_ref entries \<lparr>sr_keys = [], sr_refs = []\<rparr>) (\<lambda>r. returnM (sr_refs r))
    | _ \<Rightarrow> raiseM (HTTPException 422 ''skills must be an array''))"

section \<open>The update of a configuration\<close>

text \<open>A field of an update by the type pydantic gave it; a missing one keeps the active version's.\<close>

definition str_of :: "pv \<Rightarrow> string option" where
  "str_of v = (case v of PStr s \<Rightarrow> Some s | _ \<Rightarrow> None)"

definition list_of :: "pv \<Rightarrow> pv list" where
  "list_of v = (case v of PList xs \<Rightarrow> xs | _ \<Rightarrow> [])"

definition dict_of :: "pv \<Rightarrow> pdict" where
  "dict_of v = (case v of PDict d \<Rightarrow> d | _ \<Rightarrow> [])"

definition given_field :: "string \<Rightarrow> pdict \<Rightarrow> 'a \<Rightarrow> (pv \<Rightarrow> 'a) \<Rightarrow> 'a" where
  "given_field k update old f = (if has_key k update then f (dget k update) else old)"

definition merge_agent_update :: "agent_version_row \<Rightarrow> pdict \<Rightarrow> version_config res" where
  "merge_agent_update active update =
     bindE (if has_key ''name'' update then normalize_agent_name (dget ''name'' update) ''name'' else Inr (av_name active)) (\<lambda>name.
     bindE (if has_key ''model'' update then normalize_agent_model (dget ''model'' update) else Inr (av_model active)) (\<lambda>model.
     bindE (if has_key ''metadata'' update
            then bindE (merge_metadata (PDict (av_metadata active)) (dget ''metadata'' update)) (\<lambda>m. Inr (md_pv m))
            else Inr (av_metadata active)) (\<lambda>metadata.
     Inr \<lparr>vc_name = name, vc_model = model,
       vc_system = given_field ''system'' update (av_system active) str_of,
       vc_description = given_field ''description'' update (av_description active) str_of,
       vc_tools = given_field ''tools'' update (av_tools active) list_of,
       vc_mcp_servers = given_field ''mcp_servers'' update (av_mcp_servers active) list_of,
       vc_skills = given_field ''skills'' update (av_skills active) list_of,
       vc_multiagent = given_field ''multiagent'' update (av_multiagent active) (\<lambda>v. v),
       vc_runtime = given_field ''runtime'' update (av_runtime active) dict_of,
       vc_metadata = metadata\<rparr>)))"

section \<open>Handlers\<close>

definition resolve_self :: "agent_version_row \<Rightarrow> agent_version_row res" where
  "resolve_self v = (case av_multiagent v of
      PDict d \<Rightarrow> bindE (resolve_multiagent_self_entries d (av_agent_id v) (av_version v)) (\<lambda>m.
                 Inr (v\<lparr>av_multiagent := PDict m\<rparr>))
    | _ \<Rightarrow> Inr v)"

definition create_agent_body :: "agent_create \<Rightarrow> pdict M" where
  "create_agent_body body =
     bindM (liftE (normalize_agent_name (PStr (ac_name body)) ''name'')) (\<lambda>name.
     bindM (liftE (normalize_agent_model (ac_model body))) (\<lambda>model.
     bindM (liftE (normalize_agent_tools (PList (ac_tools body)))) (\<lambda>tools.
     seqM (liftE (validate_mcp_bindings (ac_mcp_servers body) tools)) (
     bindM (normalize_multiagent_roster (ac_multiagent body) None) (\<lambda>multiagent.
     bindM (normalize_skill_refs (PList (ac_skills body))) (\<lambda>skills.
     bindM (liftE (normalize_metadata (PDict (ac_metadata body)))) (\<lambda>metadata.
     bindM (create_agent_q \<lparr>vc_name = name, vc_model = model, vc_system = ac_system body,
         vc_description = ac_description body, vc_tools = tools, vc_mcp_servers = ac_mcp_servers body,
         vc_skills = skills, vc_multiagent = multiagent, vc_runtime = ac_runtime body,
         vc_metadata = md_pv metadata\<rparr> None) (\<lambda>(a, v).
     bindM (liftE (resolve_self v)) (\<lambda>v1.
     bindM (save_version v1) (\<lambda>v2.
     seqM commitM (returnM (agent_to_response a v2))))))))))))"

definition create_agent :: "agent_create \<Rightarrow> pdict M" where
  "create_agent body = session_scope (create_agent_body body)"

definition must_get_agent :: "string \<Rightarrow> agent_row M" where
  "must_get_agent i = bindM (get_agent i) (\<lambda>found.
     case found of None \<Rightarrow> raiseM (HTTPException 404 ''Agent not found'') | Some a \<Rightarrow> returnM a)"

definition must_get_active :: "agent_row \<Rightarrow> agent_version_row M" where
  "must_get_active a = bindM (get_active_agent_version a) (\<lambda>found.
     case found of None \<Rightarrow> raiseM (HTTPException 404 ''Agent version not found'') | Some v \<Rightarrow> returnM v)"

definition active_response :: "agent_row \<Rightarrow> pdict list M" where
  "active_response a = bindM (get_active_agent_version a) (\<lambda>found.
     returnM (case found of None \<Rightarrow> [] | Some v \<Rightarrow> [agent_to_response a v]))"

definition list_agents :: "int \<Rightarrow> string option \<Rightarrow> bool \<Rightarrow> pv \<Rightarrow> pv \<Rightarrow> pdict list_response M" where
  "list_agents limit page include_archived created_at_gte created_at_lte = session_scope (
     bindM (list_agents_q 1000 include_archived) (\<lambda>rows.
     bindM (liftE (filter_created_at (\<lambda>a. Inr (Some (utc_dt (ag_created_at a)))) rows PNone created_at_gte PNone
       created_at_lte)) (\<lambda>kept.
     bindM (liftE (sort_by_created_at (\<lambda>a. Inr (Some (utc_dt (ag_created_at a)))) (\<lambda>a. Some (ag_id a)) kept
       (Some ''desc''))) (\<lambda>sorted.
     bindM (mapM active_response sorted) (\<lambda>responses.
     paginate item_id (concat responses) (Some limit) page 100)))))"

definition list_agent_versions :: "string \<Rightarrow> int \<Rightarrow> string option \<Rightarrow> pdict list_response M" where
  "list_agent_versions i limit page = session_scope (
     bindM (must_get_agent i) (\<lambda>a.
     bindM (agent_versions_query i) (\<lambda>versions.
     paginate item_id (map (version_to_agent_response a) versions) (Some limit) page 100)))"

definition retrieve_agent :: "string \<Rightarrow> int option \<Rightarrow> pdict M" where
  "retrieve_agent i version = session_scope (
     bindM (must_get_agent i) (\<lambda>a.
     bindM (case version of Some n \<Rightarrow> get_agent_version (ag_id a) n None
                          | None \<Rightarrow> get_active_agent_version a) (\<lambda>found.
     case found of
       None \<Rightarrow> raiseM (HTTPException 404 ''Agent version not found'')
     | Some v \<Rightarrow> returnM (if version \<noteq> None then version_to_agent_response a v else agent_to_response a v))))"

text \<open>The fields of an update that are normalised before the merge.\<close>

definition normalize_update :: "agent_row \<Rightarrow> pdict \<Rightarrow> pdict M" where
  "normalize_update a upd =
     bindM (if has_key ''multiagent'' upd
            then bindM (normalize_multiagent_roster (dget ''multiagent'' upd) (Some (ag_id a))) (\<lambda>m.
              returnM (dset ''multiagent'' m upd))
            else returnM upd) (\<lambda>u1.
     bindM (if has_key ''skills'' u1
            then bindM (normalize_skill_refs (por (dget ''skills'' u1) (PList []))) (\<lambda>ss.
              returnM (dset ''skills'' (PList ss) u1))
            else returnM u1) (\<lambda>u2.
     if has_key ''tools'' u2
     then bindM (liftE (normalize_agent_tools (por (dget ''tools'' u2) (PList [])))) (\<lambda>ts.
       returnM (dset ''tools'' (PList ts) u2))
     else returnM u2))"

definition update_agent_body :: "string \<Rightarrow> agent_update \<Rightarrow> pdict M" where
  "update_agent_body i body =
     bindM (must_get_agent i) (\<lambda>a.
     seqM (guardM (ag_archived_at a \<noteq> None) (HTTPException 409 ''Archived agents cannot be updated'')) (
     bindM (must_get_active a) (\<lambda>active.
     seqM (guardM (au_version body \<noteq> ag_active_version a) (HTTPException 409 (''Version mismatch: expected ''
       @ int_str (ag_active_version a) @ '', got '' @ int_str (au_version body)))) (
     bindM (normalize_update a (au_fields body)) (\<lambda>update.
     bindM (liftE (merge_agent_update active update)) (\<lambda>config.
     seqM (liftE (validate_mcp_bindings (vc_mcp_servers config) (vc_tools config))) (
     bindM (update_agent_q a config) (\<lambda>(a1, v, _).
     bindM (liftE (resolve_self v)) (\<lambda>v1.
     bindM (save_version v1) (\<lambda>v2.
     seqM commitM (returnM (agent_to_response a1 v2))))))))))))"

definition update_agent :: "string \<Rightarrow> agent_update \<Rightarrow> pdict M" where
  "update_agent i body = session_scope (update_agent_body i body)"

definition archive_agent_body :: "string \<Rightarrow> pdict M" where
  "archive_agent_body i =
     bindM (must_get_agent i) (\<lambda>a.
     bindM (must_get_active a) (\<lambda>v.
     bindM (archive_agent_q a) (\<lambda>a1.
     seqM commitM (returnM (agent_to_response a1 v)))))"

definition archive_agent :: "string \<Rightarrow> pdict M" where
  "archive_agent i = session_scope (archive_agent_body i)"

end
