(* ===== verification/Commits.thy ===== *)
theory Commits
  imports Storage Queries
begin

text \<open>
  Requests that are one transaction: what fails leaves no trace, what succeeds publishes what it did.
  \<open>commits_last\<close> says so of a program and follows from its shape, reads and writes first and the commit
  at the end. The theory also collects which queries only read.
\<close>

section \<open>Programs that only read\<close>

named_theorems reading \<open>programs that leave the tables alone\<close>

lemmas reading_basic [reading] = kept_quiet kept_config kept_store

lemma reading_queries [reading]:
  "keeps tables_kept (get_agent i)" "keeps tables_kept (get_agent_version i n ws)"
  "keeps tables_kept (list_agents_q k ia)" "keeps tables_kept (agent_versions_query i)"
  "keeps tables_kept (get_active_agent_version a)"
  "keeps tables_kept (get_resource i ty p d ws)" "keeps tables_kept (get_resource_version rty q n d ws)"
  "keeps tables_kept (list_resources rty p m ia d ws)"
  "keeps tables_kept (get_environment i ws)" "keeps tables_kept (get_session i ws)"
  unfolding get_agent_def get_agent_version_def get_resource_def get_resource_version_def list_resources_def
    get_environment_def get_session_def list_agents_q_def agent_versions_query_def get_active_agent_version_def
  by (intro kept.control reading)+

lemma reads: "keeps tables_kept m \<Longrightarrow> m w = (r, w') \<Longrightarrow> w_db w' = w_db w \<and> w_committed w' = w_committed w"
  by (drule (1) keepsD) (simp add: tables_kept_def)

section \<open>Programs that do not commit\<close>

definition unpublished :: "world \<Rightarrow> world \<Rightarrow> bool" where
  "unpublished u v \<longleftrightarrow> w_committed v = w_committed u"

interpretation draft: world_order unpublished
  by unfold_locales (auto simp: unpublished_def)

named_theorems drafting \<open>programs that do not commit\<close>

lemma drafting_reads [drafting]: "keeps tables_kept m \<Longrightarrow> keeps unpublished m"
  by (auto simp: keeps_def tables_kept_def unpublished_def)

lemma drafting_write [drafting]: "keeps unpublished (update_dbM f)"
  by (auto intro!: keepsI simp: unpublished_def mon_defs)

lemma drafting_task [drafting]: "keeps unpublished (background_task i)"
  by (auto intro!: keepsI simp: unpublished_def background_task_def mon_defs)

lemma drafting_rows [drafting]:
  "keeps unpublished (insert_agent a)" "keeps unpublished (insert_version v)" "keeps unpublished (insert_resource r)"
  "keeps unpublished (save_agent a)" "keeps unpublished (save_version v)" "keeps unpublished (save_resource r)"
  "keeps unpublished (fresh_version ws i n c)"
  unfolding insert_agent_def insert_version_def insert_resource_def save_agent_def save_version_def save_resource_def
    fresh_version_def Let_def
  by (intro draft.control drafting reading)+

lemma drafting_changes [drafting]:
  "keeps unpublished (create_agent_q c ws)" "keeps unpublished (update_agent_q a c)" "keeps unpublished (archive_agent_q a)"
  "keeps unpublished (create_resource ty args)" "keeps unpublished (update_resource r p)"
  "keeps unpublished (archive_resource r)" "keeps unpublished (delete_resource r)"
  unfolding create_agent_q_def update_agent_q_def archive_agent_q_def create_resource_def update_resource_def
    archive_resource_def delete_resource_def Let_def
  by (intro draft.control drafting reading)+

section \<open>Requests that commit at their end\<close>

definition commits_last :: "'a M \<Rightarrow> bool" where
  "commits_last m \<longleftrightarrow> (\<forall>w. case m w of (Inl _, w') \<Rightarrow> w_committed w' = w_committed w
     | (Inr _, w') \<Rightarrow> w_committed w' = w_db w')"

named_theorems commit_intros \<open>shapes of programs that commit at their end\<close>

lemma commits_end [commit_intros]: "commits_last (seqM commitM (returnM x))" "commits_last (raiseM e)"
  by (simp_all add: commits_last_def seqM_def bindM_def mon_defs)

lemma commits_task [commit_intros]: "commits_last (seqM commitM (seqM (background_task i) (returnM x)))"
  by (simp add: commits_last_def seqM_def bindM_def mon_defs background_task_def)

lemma commits_bind [commit_intros]:
  assumes "keeps unpublished m" "\<And>x. commits_last (f x)"
  shows "commits_last (bindM m f)"
proof -
  have "case bindM m f w of (Inl _, w') \<Rightarrow> w_committed w' = w_committed w
     | (Inr _, w') \<Rightarrow> w_committed w' = w_db w'" for w
  proof (cases "m w")
    case (Pair q v)
    from keepsD [OF assms(1) this] have v: "w_committed v = w_committed w" by (simp add: unpublished_def)
    show ?thesis
    proof (cases q)
      case (Inr x)
      have "case f x v of (Inl _, w') \<Rightarrow> w_committed w' = w_committed v | (Inr _, w') \<Rightarrow> w_committed w' = w_db w'"
        using assms(2) [of x] by (simp add: commits_last_def)
      with Inr Pair v show ?thesis by (auto split: prod.splits sum.splits)
    qed (use Pair v in simp)
  qed
  then show ?thesis by (simp add: commits_last_def)
qed

lemma commits_seq [commit_intros]: "keeps unpublished m \<Longrightarrow> commits_last n \<Longrightarrow> commits_last (seqM m n)"
  unfolding seqM_def by (rule commits_bind)

lemma commits_control [commit_intros]:
  "(c \<Longrightarrow> commits_last m) \<Longrightarrow> (\<not> c \<Longrightarrow> commits_last n) \<Longrightarrow> commits_last (if c then m else n)"
  "commits_last m \<Longrightarrow> (\<And>x. commits_last (f x)) \<Longrightarrow> commits_last (case v of None \<Rightarrow> m | Some x \<Rightarrow> f x)"
  "commits_last (g x) \<Longrightarrow> commits_last (let y = x in g y)"
  "(\<And>x y. commits_last (h x y)) \<Longrightarrow> commits_last (case p of (x, y) \<Rightarrow> h x y)"
  by (auto split: option.split prod.split)

text \<open>Such a request as a whole.\<close>

lemma request_cases:
  assumes "commits_last m" "session_scope m w = (r, w')"
  obtains (failed) e where "r = Inl e" "w_committed w' = w_committed w"
  | (ok) x v where "r = Inr x" "m (w\<lparr>w_db := w_committed w\<rparr>) = (Inr x, v)" "w_committed w' = w_db v"
proof (cases "m (w\<lparr>w_db := w_committed w\<rparr>)")
  case (Pair q v)
  with assms(2) have r: "r = q" "w_committed w' = w_committed v" by (auto simp: session_scope_def)
  show ?thesis
  proof (cases q)
    case (Inl e)
    with assms(1) Pair r show ?thesis
      by (intro failed [of e]) (auto simp: commits_last_def dest: spec [of _ "w\<lparr>w_db := w_committed w\<rparr>"])
  next
    case (Inr x)
    with assms(1) Pair r show ?thesis
      by (intro ok [of x v]) (auto simp: commits_last_def dest: spec [of _ "w\<lparr>w_db := w_committed w\<rparr>"])
  qed
qed

end
