(* ===== verification/AgentFacts.thy ===== *)
theory AgentFacts
  imports Agents Commits SessionResources
begin

text \<open>
  What holds of agents: the versions of an agent are numbered from 1 to its active one and never change
  once they are there, an update is based on the active version or refused, and the roster of a
  coordinator names distinct, existing, unarchived agents that are not coordinators themselves.
\<close>

section \<open>What the handlers read and write\<close>

lemma reading_roster [reading]: "keeps tables_kept (normalize_multiagent_roster m i)"
proof -
  have entry: "keeps tables_kept (roster_entry i raw acc)" for raw acc
    unfolding roster_entry_def roster_agent_def
    by (auto intro!: kept.control reading split: pv.split)
  show ?thesis
    unfolding normalize_multiagent_roster_def
    by (auto intro!: kept.control entry reading split: pv.split)
qed

lemma reading_skills [reading]: "keeps tables_kept (normalize_skill_refs v)"
proof -
  have "keeps tables_kept (check_skill_version r i ver)" for r i ver
    unfolding check_skill_version_def by (auto intro!: kept.control reading split: sum.split)
  then have ref: "keeps tables_kept (skill_ref raw acc)" for raw acc
    unfolding skill_ref_def Let_def by (auto intro!: kept.control reading split: pv.split)
  show ?thesis
    unfolding normalize_skill_refs_def by (auto intro!: kept.control ref split: pv.split)
qed

lemma reading_update [reading]: "keeps tables_kept (normalize_update a u)"
  unfolding normalize_update_def by (intro kept.control reading)

lemma reading_must [reading]: "keeps tables_kept (must_get_agent i)" "keeps tables_kept (must_get_active a)"
  unfolding must_get_agent_def must_get_active_def by (intro kept.control reading)+

lemma single_filter: "filter P xs = [v] \<Longrightarrow> v \<in> set xs \<and> P v"
  by (auto simp: filter_eq_Cons_iff)

section \<open>Accepted rosters\<close>

definition roster_type :: "pv \<Rightarrow> pv" where
  "roster_type e = (case e of PDict d \<Rightarrow> dget ''type'' d | _ \<Rightarrow> PNone)"

definition roster_id :: "pv \<Rightarrow> pv" where
  "roster_id e = (case e of PDict d \<Rightarrow> dget ''id'' d | _ \<Rightarrow> PNone)"

text \<open>An entry for another agent: it is there, not archived, and the pinned version is no coordinator.\<close>

definition pinned_entry :: "database \<Rightarrow> pv \<Rightarrow> bool" where
  "pinned_entry d e \<longleftrightarrow> roster_type e = PStr ''agent'' \<and> (\<exists>x a v n. e = PDict x \<and> roster_id e = PStr (ag_id a) \<and>
     dget ''version'' x = PInt n \<and> 1 \<le> n \<and> a \<in> set (db_agents d) \<and> ag_archived_at a = None \<and>
     v \<in> set (db_versions d) \<and> av_agent_id v = ag_id a \<and> av_version v = n \<and> av_multiagent v = PNone)"

definition roster_key :: "string \<Rightarrow> pv \<Rightarrow> string" where
  "roster_key self e = (if roster_type e = PStr ''self'' then self else py_str (roster_id e))"

definition self_key :: "string option \<Rightarrow> string" where
  "self_key i = (case i of Some i \<Rightarrow> if i \<noteq> [] then i else ''self'' | None \<Rightarrow> ''self'')"

definition roster_inv :: "database \<Rightarrow> string option \<Rightarrow> roster \<Rightarrow> bool" where
  "roster_inv d i r \<longleftrightarrow> ro_seen r = rev (map (roster_key (self_key i)) (ro_agents r)) \<and> distinct (map (roster_key (self_key i)) (ro_agents r)) \<and>
     list_all (\<lambda>e. roster_type e = PStr ''self'' \<or> pinned_entry d e) (ro_agents r) \<and>
     length (filter (\<lambda>e. roster_type e = PStr ''self'') (ro_agents r)) = (if ro_self r then 1 else 0)"

lemma roster_agent_inv:
  assumes "roster_agent x r w = (Inr r', w')" "roster_inv (w_db w) i r"
  shows "roster_inv (w_db w) i r' \<and> w' = w \<and> (\<exists>e. ro_agents r' = ro_agents r @ [e] \<and> roster_type e = PStr ''agent'')"
proof -
  obtain s a v n w0 where x: "dget ''id'' x = PStr s" "get_agent s w = (Inr (Some a), w0)" "ag_archived_at a = None"
    "\<not> n < 1" "s \<notin> set (ro_seen r)" "av_multiagent v = PNone"
    "get_agent_version s n (Some (ag_workspace_id a)) w0 = (Inr (Some v), w')"
    "r' = r\<lparr>ro_seen := s # ro_seen r, ro_agents := ro_agents r @
          [PDict (dset ''version'' (PInt n) (dset ''id'' (PStr s) (dset ''type'' (PStr ''agent'') x)))]\<rparr>"
    using assms(1) by (auto simp: roster_agent_def mon_simps split: pv.splits option.splits if_splits)
  let ?e = "PDict (dset ''version'' (PInt n) (dset ''id'' (PStr s) (dset ''type'' (PStr ''agent'') x)))"
  have a: "w0 = w" "ag_id a = s" "a \<in> set (db_agents (w_db w))"
    using x(2) by (auto simp: get_agent_def mon_simps mon_defs scalar_cases dest!: single_filter)
  have v: "w' = w" "v \<in> set (db_versions (w_db w))" "av_agent_id v = s" "av_version v = n"
    using x(7) a(1) by (auto simp: get_agent_version_def mon_simps mon_defs scalar_cases dest!: single_filter)
  have e: "roster_type ?e = PStr ''agent''" "roster_id ?e = PStr s" by (simp_all add: roster_type_def roster_id_def)
  moreover have "pinned_entry (w_db w) ?e"
    unfolding pinned_entry_def using e a(2,3) v(2-4) x(3,4,6)
    by (intro conjI exI [of _ "dset ''version'' (PInt n) (dset ''id'' (PStr s) (dset ''type'' (PStr ''agent'') x))"]
        exI [of _ a] exI [of _ v] exI [of _ n]) simp_all
  moreover have "roster_key (self_key i) ?e = s" using e by (simp add: roster_key_def py_str_def)
  ultimately show ?thesis using assms(2) x(5,8) v(1) by (simp add: roster_inv_def)
qed

lemma roster_entry_inv:
  assumes "roster_entry i raw r w = (Inr r', w')" "roster_inv (w_db w) i r"
  shows "roster_inv (w_db w) i r' \<and> w' = w \<and> (\<exists>e. ro_agents r' = ro_agents r @ [e] \<and>
    (roster_type raw = PStr ''self'' \<longrightarrow> roster_type e = PStr ''self''))"
proof -
  obtain x where x: "raw = PDict x \<or> (\<exists>s. raw = PStr s \<and> x = [(''type'', PStr ''agent''), (''id'', PStr s)])"
    "(if dget ''type'' x = PStr ''self'' then liftE (roster_self i x r)
          else if dget ''type'' x \<noteq> PStr ''agent''
            then raiseM (HTTPException 422 ''multiagent.agents entries must be \"agent\" or \"self\"'')
          else roster_agent x r) w = (Inr r', w')"
    using assms(1) by (cases raw) (auto simp: roster_entry_def)
  show ?thesis
  proof (cases "dget ''type'' x = PStr ''self''")
    case True
    then have "roster_self i x r = Inr r'" "w' = w" using x(2) by simp_all
    then have "\<not> ro_self r" "self_key i \<notin> set (ro_seen r)"
      "r' = \<lparr>ro_seen = self_key i # ro_seen r, ro_self = True, ro_agents = ro_agents r @ [PDict x]\<rparr>"
      by (auto simp: roster_self_def self_key_def res_simps raise_if_def Let_def split: if_splits)
    moreover have "roster_type (PDict x) = PStr ''self''" using True by (simp add: roster_type_def)
    moreover from this have "roster_key (self_key i) (PDict x) = self_key i" by (simp add: roster_key_def)
    ultimately show ?thesis using assms(2) \<open>w' = w\<close> by (simp add: roster_inv_def)
  next
    case False
    with x(2) have "roster_agent x r w = (Inr r', w')" by (simp split: if_splits)
    from roster_agent_inv [OF this assms(2)] x(1) False show ?thesis by (auto simp: roster_type_def)
  qed
qed

lemma roster_fold_inv:
  assumes "foldM (roster_entry i) raws r w = (Inr r', w')" "roster_inv (w_db w) i r"
  shows "roster_inv (w_db w) i r' \<and> w' = w \<and> length (ro_agents r') = length (ro_agents r) + length raws \<and>
    set (ro_agents r) \<subseteq> set (ro_agents r') \<and> (\<forall>raw \<in> set raws. roster_type raw = PStr ''self'' \<longrightarrow>
      (\<exists>e \<in> set (ro_agents r'). roster_type e = PStr ''self''))"
  using assms
proof (induction raws arbitrary: r w)
  case (Cons raw raws)
  obtain r1 w1 where 1: "roster_entry i raw r w = (Inr r1, w1)" "foldM (roster_entry i) raws r1 w1 = (Inr r', w')"
    using Cons.prems(1) by (auto simp: mon_simps)
  note inv = roster_entry_inv [OF 1(1) Cons.prems(2)]
  then have "w1 = w" "roster_inv (w_db w1) i r1" by auto
  from Cons.IH [OF 1(2) this(2)] inv this(1) show ?case by force
qed simp

lemma roster_accepted:
  assumes "normalize_multiagent_roster m i w = (Inr m', w')" "m' \<noteq> PNone"
  shows "\<exists>d es raws. m' = PDict d \<and> dget ''agents'' d = PList es \<and> 1 \<le> length es \<and> length es \<le> 20 \<and>
    list_all (\<lambda>e. roster_type e = PStr ''self'' \<or> pinned_entry (w_db w) e) es \<and>
    distinct (map (roster_key (self_key i)) es) \<and> length (filter (\<lambda>e. roster_type e = PStr ''self'') es) \<le> 1 \<and>
    (\<exists>d0. m = PDict d0 \<and> dget ''agents'' d0 = PList raws \<and>
      (\<forall>raw \<in> set raws. roster_type raw = PStr ''self'' \<longrightarrow> (\<exists>e \<in> set es. roster_type e = PStr ''self'')))"
proof -
  obtain d0 raws r w0 where r: "m = PDict d0" "dget_or ''agents'' (PList []) d0 = PList raws" "raws \<noteq> []" "length raws \<le> 20"
    "foldM (roster_entry i) raws \<lparr>ro_seen = [], ro_self = False, ro_agents = []\<rparr> w = (Inr r, w0)"
    "m' = PDict (dset ''agents'' (PList (ro_agents r)) d0)"
    using assms by (auto simp: normalize_multiagent_roster_def mon_simps not_less split: pv.splits if_splits)
  have "roster_inv (w_db w) i \<lparr>ro_seen = [], ro_self = False, ro_agents = []\<rparr>" by (simp add: roster_inv_def)
  from roster_fold_inv [OF r(5) this] have f: "roster_inv (w_db w) i r" "length (ro_agents r) = length raws"
    "\<forall>raw \<in> set raws. roster_type raw = PStr ''self'' \<longrightarrow> (\<exists>e \<in> set (ro_agents r). roster_type e = PStr ''self'')" by simp_all
  have "dget ''agents'' d0 = PList raws" using r(2,3) by (auto simp: dget_or_def dget_def split: option.splits)
  with f r show ?thesis
    by (intro exI [of _ "dset ''agents'' (PList (ro_agents r)) d0"] exI [of _ "ro_agents r"] exI [of _ raws])
      (auto simp: roster_inv_def Suc_le_eq split: if_splits)
qed

section \<open>Resolved rosters\<close>

text \<open>A stored roster: none, or one whose entries all name an agent.\<close>

definition settled_roster :: "pv \<Rightarrow> bool" where
  "settled_roster m = (case m of
      PNone \<Rightarrow> True
    | PDict d \<Rightarrow> (case dget ''agents'' d of PList xs \<Rightarrow> list_all (\<lambda>e. roster_type e = PStr ''agent'') xs | _ \<Rightarrow> False)
    | _ \<Rightarrow> False)"

text \<open>A roster as the normalisation leaves it: its own agent may still stand in it as \<open>self\<close>.\<close>

definition roster_shape :: "pv \<Rightarrow> bool" where
  "roster_shape m \<longleftrightarrow> m = PNone \<or> (\<exists>d es. m = PDict d \<and> dget ''agents'' d = PList es \<and>
     list_all (\<lambda>e. roster_type e \<in> {PStr ''agent'', PStr ''self''}) es)"

lemma settled_shape: "settled_roster m \<Longrightarrow> roster_shape m"
  by (auto simp: settled_roster_def roster_shape_def list_all_iff split: pv.splits)

lemma normalized_shape:
  assumes "normalize_multiagent_roster m i w = (Inr m', w')"
  shows "roster_shape m'"
proof (cases "m' = PNone")
  case False
  from roster_accepted [OF assms this] obtain d es where d: "m' = PDict d" "dget ''agents'' d = PList es"
    "list_all (\<lambda>e. roster_type e = PStr ''self'' \<or> pinned_entry (w_db w) e) es" by blast
  then have "list_all (\<lambda>e. roster_type e \<in> {PStr ''agent'', PStr ''self''}) es"
    by (auto simp: list_all_iff pinned_entry_def)
  with d show ?thesis by (auto simp: roster_shape_def)
qed (simp add: roster_shape_def)

lemma resolve_typed_entry:
  assumes "resolve_entry i n e = Inr e'" "roster_type e \<in> {PStr ''agent'', PStr ''self''}"
  shows "roster_type e' = PStr ''agent''"
  using assms by (cases e) (auto simp: resolve_entry_def roster_type_def split: if_splits)

lemma resolve_settled_entry: "roster_type e = PStr ''agent'' \<Longrightarrow> resolve_entry i n e = Inr e"
  by (cases e) (auto simp: resolve_entry_def roster_type_def)

lemma resolve_self_settles:
  assumes "resolve_self v = Inr v1" "roster_shape (av_multiagent v)"
  shows "settled_roster (av_multiagent v1) \<and> v1 = v\<lparr>av_multiagent := av_multiagent v1\<rparr>"
proof (cases "av_multiagent v = PNone")
  case False
  with assms(2) obtain d es where d: "av_multiagent v = PDict d" "dget ''agents'' d = PList es"
    "list_all (\<lambda>e. roster_type e \<in> {PStr ''agent'', PStr ''self''}) es" by (auto simp: roster_shape_def)
  with assms(1) obtain as where as: "mapE (resolve_entry (av_agent_id v) (av_version v)) es = Inr as"
    "v1 = v\<lparr>av_multiagent := PDict (dset ''agents'' (PList as) d)\<rparr>"
    by (auto simp: resolve_self_def resolve_multiagent_self_entries_def res_simps)
  have "roster_type e = PStr ''agent''" if "e \<in> set as" for e
    using mapE_Inr_set [OF as(1) that] d(3) resolve_typed_entry unfolding list_all_iff by blast
  with as(2) show ?thesis by (simp add: settled_roster_def list_all_iff)
qed (use assms(1) in \<open>simp add: resolve_self_def settled_roster_def\<close>)

lemma resolve_self_fixed:
  assumes "settled_roster (av_multiagent v)"
  shows "resolve_self v = Inr v"
proof (cases "av_multiagent v")
  case (PDict d)
  with assms obtain xs where xs: "dget ''agents'' d = PList xs" "list_all (\<lambda>e. roster_type e = PStr ''agent'') xs"
    by (auto simp: settled_roster_def split: pv.splits)
  have "mapE (resolve_entry (av_agent_id v) (av_version v)) xs = Inr xs"
    using xs(2) by (intro mapE_id) (auto simp: list_all_iff resolve_settled_entry)
  moreover have "dset ''agents'' (PList xs) d = d" using xs(1) by (simp add: dset_id)
  ultimately show ?thesis
    using PDict xs(1) by (simp add: resolve_self_def resolve_multiagent_self_entries_def)
qed (simp_all add: resolve_self_def)

section \<open>The tables of agents\<close>

definition versions_of :: "string \<Rightarrow> agent_version_row list \<Rightarrow> agent_version_row list" where
  "versions_of i vs = filter (\<lambda>v. av_agent_id v = i) vs"

definition mirrors :: "agent_version_row \<Rightarrow> agent_row \<Rightarrow> bool" where
  "mirrors v a \<longleftrightarrow> av_name v = ag_name a \<and> av_description v = ag_description a \<and> av_metadata v = ag_metadata a"

text \<open>The versions of an agent: numbered from 1 to the active one, which the agent's own fields mirror.\<close>

definition history_ok :: "agent_version_row list \<Rightarrow> agent_row \<Rightarrow> bool" where
  "history_ok vs a \<longleftrightarrow> map av_version (versions_of (ag_id a) vs) = [1..ag_active_version a] \<and> 1 \<le> ag_active_version a \<and>
     list_all (\<lambda>v. av_workspace_id v = ag_workspace_id a) (versions_of (ag_id a) vs) \<and>
     mirrors (last (versions_of (ag_id a) vs)) a"

definition agents_ok :: "database \<Rightarrow> bool" where
  "agents_ok d \<longleftrightarrow> distinct (map ag_id (db_agents d)) \<and> distinct (map av_id (db_versions d)) \<and>
     list_all (history_ok (db_versions d)) (db_agents d) \<and>
     list_all (\<lambda>v. av_agent_id v \<in> ag_id ` set (db_agents d) \<and> settled_roster (av_multiagent v)) (db_versions d)"

lemma versions_of_simps [simp]:
  "versions_of i [] = []" "versions_of i (vs @ [v]) = versions_of i vs @ (if av_agent_id v = i then [v] else [])"
  by (simp_all add: versions_of_def)

text \<open>A version as a configuration stamped with a number.\<close>

definition stamped :: "string \<Rightarrow> string \<Rightarrow> int \<Rightarrow> version_config \<Rightarrow> agent_version_row \<Rightarrow> bool" where
  "stamped ws i n c v \<longleftrightarrow> av_workspace_id v = ws \<and> av_agent_id v = i \<and> av_version v = n \<and> av_name v = vc_name c \<and>
     av_model v = vc_model c \<and> av_system v = vc_system c \<and> av_description v = vc_description c \<and> av_tools v = vc_tools c \<and>
     av_mcp_servers v = vc_mcp_servers c \<and> av_skills v = vc_skills c \<and> av_runtime v = vc_runtime c \<and>
     av_metadata v = vc_metadata c \<and> settled_roster (av_multiagent v)"

lemma fresh_version_run:
  assumes "fresh_version ws i n c u = (Inr v, u')"
  shows "w_db u' = add_version v (w_db u) \<and> find_version (av_id v) (w_db u) = None \<and> av_multiagent v = vc_multiagent c \<and>
    (settled_roster (av_multiagent v) \<longrightarrow> stamped ws i n c v) \<and> (\<forall>m. settled_roster m \<longrightarrow> stamped ws i n c (v\<lparr>av_multiagent := m\<rparr>))"
  using assms by (auto simp: fresh_version_def insert_version_def mon_simps mon_defs Let_def stamped_def split: if_splits)

lemma stamp_run:
  assumes "fresh_version ws i n c u = (Inr v, u1)" "resolve_self v = Inr v1" "save_version v1 u1 = (Inr v2, u2)"
    "roster_shape (vc_multiagent c)"
  shows "db_versions (w_db u2) = db_versions (w_db u) @ [v2] \<and> db_agents (w_db u2) = db_agents (w_db u) \<and>
    find_version (av_id v2) (w_db u) = None \<and> stamped ws i n c v2"
proof -
  note f = fresh_version_run [OF assms(1)]
  from resolve_self_settles [OF assms(2)] f assms(4)
  have v1: "settled_roster (av_multiagent v1)" "v1 = v\<lparr>av_multiagent := av_multiagent v1\<rparr>" by simp_all
  from arg_cong [OF v1(2), of av_id] have id: "av_id v1 = av_id v" by simp
  from f v1(1) have "stamped ws i n c (v\<lparr>av_multiagent := av_multiagent v1\<rparr>)" by blast
  then have st: "stamped ws i n c v1" unfolding v1(2) [symmetric] .
  have none: "find_by av_id (av_id v) (db_versions (w_db u)) = None" using f by (simp add: find_version_def)
  then have "av_id x \<noteq> av_id v" if "x \<in> set (db_versions (w_db u))" for x
    using that by (metis find_by_None imageI)
  then have rep: "replace_by av_id r (db_versions (w_db u) @ [v]) = db_versions (w_db u) @ [r]" if "av_id r = av_id v" for r
    using that by (auto simp: replace_by_def intro!: map_idI)
  have u1: "w_db u1 = add_version v (w_db u)" "find_version (av_id v) (w_db u) = None" using f by simp_all
  consider "v2 = v1" "w_db u2 = w_db u1" "find_version (av_id v1) (w_db u1) = Some v1"
    | t where "v2 = v1\<lparr>av_updated_at := t\<rparr>" "w_db u2 = put_version v2 (w_db u1)"
  proof (cases "find_version (av_id v1) (w_db u1) = Some v1")
    case True
    with assms(3) that(1) show thesis by (simp add: save_version_def mon_defs)
  next
    case False
    with assms(3) that(2) [of "w_clock u1 (w_ticks u1)"] show thesis by (auto simp: save_version_def mon_defs Let_def)
  qed
  then show ?thesis
  proof cases
    case 1
    have "find_version (av_id v1) (w_db u1) = Some v" unfolding id u1(1) by (rule version_rows.add_same [OF u1(2)])
    with 1(3) have "v1 = v" by simp
    then have "v2 = v" "w_db u2 = add_version v (w_db u)" "stamped ws i n c v" using 1(1,2) u1(1) st by simp_all
    then show ?thesis using u1(2) by (simp add: add_version_def)
  next
    case (2 t)
    then have "av_id v2 = av_id v" "stamped ws i n c v2" using id st by (simp_all add: stamped_def)
    moreover have "w_db u2 = put_version v2 (add_version v (w_db u))" using 2(2) u1(1) by simp
    ultimately show ?thesis using u1(2) rep [of v2] by (simp add: add_version_def put_version_def)
  qed
qed

lemma get_agent_run:
  assumes "get_agent i w = (Inr (Some a), w')" "distinct (map ag_id (db_agents (w_db w)))"
  shows "w' = w \<and> ag_id a = i \<and> find_agent i (w_db w) = Some a \<and> ag_workspace_id a = ws_of None w"
  using assms
  by (auto simp: get_agent_def mon_simps mon_defs scalar_cases find_agent_def
      filter_key_unique split: option.splits if_splits dest: find_by_key)

lemma get_agent_found:
  assumes "find_agent i (w_db w) = Some a" "ag_workspace_id a = ws_of None w" "distinct (map ag_id (db_agents (w_db w)))"
  shows "get_agent i w = (Inr (Some a), w)"
  using assms by (simp add: get_agent_def bindM_def mon_defs find_agent_def filter_key_unique scalar_one_or_none_def)

lemma active_version_run:
  assumes "get_active_agent_version a w = (Inr (Some v), w')"
  shows "w' = w \<and> v \<in> set (db_versions (w_db w)) \<and> av_agent_id v = ag_id a \<and> av_version v = ag_active_version a \<and>
    av_workspace_id v = ws_of (Some (ag_workspace_id a)) w"
  using assms
  by (auto simp: get_active_agent_version_def get_agent_version_def mon_simps mon_defs scalar_cases dest: single_filter)

lemma active_version_found:
  assumes "history_ok (db_versions (w_db w)) a" "ws_of (Some (ag_workspace_id a)) w = ag_workspace_id a"
  shows "\<exists>v. get_active_agent_version a w = (Inr (Some v), w)"
proof -
  let ?vs = "versions_of (ag_id a) (db_versions (w_db w))" and ?n = "ag_active_version a"
  have nums: "map av_version ?vs = [1..?n]" "1 \<le> ?n" and ws: "list_all (\<lambda>v. av_workspace_id v = ag_workspace_id a) ?vs"
    using assms(1) by (simp_all add: history_ok_def)
  obtain ys where ys: "[1..?n] = ys @ [?n]" "?n \<notin> set ys" using nums(2) upto_rec2 [of 1 ?n] by auto
  with nums(1) have "map av_version ?vs = ys @ [?n]" by simp
  then obtain us us2 where us: "?vs = us @ us2" "ys = map av_version us" "map av_version us2 = [?n]"
    unfolding map_eq_append_conv by auto
  then obtain v where vs: "?vs = us @ [v]" "map av_version us = ys" "av_version v = ?n" by auto
  have "av_version x \<noteq> ?n" if "x \<in> set us" for x using ys(2) vs(2) that by (metis imageI list.set_map)
  then have "filter (\<lambda>v. av_version v = ?n) us = []" by (simp add: filter_empty_conv)
  then have one: "filter (\<lambda>v. av_version v = ?n) ?vs = [v]" using vs by simp
  have "filter (\<lambda>v. av_agent_id v = ag_id a \<and> av_version v = ?n \<and> av_workspace_id v = ag_workspace_id a) (db_versions (w_db w))
      = filter (\<lambda>v. av_version v = ?n) ?vs"
    using ws by (auto simp: versions_of_def list_all_iff intro!: filter_cong)
  with one assms(2) show ?thesis
    by (simp add: get_active_agent_version_def get_agent_version_def bindM_def mon_defs scalar_one_or_none_def)
qed

text \<open>The active version is the last one of its agent, so an update without effect keeps the mirror.\<close>

lemma history_active:
  assumes "history_ok vs a" "v \<in> set vs" "av_agent_id v = ag_id a" "av_version v = ag_active_version a"
  shows "v = last (versions_of (ag_id a) vs)"
proof -
  let ?vs = "versions_of (ag_id a) vs"
  have nums: "map av_version ?vs = [1..ag_active_version a]" "1 \<le> ag_active_version a"
    using assms(1) by (simp_all add: history_ok_def)
  then have "[1..ag_active_version a] \<noteq> []" by simp
  with nums(1) have ne: "?vs \<noteq> []" by auto
  have "v \<in> set ?vs" using assms(2,3) by (simp add: versions_of_def)
  moreover have "last ?vs \<in> set ?vs" using ne by simp
  moreover have "av_version (last ?vs) = ag_active_version a"
    using ne nums upto_rec2 [of 1 "ag_active_version a"] by (metis last_map last_snoc)
  moreover have "inj_on av_version (set ?vs)"
    using nums(1) by (metis distinct_map distinct_upto)
  ultimately show ?thesis using assms(4) inj_onD [of av_version "set ?vs" v "last ?vs"] by simp
qed

section \<open>What the handlers do to the tables\<close>

lemma update_shape:
  assumes "normalize_update a u w = (Inr u', w')" "has_key ''multiagent'' u'"
  shows "roster_shape (dget ''multiagent'' u')"
proof -
  obtain u1 w1 u2 w2 where
    u1: "(if has_key ''multiagent'' u
            then bindM (normalize_multiagent_roster (dget ''multiagent'' u) (Some (ag_id a))) (\<lambda>m.
              returnM (dset ''multiagent'' m u)) else returnM u) w = (Inr u1, w1)" and
    u2: "(if has_key ''skills'' u1
            then bindM (normalize_skill_refs (por (dget ''skills'' u1) (PList []))) (\<lambda>ss.
              returnM (dset ''skills'' (PList ss) u1)) else returnM u1) w1 = (Inr u2, w2)" and
    u3: "(if has_key ''tools'' u2
      then bindM (liftE (normalize_agent_tools (por (dget ''tools'' u2) (PList [])))) (\<lambda>ts.
        returnM (dset ''tools'' (PList ts) u2)) else returnM u2) w2 = (Inr u', w')"
    using assms(1) unfolding normalize_update_def bindM_Inr by blast
  have "dget ''multiagent'' u2 = dget ''multiagent'' u1" "has_key ''multiagent'' u2 = has_key ''multiagent'' u1"
    using u2 by (cases "has_key ''skills'' u1"; auto simp: mon_simps)+
  moreover have "dget ''multiagent'' u' = dget ''multiagent'' u2" "has_key ''multiagent'' u' = has_key ''multiagent'' u2"
    using u3 by (cases "has_key ''tools'' u2"; auto simp: mon_simps)+
  moreover have "has_key ''multiagent'' u1 \<Longrightarrow> roster_shape (dget ''multiagent'' u1)"
    using u1 by (cases "has_key ''multiagent'' u") (auto simp: mon_simps dest: normalized_shape)
  ultimately show ?thesis using assms(2) by simp
qed

lemma update_roster:
  assumes "normalize_update a u w = (Inr u', w')" "dget ''multiagent'' u \<noteq> PNone"
  shows "\<exists>w0. normalize_multiagent_roster (dget ''multiagent'' u) (Some (ag_id a)) w = (Inr (dget ''multiagent'' u'), w0) \<and>
    has_key ''multiagent'' u'"
proof -
  have k: "has_key ''multiagent'' u" using assms(2) by (rule dget_not_None)
  obtain m w1 u2 w2 where
    u1: "normalize_multiagent_roster (dget ''multiagent'' u) (Some (ag_id a)) w = (Inr m, w1)" and
    u2: "(if has_key ''skills'' (dset ''multiagent'' m u)
            then bindM (normalize_skill_refs (por (dget ''skills'' (dset ''multiagent'' m u)) (PList []))) (\<lambda>ss.
              returnM (dset ''skills'' (PList ss) (dset ''multiagent'' m u)))
            else returnM (dset ''multiagent'' m u)) w1 = (Inr u2, w2)" and
    u3: "(if has_key ''tools'' u2
      then bindM (liftE (normalize_agent_tools (por (dget ''tools'' u2) (PList [])))) (\<lambda>ts.
        returnM (dset ''tools'' (PList ts) u2)) else returnM u2) w2 = (Inr u', w')"
    using assms(1) unfolding normalize_update_def if_P [OF k] bindM_Inr returnM_run by blast
  have "dget ''multiagent'' u2 = m" "has_key ''multiagent'' u2"
    using u2 by (cases "has_key ''skills'' (dset ''multiagent'' m u)"; auto simp: mon_simps)+
  moreover from this have "dget ''multiagent'' u' = m" "has_key ''multiagent'' u'"
    using u3 by (cases "has_key ''tools'' u2"; auto simp: mon_simps)+
  ultimately show ?thesis using u1 by simp
qed

lemma merged_fields:
  assumes "merge_agent_update active u = Inr c"
  shows "vc_multiagent c = (if has_key ''multiagent'' u then dget ''multiagent'' u else av_multiagent active)"
  using assms unfolding merge_agent_update_def bindE_Inr_iff
  by (elim exE conjE, simp only: sum.inject, hypsubst, simp add: given_field_def)

text \<open>The agent row a new version belongs to.\<close>

definition pointed :: "agent_row \<Rightarrow> int \<Rightarrow> version_config \<Rightarrow> int \<Rightarrow> agent_row" where
  "pointed a n c t = a\<lparr>ag_active_version := n, ag_name := vc_name c, ag_description := vc_description c,
     ag_metadata := vc_metadata c, ag_updated_at := t\<rparr>"

lemma save_agent_run:
  assumes "save_agent r w = (Inr r', w')" "find_agent (ag_id r) (w_db w) \<noteq> Some r"
  shows "\<exists>t. r' = r\<lparr>ag_updated_at := t\<rparr> \<and> w_db w' = put_agent r' (w_db w)"
  using assms by (auto simp: save_agent_def mon_simps mon_defs Let_def split: if_splits)

lemma bodies_commit: "commits_last (create_agent_body b)" "commits_last (update_agent_body i u)" "commits_last (archive_agent_body i)"
  unfolding create_agent_body_def update_agent_body_def archive_agent_body_def
  by (intro commit_intros draft.control drafting reading)+

lemma create_body_run:
  assumes "create_agent_body b w = (Inr x, w')"
  obtains c w1 a v w2 v1 v2 w3 where "create_agent_q c None w1 = (Inr (a, v), w2)" "w_db w1 = w_db w"
    "roster_shape (vc_multiagent c)" "resolve_self v = Inr v1" "save_version v1 w2 = (Inr v2, w3)" "w_db w' = w_db w3"
proof -
  obtain name model tools m w1 skills w2 metadata a v w3 v1 v2 w4 where
    r: "normalize_multiagent_roster (ac_multiagent b) None w = (Inr m, w1)"
      "normalize_skill_refs (PList (ac_skills b)) w1 = (Inr skills, w2)"
    and c: "create_agent_q \<lparr>vc_name = name, vc_model = model, vc_system = ac_system b,
         vc_description = ac_description b, vc_tools = tools, vc_mcp_servers = ac_mcp_servers b,
         vc_skills = skills, vc_multiagent = m, vc_runtime = ac_runtime b,
         vc_metadata = md_pv metadata\<rparr> None w2 = (Inr (a, v), w3)"
      "resolve_self v = Inr v1" "save_version v1 w3 = (Inr v2, w4)" "w_db w' = w_db w4"
    using assms by (auto simp: create_agent_body_def mon_simps mon_defs)
  from reads [OF reading_roster r(1)] reads [OF reading_skills r(2)] normalized_shape [OF r(1)] show thesis
    by (intro that [OF c(1) _ _ c(2-4)]) simp_all
qed

lemma create_q_run:
  assumes "create_agent_q c ws_opt w = (Inr (a, v), w')"
  shows "\<exists>w1. fresh_version (ag_workspace_id a) (ag_id a) 1 c w1 = (Inr v, w') \<and> w_db w1 = add_agent a (w_db w) \<and>
    find_agent (ag_id a) (w_db w) = None \<and> ag_active_version a = 1 \<and> ag_name a = vc_name c \<and>
    ag_description a = vc_description c \<and> ag_metadata a = vc_metadata c"
  using assms
  by (auto simp: create_agent_q_def insert_agent_def workspace_id_or_default_def mon_simps mon_defs Let_def split: if_splits)

lemma create_agent_run:
  assumes "create_agent b w = (r, w')"
  shows "w_committed w' = w_committed w \<or>
    (\<exists>a v c. db_agents (w_committed w') = db_agents (w_committed w) @ [a] \<and>
    db_versions (w_committed w') = db_versions (w_committed w) @ [v] \<and> find_agent (ag_id a) (w_committed w) = None \<and>
    find_version (av_id v) (w_committed w) = None \<and> stamped (ag_workspace_id a) (ag_id a) 1 c v \<and>
    ag_active_version a = 1 \<and> ag_name a = vc_name c \<and> ag_description a = vc_description c \<and> ag_metadata a = vc_metadata c)"
  using bodies_commit(1) assms [unfolded create_agent_def]
proof (rule request_cases)
  fix x u
  assume x: "create_agent_body b (w\<lparr>w_db := w_committed w\<rparr>) = (Inr x, u)" "w_committed w' = w_db u"
  from x(1) obtain c w1 a v w2 v1 v2 w3 where c: "create_agent_q c None w1 = (Inr (a, v), w2)" "w_db w1 = w_committed w"
    "roster_shape (vc_multiagent c)" "resolve_self v = Inr v1" "save_version v1 w2 = (Inr v2, w3)" "w_db u = w_db w3"
    by (rule create_body_run) simp
  from create_q_run [OF c(1)] obtain w0 where q: "fresh_version (ag_workspace_id a) (ag_id a) 1 c w0 = (Inr v, w2)"
    "w_db w0 = add_agent a (w_committed w)" "find_agent (ag_id a) (w_committed w) = None" "ag_active_version a = 1"
    "ag_name a = vc_name c" "ag_description a = vc_description c" "ag_metadata a = vc_metadata c" using c(2) by auto
  from stamp_run [OF q(1) c(4,5,3)] q(2-7) x(2) c(6) show ?thesis
    by (intro disjI2 exI [of _ a] exI [of _ v2] exI [of _ c]) (simp add: add_agent_def find_version_def)
qed simp

lemma must_get_run:
  assumes "must_get_agent i w = (Inr a, w')" "distinct (map ag_id (db_agents (w_db w)))"
  shows "w' = w \<and> ag_id a = i \<and> find_agent i (w_db w) = Some a \<and> ag_workspace_id a = ws_of None w"
  using assms get_agent_run [of i w a w'] by (auto simp: must_get_agent_def mon_simps split: option.splits)

lemma must_active_run:
  assumes "must_get_active a w = (Inr v, w')"
  shows "w' = w \<and> v \<in> set (db_versions (w_db w)) \<and> av_agent_id v = ag_id a \<and> av_version v = ag_active_version a \<and>
    av_workspace_id v = ws_of (Some (ag_workspace_id a)) w"
  using assms active_version_run by (auto simp: must_get_active_def mon_simps split: option.splits)

lemma update_body_run:
  assumes "update_agent_body i b w = (Inr x, w')" "agents_ok (w_db w)"
  obtains a active c w1 a1 v made w2 v1 v2 w3 where "find_agent i (w_db w) = Some a" "ag_archived_at a = None"
    "au_version b = ag_active_version a" "update_agent_q a c w1 = (Inr (a1, v, made), w2)" "w_db w1 = w_db w"
    "roster_shape (vc_multiagent c)" "resolve_self v = Inr v1" "save_version v1 w2 = (Inr v2, w3)" "w_db w' = w_db w3"
    "dget ''multiagent'' (au_fields b) \<noteq> PNone \<Longrightarrow>
      \<exists>w0. normalize_multiagent_roster (dget ''multiagent'' (au_fields b)) (Some i) w = (Inr (vc_multiagent c), w0)"
proof -
  obtain a w0 active w1 upd w2 c a1 v made w3 v1 v2 w4 where
    g: "must_get_agent i w = (Inr a, w0)" "ag_archived_at a = None" "must_get_active a w0 = (Inr active, w1)"
      "au_version b = ag_active_version a" "normalize_update a (au_fields b) w1 = (Inr upd, w2)"
      "merge_agent_update active upd = Inr c" and
    c: "update_agent_q a c w2 = (Inr (a1, v, made), w3)" "resolve_self v = Inr v1"
      "save_version v1 w3 = (Inr v2, w4)" "w_db w' = w_db w4"
    using assms(1) by (auto simp: update_agent_body_def mon_simps mon_defs split: if_splits)
  have "distinct (map ag_id (db_agents (w_db w)))" using assms(2) by (simp add: agents_ok_def)
  from must_get_run [OF g(1) this] have a: "w0 = w" "find_agent i (w_db w) = Some a" by simp_all
  from must_active_run [OF g(3)] a(1) have v: "w1 = w" "active \<in> set (db_versions (w_db w))" by simp_all
  then have "settled_roster (av_multiagent active)" using assms(2) by (simp add: agents_ok_def list_all_iff)
  then have "roster_shape (vc_multiagent c)"
    using merged_fields [OF g(6)] update_shape [OF g(5)] settled_shape by simp
  moreover have "w_db w2 = w_db w" using reads [OF reading_update g(5)] v(1) by simp
  moreover have "\<exists>w0. normalize_multiagent_roster (dget ''multiagent'' (au_fields b)) (Some i) w = (Inr (vc_multiagent c), w0)"
    if "dget ''multiagent'' (au_fields b) \<noteq> PNone"
    using update_roster [OF g(5) that] merged_fields [OF g(6)] v(1) agent_rows.lookup_key [OF a(2)] by auto
  ultimately show thesis using that [OF a(2) g(2,4) c(1)] c by simp
qed

lemma update_q_run:
  assumes "update_agent_q a c w = (Inr (a1, v, made), w')" "find_agent (ag_id a) (w_db w) = Some a"
  shows "if made then (\<exists>t w1. a1 = pointed a (ag_active_version a + 1) c t \<and> w_db w1 = put_agent a1 (w_db w) \<and>
      fresh_version (ag_workspace_id a) (ag_id a) (ag_active_version a + 1) c w1 = (Inr v, w'))
    else a1 = a \<and> w' = w \<and> same_config v c \<and> v \<in> set (db_versions (w_db w))"
proof -
  obtain active w0 where active: "get_active_agent_version a w = (Inr (Some active), w0)"
    using assms(1) by (auto simp: update_agent_q_def mon_simps split: option.splits)
  from active_version_run [OF this] have a: "w0 = w" "active \<in> set (db_versions (w_db w))" by simp_all
  let ?a = "a\<lparr>ag_active_version := ag_active_version a + 1, ag_name := vc_name c,
    ag_description := vc_description c, ag_metadata := vc_metadata c\<rparr>"
  show ?thesis
  proof (cases "same_config active c")
    case True
    with assms(1) active a show ?thesis by (auto simp: update_agent_q_def mon_simps)
  next
    case False
    with assms(1) active a(1) obtain w1 where made
      and s: "save_agent ?a w = (Inr a1, w1)"
        "fresh_version (ag_workspace_id a) (ag_id a) (ag_active_version a + 1) c w1 = (Inr v, w')"
      by (auto simp: update_agent_q_def mon_simps Let_def)
    have "?a \<noteq> a"
    proof
      assume "?a = a"
      from arg_cong [OF this, of ag_active_version] show False by simp
    qed
    with assms(2) have "find_agent (ag_id ?a) (w_db w) \<noteq> Some ?a" by simp
    from save_agent_run [OF s(1) this] obtain t where "a1 = ?a\<lparr>ag_updated_at := t\<rparr>" "w_db w1 = put_agent a1 (w_db w)" by blast
    then have "a1 = pointed a (ag_active_version a + 1) c t" "w_db w1 = put_agent a1 (w_db w)" by (simp_all add: pointed_def)
    with s(2) \<open>made\<close> show ?thesis by auto
  qed
qed

lemma same_version:
  assumes "distinct (map av_id vs)" "v \<in> set vs"
  shows "find_by av_id (av_id v) vs = Some v"
  using assms by (rule find_by_unique)

text \<open>The given configuration is that of a version already; its roster is the given one, normalised.\<close>

definition without_effect :: "string \<Rightarrow> agent_update \<Rightarrow> world \<Rightarrow> bool" where
  "without_effect i b w \<longleftrightarrow> (\<exists>c v. v \<in> set (db_versions (w_committed w)) \<and> same_config v c \<and>
     (dget ''multiagent'' (au_fields b) \<noteq> PNone \<longrightarrow> (\<exists>w0. normalize_multiagent_roster (dget ''multiagent'' (au_fields b))
        (Some i) (w\<lparr>w_db := w_committed w\<rparr>) = (Inr (vc_multiagent c), w0))))"

lemma update_agent_run:
  assumes "update_agent i b w = (r, w')" "agents_ok (w_committed w)"
  shows "(db_agents (w_committed w') = db_agents (w_committed w) \<and> db_versions (w_committed w') = db_versions (w_committed w) \<and>
      (\<forall>x. r = Inr x \<longrightarrow> without_effect i b w)) \<or>
    (\<exists>a c t v. find_agent i (w_committed w) = Some a \<and> au_version b = ag_active_version a \<and> ag_archived_at a = None \<and>
      db_agents (w_committed w') = replace_by ag_id (pointed a (ag_active_version a + 1) c t) (db_agents (w_committed w)) \<and>
      db_versions (w_committed w') = db_versions (w_committed w) @ [v] \<and> find_version (av_id v) (w_committed w) = None \<and>
      stamped (ag_workspace_id a) (ag_id a) (ag_active_version a + 1) c v)"
  using bodies_commit(2) assms(1) [unfolded update_agent_def]
proof (rule request_cases)
  fix x u
  let ?w = "w\<lparr>w_db := w_committed w\<rparr>"
  assume x: "update_agent_body i b ?w = (Inr x, u)" "w_committed w' = w_db u"
  have ok: "agents_ok (w_db ?w)" using assms(2) by simp
  from x(1) ok obtain a c w1 a1 v made w2 v1 v2 w3 where u: "find_agent i (w_committed w) = Some a" "ag_archived_at a = None"
    "au_version b = ag_active_version a" "update_agent_q a c w1 = (Inr (a1, v, made), w2)" "w_db w1 = w_committed w"
    "roster_shape (vc_multiagent c)" "resolve_self v = Inr v1" "save_version v1 w2 = (Inr v2, w3)" "w_db u = w_db w3"
    and n: "dget ''multiagent'' (au_fields b) \<noteq> PNone \<Longrightarrow>
      \<exists>w0. normalize_multiagent_roster (dget ''multiagent'' (au_fields b)) (Some i) ?w = (Inr (vc_multiagent c), w0)"
    by (rule update_body_run) simp
  have i: "ag_id a = i" using u(1) by (rule agent_rows.lookup_key)
  note q = update_q_run [OF u(4)]
  show ?thesis
  proof (cases made)
    case True
    with q u(1,5) i obtain t w0 where n: "a1 = pointed a (ag_active_version a + 1) c t" "w_db w0 = put_agent a1 (w_committed w)"
      "fresh_version (ag_workspace_id a) (ag_id a) (ag_active_version a + 1) c w0 = (Inr v, w2)" by auto
    from stamp_run [OF n(3) u(7,8,6)] n(1,2) u x(2) show ?thesis
      by (intro disjI2 exI [of _ a] exI [of _ c] exI [of _ t] exI [of _ v2])
        (simp add: put_agent_def find_version_def)
  next
    case False
    with q u(1,5) i have v: "w2 = w1" "v \<in> set (db_versions (w_committed w))" "same_config v c" by simp_all
    then have "settled_roster (av_multiagent v)" using assms(2) by (simp add: agents_ok_def list_all_iff)
    with u(7) have "v1 = v" by (simp add: resolve_self_fixed)
    moreover have "find_version (av_id v) (w_db w1) = Some v"
      using assms(2) v(2) u(5) by (simp add: agents_ok_def find_version_def same_version)
    ultimately have "w_db w3 = w_db w1" using u(8) v(1) by (simp add: save_version_def mon_defs)
    then show ?thesis using x(2) u(5,9) v(2,3) n unfolding without_effect_def by auto
  qed
qed simp

lemma archive_agent_run:
  assumes "archive_agent i w = (r, w')" "agents_ok (w_committed w)"
  shows "db_versions (w_committed w') = db_versions (w_committed w) \<and> (db_agents (w_committed w') = db_agents (w_committed w) \<or>
    (\<exists>a t t'. find_agent i (w_committed w) = Some a \<and>
      db_agents (w_committed w') = replace_by ag_id (a\<lparr>ag_archived_at := Some t, ag_updated_at := t'\<rparr>) (db_agents (w_committed w))))"
  using bodies_commit(3) assms(1) [unfolded archive_agent_def]
proof (rule request_cases)
  fix x u
  let ?w = "w\<lparr>w_db := w_committed w\<rparr>"
  assume x: "archive_agent_body i ?w = (Inr x, u)" "w_committed w' = w_db u"
  then obtain a w0 v w1 a1 w2 where a: "must_get_agent i ?w = (Inr a, w0)" "must_get_active a w0 = (Inr v, w1)"
    "archive_agent_q a w1 = (Inr a1, w2)" "w_db u = w_db w2"
    by (auto simp: archive_agent_body_def mon_simps mon_defs)
  have "distinct (map ag_id (db_agents (w_db ?w)))" using assms(2) by (simp add: agents_ok_def)
  from must_get_run [OF a(1) this] must_active_run [OF a(2)] have g: "w1 = ?w" "ag_id a = i" "find_agent i (w_committed w) = Some a" by simp_all
  from a(3) g(1) have "w_db w2 = w_committed w \<or> (\<exists>t t'. w_db w2 = put_agent (a\<lparr>ag_archived_at := Some t, ag_updated_at := t'\<rparr>) (w_committed w))"
    by (auto simp: archive_agent_q_def save_agent_def mon_simps mon_defs Let_def split: if_splits) blast
  with a(4) x(2) g(3) show ?thesis by (auto simp: put_agent_def) blast
qed simp

text \<open>An update that returns has found the agent and its active version in the caller's workspace.\<close>

lemma update_found:
  assumes "update_agent_body i b w = (Inr x, w')" "agents_ok (w_db w)"
  shows "\<exists>a. find_agent i (w_db w) = Some a \<and> ag_workspace_id a = ws_of None w \<and>
    ws_of (Some (ag_workspace_id a)) w = ag_workspace_id a"
proof -
  obtain a w0 active w1 where g: "must_get_agent i w = (Inr a, w0)" "must_get_active a w0 = (Inr active, w1)"
    using assms(1) by (auto simp: update_agent_body_def mon_simps mon_defs split: if_splits)
  have "distinct (map ag_id (db_agents (w_db w)))" using assms(2) by (simp add: agents_ok_def)
  from must_get_run [OF g(1) this] have a: "w0 = w" "find_agent i (w_db w) = Some a" "ag_workspace_id a = ws_of None w"
    "ag_id a = i" by simp_all
  from must_active_run [OF g(2)] a have v: "active \<in> set (versions_of (ag_id a) (db_versions (w_db w)))"
    "av_workspace_id active = ws_of (Some (ag_workspace_id a)) w" by (simp_all add: versions_of_def)
  have "history_ok (db_versions (w_db w)) a"
    using assms(2) a(2) by (auto simp: agents_ok_def list_all_iff find_agent_def dest: find_by_mem)
  with v have "av_workspace_id active = ag_workspace_id a" by (simp add: history_ok_def list_all_iff)
  with v a show ?thesis by simp
qed

section \<open>The invariant\<close>

text \<open>
  What happens to the tables of agents: an agent with its first version comes, a version is added and
  the agent points to it, an agent is archived, or nothing.
\<close>

inductive agent_move :: "agent_row list \<Rightarrow> agent_version_row list \<Rightarrow> agent_row list \<Rightarrow> agent_version_row list \<Rightarrow> bool" where
  stay: "agent_move as vs as vs"
| come: "find_by ag_id (ag_id a) as = None \<Longrightarrow> find_by av_id (av_id v) vs = None \<Longrightarrow>
    stamped (ag_workspace_id a) (ag_id a) 1 c v \<Longrightarrow> ag_active_version a = 1 \<Longrightarrow> ag_name a = vc_name c \<Longrightarrow>
    ag_description a = vc_description c \<Longrightarrow> ag_metadata a = vc_metadata c \<Longrightarrow> agent_move as vs (as @ [a]) (vs @ [v])"
| grow: "find_by ag_id i as = Some a \<Longrightarrow> find_by av_id (av_id v) vs = None \<Longrightarrow>
    stamped (ag_workspace_id a) (ag_id a) (ag_active_version a + 1) c v \<Longrightarrow>
    agent_move as vs (replace_by ag_id (pointed a (ag_active_version a + 1) c t) as) (vs @ [v])"
| retire: "find_by ag_id i as = Some a \<Longrightarrow>
    agent_move as vs (replace_by ag_id (a\<lparr>ag_archived_at := Some t, ag_updated_at := t'\<rparr>) as) vs"

definition rows_ok :: "agent_row list \<Rightarrow> agent_version_row list \<Rightarrow> bool" where
  "rows_ok as vs \<longleftrightarrow> distinct (map ag_id as) \<and> distinct (map av_id vs) \<and> list_all (history_ok vs) as \<and>
     list_all (\<lambda>v. av_agent_id v \<in> ag_id ` set as \<and> settled_roster (av_multiagent v)) vs"

lemma agents_ok_rows: "agents_ok d \<longleftrightarrow> rows_ok (db_agents d) (db_versions d)"
  by (simp add: agents_ok_def rows_ok_def)

lemma history_other:
  assumes "history_ok vs a" "av_agent_id v \<noteq> ag_id a"
  shows "history_ok (vs @ [v]) a"
  using assms by (simp add: history_ok_def)

lemma upto_snoc: "0 \<le> n \<Longrightarrow> [1..n + 1] = [1..n] @ [n + 1]" for n :: int
  using upto_rec2 [of 1 "n + 1"] by simp

lemma move_keeps:
  assumes "agent_move as vs as' vs'" "rows_ok as vs"
  shows "rows_ok as' vs' \<and> set vs \<subseteq> set vs' \<and> ag_id ` set as \<subseteq> ag_id ` set as'"
  using assms
proof cases
  case (come a v c)
  have new: "ag_id a \<notin> ag_id ` set as" "av_id v \<notin> av_id ` set vs" using come(3,4) by (simp_all add: find_by_None)
  have none: "versions_of (ag_id a) vs = []"
    using assms(2) new(1) unfolding rows_ok_def versions_of_def filter_empty_conv list_all_iff by metis
  have "history_ok (vs @ [v]) a"
    using come(5-9) none by (simp add: history_ok_def stamped_def mirrors_def)
  moreover have "history_ok (vs @ [v]) b" if "b \<in> set as" for b
    using assms(2) that new(1) come(5) by (intro history_other) (auto simp: rows_ok_def list_all_iff stamped_def)
  ultimately show ?thesis
    using assms(2) come(1,2,5) new by (auto simp: rows_ok_def list_all_iff stamped_def)
next
  case (grow i a v c t)
  let ?n = "ag_active_version a + 1" and ?a = "pointed a (ag_active_version a + 1) c t"
  have a: "a \<in> set as" "ag_id ?a = ag_id a" using grow(3) by (auto simp: pointed_def dest: find_by_mem)
  have new: "av_id v \<notin> av_id ` set vs" using grow(4) by (simp add: find_by_None)
  have h: "history_ok vs a" using assms(2) a(1) by (simp add: rows_ok_def list_all_iff)
  have "history_ok (vs @ [v]) ?a"
    using h grow(5) upto_snoc [of "ag_active_version a"] by (simp add: history_ok_def stamped_def mirrors_def pointed_def)
  moreover have "history_ok (vs @ [v]) b" if "b \<in> set as" "ag_id b \<noteq> ag_id a" for b
    using assms(2) that grow(5) by (intro history_other) (auto simp: rows_ok_def list_all_iff stamped_def)
  ultimately have "list_all (history_ok (vs @ [v])) as'"
    unfolding grow(1) list_all_iff using a(2) by (auto dest: set_replace_by)
  moreover have ids: "map ag_id as' = map ag_id as" unfolding grow(1) by simp
  then have "ag_id ` set as' = ag_id ` set as" by (metis list.set_map)
  ultimately show ?thesis
    using assms(2) grow(2,5) new ids a(1) by (auto simp: rows_ok_def list_all_iff stamped_def)
next
  case (retire i a t' t)
  let ?a = "a\<lparr>ag_archived_at := Some t, ag_updated_at := t'\<rparr>"
  have "history_ok vs a" using assms(2) find_by_mem [OF retire(3)] by (simp add: rows_ok_def list_all_iff)
  then have "history_ok vs ?a" by (simp add: history_ok_def mirrors_def)
  with assms(2) have "list_all (history_ok vs) as'"
    unfolding retire(1) list_all_iff rows_ok_def by (auto dest: set_replace_by)
  moreover have ids: "map ag_id as' = map ag_id as" unfolding retire(1) by simp
  then have "ag_id ` set as' = ag_id ` set as" by (metis list.set_map)
  ultimately show ?thesis using assms(2) retire(2) ids by (simp add: rows_ok_def)
qed simp

lemma handler_moves:
  assumes "agents_ok (w_committed w)"
  shows "create_agent b w = (r, w') \<Longrightarrow> agent_move (db_agents (w_committed w)) (db_versions (w_committed w))
      (db_agents (w_committed w')) (db_versions (w_committed w'))"
    "update_agent i u w = (r, w') \<Longrightarrow> agent_move (db_agents (w_committed w)) (db_versions (w_committed w))
      (db_agents (w_committed w')) (db_versions (w_committed w'))"
    "archive_agent i w = (r, w') \<Longrightarrow> agent_move (db_agents (w_committed w)) (db_versions (w_committed w))
      (db_agents (w_committed w')) (db_versions (w_committed w'))"
proof -
  show "agent_move (db_agents (w_committed w)) (db_versions (w_committed w))
      (db_agents (w_committed w')) (db_versions (w_committed w'))" if "create_agent b w = (r, w')"
    using create_agent_run [OF that] by (auto simp: find_agent_def find_version_def intro: agent_move.intros)
  show "agent_move (db_agents (w_committed w)) (db_versions (w_committed w))
      (db_agents (w_committed w')) (db_versions (w_committed w'))" if "update_agent i u w = (r, w')"
    using update_agent_run [OF that assms] by (auto simp: find_agent_def find_version_def intro: agent_move.intros)
  show "agent_move (db_agents (w_committed w)) (db_versions (w_committed w))
      (db_agents (w_committed w')) (db_versions (w_committed w'))" if "archive_agent i w = (r, w')"
    using archive_agent_run [OF that assms] by (auto simp: find_agent_def intro: agent_move.intros)
qed

section \<open>Runs\<close>

text \<open>The requests that write agents; \<open>elsewhere\<close> is any other step, which leaves agents and versions alone.\<close>

inductive agent_step :: "world \<Rightarrow> world \<Rightarrow> bool" where
  creating: "create_agent b w = (r, w') \<Longrightarrow> agent_step w w'"
| updating: "update_agent i u w = (r, w') \<Longrightarrow> agent_step w w'"
| archiving: "archive_agent i w = (r, w') \<Longrightarrow> agent_step w w'"
| elsewhere: "db_agents (w_committed w') = db_agents (w_committed w) \<Longrightarrow>
    db_versions (w_committed w') = db_versions (w_committed w) \<Longrightarrow> agent_step w w'"

lemma step_moves:
  assumes "agent_step w w'" "agents_ok (w_committed w)"
  shows "agent_move (db_agents (w_committed w)) (db_versions (w_committed w))
      (db_agents (w_committed w')) (db_versions (w_committed w'))"
  using assms by cases (auto intro: handler_moves agent_move.stay)

lemma step_keeps:
  assumes "agent_step w w'" "agents_ok (w_committed w)"
  shows "agents_ok (w_committed w') \<and> set (db_versions (w_committed w)) \<subseteq> set (db_versions (w_committed w')) \<and>
    ag_id ` set (db_agents (w_committed w)) \<subseteq> ag_id ` set (db_agents (w_committed w'))"
  using move_keeps [OF step_moves [OF assms]] assms(2) unfolding agents_ok_rows .

interpretation version_log: record_log agent_step "\<lambda>w. agents_ok (w_committed w)" "\<lambda>w. set (db_versions (w_committed w))" "(=)"
  by unfold_locales (auto dest: step_keeps)

section \<open>A workspace with one agent\<close>

definition solo_version :: agent_version_row where
  "solo_version = \<lparr>av_id = ''agtv_a'', av_workspace_id = ''wrkspc_default'', av_agent_id = ''agt_a'', av_version = 1,
     av_name = ''a'', av_model = [(''id'', PStr ''m'')], av_system = None, av_description = None, av_tools = [],
     av_mcp_servers = [], av_skills = [], av_multiagent = PNone, av_runtime = [], av_metadata = [],
     av_created_at = 0, av_updated_at = 0\<rparr>"

definition solo_agent :: agent_row where
  "solo_agent = \<lparr>ag_id = ''agt_a'', ag_workspace_id = ''wrkspc_default'', ag_name = ''a'', ag_description = None,
     ag_active_version = 1, ag_metadata = [], ag_archived_at = None, ag_created_at = 0, ag_updated_at = 0\<rparr>"

definition solo_world :: world where
  "solo_world = world0\<lparr>w_committed := db0\<lparr>db_agents := [solo_agent], db_versions := [solo_version]\<rparr>\<rparr>"

definition rename :: agent_update where
  "rename = \<lparr>au_version = 1, au_fields = [(''name'', PStr ''b'')]\<rparr>"

definition self_entry :: pv where
  "self_entry = PDict [(''type'', PStr ''self'')]"

definition team :: pdict where
  "team = [(''type'', PStr ''coordinator''), (''agents'', PList [self_entry])]"

definition join_team :: agent_update where
  "join_team = \<lparr>au_version = 1, au_fields = [(''multiagent'', PDict team)]\<rparr>"

lemma solo_ok: "agents_ok (w_committed solo_world)"
  by (simp add: agents_ok_def solo_world_def solo_agent_def solo_version_def db0_def history_ok_def versions_of_def
      mirrors_def settled_roster_def)

lemma solo_rows: "db_agents (w_committed solo_world) = [solo_agent]" "db_versions (w_committed solo_world) = [solo_version]"
  "w_workspace solo_world = None" "w_uuids solo_world = nat_str" "w_draws solo_world = 0"
  by (simp_all add: solo_world_def world0_def)

lemma solo_ws: "ws_of None solo_world = ''wrkspc_default''"
  by (simp add: ws_of_def workspace_id_or_default_def DEFAULT_WORKSPACE_ID_def mon_defs solo_rows)

lemma solo_get:
  "must_get_agent ''agt_a'' (solo_world\<lparr>w_db := w_committed solo_world\<rparr>)
     = (Inr solo_agent, solo_world\<lparr>w_db := w_committed solo_world\<rparr>)"
  "must_get_active solo_agent (solo_world\<lparr>w_db := w_committed solo_world\<rparr>)
     = (Inr solo_version, solo_world\<lparr>w_db := w_committed solo_world\<rparr>)"
  "get_active_agent_version solo_agent (solo_world\<lparr>w_db := w_committed solo_world\<rparr>)
     = (Inr (Some solo_version), solo_world\<lparr>w_db := w_committed solo_world\<rparr>)"
proof -
  show active: "get_active_agent_version solo_agent (solo_world\<lparr>w_db := w_committed solo_world\<rparr>)
     = (Inr (Some solo_version), solo_world\<lparr>w_db := w_committed solo_world\<rparr>)"
    by (simp add: get_active_agent_version_def get_agent_version_def bindM_def mon_defs solo_rows solo_ws scalar_one_or_none_def)
      (simp add: solo_agent_def solo_version_def)
  then show "must_get_active solo_agent (solo_world\<lparr>w_db := w_committed solo_world\<rparr>)
     = (Inr solo_version, solo_world\<lparr>w_db := w_committed solo_world\<rparr>)"
    by (simp add: must_get_active_def mon_defs)
  have "get_agent ''agt_a'' (solo_world\<lparr>w_db := w_committed solo_world\<rparr>)
     = (Inr (Some solo_agent), solo_world\<lparr>w_db := w_committed solo_world\<rparr>)"
    by (simp add: get_agent_def bindM_def mon_defs solo_rows solo_ws scalar_one_or_none_def)
      (simp add: solo_agent_def)
  then show "must_get_agent ''agt_a'' (solo_world\<lparr>w_db := w_committed solo_world\<rparr>)
     = (Inr solo_agent, solo_world\<lparr>w_db := w_committed solo_world\<rparr>)"
    by (simp add: must_get_agent_def mon_defs)
qed

text \<open>An update of it with a new configuration runs to its end.\<close>

lemma resolve_total:
  assumes "roster_shape (av_multiagent v)"
  shows "\<exists>v1. resolve_self v = Inr v1"
proof (cases "av_multiagent v = PNone")
  case False
  with assms obtain d es where d: "av_multiagent v = PDict d" "dget ''agents'' d = PList es"
    "list_all (\<lambda>e. roster_type e \<in> {PStr ''agent'', PStr ''self''}) es" by (auto simp: roster_shape_def)
  have "\<exists>e'. resolve_entry i n e = Inr e'" if "e \<in> set es" for i n e
    using d(3) that by (cases e) (auto simp: list_all_iff resolve_entry_def roster_type_def)
  then have "\<exists>as. mapE (resolve_entry i n) es = Inr as" for i n
    by (induction es) (auto simp: res_simps)
  with d show ?thesis by (simp add: resolve_self_def resolve_multiagent_self_entries_def) (metis bindE_simps(2))
qed (simp add: resolve_self_def)

lemma save_version_total: "\<exists>v2 w'. save_version v w = (Inr v2, w')"
  by (cases "find_version (av_id v) (w_db w) = Some v") (simp_all add: save_version_def mon_defs Let_def)

lemma fresh_version_total:
  assumes "find_version (''agtv_'' @ w_uuids u (w_draws u)) (w_db u) = None"
    "\<not> list_ex (\<lambda>x. av_agent_id x = i \<and> av_version x = n) (db_versions (w_db u))"
  shows "\<exists>v u'. fresh_version ws i n c u = (Inr v, u')"
proof -
  obtain q u' where run: "fresh_version ws i n c u = (q, u')" by fastforce
  show ?thesis
  proof (cases q)
    case (Inl e)
    with run assms show ?thesis
      by (auto simp: fresh_version_def insert_version_def mon_simps mon_defs Let_def split: if_splits)
  qed (use run in auto)
qed

lemma solo_stamp:
  assumes "w_db u = put_agent a1 (w_committed solo_world)" "w_uuids u = nat_str" "w_draws u = 0"
  shows "\<exists>v u'. fresh_version ''wrkspc_default'' ''agt_a'' 2 c u = (Inr v, u')"
proof (rule fresh_version_total)
  have vs: "db_versions (w_db u) = [solo_version]" using assms(1) by (simp add: put_agent_def solo_rows)
  show "find_version (''agtv_'' @ w_uuids u (w_draws u)) (w_db u) = None"
  proof -
    have "''agtv_'' @ nat_str 0 \<noteq> ''agtv_a''" by code_simp
    then show ?thesis using assms(2,3) by (simp add: find_version_def find_by_def vs) (simp add: solo_version_def)
  qed
  show "\<not> list_ex (\<lambda>x. av_agent_id x = ''agt_a'' \<and> av_version x = 2) (db_versions (w_db u))"
    by (simp add: vs) (simp add: solo_version_def)
qed

lemma solo_update_q:
  assumes "\<not> same_config solo_version c"
  shows "\<exists>a1 v w'. update_agent_q solo_agent c (solo_world\<lparr>w_db := w_committed solo_world\<rparr>) = (Inr (a1, v, True), w')"
proof -
  let ?w = "solo_world\<lparr>w_db := w_committed solo_world\<rparr>"
  let ?a = "solo_agent\<lparr>ag_active_version := ag_active_version solo_agent + 1, ag_name := vc_name c,
    ag_description := vc_description c, ag_metadata := vc_metadata c\<rparr>"
  have "find_agent (ag_id ?a) (w_db ?w) \<noteq> Some ?a"
    by (simp add: find_agent_def find_by_def solo_rows) (simp add: solo_agent_def)
  then obtain a1 w1 where s: "save_agent ?a ?w = (Inr a1, w1)" "w_db w1 = put_agent a1 (w_committed solo_world)"
    "w_uuids w1 = nat_str" "w_draws w1 = 0"
    by (auto simp: save_agent_def mon_defs Let_def solo_rows)
  from solo_stamp [OF s(2-4)] obtain v w2 where "fresh_version ''wrkspc_default'' ''agt_a'' 2 c w1 = (Inr v, w2)" by blast
  moreover have "ag_workspace_id solo_agent = ''wrkspc_default''" "ag_id solo_agent = ''agt_a''" "ag_active_version solo_agent = 1"
    by (simp_all add: solo_agent_def)
  ultimately show ?thesis using s(1) assms solo_get(3) by (simp add: update_agent_q_def mon_defs Let_def)
qed

lemma solo_update:
  assumes "normalize_update solo_agent (au_fields b) (solo_world\<lparr>w_db := w_committed solo_world\<rparr>)
      = (Inr u, solo_world\<lparr>w_db := w_committed solo_world\<rparr>)" "au_version b = 1"
    "merge_agent_update solo_version u = Inr c" "validate_mcp_bindings (vc_mcp_servers c) (vc_tools c) = Inr ()"
    "\<not> same_config solo_version c" "roster_shape (vc_multiagent c)"
  shows "\<exists>r w'. update_agent ''agt_a'' b solo_world = (Inr r, w') \<and> db_versions (w_committed w') \<noteq> [solo_version]"
proof -
  let ?w = "solo_world\<lparr>w_db := w_committed solo_world\<rparr>"
  have a: "ag_archived_at solo_agent = None" "ag_active_version solo_agent = 1" "ag_id solo_agent = ''agt_a''"
    by (simp_all add: solo_agent_def)
  obtain a1 v w1 where q: "update_agent_q solo_agent c ?w = (Inr (a1, v, True), w1)" using solo_update_q [OF assms(5)] by blast
  have "find_agent (ag_id solo_agent) (w_db ?w) = Some solo_agent" by (simp add: find_agent_def find_by_def solo_rows)
  from update_q_run [OF q this] obtain t w0 where f: "w_db w0 = put_agent a1 (w_db ?w)"
    "fresh_version (ag_workspace_id solo_agent) (ag_id solo_agent) (ag_active_version solo_agent + 1) c w0 = (Inr v, w1)" by auto
  have "av_multiagent v = vc_multiagent c" using fresh_version_run [OF f(2)] by simp
  with assms(6) obtain v1 where r: "resolve_self v = Inr v1" using resolve_total by metis
  obtain v2 w2 where s: "save_version v1 w1 = (Inr v2, w2)" using save_version_total by blast
  have "db_versions (w_db w2) = [solo_version, v2]"
    using stamp_run [OF f(2) r s assms(6)] f(1) by (simp add: put_agent_def solo_rows)
  moreover have "update_agent_body ''agt_a'' b ?w = (Inr (agent_to_response a1 v2), w2\<lparr>w_committed := w_db w2\<rparr>)"
    using assms(1-4) a q r s solo_get(1,2) by (simp add: update_agent_body_def mon_defs)
  ultimately show ?thesis by (simp add: update_agent_def session_scope_def)
qed

lemma rename_runs: "\<exists>r w'. update_agent ''agt_a'' rename solo_world = (Inr r, w') \<and> db_versions (w_committed w') \<noteq> [solo_version]"
proof (rule solo_update)
  let ?c = "\<lparr>vc_name = ''b'', vc_model = av_model solo_version, vc_system = None, vc_description = None, vc_tools = [],
    vc_mcp_servers = [], vc_skills = [], vc_multiagent = PNone, vc_runtime = [], vc_metadata = []\<rparr>"
  show "normalize_update solo_agent (au_fields rename) (solo_world\<lparr>w_db := w_committed solo_world\<rparr>)
      = (Inr (au_fields rename), solo_world\<lparr>w_db := w_committed solo_world\<rparr>)"
    by (simp add: normalize_update_def rename_def mon_defs)
  have "normalize_agent_name (PStr ''b'') ''name'' = Inr ''b''" by code_simp
  then show "merge_agent_update solo_version (au_fields rename) = Inr ?c"
    by (simp add: merge_agent_update_def rename_def given_field_def solo_version_def dget_def)
  show "validate_mcp_bindings (vc_mcp_servers ?c) (vc_tools ?c) = Inr ()" by simp code_simp
qed (simp_all add: rename_def same_config_def solo_version_def roster_shape_def)

lemma team_roster:
  "normalize_multiagent_roster (PDict team) i w = (Inr (PDict team), w)"
  by (simp add: normalize_multiagent_roster_def team_def self_entry_def dget_or_def mon_defs roster_entry_def dget_def
      roster_self_def raise_if_def Let_def)

lemma join_runs: "\<exists>r w'. update_agent ''agt_a'' join_team solo_world = (Inr r, w') \<and> db_versions (w_committed w') \<noteq> [solo_version]"
proof (rule solo_update)
  let ?c = "\<lparr>vc_name = ''a'', vc_model = av_model solo_version, vc_system = None, vc_description = None, vc_tools = [],
    vc_mcp_servers = [], vc_skills = [], vc_multiagent = PDict team, vc_runtime = [], vc_metadata = []\<rparr>"
  show "normalize_update solo_agent (au_fields join_team) (solo_world\<lparr>w_db := w_committed solo_world\<rparr>)
      = (Inr (au_fields join_team), solo_world\<lparr>w_db := w_committed solo_world\<rparr>)"
    by (simp add: normalize_update_def join_team_def mon_defs dget_def team_roster)
  show "merge_agent_update solo_version (au_fields join_team) = Inr ?c"
    by (simp add: merge_agent_update_def join_team_def given_field_def solo_version_def dget_def)
  show "validate_mcp_bindings (vc_mcp_servers ?c) (vc_tools ?c) = Inr ()" by simp code_simp
qed (simp_all add: join_team_def same_config_def solo_version_def roster_shape_def team_def self_entry_def roster_type_def dget_def)

section \<open>Properties\<close>



text \<open>
  C11: a version of an agent never changes once it is there: every version row of a state is a version
  row of every later one. A session that names a version therefore runs the same configuration for ever.
\<close>

theorem versions_immutable:
  assumes "agent_step\<^sup>*\<^sup>* w w'" "agents_ok (w_committed w)" "v \<in> set (db_versions (w_committed w))"
  shows "v \<in> set (db_versions (w_committed w')) \<and>
    (\<exists>a \<in> set (db_agents (w_committed w')). ag_id a = av_agent_id v \<and> av_version v \<le> ag_active_version a)"
proof -
  note k = version_log.runs_ok [OF assms(1,2)]
  have v: "v \<in> set (db_versions (w_committed w'))" using version_log.runs_stay [OF assms] by blast
  then obtain a where a: "a \<in> set (db_agents (w_committed w'))" "ag_id a = av_agent_id v"
    using k by (auto simp: agents_ok_def list_all_iff)
  then have "map av_version (versions_of (av_agent_id v) (db_versions (w_committed w'))) = [1..ag_active_version a]"
    using k by (auto simp: agents_ok_def list_all_iff history_ok_def)
  moreover have "v \<in> set (versions_of (av_agent_id v) (db_versions (w_committed w')))" using v by (simp add: versions_of_def)
  ultimately have "av_version v \<in> set [1..ag_active_version a]" by (metis image_eqI list.set_map)
  with v a show ?thesis by auto
qed

theorem versions_immutable_witness:
  "solo_version \<in> set (db_versions (w_committed (snd (update_agent ''agt_a'' rename solo_world))))"
proof -
  have "agent_step\<^sup>*\<^sup>* solo_world (snd (update_agent ''agt_a'' rename solo_world))"
    by (rule r_into_rtranclp) (auto intro: updating simp: prod_eq_iff)
  from versions_immutable [OF this solo_ok, of solo_version] show ?thesis by (simp add: solo_rows)
qed



text \<open>
  C13: the roster of a coordinator that is accepted has 1 to 20 entries for distinct agents, at most one
  of them the agent itself; each other one names an agent that is there and not archived, with a pinned
  version that is there and is no coordinator.
\<close>

theorem roster_checked:
  assumes "normalize_multiagent_roster m i w = (Inr (PDict d), w')"
  shows "\<exists>es. dget ''agents'' d = PList es \<and> 1 \<le> length es \<and> length es \<le> 20 \<and>
    list_all (\<lambda>e. roster_type e = PStr ''self'' \<or> pinned_entry (w_db w) e) es \<and>
    distinct (map (roster_key (self_key i)) es) \<and> length (filter (\<lambda>e. roster_type e = PStr ''self'') es) \<le> 1"
  using roster_accepted [OF assms] by auto

theorem roster_checked_witness:
  "\<exists>es. dget ''agents'' team = PList es \<and> 1 \<le> length es"
  using roster_checked [OF team_roster] by blast

lemma settled_differs:
  assumes "settled_roster m" "dget ''agents'' d = PList es" "e \<in> set es" "roster_type e = PStr ''self''"
  shows "\<not> py_eq m (PDict d)"
proof
  assume eq: "py_eq m (PDict d)"
  obtain d0 where d0: "m = PDict d0" using assms(1) eq by (auto simp: settled_roster_def split: pv.splits)
  obtain xs where xs: "dget ''agents'' d0 = PList xs" "list_all (\<lambda>e. roster_type e = PStr ''agent'') xs"
    using assms(1) d0 by (auto simp: settled_roster_def split: pv.splits)
  have "map_of d0 ''agents'' = Some (PList xs)" using xs(1) by (auto simp: dget_def split: option.splits)
  then have "(''agents'', PList xs) \<in> set d0" by (rule map_of_SomeD)
  then have "case map_of d ''agents'' of None \<Rightarrow> False | Some u \<Rightarrow> py_eq (PList xs) u"
    using eq d0 by (auto simp: list_all_iff)
  moreover have "map_of d ''agents'' = Some (PList es)" using assms(2) by (auto simp: dget_def split: option.splits)
  ultimately have all: "list_all2 py_eq xs es" by simp
  then obtain x where x: "x \<in> set xs" "py_eq x e" using assms(3) by (metis in_set_conv_nth list_all2_conv_all_nth)
  then have ty: "roster_type x = PStr ''agent''" using xs(2) by (simp add: list_all_iff)
  obtain dx where dx: "x = PDict dx" "dget ''type'' dx = PStr ''agent''" using ty by (cases x) (auto simp: roster_type_def)
  then have "map_of dx ''type'' = Some (PStr ''agent'')" by (auto simp: dget_def split: option.splits)
  then have "(''type'', PStr ''agent'') \<in> set dx" by (rule map_of_SomeD)
  obtain de where de: "e = PDict de" "dget ''type'' de = PStr ''self''" using assms(4) by (cases e) (auto simp: roster_type_def)
  then have "map_of de ''type'' = Some (PStr ''self'')" by (auto simp: dget_def split: option.splits)
  then show False using x(2) dx(1) de(1) \<open>(''type'', PStr ''agent'') \<in> set dx\<close> by (auto simp: list_all_iff)
qed

lemma self_has_effect:
  assumes "agents_ok (w_committed w)" "dget ''multiagent'' (au_fields b) = PDict d"
    "dget ''agents'' d = PList raws" "list_ex (\<lambda>e. roster_type e = PStr ''self'') raws"
  shows "\<not> without_effect i b w"
proof
  assume "without_effect i b w"
  with assms(2) obtain c v w0 where c: "v \<in> set (db_versions (w_committed w))" "same_config v c"
    "normalize_multiagent_roster (PDict d) (Some i) (w\<lparr>w_db := w_committed w\<rparr>) = (Inr (vc_multiagent c), w0)"
    by (auto simp: without_effect_def)
  have "vc_multiagent c \<noteq> PNone" using c(3) by (auto simp: normalize_multiagent_roster_def mon_simps split: pv.splits if_splits)
  from roster_accepted [OF c(3) this] assms(3,4) obtain d' es e where e: "vc_multiagent c = PDict d'" "dget ''agents'' d' = PList es"
    "e \<in> set es" "roster_type e = PStr ''self''" by (auto simp: list_ex_iff)
  have "settled_roster (av_multiagent v)" using assms(1) c(1) by (simp add: agents_ok_def list_all_iff)
  from settled_differs [OF this e(2-4)] c(2) e(1) show False by (simp add: same_config_def)
qed

text \<open>
  An update whose roster names the agent itself always makes a new version, even when it repeats the
  configuration the agent has: the stored roster is resolved, the given one is not, when they are compared.
\<close>

theorem self_roster_always_new:
  assumes "update_agent i b w = (Inr r, w')" "agents_ok (w_committed w)" "dget ''multiagent'' (au_fields b) = PDict d"
    "dget ''agents'' d = PList raws" "list_ex (\<lambda>e. roster_type e = PStr ''self'') raws"
  shows "\<exists>v. db_versions (w_committed w') = db_versions (w_committed w) @ [v] \<and> av_version v = au_version b + 1"
  using update_agent_run [OF assms(1,2)] self_has_effect [OF assms(2-5)] by (auto simp: stamped_def)

theorem self_roster_always_new_witness:
  "\<exists>(w' :: world) v. w_committed w' \<noteq> w_committed solo_world \<and> db_versions (w_committed w') = [solo_version, v] \<and> av_version v = 2"
proof -
  obtain r w' where run: "update_agent ''agt_a'' join_team solo_world = (Inr r, w')" using join_runs by blast
  have "dget ''multiagent'' (au_fields join_team) = PDict team" "dget ''agents'' team = PList [self_entry]"
    "roster_type self_entry = PStr ''self''" "au_version join_team = 1"
    by (simp_all add: join_team_def team_def self_entry_def roster_type_def dget_def)
  with self_roster_always_new [OF run solo_ok, of team "[self_entry]"] obtain v where
    v: "db_versions (w_committed w') = [solo_version, v]" "av_version v = 2" by (auto simp: solo_rows)
  then have "w_committed w' \<noteq> w_committed solo_world" using solo_rows(2) by auto
  with v show ?thesis by blast
qed

end
