(* ===== verification/Sha256.thy ===== *)
theory Sha256
  imports PyVal "HOL-Library.Word"
begin

text \<open>
  \<^theory_text>\<open>hashlib.sha256(data).hexdigest()\<close>, by which the program identifies contents: the hash of a byte string
  (a \<open>string\<close> of characters below 256) on words of 32 bits, and its hexadecimal text.
\<close>

unbundle bit_operations_syntax

definition SHA_CONSTANTS :: "32 word list" where
  "SHA_CONSTANTS =
    [0x428A2F98, 0x71374491, 0xB5C0FBCF, 0xE9B5DBA5, 0x3956C25B, 0x59F111F1, 0x923F82A4, 0xAB1C5ED5,
     0xD807AA98, 0x12835B01, 0x243185BE, 0x550C7DC3, 0x72BE5D74, 0x80DEB1FE, 0x9BDC06A7, 0xC19BF174,
     0xE49B69C1, 0xEFBE4786, 0x0FC19DC6, 0x240CA1CC, 0x2DE92C6F, 0x4A7484AA, 0x5CB0A9DC, 0x76F988DA,
     0x983E5152, 0xA831C66D, 0xB00327C8, 0xBF597FC7, 0xC6E00BF3, 0xD5A79147, 0x06CA6351, 0x14292967,
     0x27B70A85, 0x2E1B2138, 0x4D2C6DFC, 0x53380D13, 0x650A7354, 0x766A0ABB, 0x81C2C92E, 0x92722C85,
     0xA2BFE8A1, 0xA81A664B, 0xC24B8B70, 0xC76C51A3, 0xD192E819, 0xD6990624, 0xF40E3585, 0x106AA070,
     0x19A4C116, 0x1E376C08, 0x2748774C, 0x34B0BCB5, 0x391C0CB3, 0x4ED8AA4A, 0x5B9CCA4F, 0x682E6FF3,
     0x748F82EE, 0x78A5636F, 0x84C87814, 0x8CC70208, 0x90BEFFFA, 0xA4506CEB, 0xBEF9A3F7, 0xC67178F2]"

definition SHA_START :: "32 word list" where
  "SHA_START = [0x6A09E667, 0xBB67AE85, 0x3C6EF372, 0xA54FF53A, 0x510E527F, 0x9B05688C, 0x1F83D9AB, 0x5BE0CD19]"

text \<open>A one bit, zeros, and the length in bits as eight bytes, up to whole blocks of 64 bytes.\<close>

definition length_bytes :: "nat \<Rightarrow> string" where
  "length_bytes n = map (\<lambda>i. char_of (n div 256 ^ (7 - i))) [0..<8]"

definition sha_pad :: "string \<Rightarrow> string" where
  "sha_pad s = s @ CHR 0x80 # replicate ((119 - length s mod 64) mod 64) CHR 0x00 @ length_bytes (8 * length s)"

fun sha_words :: "string \<Rightarrow> 32 word list" where
  "sha_words (a # b # c # d # s) =
     of_nat (((of_char a * 256 + of_char b) * 256 + of_char c) * 256 + of_char d) # sha_words s"
| "sha_words _ = []"

fun blocks16 :: "nat \<Rightarrow> 32 word list \<Rightarrow> 32 word list list" where
  "blocks16 0 ws = []"
| "blocks16 (Suc n) ws = take 16 ws # blocks16 n (drop 16 ws)"

text \<open>The schedule of a block, newest word first.\<close>

definition next_word :: "32 word list \<Rightarrow> 32 word" where
  "next_word rs =
     (let x = rs ! 14; y = rs ! 1;
          s0 = word_rotr 7 x XOR word_rotr 18 x XOR drop_bit 3 x;
          s1 = word_rotr 17 y XOR word_rotr 19 y XOR drop_bit 10 y
      in rs ! 15 + s0 + rs ! 6 + s1)"

primrec extend_words :: "nat \<Rightarrow> 32 word list \<Rightarrow> 32 word list" where
  "extend_words 0 rs = rs"
| "extend_words (Suc n) rs = extend_words n (next_word rs # rs)"

definition sha_round :: "32 word \<times> 32 word \<Rightarrow> 32 word list \<Rightarrow> 32 word list" where
  "sha_round kw st = (case st of
      [a, b, c, d, e, f, g, h] \<Rightarrow>
        let t1 = h + (word_rotr 6 e XOR word_rotr 11 e XOR word_rotr 25 e) + ((e AND f) XOR (NOT e AND g)) + fst kw + snd kw;
            t2 = (word_rotr 2 a XOR word_rotr 13 a XOR word_rotr 22 a) + ((a AND b) XOR (a AND c) XOR (b AND c))
        in [t1 + t2, a, b, c, d + t1, e, f, g]
    | _ \<Rightarrow> st)"

definition sha_block :: "32 word list \<Rightarrow> 32 word list \<Rightarrow> 32 word list" where
  "sha_block ws st = map2 (+) st (fold sha_round (zip SHA_CONSTANTS (rev (extend_words 48 (rev ws)))) st)"

definition hex_word :: "32 word \<Rightarrow> string" where
  "hex_word x = map (\<lambda>i. hex_dig (unat x div 16 ^ (7 - i))) [0..<8]"

definition sha256_hex :: "string \<Rightarrow> string" where
  "sha256_hex s = (let p = sha_pad s in
     concat (map hex_word (fold sha_block (blocks16 (length p div 64) (sha_words p)) SHA_START)))"

text \<open>\<^theory_text>\<open>digest()\<close> is the same words as bytes, and \<^theory_text>\<open>hmac.new(key, message, hashlib.sha256).digest()\<close> the hash of
  the message under a key, which is padded to a block or hashed first when it is longer than one.\<close>

definition word_bytes :: "32 word \<Rightarrow> string" where
  "word_bytes x = map (\<lambda>i. char_of (unat x div 256 ^ (3 - i))) [0..<4]"

definition sha256_digest :: "string \<Rightarrow> string" where
  "sha256_digest s = (let p = sha_pad s in
     concat (map word_bytes (fold sha_block (blocks16 (length p div 64) (sha_words p)) SHA_START)))"

definition xor_byte :: "nat \<Rightarrow> char \<Rightarrow> char" where
  "xor_byte n c = char_of (n XOR of_char c :: nat)"

definition hmac_sha256 :: "string \<Rightarrow> string \<Rightarrow> string" where
  "hmac_sha256 key message =
     (let k = (if 64 < length key then sha256_digest key else key);
          block = k @ replicate (64 - length k) (CHR 0x00)
      in sha256_digest (map (xor_byte 0x5C) block @ sha256_digest (map (xor_byte 0x36) block @ message)))"

text \<open>A digest has 64 hexadecimal digits.\<close>

lemma length_round: "length (sha_round kw st) = length st"
  by (auto simp: sha_round_def Let_def split: list.split)

lemma length_block: "length st = 8 \<Longrightarrow> length (sha_block ws st) = 8"
proof -
  have "length (fold sha_round kws st) = length st" for kws
    by (induction kws arbitrary: st) (simp_all add: length_round)
  then show "length st = 8 \<Longrightarrow> length (sha_block ws st) = 8" by (simp add: sha_block_def)
qed

lemma sha256_length: "length (sha256_hex s) = 64"
proof -
  have "length (fold sha_block bs st) = 8" if "length st = 8" for bs st
    using that by (induction bs arbitrary: st) (simp_all add: length_block)
  from this [of SHA_START] have "length (fold sha_block bs SHA_START) = 8" for bs by (simp add: SHA_START_def)
  moreover have "length (concat (map hex_word xs)) = 8 * length xs" for xs
    by (induction xs) (simp_all add: hex_word_def)
  ultimately show ?thesis by (simp add: sha256_hex_def Let_def)
qed

end
