(* ===== verification/MemoryData.thy ===== *)
theory MemoryData
  imports Environments Secrets Metadata Pagination Sha256
begin

text \<open>
  The values of memory stores in \<open>app/routers/generic_resources.py\<close>: names and paths, the data of a memory
  and of its versions, what an update makes of it, and the responses. A memory's data is the dict the row
  carries; a version keeps a snapshot of it.
\<close>

definition MAX_MEMORIES_PER_STORE :: nat where "MAX_MEMORIES_PER_STORE = 2000"
definition MAX_MEMORY_CONTENT_BYTES :: nat where "MAX_MEMORY_CONTENT_BYTES = 100 * 1024"
definition MAX_MEMORY_PATH_BYTES :: nat where "MAX_MEMORY_PATH_BYTES = 1024"
definition MAX_DISPLAY_NAME_CHARS :: nat where "MAX_DISPLAY_NAME_CHARS = 255"
definition MAX_MEMORY_STORE_DESCRIPTION_CHARS :: nat where "MAX_MEMORY_STORE_DESCRIPTION_CHARS = 1024"

section \<open>Memory stores\<close>

definition memory_store_name :: "pv \<Rightarrow> string res" where
  "memory_store_name v = (case v of
      PNone \<Rightarrow> Inl (HTTPException 422 ''memory_store name is required'')
    | PStr s \<Rightarrow>
        if s = [] then Inl (HTTPException 422 ''memory_store name must not be empty'')
        else if MAX_DISPLAY_NAME_CHARS < length s
          then Inl (HTTPException 422 ''memory_store name must be at most 255 characters'')
        else if list_ex cat_Cc s
          then Inl (HTTPException 422 ''memory_store name must not contain control characters'')
        else Inr s
    | _ \<Rightarrow> Inl (HTTPException 422 ''memory_store name must be a string''))"

definition memory_store_description :: "pv \<Rightarrow> string res" where
  "memory_store_description v = (case v of
      PNone \<Rightarrow> Inr []
    | PStr s \<Rightarrow>
        if MAX_MEMORY_STORE_DESCRIPTION_CHARS < length s
          then Inl (HTTPException 422 ''memory_store description must be at most 1024 characters'')
        else Inr s
    | _ \<Rightarrow> Inl (HTTPException 422 ''memory_store description must be a string''))"

definition normalize_memory_store_data :: "pdict \<Rightarrow> pdict res" where
  "normalize_memory_store_data data =
     bindE (memory_store_name (dget ''name'' data)) (\<lambda>name.
     let d1 = dsetdefault ''description'' (PStr []) (dset ''name'' (PStr name) data) in
     bindE (memory_store_description (dget ''description'' d1)) (\<lambda>description.
     bindE (normalize_metadata (dget ''metadata'' data)) (\<lambda>metadata.
     Inr (dset ''metadata'' (PDict (md_pv metadata)) (dset ''description'' (PStr description) d1)))))"

text \<open>\<^theory_text>\<open>response[k] = dict(response.get(k) or {})\<close>\<close>

definition with_dict :: "string \<Rightarrow> pdict \<Rightarrow> pdict res" where
  "with_dict k d = bindE (dict_or_empty (dget k d)) (\<lambda>m. Inr (dset k (PDict m) d))"

definition memory_store_response :: "resource_row \<Rightarrow> pdict res" where
  "memory_store_response r =
     (let response = resource_to_response r (Some ''memory_store'') in
      with_dict ''metadata'' (dset ''description'' (por (dget ''description'' response) (PStr [])) response))"

section \<open>Paths\<close>

definition quoted :: "string \<Rightarrow> string" where
  "quoted s = CHR 0x27 # s @ [CHR 0x27]"

text \<open>\<^theory_text>\<open>unicodedata.normalize("NFC", s)\<close>: a Latin-1 string is its own normal form.\<close>

definition nfc :: "string \<Rightarrow> string" where
  "nfc s = s"

definition has_control_or_format_characters :: "string \<Rightarrow> bool" where
  "has_control_or_format_characters s = list_ex (\<lambda>c. cat_Cc c \<or> cat_Cf c) s"

definition validate_memory_path_text :: "string \<Rightarrow> unit res" where
  "validate_memory_path_text path =
     bindE (raise_if (\<not> startswith ''/'' path) (HTTPException 422 (''Memory path must start with '' @ quoted ''/''))) (\<lambda>_.
     bindE (raise_if (MAX_MEMORY_PATH_BYTES < length (utf8_encode path))
       (HTTPException 422 ''Memory path must be at most 1024 bytes'')) (\<lambda>_.
     bindE (raise_if (nfc path \<noteq> path) (HTTPException 422 ''Memory path must be NFC-normalized'')) (\<lambda>_.
     let parts = split_on CHR ''/'' path in
     bindE (raise_if (length parts = 1 \<or> tl parts = [[]]) (HTTPException 422 ''Memory path cannot be empty'')) (\<lambda>_.
     bindE (raise_if ([] \<in> set (tl parts)) (HTTPException 422 ''Memory path must not contain empty segments'')) (\<lambda>_.
     bindE (raise_if (list_ex (\<lambda>p. p = ''.'' \<or> p = ''..'') (tl parts))
       (HTTPException 422 (''Memory path must not contain '' @ quoted ''.'' @ '' or '' @ quoted ''..'' @ '' segments''))) (\<lambda>_.
     raise_if (list_ex has_control_or_format_characters (tl parts))
       (HTTPException 422 ''Memory path must not contain control or format characters'')))))))"

definition path_parts :: "pv \<Rightarrow> string list res" where
  "path_parts v = (case v of
      PNone \<Rightarrow> Inl (HTTPException 422 ''Memory path is required'')
    | PStr s \<Rightarrow> bindE (validate_memory_path_text (py_strip s)) (\<lambda>_.
        Inr (split_on CHR ''/'' (removeprefix ''/'' (py_strip s))))
    | PList xs \<Rightarrow> Inr (filter (\<lambda>p. p \<noteq> []) (map (\<lambda>x. py_strip (py_str x)) xs))
    | _ \<Rightarrow> Inl (HTTPException 422 ''Memory path must be a string or array''))"

definition normalize_memory_path :: "pv \<Rightarrow> string res" where
  "normalize_memory_path v =
     bindE (path_parts v) (\<lambda>parts.
     bindE (raise_if (parts = []) (HTTPException 422 ''Memory path cannot be empty'')) (\<lambda>_.
     bindE (raise_if (list_ex (\<lambda>p. CHR ''/'' \<in> set p) parts)
       (HTTPException 422 (''Memory path array items cannot contain '' @ quoted ''/''))) (\<lambda>_.
     let path = ''/'' @ py_join ''/'' parts in
     bindE (validate_memory_path_text path) (\<lambda>_. Inr path))))"

definition normalize_memory_path_prefix :: "string \<Rightarrow> string res" where
  "normalize_memory_path_prefix s =
     (let t = py_strip s in
      if t = ''/'' then Inr ''/''
      else normalize_memory_path (PStr (if endswith ''/'' t then rstrip_char CHR ''/'' t else t)))"

definition path_key :: "string \<Rightarrow> string" where
  "path_key path = strip_char CHR ''/'' path"

section \<open>Contents\<close>

definition content_metadata :: "string \<Rightarrow> pdict" where
  "content_metadata content =
     [(''content_sha256'', PStr (sha256_hex (utf8_encode content))),
      (''content_size_bytes'', PInt (int (length (utf8_encode content))))]"

definition enforce_memory_content_limit :: "string \<Rightarrow> unit res" where
  "enforce_memory_content_limit content =
     raise_if (MAX_MEMORY_CONTENT_BYTES < length (utf8_encode content))
       (HTTPException 413 ''Memory content exceeds maximum size of 102400 bytes'')"

text \<open>\<^theory_text>\<open>"" if v is None else str(v)\<close>\<close>

definition content_text :: "pv \<Rightarrow> string" where
  "content_text v = (if v = PNone then [] else py_str v)"

definition memory_payload :: "pdict \<Rightarrow> pdict M" where
  "memory_payload data =
     bindM (liftE (normalize_memory_path (dget ''path'' data))) (\<lambda>path.
     bindM nowM (\<lambda>now.
     let actor = PStr (py_str (por (por (dget ''actor'' data) (dget ''updated_by'' data)) (PStr ''api'')));
         content = content_text (dget ''content'' data) in
     seqM (liftE (enforce_memory_content_limit content)) (returnM (
       let m1 = dupdate data ([(''path'', PStr path), (''path_key'', PStr (path_key path)), (''content'', PStr content)]
              @ content_metadata content
              @ [(''version'', PInt 1), (''created_by'', actor), (''updated_by'', actor),
                 (''created_at'', PStr (isoformat now)), (''updated_at'', PStr (isoformat now))])
       in dpop ''actor'' (dsetdefault ''redacted'' (PBool False) (dsetdefault ''metadata'' (PDict []) m1))))))"

section \<open>Updates\<close>

definition UNMERGED_KEYS :: "string list" where
  "UNMERGED_KEYS = [''path_key'', ''version'', ''created_at'', ''created_by'', ''memory_version_id'']"

definition merge_memory_item :: "string \<times> pv \<Rightarrow> pdict \<Rightarrow> pdict" where
  "merge_memory_item kv merged = (case kv of (k, v) \<Rightarrow>
     if k \<in> set UNMERGED_KEYS then merged
     else if v = PStr [] then dpop k merged
     else dset k v merged)"

text \<open>\<^theory_text>\<open>update.pop("actor", update.pop("updated_by", default))\<close>: both keys go, the first one that is there counts.\<close>

definition update_actor :: "pdict \<Rightarrow> pdict \<Rightarrow> string" where
  "update_actor existing update =
     py_str (dget_or ''actor'' (dget_or ''updated_by'' (dget_or ''updated_by'' (PStr ''api'') existing) update) update)"

definition merge_memory_path :: "pdict \<Rightarrow> pdict \<Rightarrow> pdict res" where
  "merge_memory_path update merged =
     (if has_key ''path'' update then
        bindE (normalize_memory_path (dget ''path'' update)) (\<lambda>path.
        Inr (dset ''path_key'' (PStr (path_key path)) (dset ''path'' (PStr path) merged)))
      else Inr merged)"

definition merge_memory_content :: "pdict \<Rightarrow> pdict \<Rightarrow> pdict res" where
  "merge_memory_content update merged =
     (if has_key ''content'' update then
        let content = content_text (dget ''content'' merged) in
        bindE (enforce_memory_content_limit content) (\<lambda>_.
        Inr (dupdate (dset ''content'' (PStr content) merged) (content_metadata content)))
      else Inr merged)"

definition merge_memory_data :: "pdict \<Rightarrow> pdict \<Rightarrow> pdict M" where
  "merge_memory_data existing update0 =
     (let update = dpop ''actor'' (dpop ''updated_by'' update0) in
      bindM (liftE (merge_memory_path update existing)) (\<lambda>m1.
      bindM (liftE (merge_memory_content update (fold merge_memory_item update m1))) (\<lambda>m2.
      bindM (liftE (py_int (por (dget ''version'' m2) (PInt 1)))) (\<lambda>version.
      bindM nowM (\<lambda>now.
      returnM (dsetdefault ''metadata'' (PDict []) (dset ''updated_at'' (PStr (isoformat now))
        (dset ''updated_by'' (PStr (update_actor existing update0)) (dset ''version'' (PInt (version + 1)) m2)))))))))"

definition memory_requested_state_matches_current :: "pdict \<Rightarrow> pdict \<Rightarrow> bool res" where
  "memory_requested_state_matches_current current update =
     bindE (if has_key ''path'' update
            then bindE (normalize_memory_path (dget ''path'' update)) (\<lambda>p. Inr (PStr p))
            else Inr (dget ''path'' current)) (\<lambda>requested_path.
     bindE (normalize_memory_path (dget ''path'' current)) (\<lambda>current_path.
     let current_content = content_text (dget ''content'' current);
         requested_content = (if has_key ''content'' update then content_text (dget ''content'' update)
                              else current_content)
     in Inr (py_eq requested_path (PStr current_path) \<and> requested_content = current_content)))"

definition IMMATERIAL_KEYS :: "string list" where
  "IMMATERIAL_KEYS = [''content_sha256'', ''content_size_bytes'', ''created_at'', ''created_by'', ''memory_version_id'',
     ''session_id'', ''updated_at'', ''updated_by'', ''version'']"

definition material :: "pdict \<Rightarrow> pdict" where
  "material d = filter (\<lambda>(k, _). k \<notin> set IMMATERIAL_KEYS) d"

definition memory_has_material_change :: "pdict \<Rightarrow> pdict \<Rightarrow> bool" where
  "memory_has_material_change existing merged = (\<not> dict_eq (material existing) (material merged))"

section \<open>Versions\<close>

definition memory_snapshot :: "pdict \<Rightarrow> pdict" where
  "memory_snapshot data = dpop ''path_key'' data"

definition api_actor :: "string \<Rightarrow> pv" where
  "api_actor api_key_id = PDict [(''type'', PStr ''api_actor''), (''api_key_id'', PStr api_key_id)]"

definition memory_version_data :: "resource_row \<Rightarrow> int \<Rightarrow> string \<Rightarrow> string \<Rightarrow> pdict \<Rightarrow> pdict" where
  "memory_version_data memory version actor operation version_data =
     (let snapshot = memory_snapshot version_data in
      [(''memory_store_id'', pstr_opt (mr_parent_id memory)), (''memory_id'', PStr (mr_id memory)),
       (''memory_version'', PInt version), (''path'', dget ''path'' version_data),
       (''path_key'', dget ''path_key'' version_data), (''content'', dget ''content'' snapshot),
       (''content_sha256'', dget ''content_sha256'' snapshot),
       (''content_size_bytes'', dget ''content_size_bytes'' snapshot), (''snapshot'', PDict snapshot),
       (''actor'', PStr actor), (''created_by'', api_actor actor), (''session_id'', dget ''session_id'' version_data),
       (''operation'', PStr operation), (''redacted'', PBool False)])"

definition create_memory_version :: "resource_row \<Rightarrow> int \<Rightarrow> string \<Rightarrow> string \<Rightarrow> pdict \<Rightarrow> resource_row M" where
  "create_memory_version memory version actor operation data =
     create_resource ''memory_version'' (resource_args0\<lparr>
       ra_parent_id := Some (mr_id memory), ra_version := Some version,
       ra_data := memory_version_data memory version actor operation
         (if data \<noteq> [] then data else mr_data memory)\<rparr>)"

text \<open>Redaction takes the content out of the snapshot and marks the version.\<close>

definition redacted_version_data :: "pdict \<Rightarrow> string \<Rightarrow> pdict res" where
  "redacted_version_data data now =
     bindE (dict_or_empty (dget ''snapshot'' data)) (\<lambda>snapshot.
     Inr (dset ''redacted_at'' (PStr now) (dset ''redacted'' (PBool True)
       (dset ''snapshot'' (PDict (dset ''redacted'' (PBool True) (dpop ''content'' snapshot))) data))))"

section \<open>Responses\<close>

definition normalize_memory_view :: "string option \<Rightarrow> string option res" where
  "normalize_memory_view view = (case view of
      None \<Rightarrow> Inr None
    | Some v \<Rightarrow> if py_lower v \<in> {''basic'', ''full''} then Inr (Some (py_lower v))
                else Inl (HTTPException 422 ''view must be basic or full''))"

definition memory_response :: "resource_row \<Rightarrow> string option \<Rightarrow> pdict res" where
  "memory_response r view0 =
     bindE (normalize_memory_view view0) (\<lambda>view.
     let r0 = resource_to_response r (Some ''memory'');
         content = (if dget ''content'' r0 = PNone \<and> \<not> truthy (dget ''redacted'' r0) then PStr []
                    else dget ''content'' r0) in
     bindE (normalize_memory_path (dget ''path'' r0)) (\<lambda>path.
     let r1 = dset ''path_key'' (PStr (path_key path)) (dset ''path'' (PStr path)
                (dset ''memory_store_id'' (pstr_opt (mr_parent_id r)) r0));
         r2 = (if content \<noteq> PNone then dupdate r1 (content_metadata (py_str content)) else r1);
         r3 = dsetdefault ''content_size_bytes'' (PInt 0)
                (dsetdefault ''content_sha256'' (dget ''content_sha256'' (content_metadata [])) r2);
         r4 = dset ''memory_version_id'' (PStr (str_or_empty (dget ''memory_version_id'' r3))) r3
     in Inr (if view = Some ''basic'' then dset ''content'' PNone r4 else r4)))"

definition memory_version_operation :: "pv \<Rightarrow> string res" where
  "memory_version_operation v =
     bindE (in_set v [PStr ''created'', PStr ''modified'', PStr ''deleted'']) (\<lambda>known.
     Inr (if known then py_str v else if v = PStr ''create'' then ''created''
          else if v = PStr ''delete'' then ''deleted'' else ''modified''))"

definition version_path :: "pdict \<Rightarrow> pdict \<Rightarrow> string res" where
  "version_path data snapshot = normalize_memory_path (por (dget ''path'' data) (dget ''path'' snapshot))"

text \<open>The four fields that depend on what became of the memory.\<close>

definition version_fields :: "pdict \<Rightarrow> pdict \<Rightarrow> bool \<Rightarrow> string \<Rightarrow> string option \<Rightarrow> pdict res" where
  "version_fields data snapshot hidden operation view =
     (if hidden then Inr [(''content'', PNone), (''path'', PNone), (''content_sha256'', PNone), (''content_size_bytes'', PNone)]
      else bindE (version_path data snapshot) (\<lambda>path.
      if operation = ''deleted''
      then Inr [(''content'', PNone), (''path'', PStr path), (''content_sha256'', PNone), (''content_size_bytes'', PNone)]
      else Inr [(''content'', if view = Some ''basic'' then PNone else dget_or ''content'' (dget ''content'' snapshot) data),
        (''path'', PStr path),
        (''content_sha256'', por (dget ''content_sha256'' data) (dget ''content_sha256'' snapshot)),
        (''content_size_bytes'', por (dget ''content_size_bytes'' data) (dget ''content_size_bytes'' snapshot))]))"

definition memory_version_response :: "resource_row \<Rightarrow> string option \<Rightarrow> pdict res" where
  "memory_version_response r view0 =
     bindE (normalize_memory_view view0) (\<lambda>view.
     let data = mr_data r in
     bindE (dict_or_empty (dget ''snapshot'' data)) (\<lambda>snapshot.
     bindE (memory_version_operation (dget ''operation'' data)) (\<lambda>operation.
     let hidden = truthy (por (dget ''redacted'' data) (dget ''redacted_at'' data)) in
     bindE (version_fields data snapshot hidden operation view) (\<lambda>fs.
     let r1 = dupdate (resource_to_response r (Some ''memory_version''))
        [(''memory_store_id'', por (dget ''memory_store_id'' data) (dget ''memory_store_id'' snapshot)),
         (''memory_id'', por (dget ''memory_id'' data) (pstr_opt (mr_parent_id r))),
         (''operation'', PStr operation),
         (''created_by'', por (dget ''created_by'' data) (api_actor (py_str (por (dget ''actor'' data) (PStr ''api'')))))]
     in Inr (dupdate (dset ''redacted_at'' (dget ''redacted_at'' data) (dpop ''session_id'' r1)) fs)))))"

definition memory_version_api_key_id :: "resource_row \<Rightarrow> string option" where
  "memory_version_api_key_id r =
     (let named = (case dget ''created_by'' (mr_data r) of PDict c \<Rightarrow> dget ''api_key_id'' c | _ \<Rightarrow> PNone);
          actor = dget ''actor'' (mr_data r) in
      if named \<noteq> PNone then Some (py_str named)
      else if actor \<noteq> PNone then Some (py_str actor) else None)"

definition memory_version_session_id :: "resource_row \<Rightarrow> string option" where
  "memory_version_session_id r =
     (let v = dget ''session_id'' (mr_data r);
          w = (case dget ''snapshot'' (mr_data r) of PDict s \<Rightarrow> dget ''session_id'' s | _ \<Rightarrow> PNone) in
      if v \<noteq> PNone then Some (py_str v) else if w \<noteq> PNone then Some (py_str w) else None)"

definition memory_path_key_of :: "resource_row \<Rightarrow> string" where
  "memory_path_key_of r = strip_char CHR ''/''
     (py_str (por (por (dget ''path_key'' (mr_data r)) (pstr_opt (mr_name r))) (PStr [])))"

definition row_created :: "resource_row \<Rightarrow> pydt option res" where
  "row_created r = Inr (Some (utc_dt (mr_created_at r)))"

definition sort_rows :: "resource_row list \<Rightarrow> string option \<Rightarrow> resource_row list res" where
  "sort_rows rows order = sort_by_created_at row_created (\<lambda>r. Some (mr_id r)) rows order"

definition sort_memories :: "resource_row list \<Rightarrow> string \<Rightarrow> string \<Rightarrow> resource_row list res" where
  "sort_memories rows order0 order_by =
     bindE (normalize_sort_order (Some order0) ''asc'') (\<lambda>order.
     bindE (raise_if (order_by \<notin> {''path'', ''created_at''})
       (HTTPException 422 ''order_by must be path or created_at'')) (\<lambda>_.
     if order_by = ''created_at'' then sort_rows rows (Some order)
     else let key = (\<lambda>r. str_or_empty (dget ''path_key'' (mr_data r)))
       in Inr (if order = ''desc'' then rev (sort_key key (rev rows)) else sort_key key rows)))"

end
