(* ===== verification/Files.thy ===== *)
theory Files
  imports Sha256 MemoryData SessionResources
begin

text \<open>
  \<open>app/routers/files.py\<close> and \<open>app/content_scan.py\<close>: files are uploaded whole, or put by the client under a
  staged key and then completed; equal contents share one object, which goes with the last row that refers to it.
  \<open>guess_type\<close> and \<open>presign\<close> are the library functions \<open>Storage\<close> takes as arguments.
\<close>

section \<open>Checks\<close>

definition EICAR_TEST_SIGNATURE :: string where
  "EICAR_TEST_SIGNATURE = ''EICAR-STANDARD-ANTIVIRUS-TEST-FILE''"

definition validate_upload_content :: "string \<Rightarrow> string \<Rightarrow> unit res" where
  "validate_upload_content content label =
     raise_if (str_contains EICAR_TEST_SIGNATURE content) (UnsafeContentError (label @ '' failed content scan''))"

definition scan_upload_content :: "string \<Rightarrow> string \<Rightarrow> unit M" where
  "scan_upload_content content label = catchM (liftE (validate_upload_content content label)) (\<lambda>e. case e of
      UnsafeContentError m \<Rightarrow> raiseM (HTTPException 422 m) | _ \<Rightarrow> raiseM e)"

definition enforce_size_limit :: "int \<Rightarrow> int \<Rightarrow> string \<Rightarrow> unit M" where
  "enforce_size_limit size_bytes max_bytes label =
     guardM (max_bytes > 0 \<and> size_bytes > max_bytes)
       (HTTPException 413 (label @ '' exceeds maximum size of '' @ int_str max_bytes @ '' bytes''))"

definition validate_staged_upload_key :: "string \<Rightarrow> unit M" where
  "validate_staged_upload_key key = bindM (workspace_id_or_default None) (\<lambda>ws.
     guardM (\<not> startswith (''workspaces/'' @ ws @ ''/'') key \<or> \<not> str_contains ''/staged-uploads/'' key)
       (HTTPException 422 ''Only staged upload keys for the current workspace can be completed''))"

definition in_object_storage :: "resource_row \<Rightarrow> bool" where
  "in_object_storage r \<longleftrightarrow> is_object_storage_backend (mr_storage_backend r) \<and> or_str (mr_storage_key r) [] \<noteq> []"

definition find_deduplicated_file :: "string \<Rightarrow> resource_row option M" where
  "find_deduplicated_file sha256 =
     (if sha256 = [] then returnM None
      else bindM (get_resource_by_sha256 ''file'' sha256 False None) (\<lambda>existing. case existing of
          None \<Rightarrow> returnM None
        | Some f \<Rightarrow>
            if in_object_storage f then returnM (Some f) else returnM None))"

definition file_response :: "resource_row \<Rightarrow> string option \<Rightarrow> pdict" where
  "file_response f scope_id =
     (let response = resource_to_response f (Some ''file'') in
      case scope_id of None \<Rightarrow> response
      | Some i \<Rightarrow> dsetdefault ''scope'' (PDict [(''type'', PStr ''session''), (''id'', PStr i)]) response)"

definition file_scope_id :: "pdict \<Rightarrow> string option" where
  "file_scope_id data = (case dget ''scope'' data of
      PDict scope \<Rightarrow> pv_str (dget ''id'' scope) | _ \<Rightarrow> pv_str (dget ''scope_id'' data))"

definition file_ids_for_scope :: "string \<Rightarrow> string list M" where
  "file_ids_for_scope scope_id =
     bindM (list_resources ''session_resource'' (Some scope_id) 1000 False False None) (\<lambda>rows.
     returnM (List.map_filter (\<lambda>r. if dget ''type'' (mr_data r) \<noteq> PStr ''file'' then None
         else (case dget ''file_id'' (mr_data r) of PStr i \<Rightarrow> if i \<noteq> [] then Some i else None | _ \<Rightarrow> None)) rows))"

section \<open>Upload\<close>

record upload =
  up_filename :: "string option"
  up_content_type :: "string option"
  up_content :: string

text \<open>What a new row takes over: from the object just stored, or from the file with the same contents.\<close>

record placed_file =
  pf_backend :: "string option"
  pf_key :: "string option"
  pf_url :: "string option"
  pf_size_bytes :: "int option"
  pf_sha256 :: "string option"
  pf_data :: pdict

definition file_row_data :: "string option \<Rightarrow> string \<Rightarrow> resource_row option \<Rightarrow> pdict" where
  "file_row_data filename mime_type existing =
     [(''filename'', pstr_opt filename), (''mime_type'', PStr mime_type)] @
     (case existing of None \<Rightarrow> [] | Some f \<Rightarrow> [(''deduplicated_from_file_id'', PStr (mr_id f))])"

definition place_upload :: "(string \<Rightarrow> string option) \<Rightarrow> upload \<Rightarrow> string \<Rightarrow> string \<Rightarrow> resource_row option \<Rightarrow>
    placed_file M" where
  "place_upload guess_type u mime_type sha256 existing = (case existing of
      None \<Rightarrow>
        bindM (storage_error_500 (seqM should_store_in_object_storage
          (save_file_bytes sha256_hex guess_type (up_content u) (Some mime_type) ''oma''
            (or_str (up_filename u) ''upload'') ''files'' None))) (\<lambda>stored.
        returnM \<lparr>pf_backend = Some (sf_backend stored), pf_key = Some (sf_key stored), pf_url = Some (sf_url stored),
          pf_size_bytes = Some (sf_size_bytes stored), pf_sha256 = Some (or_str (Some (sf_sha256 stored)) sha256),
          pf_data = file_row_data (up_filename u) mime_type None\<rparr>)
    | Some f \<Rightarrow>
        returnM \<lparr>pf_backend = mr_storage_backend f, pf_key = mr_storage_key f, pf_url = mr_storage_url f,
          pf_size_bytes = mr_size_bytes f, pf_sha256 = Some (or_str (mr_sha256 f) sha256),
          pf_data = file_row_data (up_filename u) mime_type (Some f)\<rparr>)"

definition create_file_row :: "string option \<Rightarrow> string \<Rightarrow> placed_file \<Rightarrow> resource_row M" where
  "create_file_row filename mime_type p = create_resource ''file'' (resource_args0\<lparr>ra_name := filename,
     ra_filename := filename, ra_content_type := Some mime_type, ra_data := pf_data p,
     ra_storage_backend := pf_backend p, ra_storage_key := pf_key p, ra_storage_url := pf_url p,
     ra_size_bytes := pf_size_bytes p, ra_sha256 := pf_sha256 p\<rparr>)"

definition upload_file_body :: "(string \<Rightarrow> string option) \<Rightarrow> upload \<Rightarrow> pdict M" where
  "upload_file_body guess_type u =
     bindM get_settings (\<lambda>st.
     seqM (enforce_size_limit (int (length (up_content u))) (st_oma_max_file_upload_bytes st) ''File upload'') (
     seqM (scan_upload_content (up_content u) ''File upload'') (
     let mime_type = or_str (up_content_type u) ''application/octet-stream'';
         sha256 = sha256_hex (up_content u) in
     bindM (find_deduplicated_file sha256) (\<lambda>existing.
     bindM (place_upload guess_type u mime_type sha256 existing) (\<lambda>p.
     bindM (create_file_row (up_filename u) mime_type p) (\<lambda>r.
     seqM commitM (returnM (resource_to_response r (Some ''file'')))))))))"

definition upload_file :: "(string \<Rightarrow> string option) \<Rightarrow> upload \<Rightarrow> pdict M" where
  "upload_file guess_type u = session_scope (upload_file_body guess_type u)"

section \<open>Upload by the client\<close>

record presign_body =
  pb_filename :: string
  pb_mime_type :: string
  pb_namespace :: string
  pb_expires_in :: int

definition storage_or_503 :: "unit M" where
  "storage_or_503 = storage_error_500 (bindM should_store_in_object_storage (\<lambda>ok.
     guardM (\<not> ok) (HTTPException 503 ''Object storage is not configured'')))"

definition presign_file_upload ::
  "(storage_config \<Rightarrow> string \<Rightarrow> string \<Rightarrow> int \<Rightarrow> string res) \<Rightarrow> presign_body \<Rightarrow> pdict M" where
  "presign_file_upload presign b =
     seqM storage_or_503 (
     bindM (object_key (pb_namespace b) ''staged-uploads'' (pb_filename b) None None) (\<lambda>key.
     bindM (create_presigned_upload_url presign key (pb_mime_type b) (pb_expires_in b)) (\<lambda>upload_url.
     returnM [(''type'', PStr ''file_upload_url''), (''key'', PStr key), (''upload_url'', PStr upload_url),
       (''method'', PStr ''PUT''), (''headers'', PDict [(''content-type'', PStr (pb_mime_type b))]),
       (''expires_in'', PInt (pb_expires_in b))])))"

record complete_body =
  cb_key :: string
  cb_filename :: "string option"
  cb_mime_type :: "string option"
  cb_size_bytes :: "int option"
  cb_sha256 :: "string option"

definition or_int :: "int option \<Rightarrow> int option \<Rightarrow> int option" where
  "or_int a b = (case a of Some n \<Rightarrow> if n \<noteq> 0 then Some n else b | None \<Rightarrow> b)"

definition place_staged :: "string \<Rightarrow> string \<Rightarrow> string \<Rightarrow> string \<Rightarrow> int option \<Rightarrow> resource_row option \<Rightarrow>
    placed_file M" where
  "place_staged key filename mime_type sha256 size_bytes existing = (case existing of
      None \<Rightarrow>
        bindM (object_key ''oma'' ''files'' filename (Some sha256) None) (\<lambda>permanent_key.
        seqM (copy_file key permanent_key (Some mime_type)) (
        bindM (public_url_for_key permanent_key) (\<lambda>url.
        bindM object_storage_backend_label (\<lambda>backend.
        returnM \<lparr>pf_backend = Some backend, pf_key = Some permanent_key, pf_url = Some url, pf_size_bytes = size_bytes,
          pf_sha256 = Some sha256, pf_data = file_row_data (Some filename) mime_type None\<rparr>))))
    | Some f \<Rightarrow>
        returnM \<lparr>pf_backend = mr_storage_backend f, pf_key = mr_storage_key f, pf_url = mr_storage_url f,
          pf_size_bytes = size_bytes, pf_sha256 = Some sha256, pf_data = file_row_data (Some filename) mime_type (Some f)\<rparr>)"

definition complete_file_upload_body :: "complete_body \<Rightarrow> pdict M" where
  "complete_file_upload_body b =
     seqM storage_or_503 (
     seqM (validate_staged_upload_key (cb_key b)) (
     bindM (get_file_info (cb_key b)) (\<lambda>(info_type, info_length).
     let mime_type = or_str (cb_mime_type b) (or_str info_type ''application/octet-stream'');
         size0 = or_int (cb_size_bytes b) info_length in
     bindM get_settings (\<lambda>st.
     seqM (case size0 of None \<Rightarrow> returnM ()
           | Some n \<Rightarrow> enforce_size_limit n (st_oma_max_file_upload_bytes st) ''File upload'') (
     bindM (download_file_with_type (cb_key b)) (\<lambda>(staged_content, _).
     seqM (scan_upload_content staged_content ''File upload'') (
     let staged_sha256 = sha256_hex staged_content in
     seqM (guardM (or_str (cb_sha256 b) [] \<noteq> [] \<and> cb_sha256 b \<noteq> Some staged_sha256)
       (HTTPException 422 ''File upload sha256 does not match staged object'')) (
     let sha256 = or_str (cb_sha256 b) staged_sha256;
         final_size = (case size0 of None \<Rightarrow> Some (int (length staged_content)) | Some n \<Rightarrow> Some n);
         filename = or_str (cb_filename b) (last (split_on CHR ''/'' (cb_key b))) in
     bindM (find_deduplicated_file sha256) (\<lambda>existing.
     bindM (place_staged (cb_key b) filename mime_type sha256 final_size existing) (\<lambda>p.
     seqM (delete_file (cb_key b)) (
     bindM (create_file_row (Some filename) mime_type p) (\<lambda>r.
     seqM commitM (returnM (resource_to_response r (Some ''file'')))))))))))))))"

definition complete_file_upload :: "complete_body \<Rightarrow> pdict M" where
  "complete_file_upload b = session_scope (complete_file_upload_body b)"

section \<open>Reading and deleting\<close>

definition list_files :: "int \<Rightarrow> string option \<Rightarrow> string option \<Rightarrow> string option \<Rightarrow> pdict list_response M" where
  "list_files limit after_id before_id scope_id = session_scope (
     bindM (list_resources ''file'' None 1000 False False None) (\<lambda>found.
     bindM (case scope_id of None \<Rightarrow> returnM [] | Some i \<Rightarrow> file_ids_for_scope i) (\<lambda>scope_file_ids.
     let in_scope = (case scope_id of None \<Rightarrow> found
           | Some i \<Rightarrow> filter (\<lambda>f. mr_id f \<in> set scope_file_ids \<or> file_scope_id (mr_data f) = Some i) found) in
     bindM (liftE (sort_rows in_scope (Some ''desc''))) (\<lambda>rows.
     liftE (paginate_by_id item_id
       (map (\<lambda>f. file_response f (if mr_id f \<in> set scope_file_ids then scope_id else None)) rows)
       (Some limit) after_id before_id 1000)))))"

definition file_or_404 :: "string \<Rightarrow> resource_row M" where
  "file_or_404 file_id = bindM (get_resource file_id (Some ''file'') None False None) (\<lambda>found. case found of
      None \<Rightarrow> raiseM (HTTPException 404 ''File not found'') | Some f \<Rightarrow> returnM f)"

definition retrieve_file_metadata :: "string \<Rightarrow> pdict M" where
  "retrieve_file_metadata file_id = session_scope (
     bindM (file_or_404 file_id) (\<lambda>f. returnM (resource_to_response f (Some ''file''))))"

record content_response =
  cr_content :: string
  cr_media_type :: string
  cr_disposition :: string

definition download_file_route :: "string \<Rightarrow> content_response M" where
  "download_file_route file_id = session_scope (
     bindM (file_or_404 file_id) (\<lambda>f.
     seqM (guardM (\<not> in_object_storage f) (HTTPException 500 ''File object is not stored in object storage'')) (
     bindM (download_file_with_type (or_str (mr_storage_key f) [])) (\<lambda>(content, stored_content_type).
     returnM \<lparr>cr_content = content,
       cr_media_type = or_str stored_content_type (or_str (mr_content_type f) ''application/octet-stream''),
       cr_disposition = ''attachment; filename='' @ CHR 0x22 # or_str (mr_filename f) (mr_id f) @ [CHR 0x22]\<rparr>))))"

definition release_file_object :: "resource_row \<Rightarrow> unit M" where
  "release_file_object f =
     (if in_object_storage f then
        bindM (count_resources_by_storage_key ''file'' (or_str (mr_storage_backend f) [])
          (or_str (mr_storage_key f) []) False None) (\<lambda>active_references.
        if active_references \<le> 1 then delete_file (or_str (mr_storage_key f) []) else returnM ())
      else returnM ())"

definition delete_file_route_body :: "string \<Rightarrow> pdict M" where
  "delete_file_route_body file_id =
     bindM (file_or_404 file_id) (\<lambda>f.
     seqM (release_file_object f) (
     bindM (delete_resource f) (\<lambda>f1.
     seqM commitM (returnM (deleted_response f1 (Some ''file_deleted''))))))"

definition delete_file_route :: "string \<Rightarrow> pdict M" where
  "delete_file_route file_id = session_scope (delete_file_route_body file_id)"

end
