(* ===== verification/Cron.thy ===== *)
theory Cron
  imports PyTime Effects
begin

text \<open>
  Cron schedules in \<open>app/routers/generic_resources.py\<close>: the values of a field, valid expressions, and the next times
  an expression matches. A time zone is what \<^theory_text>\<open>zoneinfo\<close> knows of it: the offset at an instant, and the offset
  of a wall-clock time (the first of two when the clock shows it twice, \<^theory_text>\<open>fold=0\<close>, which is what \<^theory_text>\<open>datetime\<close>
  arithmetic gives). The lookup of a zone by name is the argument \<open>zone_info\<close>. Instants and wall-clock times are
  microseconds since the first of January of year 1, a Monday; years after 9999 are not cut off.
\<close>

section \<open>Fields\<close>

text \<open>\<^theory_text>\<open>range(start, end + 1, step)\<close> for a positive step\<close>

definition stepped :: "int \<Rightarrow> int \<Rightarrow> int \<Rightarrow> int list" where
  "stepped start final step = map (\<lambda>i. start + int i * step) [0..<nat ((final - start) div step + 1)]"

definition cron_step :: "string \<Rightarrow> (string \<times> int) res" where
  "cron_step item = (case split_once CHR ''/'' item of
      None \<Rightarrow> Inr (item, 1)
    | Some (rest, raw_step) \<Rightarrow>
        bindE (py_int_of_str raw_step) (\<lambda>step.
        bindE (raise_if (step \<le> 0) (ValueError ''cron step must be positive'')) (\<lambda>_. Inr (rest, step))))"

definition cron_bounds :: "string \<Rightarrow> int \<Rightarrow> int \<Rightarrow> (int \<times> int) res" where
  "cron_bounds item minimum maximum =
     (if item = ''*'' then Inr (minimum, maximum)
      else (case split_once CHR ''-'' item of
          Some (raw_start, raw_end) \<Rightarrow>
            bindE (py_int_of_str raw_start) (\<lambda>start. bindE (py_int_of_str raw_end) (\<lambda>final. Inr (start, final)))
        | None \<Rightarrow> bindE (py_int_of_str item) (\<lambda>n. Inr (n, n))))"

definition cron_item_values :: "int \<Rightarrow> int \<Rightarrow> string \<Rightarrow> int list res" where
  "cron_item_values minimum maximum raw =
     (let item = py_strip raw in
      bindE (raise_if (item = []) (ValueError ''empty cron field item'')) (\<lambda>_.
      bindE (cron_step item) (\<lambda>(rest, step).
      bindE (cron_bounds rest minimum maximum) (\<lambda>(start, final).
      bindE (raise_if (start < minimum \<or> maximum < final \<or> final < start)
        (ValueError ''cron field value out of range'')) (\<lambda>_.
      Inr (stepped start final step))))))"

definition cron_field_values :: "string \<Rightarrow> int \<Rightarrow> int \<Rightarrow> int list res" where
  "cron_field_values part minimum maximum =
     bindE (mapE (cron_item_values minimum maximum) (split_on CHR '','' part)) (\<lambda>vs. Inr (concat vs))"

record cron =
  cr_minutes :: "int list"
  cr_hours :: "int list"
  cr_days :: "int list"
  cr_months :: "int list"
  cr_weekdays :: "int list"

definition cron_fields :: "string list \<Rightarrow> cron res" where
  "cron_fields parts =
     bindE (cron_field_values (parts ! 0) 0 59) (\<lambda>minutes.
     bindE (cron_field_values (parts ! 1) 0 23) (\<lambda>hours.
     bindE (cron_field_values (parts ! 2) 1 31) (\<lambda>days.
     bindE (cron_field_values (parts ! 3) 1 12) (\<lambda>months.
     bindE (cron_field_values (parts ! 4) 0 7) (\<lambda>weekdays.
     Inr \<lparr>cr_minutes = minutes, cr_hours = hours, cr_days = days, cr_months = months, cr_weekdays = weekdays\<rparr>)))))"

definition valid_cron_expression :: "string \<Rightarrow> bool res" where
  "valid_cron_expression expression =
     (let parts = split_ws expression in
      if length parts \<noteq> 5 \<or> [] \<in> set parts then Inr False
      else (case cron_fields parts of
          Inl e \<Rightarrow> if is_value_error e then Inr False else Inl e
        | Inr _ \<Rightarrow> Inr True))"

section \<open>Wall clocks\<close>

record zone =
  zo_offset :: "int \<Rightarrow> int"
  zo_wall_offset :: "int \<Rightarrow> int"

definition utc_zone :: zone where
  "utc_zone = \<lparr>zo_offset = (\<lambda>_. 0), zo_wall_offset = (\<lambda>_. 0)\<rparr>"

abbreviation us_per_minute :: int where "us_per_minute \<equiv> 60000000"

definition wall_minute :: "int \<Rightarrow> int" where
  "wall_minute w = w div us_per_minute mod 60"

definition wall_hour :: "int \<Rightarrow> int" where
  "wall_hour w = w div (60 * us_per_minute) mod 24"

definition wall_day :: "int \<Rightarrow> nat" where
  "wall_day w = nat (w div us_per_day)"

definition cron_weekday :: "int \<Rightarrow> int" where
  "cron_weekday w = (w div us_per_day mod 7 + 1) mod 7"

definition cron_matches :: "cron \<Rightarrow> int \<Rightarrow> bool" where
  "cron_matches c w = (case ymd (wall_day w) of (_, month, day) \<Rightarrow>
     wall_minute w \<in> set (cr_minutes c) \<and> wall_hour w \<in> set (cr_hours c)
     \<and> int day \<in> set (cr_days c) \<and> int month \<in> set (cr_months c)
     \<and> (cron_weekday w \<in> set (cr_weekdays c) \<or> (cron_weekday w = 0 \<and> 7 \<in> set (cr_weekdays c))))"

section \<open>The next times\<close>

text \<open>
  The loop over the minutes of a year, at most \<open>fuel\<close> of them, from the wall-clock time \<open>current\<close>;
  it stops at the match that makes \<open>count\<close> of them.
\<close>

primrec scan_minutes :: "nat \<Rightarrow> cron \<Rightarrow> nat \<Rightarrow> int \<Rightarrow> int list" where
  "scan_minutes 0 c count current = []"
| "scan_minutes (Suc fuel) c count current =
     (if cron_matches c current
      then current # (if count \<le> 1 then [] else scan_minutes fuel c (count - 1) (current + us_per_minute))
      else scan_minutes fuel c count (current + us_per_minute))"

definition SCAN_MINUTES :: nat where "SCAN_MINUTES = 366 * 24 * 60"

text \<open>\<^theory_text>\<open>utcnow().astimezone(tz).replace(second=0, microsecond=0) + timedelta(minutes=1)\<close>\<close>

definition next_wall_minute :: "zone \<Rightarrow> int \<Rightarrow> int" where
  "next_wall_minute tz now = (let w = now + zo_offset tz now in w - w mod us_per_minute + us_per_minute)"

definition wall_instant :: "zone \<Rightarrow> int \<Rightarrow> int" where
  "wall_instant tz w = w - zo_wall_offset tz w"

definition upcoming_instants :: "zone \<Rightarrow> cron \<Rightarrow> nat \<Rightarrow> int \<Rightarrow> int list" where
  "upcoming_instants tz c count now =
     map (wall_instant tz) (scan_minutes SCAN_MINUTES c count (next_wall_minute tz now))"

definition upcoming_cron_runs :: "(string \<Rightarrow> zone res) \<Rightarrow> string \<Rightarrow> string \<Rightarrow> nat \<Rightarrow> string list M" where
  "upcoming_cron_runs zone_info expression timezone count =
     (let parts = split_ws expression in
      if length parts \<noteq> 5 then returnM []
      else bindM (liftE (cron_fields parts)) (\<lambda>c.
        bindM (liftE (zone_info timezone)) (\<lambda>tz.
        bindM nowM (\<lambda>now. returnM (map isoformat (upcoming_instants tz c count now))))))"

end
