(* ===== verification/Credentials.thy ===== *)
theory Credentials
  imports MemoryData
begin

text \<open>
  Vaults and credentials in \<open>app/routers/generic_resources.py\<close>: the three kinds of credential and their normal
  form, the merge of a partial update into one, what a response shows of it, and the removal of its secrets.
  \<open>enc\<close> is the cipher of \<^theory_text>\<open>Secrets\<close>.
\<close>

section \<open>Display names and vaults\<close>

definition display_name_from_data :: "pdict \<Rightarrow> string \<Rightarrow> bool \<Rightarrow> string option res" where
  "display_name_from_data data resource_name required = (case por (dget ''display_name'' data) (dget ''name'' data) of
      PNone \<Rightarrow> if required then Inl (HTTPException 422 (resource_name @ '' display_name is required'')) else Inr None
    | PStr s \<Rightarrow>
        if s = [] then Inl (HTTPException 422 (resource_name @ '' display_name must not be empty''))
        else if MAX_DISPLAY_NAME_CHARS < length s
          then Inl (HTTPException 422 (resource_name @ '' display_name must be at most 255 characters''))
        else Inr (Some s)
    | _ \<Rightarrow> Inl (HTTPException 422 (resource_name @ '' display_name must be a string'')))"

definition named_data :: "string option \<Rightarrow> pdict \<Rightarrow> pdict" where
  "named_data display_name d = (case display_name of None \<Rightarrow> d
     | Some n \<Rightarrow> dsetdefault ''name'' (PStr n) (dset ''display_name'' (PStr n) d))"

definition normalize_vault_data :: "pdict \<Rightarrow> pdict res" where
  "normalize_vault_data data =
     bindE (display_name_from_data data ''vault'' True) (\<lambda>display_name.
     bindE (normalize_metadata (dget ''metadata'' data)) (\<lambda>metadata.
     Inr (dset ''metadata'' (PDict (md_pv metadata)) (named_data display_name data))))"

definition vault_response :: "resource_row \<Rightarrow> pdict res" where
  "vault_response r =
     (let response = resource_to_response r (Some ''vault'') in
      with_dict ''metadata'' (dset ''display_name'' (PStr (py_str (por (por (dget ''display_name'' response)
        (dget ''name'' response)) (PStr [])))) response))"

section \<open>The normal form of a credential\<close>

definition CREDENTIAL_AUTH_TYPES :: "string list" where
  "CREDENTIAL_AUTH_TYPES = [''environment_variable'', ''mcp_oauth'', ''static_bearer'']"

definition CREDENTIAL_TOKEN_ENDPOINT_AUTH_TYPES :: "string list" where
  "CREDENTIAL_TOKEN_ENDPOINT_AUTH_TYPES = [''client_secret_basic'', ''client_secret_post'', ''none'']"

definition credential_auth_type :: "pdict \<Rightarrow> string res" where
  "credential_auth_type auth =
     bindE (in_set (dget ''type'' auth) (map PStr CREDENTIAL_AUTH_TYPES)) (\<lambda>ok.
     if ok then Inr (py_str (dget ''type'' auth))
     else Inl (HTTPException 422 ''credential auth type must be environment_variable, mcp_oauth, or static_bearer''))"

definition string_credential_value :: "pv \<Rightarrow> string \<Rightarrow> string res" where
  "string_credential_value v field_name = (case v of
      PStr s \<Rightarrow> Inr s | _ \<Rightarrow> Inl (HTTPException 422 (field_name @ '' must be a string'')))"

definition require_credential_string :: "pdict \<Rightarrow> string \<Rightarrow> string \<Rightarrow> unit res" where
  "require_credential_string data field_name auth_type =
     (if dget field_name data = PNone then Inl (HTTPException 422 (auth_type @ ''.'' @ field_name @ '' is required''))
      else bindE (string_credential_value (dget field_name data) (auth_type @ ''.'' @ field_name)) (\<lambda>_. Inr ()))"

text \<open>\<^theory_text>\<open>if data.get(k) is not None: data[k] = _string_credential_value(data[k], ..)\<close> leaves the dict as it is.\<close>

definition optional_credential_string :: "pdict \<Rightarrow> string \<Rightarrow> string \<Rightarrow> unit res" where
  "optional_credential_string data field_name auth_type =
     (if dget field_name data = PNone then Inr ()
      else bindE (string_credential_value (dget field_name data) (auth_type @ ''.'' @ field_name)) (\<lambda>_. Inr ()))"

definition allowed_host :: "pv \<Rightarrow> bool" where
  "allowed_host v = (case v of PStr s \<Rightarrow> s \<noteq> [] \<and> CHR ''/'' \<notin> set s \<and> CHR '':'' \<notin> set s | _ \<Rightarrow> False)"

definition normalize_credential_networking :: "pv \<Rightarrow> pdict res" where
  "normalize_credential_networking v = (case v of
      PDict d \<Rightarrow>
        if dget ''type'' d = PStr ''unrestricted'' then Inr [(''type'', PStr ''unrestricted'')]
        else if dget ''type'' d \<noteq> PStr ''limited''
          then Inl (HTTPException 422 ''environment_variable.networking.type must be limited or unrestricted'')
        else (case dget ''allowed_hosts'' d of
            PList hosts \<Rightarrow>
              if 16 < length hosts
                then Inl (HTTPException 422 ''environment_variable.networking.allowed_hosts supports at most 16 hosts'')
              else if \<not> list_all allowed_host hosts
                then Inl (HTTPException 422 ''environment_variable.networking.allowed_hosts entries must be bare hostnames'')
              else Inr [(''type'', PStr ''limited''), (''allowed_hosts'', PList hosts)]
          | _ \<Rightarrow> Inl (HTTPException 422 ''environment_variable.networking.allowed_hosts must be an array''))
    | _ \<Rightarrow> Inl (HTTPException 422 ''environment_variable.networking must be an object''))"

definition normalize_token_endpoint_auth :: "pv \<Rightarrow> pdict res" where
  "normalize_token_endpoint_auth v = (case v of
      PDict d \<Rightarrow>
        bindE (in_set (dget ''type'' d) (map PStr CREDENTIAL_TOKEN_ENDPOINT_AUTH_TYPES)) (\<lambda>ok.
        bindE (raise_if (\<not> ok) (HTTPException 422
          ''mcp_oauth.refresh.token_endpoint_auth.type must be client_secret_basic, client_secret_post, or none'')) (\<lambda>_.
        if dget ''type'' d \<noteq> PStr ''none'' \<and> dget ''client_secret'' d \<noteq> PNone
        then bindE (string_credential_value (dget ''client_secret'' d)
            ''mcp_oauth.refresh.token_endpoint_auth.client_secret'') (\<lambda>s.
          Inr [(''type'', dget ''type'' d), (''client_secret'', PStr s)])
        else Inr [(''type'', dget ''type'' d)]))
    | _ \<Rightarrow> Inl (HTTPException 422 ''mcp_oauth.refresh.token_endpoint_auth must be an object''))"

definition normalize_oauth_refresh :: "pv \<Rightarrow> pdict res" where
  "normalize_oauth_refresh v = (case v of
      PDict refresh \<Rightarrow>
        bindE (require_credential_string refresh ''client_id'' ''mcp_oauth.refresh'') (\<lambda>_.
        bindE (require_credential_string refresh ''refresh_token'' ''mcp_oauth.refresh'') (\<lambda>_.
        bindE (require_credential_string refresh ''token_endpoint'' ''mcp_oauth.refresh'') (\<lambda>_.
        bindE (normalize_token_endpoint_auth (dget ''token_endpoint_auth'' refresh)) (\<lambda>endpoint_auth.
        bindE (optional_credential_string refresh ''resource'' ''mcp_oauth.refresh'') (\<lambda>_.
        bindE (optional_credential_string refresh ''scope'' ''mcp_oauth.refresh'') (\<lambda>_.
        Inr (dset ''token_endpoint_auth'' (PDict endpoint_auth) refresh)))))))
    | _ \<Rightarrow> Inl (HTTPException 422 ''mcp_oauth.refresh must be an object''))"

definition normalize_environment_variable :: "pdict \<Rightarrow> pdict res" where
  "normalize_environment_variable auth =
     bindE (require_credential_string auth ''secret_name'' ''environment_variable'') (\<lambda>_.
     bindE (optional_credential_string auth ''secret_value'' ''environment_variable'') (\<lambda>_.
     bindE (normalize_credential_networking (por (dget ''networking'' auth)
       (PDict [(''type'', PStr ''unrestricted'')]))) (\<lambda>networking.
     Inr (dset ''networking'' (PDict networking) auth))))"

definition normalize_mcp_oauth :: "pdict \<Rightarrow> pdict res" where
  "normalize_mcp_oauth auth =
     bindE (require_credential_string auth ''mcp_server_url'' ''mcp_oauth'') (\<lambda>_.
     bindE (optional_credential_string auth ''access_token'' ''mcp_oauth'') (\<lambda>_.
     let a1 = (if dget ''expires_at'' auth \<noteq> PNone
               then dset ''expires_at'' (PStr (py_str (dget ''expires_at'' auth))) auth else auth) in
     if dget ''refresh'' a1 \<noteq> PNone
     then bindE (normalize_oauth_refresh (dget ''refresh'' a1)) (\<lambda>refresh. Inr (dset ''refresh'' (PDict refresh) a1))
     else Inr a1))"

definition normalize_credential_auth :: "pv \<Rightarrow> pdict res" where
  "normalize_credential_auth v = (case v of
      PDict d \<Rightarrow>
        bindE (credential_auth_type d) (\<lambda>auth_type.
        let auth = dset ''type'' (PStr auth_type) d in
        if auth_type = ''environment_variable'' then normalize_environment_variable auth
        else if auth_type = ''static_bearer'' then
          bindE (require_credential_string auth ''mcp_server_url'' auth_type) (\<lambda>_.
          bindE (optional_credential_string auth ''token'' auth_type) (\<lambda>_. Inr auth))
        else normalize_mcp_oauth auth)
    | _ \<Rightarrow> Inl (HTTPException 422 ''credential auth must be an object''))"

text \<open>A request of an older shape has the fields of the credential beside its name.\<close>

definition legacy_credential_auth :: "string \<Rightarrow> pdict \<Rightarrow> pdict" where
  "legacy_credential_auth auth_type data =
     (if auth_type = ''static_bearer'' then
        [(''type'', PStr ''static_bearer''),
         (''mcp_server_url'', por (dget ''mcp_server_url'' data) (PStr ''https://example.invalid/mcp'')),
         (''token'', por (por (dget ''token'' data) (dget ''api_key'' data)) (PStr []))]
      else if auth_type = ''environment_variable'' then
        [(''type'', PStr ''environment_variable''),
         (''secret_name'', por (por (dget ''secret_name'' data) (dget ''name'' data)) (PStr ''SECRET'')),
         (''secret_value'', por (dget ''secret_value'' data) (PStr [])),
         (''networking'', por (dget ''networking'' data) (PDict [(''type'', PStr ''unrestricted'')]))]
      else
        [(''type'', PStr ''mcp_oauth''),
         (''mcp_server_url'', por (dget ''mcp_server_url'' data) (PStr ''https://example.invalid/mcp'')),
         (''access_token'', por (dget ''access_token'' data) (PStr [])),
         (''expires_at'', dget ''expires_at'' data), (''refresh'', dget ''refresh'' data)])"

definition with_legacy_auth :: "pdict \<Rightarrow> pdict" where
  "with_legacy_auth d = (if has_key ''auth'' d then d
     else let d1 = dpop ''type'' d in
       dset ''auth'' (PDict (legacy_credential_auth (py_str (dget_or ''type'' (PStr ''mcp_oauth'') d)) d1)) d1)"

definition normalize_credential_data :: "(string \<Rightarrow> string \<Rightarrow> string \<Rightarrow> string) \<Rightarrow> pdict \<Rightarrow> pdict M" where
  "normalize_credential_data enc data =
     bindM (liftE (display_name_from_data data ''credential'' False)) (\<lambda>display_name.
     let d1 = with_legacy_auth (named_data display_name data) in
     bindM (liftE (normalize_credential_auth (dget ''auth'' d1))) (\<lambda>auth.
     bindM (encrypt_secret_values enc (PDict auth)) (\<lambda>sealed.
     bindM (liftE (normalize_metadata (dget ''metadata'' d1))) (\<lambda>metadata.
     returnM (dset ''metadata'' (PDict (md_pv metadata)) (dset ''auth'' sealed d1))))))"

section \<open>Updates\<close>

definition merge_refresh_item :: "string \<times> pv \<Rightarrow> pdict \<Rightarrow> pdict" where
  "merge_refresh_item kv merged = (case kv of (k, v) \<Rightarrow>
     (case (k = ''token_endpoint_auth'', v, dget ''token_endpoint_auth'' merged) of
        (True, PDict new, PDict old) \<Rightarrow>
          if py_eq (dget ''type'' old) (dget ''type'' new)
          then dset k (PDict (dupdate old (filter (\<lambda>(_, c). c \<noteq> PNone) new))) merged
          else dset k v merged
      | _ \<Rightarrow> if v \<noteq> PNone then dset k v merged else merged))"

definition merge_oauth_refresh :: "pdict \<Rightarrow> pdict \<Rightarrow> pdict" where
  "merge_oauth_refresh existing patch = fold merge_refresh_item patch existing"

definition merge_auth_item :: "string \<times> pv \<Rightarrow> pdict \<Rightarrow> pdict" where
  "merge_auth_item kv merged = (case kv of (k, v) \<Rightarrow>
     (case (k = ''refresh'', v, dget ''refresh'' merged) of
        (True, PDict new, PDict old) \<Rightarrow> dset k (PDict (merge_oauth_refresh old new)) merged
      | _ \<Rightarrow> if v \<noteq> PNone \<or> k \<in> {''expires_at'', ''refresh''} then dset k v merged else merged))"

definition merge_credential_auth :: "pv \<Rightarrow> pdict \<Rightarrow> pdict res" where
  "merge_credential_auth existing patch =
     bindE (credential_auth_type patch) (\<lambda>auth_type.
     bindE (dict_or_empty existing) (\<lambda>existing_auth.
     bindE (raise_if (truthy (dget ''type'' existing_auth) \<and> dget ''type'' existing_auth \<noteq> PStr auth_type)
       (HTTPException 422 ''credential auth type is immutable'')) (\<lambda>_.
     Inr (fold merge_auth_item patch existing_auth))))"

section \<open>Responses\<close>

definition drop_none :: "pdict \<Rightarrow> pdict" where
  "drop_none d = filter (\<lambda>(_, v). v \<noteq> PNone) d"

definition credential_refresh_response :: "pv \<Rightarrow> pv res" where
  "credential_refresh_response v = (case v of
      PDict d \<Rightarrow>
        bindE (vget ''type'' (por (dget ''token_endpoint_auth'' d) (PDict []))) (\<lambda>ty.
        bindE (in_set ty (map PStr CREDENTIAL_TOKEN_ENDPOINT_AUTH_TYPES)) (\<lambda>ok.
        Inr (PDict (drop_none
          [(''client_id'', PStr (str_or_empty (dget ''client_id'' d))),
           (''token_endpoint'', PStr (str_or_empty (dget ''token_endpoint'' d))),
           (''token_endpoint_auth'', PDict [(''type'', if ok then ty else PStr ''none'')]),
           (''resource'', dget ''resource'' d), (''scope'', dget ''scope'' d)]))))
    | _ \<Rightarrow> Inr PNone)"

definition credential_networking_response :: "pv \<Rightarrow> pdict res" where
  "credential_networking_response v = (case v of
      PDict d \<Rightarrow>
        if dget ''type'' d = PStr ''limited''
        then bindE (list_or_empty (dget ''allowed_hosts'' d)) (\<lambda>hosts.
          Inr [(''type'', PStr ''limited''), (''allowed_hosts'', PList hosts)])
        else Inr [(''type'', PStr ''unrestricted'')]
    | _ \<Rightarrow> Inr [(''type'', PStr ''unrestricted'')])"

definition or_text :: "pv \<Rightarrow> string \<Rightarrow> pv" where
  "or_text v dflt = PStr (py_str (por v (PStr dflt)))"

definition credential_auth_response :: "pdict \<Rightarrow> pdict res" where
  "credential_auth_response auth =
     (let auth_type = py_str (por (dget ''type'' auth) (PStr ''mcp_oauth''));
          url = or_text (dget ''mcp_server_url'' auth) ''https://example.invalid/mcp'' in
      if auth_type = ''static_bearer''
        then Inr [(''type'', PStr ''static_bearer''), (''mcp_server_url'', url)]
      else if auth_type = ''environment_variable''
        then bindE (credential_networking_response (dget ''networking'' auth)) (\<lambda>networking.
          Inr [(''type'', PStr ''environment_variable''), (''secret_name'', or_text (dget ''secret_name'' auth) ''SECRET''),
               (''networking'', PDict networking)])
      else bindE (credential_refresh_response (dget ''refresh'' auth)) (\<lambda>refresh.
          Inr (drop_none [(''type'', PStr ''mcp_oauth''), (''mcp_server_url'', url),
            (''expires_at'', dget ''expires_at'' auth), (''refresh'', refresh)])))"

definition credential_auth_of :: "resource_row \<Rightarrow> pdict res" where
  "credential_auth_of r = (case por (dget ''auth'' (mr_data r)) (PDict []) of
      PDict auth \<Rightarrow> Inr auth | _ \<Rightarrow> Inl AttributeError)"

definition credential_response :: "resource_row \<Rightarrow> pdict res" where
  "credential_response r =
     (let r0 = dset ''vault_id'' (pstr_opt (mr_parent_id r)) (resource_to_response r (Some ''vault_credential''));
          r1 = dset ''display_name'' (por (dget ''display_name'' r0) (dget ''name'' r0)) r0 in
      bindE (with_dict ''metadata'' r1) (\<lambda>r2.
      bindE (credential_auth_of r) (\<lambda>auth.
      bindE (credential_auth_response auth) (\<lambda>shown.
      Inr (dset ''auth'' (PDict shown) r2)))))"

section \<open>Removing the secrets\<close>

fun purge_secret_values :: "pv \<Rightarrow> pv" where
  "purge_secret_values (PDict d) = PDict (map (\<lambda>(k, v).
     (k, if is_secret_key k then PNone else purge_secret_values v)) d)"
| "purge_secret_values (PList xs) = PList (map purge_secret_values xs)"
| "purge_secret_values v = v"

definition purge_dict :: "pdict \<Rightarrow> pdict" where
  "purge_dict d = map (\<lambda>(k, v). (k, if is_secret_key k then PNone else purge_secret_values v)) d"

definition purge_credential_secret_data :: "pdict \<Rightarrow> pdict M" where
  "purge_credential_secret_data data = bindM nowM (\<lambda>t.
     returnM (dset ''secrets_purged_at'' (PStr (isoformat t)) (purge_dict data)))"

end
