(* ===== verification/Deployments.thy ===== *)
theory Deployments
  imports Cron Credentials Sessions
begin

text \<open>
  The definition of a deployment in \<open>app/routers/generic_resources.py\<close>: the normal form of its data, what its
  agent, environment and first events must be, and the responses for deployments and their runs.
\<close>

definition MAX_DEPLOYMENT_RESOURCES :: nat where "MAX_DEPLOYMENT_RESOURCES = 500"
definition MAX_DEPLOYMENT_VAULT_IDS :: nat where "MAX_DEPLOYMENT_VAULT_IDS = 50"

text \<open>An ISO timestamp as an instant, \<open>None\<close> for what is not one; without an offset it is UTC.\<close>

definition parse_instant :: "pv \<Rightarrow> int option" where
  "parse_instant v = (case v of
      PTime t \<Rightarrow> Some t
    | PStr s \<Rightarrow> if s = [] then None
        else map_option instant (fromisoformat (replace_char CHR ''Z'' ''+00:00'' s))
    | _ \<Rightarrow> None)"

section \<open>References to an agent\<close>

definition deployment_agent_reference_input :: "pv \<Rightarrow> pdict res" where
  "deployment_agent_reference_input v = (case v of
      PStr s \<Rightarrow> Inr [(''type'', PStr ''agent''), (''id'', PStr s)]
    | PDict d \<Rightarrow>
        let ref = [(''type'', PStr ''agent''), (''id'', or_text (por (dget ''id'' d) (dget ''agent_id'' d)) [])] in
        if dget ''version'' d \<noteq> PNone
        then bindE (py_int (dget ''version'' d)) (\<lambda>n. Inr (ref @ [(''version'', PInt n)]))
        else Inr ref
    | _ \<Rightarrow> Inr [(''type'', PStr ''agent''), (''id'', PStr [])])"

definition resolve_deployment_agent_reference :: "pv \<Rightarrow> pdict M" where
  "resolve_deployment_agent_reference v =
     bindM (liftE (deployment_agent_reference_input v)) (\<lambda>ref.
     let agent_id = str_or_empty (dget ''id'' ref) in
     if agent_id = [] then returnM ref
     else bindM (get_agent agent_id) (\<lambda>found.
       case found of
         None \<Rightarrow> raiseM (HTTPException 422 ''Deployment agent not found'')
       | Some a \<Rightarrow>
         seqM (guardM (ag_archived_at a \<noteq> None) (HTTPException 422 ''Deployment agent not found'')) (
         bindM (if dget ''version'' ref = PNone then returnM (ag_active_version a)
                else liftE (py_int (dget ''version'' ref))) (\<lambda>version.
         bindM (get_agent_version (ag_id a) version None) (\<lambda>found_version.
         seqM (guardM (found_version = None) (HTTPException 422 ''Deployment agent version not found''))
           (returnM [(''type'', PStr ''agent''), (''id'', PStr (ag_id a)), (''version'', PInt version)]))))))"

definition deployment_agent_ref :: "pv \<Rightarrow> (string \<times> int option) res" where
  "deployment_agent_ref v = (case v of
      PStr s \<Rightarrow> Inr (s, None)
    | PDict d \<Rightarrow>
        let agent_id = por (dget ''id'' d) (dget ''agent_id'' d) in
        bindE (raise_if (\<not> truthy agent_id) (HTTPException 422 ''Deployment agent reference requires id'')) (\<lambda>_.
        if dget ''version'' d = PNone then Inr (py_str agent_id, None)
        else bindE (py_int (dget ''version'' d)) (\<lambda>n. Inr (py_str agent_id, Some n)))
    | _ \<Rightarrow> Inl (HTTPException 422 ''Deployment agent must be a string or object''))"

definition deployment_agent_response :: "pv \<Rightarrow> pdict res" where
  "deployment_agent_response v = (case v of
      PStr s \<Rightarrow> Inr [(''type'', PStr ''agent''), (''id'', PStr s), (''version'', PInt 1)]
    | PDict d \<Rightarrow> bindE (py_int (por (dget ''version'' d) (PInt 1))) (\<lambda>version.
        Inr [(''type'', PStr ''agent''), (''id'', or_text (por (dget ''id'' d) (dget ''agent_id'' d)) []),
             (''version'', PInt version)])
    | _ \<Rightarrow> Inr [(''type'', PStr ''agent''), (''id'', PStr []), (''version'', PInt 1)])"

section \<open>The normal form\<close>

definition normalize_deployment_resources :: "pv \<Rightarrow> pv list res" where
  "normalize_deployment_resources v = (case v of
      PNone \<Rightarrow> Inr []
    | PList xs \<Rightarrow> if MAX_DEPLOYMENT_RESOURCES < length xs
        then Inl (HTTPException 422 ''Deployment resources supports at most 500 resources'') else Inr xs
    | _ \<Rightarrow> Inl (HTTPException 422 ''Deployment resources must be an array''))"

definition normalize_deployment_vault_ids :: "pv \<Rightarrow> pv list res" where
  "normalize_deployment_vault_ids v = (case v of
      PNone \<Rightarrow> Inr []
    | PList xs \<Rightarrow> if MAX_DEPLOYMENT_VAULT_IDS < length xs
        then Inl (HTTPException 422 ''Deployment vault_ids supports at most 50 vaults'') else Inr xs
    | _ \<Rightarrow> Inl (HTTPException 422 ''Deployment vault_ids must be an array''))"

text \<open>\<^theory_text>\<open>ZoneInfoNotFoundError\<close> is the exception \<open>zone_info\<close> gives for an unknown name.\<close>

definition known_zone :: "(string \<Rightarrow> zone res) \<Rightarrow> string \<Rightarrow> unit res" where
  "known_zone zone_info timezone = (case zone_info timezone of
      Inr _ \<Rightarrow> Inr ()
    | Inl e \<Rightarrow> Inl (if exc_class e = ''ZoneInfoNotFoundError''
        then HTTPException 422 (''Unknown deployment schedule timezone: '' @ timezone) else e))"

definition normalize_deployment_schedule :: "(string \<Rightarrow> zone res) \<Rightarrow> pv \<Rightarrow> pdict M" where
  "normalize_deployment_schedule zone_info v = (case v of
      PDict schedule \<Rightarrow>
        let schedule_type = py_str (por (dget ''type'' schedule) (PStr ''cron''));
            expression = py_strip (py_str (por (por (dget ''expression'' schedule) (dget ''cron'' schedule)) (PStr [])));
            timezone = py_str (por (dget ''timezone'' schedule) (PStr ''UTC'')) in
        seqM (guardM (schedule_type \<noteq> ''cron'') (HTTPException 422 ''Only cron deployment schedules are supported'')) (
        bindM (liftE (valid_cron_expression expression)) (\<lambda>valid.
        seqM (guardM (\<not> valid) (HTTPException 422 ''Deployment cron schedule must have 5 fields'')) (
        seqM (liftE (known_zone zone_info timezone)) (
        bindM (upcoming_cron_runs zone_info expression timezone 5) (\<lambda>runs.
        returnM (dupdate schedule
          [(''type'', PStr ''cron''), (''expression'', PStr expression), (''cron'', PStr expression),
           (''timezone'', PStr timezone), (''enabled'', PBool (truthy (dget_or ''enabled'' (PBool True) schedule))),
           (''upcoming_runs_at'', PList (map PStr runs))]))))))
    | _ \<Rightarrow> raiseM (HTTPException 422 ''Deployment schedule must be an object''))"

definition with_status :: "string \<Rightarrow> pdict \<Rightarrow> pdict" where
  "with_status status d =
     (if status = ''paused''
      then dsetdefault ''paused_reason'' (PDict [(''type'', PStr ''manual'')]) (dset ''status'' (PStr status) d)
      else dpop ''paused_reason'' (dset ''status'' (PStr status) d))"

definition normalize_deployment_data :: "(string \<Rightarrow> zone res) \<Rightarrow> pdict \<Rightarrow> pdict M" where
  "normalize_deployment_data zone_info data =
     (let status = py_str (por (dget ''status'' data) (PStr ''active'')) in
      seqM (guardM (status \<notin> {''active'', ''paused''}) (HTTPException 422 ''Deployment status must be active or paused'')) (
      bindM (liftE (deployment_agent_reference_input (dget ''agent'' data))) (\<lambda>agent.
      let d1 = dsetdefault ''initial_events'' (PList []) (dsetdefault ''environment_id'' (PStr [])
                 (dset ''agent'' (PDict agent) (with_status status data))) in
      bindM (liftE (normalize_deployment_resources (dget ''resources'' d1))) (\<lambda>resources.
      bindM (liftE (normalize_deployment_vault_ids (dget ''vault_ids'' d1))) (\<lambda>vault_ids.
      bindM (liftE (normalize_metadata (dget ''metadata'' d1))) (\<lambda>metadata.
      let d2 = dupdate d1 [(''resources'', PList resources), (''vault_ids'', PList vault_ids),
                 (''metadata'', PDict (md_pv metadata))] in
      if dget ''schedule'' d2 = PNone then returnM d2
      else bindM (normalize_deployment_schedule zone_info (dget ''schedule'' d2)) (\<lambda>schedule.
        returnM (dset ''schedule'' (PDict schedule) d2))))))))"

section \<open>The first events and the definition as a whole\<close>

definition DEPLOYMENT_EVENT_TYPES :: "string list" where
  "DEPLOYMENT_EVENT_TYPES = [''system.message'', ''user.define_outcome'', ''user.message'']"

definition deployment_event_type :: "pv \<Rightarrow> string res" where
  "deployment_event_type v = (case v of
      PDict e \<Rightarrow>
        let event_type = str_or_empty (dget ''type'' e) in
        bindE (raise_if (event_type \<notin> set DEPLOYMENT_EVENT_TYPES)
          (HTTPException 422 ''Unsupported deployment initial event type'')) (\<lambda>_.
        bindE (if event_type = ''user.define_outcome'' then validate_user_define_outcome_event e else Inr ()) (\<lambda>_.
        Inr event_type))
    | _ \<Rightarrow> Inl (HTTPException 422 ''Deployment initial_events entries must be objects''))"

definition validate_deployment_initial_events :: "pv \<Rightarrow> unit res" where
  "validate_deployment_initial_events v = (case v of
      PList events \<Rightarrow>
        bindE (raise_if (events = [])
          (HTTPException 422 ''Deployment initial_events must contain at least one event'')) (\<lambda>_.
        bindE (raise_if (50 < length events) (HTTPException 422 ''Deployment initial_events supports at most 50 events'')) (\<lambda>_.
        bindE (mapE deployment_event_type events) (\<lambda>event_types.
        bindE (validate_system_message_batch event_types) (\<lambda>_.
        raise_if (''user.message'' \<notin> set event_types)
          (HTTPException 422 ''Deployment initial_events must include a user.message event'')))))
    | _ \<Rightarrow> Inl (HTTPException 422 ''Deployment initial_events must be an array''))"

definition validate_deployment_definition :: "pdict \<Rightarrow> pdict M" where
  "validate_deployment_definition data0 =
     seqM (guardM (py_strip (str_or_empty (dget ''name'' data0)) = []) (HTTPException 422 ''Deployment name is required'')) (
     bindM (resolve_deployment_agent_reference (dget ''agent'' data0)) (\<lambda>agent_ref.
     let data = dset ''agent'' (PDict agent_ref) data0;
         environment_id = str_or_empty (dget ''environment_id'' data) in
     seqM (guardM (str_or_empty (dget ''id'' agent_ref) = []) (HTTPException 422 ''Deployment agent is required'')) (
     seqM (guardM (environment_id = []) (HTTPException 422 ''Deployment environment_id is required'')) (
     bindM (get_environment environment_id None) (\<lambda>found.
     seqM (guardM (case found of None \<Rightarrow> True | Some e \<Rightarrow> en_deleted_at e \<noteq> None \<or> en_archived_at e \<noteq> None)
       (HTTPException 422 ''Deployment environment not found'')) (
     seqM (liftE (validate_deployment_initial_events (por (dget ''initial_events'' data) (PList []))))
       (returnM data)))))))"

section \<open>Responses\<close>

definition kept_fields :: "string list \<Rightarrow> pdict \<Rightarrow> pdict" where
  "kept_fields ks d = map (\<lambda>k. (k, dget k d)) (filter (\<lambda>k. dget k d \<noteq> PNone) ks)"

definition deployment_resource_response :: "pdict \<Rightarrow> pdict" where
  "deployment_resource_response d =
     (let ty = dget ''type'' d in
      if ty = PStr ''github_repository'' then
        [(''type'', PStr ''github_repository''), (''url'', or_text (dget ''url'' d) [])]
        @ kept_fields [''mount_path'', ''checkout''] d
      else if ty = PStr ''file'' then
        [(''type'', PStr ''file''), (''file_id'', or_text (dget ''file_id'' d) [])] @ kept_fields [''mount_path''] d
      else if ty = PStr ''memory_store'' then
        [(''type'', PStr ''memory_store''), (''memory_store_id'', or_text (dget ''memory_store_id'' d) [])]
        @ kept_fields [''access'', ''instructions''] d
      else dpop ''authorization_token'' d)"

definition deployment_resources_response :: "pv list \<Rightarrow> pv list" where
  "deployment_resources_response resources =
     List.map_filter (\<lambda>v. case v of PDict d \<Rightarrow> Some (PDict (deployment_resource_response d)) | _ \<Rightarrow> None) resources"

definition deployment_schedule_response :: "pv \<Rightarrow> pv res" where
  "deployment_schedule_response v = (case v of
      PDict d \<Rightarrow>
        let expression = py_strip (py_str (por (por (dget ''expression'' d) (dget ''cron'' d)) (PStr []))) in
        if expression = [] then Inr PNone
        else bindE (list_or_empty (dget ''upcoming_runs_at'' d)) (\<lambda>runs.
          Inr (PDict [(''type'', PStr ''cron''), (''expression'', PStr expression), (''cron'', PStr expression),
            (''timezone'', or_text (dget ''timezone'' d) ''UTC''),
            (''enabled'', PBool (truthy (dget_or ''enabled'' (PBool True) d))),
            (''last_run_at'', dget ''last_run_at'' d), (''upcoming_runs_at'', PList runs)]))
    | _ \<Rightarrow> Inr PNone)"

definition deployment_paused :: "resource_row \<Rightarrow> bool" where
  "deployment_paused r = (mr_status r = ''paused'' \<or> dget ''status'' (mr_data r) = PStr ''paused'')"

definition deployment_response :: "resource_row \<Rightarrow> pdict res" where
  "deployment_response r =
     (let data = mr_data r in
      bindE (deployment_agent_response (dget ''agent'' data)) (\<lambda>agent.
      bindE (list_or_empty (dget ''initial_events'' data)) (\<lambda>events.
      bindE (dict_or_empty (dget ''metadata'' data)) (\<lambda>metadata.
      bindE (list_or_empty (dget ''resources'' data)) (\<lambda>resources.
      bindE (list_or_empty (dget ''vault_ids'' data)) (\<lambda>vault_ids.
      bindE (deployment_schedule_response (dget ''schedule'' data)) (\<lambda>schedule.
      Inr (dupdate (resource_to_response r (Some ''deployment''))
        [(''agent'', PDict agent), (''environment_id'', or_text (dget ''environment_id'' data) []),
         (''initial_events'', PList events), (''metadata'', PDict metadata),
         (''resources'', PList (deployment_resources_response resources)), (''vault_ids'', PList vault_ids),
         (''description'', dget ''description'' data), (''schedule'', schedule),
         (''status'', PStr (if deployment_paused r then ''paused'' else ''active'')),
         (''paused_reason'', dget ''paused_reason'' data)]))))))))"

definition trigger_of :: "pdict \<Rightarrow> pv" where
  "trigger_of d = por (por (dget ''trigger'' d) (dget ''trigger_type'' d)) (PStr ''manual'')"

definition trigger_context :: "pdict \<Rightarrow> pdict M" where
  "trigger_context d =
     (if trigger_of d = PStr ''schedule'' then
        bindM (if truthy (dget ''scheduled_for'' d) then returnM (dget ''scheduled_for'' d)
               else bindM nowM (\<lambda>t. returnM (PTime t))) (\<lambda>moment.
        returnM [(''type'', PStr ''schedule''), (''scheduled_at'', moment)])
      else returnM [(''type'', PStr ''manual'')])"

definition normalize_deployment_run_data :: "pdict \<Rightarrow> pdict M" where
  "normalize_deployment_run_data data =
     bindM (liftE (deployment_agent_response (dget ''agent'' data))) (\<lambda>agent.
     let d1 = dset ''agent'' (PDict agent) data in
     bindM (trigger_context d1) (\<lambda>context.
     returnM (dsetdefault ''error'' PNone (dsetdefault ''trigger_context'' (PDict context) d1))))"

definition deployment_run_response :: "resource_row \<Rightarrow> pdict M" where
  "deployment_run_response r =
     (let data = mr_data r in
      bindM (liftE (deployment_agent_response (dget ''agent'' data))) (\<lambda>agent.
      bindM (if truthy (dget ''trigger_context'' data) then returnM (dget ''trigger_context'' data)
             else bindM (trigger_context data) (\<lambda>c. returnM (PDict c))) (\<lambda>context.
      returnM (dupdate (resource_to_response r (Some ''deployment_run''))
        [(''deployment_id'', por (dget ''deployment_id'' data) (pstr_opt (mr_parent_id r))),
         (''agent'', PDict agent), (''session_id'', dget ''session_id'' data), (''error'', dget ''error'' data),
         (''trigger_context'', context)]))))"

end
