(* ===== verification/Managed.thy ===== *)
theory Managed
  imports Deployments
begin

text \<open>
  The operations \<open>app/routers/generic_resources.py\<close> shares between the kinds of managed resource, with their
  dispatch on the kind, and the handlers for vaults, credentials, memory stores and user profiles. \<open>enc\<close> is the
  cipher, \<open>zone_info\<close> the lookup of a time zone.
\<close>

section \<open>User profiles\<close>

definition MAX_USER_PROFILE_FIELD_CHARS :: nat where "MAX_USER_PROFILE_FIELD_CHARS = 255"

definition profile_field_ok :: "pdict \<Rightarrow> string \<Rightarrow> unit res" where
  "profile_field_ok data field_name = (case dget field_name data of
      PNone \<Rightarrow> Inr ()
    | PStr s \<Rightarrow> raise_if (MAX_USER_PROFILE_FIELD_CHARS < length s)
        (HTTPException 422 (''user_profile '' @ field_name @ '' must be at most 255 characters''))
    | _ \<Rightarrow> Inl (HTTPException 422 (''user_profile '' @ field_name @ '' must be a string'')))"

definition validate_user_profile_data :: "pdict \<Rightarrow> unit res" where
  "validate_user_profile_data data =
     (let relationship = dget ''relationship'' data in
      bindE (in_set relationship [PStr ''external'', PStr ''internal'', PStr ''resold'']) (\<lambda>ok.
      bindE (raise_if (\<not> ok)
        (HTTPException 422 ''user_profile relationship must be external, internal, or resold'')) (\<lambda>_.
      bindE (profile_field_ok data ''external_id'') (\<lambda>_.
      bindE (profile_field_ok data ''name'') (\<lambda>_.
      raise_if (relationship = PStr ''resold'' \<and> \<not> truthy (dget ''name'' data))
        (HTTPException 422 ''user_profile name is required when relationship is resold''))))))"

definition normalize_user_profile_data :: "pdict \<Rightarrow> pdict res" where
  "normalize_user_profile_data data =
     (let d1 = dsetdefault ''relationship'' (PStr ''external'') data in
      bindE (normalize_metadata (dget ''metadata'' d1)) (\<lambda>metadata.
      let d2 = dset ''metadata'' (PDict (md_pv metadata)) d1 in
      bindE (validate_user_profile_data d2) (\<lambda>_. Inr (dsetdefault ''trust_grants'' (PDict []) d2))))"

definition user_profile_response :: "resource_row \<Rightarrow> pdict res" where
  "user_profile_response r =
     (let response = resource_to_response r (Some ''user_profile'') in
      bindE (with_dict ''metadata'' (dset ''relationship'' (por (dget ''relationship'' response) (PStr ''external'')) response))
        (with_dict ''trust_grants''))"

section \<open>The kinds\<close>

definition normalize_resource_data ::
  "(string \<Rightarrow> string \<Rightarrow> string \<Rightarrow> string) \<Rightarrow> (string \<Rightarrow> zone res) \<Rightarrow> string \<Rightarrow> pdict \<Rightarrow> pdict M" where
  "normalize_resource_data enc zone_info ty data =
     (if ty = ''vault'' then liftE (normalize_vault_data data)
      else if ty = ''credential'' then normalize_credential_data enc data
      else if ty = ''memory_store'' then liftE (normalize_memory_store_data data)
      else if ty = ''deployment'' then normalize_deployment_data zone_info data
      else if ty = ''deployment_run'' then normalize_deployment_run_data data
      else if ty = ''user_profile'' then liftE (normalize_user_profile_data data)
      else returnM data)"

definition resource_response :: "resource_row \<Rightarrow> string option \<Rightarrow> pdict M" where
  "resource_response r view =
     (let ty = mr_resource_type r in
      if ty = ''vault'' then liftE (vault_response r)
      else if ty = ''credential'' then liftE (credential_response r)
      else if ty = ''memory_store'' then liftE (memory_store_response r)
      else if ty = ''memory'' then liftE (memory_response r view)
      else if ty = ''memory_version'' then liftE (memory_version_response r view)
      else if ty = ''deployment'' then liftE (deployment_response r)
      else if ty = ''deployment_run'' then deployment_run_response r
      else if ty = ''user_profile'' then liftE (user_profile_response r)
      else returnM (resource_to_response r (Some ty)))"

definition merge_data_item :: "string \<times> pv \<Rightarrow> pdict \<Rightarrow> pdict res" where
  "merge_data_item kv merged = (case kv of (k, v) \<Rightarrow>
     if k = ''metadata'' then
       bindE (merge_metadata (por (dget ''metadata'' merged) (PDict [])) v) (\<lambda>m. Inr (dset ''metadata'' (PDict (md_pv m)) merged))
     else if v = PNone \<or> v = PStr [] then Inr (dpop k merged)
     else Inr (dset k v merged))"

definition merge_data :: "pdict \<Rightarrow> pdict \<Rightarrow> pdict res" where
  "merge_data existing update = foldE merge_data_item update existing"

definition merge_resource_update :: "string \<Rightarrow> pdict \<Rightarrow> pdict \<Rightarrow> pdict res" where
  "merge_resource_update ty existing update =
     (if ty \<noteq> ''credential'' \<or> \<not> has_key ''auth'' update then merge_data existing update
      else (case dget ''auth'' update of
          PDict auth_patch \<Rightarrow>
            bindE (merge_data existing (dpop ''auth'' update)) (\<lambda>merged.
            bindE (merge_credential_auth (dget ''auth'' existing) auth_patch) (\<lambda>auth.
            Inr (dset ''auth'' (PDict auth) merged)))
        | _ \<Rightarrow> Inl (HTTPException 422 ''credential auth must be an object'')))"

text \<open>A text column takes a string or null; the database driver refuses anything else.\<close>

definition column_text :: "pv \<Rightarrow> string option res" where
  "column_text v = (case v of PNone \<Rightarrow> Inr None | PStr s \<Rightarrow> Inr (Some s) | _ \<Rightarrow> Inl (External ''DBAPIError'' [] 0))"

definition data_name :: "pdict \<Rightarrow> pv" where
  "data_name data = por (por (dget ''name'' data) (dget ''display_name'' data)) (dget ''display_title'' data)"

section \<open>Shared operations\<close>

definition must_exist :: "string \<Rightarrow> string \<Rightarrow> string option \<Rightarrow> resource_row M" where
  "must_exist i ty parent = bindM (get_resource i (Some ty) parent False None) (\<lambda>found.
     case found of None \<Rightarrow> raiseM (HTTPException 404 (ty @ '' not found'')) | Some r \<Rightarrow> returnM r)"

definition create_managed :: "(string \<Rightarrow> string \<Rightarrow> string \<Rightarrow> string) \<Rightarrow> (string \<Rightarrow> zone res) \<Rightarrow>
    string \<Rightarrow> string option \<Rightarrow> pdict \<Rightarrow> string \<Rightarrow> pdict M" where
  "create_managed enc zone_info ty parent data0 status =
     bindM (normalize_resource_data enc zone_info ty data0) (\<lambda>data.
     bindM (liftE (column_text (data_name data))) (\<lambda>name.
     bindM (create_resource ty (resource_args0\<lparr>ra_data := data, ra_parent_id := parent, ra_name := name,
       ra_status := status\<rparr>)) (\<lambda>r.
     seqM commitM (resource_response r None))))"

definition create_top_level :: "(string \<Rightarrow> string \<Rightarrow> string \<Rightarrow> string) \<Rightarrow> (string \<Rightarrow> zone res) \<Rightarrow>
    string \<Rightarrow> pdict \<Rightarrow> string \<Rightarrow> pdict M" where
  "create_top_level enc zone_info ty data status = create_managed enc zone_info ty None data status"

definition create_child :: "(string \<Rightarrow> string \<Rightarrow> string \<Rightarrow> string) \<Rightarrow> (string \<Rightarrow> zone res) \<Rightarrow>
    string \<Rightarrow> string \<Rightarrow> pdict \<Rightarrow> pdict M" where
  "create_child enc zone_info ty parent data = create_managed enc zone_info ty (Some parent) data ''active''"

definition retrieve_managed :: "string \<Rightarrow> string \<Rightarrow> string option \<Rightarrow> pdict M" where
  "retrieve_managed i ty parent = bindM (must_exist i ty parent) (\<lambda>r. resource_response r None)"

definition update_managed :: "(string \<Rightarrow> string \<Rightarrow> string \<Rightarrow> string) \<Rightarrow> (string \<Rightarrow> zone res) \<Rightarrow>
    string \<Rightarrow> string \<Rightarrow> pdict \<Rightarrow> string option \<Rightarrow> pdict M" where
  "update_managed enc zone_info i ty update parent =
     bindM (must_exist i ty parent) (\<lambda>r.
     bindM (liftE (merge_resource_update ty (mr_data r) update)) (\<lambda>merged.
     bindM (normalize_resource_data enc zone_info ty merged) (\<lambda>data.
     bindM (liftE (column_text (por (data_name data) (pstr_opt (mr_name r))))) (\<lambda>name.
     bindM (update_resource r (resource_patch0\<lparr>rp_data := Some data, rp_name := name\<rparr>)) (\<lambda>r1.
     seqM commitM (resource_response r1 None))))))"

text \<open>What archiving and deleting have in common: a credential's secrets go first.\<close>

definition purge_if_credential :: "resource_row \<Rightarrow> resource_row M" where
  "purge_if_credential r =
     (if mr_resource_type r = ''credential'' then
        bindM (purge_credential_secret_data (mr_data r)) (\<lambda>data.
        update_resource r (resource_patch0\<lparr>rp_data := Some data\<rparr>))
      else returnM r)"

definition archive_managed :: "string \<Rightarrow> string \<Rightarrow> string option \<Rightarrow> pdict M" where
  "archive_managed i ty parent =
     bindM (must_exist i ty parent) (\<lambda>r.
     bindM (purge_if_credential r) (\<lambda>r1.
     bindM (archive_resource r1) (\<lambda>r2.
     seqM commitM (resource_response r2 None))))"

definition delete_managed :: "string \<Rightarrow> string \<Rightarrow> string \<Rightarrow> string option \<Rightarrow> pdict M" where
  "delete_managed i ty public_type parent =
     bindM (must_exist i ty parent) (\<lambda>r.
     bindM (purge_if_credential r) (\<lambda>r1.
     bindM (delete_resource r1) (\<lambda>r2.
     seqM commitM (returnM (deleted_response r2 (Some public_type))))))"

section \<open>Lists\<close>

record list_filter =
  lf_page :: "string option"
  lf_include_archived :: bool
  lf_parent_id :: "string option"
  lf_agent_id :: "string option"
  lf_status :: "string option"
  lf_order :: string
  lf_has_error :: "bool option"
  lf_trigger_type :: "string option"
  lf_created_at_gt :: pv
  lf_created_at_gte :: pv
  lf_created_at_lt :: pv
  lf_created_at_lte :: pv
  lf_max_limit :: int

definition list_filter0 :: list_filter where
  "list_filter0 = \<lparr>lf_page = None, lf_include_archived = False, lf_parent_id = None, lf_agent_id = None,
     lf_status = None, lf_order = ''desc'', lf_has_error = None, lf_trigger_type = None, lf_created_at_gt = PNone,
     lf_created_at_gte = PNone, lf_created_at_lt = PNone, lf_created_at_lte = PNone, lf_max_limit = 1000\<rparr>"

definition of_agent :: "string \<Rightarrow> resource_row \<Rightarrow> bool res" where
  "of_agent agent_id r = bindE (deployment_agent_response (dget ''agent'' (mr_data r))) (\<lambda>a.
     Inr (dget ''id'' a = PStr agent_id))"

definition with_error :: "bool \<Rightarrow> resource_row \<Rightarrow> bool" where
  "with_error wanted r = truthy (dget (if wanted then ''error'' else ''session_id'') (mr_data r))"

definition of_trigger :: "string \<Rightarrow> resource_row \<Rightarrow> bool res" where
  "of_trigger trigger_type r =
     bindE (vget ''type'' (por (dget ''trigger_context'' (mr_data r)) (PDict []))) (\<lambda>t.
     Inr (t = PStr trigger_type \<or> dget ''trigger'' (mr_data r) = PStr trigger_type))"

definition with_status_of :: "string \<Rightarrow> resource_row \<Rightarrow> bool" where
  "with_status_of status r = (mr_status r = status \<or> dget ''status'' (mr_data r) = PStr status)"

text \<open>A filter of the request, when it is given.\<close>

definition if_given :: "'a option \<Rightarrow> ('a \<Rightarrow> resource_row \<Rightarrow> bool res) \<Rightarrow> resource_row list \<Rightarrow> resource_row list res" where
  "if_given wanted p rows = (case wanted of None \<Rightarrow> Inr rows | Some x \<Rightarrow> filterE (p x) rows)"

definition select_rows :: "list_filter \<Rightarrow> resource_row list \<Rightarrow> resource_row list res" where
  "select_rows f rows0 =
     bindE (filter_created_at row_created rows0 (lf_created_at_gt f) (lf_created_at_gte f) (lf_created_at_lt f)
       (lf_created_at_lte f)) (\<lambda>rows1.
     bindE (if_given (lf_status f) (\<lambda>s r. Inr (with_status_of s r)) rows1) (\<lambda>rows2.
     bindE (if_given (lf_agent_id f) of_agent rows2) (\<lambda>rows3.
     bindE (if_given (lf_has_error f) (\<lambda>b r. Inr (with_error b r)) rows3) (\<lambda>rows4.
     bindE (if_given (lf_trigger_type f) of_trigger rows4) (\<lambda>rows5.
     sort_rows rows5 (Some (lf_order f)))))))"

definition list_top_level :: "string \<Rightarrow> int \<Rightarrow> list_filter \<Rightarrow> pdict list_response M" where
  "list_top_level ty limit f =
     bindM (list_resources ty (lf_parent_id f) 1000 (lf_include_archived f) False None) (\<lambda>rows.
     bindM (liftE (select_rows f rows)) (\<lambda>kept.
     bindM (mapM (\<lambda>r. resource_response r None) kept) (\<lambda>items.
     paginate item_id items (Some limit) (lf_page f) (lf_max_limit f))))"

definition list_child :: "string \<Rightarrow> string \<Rightarrow> int \<Rightarrow> string option \<Rightarrow> bool \<Rightarrow> pdict list_response M" where
  "list_child ty parent limit page include_archived =
     bindM (list_resources ty (Some parent) 1000 include_archived False None) (\<lambda>rows.
     bindM (liftE (sort_rows rows (Some ''desc''))) (\<lambda>sorted.
     bindM (mapM (\<lambda>r. resource_response r None) sorted) (\<lambda>items.
     paginate item_id items (Some limit) page 1000)))"

end
