(* ===== verification/DeploymentRuns.thy ===== *)
theory DeploymentRuns
  imports Managed
begin

text \<open>
  The handlers of \<open>app/routers/generic_resources.py\<close> for deployments and their runs, and the scheduler's tick. A run
  creates a session from the deployment's agent, environment, resources and first events, or records why it could
  not. The row of a deployment or run is threaded through the steps that change it.
\<close>

section \<open>Definitions\<close>

definition create_deployment ::
  "(string \<Rightarrow> string \<Rightarrow> string \<Rightarrow> string) \<Rightarrow> (string \<Rightarrow> zone res) \<Rightarrow> pdict \<Rightarrow> pdict M" where
  "create_deployment enc zone_info body = session_scope (
     bindM (normalize_deployment_data zone_info body) (\<lambda>normalized.
     bindM (validate_deployment_definition normalized) (\<lambda>data.
     create_top_level enc zone_info ''deployment'' data (py_str (dget ''status'' data)))))"

definition list_deployments :: "int \<Rightarrow> string option \<Rightarrow> bool \<Rightarrow> string option \<Rightarrow> string option \<Rightarrow> pv \<Rightarrow> pv \<Rightarrow>
    pdict list_response M" where
  "list_deployments limit page include_archived agent_id status created_at_gte created_at_lte = session_scope (
     seqM (guardM (status \<notin> {None, Some ''active'', Some ''paused''})
       (HTTPException 422 ''Deployment status filter must be active or paused'')) (
     seqM (guardM (include_archived \<and> status \<noteq> None)
       (HTTPException 422 ''status cannot be combined with include_archived'')) (
     list_top_level ''deployment'' limit (list_filter0\<lparr>lf_page := page, lf_include_archived := include_archived,
       lf_agent_id := agent_id, lf_status := status, lf_created_at_gte := created_at_gte,
       lf_created_at_lte := created_at_lte, lf_max_limit := 100\<rparr>))))"

definition retrieve_deployment :: "string \<Rightarrow> pdict M" where
  "retrieve_deployment i = session_scope (retrieve_managed i ''deployment'' None)"

definition ensure_deployment_mutable :: "resource_row \<Rightarrow> unit M" where
  "ensure_deployment_mutable r = guardM (mr_archived_at r \<noteq> None) (HTTPException 409 ''Deployment is archived'')"

definition update_deployment :: "(string \<Rightarrow> zone res) \<Rightarrow> string \<Rightarrow> pdict \<Rightarrow> pdict M" where
  "update_deployment zone_info i body = session_scope (
     bindM (must_exist i ''deployment'' None) (\<lambda>r.
     seqM (ensure_deployment_mutable r) (
     bindM (liftE (merge_data (mr_data r) body)) (\<lambda>merged.
     bindM (normalize_deployment_data zone_info merged) (\<lambda>normalized.
     bindM (validate_deployment_definition normalized) (\<lambda>data.
     bindM (liftE (column_text (por (por (dget ''name'' data) (dget ''display_name'' data)) (pstr_opt (mr_name r))))) (\<lambda>name.
     bindM (update_resource r (resource_patch0\<lparr>rp_data := Some data, rp_name := name,
       rp_status := Some (py_str (dget ''status'' data))\<rparr>)) (\<lambda>r1.
     seqM commitM (resource_response r1 None)))))))))"

definition archive_deployment :: "string \<Rightarrow> pdict M" where
  "archive_deployment i = session_scope (archive_managed i ''deployment'' None)"

definition set_deployment_status :: "string \<Rightarrow> (pdict \<Rightarrow> pdict) \<Rightarrow> string \<Rightarrow> pdict M" where
  "set_deployment_status status change i =
     bindM (must_exist i ''deployment'' None) (\<lambda>r.
     seqM (ensure_deployment_mutable r) (
     bindM (update_resource r (resource_patch0\<lparr>rp_data := Some (change (dset ''status'' (PStr status) (mr_data r))),
       rp_status := Some status\<rparr>)) (\<lambda>r1.
     seqM commitM (resource_response r1 None))))"

definition pause_deployment :: "string \<Rightarrow> pdict M" where
  "pause_deployment i = session_scope (set_deployment_status ''paused''
     (dset ''paused_reason'' (PDict [(''type'', PStr ''manual'')])) i)"

definition unpause_deployment :: "string \<Rightarrow> pdict M" where
  "unpause_deployment i = session_scope (set_deployment_status ''active'' (dpop ''paused_reason'') i)"

section \<open>The session of a run\<close>

definition add_vault_id :: "pv \<Rightarrow> string list \<Rightarrow> string list M" where
  "add_vault_id raw resolved =
     (let vault_id = str_or_empty raw in
      seqM (guardM (vault_id = []) (HTTPException 422 ''vault_ids must not contain empty values'')) (
      if vault_id \<in> set resolved then returnM resolved
      else bindM (get_resource vault_id (Some ''vault'') None False None) (\<lambda>found.
        seqM (guardM (case found of None \<Rightarrow> True | Some v \<Rightarrow> mr_archived_at v \<noteq> None)
          (HTTPException 404 (''Vault not found: '' @ vault_id))) (returnM (resolved @ [vault_id])))))"

definition validate_deployment_vault_ids :: "pv \<Rightarrow> string list M" where
  "validate_deployment_vault_ids v =
     bindM (liftE (normalize_deployment_vault_ids v)) (\<lambda>ids. foldM add_vault_id ids [])"

text \<open>The type and payload of an initial event, which validation has found to be a dict.\<close>

definition initial_event :: "pv \<Rightarrow> string \<times> pdict" where
  "initial_event v = (case v of
      PDict e \<Rightarrow> (str_or_empty (dget ''type'' e), dset ''type'' (PStr (str_or_empty (dget ''type'' e))) e)
    | _ \<Rightarrow> ([], []))"

definition append_initial_event :: "pv \<Rightarrow> session_row \<Rightarrow> session_row M" where
  "append_initial_event v s = (case initial_event v of (event_type, payload) \<Rightarrow>
     bindM (append_event s event_type payload) (\<lambda>(s', _). returnM s'))"

definition append_deployment_session_events :: "session_row \<Rightarrow> pv \<Rightarrow> session_row M" where
  "append_deployment_session_events s initial_events =
     seqM (liftE (validate_deployment_initial_events initial_events)) (
     bindM (append_event s ''session.status_idle'' (status_event ''session.status_idle'' ''idle'' (reason ''end_turn''))) (\<lambda>(s1, _).
     foldM append_initial_event (case initial_events of PList es \<Rightarrow> es | _ \<Rightarrow> []) s1))"

definition ticked :: "string \<Rightarrow> string" where
  "ticked s = CHR 0x60 # s @ [CHR 0x60]"

definition run_agent :: "string \<Rightarrow> int option \<Rightarrow> (agent_row \<times> int) M" where
  "run_agent agent_id requested_version =
     bindM (get_agent agent_id) (\<lambda>found.
     case found of
       None \<Rightarrow> raiseM (DeploymentRunCreationError ''agent_not_found_error'' (''agent '' @ ticked agent_id @ '' was not found''))
     | Some agent \<Rightarrow>
       seqM (guardM (ag_archived_at agent \<noteq> None)
         (DeploymentRunCreationError ''agent_archived_error'' (''agent '' @ ticked agent_id @ '' is archived''))) (
       let version = (case requested_version of Some n \<Rightarrow> if n \<noteq> 0 then n else ag_active_version agent
                      | None \<Rightarrow> ag_active_version agent) in
       bindM (get_agent_version (ag_id agent) version None) (\<lambda>found_version.
       seqM (guardM (found_version = None) (DeploymentRunCreationError ''agent_version_not_found_error''
         (''agent '' @ ticked agent_id @ '' version '' @ ticked (int_str version) @ '' was not found'')))
         (returnM (agent, version)))))"

definition run_environment :: "string \<Rightarrow> environment_row M" where
  "run_environment environment_id =
     bindM (get_environment environment_id None) (\<lambda>found.
     case found of
       None \<Rightarrow> raiseM (DeploymentRunCreationError ''environment_not_found_error''
         (''environment '' @ ticked environment_id @ '' was not found''))
     | Some e \<Rightarrow>
       seqM (guardM (en_deleted_at e \<noteq> None) (DeploymentRunCreationError ''environment_not_found_error''
         (''environment '' @ ticked environment_id @ '' was not found''))) (
       seqM (guardM (en_archived_at e \<noteq> None) (DeploymentRunCreationError ''environment_archived_error''
         (''environment '' @ ticked environment_id @ '' is archived''))) (returnM e)))"

text \<open>\<^theory_text>\<open>run_input[k] if k in run_input else data.get(k)\<close>\<close>

definition run_or_data :: "string \<Rightarrow> pdict \<Rightarrow> pdict \<Rightarrow> pv" where
  "run_or_data k run_input data = dget_or k (dget k data) run_input"

definition attach_resource :: "pv \<Rightarrow> session_row \<Rightarrow> session_row M" where
  "attach_resource v s = seqM (create_session_resource s v [''file'', ''github_repository'', ''memory_store'']) (returnM s)"

definition deployment_session :: "resource_row \<Rightarrow> resource_row \<Rightarrow> pdict \<Rightarrow> pv \<Rightarrow> pv \<Rightarrow> session_row M" where
  "deployment_session deployment run run_input agent_ref environment_id =
     (let data = mr_data deployment in
      bindM (liftE (deployment_agent_ref agent_ref)) (\<lambda>(agent_id, requested_version).
      bindM (run_agent agent_id requested_version) (\<lambda>(agent, version).
      bindM (run_environment (py_str environment_id)) (\<lambda>environment.
      bindM (liftE (dict_or_empty (dget ''metadata'' run_input))) (\<lambda>given_metadata.
      let metadata = dupdate given_metadata
        [(''deployment_id'', PStr (mr_id deployment)), (''deployment_run_id'', PStr (mr_id run))] in
      bindM (validate_deployment_vault_ids (run_or_data ''vault_ids'' run_input data)) (\<lambda>vault_ids.
      bindM (liftE (column_text (por (por (por (dget ''title'' run_input) (dget ''title'' data)) (dget ''name'' data))
        (pstr_opt (mr_name deployment))))) (\<lambda>title.
      bindM (create_session_q agent version environment title metadata [] vault_ids None) (\<lambda>s.
      bindM (liftE (normalize_deployment_resources (run_or_data ''resources'' run_input data))) (\<lambda>resources.
      bindM (foldM attach_resource resources s) (\<lambda>s1.
      append_deployment_session_events s1
        (por (por (dget ''initial_events'' run_input) (dget ''initial_events'' data)) (PList []))))))))))))"

definition maybe_create_deployment_session ::
  "resource_row \<Rightarrow> resource_row \<Rightarrow> pdict \<Rightarrow> session_row option M" where
  "maybe_create_deployment_session deployment run run_input =
     (let agent_ref = por (dget ''agent'' run_input) (dget ''agent'' (mr_data deployment));
          environment_id = por (dget ''environment_id'' run_input) (dget ''environment_id'' (mr_data deployment)) in
      if \<not> truthy agent_ref \<or> \<not> truthy environment_id then returnM None
      else bindM (deployment_session deployment run run_input agent_ref environment_id) (\<lambda>s. returnM (Some s)))"

section \<open>Runs\<close>

text \<open>An agent that is gone or archived archives the deployment, for good: it commits before it refuses.\<close>

definition archive_if_deployment_agent_unusable :: "resource_row \<Rightarrow> unit M" where
  "archive_if_deployment_agent_unusable deployment =
     bindM (liftE (deployment_agent_ref (dget ''agent'' (mr_data deployment)))) (\<lambda>(agent_id, _).
     bindM (get_agent agent_id) (\<lambda>found.
     case found of
       Some agent \<Rightarrow>
         if ag_archived_at agent = None then returnM ()
         else seqM (archive_resource deployment) (seqM commitM
           (raiseM (HTTPException 409 ''Deployment agent is archived; deployment archived'')))
     | None \<Rightarrow> seqM (archive_resource deployment) (seqM commitM
         (raiseM (HTTPException 409 ''Deployment agent was not found; deployment archived'')))))"

definition reschedule :: "(string \<Rightarrow> zone res) \<Rightarrow> resource_row \<Rightarrow> resource_row M" where
  "reschedule zone_info deployment =
     bindM (liftE (dict_or_empty (dget ''schedule'' (mr_data deployment)))) (\<lambda>schedule.
     if truthy (dget ''expression'' schedule) \<and> truthy (dget ''timezone'' schedule) then
       bindM nowM (\<lambda>t.
       bindM (upcoming_cron_runs zone_info (py_str (dget ''expression'' schedule)) (py_str (dget ''timezone'' schedule)) 5) (\<lambda>runs.
       update_resource deployment (resource_patch0\<lparr>rp_data := Some (dset ''schedule'' (PDict (dset ''upcoming_runs_at''
         (PList (map PStr runs)) (dset ''last_run_at'' (PStr (isoformat t)) schedule))) (mr_data deployment))\<rparr>)))
     else returnM deployment)"

text \<open>The columns of type JSON cannot hold a \<^theory_text>\<open>datetime\<close>; the context of a run is where one could get in.\<close>

definition json_context :: "pdict \<Rightarrow> unit res" where
  "json_context d = raise_if (case dget ''scheduled_at'' d of PTime _ \<Rightarrow> True | _ \<Rightarrow> False)
     (External ''StatementError'' [] 0)"

definition run_record :: "resource_row \<Rightarrow> int \<Rightarrow> pv \<Rightarrow> pdict \<Rightarrow> pv \<Rightarrow> pdict" where
  "run_record deployment attempt trigger context scheduled_for =
     [(''deployment_id'', PStr (mr_id deployment)), (''agent'', dget ''agent'' (mr_data deployment)),
      (''status'', PStr ''queued''), (''attempt'', PInt attempt), (''trigger'', trigger),
      (''trigger_context'', PDict context), (''scheduled_for'', scheduled_for)]"

definition run_failed :: "string \<Rightarrow> string \<Rightarrow> resource_row \<Rightarrow> resource_row M" where
  "run_failed error_type message run = update_resource run (resource_patch0\<lparr>
     rp_data := Some (dset ''error'' (PDict [(''type'', PStr error_type), (''message'', PStr message)])
       (dset ''status'' (PStr ''error'') (mr_data run))), rp_status := Some ''error''\<rparr>)"

text \<open>The session, or the error the run keeps.\<close>

definition try_run_session :: "resource_row \<Rightarrow> resource_row \<Rightarrow> pdict \<Rightarrow> ((string \<times> string) + session_row option) M" where
  "try_run_session deployment run run_input =
     catchM (bindM (maybe_create_deployment_session deployment run run_input) (\<lambda>created. returnM (Inr created)))
       (\<lambda>e. case e of
           DeploymentRunCreationError error_type message \<Rightarrow> returnM (Inl (error_type, message))
         | _ \<Rightarrow> raiseM e)"

definition start_run_session :: "resource_row \<Rightarrow> resource_row \<Rightarrow> pdict \<Rightarrow> resource_row M" where
  "start_run_session deployment run run_input =
     bindM (try_run_session deployment run run_input) (\<lambda>outcome.
     case outcome of
       Inl (error_type, message) \<Rightarrow> run_failed error_type message run
     | Inr None \<Rightarrow> returnM run
     | Inr (Some s) \<Rightarrow> update_resource run (resource_patch0\<lparr>
         rp_data := Some (dset ''session_id'' (PStr (se_id s)) (mr_data run))\<rparr>))"

definition run_deployment_resource :: "(string \<Rightarrow> zone res) \<Rightarrow> resource_row \<Rightarrow> pdict \<Rightarrow> resource_row M" where
  "run_deployment_resource zone_info deployment run_input =
     seqM (ensure_deployment_mutable deployment) (
     let trigger = trigger_of run_input in
     seqM (guardM (deployment_paused deployment \<and> trigger \<noteq> PStr ''manual'')
       (HTTPException 409 ''Deployment schedule is paused'')) (
     seqM (archive_if_deployment_agent_unusable deployment) (
     bindM (liftE (py_int (por (dget ''attempt'' run_input) (PInt 1)))) (\<lambda>attempt.
     bindM (if trigger = PStr ''schedule'' then reschedule zone_info deployment else returnM deployment) (\<lambda>deployment1.
     bindM (trigger_context run_input) (\<lambda>context.
     seqM (liftE (json_context context)) (
     bindM (create_resource ''deployment_run'' (resource_args0\<lparr>ra_parent_id := Some (mr_id deployment1),
       ra_status := ''queued'',
       ra_data := run_record deployment1 attempt trigger context (dget ''scheduled_for'' run_input)\<rparr>)) (\<lambda>run.
     start_run_session deployment1 run run_input))))))))"

definition run_deployment :: "(string \<Rightarrow> zone res) \<Rightarrow> string \<Rightarrow> pdict option \<Rightarrow> pdict M" where
  "run_deployment zone_info i body = session_scope (
     bindM (must_exist i ''deployment'' None) (\<lambda>deployment.
     bindM (run_deployment_resource zone_info deployment (case body of None \<Rightarrow> [] | Some d \<Rightarrow> d)) (\<lambda>run.
     seqM commitM (resource_response run None))))"

section \<open>The scheduler\<close>

text \<open>The due time is printed again as it was stored, in UTC.\<close>

definition due_times :: "pdict \<Rightarrow> int \<Rightarrow> int list res" where
  "due_times schedule now =
     bindE (list_or_empty (dget ''upcoming_runs_at'' schedule)) (\<lambda>values.
     Inr (filter (\<lambda>t. t \<le> now) (List.map_filter parse_instant values)))"

definition scheduled_for_at :: "int \<Rightarrow> resource_row \<Rightarrow> bool" where
  "scheduled_for_at moment run = (dget ''trigger'' (mr_data run) = PStr ''schedule''
     \<and> parse_instant (dget ''scheduled_for'' (mr_data run)) = Some moment)"

definition scheduled_deployment_run_exists :: "string \<Rightarrow> int \<Rightarrow> bool M" where
  "scheduled_deployment_run_exists deployment_id moment =
     bindM (list_resources ''deployment_run'' (Some deployment_id) 1000 False False None) (\<lambda>runs.
     returnM (list_ex (scheduled_for_at moment) runs))"

definition scheduled_deployment_due_at :: "resource_row \<Rightarrow> int \<Rightarrow> int option M" where
  "scheduled_deployment_due_at deployment now =
     (if deployment_paused deployment then returnM None
      else (case por (dget ''schedule'' (mr_data deployment)) (PDict []) of
          PDict schedule \<Rightarrow>
            if \<not> truthy (dget_or ''enabled'' (PBool True) schedule) then returnM None
            else bindM (liftE (due_times schedule now)) (\<lambda>due.
              case due of
                [] \<Rightarrow> returnM None
              | t # ts \<Rightarrow>
                  let due_at = foldl min t ts in
                  bindM (scheduled_deployment_run_exists (mr_id deployment) due_at) (\<lambda>exists_already.
                  returnM (if exists_already then None else Some due_at)))
        | _ \<Rightarrow> returnM None))"

fun run_due_loop :: "(string \<Rightarrow> zone res) \<Rightarrow> int \<Rightarrow> nat \<Rightarrow> resource_row list \<Rightarrow> pdict list M" where
  "run_due_loop zone_info now left [] = returnM []"
| "run_due_loop zone_info now left (deployment # deployments) =
     (if left = 0 then returnM []
      else bindM (scheduled_deployment_due_at deployment now) (\<lambda>due.
        case due of
          None \<Rightarrow> run_due_loop zone_info now left deployments
        | Some due_at \<Rightarrow>
            bindM (run_deployment_resource zone_info deployment
              [(''trigger'', PStr ''schedule''), (''scheduled_for'', PStr (isoformat due_at))]) (\<lambda>run.
            bindM (resource_response run None) (\<lambda>response.
            bindM (run_due_loop zone_info now (left - 1) deployments) (\<lambda>runs.
            returnM (response # runs))))))"

definition run_due_scheduled_deployments :: "(string \<Rightarrow> zone res) \<Rightarrow> pv \<Rightarrow> nat \<Rightarrow> pdict list M" where
  "run_due_scheduled_deployments zone_info now_arg limit =
     bindM (case parse_instant now_arg of Some t \<Rightarrow> returnM t | None \<Rightarrow> nowM) (\<lambda>now.
     bindM (list_resources ''deployment'' None 1000 False False None) (\<lambda>deployments.
     run_due_loop zone_info now limit deployments))"

section \<open>Reading runs\<close>

definition list_deployment_runs :: "int \<Rightarrow> list_filter \<Rightarrow> pdict list_response M" where
  "list_deployment_runs limit f = session_scope (
     seqM (guardM (lf_trigger_type f \<notin> {None, Some ''manual'', Some ''schedule''})
       (HTTPException 422 ''trigger_type must be manual or schedule'')) (
     list_top_level ''deployment_run'' limit f))"

definition retrieve_deployment_run :: "string \<Rightarrow> pdict M" where
  "retrieve_deployment_run i = session_scope (retrieve_managed i ''deployment_run'' None)"

end
