(* ===== verification/Publish.thy ===== *)
theory Publish
  imports Managed Commits SessionResources
begin

text \<open>
  What a request publishes. A handler reads and writes its working copy, commits it and then builds its answer, which
  may still fail. \<open>publishes_at P m w\<close> says that \<open>m\<close>, run in \<open>w\<close>, either publishes nothing or a state of the tables
  with \<open>P\<close>; its rules follow the shape of a program and turn it into facts about the runs of its parts. The theory also
  has what the shared reads and writes of resources do, as facts of that kind.
\<close>

section \<open>The rules\<close>

definition publishes_at :: "(database \<Rightarrow> bool) \<Rightarrow> 'a M \<Rightarrow> world \<Rightarrow> bool" where
  "publishes_at P m w \<longleftrightarrow> (case m w of (_, w') \<Rightarrow> w_committed w' = w_committed w \<or> P (w_committed w'))"

lemma publishes_weaken: "publishes_at P m w \<Longrightarrow> (\<And>d. P d \<Longrightarrow> Q d) \<Longrightarrow> publishes_at Q m w"
  by (auto simp: publishes_at_def split: prod.splits)

named_theorems publish_intros \<open>shapes of programs that publish\<close>

lemma publishes_draft: "keeps unpublished m \<Longrightarrow> publishes_at P m w"
  by (auto simp: publishes_at_def unpublished_def dest: keepsD)

lemma publishes_at_bind [publish_intros]:
  assumes "keeps unpublished m" "\<And>x v. m w = (Inr x, v) \<Longrightarrow> publishes_at P (f x) v"
  shows "publishes_at P (bindM m f) w"
proof (cases "m w")
  case (Pair q v)
  from keepsD [OF assms(1) this] have "w_committed v = w_committed w" by (simp add: unpublished_def)
  with Pair assms(2) [of _ v] show ?thesis by (cases q) (auto simp: publishes_at_def split: prod.splits)
qed

lemma publishes_seq [publish_intros]:
  "keeps unpublished m \<Longrightarrow> (\<And>x v. m w = (Inr x, v) \<Longrightarrow> publishes_at P n v) \<Longrightarrow> publishes_at P (seqM m n) w"
  unfolding seqM_def by (rule publishes_at_bind)

lemma publishes_commit:
  assumes "P (w_db w)" "keeps tables_kept n"
  shows "publishes_at P (seqM commitM n) w"
proof (cases "n (w\<lparr>w_committed := w_db w\<rparr>)")
  case (Pair r v)
  from keepsD [OF assms(2) this] have "w_committed v = w_db w" by (simp add: tables_kept_def)
  with assms(1) Pair show ?thesis by (simp add: publishes_at_def seqM_def bindM_def mon_defs)
qed

lemma publishes_control [publish_intros]:
  "(c \<Longrightarrow> publishes_at P m w) \<Longrightarrow> (\<not> c \<Longrightarrow> publishes_at P n w) \<Longrightarrow> publishes_at P (if c then m else n) w"
  "(v = None \<Longrightarrow> publishes_at P m w) \<Longrightarrow> (\<And>x. v = Some x \<Longrightarrow> publishes_at P (f x) w) \<Longrightarrow>
    publishes_at P (case v of None \<Rightarrow> m | Some x \<Rightarrow> f x) w"
  "(\<And>x y. p = (x, y) \<Longrightarrow> publishes_at P (h x y) w) \<Longrightarrow> publishes_at P (case p of (x, y) \<Rightarrow> h x y) w"
  by (auto split: option.split prod.split)

lemma publishes_raise [publish_intros]: "publishes_at P (raiseM e) w" "publishes_at P (returnM x) w"
  by (simp_all add: publishes_at_def mon_defs)

text \<open>A request moves the published tables by a relation if its body, started from them, publishes by it.\<close>

lemma scope_publishes:
  assumes "session_scope m w = (r, w')" "publishes_at P m (w\<lparr>w_db := w_committed w\<rparr>)"
  shows "w_committed w' = w_committed w \<or> P (w_committed w')"
  using assms by (auto simp: session_scope_def publishes_at_def split: prod.splits)

text \<open>A program that publishes whenever it succeeds.\<close>

definition commits_at :: "(database \<Rightarrow> bool) \<Rightarrow> 'a M \<Rightarrow> world \<Rightarrow> bool" where
  "commits_at P m w \<longleftrightarrow> (case m w of (r, w') \<Rightarrow> (\<exists>e. r = Inl e) \<and> w_committed w' = w_committed w \<or> P (w_committed w'))"

lemma commits_publishes: "commits_at P m w \<Longrightarrow> publishes_at P m w"
  by (auto simp: commits_at_def publishes_at_def split: prod.splits)

named_theorems commit_rules \<open>shapes of programs that publish when they succeed\<close>

lemma commits_at_bind [commit_rules]:
  assumes "keeps unpublished m" "\<And>x v. m w = (Inr x, v) \<Longrightarrow> commits_at P (f x) v"
  shows "commits_at P (bindM m f) w"
proof (cases "m w")
  case (Pair q v)
  from keepsD [OF assms(1) this] have "w_committed v = w_committed w" by (simp add: unpublished_def)
  with Pair assms(2) [of _ v] show ?thesis by (cases q) (auto simp: commits_at_def split: prod.splits)
qed

lemma commits_at_seq [commit_rules]:
  "keeps unpublished m \<Longrightarrow> (\<And>x v. m w = (Inr x, v) \<Longrightarrow> commits_at P n v) \<Longrightarrow> commits_at P (seqM m n) w"
  unfolding seqM_def by (rule commits_at_bind)

lemma commits_at_commit:
  assumes "P (w_db w)" "keeps tables_kept n"
  shows "commits_at P (seqM commitM n) w"
proof (cases "n (w\<lparr>w_committed := w_db w\<rparr>)")
  case (Pair r v)
  from keepsD [OF assms(2) this] have "w_committed v = w_db w" by (simp add: tables_kept_def)
  with assms(1) Pair show ?thesis by (simp add: commits_at_def seqM_def bindM_def mon_defs)
qed

lemma commits_at_control [commit_rules]:
  "(c \<Longrightarrow> commits_at P m w) \<Longrightarrow> (\<not> c \<Longrightarrow> commits_at P n w) \<Longrightarrow> commits_at P (if c then m else n) w"
  "(v = None \<Longrightarrow> commits_at P m w) \<Longrightarrow> (\<And>x. v = Some x \<Longrightarrow> commits_at P (f x) w) \<Longrightarrow>
    commits_at P (case v of None \<Rightarrow> m | Some x \<Rightarrow> f x) w"
  "(\<And>x y. p = (x, y) \<Longrightarrow> commits_at P (h x y) w) \<Longrightarrow> commits_at P (case p of (x, y) \<Rightarrow> h x y) w"
  "commits_at P (raiseM e) w"
  by (auto simp: commits_at_def split: option.split prod.split)

lemma scope_commits:
  assumes "session_scope m w = (r, w')" "commits_at P m (w\<lparr>w_db := w_committed w\<rparr>)"
  shows "(\<exists>e. r = Inl e) \<and> w_committed w' = w_committed w \<or> P (w_committed w')"
  using assms by (auto simp: session_scope_def commits_at_def split: prod.splits)

text \<open>A program that publishes when it succeeds, unless \<open>N\<close> tells why there was nothing to do.\<close>

definition settles_at :: "bool \<Rightarrow> (database \<Rightarrow> bool) \<Rightarrow> 'a M \<Rightarrow> world \<Rightarrow> bool" where
  "settles_at N P m w \<longleftrightarrow> (case m w of (r, w') \<Rightarrow> ((\<exists>e. r = Inl e) \<or> N) \<and> w_committed w' = w_committed w \<or> P (w_committed w'))"

lemma settles_publishes: "settles_at N P m w \<Longrightarrow> publishes_at P m w"
  by (auto simp: settles_at_def publishes_at_def split: prod.splits)

lemma commits_settles: "commits_at P m w \<Longrightarrow> settles_at N P m w"
  by (auto simp: settles_at_def commits_at_def split: prod.splits)

named_theorems settle_rules \<open>shapes of programs that publish or have nothing to do\<close>

lemma settles_at_bind [settle_rules]:
  assumes "keeps unpublished m" "\<And>x v. m w = (Inr x, v) \<Longrightarrow> settles_at N P (f x) v"
  shows "settles_at N P (bindM m f) w"
proof (cases "m w")
  case (Pair q v)
  from keepsD [OF assms(1) this] have "w_committed v = w_committed w" by (simp add: unpublished_def)
  with Pair assms(2) [of _ v] show ?thesis by (cases q) (auto simp: settles_at_def split: prod.splits)
qed

lemma settles_at_seq [settle_rules]:
  "keeps unpublished m \<Longrightarrow> (\<And>x v. m w = (Inr x, v) \<Longrightarrow> settles_at N P n v) \<Longrightarrow> settles_at N P (seqM m n) w"
  unfolding seqM_def by (rule settles_at_bind)

lemma settles_at_if: "(c \<Longrightarrow> settles_at N P m w) \<Longrightarrow> (\<not> c \<Longrightarrow> settles_at N P n w) \<Longrightarrow> settles_at N P (if c then m else n) w"
  by simp

lemma settles_at_nothing: "keeps unpublished m \<Longrightarrow> N \<Longrightarrow> settles_at N P m w"
  by (auto simp: settles_at_def unpublished_def dest: keepsD)

lemma settles_at_commit: "P (w_db w) \<Longrightarrow> keeps tables_kept n \<Longrightarrow> settles_at N P (seqM commitM n) w"
  by (intro commits_settles commits_at_commit)

lemma scope_settles:
  assumes "session_scope m w = (r, w')" "settles_at N P m (w\<lparr>w_db := w_committed w\<rparr>)"
  shows "((\<exists>e. r = Inl e) \<or> N) \<and> w_committed w' = w_committed w \<or> P (w_committed w')"
  using assms by (auto simp: session_scope_def settles_at_def split: prod.splits)

section \<open>Reads\<close>

lemma reading_named [reading]:
  "keeps tables_kept (get_resource_by_name ty k p d ws)" "keeps tables_kept (get_resource_by_sha256 ty h d ws)"
  "keeps tables_kept (count_resources_by_storage_key ty b k d ws)"
  unfolding get_resource_by_name_def get_resource_by_sha256_def count_resources_by_storage_key_def
  by (intro kept.control reading)+

lemma reading_must_exist [reading]: "keeps tables_kept (must_exist i ty p)"
  unfolding must_exist_def by (intro kept.control reading)

lemma reading_pure [reading]:
  "keeps tables_kept (returnM x)" "keeps tables_kept (raiseM e)" "keeps tables_kept (liftE v)" "keeps tables_kept (guardM c e)"
  by (rule kept.pure_steps)+

lemma reading_run_response [reading]: "keeps tables_kept (deployment_run_response r)"
proof -
  have "keeps tables_kept (trigger_context d)" for d
    unfolding trigger_context_def Let_def by (intro kept.control reading)
  then show ?thesis unfolding deployment_run_response_def Let_def by (intro kept.control reading)
qed

lemma reading_response [reading]: "keeps tables_kept (resource_response r view)"
  unfolding resource_response_def Let_def by (intro kept.control reading)

lemma publishes_response [publish_intros]: "publishes_at P (resource_response r view) w"
  by (rule publishes_draft [OF drafting_reads [OF reading_response]])

lemma found_Inr:
  "bindM g (\<lambda>found. case found of None \<Rightarrow> raiseM e | Some r \<Rightarrow> f r) w = (Inr y, w') \<longleftrightarrow>
     (\<exists>r v. g w = (Inr (Some r), v) \<and> f r v = (Inr y, w'))"
proof
  assume "bindM g (\<lambda>found. case found of None \<Rightarrow> raiseM e | Some r \<Rightarrow> f r) w = (Inr y, w')"
  then obtain x v where x: "g w = (Inr x, v)" "(case x of None \<Rightarrow> raiseM e | Some r \<Rightarrow> f r) v = (Inr y, w')"
    unfolding bindM_Inr by blast
  then show "\<exists>r v. g w = (Inr (Some r), v) \<and> f r v = (Inr y, w')" by (cases x) auto
qed auto

lemma must_exist_Inr:
  assumes "must_exist i ty p w = (Inr r, w')"
  shows "w' = w" "r \<in> set (db_resources (w_db w))" "mr_id r = i" "mr_resource_type r = ty" "mr_workspace_id r = ws_of None w"
    "mr_deleted_at r = None" "opt_eq p (mr_parent_id r)"
proof -
  from assms have "get_resource i (Some ty) p False None w = (Inr (Some r), w')"
    by (auto simp: must_exist_def mon_simps split: option.splits)
  from get_resource_Inr [OF this] show "w' = w" "r \<in> set (db_resources (w_db w))" "mr_id r = i" "mr_resource_type r = ty"
    "mr_workspace_id r = ws_of None w" "mr_deleted_at r = None" "opt_eq p (mr_parent_id r)"
    by (simp_all add: opt_eq_def)
qed

lemma must_exist_found:
  assumes "distinct (map mr_id (db_resources (w_db w)))" "r \<in> set (db_resources (w_db w))" "mr_id r = i" "mr_resource_type r = ty"
    "mr_workspace_id r = ws_of None w" "mr_deleted_at r = None" "opt_eq p (mr_parent_id r)"
  shows "must_exist i ty p w = (Inr r, w)"
proof -
  have "find_by mr_id i (db_resources (w_db w)) = Some r" using find_by_unique [OF assms(1,2)] assms(3) by simp
  with assms show ?thesis
    by (simp add: must_exist_def get_resource_def bindM_def mon_defs filter_key_unique [OF assms(1)] opt_eq_def
        scalar_one_or_none_def)
qed

lemma no_row_named:
  assumes "get_resource_by_name ty k p False ws w = (Inr None, w')"
  shows "w' = w" "filter (\<lambda>r. mr_resource_type r = ty \<and> mr_name r = Some k \<and> mr_workspace_id r = ws_of ws w
     \<and> opt_eq p (mr_parent_id r) \<and> mr_deleted_at r = None) (db_resources (w_db w)) = []"
  using assms by (auto simp: get_resource_by_name_def bindM_def mon_defs scalar_cases)

lemma row_named:
  assumes "get_resource_by_name ty k p False ws w = (Inr (Some r), w')"
  shows "w' = w" "r \<in> set (db_resources (w_db w))" "mr_name r = Some k"
proof -
  let ?P = "\<lambda>r. mr_resource_type r = ty \<and> mr_name r = Some k \<and> mr_workspace_id r = ws_of ws w
    \<and> opt_eq p (mr_parent_id r) \<and> (False \<or> mr_deleted_at r = None)"
  from assms have "w' = w \<and> filter ?P (db_resources (w_db w)) = [r]"
    by (auto simp: get_resource_by_name_def bindM_def mon_defs scalar_cases)
  then have "w' = w" "r \<in> set (filter ?P (db_resources (w_db w)))" by simp_all
  then show "w' = w" "r \<in> set (db_resources (w_db w))" "mr_name r = Some k" by simp_all
qed

lemma reads_ws: "m w = (r, w') \<Longrightarrow> (\<And>u q v. m u = (q, v) \<Longrightarrow> w_workspace v = w_workspace u) \<Longrightarrow> ws_of ws w' = ws_of ws w"
  by (simp add: ws_of_def workspace_id_or_default_def mon_defs split: option.split)

section \<open>Writes\<close>

lemma ids_replace_by [simp]: "mr_id ` set (replace_by mr_id r rows) = mr_id ` set rows"
proof -
  have "set (map mr_id (replace_by mr_id r rows)) = set (map mr_id rows)" by (simp only: keys_replace_by)
  then show ?thesis by (simp only: list.set_map)
qed

lemma create_resource_new:
  assumes "create_resource ty a w = (Inr r, w')"
  shows "mr_id r \<notin> mr_id ` set (db_resources (w_db w))" "mr_version r = ra_version a" "mr_archived_at r = None"
    "mr_storage_backend r = ra_storage_backend a" "mr_storage_key r = ra_storage_key a" "mr_sha256 r = ra_sha256 a"
    "w_workspace w' = w_workspace w"
  using assms
  by (auto simp: create_resource_def bindM_def seqM_def mon_defs insert_resource_def Let_def find_resource_def find_by_None
      split: if_splits)

text \<open>Saving a row that is there replaces it, up to its time stamp.\<close>

lemma save_resource_rows:
  assumes "save_resource r w = (Inr r', w')" "q \<in> set (db_resources (w_db w))" "mr_id q = mr_id r"
    "distinct (map mr_id (db_resources (w_db w)))"
  shows "db_resources (w_db w') = replace_by mr_id r' (db_resources (w_db w))" "\<exists>t. r' = r\<lparr>mr_updated_at := t\<rparr>"
    "w_workspace w' = w_workspace w" "w_committed w' = w_committed w"
proof -
  have q: "find_resource (mr_id r) (w_db w) = Some q"
    using find_by_unique [OF assms(4,2)] assms(3) by (simp add: find_resource_def)
  consider "q = r" "r' = r" "w' = w" | t where "r' = r\<lparr>mr_updated_at := t\<rparr>" "w_db w' = put_resource r' (w_db w)"
      "w_workspace w' = w_workspace w" "w_committed w' = w_committed w"
  proof (cases "q = r")
    case True
    have "save_resource r w = (Inr r, w)" using q unfolding True by (simp add: save_resource_def mon_defs bindM_def)
    with assms(1) have "r' = r" "w' = w" by simp_all
    with True show thesis by (rule that(1))
  next
    case False
    then have "r \<noteq> q" by simp
    from save_resource_run [OF assms(4,2) assms(3) [symmetric] this] assms(1)
    have eq: "r' = r\<lparr>mr_updated_at := w_clock w (w_ticks w)\<rparr>"
      "w' = w\<lparr>w_ticks := Suc (w_ticks w), w_db := put_resource r' (w_db w)\<rparr>" by (auto simp: Let_def)
    show thesis by (rule that(2) [OF eq(1)]) (simp_all add: eq(2))
  qed
  then have "db_resources (w_db w') = replace_by mr_id r' (db_resources (w_db w)) \<and> (\<exists>t. r' = r\<lparr>mr_updated_at := t\<rparr>) \<and>
    w_workspace w' = w_workspace w \<and> w_committed w' = w_committed w"
  proof cases
    case 1
    have "r\<lparr>mr_updated_at := mr_updated_at r\<rparr> = r" by simp
    then have "\<exists>t. r = r\<lparr>mr_updated_at := t\<rparr>" by metis
    moreover have "replace_by mr_id r (db_resources (w_db w)) = db_resources (w_db w)"
      using q 1 assms(4) by (intro replace_by_self) (simp_all add: find_resource_def)
    ultimately show ?thesis using 1 by simp
  next
    case (2 t)
    then show ?thesis by (auto simp: put_resource_def)
  qed
  then show "db_resources (w_db w') = replace_by mr_id r' (db_resources (w_db w))" "\<exists>t. r' = r\<lparr>mr_updated_at := t\<rparr>"
    "w_workspace w' = w_workspace w" "w_committed w' = w_committed w" by blast+
qed

lemma save_resource_ok: "\<exists>r' w'. save_resource r w = (Inr r', w')"
  by (auto simp: save_resource_def bindM_def seqM_def mon_defs Let_def)

lemma delete_resource_rows:
  assumes "delete_resource r w = (Inr r', w')" "r \<in> set (db_resources (w_db w))" "distinct (map mr_id (db_resources (w_db w)))"
  shows "db_resources (w_db w') = replace_by mr_id r' (db_resources (w_db w)) \<and>
    (\<exists>t u. r' = r\<lparr>mr_deleted_at := Some t, mr_status := ''deleted'', mr_updated_at := u\<rparr>)"
proof -
  obtain t v where s: "save_resource (r\<lparr>mr_deleted_at := Some t, mr_status := ''deleted''\<rparr>) v = (Inr r', w')" "w_db v = w_db w"
    using assms(1) by (auto simp: delete_resource_def bindM_def mon_defs)
  have "mr_id r = mr_id (r\<lparr>mr_deleted_at := Some t, mr_status := ''deleted''\<rparr>)" by simp
  from save_resource_rows [OF s(1) _ this] assms(2,3) s(2) show ?thesis by auto
qed

end
