(* ===== verification/DeploymentFacts.thy ===== *)
theory DeploymentFacts
  imports DeploymentRuns Publish
begin

text \<open>
  Properties of deployments: the next times of a schedule are the matching minutes, in order; a due run is created once
  and moves its schedule on; a deployment whose agent is gone is archived and creates nothing.
\<close>

section \<open>The next times of a schedule\<close>

text \<open>The minutes a search looks at, from the one after \<open>now\<close> on the wall clock.\<close>

definition minutes_after :: "zone \<Rightarrow> int \<Rightarrow> int list" where
  "minutes_after tz now = map (\<lambda>i. next_wall_minute tz now + int i * us_per_minute) [0..<SCAN_MINUTES]"

lemma scan_is_filter:
  "scan_minutes fuel c n current =
     take (max 1 n) (filter (cron_matches c) (map (\<lambda>i. current + int i * us_per_minute) [0..<fuel]))"
proof (induction fuel arbitrary: n current)
  case (Suc fuel)
  have step: "map (\<lambda>i. current + int i * us_per_minute) [0..<Suc fuel] =
      current # map (\<lambda>i. (current + us_per_minute) + int i * us_per_minute) [0..<fuel]"
    by (simp add: upt_conv_Cons map_Suc_upt [symmetric] comp_def algebra_simps del: upt_Suc)
  have "max 1 (n - 1) = max 1 n - 1" if "\<not> n \<le> 1" using that by simp
  then show ?case unfolding step by (cases "n \<le> 1") (simp_all add: Suc.IH take_Cons' max_def)
qed simp

text \<open>The values a field allows.\<close>

lemma stepped_set: "0 < step \<Longrightarrow> n \<in> set (stepped a b step) \<longleftrightarrow> a \<le> n \<and> n \<le> b \<and> (n - a) mod step = 0"
proof
  assume step: "0 < step" and "n \<in> set (stepped a b step)"
  then obtain i where i: "n = a + int i * step" "i < nat ((b - a) div step + 1)" by (auto simp: stepped_def)
  then have "int i \<le> (b - a) div step" by linarith
  then have "int i * step \<le> (b - a) div step * step" using step by simp
  also have "\<dots> \<le> b - a" using step by (simp add: minus_mod_eq_div_mult [symmetric])
  finally show "a \<le> n \<and> n \<le> b \<and> (n - a) mod step = 0" using i step by simp
next
  assume step: "0 < step" and n: "a \<le> n \<and> n \<le> b \<and> (n - a) mod step = 0"
  define i where "i = nat ((n - a) div step)"
  have "(n - a) div step \<le> (b - a) div step" using step n by (intro zdiv_mono1) auto
  then have "i < nat ((b - a) div step + 1)" using step n by (simp add: i_def pos_imp_zdiv_nonneg_iff)
  moreover have "n = a + int i * step"
    using step n div_mult_mod_eq [of "n - a" step] by (simp add: i_def pos_imp_zdiv_nonneg_iff)
  ultimately show "n \<in> set (stepped a b step)" unfolding stepped_def by (auto intro!: image_eqI [of _ _ i])
qed

lemma field_bounds:
  assumes "cron_field_values part a b = Inr vs"
  shows "set vs \<subseteq> {a..b}"
proof
  fix n assume "n \<in> set vs"
  moreover obtain groups where g: "mapE (cron_item_values a b) (split_on CHR '','' part) = Inr groups" "vs = concat groups"
    using assms by (auto simp: cron_field_values_def bindE_def split: sum.splits)
  ultimately obtain group where group: "group \<in> set groups" "n \<in> set group" by auto
  from mapE_Inr_set [OF g(1)] group(1) obtain raw where "cron_item_values a b raw = Inr group" by blast
  then obtain rest step start final where item: "cron_step (py_strip raw) = Inr (rest, step)" "a \<le> start" "final \<le> b"
      "group = stepped start final step"
    by (auto simp: cron_item_values_def Let_def bindE_def raise_if_def not_less split: sum.splits if_splits prod.splits)
  have "0 < step"
    using item(1) by (auto simp: cron_step_def bindE_def raise_if_def split: option.splits sum.splits if_splits)
  from group(2) item stepped_set [OF this] show "n \<in> {a..b}" by auto
qed


section \<open>What a run leaves alone\<close>

text \<open>The row of a given identifier stays as it is while a session is made for the run.\<close>

definition row_kept :: "string \<Rightarrow> database \<Rightarrow> database \<Rightarrow> bool" where
  "row_kept i d d' \<longleftrightarrow> (\<forall>r. find_resource i d = Some r \<longrightarrow> find_resource i d' = Some r)"

interpretation kept_row: db_order "row_kept i" for i
  by unfold_locales (auto simp: row_kept_def)

named_theorems row_keeping \<open>programs that leave a row of the resources alone\<close>

lemma row_keeping_reads: "keeps tables_kept m \<Longrightarrow> keeps (along (row_kept i)) m"
  by (auto simp: keeps_def tables_kept_def intro: kept_row.same_tables)

lemma row_keeping_writes [row_keeping]:
  "keeps (along (row_kept i)) (update_dbM (add_session s))" "keeps (along (row_kept i)) (update_dbM (put_session s))"
  "keeps (along (row_kept i)) (update_dbM (add_event e))" "keeps (along (row_kept i)) (update_dbM (add_resource r))"
  by (intro kept_row.update_keeps; simp add: row_kept_def find_resource_def add_session_def put_session_def add_event_def
      add_resource_def find_by_append)+

lemma row_keeping_rows [row_keeping]:
  "keeps (along (row_kept i)) (insert_session s)" "keeps (along (row_kept i)) (insert_event e)"
  "keeps (along (row_kept i)) (insert_resource r)" "keeps (along (row_kept i)) (save_session s)"
  unfolding insert_session_def insert_event_def insert_resource_def save_session_def Let_def
  by (intro kept_row.steps row_keeping row_keeping_reads reading)+

lemma row_keeping_changes [row_keeping]:
  "keeps (along (row_kept i)) (create_resource ty args)" "keeps (along (row_kept i)) (create_session_q a n e t md rs vs ws)"
  "keeps (along (row_kept i)) (append_event s et p)"
  unfolding create_resource_def create_session_q_def append_event_def normalize_payload_def
    default_processed_at_def Let_def
  by (intro kept_row.steps row_keeping row_keeping_reads reading)+

lemma row_keeping_attach [row_keeping]: "keeps (along (row_kept i)) (create_session_resource s data allowed)"
proof -
  have files: "keeps (along (row_kept i)) (normalize_file_session_resource d ws k)" for d ws k
    unfolding normalize_file_session_resource_def create_session_scoped_file_def Let_def
    by (intro kept_row.steps row_keeping row_keeping_reads kept_copy reading)
  have repos: "keeps (along (row_kept i)) (normalize_github_session_resource d)"
    and stores: "keeps (along (row_kept i)) (normalize_memory_store_session_resource d ws)" for d ws
    unfolding normalize_github_session_resource_def normalize_memory_store_session_resource_def Let_def
    by (intro kept_row.steps row_keeping row_keeping_reads reading)+
  have normalized: "keeps (along (row_kept i)) (normalize_session_resource_data v allowed ws k)" for v ws k
    unfolding normalize_session_resource_data_def Let_def
    by (auto split: pv.split intro!: kept_row.steps files repos stores)
  show ?thesis
    unfolding create_session_resource_def ensure_file_resource_capacity_def ensure_memory_store_resource_capacity_def
      session_resource_rows_def Let_def
    by (intro kept_row.steps normalized row_keeping row_keeping_reads reading)
qed

lemma row_keeping_session [row_keeping]: "keeps (along (row_kept i)) (try_run_session d r run_input)"
proof -
  have events: "keeps (along (row_kept i)) (append_deployment_session_events s es)" for s es
    unfolding append_deployment_session_events_def append_initial_event_def
    by (intro kept_row.steps row_keeping row_keeping_reads reading)
  have vaults: "keeps (along (row_kept i)) (validate_deployment_vault_ids v)" for v
    unfolding validate_deployment_vault_ids_def add_vault_id_def Let_def
    by (intro kept_row.steps row_keeping row_keeping_reads reading)
  have agents: "keeps (along (row_kept i)) (run_agent a n)" and environments: "keeps (along (row_kept i)) (run_environment e)" for a n e
    unfolding run_agent_def run_environment_def Let_def by (intro kept_row.steps row_keeping row_keeping_reads reading)+
  have "keeps (along (row_kept i)) (deployment_session d r run_input a e)" for a e
    unfolding deployment_session_def attach_resource_def Let_def
    by (intro kept_row.steps agents environments vaults events row_keeping row_keeping_reads reading)
  then show ?thesis
    unfolding try_run_session_def maybe_create_deployment_session_def Let_def
    by (intro kept_row.steps) (auto split: exc.split intro: kept_row.steps)
qed

section \<open>A due run\<close>

lemma keeps_row:
  assumes "m w = (r, w')" "keeps (along (row_kept i)) m" "find_resource i (w_db w) = Some x"
  shows "find_resource i (w_db w') = Some x"
  using keepsD [OF assms(2,1)] assms(3) by (simp add: along_def row_kept_def)

lemma saved_elsewhere:
  assumes "save_resource r w = (q, w')" "mr_id r \<noteq> i"
  shows "find_resource i (w_db w') = find_resource i (w_db w)"
  using assms by (auto simp: save_resource_def bindM_def seqM_def mon_defs Let_def find_resource_def put_resource_def
      find_by_replace split: if_splits)

lemma saved_there:
  assumes "save_resource r w = (Inr r', w')" "find_resource (mr_id r) (w_db w) \<noteq> None"
  shows "find_resource (mr_id r) (w_db w') = Some r'" "\<exists>t. r' = r\<lparr>mr_updated_at := t\<rparr>"
proof -
  from assms have "find_resource (mr_id r) (w_db w') = Some r' \<and> (r' = r \<or> (\<exists>t. r' = r\<lparr>mr_updated_at := t\<rparr>))"
    by (auto simp: save_resource_def bindM_def seqM_def mon_defs Let_def find_resource_def put_resource_def
        find_by_replace split: if_splits)
  moreover have "r = r\<lparr>mr_updated_at := mr_updated_at r\<rparr>" by simp
  ultimately show "find_resource (mr_id r) (w_db w') = Some r'" "\<exists>t. r' = r\<lparr>mr_updated_at := t\<rparr>" by metis+
qed

text \<open>What became of a run: it failed with a recorded error, or it may name its session.\<close>

definition run_outcome :: "resource_row \<Rightarrow> resource_row \<Rightarrow> bool" where
  "run_outcome run r \<longleftrightarrow> mr_id r = mr_id run \<and> mr_parent_id r = mr_parent_id run \<and>
     mr_resource_type r = mr_resource_type run \<and>
     (mr_status r = mr_status run \<and> mr_data r = mr_data run \<or>
      mr_status r = mr_status run \<and> (\<exists>i. mr_data r = dset ''session_id'' (PStr i) (mr_data run)) \<or>
      mr_status r = ''error'' \<and> (\<exists>t m. mr_data r = dset ''error'' (PDict [(''type'', PStr t), (''message'', PStr m)])
        (dset ''status'' (PStr ''error'') (mr_data run))))"

lemma run_outcome_stamp [simp]: "run_outcome run (q\<lparr>mr_updated_at := t\<rparr>) \<longleftrightarrow> run_outcome run q"
  by (simp add: run_outcome_def)

lemma start_run_cases:
  assumes "start_run_session d run run_input w = (Inr r, w')"
  obtains (left) v outcome where "try_run_session d run run_input w = (Inr outcome, v)" "r = run" "w' = v"
  | (saved) v outcome q where "try_run_session d run run_input w = (Inr outcome, v)" "save_resource q v = (Inr r, w')"
      "mr_id q = mr_id run" "run_outcome run q"
proof -
  from assms obtain outcome v where o: "try_run_session d run run_input w = (Inr outcome, v)"
    "(case outcome of Inl (error_type, message) \<Rightarrow> run_failed error_type message run
     | Inr None \<Rightarrow> returnM run
     | Inr (Some s) \<Rightarrow> update_resource run (resource_patch0\<lparr>
         rp_data := Some (dset ''session_id'' (PStr (se_id s)) (mr_data run))\<rparr>)) v = (Inr r, w')"
    unfolding start_run_session_def bindM_Inr by blast
  show thesis
  proof (cases outcome)
    case (Inl f)
    obtain t m where f: "f = (t, m)" by (cases f)
    let ?p = "resource_patch0\<lparr>rp_data := Some (dset ''error'' (PDict [(''type'', PStr t), (''message'', PStr m)])
       (dset ''status'' (PStr ''error'') (mr_data run))), rp_status := Some ''error''\<rparr>"
    have "run_outcome run (patch_resource ?p run)" "mr_id (patch_resource ?p run) = mr_id run"
      by (auto simp: run_outcome_def patch_resource_def resource_patch0_def given_def)
    with o f Inl show thesis by (intro saved [OF o(1)]) (simp_all add: run_failed_def update_resource_def)
  next
    case (Inr v)
    show thesis
    proof (cases v)
      case (Some s)
      let ?p = "resource_patch0\<lparr>rp_data := Some (dset ''session_id'' (PStr (se_id s)) (mr_data run))\<rparr>"
      have "run_outcome run (patch_resource ?p run)" "mr_id (patch_resource ?p run) = mr_id run"
        by (auto simp: run_outcome_def patch_resource_def resource_patch0_def given_def)
      with o Inr Some show thesis by (intro saved [OF o(1)]) (simp_all add: update_resource_def)
    qed (use o Inr left [OF o(1)] in simp)
  qed
qed

lemma start_run_kept:
  assumes "start_run_session d run run_input w = (Inr r, w')" "find_resource i (w_db w) = Some x" "mr_id run \<noteq> i"
  shows "find_resource i (w_db w') = Some x"
  using assms(1)
proof (cases rule: start_run_cases)
  case (left v outcome)
  from keeps_row [OF left(1) row_keeping_session assms(2)] left show ?thesis by simp
next
  case (saved v outcome q)
  from keeps_row [OF saved(1) row_keeping_session assms(2)] saved_elsewhere [OF saved(2)] saved(3) assms(3)
  show ?thesis by simp
qed

lemma start_run_recorded:
  assumes "start_run_session d run run_input w = (Inr r, w')" "find_resource (mr_id run) (w_db w) = Some run"
  shows "find_resource (mr_id run) (w_db w') = Some r \<and> run_outcome run r"
  using assms(1)
proof (cases rule: start_run_cases)
  case (left v outcome)
  from keeps_row [OF left(1) row_keeping_session assms(2)] left show ?thesis by (simp add: run_outcome_def)
next
  case (saved v outcome q)
  have "find_resource (mr_id q) (w_db v) \<noteq> None"
    using keeps_row [OF saved(1) row_keeping_session assms(2)] saved(3) by simp
  from saved_there [OF saved(2) this] saved(3,4) obtain t where
    "find_resource (mr_id run) (w_db w') = Some r" "r = q\<lparr>mr_updated_at := t\<rparr>" by auto
  with saved(4) show ?thesis by simp
qed

text \<open>The new times of a schedule are later than the moment they are computed at, and \<open>datetime\<close> has them.\<close>

definition moves_forward :: "zone \<Rightarrow> int \<Rightarrow> bool" where
  "moves_forward z now \<longleftrightarrow> 0 \<le> now \<and>
     list_all (\<lambda>m. now < wall_instant z m \<and> wall_instant z m < int (days_before 9999) * us_per_day) (minutes_after z now)"

lemma replace_absent: "c \<notin> set s \<Longrightarrow> replace_char c r s = s"
  by (induction s) (auto simp: replace_char_def)

lemma printed_plain: "CHR ''Z'' \<notin> set (isoformat t)"
proof -
  have letter: "CHR ''Z'' \<noteq> dig n" if "n < 10" for n
  proof
    assume "CHR ''Z'' = dig n"
    then have "code_pt CHR ''Z'' = code_pt (dig n)" by simp
    with that show False by (simp add: code_pt_def [of "CHR ''Z''"])
  qed
  have digits: "CHR ''Z'' \<notin> set (pad2 n)" "CHR ''Z'' \<notin> set (pad4 n)" "CHR ''Z'' \<notin> set (pad6 n)" for n
    by (simp_all add: pad2_def pad4_def pad6_def letter)
  then show ?thesis by (auto simp: isoformat_def iso_date_def iso_time_def Let_def split: prod.split if_splits)
qed

lemma printed_instant:
  assumes "0 \<le> t" "t < int (days_before 9999) * us_per_day"
  shows "parse_instant (PStr (isoformat t)) = Some t"
proof -
  have "isoformat t \<noteq> []" by (simp add: isoformat_def)
  then show ?thesis
    using fromisoformat_isoformat [OF assms]
    by (simp add: parse_instant_def replace_absent [OF printed_plain] instant_def utc_dt_def)
qed

lemma none_due:
  assumes "moves_forward z now" "moment \<le> now"
  shows "due_times (dset ''upcoming_runs_at'' (PList (map PStr (map isoformat (upcoming_instants z c n now)))) sch) moment = Inr []"
proof -
  have "parse_instant (PStr (isoformat (wall_instant z m))) = Some (wall_instant z m) \<and> moment < wall_instant z m"
    if "m \<in> set (scan_minutes SCAN_MINUTES c n (next_wall_minute z now))" for m
  proof -
    have "m \<in> set (minutes_after z now)"
      using that by (auto simp: scan_is_filter minutes_after_def simp del: upt_Suc dest: in_set_takeD)
    with assms have "now < wall_instant z m" "wall_instant z m < int (days_before 9999) * us_per_day" "0 \<le> now"
      by (auto simp: moves_forward_def list_all_iff)
    with printed_instant [of "wall_instant z m"] assms(2) show ?thesis by simp
  qed
  then have "filter (\<lambda>t. t \<le> moment) (List.map_filter parse_instant (map PStr (map isoformat (upcoming_instants z c n now)))) = []"
    by (fastforce simp: List.map_filter_def filter_empty_conv upcoming_instants_def)
  then show ?thesis by (simp add: due_times_def list_or_empty_def bindE_def)
qed

text \<open>The two steps before the run: the agent is checked, the schedule moves on.\<close>

lemma agent_usable_quiet:
  assumes "archive_if_deployment_agent_unusable d w = (Inr u, w')"
  shows "w' = w"
proof -
  obtain agent_id n v where r: "deployment_agent_ref (dget ''agent'' (mr_data d)) = Inr (agent_id, n)"
    using assms by (auto simp: archive_if_deployment_agent_unusable_def bindM_def mon_defs split: sum.splits)
  obtain found v where g: "get_agent agent_id w = (found, v)" by fastforce
  have "v = w" using g by (auto simp: get_agent_def bindM_def mon_defs split: sum.splits prod.splits)
  with assms r g show ?thesis
    by (auto simp: archive_if_deployment_agent_unusable_def bindM_def seqM_def mon_defs
        split: sum.splits option.splits prod.splits if_splits)
qed

lemma rescheduled:
  assumes "reschedule zone_info d w = (Inr d1, w')" "dget ''schedule'' (mr_data d) = PDict sch"
    "truthy (dget ''expression'' sch)" "truthy (dget ''timezone'' sch)" "zone_info (py_str (dget ''timezone'' sch)) = Inr z"
    "find_resource (mr_id d) (w_db w) = Some d" "length (split_ws (py_str (dget ''expression'' sch))) = 5"
  obtains c t where "find_resource (mr_id d) (w_db w') = Some d1" "mr_id d1 = mr_id d"
    "mr_data d1 = dset ''schedule'' (PDict (dset ''upcoming_runs_at''
      (PList (map PStr (map isoformat (upcoming_instants z c 5 (w_clock w (Suc (w_ticks w)))))))
      (dset ''last_run_at'' (PStr (isoformat t)) sch))) (mr_data d)"
proof -
  let ?p = "\<lambda>runs t. resource_patch0\<lparr>rp_data := Some (dset ''schedule'' (PDict (dset ''upcoming_runs_at''
    (PList (map PStr runs)) (dset ''last_run_at'' (PStr (isoformat t)) sch))) (mr_data d))\<rparr>"
  have "dict_or_empty (PDict sch) = Inr sch" using assms(3) by (cases sch) (auto simp: dict_or_empty_def py_dict_def)
  with assms(1-4) obtain runs v t where
    runs: "upcoming_cron_runs zone_info (py_str (dget ''expression'' sch)) (py_str (dget ''timezone'' sch)) 5
        (w\<lparr>w_ticks := Suc (w_ticks w)\<rparr>) = (Inr runs, v)"
    and saved: "save_resource (patch_resource (?p runs t) d) v = (Inr d1, w')"
    by (auto simp: reschedule_def update_resource_def bindM_def mon_defs split: sum.splits prod.splits)
  from runs assms(5,7) obtain c where c: "runs = map isoformat (upcoming_instants z c 5 (w_clock w (Suc (w_ticks w))))"
    "w_db v = w_db w"
    by (auto simp: upcoming_cron_runs_def Let_def bindM_def mon_defs split: sum.splits)
  have [simp]: "mr_id (patch_resource q d) = mr_id d" for q by (simp add: patch_resource_def)
  have data: "mr_data (patch_resource (?p runs t) d) = dset ''schedule'' (PDict (dset ''upcoming_runs_at''
    (PList (map PStr runs)) (dset ''last_run_at'' (PStr (isoformat t)) sch))) (mr_data d)"
    by (simp add: patch_resource_def given_def)
  from saved_there [OF saved] c(2) assms(6) obtain u where d1: "find_resource (mr_id d) (w_db w') = Some d1"
    "d1 = (patch_resource (?p runs t) d)\<lparr>mr_updated_at := u\<rparr>" by auto
  show thesis by (rule that [of c t]) (use d1 data c(1) in simp_all)
qed

lemma due_quiet:
  assumes "mr_data d1 = dset ''schedule'' (PDict (dset ''upcoming_runs_at'' (PList (map PStr (map isoformat
      (upcoming_instants z c 5 now)))) sch)) data" "moves_forward z now" "moment \<le> now"
  shows "scheduled_deployment_due_at d1 moment u = (Inr None, u)"
proof -
  have "por (dget ''schedule'' (mr_data d1)) (PDict []) = PDict (dset ''upcoming_runs_at''
      (PList (map PStr (map isoformat (upcoming_instants z c 5 now)))) sch)"
    unfolding assms(1) by (cases sch) (simp_all add: por_def dset.simps)
  with none_due [OF assms(2,3), of c 5 sch] show ?thesis
    by (simp add: scheduled_deployment_due_at_def bindM_def mon_defs)
qed


lemma utc_forward:
  assumes "0 \<le> now" "now < int (days_before 9997) * us_per_day"
  shows "moves_forward utc_zone now"
proof -
  have year: "int (days_before 9999) * us_per_day = int (days_before 9997) * us_per_day + 730 * us_per_day"
    by (simp add: days_before_def)
  have now: "now - now mod us_per_minute + us_per_minute \<le> now + us_per_minute" "now < now - now mod us_per_minute + us_per_minute"
    using pos_mod_bound [of us_per_minute now] pos_mod_sign [of us_per_minute now] by linarith+
  have minute: "int i * us_per_minute \<le> 527039 * us_per_minute" if "i < SCAN_MINUTES" for i
    using that by (simp add: SCAN_MINUTES_def)
  have "now < wall_instant utc_zone m \<and> wall_instant utc_zone m < int (days_before 9999) * us_per_day"
    if "m \<in> set (minutes_after utc_zone now)" for m
  proof -
    from that obtain i where i: "i < SCAN_MINUTES" "m = now - now mod us_per_minute + us_per_minute + int i * us_per_minute"
      by (auto simp: minutes_after_def next_wall_minute_def utc_zone_def simp del: upt_Suc)
    have "wall_instant utc_zone m = m" by (simp add: wall_instant_def utc_zone_def)
    moreover have "0 \<le> int i * us_per_minute" by simp
    ultimately show ?thesis using minute [OF i(1)] i(2) now year assms(2) by linarith
  qed
  with assms(1) show ?thesis by (simp add: moves_forward_def list_all_iff)
qed

definition daily_schedule :: pdict where
  "daily_schedule = [(''type'', PStr ''cron''), (''expression'', PStr ''0 9 * * *''), (''timezone'', PStr ''UTC''),
     (''upcoming_runs_at'', PList [PStr ''2023-10-21T09:00:00+00:00''])]"

definition daily :: resource_row where
  "daily = plain_file\<lparr>mr_id := ''depl_1'', mr_resource_type := ''deployment'', mr_storage_backend := None, mr_data :=
     [(''agent'', PDict [(''id'', PStr ''agt_1'')]), (''environment_id'', PStr ''env_1''),
      (''schedule'', PDict daily_schedule)]\<rparr>"

definition daily_agent :: agent_row where
  "daily_agent = \<lparr>ag_id = ''agt_1'', ag_workspace_id = ''wrkspc_default'', ag_name = ''a'', ag_description = None,
     ag_active_version = 1, ag_metadata = [], ag_archived_at = None, ag_created_at = 0, ag_updated_at = 0\<rparr>"

definition daily_world :: world where
  "daily_world = world0\<lparr>w_db := db0\<lparr>db_agents := [daily_agent], db_resources := [daily]\<rparr>\<rparr>"

lemma daily_cron: "is_ok (cron_fields (split_ws ''0 9 * * *''))" "length (split_ws ''0 9 * * *'') = 5"
  by code_simp+

lemma daily_ws: "ws_of v daily_world = (case v of None \<Rightarrow> ''wrkspc_default'' | Some x \<Rightarrow> if x \<noteq> [] then x else ''wrkspc_default'')"
  by (simp add: ws_of_def workspace_id_or_default_def daily_world_def world0_def mon_defs DEFAULT_WORKSPACE_ID_def split: option.split)

lemma daily_reschedule:
  obtains d1 where "reschedule (\<lambda>_. Inr utc_zone) daily daily_world = (Inr d1, daily_world\<lparr>w_ticks := 3,
      w_db := w_db daily_world\<lparr>db_resources := [d1]\<rparr>\<rparr>)"
    "mr_id d1 = ''depl_1''" "dget ''agent'' (mr_data d1) = PDict [(''id'', PStr ''agt_1'')]"
    "dget ''environment_id'' (mr_data d1) = PStr ''env_1''"
proof -
  obtain c where c: "cron_fields (split_ws ''0 9 * * *'') = Inr c" using daily_cron(1) by (auto simp: is_ok_def split: sum.splits)
  have "\<exists>d1. reschedule (\<lambda>_. Inr utc_zone) daily daily_world = (Inr d1, daily_world\<lparr>w_ticks := 3,
      w_db := w_db daily_world\<lparr>db_resources := [d1]\<rparr>\<rparr>) \<and> mr_id d1 = ''depl_1'' \<and>
    dget ''agent'' (mr_data d1) = PDict [(''id'', PStr ''agt_1'')] \<and>
    dget ''environment_id'' (mr_data d1) = PStr ''env_1''"
    using c daily_cron(2)
    by (simp add: reschedule_def daily_def daily_schedule_def plain_file_def dict_or_empty_def py_dict_def bindM_def seqM_def
        mon_defs upcoming_cron_runs_def Let_def update_resource_def save_resource_def patch_resource_def given_def
        resource_patch0_def given_opt_def daily_world_def find_resource_def find_by_def put_resource_def replace_by_def world0_def)
  then show thesis using that by blast
qed

lemma daily_run:
  "\<exists>run w'. run_deployment_resource (\<lambda>_. Inr utc_zone) daily
     [(''trigger'', PStr ''schedule''), (''scheduled_for'', PStr ''2023-10-21T09:00:00+00:00'')] daily_world = (Inr run, w')"
proof -
  obtain d1 where d1: "reschedule (\<lambda>_. Inr utc_zone) daily daily_world = (Inr d1, daily_world\<lparr>w_ticks := 3,
      w_db := w_db daily_world\<lparr>db_resources := [d1]\<rparr>\<rparr>)"
    "mr_id d1 = ''depl_1''" "dget ''agent'' (mr_data d1) = PDict [(''id'', PStr ''agt_1'')]"
    "dget ''environment_id'' (mr_data d1) = PStr ''env_1''" by (rule daily_reschedule)
  have usable: "archive_if_deployment_agent_unusable daily daily_world = (Inr (), daily_world)"
    by (simp add: archive_if_deployment_agent_unusable_def daily_def plain_file_def deployment_agent_ref_def bindM_def mon_defs
        get_agent_def daily_ws scalar_one_or_none_def bindE_def raise_if_def por_def)
      (simp add: daily_world_def daily_agent_def)
  let ?input = "[(''trigger'', PStr ''schedule''), (''scheduled_for'', PStr ''2023-10-21T09:00:00+00:00'')]"
  let ?w1 = "daily_world\<lparr>w_ticks := 3, w_db := w_db daily_world\<lparr>db_resources := [d1]\<rparr>\<rparr>"
  let ?args = "resource_args0\<lparr>ra_parent_id := Some (mr_id d1), ra_status := ''queued'',
      ra_data := run_record d1 1 (PStr ''schedule'') [(''type'', PStr ''schedule''), (''scheduled_at'', PStr ''2023-10-21T09:00:00+00:00'')]
        (PStr ''2023-10-21T09:00:00+00:00'')\<rparr>"
  have "\<exists>r w2. create_resource ''deployment_run'' ?args ?w1 = (Inr r, w2)"
    using d1(2)
    by (simp add: create_resource_def insert_resource_def bindM_def seqM_def mon_defs Let_def find_resource_def find_by_def
        version_taken_def resource_args0_def add_resource_def daily_world_def world0_def resource_prefix_def PREFIXES_def)
  then obtain r w2 where created: "create_resource ''deployment_run'' ?args ?w1 = (Inr r, w2)" by blast
  from create_resource_run(2) [OF created] create_resource_new(7) [OF created]
  have new: "w_db w2 = (w_db ?w1)\<lparr>db_resources := [d1, r]\<rparr>" "w_workspace w2 = None" by (simp_all add: daily_world_def world0_def)
  have [simp]: "ws_of v w2 = ws_of v daily_world" for v
    using new(2) by (simp add: ws_of_def workspace_id_or_default_def daily_world_def world0_def mon_defs split: option.split)
  have [simp]: "db_agents (w_db w2) = [daily_agent]" "db_versions (w_db w2) = []"
    using new(1) by (simp_all add: daily_world_def db0_def)
  have failed: "try_run_session d1 r ?input w2 = (Inr (Inl (''agent_version_not_found_error'',
      ''agent '' @ ticked ''agt_1'' @ '' version '' @ ticked (int_str 1) @ '' was not found'')), w2)"
    using d1(3,4)
    by (simp add: try_run_session_def catchM_def maybe_create_deployment_session_def por_def deployment_session_def Let_def
        deployment_agent_ref_def bindE_def raise_if_def run_agent_def bindM_def seqM_def mon_defs get_agent_def
        get_agent_version_def daily_ws scalar_one_or_none_def daily_agent_def)
  obtain run w' where "start_run_session d1 r ?input w2 = (Inr run, w')"
    using failed by (auto simp: start_run_session_def bindM_def run_failed_def update_resource_def dest: meta_spec)
      (metis save_resource_ok)
  with d1 usable created show ?thesis
    by (simp add: run_deployment_resource_def ensure_deployment_mutable_def trigger_of_def por_def deployment_paused_def
        seqM_def bindM_def mon_defs Let_def daily_def plain_file_def trigger_context_def json_context_def)
qed


section \<open>An agent that is gone\<close>

lemma archive_run:
  assumes "distinct (map mr_id (db_resources (w_db w)))" "d \<in> set (db_resources (w_db w))" "mr_archived_at d = None"
  obtains d' u where "archive_resource d w = (Inr d', u)" "mr_archived_at d' \<noteq> None"
    "w_db u = w_db w\<lparr>db_resources := replace_by mr_id d' (db_resources (w_db w))\<rparr>" "w_workspace u = w_workspace w"
    "mr_id d' = mr_id d" "mr_resource_type d' = mr_resource_type d" "mr_workspace_id d' = mr_workspace_id d"
    "mr_deleted_at d' = mr_deleted_at d" "mr_parent_id d' = mr_parent_id d"
proof -
  let ?d = "d\<lparr>mr_archived_at := Some (w_clock w (w_ticks w)), mr_status := ''archived''\<rparr>"
  let ?d' = "?d\<lparr>mr_updated_at := w_clock w (Suc (w_ticks w))\<rparr>"
  have "?d \<noteq> d"
  proof
    assume "?d = d"
    then have "mr_archived_at ?d = mr_archived_at d" by (rule arg_cong)
    with assms(3) show False by simp
  qed
  then have "archive_resource d w = (Inr ?d', w\<lparr>w_ticks := Suc (Suc (w_ticks w)), w_db := put_resource ?d' (w_db w)\<rparr>)"
    using find_by_unique [OF assms(1,2)]
    by (simp add: archive_resource_def save_resource_def bindM_def seqM_def mon_defs find_resource_def Let_def)
  then show thesis by (rule that) (simp_all add: put_resource_def)
qed




end
