(* ===== verification/FileFacts.thy ===== *)
theory FileFacts
  imports Files DeploymentFacts
begin

text \<open>
  Uploaded contents survive: along any sequence of requests on files the object of every file that is not deleted is in the
  store and has the file's hash. \<open>hoare I P m Q\<close> says that the program \<open>m\<close>, started with the invariant \<open>I\<close> and \<open>P\<close>, keeps
  \<open>I\<close> however it ends and ends with \<open>Q\<close> of its result when it returns one.
\<close>

section \<open>The logic\<close>

definition hoare :: "(world \<Rightarrow> bool) \<Rightarrow> (world \<Rightarrow> bool) \<Rightarrow> 'a M \<Rightarrow> ('a \<Rightarrow> world \<Rightarrow> bool) \<Rightarrow> bool" where
  "hoare I P m Q \<longleftrightarrow> (\<forall>w r w'. m w = (r, w') \<longrightarrow> I w \<longrightarrow> P w \<longrightarrow> I w' \<and> (\<forall>x. r = Inr x \<longrightarrow> Q x w'))"

lemma hoareI:
  "(\<And>w r w'. m w = (r, w') \<Longrightarrow> I w \<Longrightarrow> P w \<Longrightarrow> I w' \<and> (\<forall>x. r = Inr x \<longrightarrow> Q x w')) \<Longrightarrow> hoare I P m Q"
  by (simp add: hoare_def)

lemma hoareD: "hoare I P m Q \<Longrightarrow> m w = (r, w') \<Longrightarrow> I w \<Longrightarrow> P w \<Longrightarrow> I w' \<and> (\<forall>x. r = Inr x \<longrightarrow> Q x w')"
  by (simp add: hoare_def)

lemma hoare_weaken: "hoare I P' m Q' \<Longrightarrow> (\<And>w. P w \<Longrightarrow> P' w) \<Longrightarrow> (\<And>x w. Q' x w \<Longrightarrow> Q x w) \<Longrightarrow> hoare I P m Q"
  unfolding hoare_def by blast

lemma hoare_bind:
  assumes "hoare I P m R" "\<And>x. hoare I (R x) (f x) Q"
  shows "hoare I P (bindM m f) Q"
proof (rule hoareI)
  fix w r w'
  assume run: "bindM m f w = (r, w')" and w: "I w" "P w"
  obtain q v where m: "m w = (q, v)" by fastforce
  from hoareD [OF assms(1) m w] run m show "I w' \<and> (\<forall>x. r = Inr x \<longrightarrow> Q x w')"
    by (cases q) (auto dest: hoareD [OF assms(2)])
qed

lemma hoare_seq: "hoare I P m (\<lambda>_. R) \<Longrightarrow> hoare I R n Q \<Longrightarrow> hoare I P (seqM m n) Q"
  unfolding seqM_def by (rule hoare_bind)

lemma hoare_guard: "(\<not> c \<Longrightarrow> hoare I P m Q) \<Longrightarrow> hoare I P (seqM (guardM c e) m) Q"
  by (cases c) (auto simp: hoare_def seqM_def bindM_def mon_defs)

lemma hoare_pure: "(\<And>w. P w \<Longrightarrow> Q x w) \<Longrightarrow> hoare I P (returnM x) Q" "hoare I P (raiseM e) Q"
  by (auto simp: hoare_def)

lemma hoare_cases:
  "(c \<Longrightarrow> hoare I P m Q) \<Longrightarrow> (\<not> c \<Longrightarrow> hoare I P n Q) \<Longrightarrow> hoare I P (if c then m else n) Q"
  "(v = None \<Longrightarrow> hoare I P m Q) \<Longrightarrow> (\<And>x. v = Some x \<Longrightarrow> hoare I P (f x) Q) \<Longrightarrow>
    hoare I P (case v of None \<Rightarrow> m | Some x \<Rightarrow> f x) Q"
  "(\<And>x y. p = (x, y) \<Longrightarrow> hoare I P (h x y) Q) \<Longrightarrow> hoare I P (case p of (x, y) \<Rightarrow> h x y) Q"
  by (auto split: option.split prod.split)

lemma hoare_fact: "(c \<Longrightarrow> hoare I P m Q) \<Longrightarrow> hoare I (\<lambda>w. c \<and> P w) m Q"
  unfolding hoare_def by blast

text \<open>Programs that leave tables, objects and workspace as they are keep every assertion about these.\<close>

definition still :: "world \<Rightarrow> world \<Rightarrow> bool" where
  "still u v \<longleftrightarrow> w_db v = w_db u \<and> w_committed v = w_committed u \<and> w_objects v = w_objects u \<and>
     w_workspace v = w_workspace u \<and> w_settings v = w_settings u"

interpretation still: world_order still
  by unfold_locales (auto simp: still_def)

definition steady :: "(world \<Rightarrow> bool) \<Rightarrow> bool" where
  "steady P \<longleftrightarrow> (\<forall>u v. still u v \<longrightarrow> P u \<longrightarrow> P v)"

lemma still_ws: "still u v \<Longrightarrow> ws_of x v = ws_of x u"
  by (simp add: still_def ws_of_def workspace_id_or_default_def mon_defs split: option.split)

lemma hoare_still: "keeps still m \<Longrightarrow> steady I \<Longrightarrow> steady P \<Longrightarrow> hoare I P m (\<lambda>_. P)"
  by (auto simp: hoare_def steady_def dest: keepsD)

named_theorems stilling \<open>programs that leave tables, objects and workspace alone\<close>

lemma still_basic [stilling]:
  "keeps still nowM" "keeps still (new_id p)" "keeps still (workspace_id_or_default ws)" "keeps still get_settings"
  "keeps still (getsM g)" "keeps still (returnM x)" "keeps still (raiseM e)" "keeps still (liftE v)"
  "keeps still (guardM c e)" "keeps still (dbM f)"
  by (auto intro!: keepsI simp: still_def mon_defs get_settings_def workspace_id_or_default_def split: if_splits)

lemma still_storage [stilling]:
  "keeps still require_object_storage" "keeps still should_store_in_object_storage"
  "keeps still object_storage_backend_label" "keeps still (object_key n c f h ws)" "keeps still (public_url_for_key k)"
  "keeps still (get_object k)" "keeps still (get_file_info k)" "keeps still (download_file_with_type k)"
  unfolding require_object_storage_def object_storage_settings_def object_key_def public_url_for_key_def get_object_def
    should_store_in_object_storage_def object_storage_backend_label_def get_file_info_def download_file_with_type_def
  by (intro still.control stilling)+

lemma still_catch: "keeps still m \<Longrightarrow> keeps still (storage_error_500 m)"
  unfolding storage_error_500_def by (rule still.catch_keeps) (auto intro: stilling split: exc.split)

lemma still_files [stilling]:
  "keeps still storage_or_503" "keeps still (validate_staged_upload_key k)" "keeps still (scan_upload_content s l)"
  "keeps still (enforce_size_limit n m l)" "keeps still (find_deduplicated_file h)" "keeps still (file_or_404 i)"
proof -
  have "keeps still (get_resource_by_sha256 ty h d ws)" "keeps still (get_resource i ty' p d ws)" for ty ty' h d ws p i
    unfolding get_resource_by_sha256_def get_resource_def by (intro still.control stilling)+
  note gets = this
  show "keeps still storage_or_503" unfolding storage_or_503_def by (intro still_catch still.control stilling)
  show "keeps still (scan_upload_content s l)"
    unfolding scan_upload_content_def by (rule still.catch_keeps) (auto intro: stilling split: exc.split)
  show "keeps still (validate_staged_upload_key k)" "keeps still (enforce_size_limit n m l)"
    "keeps still (find_deduplicated_file h)" "keeps still (file_or_404 i)"
    unfolding validate_staged_upload_key_def enforce_size_limit_def find_deduplicated_file_def file_or_404_def
    by (intro still.control stilling gets)+
qed

section \<open>Objects of files\<close>

text \<open>
  The object of a file of workspace \<open>ws\<close> with hash \<open>h\<close> has a key with the workspace, the category and 16 digits of the hash.
  \<open>C\<close> are the contents that are ever uploaded.
\<close>

definition safe_workspace :: "string \<Rightarrow> bool" where
  "safe_workspace ws \<longleftrightarrow> safe_path_part ws = ws \<and> ws \<noteq> ''staged-uploads''"

definition key_shape :: "string \<Rightarrow> string \<Rightarrow> string \<Rightarrow> bool" where
  "key_shape ws k h \<longleftrightarrow> safe_workspace ws \<and> 16 \<le> length h \<and> (\<exists>date name. length date < 14 \<and>
     split_on CHR ''/'' k = [''workspaces'', ws, ''oma'', ''files'', date, take 16 h @ ''_'' @ name])"

definition object_for :: "string set \<Rightarrow> (string \<times> stored_object) list \<Rightarrow> string \<Rightarrow> string \<Rightarrow> string \<Rightarrow> bool" where
  "object_for C objs ws k h \<longleftrightarrow> key_shape ws k h \<and>
     (\<exists>ob. map_of objs k = Some ob \<and> ob_body ob \<in> C \<and> sha256_hex (ob_body ob) = h)"

lemma key_shape_agree: "key_shape ws k h \<Longrightarrow> key_shape ws' k h' \<Longrightarrow> ws' = ws \<and> take 16 h' = take 16 h"
  by (auto simp: key_shape_def)

lemma split_on_join: "split_on c (a @ c # b) = split_on c a @ split_on c b"
  by (induction a) (auto split: list.split)

lemma str_contains_parts: "str_contains p s \<Longrightarrow> \<exists>a b. s = a @ p @ b"
proof (induction s)
  case (Cons c s)
  show ?case
  proof (cases "startswith p (c # s)")
    case True
    then have "c # s = [] @ p @ drop (length p) (c # s)"
      by (metis append_eq_conv_conj append_self_conv2 startswith_def)
    then show ?thesis by blast
  next
    case False
    with Cons obtain a b where "s = a @ p @ b" by auto
    then have "c # s = (c # a) @ p @ b" by simp
    then show ?thesis by blast
  qed
qed simp

lemma staged_not_permanent: "key_shape ws k h \<Longrightarrow> \<not> str_contains ''/staged-uploads/'' k"
proof
  assume k: "key_shape ws k h" and "str_contains ''/staged-uploads/'' k"
  from this(2) obtain a b where "k = a @ ''/staged-uploads/'' @ b" using str_contains_parts by blast
  then have "k = a @ CHR ''/'' # ''staged-uploads'' @ CHR ''/'' # b" by simp
  then have "''staged-uploads'' \<in> set (split_on CHR ''/'' k)"
    by (simp only: split_on_join) (simp add: split_on_fresh)
  moreover from k obtain date name where "safe_workspace ws" "16 \<le> length h" "length date < 14"
    and segments: "split_on CHR ''/'' k = [''workspaces'', ws, ''oma'', ''files'', date, take 16 h @ ''_'' @ name]"
    unfolding key_shape_def by blast
  then have "length (take 16 h @ ''_'' @ name) \<noteq> length ''staged-uploads''" "length date \<noteq> length ''staged-uploads''" by simp_all
  then have "take 16 h @ ''_'' @ name \<noteq> ''staged-uploads''" "date \<noteq> ''staged-uploads''" by metis+
  ultimately show False using \<open>safe_workspace ws\<close> unfolding segments safe_workspace_def by simp
qed

lemma object_for_put:
  assumes "object_for C objs ws k h" "inj_on (\<lambda>c. take 16 (sha256_hex c)) C"
    "key_shape ws' k' (sha256_hex (ob_body ob))" "ob_body ob \<in> C"
  shows "object_for C (dset k' ob objs) ws k h"
proof (cases "k' = k")
  case True
  from assms(1) obtain old :: stored_object where old: "ob_body old \<in> C" "sha256_hex (ob_body old) = h" and k: "key_shape ws k h"
    unfolding object_for_def by blast
  from key_shape_agree [OF k assms(3) [unfolded True]] old(2)
  have "take 16 (sha256_hex (ob_body ob)) = take 16 (sha256_hex (ob_body old))" by simp
  with assms(2,4) old(1) have "ob_body ob = ob_body old" by (auto dest: inj_onD)
  with True k old(2) assms(4) show ?thesis by (simp add: object_for_def)
next
  case False
  with assms(1) show ?thesis by (auto simp: object_for_def)
qed

lemma object_for_pop: "object_for C objs ws k h \<Longrightarrow> k' \<noteq> k \<Longrightarrow> object_for C (dpop k' objs) ws k h"
  by (auto simp: object_for_def)

lemma object_for_staged:
  "object_for C objs ws k h \<Longrightarrow> str_contains ''/staged-uploads/'' k' \<Longrightarrow> object_for C (dpop k' objs) ws k h"
  by (rule object_for_pop) (auto simp: object_for_def dest: staged_not_permanent)

lemma object_key_shape:
  assumes "object_key ''oma'' ''files'' name (Some h) None w = (Inr key, w')" "safe_workspace (ws_of None w)"
    "16 \<le> length h" "CHR ''/'' \<notin> set h"
  shows "key_shape (ws_of None w) key h"
proof -
  let ?ws = "ws_of None w"
  define date where "date = take 10 (isoformat (w_clock w (w_ticks w)))"
  have "safe_path_part ''oma'' = ''oma''" "safe_path_part ''files'' = ''files''" by code_simp+
  with assms(1,3) have key: "key = ''workspaces'' @ ''/'' @ safe_path_part ?ws @ ''/'' @ ''oma'' @ ''/'' @ ''files'' @ ''/''
      @ date @ ''/'' @ take 16 h @ ''_'' @ safe_filename name"
    by (auto simp: object_key_def bindM_def mon_defs date_def split: if_splits)
  have ws: "safe_path_part ?ws = ?ws" using assms(2) by (simp add: safe_workspace_def)
  then have "CHR ''/'' \<notin> set ?ws" using no_slash(1) [of ?ws] by simp
  moreover have "CHR ''/'' \<notin> set date" by (simp add: date_def iso_date_take iso_date_no_slash)
  moreover have "CHR ''/'' \<notin> set (take 16 h @ ''_'' @ safe_filename name)"
    using assms(4) no_slash(2) by (auto dest: in_set_takeD)
  ultimately have "split_on CHR ''/'' key = [''workspaces'', ?ws, ''oma'', ''files'', date, take 16 h @ ''_'' @ safe_filename name]"
    unfolding key ws by (simp only: append_assoc append_Cons append_Nil) (simp add: split_on_append split_on_fresh)
  with assms(2,3) show ?thesis by (auto simp: key_shape_def date_def)
qed

lemma hex_dig_no_slash: "hex_dig n \<noteq> CHR ''/''"
proof -
  have "hex_dig n \<in> set ''0123456789abcdef''" unfolding hex_dig_def by (rule nth_mem) simp
  then show ?thesis by auto
qed

lemma sha256_plain: "CHR ''/'' \<notin> set (sha256_hex s)" "16 \<le> length (sha256_hex s)"
  by (auto simp: sha256_length) (auto simp: sha256_hex_def Let_def hex_word_def hex_dig_no_slash [symmetric])

section \<open>The invariant\<close>

definition file_sound :: "string set \<Rightarrow> (string \<times> stored_object) list \<Rightarrow> resource_row \<Rightarrow> bool" where
  "file_sound C objs r \<longleftrightarrow> (mr_resource_type r = ''file'' \<and> mr_deleted_at r = None \<longrightarrow>
     mr_storage_backend r = Some ''s3'' \<and>
     (\<exists>k h. mr_storage_key r = Some k \<and> mr_sha256 r = Some h \<and> object_for C objs (mr_workspace_id r) k h))"

definition sound :: "string set \<Rightarrow> database \<Rightarrow> (string \<times> stored_object) list \<Rightarrow> bool" where
  "sound C d objs \<longleftrightarrow> distinct (map mr_id (db_resources d)) \<and> (\<forall>r \<in> set (db_resources d). file_sound C objs r)"

definition stores_files :: "string set \<Rightarrow> world \<Rightarrow> bool" where
  "stores_files C w \<longleftrightarrow> safe_workspace (ws_of None w) \<and> inj_on (\<lambda>c. take 16 (sha256_hex c)) C \<and>
     sound C (w_committed w) (w_objects w) \<and> sound C (w_db w) (w_objects w)"

text \<open>What a new row needs: an object for its hash.\<close>

definition placed :: "string set \<Rightarrow> string \<Rightarrow> string option \<Rightarrow> string option \<Rightarrow> world \<Rightarrow> bool" where
  "placed C h b k w \<longleftrightarrow> b = Some ''s3'' \<and> (\<exists>k'. k = Some k' \<and> object_for C (w_objects w) (ws_of None w) k' h)"

lemma steady_files: "steady (stores_files C)" "steady (placed C h b k)"
  by (auto simp: steady_def stores_files_def placed_def still_ws) (auto simp: still_def)

lemma steady_rules:
  "steady (\<lambda>_. True)" "steady P \<Longrightarrow> steady Q \<Longrightarrow> steady (\<lambda>w. P w \<and> Q w)" "(c \<Longrightarrow> steady P) \<Longrightarrow> steady (\<lambda>w. c \<longrightarrow> P w)"
  "(\<And>x. steady (R x)) \<Longrightarrow> steady (\<lambda>w. \<forall>x. R x w)"
  unfolding steady_def by blast+

lemma sound_put:
  assumes "sound C d objs" "inj_on (\<lambda>c. take 16 (sha256_hex c)) C" "key_shape ws k (sha256_hex (ob_body ob))" "ob_body ob \<in> C"
  shows "sound C d (dset k ob objs)"
  using assms(1) object_for_put [OF _ assms(2-4)] unfolding sound_def file_sound_def by blast

lemma sound_staged: "sound C d objs \<Longrightarrow> str_contains ''/staged-uploads/'' k \<Longrightarrow> sound C d (dpop k objs)"
  using object_for_staged unfolding sound_def file_sound_def by blast

lemma hoare_value:
  assumes "keeps still m" "steady I" "steady P" "\<And>w x w'. m w = (Inr x, w') \<Longrightarrow> still w w' \<Longrightarrow> I w \<Longrightarrow> P w \<Longrightarrow> Q x w'"
  shows "hoare I P m (\<lambda>x w. Q x w \<and> P w)"
proof (rule hoareI)
  fix w r w'
  assume m: "m w = (r, w')" and w: "I w" "P w"
  from keepsD [OF assms(1) m] have s: "still w w'" .
  with w assms(2,3) have "I w'" "P w'" unfolding steady_def by blast+
  with assms(4) [OF _ s w] m show "I w' \<and> (\<forall>x. r = Inr x \<longrightarrow> Q x w' \<and> P w')" by simp
qed

lemma config_backend: "steady I \<Longrightarrow> steady P \<Longrightarrow> hoare I P require_object_storage (\<lambda>c w. os_backend c = ''s3'' \<and> P w)"
  by (rule hoare_value [OF still_storage(1)])
    (auto simp: require_object_storage_def object_storage_settings_def get_settings_def bindM_def mon_defs split: if_splits)

lemma key_made:
  "hoare (stores_files C) (\<lambda>_. True) (object_key ''oma'' ''files'' name (Some (sha256_hex c)) None)
    (\<lambda>k w. key_shape (ws_of None w) k (sha256_hex c))"
  by (rule hoare_weaken [OF hoare_value [OF still_storage(4) steady_files(1) steady_rules(1),
        where Q = "\<lambda>k w. key_shape (ws_of None w) k (sha256_hex c)"]])
    (use object_key_shape sha256_plain in \<open>auto simp: stores_files_def still_ws\<close>)

lemma put_sound:
  "c \<in> C \<Longrightarrow> ob_body ob = c \<Longrightarrow> hoare (stores_files C) (\<lambda>w. key_shape (ws_of None w) k (sha256_hex c)) (put_object k ob)
    (\<lambda>_ w. object_for C (w_objects w) (ws_of None w) k (sha256_hex c))"
  by (rule hoareI) (auto simp: put_object_def stores_files_def object_for_def ws_of_def workspace_id_or_default_def mon_defs
      intro: sound_put)

lemma save_sound:
  assumes "data \<in> C"
  shows "hoare (stores_files C) (\<lambda>_. True) (save_file_bytes sha256_hex g data m ''oma'' name ''files'' None)
    (\<lambda>s w. placed C (sha256_hex data) (Some (sf_backend s)) (Some (sf_key s)) w \<and> sf_sha256 s = sha256_hex data)"
  unfolding save_file_bytes_def Let_def
proof (rule hoare_bind [OF config_backend [OF steady_files(1) steady_rules(1)]], rule hoare_fact, rule hoare_bind [OF key_made],
    rule hoare_seq [OF put_sound])
  fix c :: storage_config and k
  assume c: "os_backend c = ''s3''"
  let ?done = "\<lambda>w. object_for C (w_objects w) (ws_of None w) k (sha256_hex data)"
  have "steady ?done" by (auto simp: steady_def still_ws) (simp add: still_def)
  from hoare_still [OF still_storage(5) steady_files(1) this]
  show "hoare (stores_files C) ?done (bindM (public_url_for_key k) (\<lambda>url. returnM \<lparr>sf_backend = os_backend c, sf_key = k,
      sf_url = url, sf_content_type = t, sf_size_bytes = n, sf_sha256 = sha256_hex data\<rparr>))
    (\<lambda>s w. placed C (sha256_hex data) (Some (sf_backend s)) (Some (sf_key s)) w \<and> sf_sha256 s = sha256_hex data)" for t n
    by (rule hoare_bind) (auto intro!: hoare_pure simp: c placed_def)
qed (use assms in simp_all)

definition shared_with :: "string set \<Rightarrow> string \<Rightarrow> resource_row option \<Rightarrow> world \<Rightarrow> bool" where
  "shared_with C h found w \<longleftrightarrow>
     (\<forall>f. found = Some f \<longrightarrow> mr_sha256 f = Some h \<and> placed C h (mr_storage_backend f) (mr_storage_key f) w)"

lemma deduplicated:
  assumes "steady P"
  shows "hoare (stores_files C) P (find_deduplicated_file h) (\<lambda>x w. shared_with C h x w \<and> P w)"
proof (rule hoare_value [OF still_files(5) steady_files(1) assms])
  fix w x w'
  assume run: "find_deduplicated_file h w = (Inr x, w')" and s: "still w w'" and I: "stores_files C w"
  show "shared_with C h x w'"
    unfolding shared_with_def
  proof (intro allI impI)
    fix f assume "x = Some f"
    with run have "get_resource_by_sha256 ''file'' h False None w = (Inr (Some f), w')"
      by (auto simp: find_deduplicated_file_def mon_simps split: if_splits option.splits)
    then obtain rest where "sort_key mr_created_at (filter (\<lambda>r. mr_resource_type r = ''file'' \<and> mr_sha256 r = Some h \<and>
        mr_workspace_id r = ws_of None w \<and> (False \<or> mr_deleted_at r = None)) (db_resources (w_db w))) = f # rest"
      by (auto simp: get_resource_by_sha256_def bindM_def mon_defs split: list.splits)
    then have "f \<in> set (sort_key mr_created_at (filter (\<lambda>r. mr_resource_type r = ''file'' \<and> mr_sha256 r = Some h \<and>
        mr_workspace_id r = ws_of None w \<and> (False \<or> mr_deleted_at r = None)) (db_resources (w_db w))))" by simp
    then have "f \<in> set (db_resources (w_db w))" "mr_resource_type f = ''file''" "mr_sha256 f = Some h"
      "mr_workspace_id f = ws_of None w" "mr_deleted_at f = None" by simp_all
    with I have "mr_sha256 f = Some h \<and> placed C h (mr_storage_backend f) (mr_storage_key f) w"
      by (auto simp: stores_files_def sound_def file_sound_def placed_def)
    with s show "mr_sha256 f = Some h \<and> placed C h (mr_storage_backend f) (mr_storage_key f) w'"
      using steady_files(2) unfolding steady_def by blast
  qed
qed

lemma row_made:
  "hoare (stores_files C) (\<lambda>w. placed C h (pf_backend p) (pf_key p) w \<and> pf_sha256 p = Some h) (create_file_row name t p)
    (\<lambda>q w. q \<in> set (db_resources (w_db w)) \<and> mr_sha256 q = Some h)"
proof (rule hoareI)
  fix w r w'
  assume run: "create_file_row name t p w = (r, w')" and I: "stores_files C w"
    and p: "placed C h (pf_backend p) (pf_key p) w \<and> pf_sha256 p = Some h"
  let ?a = "resource_args0\<lparr>ra_name := name, ra_filename := name, ra_content_type := Some t, ra_data := pf_data p,
     ra_storage_backend := pf_backend p, ra_storage_key := pf_key p, ra_storage_url := pf_url p,
     ra_size_bytes := pf_size_bytes p, ra_sha256 := pf_sha256 p\<rparr>"
  from run have run: "create_resource ''file'' ?a w = (r, w')" by (simp add: create_file_row_def)
  show "stores_files C w' \<and> (\<forall>q. r = Inr q \<longrightarrow> q \<in> set (db_resources (w_db w')) \<and> mr_sha256 q = Some h)"
  proof (cases r)
    case (Inl e)
    then have "still w w'" using run
      by (auto simp: create_resource_def bindM_def seqM_def mon_defs insert_resource_def Let_def still_def split: if_splits)
    with I Inl show ?thesis using steady_files(1) unfolding steady_def by blast
  next
    case (Inr q)
    note made = create_resource_run [OF run [unfolded Inr]] create_resource_new [OF run [unfolded Inr]]
    have ws: "ws_of None w' = ws_of None w"
      using made(18) by (simp add: ws_of_def workspace_id_or_default_def mon_defs)
    have "file_sound C (w_objects w) q"
      using p made by (auto simp: file_sound_def placed_def resource_args0_def)
    then have "sound C (w_db w') (w_objects w')"
      using I made by (auto simp: stores_files_def sound_def)
    with I made ws p Inr show ?thesis by (simp add: stores_files_def resource_args0_def)
  qed
qed

lemma hoare_storage: "hoare I P m Q \<Longrightarrow> hoare I P (storage_error_500 m) Q"
  unfolding storage_error_500_def catchM_def hoare_def
  by (auto split: prod.splits sum.splits exc.splits simp: mon_defs)

lemma committed_sound: "hoare (stores_files C) P (seqM commitM (returnM x)) (\<lambda>_ _. True)"
  by (rule hoareI) (auto simp: seqM_def bindM_def mon_defs stores_files_def ws_of_def workspace_id_or_default_def)

lemma committed_row:
  "hoare (stores_files C) (\<lambda>w. q \<in> set (db_resources (w_db w)) \<and> mr_sha256 q = Some h)
    (seqM commitM (returnM (resource_to_response q t)))
    (\<lambda>y w. \<exists>q \<in> set (db_resources (w_committed w)). y = resource_to_response q t \<and> mr_sha256 q = Some h)"
  by (rule hoareI) (auto simp: seqM_def bindM_def mon_defs stores_files_def ws_of_def workspace_id_or_default_def)

lemma upload_sound:
  assumes "up_content u \<in> C"
  shows "hoare (stores_files C) (\<lambda>_. True) (upload_file_body g u)
    (\<lambda>y w. \<exists>q \<in> set (db_resources (w_committed w)). y = resource_to_response q (Some ''file'') \<and>
      mr_sha256 q = Some (sha256_hex (up_content u)))"
proof -
  let ?h = "sha256_hex (up_content u)"
  have place: "hoare (stores_files C) (\<lambda>w. shared_with C ?h x w \<and> True) (place_upload g u t ?h x)
    (\<lambda>p w. placed C ?h (pf_backend p) (pf_key p) w \<and> pf_sha256 p = Some ?h)" for t x
    unfolding place_upload_def
  proof (intro hoare_cases)
    assume "x = None"
    show "hoare (stores_files C) (\<lambda>w. shared_with C ?h x w \<and> True) (bindM (storage_error_500 (seqM should_store_in_object_storage
        (save_file_bytes sha256_hex g (up_content u) (Some t) ''oma'' (or_str (up_filename u) ''upload'') ''files'' None)))
        (\<lambda>stored. returnM \<lparr>pf_backend = Some (sf_backend stored), pf_key = Some (sf_key stored), pf_url = Some (sf_url stored),
          pf_size_bytes = Some (sf_size_bytes stored), pf_sha256 = Some (or_str (Some (sf_sha256 stored)) ?h),
          pf_data = file_row_data (up_filename u) t None\<rparr>))
      (\<lambda>p w. placed C ?h (pf_backend p) (pf_key p) w \<and> pf_sha256 p = Some ?h)"
      using sha256_plain(2) [of "up_content u"]
      by (intro hoare_bind [OF hoare_weaken [OF hoare_storage [OF hoare_seq [OF hoare_still save_sound]]]] hoare_pure)
        (auto simp: assms or_str_def intro: stilling steady_files steady_rules)
  qed (use sha256_plain(2) [of "up_content u"] in \<open>auto intro!: hoare_pure simp: shared_with_def or_str_def\<close>)
  show ?thesis
    unfolding upload_file_body_def Let_def
    by (rule hoare_bind [OF hoare_still [OF still_basic(4) steady_files(1) steady_rules(1)]],
        rule hoare_seq [OF hoare_still [OF still_files(4) steady_files(1) steady_rules(1)]],
        rule hoare_seq [OF hoare_still [OF still_files(3) steady_files(1) steady_rules(1)]],
        rule hoare_bind [OF deduplicated [OF steady_rules(1)]], rule hoare_bind [OF place], rule hoare_bind [OF row_made],
        rule committed_row)
qed

text \<open>A staged object that is completed: its contents are among \<open>C\<close>, and are \<open>c\<close> once they are read.\<close>

definition staged_in :: "string set \<Rightarrow> string \<Rightarrow> world \<Rightarrow> bool" where
  "staged_in C k w \<longleftrightarrow> (\<forall>ob. map_of (w_objects w) k = Some ob \<longrightarrow> ob_body ob \<in> C)"

definition staged_is :: "string set \<Rightarrow> string \<Rightarrow> string \<Rightarrow> world \<Rightarrow> bool" where
  "staged_is C k c w \<longleftrightarrow> c \<in> C \<and> (\<forall>ob. map_of (w_objects w) k = Some ob \<longrightarrow> ob_body ob = c)"

lemma steady_staged: "steady (staged_in C k)" "steady (staged_is C k c)"
  by (auto simp: steady_def staged_in_def staged_is_def still_def)

lemma staged_read:
  "hoare (stores_files C) (staged_in C k) (download_file_with_type k) (\<lambda>x. staged_is C k (fst x))"
  by (rule hoare_weaken [OF hoare_value [OF still_storage(8) steady_files(1) steady_staged(1), where Q = "\<lambda>x. staged_is C k (fst x)"]])
    (auto simp: download_file_with_type_def mon_simps get_object_def staged_in_def staged_is_def still_def split: option.splits)

lemma staged_checked:
  "(str_contains ''/staged-uploads/'' k \<Longrightarrow> hoare I P m Q) \<Longrightarrow> hoare I P (seqM (validate_staged_upload_key k) m) Q"
  by (cases "str_contains ''/staged-uploads/'' k")
    (auto simp: hoare_def seqM_def validate_staged_upload_key_def bindM_def mon_defs)

lemma copy_sound:
  "hoare (stores_files C) (\<lambda>w. key_shape (ws_of None w) k' (sha256_hex c) \<and> staged_is C k c w) (copy_file k k' t)
    (\<lambda>_ w. object_for C (w_objects w) (ws_of None w) k' (sha256_hex c))"
proof (rule hoareI)
  fix w r w'
  assume run: "copy_file k k' t w = (r, w')" and I: "stores_files C w"
    and pre: "key_shape (ws_of None w) k' (sha256_hex c) \<and> staged_is C k c w"
  let ?goal = "\<lambda>w. object_for C (w_objects w) (ws_of None w) k' (sha256_hex c)"
  show "stores_files C w' \<and> (\<forall>x. r = Inr x \<longrightarrow> ?goal w')"
  proof (cases "\<exists>ob. ob_body ob = c \<and> put_object k' ob w = (r, w')")
    case True
    with hoareD [OF put_sound [of c C _ k']] I pre show ?thesis unfolding staged_is_def by blast
  next
    case False
    then have "(\<exists>e. r = Inl e) \<and> still w w'" using run pre
      by (auto simp: copy_file_def bindM_def mon_defs get_object_def require_object_storage_def object_storage_settings_def
        get_settings_def staged_is_def still_def split: option.splits if_splits)
    with I steady_files(1) show ?thesis unfolding steady_def by blast
  qed
qed

lemma place_staged_sound:
  "hoare (stores_files C) (\<lambda>w. shared_with C (sha256_hex c) x w \<and> staged_is C k c w)
    (place_staged k name t (sha256_hex c) n x) (\<lambda>p w. placed C (sha256_hex c) (pf_backend p) (pf_key p) w \<and> pf_sha256 p = Some (sha256_hex c))"
  unfolding place_staged_def
proof (intro hoare_cases)
  assume "x = None"
  have key: "hoare (stores_files C) (staged_is C k c) (object_key ''oma'' ''files'' name (Some (sha256_hex c)) None)
    (\<lambda>k' w. key_shape (ws_of None w) k' (sha256_hex c) \<and> staged_is C k c w)"
    by (rule hoare_value [OF still_storage(4) steady_files(1) steady_staged(2)])
      (use object_key_shape sha256_plain in \<open>auto simp: stores_files_def still_ws\<close>)
  have steady: "steady (\<lambda>w. object_for C (w_objects w) (ws_of None w) k' (sha256_hex c))" for k'
    by (auto simp: steady_def still_ws) (simp add: still_def)
  have label: "hoare (stores_files C) P object_storage_backend_label (\<lambda>b w. b = ''s3'' \<and> P w)" if "steady P" for P
    unfolding object_storage_backend_label_def
    by (rule hoare_bind [OF config_backend [OF steady_files(1) that]]) (auto intro: hoare_pure)
  show "hoare (stores_files C) (\<lambda>w. shared_with C (sha256_hex c) x w \<and> staged_is C k c w)
     (bindM (object_key ''oma'' ''files'' name (Some (sha256_hex c)) None) (\<lambda>permanent_key.
        seqM (copy_file k permanent_key (Some t)) (
        bindM (public_url_for_key permanent_key) (\<lambda>url.
        bindM object_storage_backend_label (\<lambda>backend.
        returnM \<lparr>pf_backend = Some backend, pf_key = Some permanent_key, pf_url = Some url, pf_size_bytes = n,
          pf_sha256 = Some (sha256_hex c), pf_data = file_row_data (Some name) t None\<rparr>)))))
    (\<lambda>p w. placed C (sha256_hex c) (pf_backend p) (pf_key p) w \<and> pf_sha256 p = Some (sha256_hex c))"
    by (rule hoare_weaken [where P' = "staged_is C k c"], rule hoare_bind [OF key], rule hoare_seq [OF copy_sound],
        rule hoare_bind [OF hoare_still [OF still_storage(5) steady_files(1) steady]],
        rule hoare_bind [OF label [OF steady]], rule hoare_pure) (auto simp: placed_def)
qed (auto intro!: hoare_pure simp: shared_with_def)

lemma staged_removed:
  "str_contains ''/staged-uploads/'' k \<Longrightarrow> hoare (stores_files C) (\<lambda>w. placed C h b k' w \<and> c) (delete_file k)
     (\<lambda>_ w. placed C h b k' w \<and> c)"
  by (rule hoareI) (auto simp: delete_file_def require_object_storage_def object_storage_settings_def get_settings_def
      bindM_def mon_defs stores_files_def placed_def ws_of_def workspace_id_or_default_def
      intro: sound_staged object_for_staged split: if_splits)

lemma complete_tail:
  assumes "str_contains ''/staged-uploads/'' k" "h = sha256_hex c"
  shows "hoare (stores_files C) (staged_is C k c) (bindM (find_deduplicated_file h) (\<lambda>x.
    bindM (place_staged k name t h n x) (\<lambda>p. seqM (delete_file k) (bindM (create_file_row (Some name) t p) (\<lambda>r.
    seqM commitM (returnM (f r))))))) (\<lambda>_ _. True)"
  unfolding assms(2)
  by (rule hoare_bind [OF deduplicated [OF steady_staged(2)]], rule hoare_bind [OF place_staged_sound],
      rule hoare_seq [OF staged_removed [OF assms(1)]], rule hoare_bind [OF row_made], rule committed_sound)

lemma complete_sound:
  "hoare (stores_files C) (staged_in C (cb_key b)) (complete_file_upload_body b) (\<lambda>_ _. True)"
  unfolding complete_file_upload_body_def Let_def
  by (rule hoare_seq [OF hoare_still [OF still_files(1) steady_files(1) steady_staged(1)]], rule staged_checked,
      rule hoare_bind [OF hoare_still [OF still_storage(7) steady_files(1) steady_staged(1)]], rule hoare_cases(3),
      rule hoare_bind [OF hoare_still [OF still_basic(4) steady_files(1) steady_staged(1)]],
      rule hoare_seq [where R = "staged_in C (cb_key b)"],
      (intro hoare_cases hoare_pure hoare_still stilling steady_files steady_staged; assumption),
      rule hoare_bind [OF staged_read], rule hoare_cases(3), simp only: fst_conv,
      rule hoare_seq [OF hoare_still [OF still_files(3) steady_files(1) steady_staged(2)]],
      rule hoare_guard, rule complete_tail, assumption)
    (auto simp: or_str_def split: option.splits if_splits)

text \<open>A file's object goes with the last row that refers to it, and only then.\<close>

lemma released:
  assumes "release_file_object f w = (q, w')" "ws_of None w = ws"
  shows "(\<exists>e. q = Inl e) \<and> still w w' \<or> q = Inr () \<and> w_db w' = w_db w \<and> w_committed w' = w_committed w \<and>
    w_workspace w' = w_workspace w \<and> (w_objects w' = w_objects w \<or> (\<exists>b k. mr_storage_backend f = Some b \<and>
      mr_storage_key f = Some k \<and> count_by_storage_key ''file'' b k False ws (db_resources (w_db w)) \<le> 1 \<and>
      w_objects w' = dpop k (w_objects w)))"
  using assms
  by (auto simp: release_file_object_def in_object_storage_def is_object_storage_backend_def or_str_def bindM_def mon_defs
      count_resources_by_storage_key_def delete_file_def require_object_storage_def object_storage_settings_def
      get_settings_def still_def split: option.splits if_splits)

lemma rest_sound:
  assumes "sound C d objs" "f \<in> set (db_resources d)" "mr_resource_type f = ''file''" "mr_deleted_at f = None"
    "mr_storage_backend f = Some b" "mr_storage_key f = Some k"
    "count_by_storage_key ''file'' b k False (mr_workspace_id f) (db_resources d) \<le> 1"
    "g \<in> set (db_resources d)" "g \<noteq> f"
  shows "file_sound C (dpop k objs) g"
  unfolding file_sound_def
proof (intro impI)
  assume g: "mr_resource_type g = ''file'' \<and> mr_deleted_at g = None"
  from assms(1,8) g obtain k' h where k': "mr_storage_backend g = Some ''s3''" "mr_storage_key g = Some k'" "mr_sha256 g = Some h"
    "object_for C objs (mr_workspace_id g) k' h" unfolding sound_def file_sound_def by blast
  from assms(1-4) obtain k'' h' where f: "mr_storage_backend f = Some ''s3''" "mr_storage_key f = Some k''"
    "object_for C objs (mr_workspace_id f) k'' h'" unfolding sound_def file_sound_def by blast
  have "k' \<noteq> k"
  proof
    assume "k' = k"
    with k'(4) f assms(6) have "mr_workspace_id g = mr_workspace_id f"
      using key_shape_agree [of "mr_workspace_id f" k h' "mr_workspace_id g" h] unfolding object_for_def by simp
    moreover have "mr_storage_backend f = Some b" "mr_storage_backend g = Some b" using assms(5) f(1) k'(1) by simp_all
    ultimately have "2 \<le> count_by_storage_key ''file'' b k False (mr_workspace_id f) (db_resources d)"
      unfolding count_by_storage_key_def using assms(2-4,6,8,9) g k'(2) \<open>k' = k\<close>
      by (intro two_references [of f _ g]) simp_all
    with assms(7) show False by simp
  qed
  from object_for_pop [OF k'(4) not_sym [OF this]] k'(1-3)
  show "mr_storage_backend g = Some ''s3'' \<and> (\<exists>k' h. mr_storage_key g = Some k' \<and>
      mr_sha256 g = Some h \<and> object_for C (dpop k objs) (mr_workspace_id g) k' h)" by simp
qed

lemma delete_tail:
  "hoare (stores_files C) (\<lambda>w. f \<in> set (db_resources (w_db w)) \<and> mr_resource_type f = ''file'' \<and> mr_deleted_at f = None \<and>
      mr_workspace_id f = ws_of None w)
    (seqM (release_file_object f) (bindM (delete_resource f) (\<lambda>f1. seqM commitM (returnM (ans f1))))) (\<lambda>_ _. True)"
proof (rule hoareI)
  fix w r w'
  assume run: "seqM (release_file_object f) (bindM (delete_resource f) (\<lambda>f1. seqM commitM (returnM (ans f1)))) w = (r, w')"
    and I: "stores_files C w" and f: "f \<in> set (db_resources (w_db w)) \<and> mr_resource_type f = ''file'' \<and>
      mr_deleted_at f = None \<and> mr_workspace_id f = ws_of None w"
  obtain q v where rel: "release_file_object f w = (q, v)" by fastforce
  from released [OF this refl] consider e where "q = Inl e" "still w v"
    | "q = Inr ()" "w_db v = w_db w" "w_workspace v = w_workspace w" "w_objects v = w_objects w \<or>
        (\<exists>b k. mr_storage_backend f = Some b \<and> mr_storage_key f = Some k \<and>
          count_by_storage_key ''file'' b k False (ws_of None w) (db_resources (w_db w)) \<le> 1 \<and>
          w_objects v = dpop k (w_objects w))" by blast
  then have "stores_files C w'"
  proof cases
    case 1
    with run rel have "w' = v" by simp
    with 1 I show ?thesis using steady_files(1) unfolding steady_def by blast
  next
    case 2
    obtain s x where del: "delete_resource f v = (s, x)" by fastforce
    have sound: "sound C (w_db w) (w_objects w)" using I by (simp add: stores_files_def)
    from delete_resource_run [OF _ _ _ del] f 2(2) sound obtain f' where f': "s = Inr f'"
      "db_resources (w_db x) = replace_by mr_id f' (db_resources (w_db w))" "mr_id f' = mr_id f" "mr_deleted_at f' \<noteq> None"
      "w_objects x = w_objects v" by (auto simp: sound_def)
    have x: "w_workspace x = w_workspace v"
      using del by (auto simp: delete_resource_def save_resource_def bindM_def seqM_def mon_defs Let_def split: if_splits)
    have w': "w' = x\<lparr>w_committed := w_db x\<rparr>" using run rel 2(1) del f'(1) by (simp add: seqM_def bindM_def mon_defs)
    have "file_sound C (w_objects x) g" if g: "g \<in> set (db_resources (w_db x))" for g
    proof (cases "g = f'")
      case False
      from g have "g \<in> set (replace_by mr_id f' (db_resources (w_db w)))" by (simp add: f'(2))
      from set_replace_by [OF this] False f'(3) have "g \<in> set (db_resources (w_db w))" "g \<noteq> f" by auto
      then show ?thesis using 2(4) sound rest_sound [OF sound, of f _ _ g] f by (auto simp: f'(5) sound_def)
    qed (use f'(4) in \<open>auto simp: file_sound_def\<close>)
    moreover have "ws_of None w' = ws_of None w" by (simp add: w' x 2(3) ws_of_def workspace_id_or_default_def mon_defs)
    ultimately show ?thesis using I sound f' unfolding stores_files_def sound_def by (simp add: w')
  qed
  then show "stores_files C w' \<and> (\<forall>x. r = Inr x \<longrightarrow> True)" by simp
qed

lemma delete_sound: "hoare (stores_files C) (\<lambda>_. True) (delete_file_route_body i) (\<lambda>_ _. True)"
  unfolding delete_file_route_body_def
proof (rule hoare_bind [OF hoare_weaken])
  show "hoare (stores_files C) (\<lambda>_. True) (file_or_404 i) (\<lambda>f w. (f \<in> set (db_resources (w_db w)) \<and>
      mr_resource_type f = ''file'' \<and> mr_deleted_at f = None \<and> mr_workspace_id f = ws_of None w) \<and> True)"
    by (rule hoare_value [OF still_files(6) steady_files(1) steady_rules(1)])
      (auto simp: file_or_404_def found_Inr opt_eq_def dest!: get_resource_Inr)
qed (simp, assumption, simp only: simp_thms delete_tail)

section \<open>The hash of a row never changes\<close>

definition sha_kept :: "string \<Rightarrow> database \<Rightarrow> database \<Rightarrow> bool" where
  "sha_kept i d d' \<longleftrightarrow> (\<forall>r. find_resource i d = Some r \<longrightarrow> (\<exists>r'. find_resource i d' = Some r' \<and> mr_sha256 r' = mr_sha256 r))"

lemma sha_kept_trans: "sha_kept i d d' \<Longrightarrow> sha_kept i d' d'' \<Longrightarrow> sha_kept i d d''"
  unfolding sha_kept_def by metis

lemma row_kept_sha: "row_kept i d d' \<Longrightarrow> sha_kept i d d'"
  by (auto simp: row_kept_def sha_kept_def)

lemma reading_files [reading]:
  "keeps tables_kept storage_or_503" "keeps tables_kept (validate_staged_upload_key k)" "keeps tables_kept (scan_upload_content s l)"
  "keeps tables_kept (enforce_size_limit n m l)" "keeps tables_kept (find_deduplicated_file h)" "keeps tables_kept (file_or_404 i)"
  "keeps tables_kept (get_file_info k)" "keeps tables_kept (download_file_with_type k)" "keeps tables_kept (get_settings)"
  "keeps tables_kept (release_file_object f)" "keeps tables_kept (place_upload g u t h x)"
  "keeps tables_kept (place_staged k nm t h z x)"
proof -
  show "keeps tables_kept storage_or_503" "keeps tables_kept (validate_staged_upload_key k)"
    "keeps tables_kept (scan_upload_content s l)" "keeps tables_kept (enforce_size_limit n m l)"
    "keeps tables_kept (find_deduplicated_file h)" "keeps tables_kept (file_or_404 i)"
    "keeps tables_kept (get_file_info k)" "keeps tables_kept (download_file_with_type k)" "keeps tables_kept get_settings"
    by (rule keepsI, drule keepsD [rotated], rule stilling, simp add: still_def tables_kept_def)+
  have store: "keeps tables_kept should_store_in_object_storage" "keeps tables_kept object_storage_backend_label"
    by (rule keepsI, drule keepsD [rotated], rule stilling, simp add: still_def tables_kept_def)+
  have "keeps tables_kept (save_file_bytes h g d t n fn c ws)" for h g d t n fn c ws
    unfolding save_file_bytes_def Let_def by (intro kept.control reading)
  note storing = store this
  show "keeps tables_kept (release_file_object f)" "keeps tables_kept (place_upload g u t h x)"
    "keeps tables_kept (place_staged k nm t h z x)"
    unfolding release_file_object_def place_upload_def place_staged_def
    by (intro kept.control reading kept_error storing)+
qed

lemma row_keeping_files:
  "keeps (along (row_kept i)) (upload_file_body g u)" "keeps (along (row_kept i)) (complete_file_upload_body b)"
  unfolding upload_file_body_def complete_file_upload_body_def create_file_row_def Let_def
  by (intro kept_row.steps row_keeping; intro row_keeping_reads reading)+

lemma delete_keeps_sha:
  assumes "delete_file_route j w = (r, w')" "distinct (map mr_id (db_resources (w_committed w)))"
  shows "sha_kept i (w_committed w) (w_committed w')"
proof -
  let ?u = "w\<lparr>w_db := w_committed w\<rparr>"
  have "publishes_at (sha_kept i (w_committed w)) (delete_file_route_body j) ?u"
    unfolding delete_file_route_body_def
  proof (rule publishes_at_bind [OF drafting_reads [OF reading_files(6)]],
      rule publishes_seq [OF drafting_reads [OF reading_files(10)]], rule publishes_at_bind [OF drafting_changes(7)])
    fix f v x v' f1 v''
    assume get: "file_or_404 j ?u = (Inr f, v)" and rel: "release_file_object f v = (Inr x, v')"
      and del: "delete_resource f v' = (Inr f1, v'')"
    have f: "f \<in> set (db_resources (w_committed w))" "w_db v' = w_committed w"
      using get reads [OF reading_files(10) rel] by (auto simp: file_or_404_def found_Inr dest!: get_resource_Inr)
    with delete_resource_rows [OF del] assms(2)
    have f1: "db_resources (w_db v'') = replace_by mr_id f1 (db_resources (w_committed w))" "mr_id f1 = mr_id f" "mr_sha256 f1 = mr_sha256 f"
      by auto
    have "find_by mr_id (mr_id f) (db_resources (w_committed w)) = Some f" using f(1) assms(2) by (rule_tac find_by_unique)
    then have "sha_kept i (w_committed w) (w_db v'')"
      using f1 by (auto simp: sha_kept_def find_resource_def find_by_replace)
    then show "publishes_at (sha_kept i (w_committed w)) (seqM commitM (returnM (deleted_response f1 (Some ''file_deleted'')))) v''"
      by (rule publishes_commit) (rule reading)
  qed
  from scope_publishes [OF assms(1) [unfolded delete_file_route_def] this] show ?thesis by (auto simp: sha_kept_def)
qed

section \<open>Sequences of requests\<close>

text \<open>
  Requests on files by callers of any workspace, with what clients put under the keys they were given. \<open>C\<close> bounds the
  contents that become files.
\<close>

inductive file_request :: "string set \<Rightarrow> world \<Rightarrow> world \<Rightarrow> bool" for C where
  calling: "safe_workspace ws \<Longrightarrow> file_request C w (w\<lparr>w_workspace := Some ws\<rparr>)"
| uploading: "up_content u \<in> C \<Longrightarrow> upload_file g u w = (r, w') \<Longrightarrow> file_request C w w'"
| presigning: "presign_file_upload p b w = (r, w') \<Longrightarrow> file_request C w w'"
| staging: "str_contains ''/staged-uploads/'' k \<Longrightarrow> file_request C w (w\<lparr>w_objects := dset k ob (w_objects w)\<rparr>)"
| completing: "staged_in C (cb_key b) w \<Longrightarrow> complete_file_upload b w = (r, w') \<Longrightarrow> file_request C w w'"
| downloading: "download_file_route i w = (r, w') \<Longrightarrow> file_request C w w'"
| deleting: "delete_file_route i w = (r, w') \<Longrightarrow> file_request C w w'"

definition keeps_files :: "string set \<Rightarrow> world \<Rightarrow> bool" where
  "keeps_files C w \<longleftrightarrow> safe_workspace (ws_of None w) \<and> inj_on (\<lambda>c. take 16 (sha256_hex c)) C \<and>
     sound C (w_committed w) (w_objects w)"

lemma scope_sound:
  assumes "session_scope m w = (r, w')" "hoare (stores_files C) P m Q" "keeps_files C w" "P (w\<lparr>w_db := w_committed w\<rparr>)"
  shows "keeps_files C w' \<and> (\<forall>x. r = Inr x \<longrightarrow> (\<exists>v. w' = v\<lparr>w_db := w_committed v\<rparr> \<and> Q x v))"
proof -
  obtain q v where m: "m (w\<lparr>w_db := w_committed w\<rparr>) = (q, v)" by fastforce
  have "stores_files C (w\<lparr>w_db := w_committed w\<rparr>)" using assms(3) by (simp add: stores_files_def keeps_files_def)
  from hoareD [OF assms(2) m this assms(4)] assms(1) m show ?thesis
    by (auto simp: session_scope_def stores_files_def keeps_files_def)
qed

lemma still_scope:
  assumes "keeps still m" "session_scope m w = (r, w')"
  shows "w_committed w' = w_committed w" "w_objects w' = w_objects w" "w_workspace w' = w_workspace w"
proof -
  obtain q v where m: "m (w\<lparr>w_db := w_committed w\<rparr>) = (q, v)" by fastforce
  from keepsD [OF assms(1) this] assms(2) m
  show "w_committed w' = w_committed w" "w_objects w' = w_objects w" "w_workspace w' = w_workspace w"
    by (auto simp: session_scope_def still_def)
qed

lemma request_sound:
  assumes "file_request C w w'" "keeps_files C w"
  shows "keeps_files C w' \<and> sha_kept i (w_committed w) (w_committed w')"
  using assms(1)
proof cases
  case (calling ws)
  with assms(2) show ?thesis
    by (simp add: keeps_files_def ws_of_def workspace_id_or_default_def mon_defs sha_kept_def)
next
  case (uploading u g r)
  from keepsD [OF kept_row.scope_keeps [OF row_keeping_files(1)] uploading(2) [unfolded upload_file_def]]
  have "sha_kept i (w_committed w) (w_committed w')" by (simp add: across_def row_kept_sha)
  with scope_sound [OF uploading(2) [unfolded upload_file_def] upload_sound [OF uploading(1)] assms(2)] show ?thesis by simp
next
  case (presigning p b r)
  have "keeps still (presign_file_upload p b)"
    unfolding presign_file_upload_def create_presigned_upload_url_def by (intro still.control stilling)
  from keepsD [OF this presigning] assms(2) show ?thesis
    by (simp add: keeps_files_def still_ws) (simp add: still_def sha_kept_def)
next
  case (staging k ob)
  have "object_for C (dset k ob objs) ws k' h" if "object_for C objs ws k' h" for objs ws k' h
    using that staging(2) staged_not_permanent unfolding object_for_def by auto
  then have "sound C d (dset k ob objs)" if "sound C d objs" for d objs
    using that unfolding sound_def file_sound_def by blast
  with assms(2) staging(1) show ?thesis
    by (simp add: keeps_files_def sha_kept_def ws_of_def workspace_id_or_default_def mon_defs)
next
  case (completing b r)
  from keepsD [OF kept_row.scope_keeps [OF row_keeping_files(2)] completing(2) [unfolded complete_file_upload_def]]
  have "sha_kept i (w_committed w) (w_committed w')" by (simp add: across_def row_kept_sha)
  with scope_sound [OF completing(2) [unfolded complete_file_upload_def] complete_sound assms(2)] completing(1) show ?thesis
    by (simp add: staged_in_def)
next
  case (downloading j r)
  have "keeps still (bindM (file_or_404 j) (\<lambda>f.
     seqM (guardM (\<not> in_object_storage f) (HTTPException 500 ''File object is not stored in object storage'')) (
     bindM (download_file_with_type (or_str (mr_storage_key f) [])) (\<lambda>(content, stored_content_type).
     returnM \<lparr>cr_content = content,
       cr_media_type = or_str stored_content_type (or_str (mr_content_type f) ''application/octet-stream''),
       cr_disposition = ''attachment; filename='' @ CHR 0x22 # or_str (mr_filename f) (mr_id f) @ [CHR 0x22]\<rparr>))))"
    by (intro still.control stilling)
  from still_scope [OF this downloading [unfolded download_file_route_def]] assms(2) show ?thesis
    by (simp add: keeps_files_def sha_kept_def ws_of_def workspace_id_or_default_def mon_defs)
next
  case (deleting j r)
  with delete_keeps_sha [OF deleting] scope_sound [OF deleting [unfolded delete_file_route_def] delete_sound assms(2)] assms(2)
  show ?thesis by (simp add: keeps_files_def sound_def)
qed

lemma requests_sound:
  "(file_request C)\<^sup>*\<^sup>* w w' \<Longrightarrow> keeps_files C w \<Longrightarrow> keeps_files C w' \<and> sha_kept i (w_committed w) (w_committed w')"
proof (induction rule: rtranclp_induct)
  case (step u v)
  with request_sound [OF step.hyps(2), of i] show ?case by (blast intro: sha_kept_trans)
qed (simp add: sha_kept_def)

section \<open>Properties\<close>

definition no_files :: "world \<Rightarrow> bool" where
  "no_files w \<longleftrightarrow> distinct (map mr_id (db_resources (w_committed w))) \<and>
     (\<forall>r \<in> set (db_resources (w_committed w)). mr_resource_type r \<noteq> ''file'')"

lemma no_files_kept:
  "no_files w \<Longrightarrow> safe_workspace (ws_of None w) \<Longrightarrow> inj_on (\<lambda>c. take 16 (sha256_hex c)) C \<Longrightarrow> keeps_files C w"
  by (simp add: no_files_def keeps_files_def sound_def file_sound_def)

lemma response_id: "dget ''id'' (resource_to_response q t) = PStr (mr_id q)"
proof -
  have other: "dget ''id'' (default_opt k v d) = dget ''id'' d" "dget ''id'' (dsetdefault k x d) = dget ''id'' d"
    "dget ''id'' (dset k x d) = dget ''id'' d" if "k \<noteq> ''id''" for k v d x
    using that by (auto simp: default_opt_def dget_def [of _ "dset k x d"] dget_def [of "''id''" d] split: option.split)
  show ?thesis
    unfolding resource_to_response_def Let_def
    by (simp add: other if_distrib [of "dget ''id''"] option.case_distrib [of "dget ''id''"] cong: option.case_cong if_cong
        split: option.split)
qed

text \<open>What a download answers is the object of a live row, and a live row has one.\<close>

lemma download_answer:
  assumes "download_file_route i w = (Inr c, w')" "keeps_files C w"
  obtains f where "find_resource i (w_committed w) = Some f" "cr_content c \<in> C" "mr_sha256 f = Some (sha256_hex (cr_content c))"
proof -
  obtain f ob where f: "get_resource i (Some ''file'') None False None (w\<lparr>w_db := w_committed w\<rparr>) = (Inr (Some f), w\<lparr>w_db := w_committed w\<rparr>)"
    and ob: "map_of (w_objects w) (or_str (mr_storage_key f) []) = Some ob" "cr_content c = ob_body ob"
    using assms(1)
    by (auto simp: download_file_route_def session_scope_def file_or_404_def mon_simps download_file_with_type_def get_object_def
        require_object_storage_def object_storage_settings_def get_settings_def dest: get_resource_Inr
        split: prod.splits option.splits if_splits)
  note row = get_resource_Inr [OF f]
  with assms(2) obtain k h where kh: "mr_storage_key f = Some k" "mr_sha256 f = Some h"
    "object_for C (w_objects w) (mr_workspace_id f) k h"
    by (auto simp: keeps_files_def sound_def file_sound_def opt_eq_def)
  have "k \<noteq> []" using kh(3) by (auto simp: object_for_def key_shape_def)
  then have "cr_content c \<in> C" "mr_sha256 f = Some (sha256_hex (cr_content c))"
    using ob kh by (auto simp: or_str_def object_for_def)
  moreover have "find_resource i (w_committed w) = Some f"
    using row assms(2) find_by_unique [of mr_id "db_resources (w_committed w)" f]
    by (simp add: find_resource_def keeps_files_def sound_def)
  ultimately show thesis by (rule that [rotated])
qed

lemma live_file_downloads:
  assumes "keeps_files C w" "r \<in> set (db_resources (w_committed w))" "mr_resource_type r = ''file''" "mr_deleted_at r = None"
    "mr_workspace_id r = ws_of None w" "require_object_storage w = (Inr cfg, w)"
  obtains c w' where "download_file_route (mr_id r) w = (Inr c, w')" "mr_sha256 r = Some (sha256_hex (cr_content c))"
proof -
  let ?u = "w\<lparr>w_db := w_committed w\<rparr>"
  from assms(1-4) obtain k h ob where r: "mr_storage_backend r = Some ''s3''" "mr_storage_key r = Some k" "mr_sha256 r = Some h"
    "map_of (w_objects w) k = Some ob" "sha256_hex (ob_body ob) = h" "key_shape (mr_workspace_id r) k h"
    unfolding keeps_files_def sound_def file_sound_def object_for_def by blast
  have "k \<noteq> []" using r(6) by (auto simp: key_shape_def)
  moreover have "is_object_storage_backend (Some ''s3'')" by code_simp
  ultimately have stored: "in_object_storage r" "or_str (mr_storage_key r) [] = k"
    using r by (simp_all add: in_object_storage_def or_str_def)
  have ids: "distinct (map mr_id (db_resources (w_committed w)))" using assms(1) by (simp add: keeps_files_def sound_def)
  have "get_resource (mr_id r) (Some ''file'') None False None ?u = (Inr (Some r), ?u)"
    using assms(3-5) find_by_unique [OF ids assms(2)]
    by (simp add: get_resource_def bindM_def mon_defs opt_eq_def filter_key_unique [OF ids] scalar_one_or_none_def)
  then have get: "file_or_404 (mr_id r) ?u = (Inr r, ?u)" by (simp add: file_or_404_def mon_defs)
  have cfg: "require_object_storage ?u = (Inr cfg, ?u)"
    using assms(6) by (auto simp: require_object_storage_def object_storage_settings_def get_settings_def bindM_def mon_defs
      split: if_splits)
  have "download_file_with_type k ?u = (Inr (ob_body ob, ob_content_type ob), ?u)"
    using cfg r(4) by (simp add: download_file_with_type_def get_object_def bindM_def mon_defs)
  with get stored show thesis using r(3,5)
    by (intro that [of "\<lparr>cr_content = ob_body ob, cr_media_type = or_str (ob_content_type ob) (or_str (mr_content_type r)
        ''application/octet-stream''), cr_disposition = ''attachment; filename='' @ CHR 0x22 # or_str (mr_filename r) (mr_id r) @
        [CHR 0x22]\<rparr>" ?u]) (simp_all add: download_file_route_def session_scope_def seqM_def bindM_def mon_defs)
qed

text \<open>
  C26: no file is lost. Along any sequence of file requests by callers of any workspaces (uploads, direct uploads put by
  clients and completed, downloads, deletions; equal contents share one object), a file that is not deleted can be
  downloaded by its workspace, and what comes has the hash the file was stored with. It needs names of workspaces that the
  object keys keep apart, and contents whose hashes differ within the 16 digits that a key has.
\<close>

theorem files_intact:
  assumes "(file_request C)\<^sup>*\<^sup>* w w'" "no_files w" "safe_workspace (ws_of None w)" "inj_on (\<lambda>c. take 16 (sha256_hex c)) C"
    "r \<in> set (db_resources (w_committed w'))" "mr_resource_type r = ''file''" "mr_deleted_at r = None"
    "mr_workspace_id r = ws_of None w'" "require_object_storage w' = (Inr cfg, w')"
  shows "\<exists>c v. download_file_route (mr_id r) w' = (Inr c, v) \<and> mr_sha256 r = Some (sha256_hex (cr_content c))"
proof -
  have "keeps_files C w'" using requests_sound [OF assms(1) no_files_kept [OF assms(2-4)]] by blast
  from live_file_downloads [OF this assms(5-9)] show ?thesis by blast
qed

text \<open>
  C27: a file is downloaded as it was uploaded, whatever file requests came before and in between.
\<close>

theorem upload_download:
  assumes "no_files w0" "safe_workspace (ws_of None w0)" "inj_on (\<lambda>c. take 16 (sha256_hex c)) C"
    "(file_request C)\<^sup>*\<^sup>* w0 w" "up_content u \<in> C" "upload_file g u w = (Inr answer, w1)" "dget ''id'' answer = PStr i"
    "(file_request C)\<^sup>*\<^sup>* w1 w2" "download_file_route i w2 = (Inr c, w3)"
  shows "cr_content c = up_content u"
proof -
  have w: "keeps_files C w" using requests_sound [OF assms(4) no_files_kept [OF assms(1-3)]] by blast
  from scope_sound [OF assms(6) [unfolded upload_file_def] upload_sound [OF assms(5)] w] obtain v q where
    w1: "keeps_files C w1" "w1 = v\<lparr>w_db := w_committed v\<rparr>" and q: "q \<in> set (db_resources (w_committed v))"
    "answer = resource_to_response q (Some ''file'')" "mr_sha256 q = Some (sha256_hex (up_content u))" by auto
  have "find_resource i (w_committed w1) = Some q"
    using w1 q assms(7) find_by_unique [of mr_id "db_resources (w_committed v)" q]
    by (simp add: find_resource_def keeps_files_def sound_def response_id)
  with requests_sound [OF assms(8) w1(1), of i] q(3) obtain f where
    f: "find_resource i (w_committed w2) = Some f" "mr_sha256 f = Some (sha256_hex (up_content u))" "keeps_files C w2"
    by (auto simp: sha_kept_def)
  from download_answer [OF assms(9) f(3)] obtain f' where f': "find_resource i (w_committed w2) = Some f'" "cr_content c \<in> C"
    "mr_sha256 f' = Some (sha256_hex (cr_content c))" by blast
  from f' f(1,2) have "sha256_hex (cr_content c) = sha256_hex (up_content u)" by simp
  then have "take 16 (sha256_hex (cr_content c)) = take 16 (sha256_hex (up_content u))" by simp
  with f'(2) assms(5) show ?thesis by (rule_tac inj_onD [OF assms(3)])
qed

definition bucket_settings :: settings where
  "bucket_settings = default_settings\<lparr>st_s3_access_key_id := ''id'', st_s3_secret_access_key := ''key'',
     st_s3_bucket_name := ''oma'', st_s3_public_url := ''https://files.invalid''\<rparr>"

definition file_server :: world where
  "file_server = world0\<lparr>w_settings := bucket_settings\<rparr>"

definition hello :: upload where
  "hello = \<lparr>up_filename = Some ''a.txt'', up_content_type = None, up_content = ''hello''\<rparr>"

abbreviation hello_stored :: "pdict res \<times> world" where
  "hello_stored \<equiv> upload_file (\<lambda>_. None) hello file_server"

lemma bucket_configured: "w_settings w = bucket_settings \<Longrightarrow> \<exists>cfg. require_object_storage w = (Inr cfg, w)"
  by (simp add: require_object_storage_def object_storage_settings_def get_settings_def bindM_def mon_defs bucket_settings_def
      default_settings_def)

lemma new_object_stored:
  assumes "w_settings w = bucket_settings"
  obtains p v where "place_upload g u t h None w = (Inr p, v)" "w_db v = w_db w" "w_committed v = w_committed w"
    "w_workspace v = w_workspace w" "w_settings v = w_settings w"
proof -
  obtain cfg where cfg: "require_object_storage v = (Inr cfg, v)" if "w_settings v = bucket_settings" for v
    using bucket_configured by (auto simp: require_object_storage_def object_storage_settings_def get_settings_def bindM_def
      mon_defs bucket_settings_def default_settings_def)
  have "sha256_hex (up_content u) \<noteq> []" using sha256_plain(2) [of "up_content u"] by auto
  then obtain k v where k: "object_key ''oma'' ''files'' (or_str (up_filename u) ''upload'') (Some (sha256_hex (up_content u))) None w = (Inr k, v)"
    by (simp add: object_key_def bindM_def mon_defs)
  note k = this keepsD [OF still_storage(4) this]
  have "w_settings v = bucket_settings" using k(2) assms by (simp add: still_def)
  with cfg assms k have "\<exists>p x. place_upload g u t h None w = (Inr p, x) \<and> w_db x = w_db w \<and> w_committed x = w_committed w \<and>
      w_workspace x = w_workspace w \<and> w_settings x = w_settings w"
    by (simp add: place_upload_def storage_error_500_def catchM_def should_store_in_object_storage_def
      save_file_bytes_def public_url_for_key_def put_object_def seqM_def bindM_def mon_defs still_def Let_def)
  with that show thesis by blast
qed

lemma hello_accepted:
  obtains answer w r where "hello_stored = (Inr answer, w)" "w_settings w = bucket_settings" "w_workspace w = None"
    "db_resources (w_committed w) = [r]" "mr_resource_type r = ''file''" "mr_deleted_at r = None"
    "mr_workspace_id r = ''wrkspc_default''" "dget ''id'' answer = PStr (mr_id r)"
proof -
  let ?s = "file_server\<lparr>w_db := w_committed file_server\<rparr>" and ?h = "sha256_hex ''hello''"
  note worlds = file_server_def world0_def db0_def
  have settings: "get_settings ?s = (Inr bucket_settings, ?s)" by (simp add: get_settings_def mon_defs worlds)
  have size: "enforce_size_limit (int (length ''hello'')) (st_oma_max_file_upload_bytes bucket_settings) l ?s = (Inr (), ?s)" for l
    by (simp add: enforce_size_limit_def mon_defs bucket_settings_def default_settings_def)
  have "\<not> str_contains EICAR_TEST_SIGNATURE ''hello''" by code_simp
  then have scan: "scan_upload_content ''hello'' l ?s = (Inr (), ?s)" for l
    by (simp add: scan_upload_content_def validate_upload_content_def catchM_def mon_defs)
  have dedup: "find_deduplicated_file ?h ?s = (Inr None, ?s)"
    by (simp add: find_deduplicated_file_def get_resource_by_sha256_def bindM_def mon_defs worlds)
  obtain p v where place: "place_upload (\<lambda>_. None) hello ''application/octet-stream'' ?h None ?s = (Inr p, v)"
    and v: "w_db v = w_db ?s" "w_committed v = w_committed ?s" "w_workspace v = w_workspace ?s" "w_settings v = w_settings ?s"
    by (rule new_object_stored [of ?s]) (simp_all add: worlds)
  have "\<exists>r x. create_file_row (Some ''a.txt'') ''application/octet-stream'' p v = (Inr r, x) \<and> w_settings x = w_settings v"
    using v by (simp add: create_file_row_def create_resource_def insert_resource_def Let_def bindM_def seqM_def mon_defs
      worlds find_resource_def find_by_def version_taken_def resource_args0_def)
  then obtain r x where row: "create_file_row (Some ''a.txt'') ''application/octet-stream'' p v = (Inr r, x)" "w_settings x = w_settings v"
    by blast
  note made = create_resource_run [OF row(1) [unfolded create_file_row_def]] create_resource_new [OF row(1) [unfolded create_file_row_def]]
  have "hello_stored = (Inr (resource_to_response r (Some ''file'')), x\<lparr>w_committed := w_db x\<rparr>)"
    using settings size scan dedup place row(1)
    by (simp add: upload_file_def upload_file_body_def session_scope_def hello_def or_str_def Let_def)
      (simp add: seqM_def bindM_def mon_defs)
  then show thesis
    by (rule that [of _ _ r]) (use made v row(2) in \<open>simp_all add: worlds response_id resource_args0_def ws_of_def
      workspace_id_or_default_def mon_defs DEFAULT_WORKSPACE_ID_def\<close>)
qed

lemma file_server_start:
  "no_files file_server" "safe_workspace (ws_of None file_server)" "inj_on (\<lambda>c. take 16 (sha256_hex c)) {''hello''}"
  "up_content hello \<in> {''hello''}" "safe_workspace ''wrkspc_default''"
proof -
  show "no_files file_server" by (simp add: no_files_def file_server_def world0_def db0_def)
  show default: "safe_workspace ''wrkspc_default''" unfolding safe_workspace_def by code_simp
  have "ws_of None file_server = ''wrkspc_default''"
    by (simp add: file_server_def world0_def ws_of_def workspace_id_or_default_def mon_defs DEFAULT_WORKSPACE_ID_def)
  with default show "safe_workspace (ws_of None file_server)" by simp
qed (simp_all add: hello_def)

lemma default_current: "w_workspace w = None \<Longrightarrow> ws_of None w = ''wrkspc_default''"
  by (simp add: ws_of_def workspace_id_or_default_def mon_defs DEFAULT_WORKSPACE_ID_def)

theorem files_intact_witness:
  "\<exists>answer w r c v. hello_stored = (Inr answer, w) \<and> db_resources (w_committed w) = [r] \<and>
     download_file_route (mr_id r) w = (Inr c, v) \<and> mr_sha256 r = Some (sha256_hex (cr_content c))"
proof -
  obtain answer w r where run: "hello_stored = (Inr answer, w)" "w_settings w = bucket_settings" "w_workspace w = None"
    "db_resources (w_committed w) = [r]" "mr_resource_type r = ''file''" "mr_deleted_at r = None" "mr_workspace_id r = ''wrkspc_default''"
    by (rule hello_accepted)
  from bucket_configured [OF run(2)] obtain cfg where cfg: "require_object_storage w = (Inr cfg, w)" by blast
  have step: "(file_request {''hello''})\<^sup>*\<^sup>* file_server w" using file_request.uploading [OF file_server_start(4) run(1)] by blast
  have r: "r \<in> set (db_resources (w_committed w))" "mr_workspace_id r = ws_of None w"
    using run by (simp_all add: default_current)
  from files_intact [OF step file_server_start(1-3) r(1) run(5,6) r(2) cfg] run(1,4) show ?thesis by blast
qed

theorem upload_download_witness:
  "\<exists>answer w i c v. hello_stored = (Inr answer, w) \<and> dget ''id'' answer = PStr i \<and>
     download_file_route i w = (Inr c, v) \<and> cr_content c = ''hello''"
proof -
  obtain answer w r where run: "hello_stored = (Inr answer, w)" "w_settings w = bucket_settings" "w_workspace w = None"
    "db_resources (w_committed w) = [r]" "mr_resource_type r = ''file''" "mr_deleted_at r = None" "mr_workspace_id r = ''wrkspc_default''"
    "dget ''id'' answer = PStr (mr_id r)" by (rule hello_accepted)
  from bucket_configured [OF run(2)] obtain cfg where cfg: "require_object_storage w = (Inr cfg, w)" by blast
  have step: "(file_request {''hello''})\<^sup>*\<^sup>* file_server w" using file_request.uploading [OF file_server_start(4) run(1)] by blast
  then have "keeps_files {''hello''} w" using requests_sound no_files_kept [OF file_server_start(1-3)] by blast
  moreover have "r \<in> set (db_resources (w_committed w))" "mr_workspace_id r = ws_of None w"
    using run by (simp_all add: default_current)
  ultimately obtain c v where got: "download_file_route (mr_id r) w = (Inr c, v)"
    using live_file_downloads [OF _ _ run(5,6) _ cfg] by metis
  from upload_download [OF file_server_start(1-3) rtranclp.rtrancl_refl file_server_start(4) run(1,8) rtranclp.rtrancl_refl got]
  have "cr_content c = ''hello''" by (simp add: hello_def)
  with run(1,8) got show ?thesis by blast
qed

end
