(* ===== verification/Memories.thy ===== *)
theory Memories
  imports Managed
begin

text \<open>
  The handlers of \<open>app/routers/generic_resources.py\<close> for the memories of a store and their versions. \<open>fold_case\<close>
  is how the database compares the characters of a name with a pattern.

  The dict a memory is created or updated with becomes the row's own \<open>data\<close>, and the identifier of the new version
  is then put into that same dict: the mapped object shows it, while SQLAlchemy, comparing the dict with itself, finds
  nothing to write. So the row in the tables stays as it was flushed, and only the answer has the identifier
  (\<open>with_version_id\<close>). A deletion works on a copy, which is written.
\<close>

definition must_write_memory_store :: "string \<Rightarrow> resource_row M" where
  "must_write_memory_store store_id =
     bindM (must_exist store_id ''memory_store'' None) (\<lambda>store.
     seqM (guardM (mr_archived_at store \<noteq> None) (HTTPException 409 ''Memory store is archived'')) (returnM store))"

definition ensure_memory_store_capacity :: "string \<Rightarrow> unit M" where
  "ensure_memory_store_capacity store_id =
     bindM (list_resources ''memory'' (Some store_id) (MAX_MEMORIES_PER_STORE + 1) False False None) (\<lambda>memories.
     guardM (MAX_MEMORIES_PER_STORE \<le> length memories)
       (HTTPException 409 ''Memory store has reached the 2000 memory limit''))"

definition find_memory_by_path :: "string \<Rightarrow> string \<Rightarrow> resource_row option M" where
  "find_memory_by_path store_id key = get_resource_by_name ''memory'' key (Some store_id) False None"

definition with_version_id :: "resource_row \<Rightarrow> resource_row \<Rightarrow> resource_row" where
  "with_version_id version memory =
     memory\<lparr>mr_data := dset ''memory_version_id'' (PStr (mr_id version)) (mr_data memory)\<rparr>"

definition str_at :: "string \<Rightarrow> pdict \<Rightarrow> string" where
  "str_at k d = py_str (dget k d)"

section \<open>Writing\<close>

definition create_memory_body :: "string \<Rightarrow> pdict \<Rightarrow> string option \<Rightarrow> pdict M" where
  "create_memory_body store_id body view0 =
     bindM (liftE (normalize_memory_view view0)) (\<lambda>view.
     seqM (must_write_memory_store store_id) (
     seqM (ensure_memory_store_capacity store_id) (
     bindM (memory_payload body) (\<lambda>data.
     bindM (find_memory_by_path store_id (str_at ''path_key'' data)) (\<lambda>existing.
     seqM (guardM (existing \<noteq> None) (HTTPException 409 ''Memory path already exists in this memory store'')) (
     bindM (create_resource ''memory'' (resource_args0\<lparr>ra_parent_id := Some store_id,
       ra_name := Some (str_at ''path_key'' data), ra_data := data\<rparr>)) (\<lambda>memory.
     bindM (create_memory_version memory 1 (str_at ''updated_by'' data) ''created'' []) (\<lambda>version.
     seqM commitM (resource_response (with_version_id version memory) view)))))))))"

definition create_memory :: "string \<Rightarrow> pdict \<Rightarrow> string option \<Rightarrow> pdict M" where
  "create_memory store_id body view = session_scope (create_memory_body store_id body view)"

text \<open>
  The preconditions of an update: a version number or the hash of the content. \<open>Inr False\<close> means that
  the request asks for what is already there, and is answered without a change.
\<close>

definition update_precondition :: "pdict \<Rightarrow> pv \<Rightarrow> pv \<Rightarrow> pdict \<Rightarrow> bool res" where
  "update_precondition current expected_version precondition update =
     bindE (py_int (por (dget ''version'' current) (PInt 1))) (\<lambda>current_version.
     bindE (if expected_version = PNone then Inr ()
            else bindE (py_int expected_version) (\<lambda>n. raise_if (n \<noteq> current_version)
              (HTTPException 409 ''Memory version precondition failed''))) (\<lambda>_.
     case precondition of
       PDict p \<Rightarrow>
         let expected_sha = dget ''content_sha256'' p in
         if dget ''type'' p = PStr ''content_sha256'' \<and> truthy expected_sha
            \<and> \<not> py_eq expected_sha (dget ''content_sha256'' current)
         then bindE (memory_requested_state_matches_current current update) (\<lambda>same.
           if same then Inr False else Inl (HTTPException 409 ''Memory content precondition failed''))
         else Inr True
     | _ \<Rightarrow> Inr True))"

definition path_taken :: "string \<Rightarrow> resource_row \<Rightarrow> pdict \<Rightarrow> bool M" where
  "path_taken store_id memory data =
     (if dget ''path_key'' data = dget ''path_key'' (mr_data memory) then returnM False
      else bindM (find_memory_by_path store_id (str_at ''path_key'' data)) (\<lambda>existing.
        returnM (case existing of None \<Rightarrow> False | Some other \<Rightarrow> mr_id other \<noteq> mr_id memory)))"

definition update_memory_body :: "string \<Rightarrow> string \<Rightarrow> pdict \<Rightarrow> string option \<Rightarrow> pdict M" where
  "update_memory_body store_id i body view0 =
     bindM (liftE (normalize_memory_view view0)) (\<lambda>view.
     bindM (must_exist i ''memory'' (Some store_id)) (\<lambda>memory.
     let expected_version = dget_or ''if_version'' (dget ''expected_version'' body) body;
         precondition = dget ''precondition'' body;
         update = dpop ''precondition'' (dpop ''if_version'' (dpop ''expected_version'' body)) in
     bindM (liftE (update_precondition (mr_data memory) expected_version precondition update)) (\<lambda>go.
     if \<not> go then resource_response memory view
     else bindM (merge_memory_data (mr_data memory) update) (\<lambda>data.
       if \<not> memory_has_material_change (mr_data memory) data then resource_response memory view
       else bindM (path_taken store_id memory data) (\<lambda>taken.
         seqM (guardM taken (HTTPException 409 ''Memory path already exists in this memory store'')) (
         bindM (update_resource memory (resource_patch0\<lparr>rp_data := Some data,
           rp_name := Some (str_at ''path_key'' data)\<rparr>)) (\<lambda>memory1.
         bindM (liftE (py_int (dget ''version'' data))) (\<lambda>n.
         bindM (create_memory_version memory1 n (str_at ''updated_by'' data) ''modified'' []) (\<lambda>version.
         seqM commitM (resource_response (with_version_id version memory1) view))))))))))"

definition update_memory :: "string \<Rightarrow> string \<Rightarrow> pdict \<Rightarrow> string option \<Rightarrow> pdict M" where
  "update_memory store_id i body view = session_scope (update_memory_body store_id i body view)"

definition delete_memory_body :: "string \<Rightarrow> string \<Rightarrow> string option \<Rightarrow> pdict M" where
  "delete_memory_body store_id i expected_content_sha256 =
     seqM (must_write_memory_store store_id) (
     bindM (must_exist i ''memory'' (Some store_id)) (\<lambda>memory.
     seqM (guardM (expected_content_sha256 \<noteq> None
         \<and> pstr_opt expected_content_sha256 \<noteq> dget ''content_sha256'' (mr_data memory))
       (HTTPException 409 ''Memory content precondition failed'')) (
     bindM (liftE (py_int (por (dget ''version'' (mr_data memory)) (PInt 1)))) (\<lambda>n.
     let actor = py_str (por (dget ''updated_by'' (mr_data memory)) (PStr ''api'')) in
     bindM nowM (\<lambda>now.
     let data = dset ''updated_at'' (PStr (isoformat now)) (dset ''updated_by'' (PStr actor)
                  (dset ''version'' (PInt (n + 1)) (mr_data memory))) in
     bindM (create_memory_version memory (n + 1) actor ''deleted'' data) (\<lambda>version.
     bindM (update_resource memory (resource_patch0\<lparr>
       rp_data := Some (dset ''memory_version_id'' (PStr (mr_id version)) data)\<rparr>)) (\<lambda>memory1.
     bindM (delete_resource memory1) (\<lambda>memory2.
     seqM commitM (returnM (deleted_response memory2 (Some ''memory_deleted'')))))))))))"

definition delete_memory :: "string \<Rightarrow> string \<Rightarrow> string option \<Rightarrow> pdict M" where
  "delete_memory store_id i expected_content_sha256 = session_scope (delete_memory_body store_id i expected_content_sha256)"

section \<open>Reading memories\<close>

definition retrieve_memory_by_path :: "string \<Rightarrow> string \<Rightarrow> string option \<Rightarrow> pdict M" where
  "retrieve_memory_by_path store_id path view0 = session_scope (
     bindM (liftE (normalize_memory_view view0)) (\<lambda>view.
     seqM (must_exist store_id ''memory_store'' None) (
     bindM (liftE (normalize_memory_path (PStr path))) (\<lambda>p.
     bindM (find_memory_by_path store_id (path_key p)) (\<lambda>found.
     case found of
       None \<Rightarrow> raiseM (HTTPException 404 ''Memory not found'')
     | Some memory \<Rightarrow> resource_response memory view)))))"

definition retrieve_memory :: "string \<Rightarrow> string \<Rightarrow> string option \<Rightarrow> pdict M" where
  "retrieve_memory store_id i view0 = session_scope (
     bindM (liftE (normalize_memory_view view0)) (\<lambda>view.
     bindM (must_exist i ''memory'' (Some store_id)) (\<lambda>memory. resource_response memory view)))"

record memory_query =
  mq_path :: "string option"
  mq_path_prefix :: "string option"
  mq_depth :: "int option"
  mq_order :: string
  mq_order_by :: string

definition memories_of :: "string \<Rightarrow> resource_row list M" where
  "memories_of store_id = list_resources ''memory'' (Some store_id) 1000 False False None"

definition prefix_key :: "string \<Rightarrow> string res" where
  "prefix_key prefix = bindE (normalize_memory_path_prefix prefix) (\<lambda>p. Inr (path_key p))"

definition query_memories :: "(char \<Rightarrow> char) \<Rightarrow> string \<Rightarrow> memory_query \<Rightarrow> resource_row list M" where
  "query_memories fold_case store_id q = (case (mq_path q, mq_path_prefix q) of
      (Some path, _) \<Rightarrow>
        bindM (liftE (normalize_memory_path (PStr path))) (\<lambda>p.
        bindM (find_memory_by_path store_id (path_key p)) (\<lambda>found.
        returnM (case found of None \<Rightarrow> [] | Some m \<Rightarrow> [m])))
    | (None, Some path_prefix) \<Rightarrow>
        bindM (liftE (prefix_key path_prefix)) (\<lambda>prefix.
        if prefix \<noteq> [] then list_resources_by_name_prefix fold_case ''memory'' store_id prefix 1000 False None
        else memories_of store_id)
    | (None, None) \<Rightarrow> memories_of store_id)"

definition under_prefix :: "string \<Rightarrow> resource_row \<Rightarrow> bool" where
  "under_prefix prefix r = (mr_name r = Some prefix
     \<or> startswith (prefix @ ''/'') (case mr_name r of None \<Rightarrow> [] | Some n \<Rightarrow> n))"

text \<open>A request with both a path and a prefix.\<close>

definition narrow_to_prefix :: "memory_query \<Rightarrow> resource_row list \<Rightarrow> resource_row list res" where
  "narrow_to_prefix q rows = (case (mq_path q, mq_path_prefix q) of
      (Some _, Some path_prefix) \<Rightarrow>
        bindE (prefix_key path_prefix) (\<lambda>prefix.
        Inr (if prefix \<noteq> [] then filter (under_prefix prefix) rows else rows))
    | _ \<Rightarrow> Inr rows)"

text \<open>
  Where a memory lands in a listing of a given depth: shown itself (\<open>Inl ()\<close>), rolled up into a prefix,
  or left out.
\<close>

definition rollup :: "string \<Rightarrow> int \<Rightarrow> string \<Rightarrow> (unit + string) option" where
  "rollup prefix depth key =
     (let base = (if prefix \<noteq> [] then split_on CHR ''/'' prefix else []);
          parts = split_on CHR ''/'' key;
          relative = (if prefix = [] then Some parts
                      else if key = prefix then Some []
                      else if startswith (prefix @ ''/'') key then Some (drop (length base) parts) else None) in
      if key = [] then None
      else (case relative of
          None \<Rightarrow> None
        | Some rs \<Rightarrow>
            if int (length rs) \<le> depth then Some (Inl ())
            else (let up = take (length base + nat depth) parts in
              Some (Inr (if up = [] then ''/'' else ''/'' @ py_join ''/'' up @ ''/'')))))"

definition depth_item :: "string \<Rightarrow> int \<Rightarrow> string option \<Rightarrow> resource_row \<Rightarrow> (string \<times> pdict) list \<Rightarrow>
    (string \<times> pdict) list M" where
  "depth_item prefix depth view r items = (case rollup prefix depth (memory_path_key_of r) of
      None \<Rightarrow> returnM items
    | Some (Inl _) \<Rightarrow> bindM (resource_response r view) (\<lambda>memory. returnM (dset (str_at ''path'' memory) memory items))
    | Some (Inr p) \<Rightarrow> returnM (dsetdefault p [(''type'', PStr ''memory_prefix''), (''path'', PStr p)] items))"

definition memory_list_items_with_depth ::
  "resource_row list \<Rightarrow> string option \<Rightarrow> int \<Rightarrow> string option \<Rightarrow> string \<Rightarrow> pdict list M" where
  "memory_list_items_with_depth rows view depth path_prefix order =
     seqM (guardM (depth < 0) (HTTPException 422 ''Memory list depth must be non-negative'')) (
     bindM (liftE (case path_prefix of None \<Rightarrow> Inr [] | Some p \<Rightarrow> prefix_key p)) (\<lambda>prefix.
     bindM (foldM (depth_item prefix depth view) rows []) (\<lambda>items.
     let sorted = sort_key fst items in
     returnM (map snd (if order = ''desc'' then rev sorted else sorted)))))"

definition list_memories :: "(char \<Rightarrow> char) \<Rightarrow> string \<Rightarrow> int \<Rightarrow> string option \<Rightarrow> string option \<Rightarrow> memory_query \<Rightarrow>
    pdict list_response M" where
  "list_memories fold_case store_id limit page view0 q = session_scope (
     bindM (liftE (normalize_memory_view view0)) (\<lambda>view.
     seqM (must_exist store_id ''memory_store'' None) (
     bindM (query_memories fold_case store_id q) (\<lambda>found.
     bindM (liftE (narrow_to_prefix q found)) (\<lambda>narrowed.
     bindM (liftE (sort_memories narrowed (mq_order q) (mq_order_by q))) (\<lambda>rows.
     bindM (case (mq_depth q, mq_path q) of
         (Some depth, None) \<Rightarrow> memory_list_items_with_depth rows view depth (mq_path_prefix q) (mq_order q)
       | _ \<Rightarrow> mapM (\<lambda>r. resource_response r view) rows) (\<lambda>items.
     paginate item_id items (Some limit) page 1000)))))))"

section \<open>Versions\<close>

definition list_memory_versions_for_memory :: "string \<Rightarrow> string \<Rightarrow> int \<Rightarrow> string option \<Rightarrow> pdict list_response M" where
  "list_memory_versions_for_memory store_id i limit page = session_scope (
     seqM (must_exist i ''memory'' (Some store_id)) (
     bindM (list_resources ''memory_version'' (Some i) 1000 False False None) (\<lambda>versions.
     bindM (mapM (\<lambda>v. resource_response v None) versions) (\<lambda>items.
     paginate item_id items (Some limit) page 1000))))"

definition retrieve_memory_version_for_memory :: "string \<Rightarrow> string \<Rightarrow> int \<Rightarrow> pdict M" where
  "retrieve_memory_version_for_memory store_id i version = session_scope (
     seqM (must_exist i ''memory'' (Some store_id)) (
     bindM (get_resource_version ''memory_version'' i version False None) (\<lambda>found.
     case found of
       None \<Rightarrow> raiseM (HTTPException 404 ''Memory version not found'')
     | Some v \<Rightarrow> resource_response v None)))"

record version_query =
  vq_memory_id :: "string option"
  vq_operation :: "string option"
  vq_api_key_id :: "string option"
  vq_session_id :: "string option"
  vq_created_at_gte :: pv
  vq_created_at_lte :: pv

definition store_versions :: "string \<Rightarrow> string option \<Rightarrow> resource_row list M" where
  "store_versions store_id memory_id =
     bindM (list_resources ''memory'' (Some store_id) (MAX_MEMORIES_PER_STORE + 100) False True None) (\<lambda>memories.
     bindM (mapM (\<lambda>m. list_resources ''memory_version'' (Some (mr_id m)) 1000 False False None)
       (filter (\<lambda>m. opt_eq memory_id (Some (mr_id m))) memories)) (\<lambda>groups.
     returnM (concat groups)))"

definition select_versions :: "version_query \<Rightarrow> resource_row list \<Rightarrow> resource_row list res" where
  "select_versions q rows =
     bindE (filter_created_at row_created rows PNone (vq_created_at_gte q) PNone (vq_created_at_lte q)) (\<lambda>v1.
     bindE (if_given (vq_operation q) (\<lambda>operation r.
       bindE (memory_version_operation (dget ''operation'' (mr_data r))) (\<lambda>o'. Inr (o' = operation))) v1) (\<lambda>v2.
     let v3 = filter (\<lambda>r. opt_eq (vq_api_key_id q) (memory_version_api_key_id r)) v2;
         v4 = filter (\<lambda>r. opt_eq (vq_session_id q) (memory_version_session_id r)) v3 in
     sort_rows v4 (Some ''desc'')))"

definition list_memory_versions :: "string \<Rightarrow> int \<Rightarrow> string option \<Rightarrow> string option \<Rightarrow> version_query \<Rightarrow>
    pdict list_response M" where
  "list_memory_versions store_id limit page view0 q = session_scope (
     bindM (liftE (normalize_memory_view view0)) (\<lambda>view.
     seqM (guardM (case vq_operation q of None \<Rightarrow> False
         | Some operation \<Rightarrow> operation \<notin> {''created'', ''deleted'', ''modified''})
       (HTTPException 422 ''operation must be created, deleted, or modified'')) (
     seqM (must_exist store_id ''memory_store'' None) (
     bindM (store_versions store_id (vq_memory_id q)) (\<lambda>versions.
     bindM (liftE (select_versions q versions)) (\<lambda>rows.
     bindM (mapM (\<lambda>v. resource_response v view) rows) (\<lambda>items.
     paginate item_id items (Some limit) page 1000)))))))"

text \<open>A version and the memory of the store it belongs to, which may be deleted.\<close>

definition version_of_store :: "string \<Rightarrow> string \<Rightarrow> (resource_row \<times> resource_row) M" where
  "version_of_store store_id i =
     seqM (must_exist store_id ''memory_store'' None) (
     bindM (get_resource i (Some ''memory_version'') None False None) (\<lambda>found.
     case found of
       None \<Rightarrow> raiseM (HTTPException 404 ''Memory version not found'')
     | Some version \<Rightarrow>
         bindM (case mr_parent_id version of None \<Rightarrow> returnM None
           | Some memory_id \<Rightarrow> get_resource memory_id (Some ''memory'') (Some store_id) True None) (\<lambda>found_memory.
         case found_memory of
           None \<Rightarrow> raiseM (HTTPException 404 ''Memory version not found'')
         | Some memory \<Rightarrow> returnM (version, memory))))"

definition retrieve_memory_version :: "string \<Rightarrow> string \<Rightarrow> string option \<Rightarrow> pdict M" where
  "retrieve_memory_version store_id i view0 = session_scope (
     bindM (liftE (normalize_memory_view view0)) (\<lambda>view.
     bindM (version_of_store store_id i) (\<lambda>(version, _). resource_response version view)))"

definition current_version_of :: "resource_row \<Rightarrow> resource_row \<Rightarrow> bool res" where
  "current_version_of memory version =
     (if mr_deleted_at memory \<noteq> None then Inr False
      else if dget ''memory_version_id'' (mr_data memory) = PStr (mr_id version) then Inr True
      else bindE (py_int (por (dget ''version'' (mr_data memory)) (PInt 0))) (\<lambda>m.
        bindE (py_int (por (por (pint_opt (mr_version version)) (dget ''memory_version'' (mr_data version))) (PInt 0))) (\<lambda>n.
        Inr (m = n))))"

definition redacted_memory_data :: "pdict \<Rightarrow> string \<Rightarrow> pdict" where
  "redacted_memory_data data now =
     dset ''redacted_at'' (PStr now) (dset ''redacted'' (PBool True) (dpop ''content'' data))"

definition redact_memory_version_body :: "string \<Rightarrow> string \<Rightarrow> pdict M" where
  "redact_memory_version_body store_id i =
     bindM (version_of_store store_id i) (\<lambda>(version, memory).
     bindM (liftE (current_version_of memory version)) (\<lambda>current.
     seqM (guardM current (HTTPException 409 ''Current live memory version cannot be redacted'')) (
     bindM (liftE (dict_or_empty (dget ''snapshot'' (mr_data version)))) (\<lambda>_.
     bindM nowM (\<lambda>now.
     bindM (liftE (redacted_version_data (mr_data version) (isoformat now))) (\<lambda>data.
     bindM (update_resource version (resource_patch0\<lparr>rp_data := Some data\<rparr>)) (\<lambda>version1.
     seqM (if mr_deleted_at memory = None \<and> py_eq (dget ''version'' (mr_data memory)) (dget ''memory_version'' data)
           then bindM (update_resource memory (resource_patch0\<lparr>
                  rp_data := Some (redacted_memory_data (mr_data memory) (isoformat now))\<rparr>)) (\<lambda>_. returnM ())
           else returnM ())
       (seqM commitM (resource_response version1 None)))))))))"

definition redact_memory_version :: "string \<Rightarrow> string \<Rightarrow> pdict M" where
  "redact_memory_version store_id i = session_scope (redact_memory_version_body store_id i)"

end
