(* ===== verification/MemoryFacts.thy ===== *)
theory MemoryFacts
  imports Memories Publish
begin

text \<open>
  What holds of the memories of a store: every memory has a complete, numbered history whose last entry says what
  the memory says, live memories of a store have different paths and are at most 2000, the record of a version
  never changes but for the marks of a redaction, and no update is lost.
\<close>

section \<open>Rows of memories\<close>

definition is_memory :: "resource_row \<Rightarrow> bool" where
  "is_memory r \<longleftrightarrow> mr_resource_type r = ''memory''"

definition is_version :: "resource_row \<Rightarrow> bool" where
  "is_version r \<longleftrightarrow> mr_resource_type r = ''memory_version''"

definition versions_at :: "string \<Rightarrow> resource_row list \<Rightarrow> resource_row list" where
  "versions_at i rows = filter (\<lambda>r. is_version r \<and> mr_parent_id r = Some i) rows"

definition live_memories :: "string \<Rightarrow> string option \<Rightarrow> resource_row list \<Rightarrow> resource_row list" where
  "live_memories ws store rows = filter (\<lambda>r. is_memory r \<and> mr_workspace_id r = ws \<and> mr_parent_id r = store
     \<and> mr_deleted_at r = None) rows"

text \<open>A version says what the memory says.\<close>

definition mirrored :: "resource_row \<Rightarrow> resource_row \<Rightarrow> bool" where
  "mirrored v m \<longleftrightarrow> list_all (\<lambda>k. dget k (mr_data v) = dget k (mr_data m))
     [''path'', ''path_key'', ''content'', ''content_sha256'', ''content_size_bytes'']"

text \<open>The history of a memory: versions 1 to its own, the last of which mirrors it.\<close>

definition memory_history :: "resource_row list \<Rightarrow> resource_row \<Rightarrow> bool" where
  "memory_history rows m \<longleftrightarrow> (\<exists>n \<ge> 1. dget ''version'' (mr_data m) = PInt n \<and>
     map mr_version (versions_at (mr_id m) rows) = map Some [1..n]) \<and>
     mirrored (last (versions_at (mr_id m) rows)) m \<and>
     mr_name m = Some (str_at ''path_key'' (mr_data m)) \<and> mr_archived_at m = None"

definition has_memory :: "resource_row list \<Rightarrow> resource_row \<Rightarrow> bool" where
  "has_memory rows v \<longleftrightarrow> list_ex (\<lambda>m. is_memory m \<and> mr_parent_id v = Some (mr_id m)) rows"

text \<open>A version has its number in its column and in its data.\<close>

definition numbered :: "resource_row \<Rightarrow> bool" where
  "numbered v \<longleftrightarrow> (case mr_version v of None \<Rightarrow> False | Some n \<Rightarrow> dget ''memory_version'' (mr_data v) = PInt n)"

definition memory_rows_ok :: "resource_row list \<Rightarrow> bool" where
  "memory_rows_ok rows \<longleftrightarrow> distinct (map mr_id rows) \<and>
     list_all (\<lambda>r. is_memory r \<longrightarrow> memory_history rows r) rows \<and>
     list_all (\<lambda>r. is_version r \<longrightarrow> has_memory rows r \<and> numbered r) rows \<and>
     (\<forall>ws store. distinct (map mr_name (live_memories ws store rows)) \<and>
        length (live_memories ws store rows) \<le> MAX_MEMORIES_PER_STORE)"

section \<open>What happens to them\<close>

definition of_memories :: "resource_row list \<Rightarrow> resource_row list" where
  "of_memories rows = filter (\<lambda>r. is_memory r \<or> is_version r) rows"

definition same_place :: "resource_row \<Rightarrow> resource_row \<Rightarrow> bool" where
  "same_place r r' \<longleftrightarrow> mr_id r' = mr_id r \<and> mr_resource_type r' = mr_resource_type r \<and>
     mr_workspace_id r' = mr_workspace_id r \<and> mr_parent_id r' = mr_parent_id r \<and> mr_version r' = mr_version r \<and>
     mr_archived_at r' = mr_archived_at r"

definition version_of :: "resource_row \<Rightarrow> int \<Rightarrow> resource_row \<Rightarrow> bool" where
  "version_of m n v \<longleftrightarrow> is_version v \<and> mr_parent_id v = Some (mr_id m) \<and> mr_version v = Some n \<and> numbered v \<and> mirrored v m"

text \<open>Redaction marks a version and takes the content out of its snapshot; the rest of the record stays.\<close>

definition withheld :: "resource_row \<Rightarrow> bool" where
  "withheld v \<longleftrightarrow> dget ''redacted'' (mr_data v) = PBool True \<and>
     (case dget ''snapshot'' (mr_data v) of PDict s \<Rightarrow> \<not> has_key ''content'' s | _ \<Rightarrow> False)"

definition redaction_of :: "resource_row \<Rightarrow> resource_row \<Rightarrow> bool" where
  "redaction_of v v' \<longleftrightarrow> same_place v v' \<and> mr_deleted_at v' = mr_deleted_at v \<and>
     (\<forall>k. k \<notin> {''snapshot'', ''redacted'', ''redacted_at''} \<longrightarrow> dget k (mr_data v') = dget k (mr_data v)) \<and>
     withheld v'"

inductive memory_move :: "resource_row list \<Rightarrow> resource_row list \<Rightarrow> bool" where
  apart: "distinct (map mr_id rows') \<Longrightarrow> of_memories rows' = of_memories rows \<Longrightarrow> memory_move rows rows'"
| born: "is_memory m \<Longrightarrow> version_of m 1 v \<Longrightarrow> mr_id m \<notin> mr_id ` set rows \<Longrightarrow> mr_id v \<notin> insert (mr_id m) (mr_id ` set rows) \<Longrightarrow>
    dget ''version'' (mr_data m) = PInt 1 \<Longrightarrow> mr_name m = Some (str_at ''path_key'' (mr_data m)) \<Longrightarrow> mr_archived_at m = None \<Longrightarrow>
    mr_name m \<notin> mr_name ` set (live_memories (mr_workspace_id m) (mr_parent_id m) rows) \<Longrightarrow>
    length (live_memories (mr_workspace_id m) (mr_parent_id m) rows) < MAX_MEMORIES_PER_STORE \<Longrightarrow>
    memory_move rows (rows @ [m, v])"
| revised: "m \<in> set rows \<Longrightarrow> is_memory m \<Longrightarrow> same_place m m' \<Longrightarrow> dget ''version'' (mr_data m) = PInt n \<Longrightarrow>
    dget ''version'' (mr_data m') = PInt (n + 1) \<Longrightarrow> version_of m' (n + 1) v \<Longrightarrow> mr_id v \<notin> mr_id ` set rows \<Longrightarrow>
    mr_name m' = Some (str_at ''path_key'' (mr_data m')) \<Longrightarrow>
    (mr_deleted_at m' = None \<Longrightarrow> mr_deleted_at m = None \<and> (mr_name m' = mr_name m \<or>
      mr_name m' \<notin> mr_name ` set (live_memories (mr_workspace_id m) (mr_parent_id m) rows))) \<Longrightarrow>
    memory_move rows (replace_by mr_id m' rows @ [v])"
| redacted: "v \<in> set rows \<Longrightarrow> is_version v \<Longrightarrow> redaction_of v v' \<Longrightarrow> memory_move rows (replace_by mr_id v' rows)"

subsection \<open>Replacing a row\<close>

lemma filter_replace:
  "filter P (replace_by mr_id m' rows) = replace_by mr_id m' (filter (\<lambda>r. if mr_id r = mr_id m' then P m' else P r) rows)"
  by (simp add: replace_by_def filter_map o_def if_distrib [of P] cong: if_cong)

lemma only_row:
  assumes "distinct (map mr_id rows)" "m \<in> set rows" "r \<in> set rows" "mr_id r = mr_id m"
  shows "r = m"
  using assms by (auto simp: distinct_map dest: inj_onD)

lemma replaced_set:
  assumes "distinct (map mr_id rows)" "m \<in> set rows" "mr_id m' = mr_id m"
  shows "set (replace_by mr_id m' rows) = insert m' (set rows - {m})"
proof -
  have "mr_id r = mr_id m' \<longleftrightarrow> r = m" if "r \<in> set rows" for r
    using only_row [OF assms(1,2) that] assms(3) by auto
  with assms(2) show ?thesis by (auto simp: replace_by_def image_iff)
qed

lemma filter_replace_same:
  assumes "distinct (map mr_id rows)" "m \<in> set rows" "mr_id m' = mr_id m" "P m" "P m'"
  shows "filter P (replace_by mr_id m' rows) = replace_by mr_id m' (filter P rows)"
proof -
  have "(if mr_id r = mr_id m' then P m' else P r) = P r" if "r \<in> set rows" for r
    using only_row [OF assms(1,2) that] assms(3-5) by (cases "mr_id r = mr_id m'") simp_all
  then have "filter (\<lambda>r. if mr_id r = mr_id m' then P m' else P r) rows = filter P rows" by (rule filter_cong [OF refl])
  then show ?thesis unfolding filter_replace by (rule arg_cong)
qed

lemma filter_replace_gone:
  assumes "\<not> P m'"
  shows "filter P (replace_by mr_id m' rows) = filter (\<lambda>r. P r \<and> mr_id r \<noteq> mr_id m') rows"
proof -
  have "filter (\<lambda>r. if mr_id r = mr_id m' then P m' else P r) rows = filter (\<lambda>r. P r \<and> mr_id r \<noteq> mr_id m') rows"
    using assms by (intro filter_cong) auto
  moreover have "replace_by mr_id m' (filter (\<lambda>r. P r \<and> mr_id r \<noteq> mr_id m') rows) = filter (\<lambda>r. P r \<and> mr_id r \<noteq> mr_id m') rows"
    unfolding replace_by_def by (rule map_idI) auto
  ultimately show ?thesis unfolding filter_replace by (rule trans [OF arg_cong])
qed

lemma filter_replace_other:
  assumes "distinct (map mr_id rows)" "m \<in> set rows" "mr_id m' = mr_id m" "\<not> P m" "\<not> P m'"
  shows "filter P (replace_by mr_id m' rows) = filter P rows"
proof -
  have "(P r \<and> mr_id r \<noteq> mr_id m') = P r" if "r \<in> set rows" for r
    using only_row [OF assms(1,2) that] assms(3,4) by auto
  then have "filter (\<lambda>r. P r \<and> mr_id r \<noteq> mr_id m') rows = filter P rows" by (rule filter_cong [OF refl])
  then show ?thesis using filter_replace_gone [of P m' rows, OF assms(5)] by simp
qed

lemma replaced_names:
  assumes "distinct (map mr_name rows)" "mr_name m' \<notin> mr_name ` set rows" "distinct (map mr_id rows)"
  shows "distinct (map mr_name (replace_by mr_id m' rows))"
proof -
  have inj: "inj_on mr_name (set rows)" using assms(1) by (simp add: distinct_map)
  have "distinct (map mr_id (replace_by mr_id m' rows))" using assms(3) by simp
  then have "distinct (replace_by mr_id m' rows)" by (simp only: distinct_map)
  moreover have "x = y" if "x \<in> set (replace_by mr_id m' rows)" "y \<in> set (replace_by mr_id m' rows)" "mr_name x = mr_name y" for x y
    using set_replace_by [OF that(1)] set_replace_by [OF that(2)] that(3) assms(2) inj_onD [OF inj that(3)]
      imageI [of x "set rows" mr_name] imageI [of y "set rows" mr_name] by auto
  ultimately show ?thesis by (simp add: distinct_map inj_on_def)
qed

lemma replaced_same_name:
  assumes "\<And>r. r \<in> set rows \<Longrightarrow> mr_id r = mr_id m' \<Longrightarrow> mr_name r = mr_name m'"
  shows "map mr_name (replace_by mr_id m' rows) = map mr_name rows"
  using assms by (auto simp: replace_by_def)

subsection \<open>The invariant\<close>

lemma version_not_memory: "is_version r \<Longrightarrow> \<not> is_memory r"
  by (simp add: is_version_def is_memory_def)

lemma same_kind: "same_place r r' \<Longrightarrow> is_memory r' = is_memory r \<and> is_version r' = is_version r"
  by (simp add: same_place_def is_version_def is_memory_def)

lemma versions_at_append [simp]:
  "versions_at i (rows @ qs) = versions_at i rows @ versions_at i qs" "versions_at i [] = []"
  "versions_at i (r # rows) = (if is_version r \<and> mr_parent_id r = Some i then r # versions_at i rows else versions_at i rows)"
  by (simp_all add: versions_at_def)

lemma live_append [simp]:
  "live_memories ws p (rows @ qs) = live_memories ws p rows @ live_memories ws p qs" "live_memories ws p [] = []"
  "live_memories ws p (r # rows) = (if is_memory r \<and> mr_workspace_id r = ws \<and> mr_parent_id r = p \<and> mr_deleted_at r = None
     then r # live_memories ws p rows else live_memories ws p rows)"
  by (simp_all add: live_memories_def)

lemma memory_parts:
  "versions_at i rows = filter (\<lambda>r. is_version r \<and> mr_parent_id r = Some i) (of_memories rows)"
  "live_memories ws p rows =
     filter (\<lambda>r. is_memory r \<and> mr_workspace_id r = ws \<and> mr_parent_id r = p \<and> mr_deleted_at r = None) (of_memories rows)"
  unfolding of_memories_def versions_at_def live_memories_def filter_filter by (rule filter_cong [OF refl], auto)+

lemma apart_parts:
  assumes "of_memories rows' = of_memories rows"
  shows "versions_at i rows' = versions_at i rows" "live_memories ws p rows' = live_memories ws p rows"
    "is_memory r \<or> is_version r \<Longrightarrow> r \<in> set rows' \<longleftrightarrow> r \<in> set rows"
proof -
  show "versions_at i rows' = versions_at i rows" "live_memories ws p rows' = live_memories ws p rows"
    by (simp_all only: memory_parts assms)
  have "r \<in> set (of_memories rows') \<longleftrightarrow> r \<in> set (of_memories rows)" using assms by simp
  then show "is_memory r \<or> is_version r \<Longrightarrow> r \<in> set rows' \<longleftrightarrow> r \<in> set rows" by (auto simp: of_memories_def)
qed

lemma history_moves:
  assumes "memory_history rows m" "versions_at (mr_id m) rows' = versions_at (mr_id m) rows"
  shows "memory_history rows' m"
  using assms by (simp add: memory_history_def)

lemma has_memory_iff: "has_memory rows v \<longleftrightarrow> (\<exists>m \<in> set rows. is_memory m \<and> mr_parent_id v = Some (mr_id m))"
  by (simp add: has_memory_def list_ex_iff)

lemma memory_rows_okD:
  assumes "memory_rows_ok rows"
  shows "distinct (map mr_id rows)" "m \<in> set rows \<Longrightarrow> is_memory m \<Longrightarrow> memory_history rows m"
    "v \<in> set rows \<Longrightarrow> is_version v \<Longrightarrow> \<exists>m \<in> set rows. is_memory m \<and> mr_parent_id v = Some (mr_id m)"
    "v \<in> set rows \<Longrightarrow> is_version v \<Longrightarrow> numbered v"
    "distinct (map mr_name (live_memories ws p rows))" "length (live_memories ws p rows) \<le> MAX_MEMORIES_PER_STORE"
  using assms unfolding memory_rows_ok_def list_all_iff has_memory_iff by blast+

lemma memory_rows_okI:
  assumes "distinct (map mr_id rows)" "\<And>m. m \<in> set rows \<Longrightarrow> is_memory m \<Longrightarrow> memory_history rows m"
    "\<And>v. v \<in> set rows \<Longrightarrow> is_version v \<Longrightarrow> \<exists>m \<in> set rows. is_memory m \<and> mr_parent_id v = Some (mr_id m)"
    "\<And>v. v \<in> set rows \<Longrightarrow> is_version v \<Longrightarrow> numbered v"
    "\<And>ws p. distinct (map mr_name (live_memories ws p rows)) \<and> length (live_memories ws p rows) \<le> MAX_MEMORIES_PER_STORE"
  shows "memory_rows_ok rows"
  using assms unfolding memory_rows_ok_def list_all_iff has_memory_iff by blast

lemma no_versions_yet:
  assumes "memory_rows_ok rows" "i \<notin> mr_id ` set rows"
  shows "versions_at i rows = []"
proof -
  have "mr_parent_id v \<noteq> Some i" if "v \<in> set rows" "is_version v" for v
    using memory_rows_okD(3) [OF assms(1) that] assms(2) by auto
  then show ?thesis by (auto simp: versions_at_def filter_empty_conv)
qed

lemma upto_more: "0 \<le> n \<Longrightarrow> [1..n + 1] = [1..n] @ [n + 1]" for n :: int
  using upto_rec2 [of 1 "n + 1"] by simp

lemma born_keeps:
  assumes "memory_rows_ok rows" "is_memory m" "version_of m 1 v" "mr_id m \<notin> mr_id ` set rows"
    "mr_id v \<notin> insert (mr_id m) (mr_id ` set rows)" "dget ''version'' (mr_data m) = PInt 1"
    "mr_name m = Some (str_at ''path_key'' (mr_data m))" "mr_archived_at m = None"
    "mr_name m \<notin> mr_name ` set (live_memories (mr_workspace_id m) (mr_parent_id m) rows)"
    "length (live_memories (mr_workspace_id m) (mr_parent_id m) rows) < MAX_MEMORIES_PER_STORE"
  shows "memory_rows_ok (rows @ [m, v])"
proof -
  have v: "is_version v" "mr_parent_id v = Some (mr_id m)" "mr_version v = Some 1" "mirrored v m" "\<not> is_memory v" "\<not> is_version m"
    using assms(2,3) version_not_memory [of m] version_not_memory [of v] by (auto simp: version_of_def)
  have none: "versions_at (mr_id m) rows = []" by (rule no_versions_yet [OF assms(1,4)])
  show ?thesis
  proof (rule memory_rows_okI)
    show "distinct (map mr_id (rows @ [m, v]))" using memory_rows_okD(1) [OF assms(1)] assms(4,5) by auto
  next
    fix r assume r: "r \<in> set (rows @ [m, v])" "is_memory r"
    show "memory_history (rows @ [m, v]) r"
    proof (cases "r = m")
      case True
      with none v assms(6-8) show ?thesis by (simp add: memory_history_def)
    next
      case False
      then have "r \<in> set rows" using r v by auto
      with memory_rows_okD(2) [OF assms(1) this r(2)] assms(4) v show ?thesis
        by (auto intro!: history_moves [of rows])
    qed
  next
    fix x assume x: "x \<in> set (rows @ [m, v])" "is_version x"
    then have "x = v \<or> x \<in> set rows" using v by auto
    with memory_rows_okD(3,4) [OF assms(1), of x] x(2) assms(2,3) v(2)
    show "\<exists>m \<in> set (rows @ [m, v]). is_memory m \<and> mr_parent_id x = Some (mr_id m)" "numbered x"
      by (auto simp: version_of_def)
  next
    fix ws p
    show "distinct (map mr_name (live_memories ws p (rows @ [m, v]))) \<and>
      length (live_memories ws p (rows @ [m, v])) \<le> MAX_MEMORIES_PER_STORE"
      using memory_rows_okD(5,6) [OF assms(1), of ws p] assms(9,10) v(5) by auto
  qed
qed

lemma revised_live:
  assumes "memory_rows_ok rows" "m \<in> set rows" "is_memory m" "same_place m m'"
    "mr_deleted_at m' = None \<Longrightarrow> mr_deleted_at m = None \<and> (mr_name m' = mr_name m \<or>
      mr_name m' \<notin> mr_name ` set (live_memories (mr_workspace_id m) (mr_parent_id m) rows))"
  shows "distinct (map mr_name (live_memories ws p (replace_by mr_id m' rows))) \<and>
    length (live_memories ws p (replace_by mr_id m' rows)) \<le> MAX_MEMORIES_PER_STORE"
proof -
  let ?P = "\<lambda>r. is_memory r \<and> mr_workspace_id r = ws \<and> mr_parent_id r = p \<and> mr_deleted_at r = None"
  have ok: "distinct (map mr_id rows)" "distinct (map mr_name (filter ?P rows))" "length (filter ?P rows) \<le> MAX_MEMORIES_PER_STORE"
    using memory_rows_okD(1,5,6) [OF assms(1)] unfolding live_memories_def by blast+
  have m: "mr_id m' = mr_id m" "is_memory m'" "mr_workspace_id m' = mr_workspace_id m" "mr_parent_id m' = mr_parent_id m"
    using assms(3,4) same_kind [OF assms(4)] by (simp_all add: same_place_def)
  have ids: "distinct (map mr_id (filter ?P rows))" using ok(1) by (rule distinct_map_filter)
  show ?thesis
  proof (cases "?P m'")
    case True
    then have P: "?P m" using assms(3,5) m by auto
    note f = filter_replace_same [of rows m m' ?P, OF ok(1) assms(2) m(1) P True]
    show ?thesis
    proof (cases "mr_name m' = mr_name m")
      case same: True
      have names: "map mr_name (replace_by mr_id m' (filter ?P rows)) = map mr_name (filter ?P rows)"
      proof (rule replaced_same_name)
        fix r assume "r \<in> set (filter ?P rows)" "mr_id r = mr_id m'"
        then have "r = m" using only_row [OF ok(1) assms(2), of r] m(1) by simp
        with same show "mr_name r = mr_name m'" by simp
      qed
      show ?thesis unfolding live_memories_def f names length_replace_by using ok(2,3) by simp
    next
      case False
      then have "mr_name m' \<notin> mr_name ` set (filter ?P rows)"
        using assms(5) True P unfolding live_memories_def by auto
      from replaced_names [OF ok(2) this ids] ok(3) f show ?thesis unfolding live_memories_def by simp
    qed
  next
    case False
    have f: "filter ?P (replace_by mr_id m' rows) = filter (\<lambda>r. mr_id r \<noteq> mr_id m') (filter ?P rows)"
      using filter_replace_gone [of ?P m' rows, OF False] by (simp add: conj_commute)
    have "distinct (map mr_name (filter (\<lambda>r. mr_id r \<noteq> mr_id m') (filter ?P rows)))" using ok(2) by (rule distinct_map_filter)
    moreover have "length (filter (\<lambda>r. mr_id r \<noteq> mr_id m') (filter ?P rows)) \<le> MAX_MEMORIES_PER_STORE"
      using ok(3) length_filter_le order_trans by blast
    ultimately show ?thesis unfolding live_memories_def f by blast
  qed
qed

lemma revised_keeps:
  assumes "memory_rows_ok rows" "m \<in> set rows" "is_memory m" "same_place m m'" "dget ''version'' (mr_data m) = PInt n"
    "dget ''version'' (mr_data m') = PInt (n + 1)" "version_of m' (n + 1) v" "mr_id v \<notin> mr_id ` set rows"
    "mr_name m' = Some (str_at ''path_key'' (mr_data m'))"
    "mr_deleted_at m' = None \<Longrightarrow> mr_deleted_at m = None \<and> (mr_name m' = mr_name m \<or>
      mr_name m' \<notin> mr_name ` set (live_memories (mr_workspace_id m) (mr_parent_id m) rows))"
  shows "memory_rows_ok (replace_by mr_id m' rows @ [v])"
proof (rule memory_rows_okI)
  let ?rows = "replace_by mr_id m' rows @ [v]"
  note ids = memory_rows_okD(1) [OF assms(1)]
  have m: "mr_id m' = mr_id m" "is_memory m'" "\<not> is_version m" "\<not> is_version m'" "mr_archived_at m' = mr_archived_at m"
    using assms(3,4) same_kind [OF assms(4)] version_not_memory [of m] by (auto simp: same_place_def)
  have v: "is_version v" "mr_parent_id v = Some (mr_id m)" "mr_version v = Some (n + 1)" "mirrored v m'" "\<not> is_memory v"
    using assms(7) m(1) version_not_memory [of v] by (auto simp: version_of_def)
  note set = replaced_set [OF ids assms(2) m(1)]
  have versions: "versions_at i ?rows = versions_at i rows @ (if i = mr_id m then [v] else [])" for i
    using filter_replace_other [OF ids assms(2) m(1), of "\<lambda>r. is_version r \<and> mr_parent_id r = Some i"] m(3,4) v(1,2)
    by (simp add: versions_at_def)
  show "distinct (map mr_id ?rows)"
    unfolding map_append keys_replace_by using ids assms(8) by simp
  show "memory_history ?rows r" if "r \<in> set ?rows" "is_memory r" for r
  proof (cases "r = m'")
    case True
    from memory_rows_okD(2) [OF assms(1-3)] assms(5) have h: "n \<ge> 1" "map mr_version (versions_at (mr_id m) rows) = map Some [1..n]"
      "mr_archived_at m = None" by (auto simp: memory_history_def)
    with True versions m v assms(6,9) upto_more [of n] show ?thesis by (simp add: memory_history_def)
  next
    case False
    then have r: "r \<in> set rows" "mr_id r \<noteq> mr_id m"
      using that v(5) set only_row [OF ids assms(2), of r] by auto
    from memory_rows_okD(2) [OF assms(1) r(1) that(2)] show ?thesis
      by (rule history_moves) (simp only: versions r(2) if_False append_Nil2)
  qed
  show "numbered x" if x: "x \<in> set ?rows" "is_version x" for x
    using x set m(4) memory_rows_okD(4) [OF assms(1), of x] assms(7) by (auto simp: version_of_def)
  show "\<exists>m \<in> set ?rows. is_memory m \<and> mr_parent_id x = Some (mr_id m)" if x: "x \<in> set ?rows" "is_version x" for x
  proof (cases "x = v")
    case True
    with m v set show ?thesis by auto
  next
    case False
    then have "x \<in> set rows" using x set m(4) by auto
    from memory_rows_okD(3) [OF assms(1) this x(2)] obtain y where y: "y \<in> set rows" "is_memory y" "mr_parent_id x = Some (mr_id y)"
      by blast
    show ?thesis
    proof (cases "y = m")
      case True
      with y m set show ?thesis by auto
    next
      case False
      with y set show ?thesis by auto
    qed
  qed
  show "distinct (map mr_name (live_memories ws p ?rows)) \<and> length (live_memories ws p ?rows) \<le> MAX_MEMORIES_PER_STORE" for ws p
    using revised_live [OF assms(1-4,10), of ws p] v(5) by simp
qed

lemma redacted_versions:
  assumes "distinct (map mr_id rows)" "v \<in> set rows" "is_version v" "same_place v v'"
  shows "versions_at i (replace_by mr_id v' rows) = replace_by mr_id v' (versions_at i rows)"
proof -
  have v: "mr_id v' = mr_id v" "is_version v'" "mr_parent_id v' = mr_parent_id v"
    using assms(3,4) same_kind [OF assms(4)] by (auto simp: same_place_def)
  show ?thesis
  proof (cases "mr_parent_id v = Some i")
    case True
    with filter_replace_same [OF assms(1,2) v(1), of "\<lambda>r. is_version r \<and> mr_parent_id r = Some i"] assms(3) v(2,3)
    show ?thesis by (simp add: versions_at_def)
  next
    case False
    with filter_replace_other [OF assms(1,2) v(1), of "\<lambda>r. is_version r \<and> mr_parent_id r = Some i"] v(3)
    have "versions_at i (replace_by mr_id v' rows) = versions_at i rows" by (simp add: versions_at_def)
    moreover have "mr_id r \<noteq> mr_id v'" if "r \<in> set (versions_at i rows)" for r
      using that False only_row [OF assms(1,2), of r] v(1) by (auto simp: versions_at_def)
    then have "replace_by mr_id v' (versions_at i rows) = versions_at i rows"
      unfolding replace_by_def by (intro map_idI) auto
    ultimately show ?thesis by simp
  qed
qed

lemma redacted_keeps:
  assumes "memory_rows_ok rows" "v \<in> set rows" "is_version v" "redaction_of v v'"
  shows "memory_rows_ok (replace_by mr_id v' rows)"
proof (rule memory_rows_okI)
  let ?rows = "replace_by mr_id v' rows"
  note ids = memory_rows_okD(1) [OF assms(1)]
  have place: "same_place v v'" using assms(4) by (simp add: redaction_of_def)
  have v: "mr_id v' = mr_id v" "is_version v'" "mr_parent_id v' = mr_parent_id v" "mr_version v' = mr_version v"
    "\<not> is_memory v" "\<not> is_memory v'"
    using assms(3) place same_kind [OF place] version_not_memory [of v] by (auto simp: same_place_def)
  note set = replaced_set [OF ids assms(2) v(1)]
  have mirror: "mirrored v' m = mirrored v m" for m
    using assms(4) by (simp add: mirrored_def redaction_of_def)
  note versions = redacted_versions [OF ids assms(2,3) place]
  show "distinct (map mr_id ?rows)" using ids by simp
  show "memory_history ?rows m" if m: "m \<in> set ?rows" "is_memory m" for m
  proof -
    have "m \<in> set rows" using m set v(6) by auto
    from memory_rows_okD(2) [OF assms(1) this m(2)] obtain n where h: "n \<ge> 1" "dget ''version'' (mr_data m) = PInt n"
      "map mr_version (versions_at (mr_id m) rows) = map Some [1..n]" "mirrored (last (versions_at (mr_id m) rows)) m"
      "mr_name m = Some (str_at ''path_key'' (mr_data m))" "mr_archived_at m = None"
      by (auto simp: memory_history_def)
    let ?vs = "versions_at (mr_id m) rows"
    have same: "r = v" if "r \<in> set ?vs" "mr_id r = mr_id v'" for r
      using that only_row [OF ids assms(2), of r] v(1) by (simp add: versions_at_def)
    have "map mr_version (replace_by mr_id v' ?vs) = map mr_version ?vs"
      using same v(4) by (auto simp: replace_by_def)
    moreover have "?vs \<noteq> []" using h(1,3) by auto
    then have "last ?vs \<in> set ?vs" "last (replace_by mr_id v' ?vs) = (if mr_id (last ?vs) = mr_id v' then v' else last ?vs)"
      by (simp_all add: replace_by_def last_map)
    then have "mirrored (last (replace_by mr_id v' ?vs)) m" using h(4) same mirror by auto
    ultimately show ?thesis using h versions by (simp add: memory_history_def)
  qed
  have "numbered v'"
    using memory_rows_okD(4) [OF assms(1-3)] assms(4) v(4) by (auto simp: numbered_def redaction_of_def split: option.splits)
  then show "numbered x" if x: "x \<in> set ?rows" "is_version x" for x
    using x set memory_rows_okD(4) [OF assms(1), of x] by auto
  show "\<exists>m \<in> set ?rows. is_memory m \<and> mr_parent_id x = Some (mr_id m)" if x: "x \<in> set ?rows" "is_version x" for x
  proof -
    have "x = v' \<or> x \<in> set rows" using x set by auto
    then have "\<exists>m \<in> set rows. is_memory m \<and> mr_parent_id x = Some (mr_id m)"
      using memory_rows_okD(3) [OF assms(1,2,3)] memory_rows_okD(3) [OF assms(1) _ x(2)] v(3) by auto
    then show ?thesis using set v(5) by auto
  qed
  have "live_memories ws p ?rows = live_memories ws p rows" for ws p
    using filter_replace_other [OF ids assms(2) v(1)] v(5,6) by (simp add: live_memories_def)
  then show "distinct (map mr_name (live_memories ws p ?rows)) \<and> length (live_memories ws p ?rows) \<le> MAX_MEMORIES_PER_STORE" for ws p
    using memory_rows_okD(5,6) [OF assms(1), of ws p] by simp
qed

lemma memory_move_keeps:
  assumes "memory_move rows rows'" "memory_rows_ok rows"
  shows "memory_rows_ok rows'"
  using assms
proof cases
  case apart
  note parts = apart_parts [OF apart(2)]
  show ?thesis
  proof (rule memory_rows_okI)
    show "memory_history rows' m" if "m \<in> set rows'" "is_memory m" for m
      using memory_rows_okD(2) [OF assms(2), of m] that parts by (auto intro: history_moves)
    show "\<exists>m \<in> set rows'. is_memory m \<and> mr_parent_id v = Some (mr_id m)" if "v \<in> set rows'" "is_version v" for v
      using memory_rows_okD(3) [OF assms(2), of v] that parts(3) by blast
    show "numbered v" if "v \<in> set rows'" "is_version v" for v
      using memory_rows_okD(4) [OF assms(2), of v] that parts(3) by blast
    show "distinct (map mr_name (live_memories ws p rows')) \<and> length (live_memories ws p rows') \<le> MAX_MEMORIES_PER_STORE" for ws p
      using memory_rows_okD(5,6) [OF assms(2), of ws p] parts(2) by simp
  qed (rule apart(1))
next
  case (born m v)
  with born_keeps [OF assms(2)] show ?thesis by simp
next
  case (revised m m' n v)
  with revised_keeps [OF assms(2)] show ?thesis by simp
next
  case (redacted v v')
  with redacted_keeps [OF assms(2)] show ?thesis by simp
qed


section \<open>What the handlers do\<close>

lemma reading_memories [reading]:
  "keeps tables_kept (must_write_memory_store s)" "keeps tables_kept (ensure_memory_store_capacity s)"
  "keeps tables_kept (memory_payload b)" "keeps tables_kept (find_memory_by_path s k)"
  "keeps tables_kept (merge_memory_data e u)" "keeps tables_kept (path_taken s m d)"
  "keeps tables_kept (version_of_store s i)"
  unfolding must_write_memory_store_def ensure_memory_store_capacity_def memory_payload_def find_memory_by_path_def
    merge_memory_data_def path_taken_def version_of_store_def Let_def
  by (intro kept.control reading)+

lemma drafting_version [drafting]: "keeps unpublished (create_memory_version m n a p d)"
  unfolding create_memory_version_def by (rule drafting_changes)

lemma ws_same: "w_workspace v = w_workspace w \<Longrightarrow> ws_of x v = ws_of x w"
  by (auto simp: ws_of_def workspace_id_or_default_def mon_defs split: option.split)

lemma must_write_Inr:
  assumes "must_write_memory_store s w = (Inr r, w')"
  shows "w' = w"
  using assms by (auto simp: must_write_memory_store_def mon_simps dest: must_exist_Inr(1))

lemma ensure_capacity_Inr:
  assumes "ensure_memory_store_capacity s w = (Inr u, w')" "memory_rows_ok (db_resources (w_db w))"
  shows "w' = w" "length (live_memories (ws_of None w) (Some s) (db_resources (w_db w))) < MAX_MEMORIES_PER_STORE"
proof -
  let ?Q = "\<lambda>r. mr_resource_type r = ''memory'' \<and> mr_workspace_id r = ws_of None w
    \<and> (False \<or> mr_deleted_at r = None) \<and> opt_eq (Some s) (mr_parent_id r) \<and> (False \<or> mr_archived_at r = None)"
  from assms(1) show "w' = w" by (auto simp: ensure_memory_store_capacity_def list_resources_def mon_simps mon_defs)
  from assms(1) have "min (length (filter ?Q (db_resources (w_db w)))) (MAX_MEMORIES_PER_STORE + 1) < MAX_MEMORIES_PER_STORE"
    by (simp add: ensure_memory_store_capacity_def list_resources_def bindM_def mon_defs limit_rows_def split: if_splits)
  then have "length (filter ?Q (db_resources (w_db w))) < MAX_MEMORIES_PER_STORE" by simp
  moreover have "filter ?Q (db_resources (w_db w)) = live_memories (ws_of None w) (Some s) (db_resources (w_db w))"
    unfolding live_memories_def
    using memory_rows_okD(2) [OF assms(2)]
    by (intro filter_cong) (auto simp: is_memory_def opt_eq_def memory_history_def)
  ultimately show "length (live_memories (ws_of None w) (Some s) (db_resources (w_db w))) < MAX_MEMORIES_PER_STORE" by simp
qed

lemma no_memory_at:
  assumes "find_memory_by_path s k w = (Inr None, w')"
  shows "w' = w" "Some k \<notin> mr_name ` set (live_memories (ws_of None w) (Some s) (db_resources (w_db w)))"
proof -
  from no_row_named [OF assms [unfolded find_memory_by_path_def]] have "w' = w" and
    none: "filter (\<lambda>r. mr_resource_type r = ''memory'' \<and> mr_name r = Some k \<and> mr_workspace_id r = ws_of None w
     \<and> opt_eq (Some s) (mr_parent_id r) \<and> mr_deleted_at r = None) (db_resources (w_db w)) = []" .
  then show "w' = w" by simp
  from none show "Some k \<notin> mr_name ` set (live_memories (ws_of None w) (Some s) (db_resources (w_db w)))"
    by (auto simp: live_memories_def is_memory_def opt_eq_def filter_empty_conv)
qed

lemma memory_payload_Inr:
  assumes "memory_payload b w = (Inr data, w')"
  shows "dget ''version'' data = PInt 1" "w_db w' = w_db w" "w_workspace w' = w_workspace w"
  using assms by (auto simp: memory_payload_def mon_simps mon_defs Let_def content_metadata_def)

text \<open>A version made for a memory says what the given data say, or the memory's.\<close>

lemma version_made:
  assumes "create_memory_version m n a p d w = (Inr v, w')"
  shows "db_resources (w_db w') = db_resources (w_db w) @ [v]" "mr_id v \<notin> mr_id ` set (db_resources (w_db w))"
    "mr_data m' = (if d \<noteq> [] then d else mr_data m) \<Longrightarrow> mr_id m' = mr_id m \<Longrightarrow> version_of m' n v"
    "w_workspace w' = w_workspace w"
proof -
  note made = assms [unfolded create_memory_version_def]
  from create_resource_run [OF made] create_resource_new [OF made]
  show "db_resources (w_db w') = db_resources (w_db w) @ [v]" "mr_id v \<notin> mr_id ` set (db_resources (w_db w))"
    "w_workspace w' = w_workspace w" by simp_all
  from create_resource_run [OF made] create_resource_new [OF made]
  show "version_of m' n v" if "mr_data m' = (if d \<noteq> [] then d else mr_data m)" "mr_id m' = mr_id m"
    using that by (simp add: version_of_def is_version_def resource_args0_def mirrored_def numbered_def memory_version_data_def
        memory_snapshot_def Let_def)
qed

lemma create_memory_moves:
  assumes "memory_rows_ok (db_resources (w_db w))"
  shows "commits_at (\<lambda>d. memory_move (db_resources (w_db w)) (db_resources d) \<and> (\<exists>m v data.
    db_resources d = db_resources (w_db w) @ [m, v] \<and> is_memory m \<and> is_version v \<and> mr_workspace_id m = ws_of None w \<and>
    mr_parent_id m = Some s \<and> mr_deleted_at m = None \<and> mr_data m = data \<and> fst (memory_payload b w) = Inr data))
    (create_memory_body s b view) w"
  unfolding create_memory_body_def
proof (intro commits_at_commit commit_rules drafting_version drafting_changes drafting reading)
  fix q v x0 v0 x1 v1 data v2 found v3 x2 v4 m v5 r v6
  assume run: "liftE (normalize_memory_view view) w = (Inr q, v)" "must_write_memory_store s v = (Inr x0, v0)"
    "ensure_memory_store_capacity s v0 = (Inr x1, v1)" "memory_payload b v1 = (Inr data, v2)"
    "find_memory_by_path s (str_at ''path_key'' data) v2 = (Inr found, v3)"
    "guardM (found \<noteq> None) (HTTPException 409 ''Memory path already exists in this memory store'') v3 = (Inr x2, v4)"
    "create_resource ''memory'' (resource_args0\<lparr>ra_parent_id := Some s, ra_name := Some (str_at ''path_key'' data), ra_data := data\<rparr>) v4
      = (Inr m, v5)"
    "create_memory_version m 1 (str_at ''updated_by'' data) ''created'' [] v5 = (Inr r, v6)"
  have start: "v = w" "v0 = w" using run(1) must_write_Inr [OF run(2)] by simp_all
  note cap = ensure_capacity_Inr [OF run(3) [unfolded start(2)] assms]
  note pay = memory_payload_Inr [OF run(4) [unfolded cap(1)]]
  have none: "found = None" "v4 = v3" using run(6) by (auto split: if_splits)
  note free = no_memory_at [OF run(5) [unfolded none(1)]]
  note new = create_resource_run [OF run(7) [unfolded none(2) free(1)]] create_resource_new [OF run(7) [unfolded none(2) free(1)]]
  note made = version_made [OF run(8)]
  have ws: "ws_of None v2 = ws_of None w" using pay(3) by (rule ws_same)
  have m: "is_memory m" "mr_data m = data" "mr_parent_id m = Some s" "mr_name m = Some (str_at ''path_key'' data)"
    "mr_workspace_id m = ws_of None w" "mr_deleted_at m = None" "mr_archived_at m = None" "mr_id m \<notin> mr_id ` set (db_resources (w_db w))"
    "db_resources (w_db v5) = db_resources (w_db w) @ [m]"
    using new pay(2) ws by (simp_all add: is_memory_def resource_args0_def)
  have rows: "db_resources (w_db v6) = db_resources (w_db w) @ [m, r]" using made(1) m(9) by simp
  have "version_of m 1 r" by (rule made(3)) simp_all
  then have "is_version r" by (simp add: version_of_def)
  moreover have "fst (memory_payload b w) = Inr data" using run(4) cap(1) by simp
  ultimately have "\<exists>m v data. db_resources (w_db v6) = db_resources (w_db w) @ [m, v] \<and> is_memory m \<and> is_version v \<and>
    mr_workspace_id m = ws_of None w \<and> mr_parent_id m = Some s \<and> mr_deleted_at m = None \<and> mr_data m = data \<and>
    fst (memory_payload b w) = Inr data" using rows m by blast
  moreover have "memory_move (db_resources (w_db w)) (db_resources (w_db v6))"
    unfolding rows
  proof (rule born [OF m(1)])
    show "version_of m 1 r" by (rule made(3)) simp_all
    show "mr_id r \<notin> insert (mr_id m) (mr_id ` set (db_resources (w_db w)))" using made(2) m(9) by auto
    show "mr_name m \<notin> mr_name ` set (live_memories (mr_workspace_id m) (mr_parent_id m) (db_resources (w_db w)))"
      using free(2) m(3-5) ws pay(2) by simp
    show "length (live_memories (mr_workspace_id m) (mr_parent_id m) (db_resources (w_db w))) < MAX_MEMORIES_PER_STORE"
      using cap(2) m(3,5) by simp
  qed (use m pay(1) in simp_all)
  ultimately show "memory_move (db_resources (w_db w)) (db_resources (w_db v6)) \<and> (\<exists>m v data.
    db_resources (w_db v6) = db_resources (w_db w) @ [m, v] \<and> is_memory m \<and> is_version v \<and> mr_workspace_id m = ws_of None w \<and>
    mr_parent_id m = Some s \<and> mr_deleted_at m = None \<and> mr_data m = data \<and> fst (memory_payload b w) = Inr data)" by blast
qed

lemma merge_memory_version:
  assumes "merge_memory_data e u w = (Inr data, w')" "dget ''version'' e = PInt n" "n \<ge> 1"
  shows "dget ''version'' data = PInt (n + 1)" "w_db w' = w_db w" "w_workspace w' = w_workspace w"
proof -
  have item: "dget ''version'' (fold merge_memory_item us m) = dget ''version'' m" for us m
    by (induction us arbitrary: m) (auto simp: merge_memory_item_def UNMERGED_KEYS_def split: prod.split)
  have path: "dget ''version'' m1 = dget ''version'' m" if "merge_memory_path us m = Inr m1" for us m m1
    using that by (auto simp: merge_memory_path_def res_simps split: if_splits)
  have content: "dget ''version'' m1 = dget ''version'' m" if "merge_memory_content us m = Inr m1" for us m m1
    using that by (auto simp: merge_memory_content_def res_simps content_metadata_def Let_def split: if_splits)
  obtain m1 m2 v t where m: "merge_memory_path (dpop ''actor'' (dpop ''updated_by'' u)) e = Inr m1"
    "merge_memory_content (dpop ''actor'' (dpop ''updated_by'' u)) (fold merge_memory_item (dpop ''actor'' (dpop ''updated_by'' u)) m1) = Inr m2"
    "py_int (por (dget ''version'' m2) (PInt 1)) = Inr v" "w' = w\<lparr>w_ticks := Suc (w_ticks w)\<rparr>"
    "data = dsetdefault ''metadata'' (PDict []) (dset ''updated_at'' (PStr (isoformat t))
        (dset ''updated_by'' (PStr (update_actor e u)) (dset ''version'' (PInt (v + 1)) m2)))"
    using assms(1) by (auto simp: merge_memory_data_def mon_simps mon_defs Let_def)
  have "dget ''version'' m2 = PInt n" using path [OF m(1)] content [OF m(2)] item assms(2) by simp
  with m(3) assms(3) have "v = n" by (simp add: por_def truthy_def)
  with m(4,5) show "dget ''version'' data = PInt (n + 1)" "w_db w' = w_db w" "w_workspace w' = w_workspace w" by simp_all
qed

lemma path_free:
  assumes "path_taken s m data w = (Inr False, w')" "memory_rows_ok (db_resources (w_db w))" "m \<in> set (db_resources (w_db w))"
    "is_memory m" "mr_workspace_id m = ws_of None w" "mr_parent_id m = Some s" "mr_deleted_at m = None"
  shows "w' = w" "Some (str_at ''path_key'' data) = mr_name m \<or>
    Some (str_at ''path_key'' data) \<notin> mr_name ` set (live_memories (mr_workspace_id m) (mr_parent_id m) (db_resources (w_db w)))"
proof -
  let ?rows = "db_resources (w_db w)"
  have name: "mr_name m = Some (str_at ''path_key'' (mr_data m))"
    using memory_rows_okD(2) [OF assms(2-4)] by (simp add: memory_history_def)
  have "w' = w \<and> (Some (str_at ''path_key'' data) = mr_name m \<or>
    Some (str_at ''path_key'' data) \<notin> mr_name ` set (live_memories (ws_of None w) (Some s) ?rows))"
  proof (cases "dget ''path_key'' data = dget ''path_key'' (mr_data m)")
    case True
    with assms(1) name show ?thesis by (simp add: path_taken_def str_at_def)
  next
    case False
    then have "bindM (find_memory_by_path s (str_at ''path_key'' data)) (\<lambda>existing.
        returnM (case existing of None \<Rightarrow> False | Some other \<Rightarrow> mr_id other \<noteq> mr_id m)) w = (Inr False, w')"
      using assms(1) by (simp add: path_taken_def)
    then obtain found where f: "find_memory_by_path s (str_at ''path_key'' data) w = (Inr found, w')"
      "\<not> (case found of None \<Rightarrow> False | Some other \<Rightarrow> mr_id other \<noteq> mr_id m)"
      unfolding bindM_Inr returnM_run by auto
    show ?thesis
    proof (cases found)
      case None
      from no_memory_at [OF f(1) [unfolded None]] show ?thesis by simp
    next
      case (Some other)
      with row_named [OF f(1) [unfolded Some find_memory_by_path_def]] have "w' = w" "other \<in> set ?rows"
        "mr_name other = Some (str_at ''path_key'' data)" by simp_all
      with f(2) Some only_row [OF memory_rows_okD(1) [OF assms(2)] assms(3), of other] show ?thesis by simp
    qed
  qed
  with assms(5,6) show "w' = w" "Some (str_at ''path_key'' data) = mr_name m \<or>
    Some (str_at ''path_key'' data) \<notin> mr_name ` set (live_memories (mr_workspace_id m) (mr_parent_id m) ?rows)" by auto
qed

text \<open>Writing a revised memory with its version.\<close>

lemma revision_moves:
  assumes "memory_rows_ok rows" "m \<in> set rows" "is_memory m" "mr_deleted_at m = None" "dget ''version'' (mr_data m) = PInt n"
    "same_place m m'" "dget ''version'' (mr_data m') = PInt (n + 1)" "mr_name m' = Some (str_at ''path_key'' (mr_data m'))"
    "version_of m' (n + 1) v" "mr_id v \<notin> mr_id ` set rows"
    "mr_name m' = mr_name m \<or> mr_name m' \<notin> mr_name ` set (live_memories (mr_workspace_id m) (mr_parent_id m) rows)"
  shows "memory_move rows (replace_by mr_id m' rows @ [v])"
  using assms by (intro revised) auto

text \<open>
  What the fields of an update ask for, and why an accepted update may leave nothing to do: what it asks for is there, by
  its precondition or because nothing that matters would change.
\<close>

definition update_fields :: "pdict \<Rightarrow> pdict" where
  "update_fields b = dpop ''precondition'' (dpop ''if_version'' (dpop ''expected_version'' b))"

definition nothing_to_update :: "string \<Rightarrow> string \<Rightarrow> pdict \<Rightarrow> string \<Rightarrow> resource_row list \<Rightarrow> bool" where
  "nothing_to_update s i b ws rows \<longleftrightarrow> (\<exists>m \<in> set rows. mr_id m = i \<and> is_memory m \<and> mr_workspace_id m = ws \<and>
     mr_parent_id m = Some s \<and> mr_deleted_at m = None \<and>
     (memory_requested_state_matches_current (mr_data m) (update_fields b) = Inr True \<or>
      (\<exists>v data. fst (merge_memory_data (mr_data m) (update_fields b) v) = Inr data \<and> \<not> memory_has_material_change (mr_data m) data)))"

lemma precondition_matches:
  "update_precondition c e p u = Inr False \<Longrightarrow> memory_requested_state_matches_current c u = Inr True"
  by (auto simp: update_precondition_def res_simps raise_if_def Let_def split: pv.splits if_splits)

lemma update_memory_settles:
  assumes "memory_rows_ok (db_resources (w_db w))"
  shows "settles_at (nothing_to_update s i b (ws_of None w) (db_resources (w_db w)))
    (\<lambda>d. memory_move (db_resources (w_db w)) (db_resources d) \<and> (\<exists>(m :: resource_row) m1 q u k.
    m \<in> set (db_resources (w_db w)) \<and> same_place m m1 \<and> is_version q \<and>
    db_resources d = replace_by mr_id m1 (db_resources (w_db w)) @ [q] \<and>
    fst (merge_memory_data (mr_data m) (update_fields b) u) = Inr (mr_data m1) \<and> mr_deleted_at m = None \<and>
    update_precondition (mr_data m) (dget_or ''if_version'' (dget ''expected_version'' b) b) (dget ''precondition'' b)
      (update_fields b) = Inr True \<and>
    1 \<le> k \<and> dget ''version'' (mr_data m) = PInt k \<and> m1 \<in> set (db_resources d) \<and> mr_id m1 = i \<and> is_memory m1 \<and>
    mr_workspace_id m1 = ws_of None w \<and> mr_parent_id m1 = Some s \<and> mr_deleted_at m1 = None \<and>
    dget ''version'' (mr_data m1) = PInt (k + 1))) (update_memory_body s i b view) w"
  unfolding update_memory_body_def Let_def update_fields_def [symmetric]
proof (intro settles_at_commit settles_at_if settle_rules drafting_version drafting_changes drafting reading, goal_cases)
  case (1 view0 v m v0 go v1)
  then have "memory_requested_state_matches_current (mr_data m) (update_fields b) = Inr True" by (auto dest: precondition_matches)
  with must_exist_Inr [OF 1(2)] 1(1) have "nothing_to_update s i b (ws_of None w) (db_resources (w_db w))"
    by (auto simp: nothing_to_update_def is_memory_def opt_eq_def)
  then show ?case by (intro settles_at_nothing drafting reading)
next
  case (2 view0 v m v0 go v1 data v2)
  from 2(5) have "fst (merge_memory_data (mr_data m) (update_fields b) v1) = Inr data" by simp
  with must_exist_Inr [OF 2(2)] 2(1,6) have "nothing_to_update s i b (ws_of None w) (db_resources (w_db w))"
    by (auto simp: nothing_to_update_def is_memory_def opt_eq_def)
  then show ?case by (intro settles_at_nothing drafting reading)
next
  case (3 view0 v m v0 go v1 data v2 taken v3 x2 v4 m1 v5 n v6 r v7)
  let ?rows = "db_resources (w_db w)"
  have start: "v = w" using 3(1) by simp
  note m = must_exist_Inr [OF 3(2) [unfolded start]]
  have v1: "v1 = w" using 3(3) m(1) by simp
  have mem: "is_memory m" "mr_parent_id m = Some s" using m(4,7) by (simp_all add: is_memory_def opt_eq_def)
  from memory_rows_okD(2) [OF assms m(2) mem(1)] obtain k where k: "k \<ge> 1" "dget ''version'' (mr_data m) = PInt k"
    by (auto simp: memory_history_def)
  note merged = merge_memory_version [OF 3(5) [unfolded v1] k(2,1)]
  have taken: "taken = False" "v4 = v3" using 3(8) by (auto split: if_splits)
  have ok2: "memory_rows_ok (db_resources (w_db v2))" "m \<in> set (db_resources (w_db v2))" using merged(2) assms m(2) by simp_all
  note free = path_free [OF 3(7) [unfolded taken(1)] ok2 mem(1) _ mem(2) m(6)]
  have "mr_workspace_id m = ws_of None v2" using m(5) ws_same [OF merged(3), of None] by simp
  note free = free [OF this]
  have v4: "v4 = v2" using taken(2) free(1) by simp
  have ids: "distinct (map mr_id ?rows)" by (rule memory_rows_okD(1) [OF assms])
  let ?m = "patch_resource (resource_patch0\<lparr>rp_data := Some data, rp_name := Some (str_at ''path_key'' data)\<rparr>) m"
  have "mr_id m = mr_id ?m" by (simp add: patch_resource_def)
  note saved = save_resource_rows [OF 3(9) [unfolded update_resource_def v4] ok2(2) this ids [folded merged(2)]]
  then obtain t where m1: "m1 = ?m\<lparr>mr_updated_at := t\<rparr>" by blast
  have f: "same_place m m1" "mr_data m1 = data" "mr_name m1 = Some (str_at ''path_key'' data)"
    unfolding m1 by (simp_all add: same_place_def patch_resource_def resource_patch0_def)
  have n: "n = k + 1" "v6 = v5" using 3(10) merged(1) by simp_all
  note made = version_made [OF 3(11) [unfolded n(2)]]
  have rows: "db_resources (w_db v7) = replace_by mr_id m1 ?rows @ [r]" using made(1) saved(1) merged(2) by simp
  have move: "memory_move ?rows (replace_by mr_id m1 ?rows @ [r])"
  proof (rule revision_moves [OF assms m(2) mem(1) m(6) k(2) f(1)])
    show "version_of m1 (k + 1) r" using made(3) [of m1] n(1) by simp
    show "mr_id r \<notin> mr_id ` set ?rows" using made(2) saved(1) merged(2) by simp
    show "mr_name m1 = mr_name m \<or>
      mr_name m1 \<notin> mr_name ` set (live_memories (mr_workspace_id m) (mr_parent_id m) ?rows)"
      using free(2) f(3) merged(2) by auto
  qed (use f merged(1) in simp_all)
  have at: "mr_id m1 = mr_id m" "is_memory m1" "mr_workspace_id m1 = ws_of None w" "mr_parent_id m1 = Some s"
    using f(1) mem m(5) by (simp_all add: same_place_def is_memory_def)
  have live: "mr_deleted_at m1 = None" unfolding m1 using m(6) by (simp add: patch_resource_def)
  have there: "m1 \<in> set (replace_by mr_id m1 ?rows)" using replaced_set [OF ids m(2) at(1)] by simp
  have pre: "update_precondition (mr_data m) (dget_or ''if_version'' (dget ''expected_version'' b) b) (dget ''precondition'' b)
      (update_fields b) = Inr True" using 3(3,4) by simp
  have asked: "fst (merge_memory_data (mr_data m) (update_fields b) v1) = Inr (mr_data m1)" using 3(5) f(2) by simp
  have ver: "is_version r" using made(3) [of m1] by (simp add: version_of_def)
  have number: "dget ''version'' (mr_data m1) = PInt (k + 1)" using f(2) merged(1) by simp
  show ?case
    by (rule_tac conjI [OF move [folded rows]], rule_tac exI [of _ m], rule_tac exI [of _ m1], rule_tac exI [of _ r],
        rule_tac exI [of _ v1], rule_tac exI [of _ k])
      (simp add: m(2,3,6) f(1) rows asked pre k ver there at live number)
qed

lemma update_memory_moves:
  assumes "memory_rows_ok (db_resources (w_db w))"
  shows "publishes_at (\<lambda>d. memory_move (db_resources (w_db w)) (db_resources d)) (update_memory_body s i b view) w"
  by (rule publishes_weaken [OF settles_publishes [OF update_memory_settles [OF assms]]]) blast

lemma replace_twice:
  "mr_id r' = mr_id r \<Longrightarrow> replace_by mr_id r' (replace_by mr_id r rows) = replace_by mr_id r' rows"
  by (simp add: replace_by_def)

lemma version_of_same:
  assumes "version_of m n v" "mr_id m' = mr_id m" "mirrored v m \<Longrightarrow> mirrored v m'"
  shows "version_of m' n v"
  using assms by (simp add: version_of_def)

lemma delete_memory_moves:
  assumes "memory_rows_ok (db_resources (w_db w))"
  shows "commits_at (\<lambda>d. memory_move (db_resources (w_db w)) (db_resources d) \<and> (\<exists>m m2 q.
    m \<in> set (db_resources (w_db w)) \<and> mr_id m = i \<and> is_memory m \<and> mr_workspace_id m = ws_of None w \<and> mr_parent_id m = Some s \<and>
    mr_deleted_at m = None \<and> mr_id m2 = i \<and> mr_deleted_at m2 \<noteq> None \<and> same_place m m2 \<and>
    is_version q \<and>
    db_resources d = replace_by mr_id m2 (db_resources (w_db w)) @ [q])) (delete_memory_body s i sha) w"
  unfolding delete_memory_body_def Let_def
proof (intro commits_at_commit commit_rules drafting_version drafting_changes drafting reading, goal_cases)
  case (1 x0 v0 m v x1 v1 n v2 now v3 r v4 m1 v5 m2 v6)
  let ?rows = "db_resources (w_db w)"
  have start: "v0 = w" using must_write_Inr [OF 1(1)] .
  note m = must_exist_Inr [OF 1(2) [unfolded start]]
  have v1: "v1 = w" using 1(3) m(1) by simp
  have mem: "is_memory m" using m(4) by (simp add: is_memory_def)
  from memory_rows_okD(2) [OF assms m(2) mem] obtain k where k: "k \<ge> 1" "dget ''version'' (mr_data m) = PInt k"
    "mr_name m = Some (str_at ''path_key'' (mr_data m))"
    by (auto simp: memory_history_def)
  have n: "n = k" "v2 = w" using 1(4) v1 k by (simp_all add: por_def truthy_def)
  have v3: "w_db v3 = w_db w" using 1(5) n(2) by (auto simp: mon_defs)
  let ?actor = "py_str (por (dget ''updated_by'' (mr_data m)) (PStr ''api''))"
  let ?data = "dset ''updated_at'' (PStr (isoformat now)) (dset ''updated_by'' (PStr ?actor)
                  (dset ''version'' (PInt (n + 1)) (mr_data m)))"
  note made = version_made [OF 1(6)]
  have ids: "distinct (map mr_id ?rows)" by (rule memory_rows_okD(1) [OF assms])
  have new: "mr_id r \<notin> mr_id ` set ?rows" "db_resources (w_db v4) = ?rows @ [r]" using made(1,2) v3 by simp_all
  then have ids4: "distinct (map mr_id (db_resources (w_db v4)))" "m \<in> set (db_resources (w_db v4))" using ids m(2) by simp_all
  let ?m = "patch_resource (resource_patch0\<lparr>rp_data := Some (dset ''memory_version_id'' (PStr (mr_id r)) ?data)\<rparr>) m"
  have "mr_id m = mr_id ?m" by (simp add: patch_resource_def)
  note saved = save_resource_rows [OF 1(7) [unfolded update_resource_def] ids4(2) this ids4(1)]
  then obtain t where m1: "m1 = ?m\<lparr>mr_updated_at := t\<rparr>" by blast
  have f1: "same_place m m1" "mr_data m1 = dset ''memory_version_id'' (PStr (mr_id r)) ?data" "mr_name m1 = mr_name m"
    unfolding m1 by (simp_all add: same_place_def patch_resource_def resource_patch0_def)
  have "mr_id m1 = mr_id m" using f1(1) by (simp add: same_place_def)
  then have "m1 \<in> set (replace_by mr_id m1 (db_resources (w_db v4)))" by (simp only: replaced_set [OF ids4] insertI1)
  then have in5: "m1 \<in> set (db_resources (w_db v5))" "distinct (map mr_id (db_resources (w_db v5)))"
    using saved(1) ids4(1) by simp_all
  from delete_resource_rows [OF 1(8) in5(1,2)] obtain t1 t2 where m2:
    "db_resources (w_db v6) = replace_by mr_id m2 (db_resources (w_db v5))"
    "m2 = m1\<lparr>mr_deleted_at := Some t1, mr_status := ''deleted'', mr_updated_at := t2\<rparr>" by blast
  have f2: "same_place m m2" "mr_data m2 = mr_data m1" "mr_name m2 = mr_name m" "mr_deleted_at m2 \<noteq> None" "mr_id m2 = mr_id m"
    "mr_id m2 = mr_id m1"
    using f1 unfolding m2(2) by (simp_all add: same_place_def)
  have "mr_id r \<noteq> mr_id m2" using new(1) m(2) f2(5) by auto
  moreover from this have "mr_id r \<noteq> mr_id m1" using f2(6) by simp
  ultimately have rows: "db_resources (w_db v6) = replace_by mr_id m2 ?rows @ [r]"
    using m2(1) saved(1) new(2) replace_twice [OF f2(6)] by (simp add: replace_by_def)
  have move: "memory_move ?rows (db_resources (w_db v6))"
    unfolding rows
  proof (rule revised [OF m(2) mem f2(1) k(2)])
    have "version_of (m\<lparr>mr_data := ?data\<rparr>) (n + 1) r" by (rule made(3)) simp_all
    then have "version_of m2 (n + 1) r"
      by (rule version_of_same) (simp_all add: f2(2,5) f1(2) mirrored_def)
    then show "version_of m2 (k + 1) r" using n(1) by simp
    show "dget ''version'' (mr_data m2) = PInt (k + 1)" using f1(2) f2(2) n(1) by simp
    show "mr_name m2 = Some (str_at ''path_key'' (mr_data m2))" using k(3) f1(2) f2(2,3) by (simp add: str_at_def)
  qed (use new(1) f2(4) in simp_all)
  have "version_of (m\<lparr>mr_data := ?data\<rparr>) (n + 1) r" by (rule made(3)) simp_all
  then have "is_version r" by (simp add: version_of_def)
  with m(2,3,5,6,7) mem f2(1,4,5) rows move show ?case by (intro conjI) (simp, auto simp: opt_eq_def)
qed

lemma version_of_store_Inr:
  assumes "version_of_store s i w = (Inr (v, m), w')"
  shows "w' = w" "v \<in> set (db_resources (w_db w))" "is_version v" "m \<in> set (db_resources (w_db w))" "is_memory m"
    "mr_parent_id v = Some (mr_id m)" "mr_id v = i"
proof -
  obtain q w0 where q: "must_exist s ''memory_store'' None w = (Inr q, w0)" and rest: "bindM (get_resource i (Some ''memory_version'') None False None)
      (\<lambda>found. case found of None \<Rightarrow> raiseM (HTTPException 404 ''Memory version not found'') | Some version \<Rightarrow>
         bindM (case mr_parent_id version of None \<Rightarrow> returnM None
           | Some memory_id \<Rightarrow> get_resource memory_id (Some ''memory'') (Some s) True None) (\<lambda>found_memory.
         case found_memory of
           None \<Rightarrow> raiseM (HTTPException 404 ''Memory version not found'')
         | Some memory \<Rightarrow> returnM (version, memory))) w0 = (Inr (v, m), w')"
    using assms unfolding version_of_store_def seqM_Inr by blast
  obtain k w1 where r: "mr_parent_id v = Some k" "get_resource i (Some ''memory_version'') None False None w0 = (Inr (Some v), w1)"
    "get_resource k (Some ''memory'') (Some s) True None w1 = (Inr (Some m), w')"
    using rest unfolding found_Inr by (auto split: option.splits)
  note r = q r(2,1,3)
  note v = get_resource_Inr [OF r(2)] and m = get_resource_Inr [OF r(4)]
  have w: "w0 = w" "w1 = w" "w' = w" using must_exist_Inr(1) [OF r(1)] v m by simp_all
  from w v m r(3) show "w' = w" "v \<in> set (db_resources (w_db w))" "is_version v" "m \<in> set (db_resources (w_db w))" "is_memory m"
    "mr_parent_id v = Some (mr_id m)" "mr_id v = i" by (simp_all add: is_version_def is_memory_def opt_eq_def)
qed

text \<open>A version that may be redacted is not the one its live memory is at, so the memory itself is not rewritten.\<close>

lemma redacted_is_past:
  assumes "memory_rows_ok rows" "v \<in> set rows" "is_version v" "m \<in> set rows" "is_memory m" "mr_parent_id v = Some (mr_id m)"
    "current_version_of m v = Inr False" "mr_deleted_at m = None"
  shows "\<not> py_eq (dget ''version'' (mr_data m)) (dget ''memory_version'' (mr_data v))"
proof -
  from memory_rows_okD(2) [OF assms(1,4,5)] obtain k where k: "k \<ge> 1" "dget ''version'' (mr_data m) = PInt k"
    "map mr_version (versions_at (mr_id m) rows) = map Some [1..k]"
    by (auto simp: memory_history_def)
  from memory_rows_okD(4) [OF assms(1-3)] obtain n where n: "mr_version v = Some n" "dget ''memory_version'' (mr_data v) = PInt n"
    by (auto simp: numbered_def split: option.splits)
  have "v \<in> set (versions_at (mr_id m) rows)" using assms(2,3,6) by (simp add: versions_at_def)
  then have "mr_version v \<in> set (map Some [1..k])" unfolding k(3) [symmetric] by simp
  then have "1 \<le> n" using n(1) by auto
  with assms(7,8) k n(1) have "k \<noteq> n"
    by (auto simp: current_version_of_def pint_opt_def por_def truthy_def res_simps split: if_splits)
  with k(2) n(2) show ?thesis by (simp add: num_of_def)
qed

lemma redact_memory_version_moves:
  assumes "memory_rows_ok (db_resources (w_db w))"
  shows "commits_at (\<lambda>d. memory_move (db_resources (w_db w)) (db_resources d) \<and> (\<exists>r \<in> set (db_resources d).
    mr_id r = i \<and> is_version r \<and> withheld r)) (redact_memory_version_body s i) w"
  unfolding redact_memory_version_body_def
proof (intro commits_at_commit commit_rules drafting_changes draft.control drafting reading, goal_cases)
  case (1 p v0 v m current v1 x2 v2 snapshot v3 now v4 data v5 r v6 x7 v7)
  let ?rows = "db_resources (w_db w)"
  note found = version_of_store_Inr [OF 1(1) [unfolded 1(2)]]
  have cur: "current_version_of m v = Inr False" "v2 = w" using 1(3,4) found(1) by (auto split: if_splits)
  have v5: "w_db v5 = w_db w" "redacted_version_data (mr_data v) (isoformat now) = Inr data" using 1(5-7) cur(2) by (auto simp: mon_defs)
  have data: "\<forall>k. k \<notin> {''snapshot'', ''redacted'', ''redacted_at''} \<longrightarrow> dget k data = dget k (mr_data v)"
    "dget ''redacted'' data = PBool True" "case dget ''snapshot'' data of PDict s \<Rightarrow> \<not> has_key ''content'' s | _ \<Rightarrow> False"
    using v5(2) by (auto simp: redacted_version_data_def res_simps)
  let ?v = "patch_resource (resource_patch0\<lparr>rp_data := Some data\<rparr>) v"
  have "mr_id v = mr_id ?v" by (simp add: patch_resource_def)
  have "v \<in> set (db_resources (w_db v5))" "distinct (map mr_id (db_resources (w_db v5)))"
    using found(2) memory_rows_okD(1) [OF assms] v5(1) by simp_all
  note saved = save_resource_rows [OF 1(8) [unfolded update_resource_def] this(1) \<open>mr_id v = mr_id ?v\<close> this(2)]
  then obtain t where r: "r = ?v\<lparr>mr_updated_at := t\<rparr>" by blast
  have "redaction_of v r"
    unfolding r using data by (simp add: redaction_of_def withheld_def same_place_def patch_resource_def resource_patch0_def)
  moreover have "\<not> (mr_deleted_at m = None \<and> py_eq (dget ''version'' (mr_data m)) (dget ''memory_version'' data))"
    using redacted_is_past [OF assms found(2-6) cur(1)] data(1) by auto
  then have "v7 = v6" using 1(9) by auto
  ultimately have "memory_move ?rows (db_resources (w_db v7))" "db_resources (w_db v7) = replace_by mr_id r ?rows"
    using redacted [OF found(2,3)] saved(1) v5(1) by simp_all
  moreover have "mr_id r = mr_id v" "is_version r" "withheld r"
    using \<open>redaction_of v r\<close> found(3) by (simp_all add: redaction_of_def same_place_def is_version_def)
  moreover note found(7)
  ultimately show ?case using replaced_set [OF memory_rows_okD(1) [OF assms] found(2), of r] by auto
qed

section \<open>Runs\<close>

text \<open>The requests that write memories; \<open>elsewhere\<close> is any other step, which leaves memories and versions alone.\<close>

inductive memory_step :: "world \<Rightarrow> world \<Rightarrow> bool" where
  creating: "create_memory s b view w = (r, w') \<Longrightarrow> memory_step w w'"
| updating: "update_memory s i b view w = (r, w') \<Longrightarrow> memory_step w w'"
| deleting: "delete_memory s i sha w = (r, w') \<Longrightarrow> memory_step w w'"
| redacting: "redact_memory_version s i w = (r, w') \<Longrightarrow> memory_step w w'"
| elsewhere: "distinct (map mr_id (db_resources (w_committed w'))) \<Longrightarrow>
    of_memories (db_resources (w_committed w')) = of_memories (db_resources (w_committed w)) \<Longrightarrow> memory_step w w'"

abbreviation memories_ok :: "world \<Rightarrow> bool" where
  "memories_ok w \<equiv> memory_rows_ok (db_resources (w_committed w))"

lemma memory_step_moves:
  assumes "memory_step w w'" "memories_ok w"
  shows "memory_move (db_resources (w_committed w)) (db_resources (w_committed w'))"
proof -
  have stay: "memory_move (db_resources (w_committed w)) (db_resources (w_committed w'))" if "w_committed w' = w_committed w"
    using that memory_rows_okD(1) [OF assms(2)] by (intro apart) simp_all
  have ok: "memory_rows_ok (db_resources (w_db (w\<lparr>w_db := w_committed w\<rparr>)))" using assms(2) by simp
  show ?thesis
    using assms(1)
  proof cases
    case (creating s b view r)
    from scope_publishes [OF creating [unfolded create_memory_def] commits_publishes [OF create_memory_moves [OF ok]]] stay
    show ?thesis by auto
  next
    case (updating s i b view r)
    from scope_publishes [OF updating [unfolded update_memory_def] update_memory_moves [OF ok]] stay show ?thesis by auto
  next
    case (deleting s i sha r)
    from scope_publishes [OF deleting [unfolded delete_memory_def] commits_publishes [OF delete_memory_moves [OF ok]]] stay
    show ?thesis by auto
  next
    case (redacting s i r)
    from scope_publishes [OF redacting [unfolded redact_memory_version_def] commits_publishes [OF redact_memory_version_moves [OF ok]]] stay
    show ?thesis by auto
  next
    case elsewhere
    then show ?thesis by (rule apart)
  qed
qed

text \<open>What stays of a version: all but the marks of a redaction, which stay once they are there.\<close>

definition record_kept :: "resource_row \<Rightarrow> resource_row \<Rightarrow> bool" where
  "record_kept v v' \<longleftrightarrow> same_place v v' \<and> mr_deleted_at v' = mr_deleted_at v \<and>
     list_all (\<lambda>k. dget k (mr_data v') = dget k (mr_data v))
       [''memory_store_id'', ''memory_id'', ''memory_version'', ''path'', ''path_key'', ''content'', ''content_sha256'',
        ''content_size_bytes'', ''actor'', ''created_by'', ''session_id'', ''operation''] \<and>
     (withheld v \<longrightarrow> withheld v')"

lemma record_kept_refl: "record_kept v v"
  by (simp add: record_kept_def same_place_def)

lemma record_kept_trans: "record_kept u v \<Longrightarrow> record_kept v w \<Longrightarrow> record_kept u w"
  by (simp add: record_kept_def same_place_def)

lemma move_records:
  assumes "memory_move rows rows'" "memory_rows_ok rows" "v \<in> set rows" "is_version v"
  shows "\<exists>v' \<in> set rows'. record_kept v v'"
proof -
  note ids = memory_rows_okD(1) [OF assms(2)]
  have same: "\<exists>v' \<in> set rows'. record_kept v v'" if "v \<in> set rows'"
    using that record_kept_refl by blast
  show ?thesis
    using assms(1)
  proof cases
    case apart
    with apart_parts(3) [OF apart(2), of v] assms(3,4) same show ?thesis by simp
  next
    case (born m q)
    with assms(3) same show ?thesis by simp
  next
    case (revised m m' n q)
    have "v \<noteq> m" using revised(3) assms(4) version_not_memory [of v] by auto
    moreover have "mr_id m' = mr_id m" using revised(4) by (simp add: same_place_def)
    ultimately have "v \<in> set rows'" using replaced_set [OF ids revised(2)] assms(3) revised(1) by simp
    then show ?thesis by (rule same)
  next
    case (redacted q q')
    have id: "mr_id q' = mr_id q" using redacted(4) by (simp add: redaction_of_def same_place_def)
    note set = replaced_set [OF ids redacted(2) id]
    show ?thesis
    proof (cases "v = q")
      case True
      with redacted(4) have "record_kept v q'" by (simp add: record_kept_def redaction_of_def)
      with set redacted(1) show ?thesis by auto
    next
      case False
      with set assms(3) redacted(1) same show ?thesis by simp
    qed
  qed
qed

lemma record_kept_kind: "record_kept v v' \<Longrightarrow> is_version v' = is_version v"
  by (simp add: record_kept_def same_kind)

interpretation memory_log: record_log memory_step memories_ok
  "\<lambda>w. {v \<in> set (db_resources (w_committed w)). is_version v}" record_kept
proof unfold_locales
  show "memories_ok w'" if "memory_step w w'" "memories_ok w" for w w'
    by (rule memory_move_keeps [OF memory_step_moves [OF that] that(2)])
  show "\<exists>v' \<in> {v \<in> set (db_resources (w_committed w')). is_version v}. record_kept v v'"
    if "memory_step w w'" "memories_ok w" "v \<in> {v \<in> set (db_resources (w_committed w)). is_version v}" for w w' v
    using move_records [OF memory_step_moves [OF that(1,2)] that(2), of v] that(3) record_kept_kind by fastforce
qed (rule record_kept_refl, rule record_kept_trans)

lemmas memory_runs_keep = memory_log.runs_ok

lemma runs_records:
  assumes "memory_step\<^sup>*\<^sup>* w w'" "memories_ok w" "v \<in> set (db_resources (w_committed w))" "is_version v"
  shows "\<exists>v' \<in> set (db_resources (w_committed w')). record_kept v v'"
  using memory_log.runs_stay [OF assms(1,2), of v] assms(3,4) by blast

section \<open>Responses of redacted versions\<close>

lemma dict_or_empty_PDict: "dict_or_empty (PDict d) = Inr d"
  by (simp add: dict_or_empty_def truthy_def py_dict_def)

lemma default_opt_other: "k \<noteq> k' \<Longrightarrow> dget k (default_opt k' v d) = dget k d"
  by (cases v) (simp_all add: default_opt_def)

lemma version_response_snapshot:
  assumes "is_version v"
  shows "dget ''snapshot'' (resource_to_response v t) = dget ''snapshot'' (mr_data v)"
  using assms
  by (simp add: resource_to_response_def Let_def default_opt_other redacted_resource_data_def is_version_def split: option.split)

lemma withheld_response:
  assumes "withheld v" "is_version v"
  shows "case memory_version_response v view of Inl _ \<Rightarrow> True | Inr d \<Rightarrow> dget ''content'' d = PNone \<and>
      (case dget ''snapshot'' d of PDict s \<Rightarrow> \<not> has_key ''content'' s | _ \<Rightarrow> False)"
    and "is_ok (memory_version_operation (dget ''operation'' (mr_data v))) \<Longrightarrow> is_ok (memory_version_response v None)"
proof -
  obtain s where s: "dget ''snapshot'' (mr_data v) = PDict s" "\<not> has_key ''content'' s" "dget ''redacted'' (mr_data v) = PBool True"
    using assms(1) by (auto simp: withheld_def split: pv.splits)
  have hidden: "truthy (por (dget ''redacted'' (mr_data v)) x)" for x using s(3) by (simp add: por_def truthy_def)
  note field = version_response_snapshot [OF assms(2)]
  show "case memory_version_response v view of Inl _ \<Rightarrow> True | Inr d \<Rightarrow> dget ''content'' d = PNone \<and>
      (case dget ''snapshot'' d of PDict s \<Rightarrow> \<not> has_key ''content'' s | _ \<Rightarrow> False)"
    using s(2) field
    by (auto simp: memory_version_response_def version_fields_def Let_def s(1) dict_or_empty_PDict hidden bindE_def split: sum.split)
  show "is_ok (memory_version_response v None)" if "is_ok (memory_version_operation (dget ''operation'' (mr_data v)))"
    using that
    by (auto simp: memory_version_response_def version_fields_def Let_def s(1) dict_or_empty_PDict hidden bindE_def
        normalize_memory_view_def is_ok_def split: sum.splits)
qed

section \<open>A store with one memory\<close>

definition plain_row :: "string \<Rightarrow> string \<Rightarrow> string option \<Rightarrow> int option \<Rightarrow> string option \<Rightarrow> pdict \<Rightarrow> resource_row" where
  "plain_row i ty parent version name data = \<lparr>mr_id = i, mr_workspace_id = ''wrkspc_default'', mr_resource_type = ty,
     mr_parent_id = parent, mr_version = version, mr_name = name, mr_status = ''active'', mr_data = data,
     mr_content = None, mr_content_type = None, mr_filename = None, mr_storage_backend = None, mr_storage_key = None,
     mr_storage_url = None, mr_size_bytes = None, mr_sha256 = None, mr_archived_at = None, mr_deleted_at = None,
     mr_created_at = 0, mr_updated_at = 0\<rparr>"

definition note_data :: "int \<Rightarrow> string \<Rightarrow> pdict" where
  "note_data n content = [(''path'', PStr ''/a''), (''path_key'', PStr ''a''), (''content'', PStr content),
     (''content_sha256'', PStr ''h''), (''content_size_bytes'', PInt 1), (''version'', PInt n),
     (''updated_by'', PStr ''api''), (''metadata'', PDict [])]"

definition note_row :: resource_row where
  "note_row = plain_row ''mem_a'' ''memory'' (Some ''store_a'') None (Some ''a'') (note_data 2 ''y'')"

definition note_version :: "string \<Rightarrow> int \<Rightarrow> string \<Rightarrow> resource_row" where
  "note_version i n content = plain_row i ''memory_version'' (Some ''mem_a'') (Some n) None
     (memory_version_data note_row n ''api'' ''modified'' (note_data n content))"

definition note_rows :: "resource_row list" where
  "note_rows = [plain_row ''store_a'' ''memory_store'' None None (Some ''s'') [], note_row,
     note_version ''ver_1'' 1 ''x'', note_version ''ver_2'' 2 ''y'']"

definition note_world :: world where
  "note_world = world0\<lparr>w_committed := db0\<lparr>db_resources := note_rows\<rparr>\<rparr>"

lemmas note_defs = note_rows_def note_row_def note_version_def plain_row_def note_data_def memory_version_data_def
  memory_snapshot_def Let_def is_memory_def is_version_def

lemma upto_two: "[1..2 :: int] = [1, 2]"
  by (simp add: upto.simps)

lemma note_ok: "memories_ok note_world"
proof -
  have "memory_rows_ok note_rows"
  proof (rule memory_rows_okI)
    show "distinct (map mr_id note_rows)" by (simp add: note_defs)
    show "memory_history note_rows m" if "m \<in> set note_rows" "is_memory m" for m
      using that by (auto simp: note_defs memory_history_def versions_at_def mirrored_def upto_two str_at_def py_str_def dpop_def
          intro!: exI [of _ 2])
    show "\<exists>m \<in> set note_rows. is_memory m \<and> mr_parent_id v = Some (mr_id m)" "numbered v"
      if "v \<in> set note_rows" "is_version v" for v
      using that by (auto simp: note_defs numbered_def)
    show "distinct (map mr_name (live_memories ws p note_rows)) \<and> length (live_memories ws p note_rows) \<le> MAX_MEMORIES_PER_STORE"
      for ws p
      by (auto simp: note_defs live_memories_def MAX_MEMORIES_PER_STORE_def)
  qed
  then show ?thesis by (simp add: note_world_def)
qed

definition note_found :: "world \<Rightarrow> bool" where
  "note_found w \<longleftrightarrow> db_resources (w_db w) = note_rows \<and> w_workspace w = None"

lemma note_gets:
  assumes "note_found w"
  shows "must_exist ''store_a'' ''memory_store'' None w = (Inr (plain_row ''store_a'' ''memory_store'' None None (Some ''s'') []), w)"
    "get_resource ''ver_1'' (Some ''memory_version'') None False None w = (Inr (Some (note_version ''ver_1'' 1 ''x'')), w)"
    "get_resource ''mem_a'' (Some ''memory'') (Some ''store_a'') True None w = (Inr (Some note_row), w)"
    "must_exist ''mem_a'' ''memory'' (Some ''store_a'') w = (Inr note_row, w)"
  using assms
  by (simp_all add: note_found_def must_exist_def get_resource_def bindM_def mon_defs ws_of_def workspace_id_or_default_def
      note_defs opt_eq_def scalar_one_or_none_def DEFAULT_WORKSPACE_ID_def)

lemma redact_note_body:
  assumes found: "note_found w"
  shows "\<exists>r w1. redact_memory_version_body ''store_a'' ''ver_1'' w = (Inr r, w1)"
proof -
  let ?v = "note_version ''ver_1'' 1 ''x''"
  have v: "version_of_store ''store_a'' ''ver_1'' w = (Inr (?v, note_row), w)"
    using note_gets [OF found] by (simp add: version_of_store_def note_version_def plain_row_def)
  have cur: "current_version_of note_row ?v = Inr False"
    by (simp add: current_version_of_def note_defs pint_opt_def por_def truthy_def res_simps)
  define now where "now = isoformat (w_clock w (w_ticks w))"
  let ?u = "w\<lparr>w_ticks := Suc (w_ticks w)\<rparr>"
  obtain e where e: "dget ''snapshot'' (mr_data ?v) = PDict e" by (simp add: note_defs)
  define data where "data = dset ''redacted_at'' (PStr now) (dset ''redacted'' (PBool True)
    (dset ''snapshot'' (PDict (dset ''redacted'' (PBool True) (dpop ''content'' e))) (mr_data ?v)))"
  have data: "redacted_version_data (mr_data ?v) now = Inr data"
    by (simp add: redacted_version_data_def e dict_or_empty_PDict data_def)
  have shown: "dget ''memory_version'' data = PInt 1" "dget ''operation'' data = PStr ''modified''"
    "dget ''redacted'' data = PBool True" "\<exists>d. dget ''snapshot'' data = PDict d"
    by (simp_all add: data_def note_defs)
  obtain q w4 where saved: "update_resource ?v (resource_patch0\<lparr>rp_data := Some data\<rparr>) ?u = (Inr q, w4)"
    unfolding update_resource_def using save_resource_ok by blast
  have "db_resources (w_db ?u) = note_rows" using found by (simp add: note_found_def)
  then have "?v \<in> set (db_resources (w_db ?u))" "distinct (map mr_id (db_resources (w_db ?u)))"
    by (simp_all add: note_defs)
  with save_resource_rows(2) [OF saved [unfolded update_resource_def], of ?v] obtain t where
    q: "q = patch_resource (resource_patch0\<lparr>rp_data := Some data\<rparr>) ?v\<lparr>mr_updated_at := t\<rparr>"
    by (auto simp: patch_resource_def)
  have row: "mr_data q = data" "is_version q" "withheld q"
    unfolding q by (simp_all add: patch_resource_def resource_patch0_def note_version_def plain_row_def is_version_def withheld_def data_def)
  have "memory_version_operation (dget ''operation'' (mr_data q)) = Inr ''modified''"
    unfolding row(1) shown(2) by (simp add: memory_version_operation_def in_set_def py_str_def bindE_def)
  with withheld_response(2) [OF row(3,2)] obtain d where "memory_version_response q None = Inr d"
    by (auto simp: is_ok_def split: sum.splits)
  with row(2) have d: "resource_response q None = returnM d"
    by (simp add: resource_response_def is_version_def liftE_def returnM_def)
  have past: "\<not> py_eq (dget ''version'' (mr_data note_row)) (dget ''memory_version'' data)"
    using shown(1) by (simp add: note_row_def plain_row_def note_data_def num_of_def)
  have "redact_memory_version_body ''store_a'' ''ver_1'' w = (Inr d, w4\<lparr>w_committed := w_db w4\<rparr>)"
    unfolding redact_memory_version_body_def
    using v cur data saved d e past
    by (simp add: mon_defs bindM_def seqM_def dict_or_empty_PDict now_def [symmetric])
  then show ?thesis by blast
qed

lemma redact_note: "\<exists>r w1. redact_memory_version ''store_a'' ''ver_1'' note_world = (Inr r, w1)"
proof -
  have "note_found (note_world\<lparr>w_db := w_committed note_world\<rparr>)" by (simp add: note_found_def note_world_def world0_def)
  from redact_note_body [OF this] show ?thesis by (auto simp: redact_memory_version_def session_scope_def)
qed

section \<open>Properties\<close>

definition version_number :: "resource_row \<Rightarrow> int" where
  "version_number m = (case dget ''version'' (mr_data m) of PInt n \<Rightarrow> n | _ \<Rightarrow> 0)"



text \<open>
  C16: the live memories of a store have different paths and are at most 2000, whatever requests came before: the
  check before a memory is created or moved and the limit hold for every reachable state.
\<close>

theorem memory_paths_distinct:
  assumes "memory_step\<^sup>*\<^sup>* w w'" "memories_ok w"
  shows "distinct (map mr_name (live_memories ws (Some store) (db_resources (w_committed w')))) \<and>
    length (live_memories ws (Some store) (db_resources (w_committed w'))) \<le> 2000 \<and>
    list_all (\<lambda>m. mr_name m = Some (str_at ''path_key'' (mr_data m))) (live_memories ws (Some store) (db_resources (w_committed w')))"
proof -
  have ok: "memories_ok w'" by (rule memory_runs_keep [OF assms])
  have "mr_name m = Some (str_at ''path_key'' (mr_data m))"
    if "m \<in> set (live_memories ws (Some store) (db_resources (w_committed w')))" for m
    using memory_rows_okD(2) [OF ok, of m] that by (simp add: live_memories_def memory_history_def)
  with memory_rows_okD(5,6) [OF ok, of ws "Some store"] show ?thesis by (simp add: list_all_iff MAX_MEMORIES_PER_STORE_def)
qed

theorem memory_paths_distinct_witness:
  "distinct (map mr_name (live_memories ''wrkspc_default'' (Some ''store_a'')
     (db_resources (w_committed (snd (update_memory ''store_a'' ''mem_a'' [(''content'', PStr ''z'')] None note_world))))))"
proof -
  have "memory_step\<^sup>*\<^sup>* note_world (snd (update_memory ''store_a'' ''mem_a'' [(''content'', PStr ''z'')] None note_world))"
    by (rule r_into_rtranclp) (auto intro: updating simp: prod_eq_iff)
  from memory_paths_distinct [OF this note_ok] show ?thesis by blast
qed



text \<open>
  C18: once a version is redacted, no response of it shows its content again, whatever requests come after: the content
  is null and the snapshot has none.
\<close>

theorem redaction_withholds:
  assumes "redact_memory_version s i w = (Inr r, w1)" "memories_ok w" "memory_step\<^sup>*\<^sup>* w1 w2"
    "v \<in> set (db_resources (w_committed w2))" "mr_id v = i"
  shows "case memory_version_response v view of Inl _ \<Rightarrow> True | Inr d \<Rightarrow> dget ''content'' d = PNone \<and>
    (case dget ''snapshot'' d of PDict e \<Rightarrow> \<not> has_key ''content'' e | _ \<Rightarrow> False)"
proof -
  have ok: "memory_rows_ok (db_resources (w_db (w\<lparr>w_db := w_committed w\<rparr>)))" using assms(2) by simp
  from scope_commits [OF assms(1) [unfolded redact_memory_version_def] redact_memory_version_moves [OF ok]]
  obtain q where q: "q \<in> set (db_resources (w_committed w1))" "mr_id q = i" "is_version q" "withheld q" by auto
  have "memory_step w w1" using assms(1) by (rule redacting)
  then have ok1: "memories_ok w1" using memory_runs_keep [OF r_into_rtranclp assms(2)] by blast
  from runs_records [OF assms(3) ok1 q(1,3)] obtain v' where v': "v' \<in> set (db_resources (w_committed w2))" "record_kept q v'" by blast
  then have "mr_id v' = i" "withheld v'" "is_version v'"
    using q by (simp_all add: record_kept_def same_place_def is_version_def)
  moreover have "memories_ok w2" by (rule memory_runs_keep [OF assms(3) ok1])
  then have "v = v'" using only_row [OF memory_rows_okD(1) v'(1) assms(4)] assms(5) \<open>mr_id v' = i\<close> by simp
  ultimately show ?thesis using withheld_response(1) by blast
qed

theorem redaction_withholds_witness:
  "\<exists>r w1 v. redact_memory_version ''store_a'' ''ver_1'' note_world = (Inr r, w1) \<and> v \<in> set (db_resources (w_committed w1)) \<and>
     (case memory_version_response v (Some ''full'') of Inl _ \<Rightarrow> True | Inr d \<Rightarrow> dget ''content'' d = PNone \<and>
    (case dget ''snapshot'' d of PDict e \<Rightarrow> \<not> has_key ''content'' e | _ \<Rightarrow> False))"
proof -
  obtain r w1 where run: "redact_memory_version ''store_a'' ''ver_1'' note_world = (Inr r, w1)" using redact_note by blast
  have "memory_step note_world w1" using run by (rule redacting)
  then obtain v where v: "v \<in> set (db_resources (w_committed w1))" "record_kept (note_version ''ver_1'' 1 ''x'') v"
    using runs_records [OF r_into_rtranclp note_ok, of w1 "note_version ''ver_1'' 1 ''x''"]
    by (auto simp: note_world_def note_rows_def is_version_def note_version_def plain_row_def)
  then have "mr_id v = ''ver_1''" by (simp add: record_kept_def same_place_def note_version_def plain_row_def)
  from redaction_withholds [OF run note_ok rtranclp.rtrancl_refl v(1) this] run v(1) show ?thesis by blast
qed

text \<open>
  C19: no update of a memory is lost: of two updates that name the same version, once the first has changed the memory
  the second is refused and writes nothing.
\<close>

theorem memory_updates_not_lost:
  assumes "update_memory s i b view w = (r, w1)" "memories_ok w" "w_committed w1 \<noteq> w_committed w"
    "w_committed w2 = w_committed w1" "w_workspace w2 = w_workspace w"
    "dget_or ''if_version'' (dget ''expected_version'' b) b = PInt n"
    "dget_or ''if_version'' (dget ''expected_version'' b') b' = PInt n" "is_ok (normalize_memory_view view')"
  shows "\<exists>w3. update_memory s i b' view' w2 = (Inl (HTTPException 409 ''Memory version precondition failed''), w3) \<and>
    w_committed w3 = w_committed w1"
proof -
  have ok: "memory_rows_ok (db_resources (w_db (w\<lparr>w_db := w_committed w\<rparr>)))" using assms(2) by simp
  from scope_settles [OF assms(1) [unfolded update_memory_def] update_memory_settles [OF ok]] assms(3) obtain m :: resource_row and m1 k where
    m: "update_precondition (mr_data m) (PInt n) (dget ''precondition'' b) (update_fields b) = Inr True" "1 \<le> k"
      "dget ''version'' (mr_data m) = PInt k"
    and m1: "m1 \<in> set (db_resources (w_committed w1))" "mr_id m1 = i" "is_memory m1" "mr_workspace_id m1 = ws_of None w"
      "mr_parent_id m1 = Some s" "mr_deleted_at m1 = None" "dget ''version'' (mr_data m1) = PInt (k + 1)"
    unfolding assms(6) by auto
  have "n = k" using m by (auto simp: update_precondition_def por_def truthy_def res_simps raise_if_def split: if_splits)
  then have refused: "update_precondition (mr_data m1) (PInt n) p u = Inl (HTTPException 409 ''Memory version precondition failed'')" for p u
    using m1(7) m(2) by (simp add: update_precondition_def por_def truthy_def res_simps raise_if_def)
  let ?w = "w2\<lparr>w_db := w_committed w2\<rparr>"
  have "memory_step w w1" using assms(1) by (rule updating)
  then have "memories_ok w1" using memory_runs_keep [OF r_into_rtranclp assms(2)] by blast
  from memory_rows_okD(1) [OF this] have "must_exist i ''memory'' (Some s) ?w = (Inr m1, ?w)"
    using m1 assms(4) ws_same [OF assms(5), of None]
    by (intro must_exist_found) (simp_all add: is_memory_def opt_eq_def)
  moreover obtain q where "normalize_memory_view view' = Inr q" using assms(8) by (auto simp: is_ok_def split: sum.splits)
  ultimately have "update_memory_body s i b' view' ?w = (Inl (HTTPException 409 ''Memory version precondition failed''), ?w)"
    by (simp add: update_memory_body_def assms(7) refused bindM_def mon_defs)
  then show ?thesis using assms(4) by (simp add: update_memory_def session_scope_def)
qed

definition to_z :: pdict where
  "to_z = [(''if_version'', PInt 2), (''content'', PStr ''z'')]"

lemma z_payload: "dpop ''precondition'' (dpop ''if_version'' (dpop ''expected_version'' to_z)) = [(''content'', PStr ''z'')]"
  "dget_or ''if_version'' (dget ''expected_version'' to_z) to_z = PInt 2" "dget ''precondition'' to_z = PNone"
  by (simp_all add: to_z_def dpop_def)

lemma z_merged:
  "\<exists>data. merge_memory_data (mr_data note_row) [(''content'', PStr ''z'')] w = (Inr data, w\<lparr>w_ticks := Suc (w_ticks w)\<rparr>) \<and>
     dget ''content'' data = PStr ''z'' \<and> dget ''version'' data = PInt 3 \<and> dget ''path_key'' data = PStr ''a''"
  by (simp add: merge_memory_data_def merge_memory_path_def merge_memory_content_def merge_memory_item_def UNMERGED_KEYS_def
      note_row_def plain_row_def note_data_def content_text_def py_str_def enforce_memory_content_limit_def raise_if_def
      MAX_MEMORY_CONTENT_BYTES_def utf8_encode_def utf8_char_def bindE_def por_def truthy_def bindM_def mon_defs dpop_def Let_def
      content_metadata_def code_pt_def)

lemma map_of_material: "k \<notin> set IMMATERIAL_KEYS \<Longrightarrow> map_of (material d) k = map_of d k"
  by (induction d) (auto simp: material_def)

lemma text_is_material:
  assumes "k \<notin> set IMMATERIAL_KEYS" "dget k e = PStr x" "dget k d = PStr y" "x \<noteq> y"
  shows "memory_has_material_change e d"
  unfolding memory_has_material_change_def
proof
  assume dict: "dict_eq (material e) (material d)"
  have "map_of e k = Some (PStr x)" using assms(2) by (auto simp: dget_def split: option.splits)
  then have "map_of (material e) k = Some (PStr x)" using map_of_material [OF assms(1)] by simp
  then have "(k, PStr x) \<in> set (material e)" by (rule map_of_SomeD)
  moreover have "map_of (material d) k = Some (PStr y)"
    using assms(3) map_of_material [OF assms(1)] by (auto simp: dget_def split: option.splits)
  ultimately show False using dict assms(4) by (auto simp: dict_eq_def list_all_iff)
qed

lemma update_note_body:
  assumes found: "note_found w" and new: "w_uuids w (w_draws w) = ''0''"
  shows "\<exists>r w1. update_memory_body ''store_a'' ''mem_a'' to_z None w = (r, w1) \<and> length (db_resources (w_committed w1)) = 5"
proof -
  let ?u = "w\<lparr>w_ticks := Suc (w_ticks w)\<rparr>"
  have pre: "update_precondition (mr_data note_row) (PInt 2) PNone p = Inr True" for p
    by (simp add: update_precondition_def note_row_def plain_row_def note_data_def por_def truthy_def bindE_def raise_if_def)
  obtain data where data: "merge_memory_data (mr_data note_row) [(''content'', PStr ''z'')] w = (Inr data, ?u)"
    "dget ''content'' data = PStr ''z''" "dget ''version'' data = PInt 3" "dget ''path_key'' data = PStr ''a''"
    using z_merged by blast
  have change: "memory_has_material_change (mr_data note_row) data"
    by (rule text_is_material [OF _ _ data(2), of _ "''y''"]) (simp_all add: IMMATERIAL_KEYS_def note_row_def plain_row_def note_data_def)
  have free: "path_taken ''store_a'' note_row data ?u = (Inr False, ?u)"
    using data(4) by (simp add: path_taken_def note_row_def plain_row_def note_data_def)
  let ?p = "resource_patch0\<lparr>rp_data := Some data, rp_name := Some (str_at ''path_key'' data)\<rparr>"
  have rows: "db_resources (w_db ?u) = note_rows" using found by (simp add: note_found_def)
  let ?q = "patch_resource ?p note_row" and ?ids = "map mr_id (db_resources (w_db ?u))"
  define q where "q = ?q\<lparr>mr_updated_at := w_clock w (Suc (w_ticks w))\<rparr>"
  define w4 where "w4 = ?u\<lparr>w_ticks := Suc (Suc (w_ticks w)), w_db := put_resource q (w_db ?u)\<rparr>"
  have row: "note_row \<in> set (db_resources (w_db ?u))" "distinct ?ids"
    unfolding rows by (simp_all add: note_defs)
  have "dget ''content'' (mr_data ?q) \<noteq> dget ''content'' (mr_data note_row)"
    using data(2) by (simp add: patch_resource_def resource_patch0_def note_row_def plain_row_def note_data_def)
  then have "?q \<noteq> note_row" by metis
  moreover have "mr_id ?q = mr_id note_row" by (simp add: patch_resource_def)
  ultimately have saved: "update_resource note_row ?p ?u = (Inr q, w4)"
    using save_resource_run [OF row(2,1), of ?q] by (simp add: update_resource_def q_def w4_def Let_def)
  have id: "mr_id q = ''mem_a''" unfolding q_def by (simp add: patch_resource_def note_row_def plain_row_def)
  have four: "db_resources (w_db w4) = replace_by mr_id q note_rows" "w_uuids w4 (w_draws w4) = ''0''"
    using rows new by (simp_all add: w4_def put_resource_def)
  have "mr_resource_type q = ''memory''" unfolding q_def by (simp add: patch_resource_def note_row_def plain_row_def)
  with id have rows4: "db_resources (w_db w4) = [plain_row ''store_a'' ''memory_store'' None None (Some ''s'') [], q,
     note_version ''ver_1'' 1 ''x'', note_version ''ver_2'' 2 ''y'']"
    unfolding four(1) by (simp add: note_rows_def replace_by_def note_row_def note_version_def plain_row_def)
  obtain v w5 where made: "create_memory_version q 3 (str_at ''updated_by'' data) ''modified'' [] w4 = (Inr v, w5)"
    using four(2) \<open>mr_resource_type q = ''memory''\<close>
    by (simp add: create_memory_version_def create_resource_def insert_resource_def bindM_def seqM_def mon_defs Let_def
        find_resource_def rows4 find_by_def version_taken_def resource_prefix_def PREFIXES_def note_version_def plain_row_def id
        resource_args0_def)
  have five: "length (db_resources (w_db w5)) = 5" using version_made(1) [OF made] rows4 by simp
  obtain r w6 where shown: "resource_response (with_version_id v q) None (w5\<lparr>w_committed := w_db w5\<rparr>) = (r, w6)" by fastforce
  then have "w_committed w6 = w_db w5" using keepsD [OF reading_response shown] by (simp add: tables_kept_def)
  moreover have "update_memory_body ''store_a'' ''mem_a'' to_z None w = (r, w6)"
    unfolding update_memory_body_def Let_def z_payload
    using note_gets(4) [OF found] pre data(1,3) change free saved made shown
    by (simp add: bindM_def seqM_def mon_defs normalize_memory_view_def)
  ultimately show ?thesis using five by auto
qed

theorem memory_updates_not_lost_witness:
  "\<exists>w1 w3. update_memory ''store_a'' ''mem_a'' to_z None note_world = w1 \<and>
     update_memory ''store_a'' ''mem_a'' to_z (Some ''basic'') ((snd w1)\<lparr>w_workspace := None\<rparr>)
       = (Inl (HTTPException 409 ''Memory version precondition failed''), w3) \<and> w_committed w3 = w_committed (snd w1)"
proof -
  obtain r w1 where run: "update_memory ''store_a'' ''mem_a'' to_z None note_world = (r, w1)" by fastforce
  let ?w = "note_world\<lparr>w_db := w_committed note_world\<rparr>"
  have "nat_str 0 = ''0''" by code_simp
  then have "note_found ?w" "w_uuids ?w (w_draws ?w) = ''0''"
    by (simp_all add: note_found_def note_world_def world0_def)
  from update_note_body [OF this] run have five: "length (db_resources (w_committed w1)) = 5"
    by (auto simp: update_memory_def session_scope_def)
  then have changed: "w_committed w1 \<noteq> w_committed note_world" by (auto simp: note_world_def note_rows_def)
  have "w_workspace note_world = None" "is_ok (normalize_memory_view (Some ''basic''))"
    by (simp add: note_world_def world0_def, code_simp)
  with memory_updates_not_lost [OF run note_ok changed, of "w1\<lparr>w_workspace := None\<rparr>" 2 to_z "Some ''basic''"] run z_payload(2)
  show ?thesis by simp
qed

end
