(* ===== verification/MemoryMap.thy ===== *)
theory MemoryMap
  imports MemoryFacts
begin

text \<open>
  A memory store as what it promises to be: a finite map from the identifiers of memories to their paths and contents, in
  which no path occurs twice. \<open>memory_spec\<close> says what a request does to such a map, and the handlers of \<open>Memories\<close>
  implement it; reading by a path is looking it up.
\<close>

section \<open>Paths in normal form\<close>

lemma last_strip: "py_strip s \<noteq> [] \<Longrightarrow> \<not> py_isspace (last (py_strip s))"
  using hd_dropWhile [of py_isspace "rev (lstrip s)"] by (simp add: py_strip_def rstrip_def last_rev)

lemma strip_ends: "s \<noteq> [] \<Longrightarrow> \<not> py_isspace (hd s) \<Longrightarrow> \<not> py_isspace (last s) \<Longrightarrow> py_strip s = s"
proof -
  assume s: "s \<noteq> []" "\<not> py_isspace (hd s)" "\<not> py_isspace (last s)"
  have keep: "dropWhile py_isspace xs = xs" if "xs \<noteq> []" "\<not> py_isspace (hd xs)" for xs using that by (cases xs) simp_all
  have "lstrip s = s" using keep [OF s(1,2)] by (simp add: lstrip_def)
  moreover have "dropWhile py_isspace (rev s) = rev s" using s(1,3) by (intro keep) (simp_all add: hd_rev)
  ultimately show "py_strip s = s" by (simp add: py_strip_def rstrip_def)
qed

lemma split_slash: "split_on CHR ''/'' (CHR ''/'' # s) = [] # split_on CHR ''/'' s"
  by simp

lemma last_join: "xs \<noteq> [] \<Longrightarrow> last xs \<noteq> [] \<Longrightarrow> last (c # py_join [d] xs) = last (last xs)"
  by (induction "[d]" xs arbitrary: c rule: py_join.induct) auto

lemma normalize_parts:
  assumes "normalize_memory_path v = Inr p"
  obtains parts where "path_parts v = Inr parts" "parts \<noteq> []" "\<And>x. x \<in> set parts \<Longrightarrow> CHR ''/'' \<notin> set x"
    "p = CHR ''/'' # py_join ''/'' parts" "validate_memory_path_text p = Inr ()" "split_on CHR ''/'' p = [] # parts"
    "[] \<notin> set parts"
proof -
  from assms obtain parts where parts: "path_parts v = Inr parts" "parts \<noteq> []" "\<not> list_ex (\<lambda>p. CHR ''/'' \<in> set p) parts"
    "p = CHR ''/'' # py_join ''/'' parts" "validate_memory_path_text p = Inr ()"
    by (auto simp: normalize_memory_path_def res_simps raise_if_def Let_def split: if_splits)
  have plain: "CHR ''/'' \<notin> set x" if "x \<in> set parts" for x using parts(3) that by (auto simp: list_ex_iff)
  then have split: "split_on CHR ''/'' p = [] # parts" unfolding parts(4) using parts(2) by (simp add: split_join)
  with parts(5) have "[] \<notin> set parts"
    by (auto simp: validate_memory_path_text_def res_simps raise_if_def Let_def split: if_splits)
  with that parts(1,2,4,5) plain split show thesis by blast
qed

text \<open>What is normalised stays as it is.\<close>

lemma normalize_memory_path_idem:
  assumes "normalize_memory_path v = Inr p"
  shows "normalize_memory_path (PStr p) = Inr p"
proof -
  from assms obtain parts where parts: "path_parts v = Inr parts" "parts \<noteq> []" "\<And>x. x \<in> set parts \<Longrightarrow> CHR ''/'' \<notin> set x"
    "p = CHR ''/'' # py_join ''/'' parts" "validate_memory_path_text p = Inr ()" "split_on CHR ''/'' p = [] # parts"
    "[] \<notin> set parts" by (rule normalize_parts) (rule that)
  have "last parts \<in> set parts" using parts(2) by simp
  then have "last parts \<noteq> []" using parts(7) by metis
  moreover from last_join [OF parts(2) this] have "last p = last (last parts)" unfolding parts(4) by simp
  ultimately have ends: "last parts \<noteq> []" "last p = last (last parts)" .
  have "py_strip p = p"
  proof (cases v)
    case (PStr s)
    with parts(1) have s: "validate_memory_path_text (py_strip s) = Inr ()" "parts = split_on CHR ''/'' (removeprefix ''/'' (py_strip s))"
      by (auto simp: path_parts_def res_simps)
    have "startswith ''/'' (py_strip s)" using s(1) by (auto simp: validate_memory_path_text_def res_simps raise_if_def split: if_splits)
    then obtain t where "py_strip s = CHR ''/'' # t" by (auto simp: startswith_iff)
    with s(2) have "p = py_strip s" unfolding parts(4) by (simp add: removeprefix_def startswith_def)
    then show ?thesis by simp
  next
    case (PList xs)
    have "\<exists>x. y = py_strip x" if "y \<in> set parts" for y using that parts(1) PList by (auto simp: path_parts_def)
    with \<open>last parts \<in> set parts\<close> obtain x where "last parts = py_strip x" by blast
    with ends last_strip [of x] have "\<not> py_isspace (last p)" by simp
    then show ?thesis unfolding parts(4) by (intro strip_ends) (simp_all add: py_isspace_def code_pt_def)
  qed (use parts(1) in \<open>simp_all add: path_parts_def\<close>)
  moreover have "split_on CHR ''/'' (removeprefix ''/'' p) = parts"
    using parts(2,3) split_join [of parts] by (simp add: parts(4) removeprefix_def startswith_def)
  ultimately have "path_parts (PStr p) = Inr parts" using parts(5) by (simp add: path_parts_def res_simps)
  moreover have "\<not> list_ex (\<lambda>p. CHR ''/'' \<in> set p) parts" using parts(3) by (auto simp: list_ex_iff)
  ultimately show ?thesis using parts(2,4,5) by (simp add: normalize_memory_path_def res_simps raise_if_def)
qed

section \<open>A store as a map\<close>

definition entry :: "resource_row \<Rightarrow> string \<times> string" where
  "entry m = (str_at ''path_key'' (mr_data m), content_text (dget ''content'' (mr_data m)))"

definition in_store :: "string \<Rightarrow> string \<Rightarrow> resource_row \<Rightarrow> bool" where
  "in_store ws s m \<longleftrightarrow> is_memory m \<and> mr_workspace_id m = ws \<and> mr_parent_id m = Some s \<and> mr_deleted_at m = None"

definition store_map :: "string \<Rightarrow> string \<Rightarrow> resource_row list \<Rightarrow> string \<Rightarrow> (string \<times> string) option" where
  "store_map ws s rows i = (case find_by mr_id i rows of
      None \<Rightarrow> None | Some m \<Rightarrow> if in_store ws s m then Some (entry m) else None)"

datatype memory_request =
    CreateMemory pdict
  | UpdateMemory string pdict
  | DeleteMemory string "string option"

fun run_memory_request :: "string \<Rightarrow> string option \<Rightarrow> memory_request \<Rightarrow> pdict M" where
  "run_memory_request s view (CreateMemory b) = create_memory s b view"
| "run_memory_request s view (UpdateMemory i b) = update_memory s i b view"
| "run_memory_request s view (DeleteMemory i sha) = delete_memory s i sha"

text \<open>What a request that is accepted does to the map. An update changes what it names and keeps the rest.\<close>

definition asked_key :: "pdict \<Rightarrow> string \<Rightarrow> string" where
  "asked_key b k = (if has_key ''path'' b
     then (case normalize_memory_path (dget ''path'' b) of Inr p \<Rightarrow> path_key p | Inl _ \<Rightarrow> k) else k)"

definition asked_content :: "pdict \<Rightarrow> string \<Rightarrow> string" where
  "asked_content b c = (if has_key ''content'' b then content_text (dget ''content'' b) else c)"

inductive memory_spec :: "memory_request \<Rightarrow> (string \<Rightarrow> (string \<times> string) option) \<Rightarrow>
    (string \<Rightarrow> (string \<times> string) option) \<Rightarrow> bool" where
  create: "normalize_memory_path (dget ''path'' b) = Inr p \<Longrightarrow> M i = None \<Longrightarrow> path_key p \<notin> fst ` ran M \<Longrightarrow>
    memory_spec (CreateMemory b) M (M(i \<mapsto> (path_key p, content_text (dget ''content'' b))))"
| update: "M i = Some (k, c) \<Longrightarrow> asked_key b k \<notin> fst ` ran (M(i := None)) \<Longrightarrow>
    memory_spec (UpdateMemory i b) M (M(i \<mapsto> (asked_key b k, asked_content b c)))"
| delete: "M i = Some (k, c) \<Longrightarrow> memory_spec (DeleteMemory i sha) M (M(i := None))"

text \<open>The data of a memory is consistent: a text, and the key of its path.\<close>

definition tidy :: "resource_row \<Rightarrow> bool" where
  "tidy m \<longleftrightarrow> (case normalize_memory_path (dget ''path'' (mr_data m)) of
       Inr p \<Rightarrow> dget ''path_key'' (mr_data m) = PStr (path_key p) | Inl _ \<Rightarrow> False) \<and>
     (case dget ''content'' (mr_data m) of PStr _ \<Rightarrow> True | _ \<Rightarrow> False)"

definition store_rows_ok :: "resource_row list \<Rightarrow> bool" where
  "store_rows_ok rows \<longleftrightarrow> memory_rows_ok rows \<and> list_all (\<lambda>m. is_memory m \<and> mr_deleted_at m = None \<longrightarrow> tidy m) rows"

lemma store_rows_okD:
  assumes "store_rows_ok rows"
  shows "memory_rows_ok rows" "distinct (map mr_id rows)"
    "m \<in> set rows \<Longrightarrow> is_memory m \<Longrightarrow> mr_deleted_at m = None \<Longrightarrow> tidy m"
  using assms memory_rows_okD(1) by (auto simp: store_rows_ok_def list_all_iff)

lemma store_map_row:
  assumes "distinct (map mr_id rows)" "m \<in> set rows" "in_store ws s m"
  shows "store_map ws s rows (mr_id m) = Some (entry m)"
  using find_by_unique [OF assms(1,2)] assms(3) by (simp add: store_map_def)

lemma store_map_Some:
  assumes "store_map ws s rows i = Some e"
  obtains m where "m \<in> set rows" "mr_id m = i" "in_store ws s m" "e = entry m"
  using assms by (auto simp: store_map_def split: option.splits if_splits dest: find_by_key find_by_mem)

text \<open>Two memories of a store have different paths.\<close>

lemma entry_names:
  assumes "memory_rows_ok rows" "m \<in> set rows" "in_store ws s m"
  shows "mr_name m = Some (fst (entry m))" "m \<in> set (live_memories ws (Some s) rows)"
  using memory_rows_okD(2) [OF assms(1,2)] assms(2,3) by (simp_all add: in_store_def entry_def memory_history_def live_memories_def)

lemma store_paths_differ:
  assumes "memory_rows_ok rows" "store_map ws s rows i = Some e" "store_map ws s rows j = Some e'" "fst e = fst e'"
  shows "i = j"
proof -
  from assms(2) obtain m where m: "m \<in> set rows" "mr_id m = i" "in_store ws s m" "e = entry m" by (rule store_map_Some)
  from assms(3) obtain m' where m': "m' \<in> set rows" "mr_id m' = j" "in_store ws s m'" "e' = entry m'" by (rule store_map_Some)
  have "distinct (map mr_name (live_memories ws (Some s) rows))" by (rule memory_rows_okD(5) [OF assms(1)])
  moreover have "mr_name m = mr_name m'" using entry_names(1) [OF assms(1)] m m' assms(4) by simp
  ultimately have "m = m'"
    using entry_names(2) [OF assms(1) m(1,3)] entry_names(2) [OF assms(1) m'(1,3)] by (auto simp: distinct_map dest: inj_onD)
  with m m' show ?thesis by simp
qed

lemma free_key:
  assumes "memory_rows_ok rows'" "store_map ws s rows' = M(i \<mapsto> (k, c))"
  shows "k \<notin> fst ` ran (M(i := None))"
proof
  assume "k \<in> fst ` ran (M(i := None))"
  then obtain j c' where "(M(i := None)) j = Some (k, c')" by (auto simp: ran_def)
  then have j: "j \<noteq> i" "store_map ws s rows' j = Some (k, c')" using assms(2) by (auto split: if_splits)
  moreover have "store_map ws s rows' i = Some (k, c)" by (simp add: assms(2))
  ultimately show False using store_paths_differ [OF assms(1)] by fastforce
qed

section \<open>What requests write\<close>

lemma tidyD:
  assumes "tidy m"
  obtains p c where "normalize_memory_path (dget ''path'' (mr_data m)) = Inr p" "dget ''path_key'' (mr_data m) = PStr (path_key p)"
    "dget ''content'' (mr_data m) = PStr c" "entry m = (path_key p, c)"
  using assms by (auto simp: tidy_def entry_def str_at_def content_text_def py_str_def split: sum.splits pv.splits)

lemma payload_entry:
  assumes "fst (memory_payload b w) = Inr data" "mr_data m = data"
  obtains p where "normalize_memory_path (dget ''path'' b) = Inr p" "tidy m" "entry m = (path_key p, content_text (dget ''content'' b))"
proof -
  obtain p where n: "normalize_memory_path (dget ''path'' b) = Inr p"
    using assms(1) by (cases "normalize_memory_path (dget ''path'' b)") (simp_all add: memory_payload_def bindM_def mon_defs)
  let ?actor = "PStr (py_str (por (por (dget ''actor'' b) (dget ''updated_by'' b)) (PStr ''api'')))"
  let ?now = "PStr (isoformat (w_clock w (w_ticks w)))" and ?content = "content_text (dget ''content'' b)"
  have "enforce_memory_content_limit ?content = Inr ()"
    using assms(1) n by (cases "enforce_memory_content_limit ?content") (simp_all add: memory_payload_def bindM_def seqM_def mon_defs Let_def)
  with assms(1) n have data: "data = dpop ''actor''
      (dsetdefault ''redacted'' (PBool False) (dsetdefault ''metadata'' (PDict []) (dupdate b ([(''path'', PStr p),
        (''path_key'', PStr (path_key p)), (''content'', PStr ?content)] @ content_metadata ?content @
        [(''version'', PInt 1), (''created_by'', ?actor), (''updated_by'', ?actor), (''created_at'', ?now), (''updated_at'', ?now)]))))"
    by (simp add: memory_payload_def bindM_def seqM_def mon_defs Let_def)
  have p: "normalize_memory_path (dget ''path'' b) = Inr p" "dget ''path'' data = PStr p"
    "dget ''path_key'' data = PStr (path_key p)" "dget ''content'' data = PStr (content_text (dget ''content'' b))"
    unfolding data content_metadata_def by (simp_all add: n)
  with normalize_memory_path_idem [OF p(1)] assms(2) that [OF p(1)] show thesis
    by (simp add: tidy_def entry_def str_at_def content_text_def py_str_def)
qed

lemma merged_items:
  assumes "wf_keys us"
  shows "dget k (fold merge_memory_item us m) =
    (if k \<in> set UNMERGED_KEYS \<or> \<not> has_key k us then dget k m else if dget k us = PStr [] then PNone else dget k us)"
  using assms
proof (induction us arbitrary: m)
  case (Cons kv us)
  obtain k' v where kv: "kv = (k', v)" by (cases kv)
  have fresh: "\<not> has_key k' us" "wf_keys us" using Cons.prems by (simp_all add: kv has_key_def)
  show ?case
  proof (cases "k' = k")
    case True
    with Cons.IH [OF fresh(2), of "merge_memory_item kv m"] fresh(1) show ?thesis
      by (simp add: kv merge_memory_item_def has_key_def dget_def)
  next
    case False
    then have "dget k (merge_memory_item kv m) = dget k m" by (simp add: kv merge_memory_item_def)
    with Cons.IH [OF fresh(2), of "merge_memory_item kv m"] False show ?thesis by (simp add: kv has_key_def dget_def)
  qed
qed (simp add: has_key_def)

lemma no_empty_path: "normalize_memory_path (PStr []) \<noteq> Inr p"
  by (simp add: normalize_memory_path_def path_parts_def validate_memory_path_text_def res_simps raise_if_def startswith_def
      py_strip_def lstrip_def rstrip_def)

lemma merged_path:
  assumes "merge_memory_path us e = Inr m1" "has_key ''path'' us = has_key ''path'' b" "dget ''path'' us = dget ''path'' b"
    "normalize_memory_path (dget ''path'' e) = Inr p" "dget ''path_key'' e = PStr (path_key p)"
  shows "dget ''content'' m1 = dget ''content'' e" "dget ''path_key'' m1 = PStr (asked_key b (path_key p))"
    "\<exists>q. normalize_memory_path (if has_key ''path'' b then dget ''path'' b else dget ''path'' m1) = Inr q \<and>
      path_key q = asked_key b (path_key p)"
proof -
  have "dget ''content'' m1 = dget ''content'' e \<and> dget ''path_key'' m1 = PStr (asked_key b (path_key p)) \<and>
    (\<exists>q. normalize_memory_path (if has_key ''path'' b then dget ''path'' b else dget ''path'' m1) = Inr q \<and>
      path_key q = asked_key b (path_key p))"
  proof (cases "has_key ''path'' b")
    case True
    then obtain q where q: "normalize_memory_path (dget ''path'' b) = Inr q"
      "m1 = dset ''path_key'' (PStr (path_key q)) (dset ''path'' (PStr q) e)"
      using assms(1-3) by (auto simp: merge_memory_path_def res_simps)
    then show ?thesis using True by (simp add: asked_key_def)
  next
    case False
    then have "m1 = e" using assms(1,2) by (simp add: merge_memory_path_def)
    with False assms(4,5) show ?thesis by (simp add: asked_key_def)
  qed
  then show "dget ''content'' m1 = dget ''content'' e" "dget ''path_key'' m1 = PStr (asked_key b (path_key p))"
    "\<exists>q. normalize_memory_path (if has_key ''path'' b then dget ''path'' b else dget ''path'' m1) = Inr q \<and>
      path_key q = asked_key b (path_key p)" by blast+
qed

lemma merged_content:
  assumes "merge_memory_content us f = Inr m2" "has_key ''content'' us = has_key ''content'' b"
    "content_text (dget ''content'' f) = asked_content b c" "\<not> has_key ''content'' b \<Longrightarrow> dget ''content'' f = PStr c"
  shows "dget ''content'' m2 = PStr (asked_content b c)" "dget ''path_key'' m2 = dget ''path_key'' f" "dget ''path'' m2 = dget ''path'' f"
proof -
  have "dget ''content'' m2 = PStr (asked_content b c) \<and> dget ''path_key'' m2 = dget ''path_key'' f \<and> dget ''path'' m2 = dget ''path'' f"
  proof (cases "has_key ''content'' b")
    case True
    then have "m2 = dupdate (dset ''content'' (PStr (asked_content b c)) f) (content_metadata (asked_content b c))"
      using assms(1-3) by (auto simp: merge_memory_content_def res_simps Let_def)
    then show ?thesis by (simp add: content_metadata_def)
  next
    case False
    then have "m2 = f" using assms(1,2) by (simp add: merge_memory_content_def)
    with False assms(4) show ?thesis by (simp add: asked_content_def)
  qed
  then show "dget ''content'' m2 = PStr (asked_content b c)" "dget ''path_key'' m2 = dget ''path_key'' f"
    "dget ''path'' m2 = dget ''path'' f" by blast+
qed

lemma merged_entry:
  assumes "fst (merge_memory_data (mr_data m) (update_fields b) u) = Inr data" "wf_keys b" "tidy m" "entry m = (k, c)"
    "mr_data m' = data"
  shows "tidy m'" "entry m' = (asked_key b k, asked_content b c)"
proof -
  let ?us = "dpop ''actor'' (dpop ''updated_by'' (update_fields b))"
  have us: "wf_keys ?us" using assms(2) by (simp add: update_fields_def)
  have path_asked: "has_key ''path'' ?us = has_key ''path'' b" "dget ''path'' ?us = dget ''path'' b"
    and content_asked: "has_key ''content'' ?us = has_key ''content'' b" "dget ''content'' ?us = dget ''content'' b"
    by (simp_all add: update_fields_def)
  obtain p where p: "normalize_memory_path (dget ''path'' (mr_data m)) = Inr p"
    "dget ''path_key'' (mr_data m) = PStr (path_key p)" "dget ''content'' (mr_data m) = PStr c" "k = path_key p"
  proof (rule tidyD [OF assms(3)])
    fix q d assume q: "normalize_memory_path (dget ''path'' (mr_data m)) = Inr q" "dget ''path_key'' (mr_data m) = PStr (path_key q)"
      "dget ''content'' (mr_data m) = PStr d" "entry m = (path_key q, d)"
    then have "k = path_key q" "c = d" using assms(4) by simp_all
    with q show thesis by (intro that [of q]) simp_all
  qed
  obtain m1 m2 v t where m: "merge_memory_path ?us (mr_data m) = Inr m1"
    "merge_memory_content ?us (fold merge_memory_item ?us m1) = Inr m2"
    and data: "data = dsetdefault ''metadata'' (PDict []) (dset ''updated_at'' t
      (dset ''updated_by'' (PStr (update_actor (mr_data m) (update_fields b))) (dset ''version'' v m2)))"
    using assms(1) by (cases "merge_memory_data (mr_data m) (update_fields b) u") (auto simp: merge_memory_data_def mon_simps mon_defs Let_def)
  have out: "dget x data = dget x m2" if "x \<in> {''path'', ''path_key'', ''content''}" for x
    unfolding data using that by auto
  note m1 = merged_path [OF m(1) path_asked p(1,2), folded p(4), unfolded p(3)]
  let ?f = "fold merge_memory_item ?us m1"
  have key: "dget ''path_key'' ?f = PStr (asked_key b k)" using merged_items [OF us] m1 by (simp add: UNMERGED_KEYS_def)
  have path: "dget ''path'' ?f = (if has_key ''path'' b then dget ''path'' b else dget ''path'' m1)"
  proof (cases "has_key ''path'' b \<and> dget ''path'' b = PStr []")
    case True
    with m1 no_empty_path show ?thesis by auto
  next
    case False
    with merged_items [OF us] path_asked show ?thesis by (auto simp: UNMERGED_KEYS_def)
  qed
  have "dget ''content'' ?f = (if has_key ''content'' b then if dget ''content'' b = PStr [] then PNone else dget ''content'' b else PStr c)"
    using merged_items [OF us, of "''content''" m1] content_asked m1 by (simp add: UNMERGED_KEYS_def)
  then have content: "content_text (dget ''content'' ?f) = asked_content b c" "\<not> has_key ''content'' b \<Longrightarrow> dget ''content'' ?f = PStr c"
    by (simp_all add: asked_content_def content_text_def py_str_def)
  note m2 = merged_content [OF m(2) content_asked(1) content]
  from key m2 out [of "''path''"] out [of "''path_key''"] out [of "''content''"] m1 path assms(5)
  show "tidy m'" "entry m' = (asked_key b k, asked_content b c)"
    by (auto simp: tidy_def entry_def str_at_def content_text_def py_str_def)
qed

section \<open>The map follows the rows\<close>

lemma tidy_text:
  assumes "tidy m"
  shows "normalize_memory_path (dget ''path'' (mr_data m)) \<noteq> Inl e" "dget ''path_key'' (mr_data m) = PStr (fst (entry m))"
    "dget ''content'' (mr_data m) = PStr (snd (entry m))" "content_text (dget ''content'' (mr_data m)) = snd (entry m)"
    "normalize_memory_path (dget ''path'' (mr_data m)) = Inr p \<Longrightarrow> path_key p = fst (entry m)"
  by (rule tidyD [OF assms], simp add: content_text_def py_str_def)+

lemma map_replaced:
  assumes "distinct (map mr_id rows)" "m \<in> set rows" "mr_id m' = mr_id m" "is_version q"
  shows "store_map ws s (replace_by mr_id m' rows @ [q]) =
    (store_map ws s rows)(mr_id m := if in_store ws s m' then Some (entry m') else None)"
proof
  fix i
  have q: "\<not> in_store ws s q" using version_not_memory [OF assms(4)] by (simp add: in_store_def)
  have "find_by mr_id (mr_id m) rows = Some m" by (rule find_by_unique [OF assms(1,2)])
  with q show "store_map ws s (replace_by mr_id m' rows @ [q]) i =
    ((store_map ws s rows)(mr_id m := if in_store ws s m' then Some (entry m') else None)) i"
    using assms(3) by (auto simp: store_map_def find_by_append find_by_replace split: option.split)
qed

lemma map_added:
  assumes "distinct (map mr_id (rows @ [m, q]))" "is_version q"
  shows "store_map ws s (rows @ [m, q]) =
    (store_map ws s rows)(mr_id m := if in_store ws s m then Some (entry m) else None)" "store_map ws s rows (mr_id m) = None"
proof -
  have q: "\<not> in_store ws s q" using version_not_memory [OF assms(2)] by (simp add: in_store_def)
  have "find_by mr_id (mr_id m) rows = None" using assms(1) by (simp add: find_by_None)
  then show "store_map ws s rows (mr_id m) = None" by (simp add: store_map_def)
  have two: "find_by mr_id i (rows @ [m, q]) = (case find_by mr_id i rows of Some x \<Rightarrow> Some x | None \<Rightarrow>
      if mr_id m = i then Some m else if mr_id q = i then Some q else None)" for i
    using find_by_append [of mr_id i "rows @ [m]" q] by (simp add: find_by_append split: option.split)
  show "store_map ws s (rows @ [m, q]) = (store_map ws s rows)(mr_id m := if in_store ws s m then Some (entry m) else None)"
  proof
    fix i
    show "store_map ws s (rows @ [m, q]) i =
      ((store_map ws s rows)(mr_id m := if in_store ws s m then Some (entry m) else None)) i"
      using q \<open>find_by mr_id (mr_id m) rows = None\<close> by (auto simp: store_map_def two split: option.split)
  qed
qed

lemma untouched:
  assumes "distinct (map mr_id rows)" "m \<in> set rows" "\<not> in_store ws s m"
  shows "(store_map ws s rows)(mr_id m := None) = store_map ws s rows"
  using find_by_unique [OF assms(1,2)] assms(3) by (auto simp: store_map_def)

lemma in_place: "same_place m m' \<Longrightarrow> in_store ws s m' \<Longrightarrow> mr_deleted_at m = None \<Longrightarrow> in_store ws s m"
  by (simp add: in_store_def same_place_def is_memory_def)

lemma nothing_is_an_update:
  assumes "nothing_to_update s i b ws rows" "store_rows_ok rows" "wf_keys b"
  shows "memory_spec (UpdateMemory i b) (store_map ws s rows) (store_map ws s rows)"
proof -
  from assms(1) obtain m where m: "m \<in> set rows" "mr_id m = i" "is_memory m" "mr_workspace_id m = ws" "mr_parent_id m = Some s"
    "mr_deleted_at m = None" and why: "memory_requested_state_matches_current (mr_data m) (update_fields b) = Inr True \<or>
      (\<exists>v data. fst (merge_memory_data (mr_data m) (update_fields b) v) = Inr data \<and> \<not> memory_has_material_change (mr_data m) data)"
    unfolding nothing_to_update_def by blast
  have tidy: "tidy m" using store_rows_okD(3) [OF assms(2) m(1,3,6)] .
  obtain k c where e: "entry m = (k, c)" by (cases "entry m")
  note kept = tidy_text [OF tidy, unfolded e fst_conv snd_conv]
  have asked: "asked_key b k = k \<and> asked_content b c = c"
  proof (rule disjE [OF why])
    assume "memory_requested_state_matches_current (mr_data m) (update_fields b) = Inr True"
    then show ?thesis using kept(4,5)
      by (auto simp: memory_requested_state_matches_current_def res_simps Let_def asked_key_def asked_content_def update_fields_def
          split: if_splits)
  next
    assume "\<exists>v data. fst (merge_memory_data (mr_data m) (update_fields b) v) = Inr data \<and> \<not> memory_has_material_change (mr_data m) data"
    then obtain v data where d: "fst (merge_memory_data (mr_data m) (update_fields b) v) = Inr data"
      "\<not> memory_has_material_change (mr_data m) data" by blast
    have data: "mr_data (m\<lparr>mr_data := data\<rparr>) = data" by simp
    note new = tidy_text(2,3) [OF merged_entry(1) [OF d(1) assms(3) tidy e data]]
    have "dget ''path_key'' data = PStr (asked_key b k)" "dget ''content'' data = PStr (asked_content b c)"
      using new unfolding merged_entry(2) [OF d(1) assms(3) tidy e data] data by simp_all
    with d(2) kept(2,3) text_is_material [of "''path_key''" "mr_data m" k data] text_is_material [of "''content''" "mr_data m" c data]
    have "k = asked_key b k" "c = asked_content b c" by (auto simp: IMMATERIAL_KEYS_def)
    then show ?thesis by simp
  qed
  have "in_store ws s m" using m by (simp add: in_store_def)
  then have at: "store_map ws s rows i = Some (k, c)"
    using store_map_row [OF store_rows_okD(2) [OF assms(2)] m(1)] m(2) e by metis
  have "k \<notin> fst ` ran ((store_map ws s rows)(i := None))"
    by (rule free_key [of rows ws s _ i k c]) (use assms(2) at in \<open>auto simp: store_rows_ok_def\<close>)
  with at asked have "memory_spec (UpdateMemory i b) (store_map ws s rows) ((store_map ws s rows)(i \<mapsto> (asked_key b k, asked_content b c)))"
    by (intro memory_spec.update) simp_all
  moreover have "(store_map ws s rows)(i \<mapsto> (asked_key b k, asked_content b c)) = store_map ws s rows"
    using at asked by auto
  ultimately show ?thesis by simp
qed

section \<open>Refinement\<close>

lemma tidy_rows:
  assumes "store_rows_ok rows" "memory_move rows rows'" "\<And>m. m \<in> set rows' \<Longrightarrow> is_memory m \<Longrightarrow> mr_deleted_at m = None \<Longrightarrow> m \<in> set rows \<or> tidy m"
  shows "store_rows_ok rows'"
  using memory_move_keeps [OF assms(2)] assms(1,3) by (auto simp: store_rows_ok_def list_all_iff)

definition wf_request :: "memory_request \<Rightarrow> bool" where
  "wf_request req = (case req of UpdateMemory i b \<Rightarrow> wf_keys b | _ \<Rightarrow> True)"

definition implements :: "string \<Rightarrow> string \<Rightarrow> memory_request \<Rightarrow> resource_row list \<Rightarrow> resource_row list \<Rightarrow> bool" where
  "implements ws s req rows rows' \<longleftrightarrow> store_rows_ok rows' \<and> memory_spec req (store_map ws s rows) (store_map ws s rows') \<and>
     (\<forall>ws' s'. (ws', s') \<noteq> (ws, s) \<longrightarrow> store_map ws' s' rows' = store_map ws' s' rows)"

lemma creation_implements:
  assumes "store_rows_ok rows" "memory_move rows rows'" "rows' = rows @ [m, v]" "is_memory m" "is_version v"
    "mr_workspace_id m = ws" "mr_parent_id m = Some s" "mr_deleted_at m = None" "fst (memory_payload b u) = Inr (mr_data m)"
  shows "implements ws s (CreateMemory b) rows rows'"
proof -
  obtain p where p: "normalize_memory_path (dget ''path'' b) = Inr p" "tidy m"
    "entry m = (path_key p, content_text (dget ''content'' b))" using payload_entry [OF assms(9) refl] .
  have ok: "memory_rows_ok rows'" using memory_move_keeps [OF assms(2)] assms(1) by (simp add: store_rows_ok_def)
  note ids = memory_rows_okD(1) [OF ok, unfolded assms(3)]
  note maps = map_added [OF ids assms(5)]
  have here: "in_store ws' s' m \<longleftrightarrow> (ws', s') = (ws, s)" for ws' s' using assms(4,6-8) by (auto simp: in_store_def)
  have new: "store_map ws s rows' = (store_map ws s rows)(mr_id m \<mapsto> (path_key p, content_text (dget ''content'' b)))"
    using maps(1) [of ws s] here [of ws s] p(3) assms(3) by simp
  have "(store_map ws s rows)(mr_id m := None) = store_map ws s rows" using maps(2) by auto
  then have "memory_spec (CreateMemory b) (store_map ws s rows) (store_map ws s rows')"
    unfolding new using memory_spec.create [where M = "store_map ws s rows", OF p(1) maps(2)] free_key [OF ok new] by simp
  moreover have "store_map ws' s' rows' = store_map ws' s' rows" if "(ws', s') \<noteq> (ws, s)" for ws' s'
    using maps [of ws' s'] here [of ws' s'] that assms(3) by auto
  moreover have "store_rows_ok rows'"
    by (rule tidy_rows [OF assms(1,2)]) (use assms(3,5) p(2) version_not_memory in auto)
  ultimately show ?thesis by (simp add: implements_def)
qed

lemma replacing_implements:
  assumes "store_rows_ok rows" "memory_move rows rows'" "rows' = replace_by mr_id m' rows @ [q]" "m \<in> set rows" "is_memory m"
    "mr_workspace_id m = ws" "mr_parent_id m = Some s" "mr_deleted_at m = None" "same_place m m'" "is_version q"
    "mr_deleted_at m' = None \<Longrightarrow> tidy m'"
    "store_map ws s rows' = (store_map ws s rows)(mr_id m := if mr_deleted_at m' = None then Some (entry m') else None) \<Longrightarrow>
      memory_spec req (store_map ws s rows) (store_map ws s rows')"
  shows "implements ws s req rows rows'"
proof -
  note ids = store_rows_okD(2) [OF assms(1)]
  have id: "mr_id m' = mr_id m" using assms(9) by (simp add: same_place_def)
  note maps = map_replaced [OF ids assms(4) id assms(10)]
  have "in_store ws s m' \<longleftrightarrow> mr_deleted_at m' = None" using assms(5-7,9) by (simp add: in_store_def same_place_def is_memory_def)
  then have "memory_spec req (store_map ws s rows) (store_map ws s rows')"
    using assms(12) maps [of ws s] assms(3) by simp
  moreover have "store_map ws' s' rows' = store_map ws' s' rows" if "(ws', s') \<noteq> (ws, s)" for ws' s'
  proof -
    have "\<not> in_store ws' s' m" "\<not> in_store ws' s' m'" using that assms(6,7,9) by (auto simp: in_store_def same_place_def)
    with maps [of ws' s'] untouched [OF ids assms(4), of ws' s'] show ?thesis by (simp add: assms(3))
  qed
  moreover have "store_rows_ok rows'"
    by (rule tidy_rows [OF assms(1,2)])
      (use assms(3,11) replaced_set [OF ids assms(4) id] version_not_memory [OF assms(10)] in auto)
  ultimately show ?thesis by (simp add: implements_def)
qed

lemma update_implements:
  assumes "store_rows_ok rows" "memory_move rows rows'" "rows' = replace_by mr_id m' rows @ [q]" "m \<in> set rows" "is_memory m"
    "mr_workspace_id m = ws" "mr_parent_id m = Some s" "mr_deleted_at m = None" "same_place m m'" "is_version q"
    "fst (merge_memory_data (mr_data m) (update_fields b) u) = Inr (mr_data m')" "wf_keys b" "mr_deleted_at m' = None"
  shows "implements ws s (UpdateMemory (mr_id m) b) rows rows'"
proof (rule replacing_implements [OF assms(1-10)])
  obtain k c where e: "entry m = (k, c)" by (cases "entry m")
  have tidy: "tidy m" using store_rows_okD(3) [OF assms(1,4,5,8)] .
  note new = merged_entry [OF assms(11,12) tidy e refl]
  from new(1) show "tidy m'" .
  have "in_store ws s m" using assms(5-8) by (simp add: in_store_def)
  from store_map_row [OF store_rows_okD(2) [OF assms(1)] assms(4) this] have at: "store_map ws s rows (mr_id m) = Some (k, c)" by (simp add: e)
  have ok: "memory_rows_ok rows'" using memory_move_keeps [OF assms(2)] assms(1) by (simp add: store_rows_ok_def)
  assume "store_map ws s rows' = (store_map ws s rows)(mr_id m := if mr_deleted_at m' = None then Some (entry m') else None)"
  then have map: "store_map ws s rows' = (store_map ws s rows)(mr_id m \<mapsto> (asked_key b k, asked_content b c))"
    using new(2) assms(13) by simp
  show "memory_spec (UpdateMemory (mr_id m) b) (store_map ws s rows) (store_map ws s rows')"
    unfolding map by (rule memory_spec.update [OF at free_key [OF ok map]])
qed

lemma deletion_implements:
  assumes "store_rows_ok rows" "memory_move rows rows'" "rows' = replace_by mr_id m' rows @ [q]" "m \<in> set rows" "is_memory m"
    "mr_workspace_id m = ws" "mr_parent_id m = Some s" "mr_deleted_at m = None" "same_place m m'" "is_version q" "mr_deleted_at m' \<noteq> None"
  shows "implements ws s (DeleteMemory (mr_id m) sha) rows rows'"
proof (rule replacing_implements [OF assms(1-10)])
  obtain k c where e: "entry m = (k, c)" by (cases "entry m")
  have "in_store ws s m" using assms(5-8) by (simp add: in_store_def)
  from store_map_row [OF store_rows_okD(2) [OF assms(1)] assms(4) this] have at: "store_map ws s rows (mr_id m) = Some (k, c)" by (simp add: e)
  assume "store_map ws s rows' = (store_map ws s rows)(mr_id m := if mr_deleted_at m' = None then Some (entry m') else None)"
  then show "memory_spec (DeleteMemory (mr_id m) sha) (store_map ws s rows) (store_map ws s rows')"
    using memory_spec.delete [where M = "store_map ws s rows", OF at] assms(11) by simp
qed (use assms(11) in simp)

lemma requests_settle:
  assumes "run_memory_request s view req w = (r, w')" "store_rows_ok (db_resources (w_committed w))" "wf_request req"
  shows "((\<exists>e. r = Inl e) \<or> memory_spec req (store_map (ws_of None w) s (db_resources (w_committed w)))
      (store_map (ws_of None w) s (db_resources (w_committed w)))) \<and> w_committed w' = w_committed w \<or>
    implements (ws_of None w) s req (db_resources (w_committed w)) (db_resources (w_committed w'))"
proof -
  let ?w = "w\<lparr>w_db := w_committed w\<rparr>" and ?rows = "db_resources (w_committed w)"
  have ws: "ws_of None ?w = ws_of None w" by (rule ws_same) simp
  have ok: "memory_rows_ok (db_resources (w_db ?w))" using assms(2) by (simp add: store_rows_ok_def)
  show ?thesis
  proof (cases req)
    case (CreateMemory b)
    from assms(1) have run: "session_scope (create_memory_body s b view) w = (r, w')" by (simp add: CreateMemory create_memory_def)
    from scope_settles [OF run commits_settles [OF create_memory_moves [OF ok], where N = False]] show ?thesis
      unfolding ws CreateMemory using creation_implements [OF assms(2)] by (auto; blast)
  next
    case (UpdateMemory i b)
    from assms(1) have run: "session_scope (update_memory_body s i b view) w = (r, w')" by (simp add: UpdateMemory update_memory_def)
    have wf: "wf_keys b" using assms(3) by (simp add: UpdateMemory wf_request_def)
    from scope_settles [OF run update_memory_settles [OF ok]] consider
      "(\<exists>e. r = Inl e) \<or> nothing_to_update s i b (ws_of None w) ?rows" "w_committed w' = w_committed w"
    | m m1 q u where "memory_move ?rows (db_resources (w_committed w'))" "m \<in> set ?rows" "same_place m m1" "is_version q"
        "db_resources (w_committed w') = replace_by mr_id m1 ?rows @ [q]"
        "fst (merge_memory_data (mr_data m) (update_fields b) u) = Inr (mr_data m1)" "mr_deleted_at m = None"
        "mr_id m1 = i" "is_memory m1" "mr_workspace_id m1 = ws_of None w" "mr_parent_id m1 = Some s" "mr_deleted_at m1 = None"
      unfolding ws by (auto; blast)
    then show ?thesis
    proof cases
      case 1
      with nothing_is_an_update [OF _ assms(2) wf] show ?thesis unfolding UpdateMemory by blast
    next
      case 2
      then have "is_memory m" "mr_workspace_id m = ws_of None w" "mr_parent_id m = Some s" "mr_id m = i"
        by (simp_all add: same_place_def is_memory_def)
      with update_implements [OF assms(2) 2(1,5,2) _ _ _ 2(7,3,4,6) wf 2(12)] show ?thesis unfolding UpdateMemory by blast
    qed
  next
    case (DeleteMemory i sha)
    from assms(1) have run: "session_scope (delete_memory_body s i sha) w = (r, w')" by (simp add: DeleteMemory delete_memory_def)
    from scope_settles [OF run commits_settles [OF delete_memory_moves [OF ok], where N = False]] show ?thesis
      unfolding ws DeleteMemory using deletion_implements [OF assms(2)] by (auto; blast)
  qed
qed

definition memories_at :: "world \<Rightarrow> string \<Rightarrow> string \<Rightarrow> string \<Rightarrow> (string \<times> string) option" where
  "memories_at w ws s = store_map ws s (db_resources (w_committed w))"


inductive_cases updatedE: "memory_spec (UpdateMemory i b) M M'"


end
