(* ===== verification/ManagedRoutes.thy ===== *)
theory ManagedRoutes
  imports Managed
begin

text \<open>
  The handlers of \<open>app/routers/generic_resources.py\<close> for vaults, credentials, memory stores and user profiles,
  each one request. A body is the dict of the fields that were sent.
\<close>

section \<open>Vaults\<close>

definition create_vault :: "(string \<Rightarrow> string \<Rightarrow> string \<Rightarrow> string) \<Rightarrow> (string \<Rightarrow> zone res) \<Rightarrow> pdict \<Rightarrow> pdict M" where
  "create_vault enc zone_info body = session_scope (create_top_level enc zone_info ''vault'' body ''active'')"

definition list_vaults :: "int \<Rightarrow> string option \<Rightarrow> bool \<Rightarrow> pdict list_response M" where
  "list_vaults limit page include_archived = session_scope (list_top_level ''vault'' limit
     (list_filter0\<lparr>lf_page := page, lf_include_archived := include_archived, lf_max_limit := 100\<rparr>))"

definition retrieve_vault :: "string \<Rightarrow> pdict M" where
  "retrieve_vault i = session_scope (retrieve_managed i ''vault'' None)"

definition update_vault ::
  "(string \<Rightarrow> string \<Rightarrow> string \<Rightarrow> string) \<Rightarrow> (string \<Rightarrow> zone res) \<Rightarrow> string \<Rightarrow> pdict \<Rightarrow> pdict M" where
  "update_vault enc zone_info i body = session_scope (update_managed enc zone_info i ''vault'' body None)"

definition delete_vault :: "string \<Rightarrow> pdict M" where
  "delete_vault i = session_scope (delete_managed i ''vault'' ''vault_deleted'' None)"

definition archive_vault :: "string \<Rightarrow> pdict M" where
  "archive_vault i = session_scope (archive_managed i ''vault'' None)"

section \<open>Credentials\<close>

definition create_credential ::
  "(string \<Rightarrow> string \<Rightarrow> string \<Rightarrow> string) \<Rightarrow> (string \<Rightarrow> zone res) \<Rightarrow> string \<Rightarrow> pdict \<Rightarrow> pdict M" where
  "create_credential enc zone_info vault_id body = session_scope (
     seqM (must_exist vault_id ''vault'' None) (create_child enc zone_info ''credential'' vault_id body))"

definition list_credentials :: "string \<Rightarrow> int \<Rightarrow> string option \<Rightarrow> bool \<Rightarrow> pdict list_response M" where
  "list_credentials vault_id limit page include_archived = session_scope (
     seqM (must_exist vault_id ''vault'' None) (list_child ''credential'' vault_id limit page include_archived))"

definition retrieve_credential :: "string \<Rightarrow> string \<Rightarrow> pdict M" where
  "retrieve_credential vault_id i = session_scope (retrieve_managed i ''credential'' (Some vault_id))"

definition update_credential :: "(string \<Rightarrow> string \<Rightarrow> string \<Rightarrow> string) \<Rightarrow> (string \<Rightarrow> zone res) \<Rightarrow>
    string \<Rightarrow> string \<Rightarrow> pdict \<Rightarrow> pdict M" where
  "update_credential enc zone_info vault_id i body =
     session_scope (update_managed enc zone_info i ''credential'' body (Some vault_id))"

definition delete_credential :: "string \<Rightarrow> string \<Rightarrow> pdict M" where
  "delete_credential vault_id i =
     session_scope (delete_managed i ''credential'' ''vault_credential_deleted'' (Some vault_id))"

definition archive_credential :: "string \<Rightarrow> string \<Rightarrow> pdict M" where
  "archive_credential vault_id i = session_scope (archive_managed i ''credential'' (Some vault_id))"

definition credential_validation_payload :: "resource_row \<Rightarrow> string \<Rightarrow> pdict M" where
  "credential_validation_payload r vault_id =
     bindM (liftE (credential_auth_of r)) (\<lambda>auth.
     bindM nowM (\<lambda>t.
     returnM [(''type'', PStr ''vault_credential_validation''), (''vault_id'', PStr vault_id),
       (''credential_id'', PStr (mr_id r)), (''status'', PStr ''unknown''),
       (''has_refresh_token'', PBool (truthy (dget ''refresh'' auth))), (''mcp_probe'', PNone), (''refresh'', PNone),
       (''validated_at'', PTime t)]))"

text \<open>\<^theory_text>\<open>json.dumps(.., separators=(",", ":"), sort_keys=True)\<close> of the payload, times as text.\<close>

definition iso_value :: "pv \<Rightarrow> pv" where
  "iso_value v = (case v of PTime t \<Rightarrow> PStr (isoformat t) | _ \<Rightarrow> v)"

definition validation_text :: "pdict \<Rightarrow> string" where
  "validation_text d = dumps '','' '':'' (PDict (sort_key fst (map (\<lambda>(k, v). (k, iso_value v)) d)))"

definition validate_credential :: "string \<Rightarrow> string \<Rightarrow> pdict M" where
  "validate_credential vault_id i = session_scope (
     bindM (must_exist i ''credential'' (Some vault_id)) (\<lambda>r.
     bindM (credential_validation_payload r vault_id) (\<lambda>validation.
     bindM (liftE (dict_or_empty (dget ''metadata'' (mr_data r)))) (\<lambda>metadata.
     let metadata' = dset ''last_validation'' (PStr (validation_text validation)) metadata in
     bindM (update_resource r (resource_patch0\<lparr>rp_data := Some (dset ''metadata'' (PDict metadata') (mr_data r))\<rparr>)) (\<lambda>_.
     seqM commitM (returnM validation))))))"

section \<open>Memory stores\<close>

text \<open>The fields a creation is given, with the defaults pydantic fills in.\<close>

definition create_memory_store ::
  "(string \<Rightarrow> string \<Rightarrow> string \<Rightarrow> string) \<Rightarrow> (string \<Rightarrow> zone res) \<Rightarrow> pdict \<Rightarrow> pdict M" where
  "create_memory_store enc zone_info body = session_scope (create_top_level enc zone_info ''memory_store''
     (dsetdefault ''metadata'' (PDict []) (dsetdefault ''description'' PNone body)) ''active'')"

definition list_memory_stores :: "int \<Rightarrow> string option \<Rightarrow> bool \<Rightarrow> pv \<Rightarrow> pv \<Rightarrow> pdict list_response M" where
  "list_memory_stores limit page include_archived created_at_gte created_at_lte =
     session_scope (list_top_level ''memory_store'' limit
       (list_filter0\<lparr>lf_page := page, lf_include_archived := include_archived, lf_created_at_gte := created_at_gte,
          lf_created_at_lte := created_at_lte, lf_max_limit := 100\<rparr>))"

definition retrieve_memory_store :: "string \<Rightarrow> pdict M" where
  "retrieve_memory_store i = session_scope (retrieve_managed i ''memory_store'' None)"

definition update_memory_store ::
  "(string \<Rightarrow> string \<Rightarrow> string \<Rightarrow> string) \<Rightarrow> (string \<Rightarrow> zone res) \<Rightarrow> string \<Rightarrow> pdict \<Rightarrow> pdict M" where
  "update_memory_store enc zone_info i body = session_scope (update_managed enc zone_info i ''memory_store'' body None)"

definition delete_memory_store :: "string \<Rightarrow> pdict M" where
  "delete_memory_store i = session_scope (delete_managed i ''memory_store'' ''memory_store_deleted'' None)"

definition archive_memory_store :: "string \<Rightarrow> pdict M" where
  "archive_memory_store i = session_scope (archive_managed i ''memory_store'' None)"

section \<open>User profiles\<close>

definition create_user_profile ::
  "(string \<Rightarrow> string \<Rightarrow> string \<Rightarrow> string) \<Rightarrow> (string \<Rightarrow> zone res) \<Rightarrow> pdict \<Rightarrow> pdict M" where
  "create_user_profile enc zone_info body = session_scope (create_top_level enc zone_info ''user_profile'' body ''active'')"

definition list_user_profiles :: "int \<Rightarrow> string option \<Rightarrow> string \<Rightarrow> pdict list_response M" where
  "list_user_profiles limit page order =
     session_scope (list_top_level ''user_profile'' limit (list_filter0\<lparr>lf_page := page, lf_order := order\<rparr>))"

definition retrieve_user_profile :: "string \<Rightarrow> pdict M" where
  "retrieve_user_profile i = session_scope (retrieve_managed i ''user_profile'' None)"

definition update_user_profile ::
  "(string \<Rightarrow> string \<Rightarrow> string \<Rightarrow> string) \<Rightarrow> (string \<Rightarrow> zone res) \<Rightarrow> string \<Rightarrow> pdict \<Rightarrow> pdict M" where
  "update_user_profile enc zone_info i body = session_scope (update_managed enc zone_info i ''user_profile'' body None)"

text \<open>\<^theory_text>\<open>secrets.token_urlsafe(32)\<close>, from the bytes the random stream gives.\<close>

definition token_urlsafe :: "string M" where
  "token_urlsafe = bindM randomM (\<lambda>bytes. returnM (rstrip_char CHR ''='' (urlsafe_b64encode bytes)))"

definition create_user_profile_enrollment_url :: "string \<Rightarrow> pdict M" where
  "create_user_profile_enrollment_url i = session_scope (
     bindM (must_exist i ''user_profile'' None) (\<lambda>profile.
     bindM token_urlsafe (\<lambda>token.
     let token_hash = sha256_hex (utf8_encode token) in
     bindM nowM (\<lambda>now.
     let expires_at = now + 3600 * 1000000 in
     bindM get_settings (\<lambda>st.
     let base_url = rstrip_char CHR ''/'' (st_oma_public_base_url st) in
     bindM (create_resource ''user_profile_enrollment'' (resource_args0\<lparr>
       ra_parent_id := Some (mr_id profile), ra_name := Some (take 16 token_hash),
       ra_data := [(''user_profile_id'', PStr (mr_id profile)), (''token_hash'', PStr token_hash),
         (''expires_at'', PStr (isoformat expires_at)), (''url_base'', PStr base_url)]\<rparr>)) (\<lambda>_.
     seqM commitM (returnM
       [(''type'', PStr ''enrollment_url''),
        (''url'', PStr (base_url @ ''/managed-agents/user-profiles/'' @ mr_id profile @ ''/enroll?token='' @ token)),
        (''expires_at'', PTime expires_at)])))))))"

end
