(* ===== verification/CredentialFacts.thy ===== *)
theory CredentialFacts
  imports ManagedRoutes Publish
begin

text \<open>
  Properties of credentials: on a server with an encryption key the authentication of every credential is kept as
  ciphertext, and deleting a credential removes its secrets.
\<close>

section \<open>Secrets inside values\<close>

lemma secrets_mono: "secrets_all P v \<Longrightarrow> (\<And>s. P s \<Longrightarrow> Q s) \<Longrightarrow> secrets_all Q v"
proof (induction v)
  case (PDict d)
  show ?case
    unfolding secrets_dict list_all_iff
  proof
    fix kv assume kv: "kv \<in> set d"
    have "item_all P kv" using PDict.prems(1) kv unfolding secrets_dict list_all_iff by blast
    then show "item_all Q kv"
      using PDict.IH [OF kv, of "snd kv"] PDict.prems(2)
      by (cases kv; cases "snd kv") (auto simp: item_all_def simp del: secrets_all.simps(1) split: if_splits)
  qed
qed (auto simp: list_all_iff)

lemma purged_none: "secrets_all P (purge_secret_values v)"
proof (induction v)
  case (PDict d)
  have "item_all P (k, if is_secret_key k then PNone else purge_secret_values v)" if "(k, v) \<in> set d" for k v
    using PDict.IH [OF that, of v] by (simp add: item_all_def)
  then show ?case by (auto simp: secrets_dict list_all_iff simp del: secrets_all.simps(1))
qed (auto simp: list_all_iff)

lemma purge_dict_none: "secrets_all P (PDict (purge_dict d))"
  using purged_none [of P "PDict d"] by (simp add: purge_dict_def del: secrets_all.simps)

lemma secrets_dget:
  assumes "secrets_all P (PDict d)" "\<not> is_secret_key k"
  shows "secrets_all P (dget k d)"
proof (cases "map_of d k")
  case (Some v)
  from map_of_SomeD [OF this] assms(1) have "item_all P (k, v)" unfolding secrets_dict list_all_iff by blast
  with assms(2) Some show ?thesis by (simp add: item_all_def dget_def)
qed (simp add: dget_def)

lemma secrets_dset:
  assumes "secrets_all P (PDict d)" "secrets_all P v" "\<not> is_secret_key k"
  shows "secrets_all P (PDict (dset k v d))"
proof -
  have "item_all P (k, v)" using assms(2,3) by (simp add: item_all_def)
  with assms(1) show ?thesis unfolding secrets_dict by (induction d) (auto simp: item_all_def)
qed

section \<open>What encryption leaves\<close>

text \<open>The server has a key, or one that cannot be used, in which case encryption fails.\<close>

definition keyed_server :: "world \<Rightarrow> bool" where
  "keyed_server w \<longleftrightarrow> key_of (w_settings w) \<noteq> Inr None"

lemma keyed_settings: "w_settings v = w_settings w \<Longrightarrow> keyed_server v = keyed_server w"
  by (simp add: keyed_server_def)

lemma encrypted_sealed:
  assumes "encrypt_secret seal s w = (Inr t, w')" "keyed_server w"
  shows "sealed t \<and> w_settings w' = w_settings w"
proof -
  obtain k where k: "key_of (w_settings w) = Inr (Some k)"
    using assms by (cases "key_of (w_settings w)")
      (auto simp: encrypt_secret_def keyed_server_def encryption_key_run bindM_def)
  show ?thesis
  proof (cases "sealed s")
    case True
    with assms(1) k show ?thesis by (simp add: encrypt_secret_def encryption_key_run bindM_def mon_defs)
  next
    case False
    have "sealed (ENCRYPTED_PREFIX @ x)" for x by (simp add: startswith_def)
    with False assms(1) k show ?thesis by (auto simp: encrypt_secret_def encryption_key_run bindM_def mon_defs Let_def)
  qed
qed

lemma map_sealed:
  assumes "mapM f xs w = (Inr ys, w')" "keyed_server w"
    "\<And>x y u v. x \<in> set xs \<Longrightarrow> f x u = (Inr y, v) \<Longrightarrow> keyed_server u \<Longrightarrow> Q y \<and> w_settings v = w_settings u"
  shows "list_all Q ys \<and> w_settings w' = w_settings w"
  using assms
proof (induction xs arbitrary: ys w)
  case (Cons x xs)
  from Cons.prems(1) obtain y u zs where r: "f x w = (Inr y, u)" "mapM f xs u = (Inr zs, w')" "ys = y # zs"
    by (auto simp: mon_simps)
  have first: "Q y \<and> w_settings u = w_settings w" by (rule Cons.prems(3) [OF _ r(1) Cons.prems(2)]) simp
  then have "keyed_server u" using keyed_settings [of u w] Cons.prems(2) by blast
  then have "list_all Q zs \<and> w_settings w' = w_settings u"
  proof (rule Cons.IH [OF r(2)])
    fix x' y' u' v'
    assume "x' \<in> set xs" and f: "f x' u' = (Inr y', v')" "keyed_server u'"
    then have "x' \<in> set (x # xs)" by simp
    from Cons.prems(3) [OF this f] show "Q y' \<and> w_settings v' = w_settings u'" .
  qed
  with first r(3) show ?case by simp
qed simp

lemma walk_sealed:
  "walk (encrypt_secret seal) v w = (Inr e, w') \<Longrightarrow> keyed_server w \<Longrightarrow> secrets_all sealed e \<and> w_settings w' = w_settings w"
proof (induction v arbitrary: e w w')
  case (PList xs)
  then obtain ys where ys: "mapM (walk (encrypt_secret seal)) xs w = (Inr ys, w')" "e = PList ys" by (auto simp: mon_simps)
  have "list_all (secrets_all sealed) ys \<and> w_settings w' = w_settings w"
    by (rule map_sealed [OF ys(1) PList.prems(2)]) (rule PList.IH)
  with ys(2) show ?case by simp
next
  case (PDict d)
  then obtain ys where ys: "mapM (walk_item (encrypt_secret seal)) d w = (Inr ys, w')" "e = PDict ys"
    by (auto simp: walk_dict mon_simps simp del: walk.simps)
  have item: "item_all sealed y \<and> w_settings v = w_settings u"
    if kv: "kv \<in> set d" and r: "walk_item (encrypt_secret seal) kv u = (Inr y, v)" and k: "keyed_server u" for kv y u v
  proof -
    obtain key x where kx: "kv = (key, x)" by (cases kv)
    have IH: "\<And>z. walk (encrypt_secret seal) x u = (Inr z, v) \<Longrightarrow> secrets_all sealed z \<and> w_settings v = w_settings u"
      using PDict.IH [OF kv, of x] k kx by simp
    show ?thesis
    proof (cases "is_secret_key key \<and> is_str x")
      case True
      then obtain s where s: "x = PStr s" by (auto dest: is_strD)
      with True r kx obtain t where t: "encrypt_secret seal s u = (Inr t, v)" "y = (key, PStr t)"
        by (auto simp: walk_item_def mon_simps)
      from encrypted_sealed [OF t(1) k] t(2) True show ?thesis by (simp add: item_all_def)
    next
      case False
      then have "walk_item (encrypt_secret seal) (key, x) = bindM (walk (encrypt_secret seal) x) (\<lambda>z. returnM (key, z))"
        by (cases x) (auto simp: walk_item_def monad_laws)
      with r kx obtain z where z: "walk (encrypt_secret seal) x u = (Inr z, v)" "y = (key, z)" by (auto simp: mon_simps)
      have "is_str z = is_str x" using z(1) by (cases x) (auto simp: mon_simps is_str_def)
      with False IH [OF z(1)] z(2) show ?thesis by (cases z) (auto simp: item_all_def simp del: secrets_all.simps(1))
    qed
  qed
  have "list_all (item_all sealed) ys \<and> w_settings w' = w_settings w"
    by (rule map_sealed [OF ys(1) PDict.prems(2) item])
  with ys(2) show ?case by (simp add: secrets_dict del: secrets_all.simps(1))
qed (auto simp: mon_simps)

section \<open>The rows of credentials\<close>

definition credential_safe :: "resource_row \<Rightarrow> bool" where
  "credential_safe r \<longleftrightarrow> (mr_resource_type r = ''credential'' \<longrightarrow> secrets_all sealed (dget ''auth'' (mr_data r)) \<and>
     (mr_deleted_at r \<noteq> None \<longrightarrow> secrets_all (\<lambda>_. False) (PDict (mr_data r))))"

definition credentials_safe :: "resource_row list \<Rightarrow> bool" where
  "credentials_safe rows \<longleftrightarrow> distinct (map mr_id rows) \<and> list_all credential_safe rows"

lemma credentials_safe_append:
  "credentials_safe rows \<Longrightarrow> credential_safe r \<Longrightarrow> mr_id r \<notin> mr_id ` set rows \<Longrightarrow> credentials_safe (rows @ [r])"
  by (auto simp: credentials_safe_def list_all_iff)

lemma credentials_safe_replace:
  "credentials_safe rows \<Longrightarrow> credential_safe r \<Longrightarrow> credentials_safe (replace_by mr_id r rows)"
  by (auto simp: credentials_safe_def list_all_iff dest: set_replace_by)

lemma credential_stamp [simp]:
  "credential_safe (r\<lparr>mr_updated_at := t\<rparr>) = credential_safe r"
  "credential_safe (r\<lparr>mr_archived_at := a, mr_status := st, mr_updated_at := t\<rparr>) = credential_safe r"
  by (simp_all add: credential_safe_def)

lemma purged_safe:
  assumes "mr_data r = dset ''secrets_purged_at'' (PStr t) (purge_dict d)"
  shows "credential_safe r"
proof -
  have "\<not> is_secret_key ''secrets_purged_at''" by code_simp
  then have gone: "secrets_all P (PDict (mr_data r))" for P
    unfolding assms by (intro secrets_dset purge_dict_none) simp_all
  have "\<not> is_secret_key ''auth''" by code_simp
  from secrets_dget [OF gone this] have "secrets_all sealed (dget ''auth'' (mr_data r))" .
  with gone show ?thesis by (simp add: credential_safe_def)
qed

lemma kept_map_in: "(\<And>x. x \<in> set xs \<Longrightarrow> keeps tables_kept (f x)) \<Longrightarrow> keeps tables_kept (mapM f xs)"
  by (induction xs) (auto intro!: kept.bind_keeps kept.pure_steps)

lemma reading_walk:
  assumes "\<And>s. keeps tables_kept (f s)"
  shows "keeps tables_kept (walk f v)"
proof (induction v)
  case (PDict d)
  have "keeps tables_kept (walk_item f x)" if x: "x \<in> set d" for x
  proof (cases x)
    case (Pair k y)
    have "keeps tables_kept (walk f y)" using PDict.IH [OF x, of y] Pair by simp
    then show ?thesis unfolding Pair walk_item_def
      by (auto split: pv.split intro!: kept.control assms simp del: walk.simps)
  qed
  then show ?case unfolding walk_dict by (intro kept.bind_keeps kept_map_in kept.pure_steps)
next
  case (PList xs)
  then show ?case by (simp, intro kept.bind_keeps kept_map_in kept.pure_steps)
qed (simp_all add: kept.pure_steps)

lemma reading_credential [reading]: "keeps tables_kept (normalize_credential_data enc d)"
proof -
  have "keeps tables_kept encryption_key"
    by (rule keepsI) (auto simp: encryption_key_run tables_kept_def)
  moreover have "keeps tables_kept randomM" by (auto intro!: keepsI simp: mon_defs tables_kept_def)
  ultimately have "keeps tables_kept (encrypt_secret enc s)" for s
    unfolding encrypt_secret_def Let_def by (intro kept.control reading)
  from reading_walk [OF this] have "keeps tables_kept (encrypt_secret_values enc v)" for v
    by (simp add: encrypt_secret_values_def)
  then show ?thesis
    unfolding normalize_credential_data_def Let_def by (intro kept.control reading)
qed

lemma normalized_safe:
  assumes "normalize_credential_data enc d w = (Inr data, w')" "keyed_server w"
  shows "secrets_all sealed (dget ''auth'' data)" "w_db w' = w_db w" "w_committed w' = w_committed w"
proof -
  from reads [OF reading_credential assms(1)] show "w_db w' = w_db w" "w_committed w' = w_committed w" by blast+
  from assms(1) obtain auth e v metadata where
    "walk (encrypt_secret enc) (PDict auth) w = (Inr e, v)" "dget ''auth'' data = e"
    by (auto simp: normalize_credential_data_def encrypt_secret_values_def Let_def mon_simps simp del: walk.simps)
  with walk_sealed assms(2) show "secrets_all sealed (dget ''auth'' data)" by metis
qed

section \<open>Requests\<close>

lemma credential_kind: "normalize_resource_data enc zi ''credential'' d = normalize_credential_data enc d"
  by (simp add: normalize_resource_data_def)

lemma create_credential_safe:
  assumes "credentials_safe (db_resources (w_db w))" "keyed_server w"
  shows "publishes_at (\<lambda>d. credentials_safe (db_resources d))
    (seqM (must_exist vault ''vault'' None) (create_child enc zi ''credential'' vault body)) w"
  unfolding create_child_def create_managed_def credential_kind
proof (intro publishes_commit publish_intros drafting_changes drafting reading, goal_cases)
  case (1 x v data v1 name v2 r v3)
  have start: "v = w" using must_exist_Inr(1) [OF 1(1)] .
  note n = normalized_safe [OF 1(2) [unfolded start] assms(2)]
  have v2: "v2 = v1" using 1(3) by simp
  note new = create_resource_run [OF 1(4) [unfolded v2]] create_resource_new [OF 1(4) [unfolded v2]]
  have "credential_safe r" using n(1) new(3,4,9) by (simp add: credential_safe_def)
  with credentials_safe_append [OF assms(1)] new(1,12) n(2) show ?case by simp
qed

lemma update_credential_safe:
  assumes "credentials_safe (db_resources (w_db w))" "keyed_server w"
  shows "publishes_at (\<lambda>d. credentials_safe (db_resources d)) (update_managed enc zi i ''credential'' body parent) w"
  unfolding update_managed_def credential_kind
proof (intro publishes_commit publish_intros drafting_changes drafting reading, goal_cases)
  case (1 r v merged v1 data v2 name v3 r1 v4)
  note r = must_exist_Inr [OF 1(1)]
  have start: "v1 = w" using 1(2) r(1) by simp
  note n = normalized_safe [OF 1(3) [unfolded start] assms(2)]
  have v3: "v3 = v2" using 1(4) by simp
  let ?r = "patch_resource (resource_patch0\<lparr>rp_data := Some data, rp_name := name\<rparr>) r"
  have f: "mr_id r = mr_id ?r" "mr_data ?r = data" "mr_deleted_at ?r = None"
    using r(6) by (simp_all add: patch_resource_def given_def)
  have ids: "r \<in> set (db_resources (w_db v3))" "distinct (map mr_id (db_resources (w_db v3)))"
    using r(2) assms(1) n(2) v3 by (simp_all add: credentials_safe_def)
  note saved = save_resource_rows [OF 1(5) [unfolded update_resource_def] ids(1) f(1) ids(2)]
  have "credential_safe ?r" using n(1) f by (simp add: credential_safe_def)
  with saved(2) have "credential_safe r1" by auto
  from credentials_safe_replace [OF assms(1) this] saved(1) n(2) v3 show ?case by simp
qed

lemma validate_credential_safe:
  assumes "credentials_safe (db_resources (w_db w))"
    "validate_credential vault i u = (r, u')" "w = u\<lparr>w_db := w_committed u\<rparr>"
  shows "credentials_safe (db_resources (w_committed u'))"
proof -
  have "keeps tables_kept (credential_validation_payload r v)" for r v
    unfolding credential_validation_payload_def by (intro kept.control reading)
  note payload = this
  have "publishes_at (\<lambda>d. credentials_safe (db_resources d)) (
     bindM (must_exist i ''credential'' (Some vault)) (\<lambda>r.
     bindM (credential_validation_payload r vault) (\<lambda>validation.
     bindM (liftE (dict_or_empty (dget ''metadata'' (mr_data r)))) (\<lambda>metadata.
     bindM (update_resource r (resource_patch0\<lparr>rp_data := Some (dset ''metadata'' (PDict (dset ''last_validation''
       (PStr (validation_text validation)) metadata)) (mr_data r))\<rparr>)) (\<lambda>_.
     seqM commitM (returnM validation)))))) w"
  proof (intro publishes_commit publish_intros drafting_changes drafting payload reading, goal_cases)
    case (1 r v validation v1 metadata v2 r1 v3)
    note r = must_exist_Inr [OF 1(1)]
    have v2: "w_db v2 = w_db w" using reads [OF payload 1(2)] 1(3) r(1) by simp
    let ?r = "patch_resource (resource_patch0\<lparr>rp_data := Some (dset ''metadata'' (PDict (dset ''last_validation''
       (PStr (validation_text validation)) metadata)) (mr_data r))\<rparr>) r"
    have f: "mr_id r = mr_id ?r" "dget ''auth'' (mr_data ?r) = dget ''auth'' (mr_data r)" "mr_deleted_at ?r = None"
      using r(6) by (simp_all add: patch_resource_def given_def)
    have ids: "r \<in> set (db_resources (w_db v2))" "distinct (map mr_id (db_resources (w_db v2)))"
      using r(2) assms(1) v2 by (simp_all add: credentials_safe_def)
    note saved = save_resource_rows [OF 1(4) [unfolded update_resource_def] ids(1) f(1) ids(2)]
    have "credential_safe r" using assms(1) r(2) by (auto simp: credentials_safe_def list_all_iff)
    then have "credential_safe ?r" using f r(4) by (simp add: credential_safe_def)
    with saved(2) have "credential_safe r1" by auto
    from credentials_safe_replace [OF assms(1) this] saved(1) v2 show ?case by simp
  qed
  from scope_publishes [OF assms(2) [unfolded validate_credential_def Let_def] this [unfolded assms(3)]] assms(1,3)
  show ?thesis by auto
qed

lemma drafting_purge: "keeps unpublished (purge_if_credential r)"
  unfolding purge_if_credential_def purge_credential_secret_data_def
  by (intro draft.control drafting_changes drafting reading)

text \<open>The first step of archiving or deleting a credential empties its secrets.\<close>

lemma purged_rows:
  assumes "purge_if_credential r w = (Inr r1, w')" "mr_resource_type r = ''credential''" "r \<in> set (db_resources (w_db w))"
    "credentials_safe (db_resources (w_db w))"
  shows "\<exists>t. mr_data r1 = dset ''secrets_purged_at'' (PStr t) (purge_dict (mr_data r))" "mr_id r1 = mr_id r"
    "credentials_safe (db_resources (w_db w'))" "r1 \<in> set (db_resources (w_db w'))"
proof -
  obtain t v where saved: "update_resource r (resource_patch0\<lparr>rp_data :=
      Some (dset ''secrets_purged_at'' (PStr (isoformat t)) (purge_dict (mr_data r)))\<rparr>) v = (Inr r1, w')" "w_db v = w_db w"
    using assms(1,2) by (auto simp: purge_if_credential_def purge_credential_secret_data_def bindM_def mon_defs)
  let ?r = "patch_resource (resource_patch0\<lparr>rp_data :=
      Some (dset ''secrets_purged_at'' (PStr (isoformat t)) (purge_dict (mr_data r)))\<rparr>) r"
  have f: "mr_id r = mr_id ?r" "mr_data ?r = dset ''secrets_purged_at'' (PStr (isoformat t)) (purge_dict (mr_data r))"
    by (simp_all add: patch_resource_def given_def)
  have ids: "r \<in> set (db_resources (w_db v))" "distinct (map mr_id (db_resources (w_db v)))"
    using assms(3,4) saved(2) by (simp_all add: credentials_safe_def)
  note s = save_resource_rows [OF saved(1) [unfolded update_resource_def] ids(1) f(1) ids(2)]
  then obtain u where r1: "r1 = ?r\<lparr>mr_updated_at := u\<rparr>" by blast
  show "\<exists>t. mr_data r1 = dset ''secrets_purged_at'' (PStr t) (purge_dict (mr_data r))" using r1 f(2) by auto
  show id: "mr_id r1 = mr_id r" using r1 f(1) by simp
  have "credential_safe r1" using purged_safe [of r1] r1 f(2) by simp
  from credentials_safe_replace [OF assms(4) this] show "credentials_safe (db_resources (w_db w'))"
    using s(1) saved(2) by simp
  show "r1 \<in> set (db_resources (w_db w'))"
    using s(1) ids(1) id by (auto simp: replace_by_def image_iff)
qed

lemma archive_credential_safe:
  assumes "credentials_safe (db_resources (w_db w))"
  shows "publishes_at (\<lambda>d. credentials_safe (db_resources d)) (archive_managed i ''credential'' parent) w"
  unfolding archive_managed_def
proof (intro publishes_commit publish_intros drafting_purge drafting_changes drafting reading, goal_cases)
  case (1 r v r1 v1 r2 v2)
  note r = must_exist_Inr [OF 1(1)]
  note p = purged_rows [OF 1(2) [unfolded r(1)] r(4,2) assms]
  obtain t u where s: "save_resource (r1\<lparr>mr_archived_at := Some t, mr_status := ''archived''\<rparr>) u = (Inr r2, v2)" "w_db u = w_db v1"
    using 1(3) by (auto simp: archive_resource_def bindM_def mon_defs)
  have ids: "distinct (map mr_id (db_resources (w_db u)))" "r1 \<in> set (db_resources (w_db u))"
    using p(3,4) s(2) by (simp_all add: credentials_safe_def)
  have "mr_id r1 = mr_id (r1\<lparr>mr_archived_at := Some t, mr_status := ''archived''\<rparr>)" by simp
  note saved = save_resource_rows [OF s(1) ids(2) this ids(1)]
  from p(1) saved(2) have "credential_safe r2" using purged_safe [of r2] by auto
  from credentials_safe_replace [OF p(3) this] show ?case using saved(1) s(2) by simp
qed

lemma delete_credential_safe:
  assumes "credentials_safe (db_resources (w_db w))"
  shows "publishes_at (\<lambda>d. credentials_safe (db_resources d)) (delete_managed i ''credential'' ty parent) w"
  unfolding delete_managed_def
proof (intro publishes_commit publish_intros drafting_purge drafting_changes drafting reading, goal_cases)
  case (1 r v r1 v1 r2 v2)
  note r = must_exist_Inr [OF 1(1)]
  note p = purged_rows [OF 1(2) [unfolded r(1)] r(4,2) assms]
  have "distinct (map mr_id (db_resources (w_db v1)))" using p(3) by (simp add: credentials_safe_def)
  from delete_resource_rows [OF 1(3) p(4) this] obtain t u where d: "db_resources (w_db v2) = replace_by mr_id r2 (db_resources (w_db v1))"
    "r2 = r1\<lparr>mr_deleted_at := Some t, mr_status := ''deleted'', mr_updated_at := u\<rparr>" by blast
  from p(1) d(2) have "credential_safe r2" using purged_safe [of r2] by auto
  from credentials_safe_replace [OF p(3) this] show ?case using d(1) by simp
qed

section \<open>Runs\<close>

text \<open>
  The requests that write credentials, on a server with a key; \<open>elsewhere\<close> is any other step, which leaves them alone.
\<close>

inductive credential_step :: "world \<Rightarrow> world \<Rightarrow> bool" where
  creating: "keyed_server w \<Longrightarrow> create_credential enc zi vault body w = (r, w') \<Longrightarrow> credential_step w w'"
| updating: "keyed_server w \<Longrightarrow> update_credential enc zi vault i body w = (r, w') \<Longrightarrow> credential_step w w'"
| validating: "validate_credential vault i w = (r, w') \<Longrightarrow> credential_step w w'"
| archiving: "archive_credential vault i w = (r, w') \<Longrightarrow> credential_step w w'"
| deleting: "delete_credential vault i w = (r, w') \<Longrightarrow> credential_step w w'"
| elsewhere: "distinct (map mr_id (db_resources (w_committed w'))) \<Longrightarrow>
    filter (\<lambda>r. mr_resource_type r = ''credential'') (db_resources (w_committed w')) =
      filter (\<lambda>r. mr_resource_type r = ''credential'') (db_resources (w_committed w)) \<Longrightarrow> credential_step w w'"

lemma other_rows_safe: "mr_resource_type r \<noteq> ''credential'' \<Longrightarrow> credential_safe r"
  by (simp add: credential_safe_def)

lemma credential_step_safe:
  assumes "credential_step w w'" "credentials_safe (db_resources (w_committed w))"
  shows "credentials_safe (db_resources (w_committed w'))"
proof -
  let ?w = "w\<lparr>w_db := w_committed w\<rparr>"
  have ok: "credentials_safe (db_resources (w_db ?w))" using assms(2) by simp
  have moved: "w_committed w' = w_committed w \<or> credentials_safe (db_resources (w_committed w')) \<Longrightarrow>
    credentials_safe (db_resources (w_committed w'))" using assms(2) by auto
  have keyed: "keyed_server w \<Longrightarrow> keyed_server ?w" by (simp add: keyed_server_def)
  show ?thesis
    using assms(1)
  proof cases
    case (creating enc zi vault body r)
    then show ?thesis
      by (intro moved scope_publishes [OF _ create_credential_safe [OF ok keyed]]) (simp_all add: create_credential_def)
  next
    case (updating enc zi vault i body r)
    then show ?thesis
      by (intro moved scope_publishes [OF _ update_credential_safe [OF ok keyed]]) (simp_all add: update_credential_def)
  next
    case (validating vault i r)
    show ?thesis by (rule validate_credential_safe [OF ok validating refl])
  next
    case (archiving vault i r)
    then show ?thesis
      by (intro moved scope_publishes [OF _ archive_credential_safe [OF ok]]) (simp add: archive_credential_def)
  next
    case (deleting vault i r)
    then show ?thesis
      by (intro moved scope_publishes [OF _ delete_credential_safe [OF ok]]) (simp add: delete_credential_def)
  next
    case elsewhere
    have "credential_safe r" if r: "r \<in> set (db_resources (w_committed w'))" for r
    proof (cases "mr_resource_type r = ''credential''")
      case True
      with r have "r \<in> set (filter (\<lambda>r. mr_resource_type r = ''credential'') (db_resources (w_committed w')))" by simp
      then have "r \<in> set (db_resources (w_committed w))" unfolding elsewhere(2) by simp
      with assms(2) show ?thesis by (auto simp: credentials_safe_def list_all_iff)
    qed (rule other_rows_safe)
    with elsewhere(1) show ?thesis by (simp add: credentials_safe_def list_all_iff)
  qed
qed


definition vault_row :: resource_row where
  "vault_row = plain_file\<lparr>mr_id := ''vault_1'', mr_resource_type := ''vault'', mr_storage_backend := None,
     mr_data := [(''display_name'', PStr ''v'')]\<rparr>"

definition vault_world :: world where
  "vault_world = keyed_world\<lparr>w_committed := db0\<lparr>db_resources := [vault_row]\<rparr>\<rparr>"

definition bearer_body :: pdict where
  "bearer_body = [(''auth'', PDict [(''type'', PStr ''static_bearer''), (''mcp_server_url'', PStr ''u''), (''token'', PStr ''s3cret'')])]"

abbreviation add_bearer :: "world \<Rightarrow> pdict res \<times> world" where
  "add_bearer \<equiv> create_credential (\<lambda>k n p. n @ p) (\<lambda>_. Inr utc_zone) ''vault_1'' bearer_body"


end
