(* ===== verification/Skills.thy ===== *)
theory Skills
  imports Files Managed Json
begin

text \<open>
  \<open>app/routers/skills.py\<close>: a skill is a directory of files with a \<open>SKILL.md\<close>, kept as a numbered version whose
  archive is in the object store. \<open>zip_stored\<close> is \<^theory_text>\<open>zipfile\<close> (the archive of named contents), \<open>decode_replace\<close> is
  \<^theory_text>\<open>bytes.decode("utf-8", errors="replace")\<close>, \<open>guess_type\<close> as in \<open>Storage\<close>.
\<close>

section \<open>Paths and the manifest\<close>

definition normalize_zip_path :: "string \<Rightarrow> string res" where
  "normalize_zip_path filename =
     (let raw = replace_char (CHR 0x5C) ''/'' filename in
      if startswith ''/'' raw then Inl (HTTPException 422 ''Skill file paths must be relative'')
      else let parts = split_on CHR ''/'' raw in
        if parts = [] \<or> list_ex (\<lambda>p. p \<in> {[], ''.'', ''..''}) parts
        then Inl (HTTPException 422 ''Skill file paths must not contain empty, . or .. segments'')
        else let joined = py_join ''/'' parts in Inr (if joined \<noteq> [] then joined else ''file''))"

text \<open>\<^theory_text>\<open>str.splitlines()\<close>: a carriage return and the line feed after it are one boundary.\<close>

definition line_end :: "char \<Rightarrow> bool" where
  "line_end c = (let n = code_pt c in (10 \<le> n \<and> n \<le> 13) \<or> (28 \<le> n \<and> n \<le> 30) \<or> n = 133)"

fun splitlines_aux :: "string \<Rightarrow> bool \<Rightarrow> string \<Rightarrow> string list" where
  "splitlines_aux line after_cr [] = (if line = [] then [] else [rev line])"
| "splitlines_aux line after_cr (c # cs) =
     (if after_cr \<and> c = CHR 0x0A then splitlines_aux [] False cs
      else if line_end c then rev line # splitlines_aux [] (c = CHR 0x0D) cs
      else splitlines_aux (c # line) False cs)"

definition py_splitlines :: "string \<Rightarrow> string list" where
  "py_splitlines s = splitlines_aux [] False s"

definition frontmatter_line :: "string \<Rightarrow> pdict \<Rightarrow> pdict res" where
  "frontmatter_line line d =
     (let stripped = py_strip line in
      if stripped = [] \<or> startswith ''#'' stripped then Inr d
      else case split_once CHR '':'' stripped of
          None \<Rightarrow> Inl (HTTPException 422 ''SKILL.md frontmatter must use key: value lines'')
        | Some (key, v) \<Rightarrow>
            Inr (dset (py_strip key) (PStr (strip_char (CHR 0x27) (strip_char (CHR 0x22) (py_strip v)))) d))"

definition parse_skill_frontmatter :: "(string \<Rightarrow> string) \<Rightarrow> string \<Rightarrow> pdict res" where
  "parse_skill_frontmatter decode_replace raw =
     (case py_splitlines (decode_replace raw) of
        [] \<Rightarrow> Inl (HTTPException 422 ''SKILL.md must start with YAML frontmatter'')
      | line # rest \<Rightarrow>
          if py_strip line \<noteq> ''---'' then Inl (HTTPException 422 ''SKILL.md must start with YAML frontmatter'')
          else if \<not> list_ex (\<lambda>l. py_strip l = ''---'') rest
            then Inl (HTTPException 422 ''SKILL.md frontmatter must be closed with ---'')
          else foldE frontmatter_line (takeWhile (\<lambda>l. py_strip l \<noteq> ''---'') rest) [])"

text \<open>An uploaded file: its path in the archive, its bytes and its media type.\<close>

type_synonym skill_file = "string \<times> string \<times> pv"

definition validate_skill_files :: "(string \<Rightarrow> string) \<Rightarrow> skill_file list \<Rightarrow> pdict res" where
  "validate_skill_files decode_replace uploaded_files =
     bindE (raise_if (uploaded_files = []) (HTTPException 422 ''Skill uploads must include files'')) (\<lambda>_.
     bindE (mapE (\<lambda>(filename, _, _). normalize_zip_path filename) uploaded_files) (\<lambda>paths.
     let path_parts = map (split_on CHR ''/'') paths; top_level = hd (hd path_parts) in
     bindE (raise_if (list_ex (\<lambda>p. length p < 2) path_parts)
       (HTTPException 422 ''Skill files must live under one top-level directory'')) (\<lambda>_.
     bindE (raise_if (list_ex (\<lambda>p. hd p \<noteq> top_level) path_parts)
       (HTTPException 422 ''Skill files must share one top-level directory'')) (\<lambda>_.
     case find (\<lambda>(path, _). path = top_level @ ''/SKILL.md'') (zip paths (map (fst \<circ> snd) uploaded_files)) of
       None \<Rightarrow> Inl (HTTPException 422 ''Skill uploads must include root SKILL.md'')
     | Some (_, skill_file) \<Rightarrow>
         bindE (parse_skill_frontmatter decode_replace skill_file) (\<lambda>frontmatter.
         let missing = filter (\<lambda>field. \<not> truthy (dget field frontmatter)) [''name'', ''description''] in
         bindE (raise_if (missing \<noteq> []) (HTTPException 422
           (''SKILL.md frontmatter is missing required field(s): '' @ py_join '', '' missing))) (\<lambda>_.
         Inr (dset ''top_level_directory'' (PStr top_level) frontmatter)))))))"

section \<open>Requests\<close>

datatype form_value =
    FormText string
  | FormFile string "string option" string

record skill_request =
  sq_content_type :: string
  sq_form :: "(string \<times> form_value) list"
  sq_json :: "pv res"

text \<open>
  What a request says: the fields, the archive, and whether the display title came as a file, a value that no
  column takes.
\<close>

record skill_payload =
  sp_data :: pdict
  sp_archive :: string
  sp_title_is_file :: bool

text \<open>\<^theory_text>\<open>bytes(v)\<close> on a JSON value.\<close>

definition byte_of :: "pv \<Rightarrow> char res" where
  "byte_of v = (case v of
      PInt n \<Rightarrow> if 0 \<le> n \<and> n < 256 then Inr (char_of (nat n)) else Inl (ValueError ''bytes must be in range(0, 256)'')
    | PBool b \<Rightarrow> Inr (char_of (if b then 1 else 0 :: nat))
    | _ \<Rightarrow> Inl TypeError)"

definition py_bytes :: "pv \<Rightarrow> string res" where
  "py_bytes v = (case v of
      PInt n \<Rightarrow> if n < 0 then Inl (ValueError ''negative count'') else Inr (replicate (nat n) (CHR 0x00))
    | PBool b \<Rightarrow> Inr (if b then [CHR 0x00] else [])
    | PList xs \<Rightarrow> mapE byte_of xs
    | PDict [] \<Rightarrow> Inr []
    | _ \<Rightarrow> Inl TypeError)"

definition file_record :: "skill_file \<Rightarrow> pv" where
  "file_record f = (case f of (filename, raw, mime_type) \<Rightarrow>
     PDict [(''filename'', PStr filename), (''mime_type'', mime_type), (''size_bytes'', PInt (int (length raw)))])"

definition zip_uploaded_files :: "((string \<times> string) list \<Rightarrow> string) \<Rightarrow> skill_file list \<Rightarrow> string res" where
  "zip_uploaded_files zip_stored uploaded_files =
     bindE (mapE (\<lambda>(filename, raw, _). bindE (normalize_zip_path filename) (\<lambda>p. Inr (p, raw))) uploaded_files)
       (\<lambda>members. Inr (zip_stored members))"

definition read_form_file :: "string \<times> form_value \<Rightarrow> skill_file list M" where
  "read_form_file item = (case snd item of
      FormText _ \<Rightarrow> returnM []
    | FormFile name mime_type raw \<Rightarrow>
        bindM (liftE (normalize_zip_path name)) (\<lambda>filename.
        seqM (scan_upload_content raw (''Skill file '' @ filename)) (
        returnM [(filename, raw, pstr_opt mime_type)])))"

definition multipart_payload :: "((string \<times> string) list \<Rightarrow> string) \<Rightarrow> (string \<Rightarrow> string) \<Rightarrow>
    (string \<times> form_value) list \<Rightarrow> skill_payload M" where
  "multipart_payload zip_stored decode_replace form =
     (let display_title = map_of (rev form) ''display_title'' in
      bindM (mapM read_form_file form) (\<lambda>groups.
      let uploaded_files = concat groups in
      bindM (if uploaded_files = [] then returnM [] else liftE (validate_skill_files decode_replace uploaded_files))
        (\<lambda>manifest.
      bindM (liftE (zip_uploaded_files zip_stored uploaded_files)) (\<lambda>archive.
      returnM \<lparr>sp_data =
        [(''display_title'', case display_title of Some (FormText t) \<Rightarrow> PStr t | _ \<Rightarrow> PNone),
         (''name'', dget ''name'' manifest), (''description'', dget ''description'' manifest),
         (''files'', PList (map file_record uploaded_files)),
         (''top_level_directory'', dget ''top_level_directory'' manifest), (''manifest'', PDict manifest)],
        sp_archive = archive,
        sp_title_is_file = (case display_title of Some (FormFile _ _ _) \<Rightarrow> True | _ \<Rightarrow> False)\<rparr>))))"

definition read_json_file :: "pv \<Rightarrow> skill_file list M" where
  "read_json_file item = (case item of
      PDict d \<Rightarrow>
        bindM (liftE (normalize_zip_path (py_str (por (por (dget ''filename'' d) (dget ''path'' d)) (PStr ''file'')))))
          (\<lambda>filename.
        bindM (liftE (case dget_or ''content'' (PStr []) d of PStr s \<Rightarrow> Inr (utf8_encode s) | v \<Rightarrow> py_bytes v)) (\<lambda>raw.
        seqM (scan_upload_content raw (''Skill file '' @ filename)) (
        returnM [(filename, raw, dget ''mime_type'' d)])))
    | _ \<Rightarrow> returnM [])"

definition json_payload :: "((string \<times> string) list \<Rightarrow> string) \<Rightarrow> (string \<Rightarrow> string) \<Rightarrow> pv \<Rightarrow> skill_payload M" where
  "json_payload zip_stored decode_replace v = (case v of
      PDict body \<Rightarrow>
        (case dget ''files'' body of
           PList (f # fs) \<Rightarrow>
             bindM (mapM read_json_file (f # fs)) (\<lambda>groups.
             let uploaded_files = concat groups in
             bindM (liftE (validate_skill_files decode_replace uploaded_files)) (\<lambda>manifest.
             bindM (liftE (zip_uploaded_files zip_stored uploaded_files)) (\<lambda>archive.
             returnM \<lparr>sp_data = dupdate body
               [(''name'', por (dget ''name'' body) (dget ''name'' manifest)),
                (''description'', por (dget ''description'' body) (dget ''description'' manifest)),
                (''files'', PList (map file_record uploaded_files)),
                (''top_level_directory'', dget ''top_level_directory'' manifest), (''manifest'', PDict manifest)],
               sp_archive = archive, sp_title_is_file = False\<rparr>)))
         | _ \<Rightarrow>
             bindM (liftE (zip_uploaded_files zip_stored
               [(''manifest.json'', dumps_compact (PDict body), PStr ''application/json'')])) (\<lambda>archive.
             returnM \<lparr>sp_data = body, sp_archive = archive, sp_title_is_file = False\<rparr>))
    | _ \<Rightarrow> raiseM AttributeError)"

definition skill_payload_from_request :: "((string \<times> string) list \<Rightarrow> string) \<Rightarrow> (string \<Rightarrow> string) \<Rightarrow>
    skill_request \<Rightarrow> skill_payload M" where
  "skill_payload_from_request zip_stored decode_replace q =
     (if startswith ''multipart/form-data'' (sq_content_type q)
      then multipart_payload zip_stored decode_replace (sq_form q)
      else bindM (liftE (sq_json q)) (json_payload zip_stored decode_replace))"

section \<open>Skills and their versions\<close>

text \<open>\<^theory_text>\<open>time_ns() // 1_000\<close>: microseconds since 1970.\<close>

definition epoch_us :: "int \<Rightarrow> int" where
  "epoch_us t = t - 62135596800 * 1000000"

definition new_skill_version_id :: "pv \<Rightarrow> int M" where
  "new_skill_version_id previous =
     bindM nowM (\<lambda>t.
     bindM (catchM (liftE (py_int (por previous (PInt 0)))) (\<lambda>e.
       if e = TypeError \<or> is_value_error e then returnM 0 else raiseM e)) (\<lambda>previous_version.
     returnM (max (epoch_us t) (previous_version + 1))))"

definition opt_str :: "pv \<Rightarrow> pv \<Rightarrow> pv" where
  "opt_str none v = (if v = PNone then none else PStr (py_str v))"

definition skill_response :: "resource_row \<Rightarrow> pdict" where
  "skill_response r =
     (let d0 = resource_to_response r (Some ''skill'');
          d1 = dset ''latest_version'' (opt_str PNone (dget ''latest_version'' d0)) d0;
          d2 = dset ''source'' (por (dget ''source'' d1) (PStr ''custom'')) d1
      in dset ''display_title'' (dget ''display_title'' d2) d2)"

definition skill_version_response :: "resource_row \<Rightarrow> pdict" where
  "skill_version_response r =
     (let d0 = resource_to_response r (Some ''skill_version'');
          d1 = dset ''version'' (opt_str (PStr []) (dget ''version'' d0)) d0;
          d2 = dset ''skill_id'' (pstr_opt (mr_parent_id r)) d1;
          d3 = dset ''directory'' (por (por (dget ''directory'' d2) (dget ''top_level_directory'' d2)) (PStr [])) d2;
          d4 = dset ''name'' (por (dget ''name'' d3) (PStr [])) d3
      in dset ''description'' (por (dget ''description'' d4) (PStr [])) d4)"

definition enforce_skill_archive_size :: "string \<Rightarrow> unit M" where
  "enforce_skill_archive_size content = bindM get_settings (\<lambda>st.
     enforce_size_limit (int (length content)) (st_oma_max_skill_archive_bytes st) ''Skill archive'')"

definition skill_version_data :: "int \<Rightarrow> pdict \<Rightarrow> pdict" where
  "skill_version_data version data =
     [(''version'', PInt version), (''files'', dget_or ''files'' (PList []) data), (''archive_format'', PStr ''zip''),
      (''name'', dget ''name'' data), (''description'', dget ''description'' data),
      (''top_level_directory'', dget ''top_level_directory'' data), (''manifest'', dget ''manifest'' data)]"

definition create_skill_version_resource :: "(string \<Rightarrow> string option) \<Rightarrow> string \<Rightarrow> int \<Rightarrow> pdict \<Rightarrow> string \<Rightarrow>
    resource_row M" where
  "create_skill_version_resource guess_type skill_id version data content =
     seqM (enforce_skill_archive_size content) (
     seqM (scan_upload_content content ''Skill archive'') (
     let sha256 = sha256_hex content in
     bindM (storage_error_500 (seqM should_store_in_object_storage
       (save_file_bytes sha256_hex guess_type content (Some ''application/zip'') (''skills/'' @ skill_id)
         (''skill-v'' @ int_str version @ ''-'' @ sha256 @ ''.zip'') ''versions'' None))) (\<lambda>stored.
     create_resource ''skill_version'' (resource_args0\<lparr>ra_parent_id := Some skill_id, ra_version := Some version,
       ra_content_type := Some ''application/zip'', ra_filename := Some (''skill-v'' @ int_str version @ ''.zip''),
       ra_data := skill_version_data version data,
       ra_storage_backend := Some (sf_backend stored), ra_storage_key := Some (sf_key stored),
       ra_storage_url := Some (sf_url stored), ra_size_bytes := Some (sf_size_bytes stored),
       ra_sha256 := Some (or_str (Some (sf_sha256 stored)) sha256)\<rparr>))))"

definition create_skill_row :: "skill_payload \<Rightarrow> int \<Rightarrow> resource_row M" where
  "create_skill_row p version =
     (let data = sp_data p in
      seqM (guardM (sp_title_is_file p) (External ''StatementError'' [] 0)) (
      bindM (liftE (column_text (por (dget ''display_title'' data) (dget ''name'' data)))) (\<lambda>name.
      create_resource ''skill'' (resource_args0\<lparr>ra_name := name, ra_data :=
        [(''display_title'', dget ''display_title'' data), (''name'', dget ''name'' data),
         (''description'', dget ''description'' data), (''top_level_directory'', dget ''top_level_directory'' data),
         (''latest_version'', PInt version)]\<rparr>))))"

definition create_skill_body :: "((string \<times> string) list \<Rightarrow> string) \<Rightarrow> (string \<Rightarrow> string) \<Rightarrow>
    (string \<Rightarrow> string option) \<Rightarrow> skill_request \<Rightarrow> pdict M" where
  "create_skill_body zip_stored decode_replace guess_type q =
     bindM (skill_payload_from_request zip_stored decode_replace q) (\<lambda>p.
     bindM (new_skill_version_id PNone) (\<lambda>version_number.
     bindM (create_skill_row p version_number) (\<lambda>skill.
     bindM (create_skill_version_resource guess_type (mr_id skill) version_number (sp_data p) (sp_archive p))
       (\<lambda>version.
     seqM commitM (
     returnM (dset ''version'' (PDict (skill_version_response version)) (skill_response skill)))))))"

definition create_skill :: "((string \<times> string) list \<Rightarrow> string) \<Rightarrow> (string \<Rightarrow> string) \<Rightarrow>
    (string \<Rightarrow> string option) \<Rightarrow> skill_request \<Rightarrow> pdict M" where
  "create_skill zip_stored decode_replace guess_type q =
     session_scope (create_skill_body zip_stored decode_replace guess_type q)"

definition SKILL_SOURCES :: "string list" where "SKILL_SOURCES = [''anthropic'', ''custom'']"

definition list_skills :: "int \<Rightarrow> string option \<Rightarrow> string option \<Rightarrow> pdict list_response M" where
  "list_skills limit page source = session_scope (
     seqM (guardM (case source of None \<Rightarrow> False | Some s \<Rightarrow> s \<notin> set SKILL_SOURCES)
       (HTTPException 422 ''source must be one of: anthropic, custom'')) (
     bindM (list_resources ''skill'' None 1000 False False None) (\<lambda>found.
     bindM (liftE (sort_rows found (Some ''desc''))) (\<lambda>skills.
     let responses = map skill_response skills in
     paginate item_id (case source of None \<Rightarrow> responses
         | Some s \<Rightarrow> filter (\<lambda>d. dget ''source'' d = PStr s) responses) (Some limit) page 1000))))"

definition skill_or_404 :: "string \<Rightarrow> resource_row M" where
  "skill_or_404 skill_id = bindM (get_resource skill_id (Some ''skill'') None False None) (\<lambda>found. case found of
      None \<Rightarrow> raiseM (HTTPException 404 ''Skill not found'') | Some r \<Rightarrow> returnM r)"

definition skill_version_or_404 :: "string \<Rightarrow> int \<Rightarrow> resource_row M" where
  "skill_version_or_404 skill_id version =
     bindM (get_resource_version ''skill_version'' skill_id version False None) (\<lambda>found. case found of
      None \<Rightarrow> raiseM (HTTPException 404 ''Skill version not found'') | Some r \<Rightarrow> returnM r)"

definition retrieve_skill :: "string \<Rightarrow> pdict M" where
  "retrieve_skill skill_id = session_scope (bindM (skill_or_404 skill_id) (\<lambda>r. returnM (skill_response r)))"

definition delete_skill :: "string \<Rightarrow> pdict M" where
  "delete_skill skill_id = session_scope (
     bindM (skill_or_404 skill_id) (\<lambda>r.
     bindM (delete_resource r) (\<lambda>r1.
     seqM commitM (returnM [(''id'', PStr (mr_id r1)), (''type'', PStr ''skill_deleted''), (''deleted'', PBool True)]))))"

definition create_skill_version_body :: "((string \<times> string) list \<Rightarrow> string) \<Rightarrow> (string \<Rightarrow> string) \<Rightarrow>
    (string \<Rightarrow> string option) \<Rightarrow> string \<Rightarrow> skill_request \<Rightarrow> pdict M" where
  "create_skill_version_body zip_stored decode_replace guess_type skill_id q =
     bindM (skill_or_404 skill_id) (\<lambda>skill.
     bindM (skill_payload_from_request zip_stored decode_replace q) (\<lambda>p.
     bindM (new_skill_version_id (dget ''latest_version'' (mr_data skill))) (\<lambda>version_number.
     bindM (create_skill_version_resource guess_type (mr_id skill) version_number (sp_data p) (sp_archive p))
       (\<lambda>version.
     bindM (update_resource skill (resource_patch0\<lparr>rp_data :=
       Some (dset ''latest_version'' (PInt version_number) (mr_data skill))\<rparr>)) (\<lambda>_.
     seqM commitM (returnM (skill_version_response version)))))))"

definition create_skill_version :: "((string \<times> string) list \<Rightarrow> string) \<Rightarrow> (string \<Rightarrow> string) \<Rightarrow>
    (string \<Rightarrow> string option) \<Rightarrow> string \<Rightarrow> skill_request \<Rightarrow> pdict M" where
  "create_skill_version zip_stored decode_replace guess_type skill_id q =
     session_scope (create_skill_version_body zip_stored decode_replace guess_type skill_id q)"

definition list_skill_versions :: "string \<Rightarrow> int \<Rightarrow> string option \<Rightarrow> pdict list_response M" where
  "list_skill_versions skill_id limit page = session_scope (
     seqM (skill_or_404 skill_id) (
     bindM (list_resources ''skill_version'' (Some skill_id) 1000 False False None) (\<lambda>found.
     bindM (liftE (sort_rows found (Some ''desc''))) (\<lambda>versions.
     paginate item_id (map skill_version_response versions) (Some limit) page 1000))))"

definition retrieve_skill_version :: "string \<Rightarrow> int \<Rightarrow> pdict M" where
  "retrieve_skill_version skill_id version = session_scope (
     bindM (skill_version_or_404 skill_id version) (\<lambda>r. returnM (skill_version_response r)))"

definition delete_skill_version :: "string \<Rightarrow> int \<Rightarrow> pdict M" where
  "delete_skill_version skill_id version = session_scope (
     bindM (skill_version_or_404 skill_id version) (\<lambda>r.
     bindM (delete_resource r) (\<lambda>r1.
     seqM commitM (returnM [(''id'', PStr (py_str (case mr_version r1 of None \<Rightarrow> PNone | Some n \<Rightarrow> PInt n))),
       (''type'', PStr ''skill_version_deleted''), (''deleted'', PBool True)]))))"

definition download_skill_version :: "string \<Rightarrow> int \<Rightarrow> content_response M" where
  "download_skill_version skill_id version = session_scope (
     bindM (skill_version_or_404 skill_id version) (\<lambda>r.
     seqM (guardM (\<not> in_object_storage r) (HTTPException 500 ''Skill version object is not stored in object storage'')) (
     bindM (download_file_with_type (or_str (mr_storage_key r) [])) (\<lambda>(content, stored_content_type).
     returnM \<lparr>cr_content = content,
       cr_media_type = or_str stored_content_type (or_str (mr_content_type r) ''application/zip''),
       cr_disposition = ''attachment; filename='' @ CHR 0x22 # or_str (mr_filename r) (mr_id r) @ ''.zip'' @ [CHR 0x22]\<rparr>))))"

end
