(* ===== verification/Access.thy ===== *)
theory Access
  imports Sha256 Secrets Queries
begin

text \<open>
  Who makes a request and how it is answered when it fails: \<open>app/auth.py\<close>, \<open>app/workspace.py\<close>,
  \<open>app/errors.py\<close>, and what \<open>app/logging.py\<close> keeps out of the log. The current workspace is a context
  variable of the request (\<open>w_workspace\<close>, its id).
\<close>

section \<open>Workspaces\<close>

record current_workspace =
  cw_id :: string
  cw_slug :: string
  cw_source :: string

definition default_workspace :: current_workspace where
  "default_workspace = \<lparr>cw_id = DEFAULT_WORKSPACE_ID, cw_slug = ''default'', cw_source = ''default''\<rparr>"

definition set_current_workspace :: "current_workspace \<Rightarrow> unit M" where
  "set_current_workspace cw = modifyM (\<lambda>w. w\<lparr>w_workspace := Some (cw_id cw)\<rparr>)"

section \<open>Headers\<close>

definition ACCEPTED_MANAGED_AGENTS_BETAS :: "string list" where
  "ACCEPTED_MANAGED_AGENTS_BETAS = [''managed-agents-2026-04-01'', ''open-managed-agents-2026-04-01'',
     ''skills-2025-10-02'', ''user-profiles-2026-03-24'']"

definition split_header_values :: "string option \<Rightarrow> string list" where
  "split_header_values v = filter (\<lambda>p. p \<noteq> []) (map py_strip (split_on CHR '','' (case v of None \<Rightarrow> [] | Some s \<Rightarrow> s)))"

definition bearer_token :: "string option \<Rightarrow> string option" where
  "bearer_token v = (case v of None \<Rightarrow> None
     | Some s \<Rightarrow> if startswith ''Bearer '' s then Some (drop (length ''Bearer '') s) else None)"

definition configured_api_keys :: "string \<Rightarrow> string list \<Rightarrow> string list" where
  "configured_api_keys primary legacy =
     (if py_strip primary \<noteq> [] then [py_strip primary] else []) @
     map py_strip (filter (\<lambda>k. py_strip k \<noteq> []) legacy)"

record request_credentials =
  rc_x_api_key :: "string option"
  rc_authorization :: "string option"

text \<open>\<^theory_text>\<open>credentials.x_api_key or _bearer_token(credentials.authorization)\<close>\<close>

definition credentials_token :: "request_credentials \<Rightarrow> string option" where
  "credentials_token c = (case rc_x_api_key c of
      Some k \<Rightarrow> if k \<noteq> [] then Some k else bearer_token (rc_authorization c)
    | None \<Rightarrow> bearer_token (rc_authorization c))"

section \<open>Providers\<close>

definition key_workspace :: "settings \<Rightarrow> string \<Rightarrow> string" where
  "key_workspace st token =
     (let mapped = (case map_of (st_oma_api_key_workspaces st) token of None \<Rightarrow> [] | Some i \<Rightarrow> i) in
      if mapped \<noteq> [] then mapped
      else if st_oma_default_workspace_id st \<noteq> [] then st_oma_default_workspace_id st
      else DEFAULT_WORKSPACE_ID)"

definition env_authenticate :: "request_credentials \<Rightarrow> current_workspace M" where
  "env_authenticate c = bindM get_settings (\<lambda>st.
     let api_keys = configured_api_keys (st_oma_api_key st) (st_oma_api_keys st) in
     if api_keys = [] then returnM default_workspace
     else (case credentials_token c of
         None \<Rightarrow> raiseM (HTTPException 401 ''Invalid API key'')
       | Some token \<Rightarrow>
           if token \<notin> set api_keys then raiseM (HTTPException 401 ''Invalid API key'')
           else let workspace_id = key_workspace st token in
             returnM \<lparr>cw_id = workspace_id,
               cw_slug = (if workspace_id = DEFAULT_WORKSPACE_ID then ''default'' else workspace_id),
               cw_source = ''api_key''\<rparr>))"

definition database_authenticate_body :: "string \<Rightarrow> current_workspace M" where
  "database_authenticate_body token =
     bindM (get_api_key_by_token sha256_hex token False) (\<lambda>found. case found of
       None \<Rightarrow> raiseM (HTTPException 401 ''Invalid API key'')
     | Some k \<Rightarrow>
         seqM (touch_api_key k) (
         seqM commitM (
         returnM \<lparr>cw_id = ak_workspace_id k, cw_slug = ak_workspace_id k, cw_source = ''database_api_key''\<rparr>)))"

definition database_authenticate :: "request_credentials \<Rightarrow> current_workspace M" where
  "database_authenticate c = (case credentials_token c of
      None \<Rightarrow> raiseM (HTTPException 401 ''Missing API key'')
    | Some token \<Rightarrow>
        if token = [] then raiseM (HTTPException 401 ''Missing API key'')
        else session_scope (database_authenticate_body token))"

section \<open>Access to the API\<close>

record request_headers =
  rh_credentials :: request_credentials
  rh_anthropic_beta :: "string option"
  rh_open_managed_agents_beta :: "string option"
  rh_anthropic_version :: "string option"

definition accepted_beta :: "string list \<Rightarrow> bool" where
  "accepted_beta values \<longleftrightarrow> list_ex (\<lambda>v. v \<in> set ACCEPTED_MANAGED_AGENTS_BETAS) values"

text \<open>\<open>authenticate\<close> is the provider of the application, by default \<open>env_authenticate\<close>.\<close>

definition require_api_access ::
  "(request_credentials \<Rightarrow> current_workspace M) \<Rightarrow> request_headers \<Rightarrow> current_workspace M" where
  "require_api_access authenticate h =
     bindM get_settings (\<lambda>st.
     let anthropic_beta_values = split_header_values (rh_anthropic_beta h);
         native_beta_values = split_header_values (rh_open_managed_agents_beta h) in
     seqM (guardM (st_oma_require_beta_header st \<and> \<not> accepted_beta (anthropic_beta_values @ native_beta_values))
       (HTTPException 400 (''Missing required beta header: managed-agents-2026-04-01, open-managed-agents-2026-04-01, ''
         @ ''skills-2025-10-02, or user-profiles-2026-03-24''))) (
     seqM (guardM (st_oma_require_anthropic_version_header st \<and> accepted_beta anthropic_beta_values
         \<and> (case rh_anthropic_version h of None \<Rightarrow> True | Some v \<Rightarrow> v = []))
       (HTTPException 400 ''Missing required Anthropic API version header: 2023-06-01'')) (
     bindM (authenticate (rh_credentials h)) (\<lambda>cw.
     seqM (set_current_workspace cw) (returnM cw)))))"

text \<open>A handler of a router behind \<^theory_text>\<open>Depends(require_api_access)\<close>.\<close>

definition api_request ::
  "(request_credentials \<Rightarrow> current_workspace M) \<Rightarrow> request_headers \<Rightarrow> 'a M \<Rightarrow> 'a M" where
  "api_request authenticate h handler = seqM (require_api_access authenticate h) handler"

section \<open>Errors\<close>

definition error_payload :: "string \<Rightarrow> string \<Rightarrow> pdict" where
  "error_payload error_type message =
     [(''type'', PStr ''error''), (''error'', PDict [(''type'', PStr error_type), (''message'', PStr message)])]"

definition map_status :: "nat \<Rightarrow> string" where
  "map_status status_code =
     (if status_code = 401 then ''authentication_error''
      else if status_code = 403 then ''permission_error''
      else if status_code = 404 then ''not_found_error''
      else if status_code = 409 then ''conflict_error''
      else if status_code = 429 then ''rate_limit_error''
      else ''invalid_request_error'')"

text \<open>The program raises \<^theory_text>\<open>HTTPException\<close> with texts only.\<close>

definition http_exception_handler :: "nat \<Rightarrow> string \<Rightarrow> nat \<times> pdict" where
  "http_exception_handler status_code detail = (status_code, error_payload (map_status status_code) detail)"

definition validation_exception_handler :: "string \<Rightarrow> nat \<times> pdict" where
  "validation_exception_handler message = (422, error_payload ''invalid_request_error'' message)"

section \<open>The log\<close>

definition LOG_SECRET_KEY_PARTS :: "string list" where
  "LOG_SECRET_KEY_PARTS = [''secret'', ''token'', ''api_key'', ''apikey'', ''password'', ''private_key'', ''client_secret'']"

definition log_secret_key :: "string \<Rightarrow> bool" where
  "log_secret_key key =
     (let normalized = replace_char CHR ''-'' ''_'' (py_lower key)
      in list_ex (\<lambda>part. str_contains part normalized) LOG_SECRET_KEY_PARTS)"

fun log_values :: "pv \<Rightarrow> pv" where
  "log_values (PDict d) = PDict (map (\<lambda>(k, v). (k, if log_secret_key k then PStr ''redacted'' else log_values v)) d)"
| "log_values (PList xs) = PList (map log_values xs)"
| "log_values v = v"

definition redact_secrets :: "pdict \<Rightarrow> pdict" where
  "redact_secrets event_dict = map (\<lambda>(k, v). (k, if log_secret_key k then PStr ''redacted'' else log_values v)) event_dict"

end
