(* ===== verification/AccessFacts.thy ===== *)
theory AccessFacts
  imports Access Commits
begin

text \<open>
  What the access check of the routers lets in, with keys kept in the database: exactly the callers that present a live key,
  each in the workspace of its key.
\<close>

section \<open>Looking up and touching a key\<close>

definition headers_accepted :: "settings \<Rightarrow> request_headers \<Rightarrow> bool" where
  "headers_accepted st h \<longleftrightarrow>
     (st_oma_require_beta_header st \<longrightarrow> accepted_beta (split_header_values (rh_anthropic_beta h) @
        split_header_values (rh_open_managed_agents_beta h))) \<and>
     (st_oma_require_anthropic_version_header st \<and> accepted_beta (split_header_values (rh_anthropic_beta h)) \<longrightarrow>
        (case rh_anthropic_version h of None \<Rightarrow> False | Some v \<Rightarrow> v \<noteq> []))"

lemma access_run:
  "require_api_access p h w = (if headers_accepted (w_settings w) h
     then bindM (p (rh_credentials h)) (\<lambda>cw. seqM (set_current_workspace cw) (returnM cw)) w
     else (Inl (if st_oma_require_beta_header (w_settings w) \<and> \<not> accepted_beta
           (split_header_values (rh_anthropic_beta h) @ split_header_values (rh_open_managed_agents_beta h))
         then HTTPException 400 (''Missing required beta header: managed-agents-2026-04-01, open-managed-agents-2026-04-01, ''
           @ ''skills-2025-10-02, or user-profiles-2026-03-24'')
         else HTTPException 400 ''Missing required Anthropic API version header: 2023-06-01''), w))"
  by (simp add: require_api_access_def headers_accepted_def get_settings_def bindM_def seqM_def mon_defs Let_def
      split: option.split)

lemma key_lookup:
  assumes "distinct (map ak_key_hash (db_api_keys (w_db w)))"
  shows "get_api_key_by_token f t False w = (Inr (case find_by ak_key_hash (hash_api_key f t) (db_api_keys (w_db w)) of
      None \<Rightarrow> None | Some k \<Rightarrow> if ak_archived_at k = None then Some k else None), w)"
  by (simp add: get_api_key_by_token_def bindM_def mon_defs filter_key_unique [OF assms] scalar_one_or_none_def
      split: option.split)

text \<open>The keys without their times.\<close>

definition key_facts :: "api_key_row \<Rightarrow> api_key_row" where
  "key_facts k = k\<lparr>ak_last_used_at := None, ak_updated_at := 0\<rparr>"

lemma put_key_facts:
  assumes "distinct (map ak_id rows)" "k \<in> set rows" "key_facts k' = key_facts k"
  shows "map key_facts (replace_by ak_id k' rows) = map key_facts rows"
proof -
  have same: "ak_id x = ak_id y" if "key_facts x = key_facts y" for x y
    using arg_cong [OF that, of ak_id] by (simp add: key_facts_def)
  have "key_facts (if ak_id x = ak_id k' then k' else x) = key_facts x" if "x \<in> set rows" for x
    using that assms(2,3) same [OF assms(3)] inj_onD [of ak_id "set rows" x k] assms(1) by (auto simp: distinct_map)
  then show ?thesis by (simp add: replace_by_def)
qed

lemma touch_key:
  assumes "distinct (map ak_id (db_api_keys (w_db w)))" "k \<in> set (db_api_keys (w_db w))"
  obtains k' w' where "touch_api_key k w = (Inr k', w')" "w_committed w' = w_committed w"
    "map key_facts (db_api_keys (w_db w')) = map key_facts (db_api_keys (w_db w))"
    "(w_db w')\<lparr>db_api_keys := []\<rparr> = (w_db w)\<lparr>db_api_keys := []\<rparr>"
proof -
  obtain r w' where tried: "touch_api_key k w = (r, w')" by fastforce
  moreover from this obtain k' where "r = Inr k'"
    by (auto simp: touch_api_key_def save_api_key_def bindM_def seqM_def mon_defs Let_def split: if_splits)
  ultimately have run: "touch_api_key k w = (Inr k', w')" by simp
  have "w_committed w' = w_committed w \<and> (w_db w' = w_db w \<or>
      (key_facts k' = key_facts k \<and> w_db w' = put_api_key k' (w_db w)))"
    using run by (auto simp: touch_api_key_def save_api_key_def bindM_def seqM_def mon_defs Let_def key_facts_def
      split: if_splits)
  then show thesis using put_key_facts [OF assms]
    by (intro that [OF run]) (auto simp: put_api_key_def)
qed

text \<open>Authentication with a key in the database.\<close>

definition key_of :: "database \<Rightarrow> request_credentials \<Rightarrow> api_key_row option" where
  "key_of d c = (case credentials_token c of None \<Rightarrow> None
     | Some t \<Rightarrow> if t = [] then None else (case find_by ak_key_hash (sha256_hex (utf8_encode t)) (db_api_keys d) of
         None \<Rightarrow> None | Some k \<Rightarrow> if ak_archived_at k = None then Some k else None))"

lemma database_authenticate_cases:
  assumes "distinct (map ak_key_hash (db_api_keys (w_committed w)))" "distinct (map ak_id (db_api_keys (w_committed w)))"
  obtains (refused) m w' where "key_of (w_committed w) c = None" "database_authenticate c w = (Inl (HTTPException 401 m), w')"
      "w_committed w' = w_committed w"
  | (accepted) k w' where "key_of (w_committed w) c = Some k"
      "database_authenticate c w = (Inr \<lparr>cw_id = ak_workspace_id k, cw_slug = ak_workspace_id k,
         cw_source = ''database_api_key''\<rparr>, w')"
      "map key_facts (db_api_keys (w_committed w')) = map key_facts (db_api_keys (w_committed w))"
      "(w_committed w')\<lparr>db_api_keys := []\<rparr> = (w_committed w)\<lparr>db_api_keys := []\<rparr>"
proof (cases "\<exists>t. credentials_token c = Some t \<and> t \<noteq> []")
  case True
  then obtain t where t: "credentials_token c = Some t" "t \<noteq> []" by blast
  define v where "v = w\<lparr>w_db := w_committed w\<rparr>"
  have look: "get_api_key_by_token sha256_hex t False v = (Inr (key_of (w_committed w) c), v)"
    using key_lookup [of v sha256_hex t] assms(1) t by (simp add: v_def key_of_def hash_api_key_def)
  have auth: "database_authenticate c w = (case database_authenticate_body t v of (r, w') \<Rightarrow> (r, w'\<lparr>w_db := w_committed w'\<rparr>))"
    using t by (simp add: database_authenticate_def session_scope_def v_def)
  show thesis
  proof (cases "key_of (w_committed w) c")
    case None
    then have "database_authenticate_body t v = (Inl (HTTPException 401 ''Invalid API key''), v)"
      using look by (simp add: database_authenticate_body_def mon_defs)
    with auth show thesis by (intro refused [OF None, of "''Invalid API key''" v]) (simp_all add: v_def)
  next
    case (Some k)
    then have "k \<in> set (db_api_keys (w_db v))"
      by (auto simp: key_of_def v_def split: option.splits if_splits dest: find_by_mem)
    with assms(2) obtain k' v' where touch: "touch_api_key k v = (Inr k', v')"
      "map key_facts (db_api_keys (w_db v')) = map key_facts (db_api_keys (w_db v))"
      "(w_db v')\<lparr>db_api_keys := []\<rparr> = (w_db v)\<lparr>db_api_keys := []\<rparr>"
      by (rule_tac touch_key [of v k]) (simp_all add: v_def)
    have "database_authenticate_body t v = (Inr \<lparr>cw_id = ak_workspace_id k, cw_slug = ak_workspace_id k,
         cw_source = ''database_api_key''\<rparr>, v'\<lparr>w_committed := w_db v'\<rparr>)"
      using look touch(1) Some by (simp add: database_authenticate_body_def) (simp add: bindM_def seqM_def mon_defs)
    with auth touch(2,3) show thesis by (intro accepted [OF Some, of "v'\<lparr>w_committed := w_db v'\<rparr>"]) (simp_all add: v_def)
  qed
next
  case False
  then show thesis by (intro refused [of _ w])
    (auto simp: database_authenticate_def key_of_def mon_defs split: option.splits)
qed

text \<open>Neither provider writes a resource.\<close>

definition resources_kept :: "database \<Rightarrow> database \<Rightarrow> bool" where
  "resources_kept d e \<longleftrightarrow> db_resources e = db_resources d"

interpretation resources: db_order resources_kept
  by unfold_locales (auto simp: resources_kept_def)

lemma providers_keep_resources:
  "keeps (across resources_kept) (env_authenticate c)" "keeps (across resources_kept) (database_authenticate c)"
proof -
  have "keeps (across resources_kept) get_settings"
    by (auto intro!: keepsI simp: across_def resources_kept_def get_settings_def)
  then show "keeps (across resources_kept) (env_authenticate c)"
    unfolding env_authenticate_def Let_def by (intro resources.req.control)
  have "keeps (along resources_kept) (update_dbM (put_api_key k))" for k
    by (rule resources.update_keeps) (simp add: resources_kept_def put_api_key_def)
  then have "keeps (along resources_kept) (database_authenticate_body t)" for t
    unfolding database_authenticate_body_def get_api_key_by_token_def touch_api_key_def save_api_key_def Let_def
    by (intro resources.steps)
  then show "keeps (across resources_kept) (database_authenticate c)"
    unfolding database_authenticate_def by (intro resources.req.control resources.scope_keeps)
qed

lemma access_workspace:
  assumes "require_api_access p h w = (Inr cw, u)" "keeps (across resources_kept) (p (rh_credentials h))"
  shows "db_resources (w_committed u) = db_resources (w_committed w)" "w_workspace u = Some (cw_id cw)"
proof -
  from assms(1) obtain v where v: "p (rh_credentials h) w = (Inr cw, v)" "u = v\<lparr>w_workspace := Some (cw_id cw)\<rparr>"
    by (auto simp: access_run set_current_workspace_def bindM_def seqM_def mon_defs split: sum.splits prod.splits if_splits)
  from keepsD [OF assms(2) v(1)] v(2) show "db_resources (w_committed u) = db_resources (w_committed w)"
    by (simp add: across_def resources_kept_def)
  show "w_workspace u = Some (cw_id cw)" by (simp add: v(2))
qed

section \<open>The check\<close>

text \<open>
  C25: with keys in the database the access check lets a request in, for workspace \<open>A\<close>, exactly when its headers are
  acceptable and it presents a token whose SHA-256 is the hash of a key of \<open>A\<close> that is not archived. A refused request
  leaves the tables alone; an accepted one runs in that workspace and changes nothing but the key's two time stamps.
\<close>

theorem key_access_exact:
  assumes "require_api_access database_authenticate h w = (r, w')"
    "distinct (map ak_key_hash (db_api_keys (w_committed w)))" "distinct (map ak_id (db_api_keys (w_committed w)))"
  shows "((\<exists>cw. r = Inr cw \<and> cw_id cw = A) \<longleftrightarrow> headers_accepted (w_settings w) h \<and>
      (\<exists>t k. credentials_token (rh_credentials h) = Some t \<and> t \<noteq> [] \<and> k \<in> set (db_api_keys (w_committed w)) \<and>
        ak_key_hash k = sha256_hex (utf8_encode t) \<and> ak_archived_at k = None \<and> ak_workspace_id k = A)) \<and>
    (case r of Inl e \<Rightarrow> w_committed w' = w_committed w
     | Inr cw \<Rightarrow> w_workspace w' = Some (cw_id cw) \<and>
         map key_facts (db_api_keys (w_committed w')) = map key_facts (db_api_keys (w_committed w)) \<and>
         (w_committed w')\<lparr>db_api_keys := []\<rparr> = (w_committed w)\<lparr>db_api_keys := []\<rparr>)"
proof (cases "headers_accepted (w_settings w) h")
  case False
  with assms(1) show ?thesis by (auto simp: access_run)
next
  case True
  note run = assms(1) [unfolded access_run, simplified True if_True]
  let ?keys = "db_api_keys (w_committed w)" and ?c = "rh_credentials h"
  have key: "key_of (w_committed w) ?c = Some k \<longleftrightarrow> (\<exists>t. credentials_token ?c = Some t \<and> t \<noteq> [] \<and> k \<in> set ?keys \<and>
      ak_key_hash k = sha256_hex (utf8_encode t) \<and> ak_archived_at k = None)" for k
    using find_by_unique [OF assms(2), of k]
    by (auto simp: key_of_def split: option.splits dest: find_by_key find_by_mem)
  from assms(2,3) show ?thesis
  proof (cases rule: database_authenticate_cases [where c = ?c])
    case (refused m v)
    have "\<not> (\<exists>t k. credentials_token ?c = Some t \<and> t \<noteq> [] \<and> k \<in> set ?keys \<and>
        ak_key_hash k = sha256_hex (utf8_encode t) \<and> ak_archived_at k = None \<and> ak_workspace_id k = A)"
      using key refused(1) by (metis option.distinct(1))
    moreover have "r = Inl (HTTPException 401 m)" "w' = v" using run refused(2) by simp_all
    ultimately show ?thesis using refused(3) by simp
  next
    case (accepted k v)
    then have "r = Inr \<lparr>cw_id = ak_workspace_id k, cw_slug = ak_workspace_id k, cw_source = ''database_api_key''\<rparr>"
      "w' = v\<lparr>w_workspace := Some (ak_workspace_id k)\<rparr>"
      using run by (auto simp: set_current_workspace_def seqM_def bindM_def mon_defs)
    with accepted True key show ?thesis by fastforce
  qed
qed

definition key_server :: world where
  "key_server = world0\<lparr>w_committed := db0\<lparr>db_api_keys := [\<lparr>ak_id = ''key_1'', ak_workspace_id = ''wrkspc_a'', ak_name = ''ci'',
     ak_key_hash = sha256_hex (utf8_encode ''oma_t''), ak_prefix = ''oma_t'', ak_metadata = [], ak_last_used_at = None,
     ak_archived_at = None, ak_created_at = 0, ak_updated_at = 0\<rparr>]\<rparr>\<rparr>"

definition bearer_headers :: request_headers where
  "bearer_headers = \<lparr>rh_credentials = \<lparr>rc_x_api_key = None, rc_authorization = Some ''Bearer oma_t''\<rparr>,
     rh_anthropic_beta = None, rh_open_managed_agents_beta = Some ''open-managed-agents-2026-04-01'',
     rh_anthropic_version = None\<rparr>"

theorem key_access_exact_witness:
  "case require_api_access database_authenticate bearer_headers key_server of (r, w') \<Rightarrow>
     (\<exists>cw. r = Inr cw \<and> cw_id cw = ''wrkspc_a'') \<and> w_workspace w' = Some ''wrkspc_a''"
proof -
  obtain r w' where run: "require_api_access database_authenticate bearer_headers key_server = (r, w')" by fastforce
  have "distinct (map ak_key_hash (db_api_keys (w_committed key_server)))"
    "distinct (map ak_id (db_api_keys (w_committed key_server)))" by (simp_all add: key_server_def)
  note exact = key_access_exact [OF run this, of "''wrkspc_a''"]
  have "w_settings key_server = default_settings" by (simp add: key_server_def world0_def)
  moreover have "headers_accepted default_settings bearer_headers" by code_simp
  ultimately have "headers_accepted (w_settings key_server) bearer_headers" by simp
  moreover have "credentials_token (rh_credentials bearer_headers) = Some ''oma_t''" by code_simp
  moreover have "\<exists>k \<in> set (db_api_keys (w_committed key_server)). ak_key_hash k = sha256_hex (utf8_encode ''oma_t'') \<and>
      ak_archived_at k = None \<and> ak_workspace_id k = ''wrkspc_a''" by (simp add: key_server_def)
  ultimately obtain cw where cw: "r = Inr cw" "cw_id cw = ''wrkspc_a''" using exact by blast
  from conjunct2 [OF exact] have "w_workspace w' = Some ''wrkspc_a''" by (simp only: cw sum.case)
  with cw show ?thesis by (simp add: run)
qed

end
