(* ===== verification/Isolation.thy ===== *)
theory Isolation
  imports MemoryFacts CredentialFacts DeploymentFacts Skills AccessFacts
begin

text \<open>
  Workspaces are separate: a request on managed resources, files or skills writes only rows of its own workspace.
  \<open>gives A S m T Q\<close> is a small program logic for it. The program \<open>m\<close>, run in workspace \<open>A\<close> where the rows named in \<open>S\<close>
  belong to \<open>A\<close>, leaves the rows of the other workspaces alone; a result \<open>x\<close> has \<open>Q x\<close>, and the rows named in \<open>T x\<close> are
  of \<open>A\<close> as well.
\<close>

section \<open>The logic\<close>

definition foreign :: "string \<Rightarrow> database \<Rightarrow> resource_row list" where
  "foreign A d = filter (\<lambda>r. mr_workspace_id r \<noteq> A) (db_resources d)"

definition owned :: "string \<Rightarrow> string \<Rightarrow> world \<Rightarrow> bool" where
  "owned A i w \<longleftrightarrow> (\<exists>q \<in> set (db_resources (w_db w)). mr_id q = i \<and> mr_workspace_id q = A)"

definition inside :: "string \<Rightarrow> string set \<Rightarrow> world \<Rightarrow> bool" where
  "inside A S w \<longleftrightarrow> distinct (map mr_id (db_resources (w_db w))) \<and> ws_of None w = A \<and> (\<forall>i \<in> S. owned A i w) \<and>
     distinct (map mr_id (db_resources (w_committed w))) \<and> foreign A (w_committed w) = foreign A (w_db w)"

definition gives :: "string \<Rightarrow> string set \<Rightarrow> 'a M \<Rightarrow> ('a \<Rightarrow> string set) \<Rightarrow> ('a \<Rightarrow> bool) \<Rightarrow> bool" where
  "gives A S m T Q \<longleftrightarrow> (\<forall>w r w'. m w = (r, w') \<longrightarrow> inside A S w \<longrightarrow> inside A S w' \<and> foreign A (w_db w') = foreign A (w_db w) \<and>
     (\<forall>x. r = Inr x \<longrightarrow> Q x \<and> inside A (S \<union> T x) w'))"

abbreviation stays :: "string \<Rightarrow> string set \<Rightarrow> 'a M \<Rightarrow> bool" where
  "stays A S m \<equiv> gives A S m (\<lambda>_. {}) (\<lambda>_. True)"

lemma inside_mono: "inside A S w \<Longrightarrow> S' \<subseteq> S \<Longrightarrow> inside A S' w"
  by (auto simp: inside_def)

lemma givesI:
  assumes "\<And>w r w'. m w = (r, w') \<Longrightarrow> inside A S w \<Longrightarrow> inside A S w' \<and> foreign A (w_db w') = foreign A (w_db w)"
    "\<And>w x w'. m w = (Inr x, w') \<Longrightarrow> inside A S w \<Longrightarrow> Q x \<and> inside A (S \<union> T x) w'"
  shows "gives A S m T Q"
  unfolding gives_def using assms by blast

lemma givesD:
  assumes "gives A S m T Q" "m w = (r, w')" "inside A S w"
  shows "inside A S w'" "foreign A (w_db w') = foreign A (w_db w)" "\<And>x. r = Inr x \<Longrightarrow> Q x" "\<And>x. r = Inr x \<Longrightarrow> inside A (S \<union> T x) w'"
  using assms unfolding gives_def by blast+

lemma gives_weaken: "gives A S m T Q \<Longrightarrow> (\<And>x. Q x \<Longrightarrow> T' x \<subseteq> T x \<union> S) \<Longrightarrow> (\<And>x. Q x \<Longrightarrow> Q' x) \<Longrightarrow> gives A S m T' Q'"
proof (rule givesI, goal_cases)
  case (1 w r w') then show ?case using givesD(1,2) by blast
next
  case (2 w x w')
  have Q: "Q x" "inside A (S \<union> T x) w'" using givesD(3,4) [OF 2(1,4,5)] by blast+
  from 2(2) [OF Q(1)] have "S \<union> T' x \<subseteq> S \<union> T x" by blast
  with Q 2(3) inside_mono show ?case by blast
qed

named_theorems staying \<open>programs that write rows of their workspace only\<close>

lemma gives_bind:
  assumes "gives A S m T Q" "\<And>x. Q x \<Longrightarrow> gives A (S \<union> T x) (f x) T' Q'"
  shows "gives A S (bindM m f) T' Q'"
proof -
  have run: "inside A S w' \<and> foreign A (w_db w') = foreign A (w_db w) \<and> (\<forall>y. r = Inr y \<longrightarrow> Q' y \<and> inside A (S \<union> T' y) w')"
    if b: "bindM m f w = (r, w')" "inside A S w" for w r w'
  proof (cases "m w")
    case (Pair q v)
    note m = givesD [OF assms(1) Pair that(2)]
    show ?thesis
    proof (cases q)
      case (Inl e)
      with b(1) Pair m(1,2) show ?thesis by auto
    next
      case (Inr x)
      with b(1) Pair have fx: "f x v = (r, w')" by simp
      note n = givesD [OF assms(2) [OF m(3) [OF Inr]] fx m(4) [OF Inr]]
      have "inside A S w'" by (rule inside_mono [OF n(1)]) simp
      moreover have "Q' y \<and> inside A (S \<union> T' y) w'" if "r = Inr y" for y
        using n(3) [OF that] inside_mono [OF n(4) [OF that], of "S \<union> T' y"] by blast
      ultimately show ?thesis using n(2) m(2) by simp
    qed
  qed
  show ?thesis by (rule givesI) (use run in blast)+
qed

lemma gives_seq: "gives A S m T Q \<Longrightarrow> (\<And>x. Q x \<Longrightarrow> gives A (S \<union> T x) n T' Q') \<Longrightarrow> gives A S (seqM m n) T' Q'"
  unfolding seqM_def by (rule gives_bind)

lemma gives_control:
  "(c \<Longrightarrow> gives A S m T Q) \<Longrightarrow> (\<not> c \<Longrightarrow> gives A S n T Q) \<Longrightarrow> gives A S (if c then m else n) T Q"
  "(v = None \<Longrightarrow> gives A S m T Q) \<Longrightarrow> (\<And>x. v = Some x \<Longrightarrow> gives A S (f x) T Q) \<Longrightarrow>
    gives A S (case v of None \<Rightarrow> m | Some x \<Rightarrow> f x) T Q"
  "(\<And>x y. p = (x, y) \<Longrightarrow> gives A S (h x y) T Q) \<Longrightarrow> gives A S (case p of (x, y) \<Rightarrow> h x y) T Q"
  "gives A S (raiseM e) T Q"
  "gives A S (guardM c e) (\<lambda>_. {}) (\<lambda>_. \<not> c)"
  by (auto split: option.split prod.split simp: gives_def mon_defs)

lemma gives_return: "Q x \<Longrightarrow> T x \<subseteq> S \<Longrightarrow> gives A S (returnM x) T Q"
  by (auto simp: gives_def mon_defs Un_absorb2)

section \<open>Reads and commits\<close>

lemma inside_same:
  assumes "w_db w' = w_db w" "w_committed w' = w_committed w" "w_workspace w' = w_workspace w"
  shows "inside A S w' = inside A S w"
  using assms ws_same [OF assms(3), of None] by (simp add: inside_def owned_def)

lemma gives_reads_with:
  assumes "keeps tables_kept m"
    "\<And>w x w'. m w = (Inr x, w') \<Longrightarrow> inside A S w \<Longrightarrow> Q x \<and> (\<forall>i \<in> T x. owned A i w)"
  shows "gives A S m T Q"
proof (rule givesI)
  fix w r w' assume run: "m w = (r, w')" "inside A S w"
  from keepsD [OF assms(1) run(1)] have same: "w_db w' = w_db w" "w_committed w' = w_committed w" "w_workspace w' = w_workspace w"
    by (simp_all add: tables_kept_def)
  with run(2) inside_same [OF same] show "inside A S w' \<and> foreign A (w_db w') = foreign A (w_db w)" by simp
next
  fix w x w' assume run: "m w = (Inr x, w')" "inside A S w"
  from keepsD [OF assms(1) run(1)] have same: "w_db w' = w_db w" "w_committed w' = w_committed w" "w_workspace w' = w_workspace w"
    by (simp_all add: tables_kept_def)
  from assms(2) [OF run] run(2) have "Q x" "inside A (S \<union> T x) w" by (auto simp: inside_def)
  with inside_same [OF same] show "Q x \<and> inside A (S \<union> T x) w'" by simp
qed

lemma gives_reads: "keeps tables_kept m \<Longrightarrow> stays A S m"
  by (rule gives_reads_with) simp_all

lemma gives_commit: "stays A S commitM"
  by (auto simp: gives_def mon_defs inside_def owned_def)

lemma gives_map: "(\<And>x. x \<in> set xs \<Longrightarrow> stays A S (f x)) \<Longrightarrow> stays A S (mapM f xs)"
proof (induction xs)
  case (Cons x xs)
  then have f: "stays A S (f x)" and xs: "stays A S (mapM f xs)" by simp_all
  show ?case
    unfolding mapM.simps by (rule gives_bind [OF f], simp, rule gives_bind [OF xs], simp add: gives_return)
qed (simp add: gives_return)

lemma gives_catch:
  assumes "gives A S m T Q" "\<And>e. gives A S (h e) T Q"
  shows "gives A S (catchM m h) T Q"
  unfolding gives_def
proof (intro allI impI)
  fix w r w' assume run: "catchM m h w = (r, w')" "inside A S w"
  show "inside A S w' \<and> foreign A (w_db w') = foreign A (w_db w) \<and> (\<forall>x. r = Inr x \<longrightarrow> Q x \<and> inside A (S \<union> T x) w')"
  proof (cases "m w")
    case (Pair q v)
    note m = givesD [OF assms(1) Pair run(2)]
    show ?thesis
    proof (cases q)
      case (Inl e)
      with run(1) Pair have "h e v = (r, w')" by (simp add: catchM_def)
      from givesD [OF assms(2) this m(1)] m(2) show ?thesis by simp
    next
      case (Inr x)
      with run(1) Pair m show ?thesis by (auto simp: catchM_def)
    qed
  qed
qed

lemma gives_get_resource:
  "gives A S (get_resource i ty p d None) (\<lambda>found. case found of None \<Rightarrow> {} | Some r \<Rightarrow> {mr_id r})
     (\<lambda>found. case found of None \<Rightarrow> True | Some r \<Rightarrow> mr_workspace_id r = A)"
proof (rule gives_reads_with)
  fix w x w' assume run: "get_resource i ty p d None w = (Inr x, w')" "inside A S w"
  show "(case x of None \<Rightarrow> True | Some r \<Rightarrow> mr_workspace_id r = A) \<and>
      (\<forall>i \<in> (case x of None \<Rightarrow> {} | Some r \<Rightarrow> {mr_id r}). owned A i w)"
  proof (cases x)
    case (Some r)
    from get_resource_Inr [OF run(1) [unfolded Some]] run(2) Some show ?thesis by (auto simp: inside_def owned_def)
  qed simp
qed (intro reading)

lemma gives_must_exist:
  "gives A S (must_exist i ty p) (\<lambda>r. {mr_id r}) (\<lambda>r. mr_workspace_id r = A)"
proof (rule gives_reads_with)
  fix w r w' assume "must_exist i ty p w = (Inr r, w')" "inside A S w"
  with must_exist_Inr [OF this(1)] show "mr_workspace_id r = A \<and> (\<forall>i \<in> {mr_id r}. owned A i w)"
    by (auto simp: inside_def owned_def)
qed (intro reading)

lemma gives_list_resources:
  "gives A S (list_resources ty p n ia d None) (\<lambda>rows. mr_id ` set rows) (\<lambda>rows. \<forall>r \<in> set rows. mr_workspace_id r = A)"
proof (rule gives_reads_with)
  fix w rows w' assume run: "list_resources ty p n ia d None w = (Inr rows, w')" "inside A S w"
  then have "r \<in> set (db_resources (w_db w)) \<and> mr_workspace_id r = A" if "r \<in> set rows" for r
    using that by (auto simp: list_resources_def bindM_def mon_defs limit_rows_def inside_def dest!: in_set_takeD)
  then show "(\<forall>r \<in> set rows. mr_workspace_id r = A) \<and> (\<forall>i \<in> mr_id ` set rows. owned A i w)"
    by (auto simp: owned_def)
qed (intro reading)

section \<open>Writes\<close>

lemma foreign_replace:
  assumes "distinct (map mr_id rows)" "q \<in> set rows" "mr_id q = mr_id r" "mr_workspace_id q = A" "mr_workspace_id r = A"
  shows "filter (\<lambda>x. mr_workspace_id x \<noteq> A) (replace_by mr_id r rows) = filter (\<lambda>x. mr_workspace_id x \<noteq> A) rows"
proof -
  have "mr_workspace_id x = A" if "x \<in> set rows" "mr_id x = mr_id r" for x
    using only_row [OF assms(1,2) that(1)] that(2) assms(3,4) by simp
  then show ?thesis
    unfolding replace_by_def
  proof (induction rows)
    case (Cons x xs)
    then show ?case using assms(5) by (cases "mr_id x = mr_id r") auto
  qed simp
qed

lemma gives_save:
  assumes "mr_id r \<in> S" "mr_workspace_id r = A"
  shows "gives A S (save_resource r) (\<lambda>r'. {mr_id r}) (\<lambda>r'. mr_id r' = mr_id r \<and> mr_workspace_id r' = A)"
proof -
  have run: "inside A S w' \<and> foreign A (w_db w') = foreign A (w_db w) \<and>
      (\<forall>r'. x = Inr r' \<longrightarrow> mr_id r' = mr_id r \<and> mr_workspace_id r' = A)"
    if m: "save_resource r w = (x, w')" "inside A S w" for w x w'
  proof -
    obtain r' where x: "x = Inr r'" using save_resource_ok [of r w] m(1) by auto
    obtain q where q: "q \<in> set (db_resources (w_db w))" "mr_id q = mr_id r" "mr_workspace_id q = A"
      using m(2) assms(1) by (auto simp: inside_def owned_def)
    have ids: "distinct (map mr_id (db_resources (w_db w)))" using m(2) by (simp add: inside_def)
    note s = save_resource_rows [OF m(1) [unfolded x] q(1,2) ids]
    then obtain t where r': "r' = r\<lparr>mr_updated_at := t\<rparr>" by blast
    have f: "foreign A (w_db w') = foreign A (w_db w)"
      unfolding foreign_def s(1) by (rule foreign_replace [OF ids q(1)]) (use q assms(2) r' in simp_all)
    have "owned A i w'" if "owned A i w" for i
    proof (cases "i = mr_id r")
      case True
      have "r' \<in> set (db_resources (w_db w'))" using s(1) q r' by (auto simp: replace_by_def image_iff)
      moreover have "mr_id r' = i" "mr_workspace_id r' = A" using True r' assms(2) by simp_all
      ultimately show ?thesis unfolding owned_def by blast
    next
      case False
      with that r' show ?thesis unfolding owned_def s(1) by (force simp: replace_by_def)
    qed
    moreover have "distinct (map mr_id (db_resources (w_db w')))" using ids s(1) by simp
    ultimately have "inside A S w'" using m(2) f s(4) ws_same [OF s(3), of None] by (auto simp: inside_def)
    with f x r' assms(2) show ?thesis by simp
  qed
  have S: "S \<union> {mr_id r} = S" using assms(1) by auto
  show ?thesis
    unfolding gives_def S
  proof (intro allI impI)
    fix w x w' assume "save_resource r w = (x, w')" "inside A S w"
    from run [OF this] show "inside A S w' \<and> foreign A (w_db w') = foreign A (w_db w) \<and>
      (\<forall>r'. x = Inr r' \<longrightarrow> (mr_id r' = mr_id r \<and> mr_workspace_id r' = A) \<and> inside A S w')" by blast
  qed
qed

lemma gives_update:
  "mr_id r \<in> S \<Longrightarrow> mr_workspace_id r = A \<Longrightarrow>
    gives A S (update_resource r p) (\<lambda>r'. {mr_id r}) (\<lambda>r'. mr_id r' = mr_id r \<and> mr_workspace_id r' = A)"
  using gives_save [of "patch_resource p r" S A] by (simp add: update_resource_def patch_resource_def)

lemma gives_now: "stays A S nowM"
  by (intro gives_reads reading)

lemma gives_archive:
  assumes "mr_id r \<in> S" "mr_workspace_id r = A"
  shows "gives A S (archive_resource r) (\<lambda>r'. {mr_id r}) (\<lambda>r'. mr_id r' = mr_id r \<and> mr_workspace_id r' = A)"
  unfolding archive_resource_def
  by (rule gives_bind [OF gives_now])
    (use assms gives_save [of "r\<lparr>mr_archived_at := Some x, mr_status := ''archived''\<rparr>" S A for x] in simp)

lemma gives_delete:
  assumes "mr_id r \<in> S" "mr_workspace_id r = A"
  shows "gives A S (delete_resource r) (\<lambda>r'. {mr_id r}) (\<lambda>r'. mr_id r' = mr_id r \<and> mr_workspace_id r' = A)"
  unfolding delete_resource_def
  by (rule gives_bind [OF gives_now])
    (use assms gives_save [of "r\<lparr>mr_deleted_at := Some x, mr_status := ''deleted''\<rparr>" S A for x] in simp)

lemma ws_given: "v \<in> {None, Some (ws_of None w)} \<Longrightarrow> ws_of v w = ws_of None w"
  by (auto simp: ws_of_def workspace_id_or_default_def mon_defs split: option.split)

lemma gives_create:
  assumes "ra_workspace_id a \<in> {None, Some A}"
  shows "gives A S (create_resource ty a) (\<lambda>r. {mr_id r}) (\<lambda>r. mr_workspace_id r = A)"
proof (rule givesI)
  fix w x w' assume run: "create_resource ty a w = (Inr x, w')" "inside A S w"
  note c = create_resource_run [OF run(1)] create_resource_new [OF run(1)]
  have "mr_workspace_id x = A" using c(8) ws_given [of "ra_workspace_id a" w] assms run(2) by (auto simp: inside_def)
  then show "mr_workspace_id x = A \<and> inside A (S \<union> {mr_id x}) w'"
    using c(1,10,12) run(2) ws_same [OF c(18), of None] by (auto simp: inside_def owned_def foreign_def)
next
  fix w r w' assume run: "create_resource ty a w = (r, w')" "inside A S w"
  show "inside A S w' \<and> foreign A (w_db w') = foreign A (w_db w)"
  proof (cases r)
    case (Inl e)
    with run(1) have "w_db w' = w_db w" "w_committed w' = w_committed w" "w_workspace w' = w_workspace w"
      by (auto simp: create_resource_def insert_resource_def bindM_def seqM_def mon_defs Let_def split: if_splits)
    with run(2) inside_same [OF this] show ?thesis by simp
  next
    case (Inr x)
    note c = create_resource_run [OF run(1) [unfolded Inr]] create_resource_new [OF run(1) [unfolded Inr]]
    have "mr_workspace_id x = A" using c(8) ws_given [of "ra_workspace_id a" w] assms run(2) by (auto simp: inside_def)
    then show ?thesis
      using c(1,10,12) run(2) ws_same [OF c(18), of None] by (auto simp: inside_def owned_def foreign_def)
  qed
qed

lemma create_stays: "ra_workspace_id a \<in> {None, Some A} \<Longrightarrow> stays A S (create_resource ty a)"
  by (rule gives_weaken [OF gives_create]) simp_all

section \<open>Memories\<close>

lemma plain_args [simp]: "ra_workspace_id resource_args0 = None"
  by (simp add: resource_args0_def)

lemma gives_memory_version:
  "gives A S (create_memory_version m n actor op d) (\<lambda>r. {mr_id r}) (\<lambda>r. mr_workspace_id r = A)"
  unfolding create_memory_version_def by (rule gives_create) simp

lemmas steps_of_rows = gives_bind gives_seq gives_memory_version gives_must_exist gives_get_resource gives_list_resources
  gives_update gives_archive gives_delete gives_create gives_commit

lemma create_memory_stays: "stays A S (create_memory_body s b view)"
  unfolding create_memory_body_def
  by (rule steps_of_rows gives_reads | (intro kept.control reading; fail) | (simp; fail))+

lemma update_memory_stays: "stays A S (update_memory_body s i b view)"
  unfolding update_memory_body_def Let_def
  by (rule steps_of_rows gives_control(1) gives_reads | (intro kept.control reading; fail) | (simp; fail))+

lemma delete_memory_stays: "stays A S (delete_memory_body s i sha)"
  unfolding delete_memory_body_def Let_def
  by (rule steps_of_rows gives_reads | (intro kept.control reading; fail) | (simp; fail))+

lemma gives_version_of_store:
  "gives A S (version_of_store s i) (\<lambda>(v, m). {mr_id v, mr_id m}) (\<lambda>(v, m). mr_workspace_id v = A \<and> mr_workspace_id m = A)"
proof (rule gives_reads_with)
  fix w x w' assume run: "version_of_store s i w = (Inr x, w')" "inside A S w"
  obtain v m u where x: "x = (v, m)" "get_resource i (Some ''memory_version'') None False None u = (Inr (Some v), u)" "u = w"
    "(case mr_parent_id v of None \<Rightarrow> returnM None | Some k \<Rightarrow> get_resource k (Some ''memory'') (Some s) True None) u = (Inr (Some m), w')"
  proof -
    from run(1) obtain st u where u: "must_exist s ''memory_store'' None w = (Inr st, u)"
      "bindM (get_resource i (Some ''memory_version'') None False None) (\<lambda>found.
       case found of
         None \<Rightarrow> raiseM (HTTPException 404 ''Memory version not found'')
       | Some version \<Rightarrow>
           bindM (case mr_parent_id version of None \<Rightarrow> returnM None
             | Some memory_id \<Rightarrow> get_resource memory_id (Some ''memory'') (Some s) True None) (\<lambda>found_memory.
           case found_memory of
             None \<Rightarrow> raiseM (HTTPException 404 ''Memory version not found'')
           | Some memory \<Rightarrow> returnM (version, memory))) u = (Inr x, w')"
      unfolding version_of_store_def seqM_Inr by blast
    have w: "u = w" by (rule must_exist_Inr(1) [OF u(1)])
    from u(2) obtain v v1 where v: "get_resource i (Some ''memory_version'') None False None u = (Inr (Some v), v1)"
      "bindM (case mr_parent_id v of None \<Rightarrow> returnM None
             | Some memory_id \<Rightarrow> get_resource memory_id (Some ''memory'') (Some s) True None) (\<lambda>found_memory.
           case found_memory of
             None \<Rightarrow> raiseM (HTTPException 404 ''Memory version not found'')
           | Some memory \<Rightarrow> returnM (v, memory)) v1 = (Inr x, w')"
      unfolding found_Inr by blast
    have v1: "v1 = u" using get_resource_Inr [OF v(1)] by simp
    from v(2) obtain m v2 where m: "(case mr_parent_id v of None \<Rightarrow> returnM None
             | Some memory_id \<Rightarrow> get_resource memory_id (Some ''memory'') (Some s) True None) v1 = (Inr (Some m), v2)"
      "returnM (v, m) v2 = (Inr x, w')" unfolding found_Inr by blast
    show thesis by (rule that [of v m u]) (use v(1) v1 m w in simp_all)
  qed
  obtain k where m: "get_resource k (Some ''memory'') (Some s) True None u = (Inr (Some m), w')"
    using x(4) by (cases "mr_parent_id v") auto
  from get_resource_Inr [OF x(2)] get_resource_Inr [OF m] run(2) x(1,3)
  show "(case x of (v, m) \<Rightarrow> mr_workspace_id v = A \<and> mr_workspace_id m = A) \<and>
      (\<forall>i \<in> (case x of (v, m) \<Rightarrow> {mr_id v, mr_id m}). owned A i w)"
    by (auto simp: inside_def owned_def)
qed (intro reading)

lemma redact_memory_stays: "stays A S (redact_memory_version_body s i)"
  unfolding redact_memory_version_body_def
proof (rule gives_bind [OF gives_version_of_store])
  fix x :: "resource_row \<times> resource_row"
  assume Q: "case x of (v, m) \<Rightarrow> mr_workspace_id v = A \<and> mr_workspace_id m = A"
  obtain v m where x: "x = (v, m)" by (cases x)
  show "stays A (S \<union> (case x of (v, m) \<Rightarrow> {mr_id v, mr_id m})) (case x of (version, memory) \<Rightarrow>
     bindM (liftE (current_version_of memory version)) (\<lambda>current.
     seqM (guardM current (HTTPException 409 ''Current live memory version cannot be redacted'')) (
     bindM (liftE (dict_or_empty (dget ''snapshot'' (mr_data version)))) (\<lambda>_.
     bindM nowM (\<lambda>now.
     bindM (liftE (redacted_version_data (mr_data version) (isoformat now))) (\<lambda>data.
     bindM (update_resource version (resource_patch0\<lparr>rp_data := Some data\<rparr>)) (\<lambda>version1.
     seqM (if mr_deleted_at memory = None \<and> py_eq (dget ''version'' (mr_data memory)) (dget ''memory_version'' data)
           then bindM (update_resource memory (resource_patch0\<lparr>
                  rp_data := Some (redacted_memory_data (mr_data memory) (isoformat now))\<rparr>)) (\<lambda>_. returnM ())
           else returnM ())
       (seqM commitM (resource_response version1 None)))))))))"
    using Q unfolding x prod.case
    by - (rule steps_of_rows gives_control(1) gives_reads | (intro kept.control reading; fail) | (simp; fail))+
qed

section \<open>The other managed resources\<close>

lemma reading_normal [reading]: "keeps tables_kept (normalize_resource_data enc zi ty d)"
proof -
  have "keeps tables_kept (upcoming_cron_runs zi e tz n)" for e tz n
    unfolding upcoming_cron_runs_def Let_def by (intro kept.control reading)
  then have "keeps tables_kept (normalize_deployment_schedule zi v)" for v
    unfolding normalize_deployment_schedule_def Let_def by (auto split: pv.split intro!: kept.control reading)
  then have deployment: "keeps tables_kept (normalize_deployment_data zi d)"
    unfolding normalize_deployment_data_def Let_def by (intro kept.control reading)
  have "keeps tables_kept (trigger_context e)" for e
    unfolding trigger_context_def by (intro kept.control reading)
  then have run: "keeps tables_kept (normalize_deployment_run_data d)"
    unfolding normalize_deployment_run_data_def Let_def by (intro kept.control reading)
  show ?thesis unfolding normalize_resource_data_def by (intro kept.control deployment run reading)
qed

lemma create_managed_stays: "stays A S (create_managed enc zi ty p d st)"
  unfolding create_managed_def
  by (rule steps_of_rows gives_reads | (intro kept.control reading; fail) | (simp; fail))+

lemma update_managed_stays: "stays A S (update_managed enc zi i ty u p)"
  unfolding update_managed_def
  by (rule steps_of_rows gives_reads | (intro kept.control reading; fail) | (simp; fail))+

lemma gives_purge:
  assumes "mr_id r \<in> S" "mr_workspace_id r = A"
  shows "gives A S (purge_if_credential r) (\<lambda>r'. {mr_id r}) (\<lambda>r'. mr_id r' = mr_id r \<and> mr_workspace_id r' = A)"
proof -
  have "keeps tables_kept (purge_credential_secret_data d)" for d
    unfolding purge_credential_secret_data_def by (intro kept.control reading)
  note purge = gives_bind [OF gives_reads [OF this]]
  show ?thesis
    unfolding purge_if_credential_def using assms
    by (intro gives_control(1) gives_return purge) (simp_all add: gives_update)
qed

lemma archive_managed_stays: "stays A S (archive_managed i ty p)"
  unfolding archive_managed_def
  by (rule gives_purge steps_of_rows gives_reads | (intro kept.control reading; fail) | (simp; fail))+

lemma delete_managed_stays: "stays A S (delete_managed i ty pt p)"
  unfolding delete_managed_def
  by (rule gives_purge steps_of_rows gives_reads | (intro kept.control reading; fail) | (simp; fail))+

lemma reading_random [reading]: "keeps tables_kept randomM"
  by (auto intro!: keepsI simp: mon_defs tables_kept_def)

lemma validate_credential_stays:
  "stays A S (bindM (must_exist i ''credential'' (Some vault)) (\<lambda>r.
     bindM (credential_validation_payload r vault) (\<lambda>validation.
     bindM (liftE (dict_or_empty (dget ''metadata'' (mr_data r)))) (\<lambda>metadata.
     bindM (update_resource r (g r metadata validation)) (\<lambda>_.
     seqM commitM (returnM validation))))))"
proof -
  have "keeps tables_kept (credential_validation_payload r v)" for r v
    unfolding credential_validation_payload_def by (intro kept.control reading)
  note payload = gives_reads [OF this]
  show ?thesis
    by (rule payload steps_of_rows gives_reads | (intro kept.control reading; fail) | (simp; fail))+
qed

lemma enrollment_stays:
  "stays A S (bindM (must_exist i ''user_profile'' None) (\<lambda>profile. bindM token_urlsafe (\<lambda>token. bindM nowM (\<lambda>now.
     bindM get_settings (\<lambda>st. bindM (create_resource ty (resource_args0\<lparr>
       ra_parent_id := pa profile token now st, ra_name := na profile token now st, ra_data := da profile token now st\<rparr>)) (\<lambda>_.
     seqM commitM (returnM (re profile token now st))))))))"
proof -
  have "keeps tables_kept token_urlsafe" unfolding token_urlsafe_def by (intro kept.control reading)
  note token = gives_reads [OF this]
  show ?thesis
    by (rule token steps_of_rows gives_reads | (intro kept.control reading; fail) | (simp; fail))+
qed

section \<open>Deployments\<close>

text \<open>Sessions and events are other tables.\<close>

definition rows_kept :: "world \<Rightarrow> world \<Rightarrow> bool" where
  "rows_kept u v \<longleftrightarrow> db_resources (w_db v) = db_resources (w_db u) \<and> w_committed v = w_committed u \<and> w_workspace v = w_workspace u"

interpretation beside: world_order rows_kept
  by unfold_locales (auto simp: rows_kept_def)

lemma beside_reads: "keeps tables_kept m \<Longrightarrow> keeps rows_kept m"
  by (auto simp: keeps_def tables_kept_def rows_kept_def)

lemma beside_rows:
  "keeps rows_kept (insert_session s)" "keeps rows_kept (insert_event e)" "keeps rows_kept (save_session s)"
  by (auto intro!: keepsI simp: rows_kept_def insert_session_def insert_event_def save_session_def bindM_def seqM_def mon_defs
      Let_def add_session_def add_event_def put_session_def split: if_splits)

lemma beside_changes:
  "keeps rows_kept (create_session_q a n e t md rs vs ws)" "keeps rows_kept (append_event s ty p)"
  unfolding create_session_q_def append_event_def normalize_payload_def default_processed_at_def Let_def
  by (intro beside.control beside_rows beside_reads kept.control reading)+

lemma gives_beside:
  assumes "keeps rows_kept m" "\<And>w x w'. m w = (Inr x, w') \<Longrightarrow> inside A S w \<Longrightarrow> Q x"
  shows "gives A S m (\<lambda>_. {}) Q"
proof (rule givesI)
  fix w r w' assume run: "m w = (r, w')" "inside A S w"
  from keepsD [OF assms(1) run(1)] run(2) ws_same [of w' w None]
  show "inside A S w' \<and> foreign A (w_db w') = foreign A (w_db w)"
    by (auto simp: rows_kept_def inside_def owned_def foreign_def)
next
  fix w x w' assume run: "m w = (Inr x, w')" "inside A S w"
  from keepsD [OF assms(1) run(1)] run(2) ws_same [of w' w None] assms(2) [OF run]
  show "Q x \<and> inside A (S \<union> {}) w'" by (auto simp: rows_kept_def inside_def owned_def foreign_def)
qed

lemma gives_append:
  "se_workspace_id s = B \<Longrightarrow> gives A S (append_event s ty p) (\<lambda>_. {}) (\<lambda>(s', e). se_workspace_id s' = B)"
  by (rule gives_beside [OF beside_changes(2)])
    (auto simp: append_event_def save_session_def insert_event_def bindM_def seqM_def mon_defs Let_def
      split: sum.splits prod.splits if_splits)

lemma gives_session:
  assumes "ag_workspace_id a = A"
  shows "gives A S (create_session_q a n e t md rs vs None) (\<lambda>_. {}) (\<lambda>s. se_workspace_id s = A)"
proof (rule gives_beside [OF beside_changes(1)])
  fix w s w' assume "create_session_q a n e t md rs vs None w = (Inr s, w')" "inside A S w"
  then have "se_workspace_id s = ws_of (Some A) w" "ws_of None w = A"
    using assms by (auto simp: create_session_q_def insert_session_def bindM_def seqM_def mon_defs Let_def inside_def split: if_splits)
  with ws_given [of "Some A" w] show "se_workspace_id s = A" by simp
qed

lemma gives_fold:
  assumes "\<And>x s. x \<in> set xs \<Longrightarrow> P s \<Longrightarrow> gives A S (f x s) (\<lambda>_. {}) P" "P s"
  shows "gives A S (foldM f xs s) (\<lambda>_. {}) P"
  using assms
proof (induction xs arbitrary: s)
  case (Cons x xs)
  have "gives A S (f x s) (\<lambda>_. {}) P" using Cons.prems by simp
  then show ?case
    unfolding foldM.simps by (rule gives_bind) (use Cons.IH Cons.prems(1) in auto)
qed (simp add: gives_return)

lemma attach_stays:
  assumes "se_workspace_id s = A"
  shows "gives A S (attach_resource v s) (\<lambda>_. {}) (\<lambda>s'. se_workspace_id s' = A)"
proof -
  have files: "stays A S (normalize_file_session_resource d A k)" for S d k
    unfolding normalize_file_session_resource_def create_session_scoped_file_def Let_def
    by (rule gives_bind gives_seq gives_create gives_control(2,4) gives_return gives_reads
      | (intro kept.control kept_copy reading; fail) | (simp; fail))+
  have others: "keeps tables_kept (normalize_github_session_resource d)"
    "keeps tables_kept (normalize_memory_store_session_resource d ws)" for d ws
    unfolding normalize_github_session_resource_def normalize_memory_store_session_resource_def Let_def
    by (intro kept.control reading)+
  have normal: "stays A S (normalize_session_resource_data v allowed A k)" for S v allowed k
  proof (cases v)
    case (PDict d)
    show ?thesis
      unfolding PDict normalize_session_resource_data_def Let_def pv.case
      by (rule gives_seq files gives_reads [OF others(1)] gives_reads [OF others(2)] gives_control(1,4) gives_reads
        | (intro kept.control; fail) | (simp; fail))+
  qed (simp_all add: normalize_session_resource_data_def gives_control(4))
  have capacity: "keeps tables_kept (ensure_file_resource_capacity s)" "keeps tables_kept (ensure_memory_store_resource_capacity s)"
    unfolding ensure_file_resource_capacity_def ensure_memory_store_resource_capacity_def session_resource_rows_def
    by (intro kept.control reading)+
  have "stays A S (create_session_resource s v allowed)" for allowed S
    unfolding create_session_resource_def Let_def assms
    by (rule normal gives_bind gives_seq create_stays gives_reads
      | (intro kept.control capacity reading; fail) | (simp; fail))+
  then show ?thesis
    unfolding attach_resource_def by (rule gives_seq) (simp add: gives_return assms)
qed

lemma gives_agent:
  "gives A S (run_agent i n) (\<lambda>_. {}) (\<lambda>(a, v). ag_workspace_id a = A)"
proof (rule gives_reads_with)
  show "keeps tables_kept (run_agent i n)" unfolding run_agent_def Let_def by (intro kept.control reading)
next
  fix w x w' assume run: "run_agent i n w = (Inr x, w')" "inside A S w"
  then obtain a v where a: "get_agent i w = (Inr (Some a), v)" "fst x = a"
    unfolding run_agent_def found_Inr by (auto simp: mon_simps Let_def)
  then have "ag_workspace_id a = ws_of None w"
    by (auto simp: get_agent_def bindM_def mon_defs scalar_cases filter_eq_Cons_iff)
  with run(2) a(2) show "(case x of (a, v) \<Rightarrow> ag_workspace_id a = A) \<and> (\<forall>i \<in> {}. owned A i w)"
    by (cases x) (simp add: inside_def)
qed

lemma session_stays: "stays A S (deployment_session d r run_input a e)"
proof -
  have environment: "keeps tables_kept (run_environment i)" for i
    unfolding run_environment_def by (intro kept.control reading)
  have vaults: "keeps tables_kept (validate_deployment_vault_ids v)" for v
    unfolding validate_deployment_vault_ids_def add_vault_id_def Let_def by (intro kept.control reading)
  have event: "gives A S (append_initial_event v s) (\<lambda>_. {}) (\<lambda>s'. se_workspace_id s' = A)" if "se_workspace_id s = A" for S v s
    unfolding append_initial_event_def
    by (cases "initial_event v") (auto intro!: gives_bind [OF gives_append [OF that]] gives_return)
  have events: "stays A S (append_deployment_session_events s es)" if s: "se_workspace_id s = A" for S s es
    unfolding append_deployment_session_events_def
  proof (rule gives_seq [OF gives_reads [OF kept.pure_steps(3)]], rule gives_bind [OF gives_append [OF s]])
    fix x :: "session_row \<times> event_row" and T
    assume x: "case x of (s', e) \<Rightarrow> se_workspace_id s' = A"
    have "stays A (S \<union> {} \<union> {}) (foldM append_initial_event xs (fst x))" for xs
    proof (rule gives_weaken [OF gives_fold [where P = "\<lambda>s. se_workspace_id s = A"]])
      show "se_workspace_id (fst x) = A" using x by (cases x) simp
    qed (simp_all add: event)
    then show "stays A (S \<union> {} \<union> {}) (case x of (s1, _) \<Rightarrow>
        foldM append_initial_event (case es of PList es \<Rightarrow> es | _ \<Rightarrow> []) s1)"
      by (simp add: case_prod_beta)
  qed
  have rest: "stays A S (bindM (create_session_q agent n env t md rs vs None) (\<lambda>s.
      bindM (liftE rs') (\<lambda>resources. bindM (foldM attach_resource resources s) (\<lambda>s1.
      append_deployment_session_events s1 es))))" if agent: "ag_workspace_id agent = A" for S agent n env t md rs vs rs' es
  proof (rule gives_bind [OF gives_session [OF agent]], rule gives_bind [OF gives_reads [OF kept.pure_steps(3)]], rule gives_bind)
    fix s :: session_row and resources T assume "se_workspace_id s = A"
    then show "gives A (T \<union> {} \<union> {}) (foldM attach_resource resources s) (\<lambda>_. {}) (\<lambda>s. se_workspace_id s = A)"
      by (intro gives_fold attach_stays)
  qed (rule events)
  show ?thesis
    unfolding deployment_session_def Let_def
    by (rule rest gives_agent gives_bind gives_control(3) gives_reads
      | (intro kept.control environment vaults reading; fail) | (simp; fail))+
qed

lemma start_run_stays:
  assumes "mr_id run \<in> S" "mr_workspace_id run = A"
  shows "stays A S (start_run_session d run run_input)"
proof -
  have "stays A S (maybe_create_deployment_session d run run_input)"
    unfolding maybe_create_deployment_session_def Let_def
    by (rule gives_control(1) gives_bind session_stays gives_reads | (intro kept.control; fail))+
  then have tried: "stays A S (try_run_session d run run_input)"
    unfolding try_run_session_def
    by (intro gives_catch) (auto split: exc.split intro: gives_bind gives_return gives_control(4))
  have save: "stays A (S \<union> {}) (update_resource run p)" for p
    by (rule gives_weaken [OF gives_update]) (use assms in simp_all)
  show ?thesis
    unfolding start_run_session_def
    by (rule gives_bind [OF tried]) (auto split: sum.split option.split simp: run_failed_def intro: gives_return save [simplified])
qed

lemma run_resource_stays:
  assumes "mr_id d \<in> S" "mr_workspace_id d = A"
  shows "stays A S (run_deployment_resource zi d run_input)"
proof -
  have stop: "stays A S (seqM (archive_resource d) (seqM commitM (raiseM e)))" if "mr_id d \<in> S" for e S
    using that assms(2) by - (rule gives_seq gives_archive gives_commit gives_control(4) | (simp; fail))+
  have usable: "stays A T (archive_if_deployment_agent_unusable d)" if "mr_id d \<in> T" for T
    unfolding archive_if_deployment_agent_unusable_def using that
    by - (rule gives_bind gives_control(3) stop gives_control(1,2) gives_reads | (intro kept.control reading; fail) | (simp add: assms; fail))+
  have cron: "keeps tables_kept (upcoming_cron_runs zi e tz n)" for e tz n
    unfolding upcoming_cron_runs_def Let_def by (intro kept.control reading)
  have moved: "gives A T (reschedule zi d) (\<lambda>r. {mr_id d}) (\<lambda>r. mr_id r = mr_id d \<and> mr_workspace_id r = A)" if "mr_id d \<in> T" for T
    unfolding reschedule_def using that assms(2)
    by - (rule gives_bind [OF gives_reads] gives_update gives_control(1) gives_return | (intro kept.control cron reading; fail) | (simp; fail))+
  then have moved_or: "gives A T (if c then reschedule zi d else returnM d) (\<lambda>r. {mr_id d}) (\<lambda>r. mr_id r = mr_id d \<and> mr_workspace_id r = A)"
    if "mr_id d \<in> T" for T c
    using that assms(2) by (auto intro: gives_return)
  have ctx: "keeps tables_kept (trigger_context e)" for e
    unfolding trigger_context_def by (intro kept.control reading)
  show ?thesis
    unfolding run_deployment_resource_def ensure_deployment_mutable_def Let_def
    by (rule gives_bind gives_seq usable moved_or gives_create start_run_stays gives_reads
      | (intro kept.control ctx reading; fail) | (simp add: assms; fail))+
qed

lemma reading_definition: "keeps tables_kept (validate_deployment_definition d)"
proof -
  have "keeps tables_kept (resolve_deployment_agent_reference v)" for v
    unfolding resolve_deployment_agent_reference_def Let_def by (intro kept.control reading)
  then show ?thesis unfolding validate_deployment_definition_def Let_def by (intro kept.control reading)
qed

lemma reading_deployment: "keeps tables_kept (normalize_deployment_data zi d)"
  using reading_normal [of enc zi "''deployment''" d for enc] by (simp add: normalize_resource_data_def)

lemma run_deployment_stays:
  "stays A S (bindM (must_exist i ''deployment'' None) (\<lambda>deployment.
     bindM (run_deployment_resource zi deployment b) (\<lambda>run. seqM commitM (resource_response run None))))"
  by (rule gives_must_exist run_resource_stays gives_bind gives_seq gives_commit gives_reads
    | (intro reading; fail) | (simp; fail))+

lemma create_deployment_stays:
  "stays A S (bindM (normalize_deployment_data zi body) (\<lambda>normalized. bindM (validate_deployment_definition normalized) (\<lambda>data.
     create_top_level enc zi ''deployment'' data (st data))))"
  unfolding create_top_level_def
  by (rule gives_bind create_managed_stays gives_reads | (intro reading_deployment reading_definition; fail) | (simp; fail))+

lemma update_deployment_stays:
  "stays A S (bindM (must_exist i ''deployment'' None) (\<lambda>r. seqM (ensure_deployment_mutable r) (
     bindM (liftE (merge_data (mr_data r) body)) (\<lambda>merged.
     bindM (normalize_deployment_data zi merged) (\<lambda>normalized.
     bindM (validate_deployment_definition normalized) (\<lambda>data.
     bindM (liftE (column_text (na r data))) (\<lambda>name.
     bindM (update_resource r (pa data name)) (\<lambda>r1. seqM commitM (resource_response r1 None)))))))))"
  unfolding ensure_deployment_mutable_def
  by (rule steps_of_rows gives_reads | (intro reading_deployment reading_definition reading; fail) | (simp; fail))+

lemma set_status_stays: "stays A S (set_deployment_status st ch i)"
  unfolding set_deployment_status_def ensure_deployment_mutable_def
  by (rule steps_of_rows gives_reads | (intro reading; fail) | (simp; fail))+

section \<open>Files and skills\<close>

lemma reading_storage [reading]:
  "keeps tables_kept should_store_in_object_storage" "keeps tables_kept object_storage_backend_label"
  "keeps tables_kept (save_file_bytes h g c t n f cat ws)" "keeps tables_kept (get_file_info k)"
  "keeps tables_kept (download_file_with_type k)" "keeps tables_kept (enforce_size_limit size_bytes m l)"
  "keeps tables_kept (storage_error_500 (seqM should_store_in_object_storage (save_file_bytes h g c t n f cat ws)))"
  unfolding should_store_in_object_storage_def object_storage_backend_label_def save_file_bytes_def get_file_info_def
    download_file_with_type_def enforce_size_limit_def Let_def
  by (intro kept.control kept_config kept_store kept_error reading)+

lemma reading_scan [reading]: "keeps tables_kept (scan_upload_content c l)"
  unfolding scan_upload_content_def
  by (rule kept.catch_keeps) (auto simp: kept.pure_steps split: exc.split)

lemma reading_uploads [reading]:
  "keeps tables_kept (find_deduplicated_file h)"
  "keeps tables_kept (place_upload g u mt h e)" "keeps tables_kept (place_staged k f mt h n e)"
  "keeps tables_kept storage_or_503" "keeps tables_kept (validate_staged_upload_key k)"
  "keeps tables_kept (release_file_object f')" "keeps tables_kept (enforce_skill_archive_size c)"
  unfolding find_deduplicated_file_def place_upload_def place_staged_def storage_or_503_def
    validate_staged_upload_key_def release_file_object_def enforce_skill_archive_size_def Let_def
  by (intro kept.control kept_error kept_config kept_store reading)+

lemma gives_file_row: "gives A S (create_file_row f mt p) (\<lambda>r. {mr_id r}) (\<lambda>r. mr_workspace_id r = A)"
  unfolding create_file_row_def by (rule gives_create) simp

lemma upload_stays: "stays A S (upload_file_body g u)"
  unfolding upload_file_body_def Let_def
  by (rule gives_file_row steps_of_rows gives_reads | (intro kept.control reading; fail) | (simp; fail))+

lemma complete_stays: "stays A S (complete_file_upload_body b)"
  unfolding complete_file_upload_body_def Let_def
  by (rule gives_bind gives_seq gives_file_row gives_commit gives_control(3) gives_reads
    | (intro kept.control kept_store reading; fail) | (simp; fail))+

lemma gives_found_or:
  "gives A S (bindM (get_resource i (Some ty) None False None) (\<lambda>found. case found of None \<Rightarrow> raiseM e | Some r \<Rightarrow> returnM r))
     (\<lambda>r. {mr_id r}) (\<lambda>r. mr_workspace_id r = A)"
proof (rule gives_bind [OF gives_get_resource])
  fix x :: "resource_row option"
  assume "case x of None \<Rightarrow> True | Some r \<Rightarrow> mr_workspace_id r = A"
  then show "gives A (S \<union> (case x of None \<Rightarrow> {} | Some r \<Rightarrow> {mr_id r})) (case x of None \<Rightarrow> raiseM e | Some r \<Rightarrow> returnM r)
      (\<lambda>r. {mr_id r}) (\<lambda>r. mr_workspace_id r = A)"
    by (cases x) (auto intro: gives_control(4) gives_return)
qed

lemma delete_file_stays: "stays A S (delete_file_route_body i)"
  unfolding delete_file_route_body_def file_or_404_def
  by (rule gives_found_or gives_bind gives_seq gives_delete gives_commit gives_reads
    | (intro reading; fail) | (simp; fail))+

lemma reading_payload [reading]: "keeps tables_kept (skill_payload_from_request z d q)"
proof -
  have form: "keeps tables_kept (read_form_file x)" for x
    unfolding read_form_file_def by (cases "snd x") (simp_all, (intro kept.control reading)+)
  have json: "keeps tables_kept (read_json_file x)" for x
    unfolding read_json_file_def by (cases x) (simp_all, (intro kept.control reading)+)
  have "keeps tables_kept (json_payload z d v)" for v
  proof (cases v)
    case (PDict b)
    show ?thesis
      unfolding json_payload_def PDict pv.case
      by (cases "dget ''files'' b") (auto split: list.split intro!: kept.control json)
  qed (simp_all add: json_payload_def kept.pure_steps)
  then show ?thesis
    unfolding skill_payload_from_request_def multipart_payload_def Let_def
    by (intro kept.control form reading)
qed

lemma reading_version_id [reading]: "keeps tables_kept (new_skill_version_id v)"
  unfolding new_skill_version_id_def by (intro kept.control reading)

lemma gives_skill_version:
  "gives A S (create_skill_version_resource g k n d c) (\<lambda>r. {mr_id r}) (\<lambda>r. mr_workspace_id r = A)"
  unfolding create_skill_version_resource_def Let_def
  by (rule gives_bind gives_seq gives_create gives_reads | (intro kept.control reading; fail) | (simp; fail))+

lemma gives_skill_row: "gives A S (create_skill_row p n) (\<lambda>r. {mr_id r}) (\<lambda>r. mr_workspace_id r = A)"
  unfolding create_skill_row_def Let_def
  by (rule gives_bind gives_seq gives_create gives_reads | (intro kept.control reading; fail) | (simp; fail))+

lemma create_skill_stays: "stays A S (create_skill_body z d g q)"
  unfolding create_skill_body_def
  by (rule gives_skill_row gives_skill_version gives_bind gives_seq gives_commit gives_reads
    | (intro reading; fail) | (simp; fail))+

lemma create_skill_version_stays: "stays A S (create_skill_version_body z d g k q)"
  unfolding create_skill_version_body_def skill_or_404_def
  by (rule gives_found_or gives_skill_version gives_bind gives_seq gives_update gives_commit gives_reads
    | (intro reading; fail) | (simp; fail))+

lemma delete_skill_stays:
  "stays A S (bindM (skill_or_404 k) (\<lambda>r. bindM (delete_resource r) (\<lambda>r1. seqM commitM (returnM (re r1)))))"
  unfolding skill_or_404_def
  by (rule gives_found_or gives_bind gives_seq gives_delete gives_commit gives_reads | (intro reading; fail) | (simp; fail))+

lemma gives_version_or_404:
  "gives A S (skill_version_or_404 k n) (\<lambda>r. {mr_id r}) (\<lambda>r. mr_workspace_id r = A)"
proof (rule gives_reads_with)
  fix w r w' assume run: "skill_version_or_404 k n w = (Inr r, w')" "inside A S w"
  then obtain v where "get_resource_version ''skill_version'' k n False None w = (Inr (Some r), v)"
    unfolding skill_version_or_404_def found_Inr by auto
  then have "r \<in> set (db_resources (w_db w)) \<and> mr_workspace_id r = ws_of None w"
    by (auto simp: get_resource_version_def bindM_def mon_defs scalar_cases filter_eq_Cons_iff)
  with run(2) show "mr_workspace_id r = A \<and> (\<forall>i \<in> {mr_id r}. owned A i w)" by (auto simp: inside_def owned_def)
qed (unfold skill_version_or_404_def, intro kept.control reading)

lemma delete_skill_version_stays:
  "stays A S (bindM (skill_version_or_404 k n) (\<lambda>r. bindM (delete_resource r) (\<lambda>r1. seqM commitM (returnM (re r1)))))"
  by (rule gives_version_or_404 gives_bind gives_seq gives_delete gives_commit gives_reads | (intro reading; fail) | (simp; fail))+

section \<open>Requests\<close>

text \<open>The requests that write managed resources, files and skills.\<close>

inductive resource_request :: "world \<Rightarrow> world \<Rightarrow> bool" where
  "create_vault enc zi b w = (r, w') \<Longrightarrow> resource_request w w'"
| "update_vault enc zi i b w = (r, w') \<Longrightarrow> resource_request w w'"
| "archive_vault i w = (r, w') \<Longrightarrow> resource_request w w'"
| "delete_vault i w = (r, w') \<Longrightarrow> resource_request w w'"
| "create_credential enc zi v b w = (r, w') \<Longrightarrow> resource_request w w'"
| "update_credential enc zi v i b w = (r, w') \<Longrightarrow> resource_request w w'"
| "validate_credential v i w = (r, w') \<Longrightarrow> resource_request w w'"
| "archive_credential v i w = (r, w') \<Longrightarrow> resource_request w w'"
| "delete_credential v i w = (r, w') \<Longrightarrow> resource_request w w'"
| "create_memory_store enc zi b w = (r, w') \<Longrightarrow> resource_request w w'"
| "update_memory_store enc zi i b w = (r, w') \<Longrightarrow> resource_request w w'"
| "archive_memory_store i w = (r, w') \<Longrightarrow> resource_request w w'"
| "delete_memory_store i w = (r, w') \<Longrightarrow> resource_request w w'"
| "create_memory s b view w = (r, w') \<Longrightarrow> resource_request w w'"
| "update_memory s i b view w = (r, w') \<Longrightarrow> resource_request w w'"
| "delete_memory s i sha w = (r, w') \<Longrightarrow> resource_request w w'"
| "redact_memory_version s i w = (r, w') \<Longrightarrow> resource_request w w'"
| "create_user_profile enc zi b w = (r, w') \<Longrightarrow> resource_request w w'"
| "update_user_profile enc zi i b w = (r, w') \<Longrightarrow> resource_request w w'"
| "create_user_profile_enrollment_url i w = (r, w') \<Longrightarrow> resource_request w w'"
| "create_deployment enc zi b w = (r, w') \<Longrightarrow> resource_request w w'"
| "update_deployment zi i b w = (r, w') \<Longrightarrow> resource_request w w'"
| "archive_deployment i w = (r, w') \<Longrightarrow> resource_request w w'"
| "pause_deployment i w = (r, w') \<Longrightarrow> resource_request w w'"
| "unpause_deployment i w = (r, w') \<Longrightarrow> resource_request w w'"
| "run_deployment zi i ob w = (r, w') \<Longrightarrow> resource_request w w'"
| "upload_file g u w = (r, w') \<Longrightarrow> resource_request w w'"
| "complete_file_upload c w = (r, w') \<Longrightarrow> resource_request w w'"
| "delete_file_route i w = (r, w') \<Longrightarrow> resource_request w w'"
| "create_skill z d g q w = (r, w') \<Longrightarrow> resource_request w w'"
| "delete_skill i w = (r, w') \<Longrightarrow> resource_request w w'"
| "create_skill_version z d g i q w = (r, w') \<Longrightarrow> resource_request w w'"
| "delete_skill_version i n w = (r, w') \<Longrightarrow> resource_request w w'"

lemma scope_stays:
  assumes "session_scope m w = (r, w')" "stays (ws_of None w) {} m" "distinct (map mr_id (db_resources (w_committed w)))"
  shows "distinct (map mr_id (db_resources (w_committed w'))) \<and>
    foreign (ws_of None w) (w_committed w') = foreign (ws_of None w) (w_committed w)"
proof (cases "m (w\<lparr>w_db := w_committed w\<rparr>)")
  case (Pair q v)
  have "inside (ws_of None w) {} (w\<lparr>w_db := w_committed w\<rparr>)" using assms(3) by (simp add: inside_def)
  note v = givesD(1,2) [OF assms(2) Pair this]
  from v have "distinct (map mr_id (db_resources (w_committed v)))"
    "foreign (ws_of None w) (w_committed v) = foreign (ws_of None w) (w_committed w)" by (simp_all add: inside_def)
  moreover have "w_committed w' = w_committed v" using assms(1) Pair by (auto simp: session_scope_def)
  ultimately show ?thesis by simp
qed

lemma create_credential_stays: "stays A S (seqM (must_exist v ''vault'' None) (create_child enc zi ty v b))"
  unfolding create_child_def by (rule gives_seq [OF gives_reads create_managed_stays]) (intro reading)

lemmas request_defs = create_vault_def update_vault_def archive_vault_def delete_vault_def create_credential_def
  update_credential_def validate_credential_def archive_credential_def delete_credential_def create_memory_store_def
  update_memory_store_def archive_memory_store_def delete_memory_store_def create_memory_def update_memory_def
  delete_memory_def redact_memory_version_def create_user_profile_def update_user_profile_def
  create_user_profile_enrollment_url_def create_deployment_def update_deployment_def archive_deployment_def
  pause_deployment_def unpause_deployment_def run_deployment_def upload_file_def complete_file_upload_def
  delete_file_route_def create_skill_def delete_skill_def create_skill_version_def delete_skill_version_def

lemmas bodies_stay = create_managed_stays update_managed_stays archive_managed_stays delete_managed_stays
  create_credential_stays validate_credential_stays create_memory_stays update_memory_stays delete_memory_stays
  redact_memory_stays enrollment_stays create_deployment_stays update_deployment_stays set_status_stays run_deployment_stays
  upload_stays complete_stays delete_file_stays create_skill_stays delete_skill_stays create_skill_version_stays
  delete_skill_version_stays

lemma request_stays:
  assumes "resource_request w w'" "distinct (map mr_id (db_resources (w_committed w)))"
  shows "distinct (map mr_id (db_resources (w_committed w'))) \<and>
    foreign (ws_of None w) (w_committed w') = foreign (ws_of None w) (w_committed w)"
  using assms(1)
  by cases (unfold request_defs Let_def create_top_level_def [where ty = "''vault''"]
    create_top_level_def [where ty = "''memory_store''"] create_top_level_def [where ty = "''user_profile''"],
    (erule scope_stays, rule bodies_stay, rule assms(2))+)

text \<open>A request of a caller whom a provider lets in, with the workspace of the caller's key.\<close>

inductive caller_request :: "string \<Rightarrow> world \<Rightarrow> world \<Rightarrow> bool" where
  with_env: "require_api_access env_authenticate h w = (Inr cw, u) \<Longrightarrow> resource_request u w' \<Longrightarrow>
    caller_request (cw_id cw) w w'"
| with_database: "require_api_access database_authenticate h w = (Inr cw, u) \<Longrightarrow> resource_request u w' \<Longrightarrow>
    caller_request (cw_id cw) w w'"

lemma ws_of_current: "w_workspace u = Some i \<Longrightarrow> ws_of None u = i"
  by (simp add: ws_of_def workspace_id_or_default_def mon_defs)

lemma caller_stays:
  assumes "caller_request A w w'" "distinct (map mr_id (db_resources (w_committed w)))"
  shows "distinct (map mr_id (db_resources (w_committed w'))) \<and> foreign A (w_committed w') = foreign A (w_committed w)"
proof -
  from assms(1) obtain u where u: "db_resources (w_committed u) = db_resources (w_committed w)" "ws_of None u = A"
    "resource_request u w'"
  proof cases
    case (with_env h cw u)
    with access_workspace [OF with_env(2) providers_keep_resources(1)] show thesis
      by (intro that [of u]) (simp_all add: ws_of_current)
  next
    case (with_database h cw u)
    with access_workspace [OF with_database(2) providers_keep_resources(2)] show thesis
      by (intro that [of u]) (simp_all add: ws_of_current)
  qed
  have "distinct (map mr_id (db_resources (w_committed u)))" using assms(2) u(1) by simp
  from request_stays [OF u(3) this] u show ?thesis by (simp add: foreign_def)
qed

text \<open>
  C24: workspaces are separate. Whatever requests callers of other workspaces make on vaults, credentials, memory stores,
  memories, user profiles, deployments, files and skills, in any number and order, the rows of a workspace stay what they
  are, all columns of them and in their order.
\<close>

theorem workspaces_isolated:
  assumes "(\<lambda>u v. \<exists>A. A \<noteq> B \<and> caller_request A u v)\<^sup>*\<^sup>* w w'" "distinct (map mr_id (db_resources (w_committed w)))"
  shows "filter (\<lambda>r. mr_workspace_id r = B) (db_resources (w_committed w')) =
    filter (\<lambda>r. mr_workspace_id r = B) (db_resources (w_committed w))"
proof -
  from assms(1) have "distinct (map mr_id (db_resources (w_committed w'))) \<and>
    filter (\<lambda>r. mr_workspace_id r = B) (db_resources (w_committed w')) =
    filter (\<lambda>r. mr_workspace_id r = B) (db_resources (w_committed w))"
  proof induction
    case (step u v)
    then obtain A where A: "A \<noteq> B" "caller_request A u v" by blast
    from caller_stays [OF A(2)] step.IH have v: "distinct (map mr_id (db_resources (w_committed v)))"
      "foreign A (w_committed v) = foreign A (w_committed u)" by simp_all
    have ours: "filter (\<lambda>r. mr_workspace_id r = B) rows = filter (\<lambda>r. mr_workspace_id r = B) (filter (\<lambda>r. mr_workspace_id r \<noteq> A) rows)"
      for rows using A(1) by (auto simp: filter_filter intro: filter_cong)
    have "filter (\<lambda>r. mr_workspace_id r = B) (db_resources (w_committed v)) =
      filter (\<lambda>r. mr_workspace_id r = B) (db_resources (w_committed u))"
      using v(2) ours [of "db_resources (w_committed v)"] ours [of "db_resources (w_committed u)"] by (simp add: foreign_def)
    with v(1) step.IH show ?case by simp
  qed (use assms(2) in simp)
  then show ?thesis by blast
qed

definition shared_server :: world where
  "shared_server = world0\<lparr>w_committed := db0\<lparr>db_resources := [vault_row\<lparr>mr_workspace_id := ''wrkspc_b''\<rparr>]\<rparr>\<rparr>"

definition plain_headers :: request_headers where
  "plain_headers = \<lparr>rh_credentials = \<lparr>rc_x_api_key = None, rc_authorization = None\<rparr>, rh_anthropic_beta = None,
     rh_open_managed_agents_beta = Some ''open-managed-agents-2026-04-01'', rh_anthropic_version = None\<rparr>"

abbreviation add_vault :: "world \<Rightarrow> pdict res \<times> world" where
  "add_vault \<equiv> create_vault (\<lambda>k n p. n @ p) (\<lambda>_. Inr utc_zone) [(''display_name'', PStr ''mine'')]"

abbreviation vault_added :: world where
  "vault_added \<equiv> snd (add_vault (snd (require_api_access env_authenticate plain_headers shared_server)))"

theorem workspaces_isolated_witness:
  "map mr_workspace_id (db_resources (w_committed vault_added)) = [''wrkspc_b'', ''wrkspc_default''] \<and>
   filter (\<lambda>r. mr_workspace_id r = ''wrkspc_b'') (db_resources (w_committed vault_added)) =
     [vault_row\<lparr>mr_workspace_id := ''wrkspc_b''\<rparr>]"
proof
  show "map mr_workspace_id (db_resources (w_committed vault_added)) = [''wrkspc_b'', ''wrkspc_default'']" by code_simp
  have "case fst (require_api_access env_authenticate plain_headers shared_server) of Inl _ \<Rightarrow> False
    | Inr cw \<Rightarrow> cw_id cw = ''wrkspc_default''" by code_simp
  then obtain cw u where run: "require_api_access env_authenticate plain_headers shared_server = (Inr cw, u)"
    and cw: "cw_id cw = ''wrkspc_default''" by (auto split: sum.splits simp: fst_def split: prod.splits)
  obtain r w' where added: "add_vault u = (r, w')" by fastforce
  from caller_request.with_env [OF run resource_request.intros(1) [OF added]] cw
  have "caller_request ''wrkspc_default'' shared_server w'" by simp
  then have "(\<lambda>u v. \<exists>A. A \<noteq> ''wrkspc_b'' \<and> caller_request A u v)\<^sup>*\<^sup>* shared_server w'"
    by (intro r_into_rtranclp exI [of _ "''wrkspc_default''"]) simp
  note kept = workspaces_isolated [OF this]
  have "vault_added = w'" by (simp add: run added)
  moreover have "db_resources (w_committed shared_server) = [vault_row\<lparr>mr_workspace_id := ''wrkspc_b''\<rparr>]"
    by (simp add: shared_server_def)
  ultimately show "filter (\<lambda>r. mr_workspace_id r = ''wrkspc_b'') (db_resources (w_committed vault_added)) =
     [vault_row\<lparr>mr_workspace_id := ''wrkspc_b''\<rparr>]" using kept by simp
qed

end
