(* ===== verification/SkillFacts.thy ===== *)
theory SkillFacts
  imports Isolation
begin

text \<open>
  What holds of skills: an archive has only safe paths under one directory with a manifest, and along any sequence of
  requests the versions of a skill have increasing numbers, the last of which the skill names, and never change.
\<close>

section \<open>Archives\<close>

text \<open>A path that stays inside the directory an archive is unpacked in.\<close>

definition safe_path :: "string \<Rightarrow> bool" where
  "safe_path p \<longleftrightarrow> CHR 0x5C \<notin> set p \<and> list_all (\<lambda>s. s \<notin> {[], ''.'', ''..''}) (split_on CHR ''/'' p)"

lemma nothing_replaced: "c \<notin> set s \<Longrightarrow> replace_char c r s = s"
  by (induction s) (auto simp: replace_char_def)

lemma normalized_zip_path:
  assumes "normalize_zip_path f = Inr p"
  shows "safe_path p" "normalize_zip_path p = Inr p"
proof -
  let ?raw = "replace_char (CHR 0x5C) ''/'' f"
  have raw: "\<not> startswith ''/'' ?raw" "\<not> list_ex (\<lambda>p. p \<in> {[], ''.'', ''..''}) (split_on CHR ''/'' ?raw)" "p = ?raw"
    using assms by (auto simp: normalize_zip_path_def Let_def split: if_splits)
  have plain: "CHR 0x5C \<notin> set ?raw" by (auto simp: replace_char_def)
  with raw show "safe_path p" by (simp add: safe_path_def list_all_iff list_ex_iff)
  have "replace_char (CHR 0x5C) ''/'' ?raw = ?raw" using plain by (rule nothing_replaced)
  with raw assms show "normalize_zip_path p = Inr p" by (auto simp: normalize_zip_path_def Let_def split: if_splits)
qed

definition normal_file :: "skill_file \<Rightarrow> bool" where
  "normal_file f \<longleftrightarrow> normalize_zip_path (fst f) = Inr (fst f)"

lemma normal_safe: "normal_file f \<Longrightarrow> safe_path (fst f)"
  unfolding normal_file_def by (rule normalized_zip_path(1))

lemma mapE_map: "(\<And>x. x \<in> set xs \<Longrightarrow> f x = Inr (g x)) \<Longrightarrow> mapE f xs = Inr (map g xs)"
  by (induction xs) (auto simp: res_simps)

lemma mapM_Inr_set:
  assumes "mapM f xs w = (Inr ys, w')" "y \<in> set ys"
  shows "\<exists>x \<in> set xs. \<exists>v v'. f x v = (Inr y, v')"
  using assms
proof (induction xs arbitrary: ys w)
  case (Cons x xs)
  then obtain z zs v where z: "f x w = (Inr z, v)" "mapM f xs v = (Inr zs, w')" "ys = z # zs" by (auto simp: mon_simps)
  with Cons.prems(2) Cons.IH [OF z(2)] show ?case by auto
qed (simp add: mon_simps)

lemma mapM_Inr_from:
  assumes "mapM f xs w = (Inr ys, w')" "x \<in> set xs"
  shows "\<exists>y \<in> set ys. \<exists>v v'. f x v = (Inr y, v')"
  using assms
proof (induction xs arbitrary: ys w)
  case (Cons a xs)
  then obtain z zs v where z: "f a w = (Inr z, v)" "mapM f xs v = (Inr zs, w')" "ys = z # zs" by (auto simp: mon_simps)
  with Cons.prems(2) Cons.IH [OF z(2)] show ?case by auto
qed simp

lemma form_files_normal:
  assumes "read_form_file item w = (Inr fs, w')" "f \<in> set fs"
  shows "normal_file f"
  using assms by (cases "snd item") (auto simp: read_form_file_def mon_simps normal_file_def dest: normalized_zip_path(2))

lemma json_files_normal:
  assumes "read_json_file item w = (Inr fs, w')" "f \<in> set fs"
  shows "normal_file f"
  using assms by (cases item) (auto simp: read_json_file_def mon_simps normal_file_def dest: normalized_zip_path(2))

definition members :: "skill_file list \<Rightarrow> (string \<times> string) list" where
  "members files = map (\<lambda>(f, raw, _). (f, raw)) files"

lemma zip_members:
  assumes "\<And>f. f \<in> set files \<Longrightarrow> normal_file f"
  shows "zip_uploaded_files z files = Inr (z (members files))"
proof -
  have "mapE (\<lambda>(filename, raw, _). bindE (normalize_zip_path filename) (\<lambda>p. Inr (p, raw))) files = Inr (members files)"
    unfolding members_def using assms by (intro mapE_map) (force simp: normal_file_def res_simps)
  then show ?thesis by (simp add: zip_uploaded_files_def res_simps)
qed

text \<open>A directory with a manifest that names and describes the skill.\<close>

definition skill_directory :: "(string \<Rightarrow> string) \<Rightarrow> string \<Rightarrow> (string \<times> string) list \<Rightarrow> bool" where
  "skill_directory dec dir ms \<longleftrightarrow> list_all (\<lambda>(p, _). startswith (dir @ ''/'') p) ms \<and>
     list_ex (\<lambda>(p, raw). p = dir @ ''/SKILL.md'' \<and> (case parse_skill_frontmatter dec raw of
        Inr d \<Rightarrow> truthy (dget ''name'' d) \<and> truthy (dget ''description'' d) | Inl _ \<Rightarrow> False)) ms"

lemma find_holds: "find P xs = Some x \<Longrightarrow> x \<in> set xs \<and> P x"
  by (auto simp: find_Some_iff)

lemma startswith_split:
  assumes "2 \<le> length (split_on CHR ''/'' p)"
  shows "startswith (hd (split_on CHR ''/'' p) @ ''/'') p"
proof -
  obtain a b xs where s: "split_on CHR ''/'' p = a # b # xs"
    using assms by (cases "split_on CHR ''/'' p" rule: list.exhaust; cases "tl (split_on CHR ''/'' p)") auto
  have "p = py_join ''/'' (a # b # xs)" unfolding s [symmetric] by simp
  then show ?thesis unfolding s by (simp add: startswith_iff)
qed

lemma validated_directory:
  assumes "validate_skill_files dec files = Inr d" "\<And>f. f \<in> set files \<Longrightarrow> normal_file f"
  shows "files \<noteq> []" "\<exists>dir. dget ''top_level_directory'' d = PStr dir \<and> skill_directory dec dir (members files)"
proof -
  let ?paths = "map fst files"
  have paths: "mapE (\<lambda>(filename, _, _). normalize_zip_path filename) files = Inr ?paths"
    using assms(2) by (intro mapE_map) (force simp: normal_file_def)
  let ?parts = "map (split_on CHR ''/'') ?paths"
  let ?dir = "hd (hd ?parts)"
  from assms(1) show "files \<noteq> []" by (auto simp: validate_skill_files_def res_simps raise_if_def)
  obtain raw fm where v: "\<not> list_ex (\<lambda>p. length p < 2) ?parts" "\<not> list_ex (\<lambda>p. hd p \<noteq> ?dir) ?parts"
    "find (\<lambda>(path, _). path = ?dir @ ''/SKILL.md'') (zip ?paths (map (fst \<circ> snd) files)) = Some raw"
    "parse_skill_frontmatter dec (snd raw) = Inr fm" "truthy (dget ''name'' fm)" "truthy (dget ''description'' fm)"
    "d = dset ''top_level_directory'' (PStr ?dir) fm"
    using assms(1) unfolding validate_skill_files_def
    by (auto simp: paths res_simps raise_if_def Let_def split: if_splits option.splits)
  have "startswith (?dir @ ''/'') (fst f)" if "f \<in> set files" for f
  proof -
    have "split_on CHR ''/'' (fst f) \<in> set ?parts" using that by auto
    with v(1,2) have "2 \<le> length (split_on CHR ''/'' (fst f))" "hd (split_on CHR ''/'' (fst f)) = ?dir"
      unfolding list_ex_iff by (metis not_le, metis)
    with startswith_split [of "fst f"] show ?thesis by metis
  qed
  then have "list_all (\<lambda>(p, _). startswith (?dir @ ''/'') p) (members files)" by (fastforce simp: members_def list_all_iff)
  moreover have "zip ?paths (map (fst \<circ> snd) files) = members files" by (induction files) (auto simp: members_def)
  then have "raw \<in> set (members files)" "fst raw = ?dir @ ''/SKILL.md''" using find_holds [OF v(3)] by (simp_all add: case_prod_beta)
  then have "list_ex (\<lambda>(p, raw). p = ?dir @ ''/SKILL.md'' \<and> (case parse_skill_frontmatter dec raw of
        Inr d \<Rightarrow> truthy (dget ''name'' d) \<and> truthy (dget ''description'' d) | Inl _ \<Rightarrow> False)) (members files)"
    using v(4-6) unfolding list_ex_iff by (intro bexI [of _ raw]) (auto split: prod.split)
  ultimately show "\<exists>dir. dget ''top_level_directory'' d = PStr dir \<and> skill_directory dec dir (members files)"
    unfolding v(7) skill_directory_def by auto
qed

text \<open>The requests that bring files: a form with one, a body with a list of them that is not empty.\<close>

definition brings_files :: "skill_request \<Rightarrow> bool" where
  "brings_files q \<longleftrightarrow> (if startswith ''multipart/form-data'' (sq_content_type q)
     then list_ex (\<lambda>(_, v). case v of FormFile _ _ _ \<Rightarrow> True | FormText _ \<Rightarrow> False) (sq_form q)
     else (case sq_json q of Inr (PDict d) \<Rightarrow> (case dget ''files'' d of PList (f # fs) \<Rightarrow> True | _ \<Rightarrow> False) | _ \<Rightarrow> False))"

definition sound_archive :: "(string \<Rightarrow> string) \<Rightarrow> skill_request \<Rightarrow> pdict \<Rightarrow> (string \<times> string) list \<Rightarrow> bool" where
  "sound_archive dec q data ms \<longleftrightarrow> list_all (\<lambda>(p, _). safe_path p) ms \<and> (brings_files q \<longrightarrow>
     (\<exists>dir. dget ''top_level_directory'' data = PStr dir \<and> skill_directory dec dir ms))"

lemma safe_members: "(\<And>f. f \<in> set files \<Longrightarrow> normal_file f) \<Longrightarrow> list_all (\<lambda>(p, _). safe_path p) (members files)"
  using normal_safe by (fastforce simp: members_def list_all_iff)

lemma multipart_sound:
  assumes "multipart_payload z dec form w = (Inr p, w')" "startswith ''multipart/form-data'' (sq_content_type q)" "sq_form q = form"
  shows "\<exists>ms. sp_archive p = z ms \<and> sound_archive dec q (sp_data p) ms"
proof -
  obtain groups v where g: "mapM read_form_file form w = (Inr groups, v)" using assms(1) by (auto simp: multipart_payload_def mon_simps Let_def)
  let ?files = "concat groups"
  have normal: "normal_file f" if "f \<in> set ?files" for f
  proof -
    from that obtain fs where "fs \<in> set groups" "f \<in> set fs" by auto
    with mapM_Inr_set [OF g] form_files_normal show ?thesis by blast
  qed
  note run = assms(1) [unfolded multipart_payload_def Let_def bindM_Inr]
  have zipped: "zip_uploaded_files z ?files = Inr (z (members ?files))" by (rule zip_members) (rule normal)
  with run g have arch: "sp_archive p = z (members ?files)" by auto
  have "\<exists>dir. dget ''top_level_directory'' (sp_data p) = PStr dir \<and> skill_directory dec dir (members ?files)" if "brings_files q"
  proof -
    from that assms(2,3) obtain x where x: "x \<in> set form" "case snd x of FormFile _ _ _ \<Rightarrow> True | FormText _ \<Rightarrow> False"
      by (auto simp: brings_files_def list_ex_iff)
    from mapM_Inr_from [OF g x(1)] obtain fs u u' where "fs \<in> set groups" "read_form_file x u = (Inr fs, u')" by blast
    with x(2) have ne: "?files \<noteq> []" by (auto simp: read_form_file_def mon_simps split: form_value.splits)
    from run g zipped obtain d t u u' where d: "(if ?files = [] then returnM [] else liftE (validate_skill_files dec ?files)) u = (Inr d, u')"
      "sp_data p = [(''display_title'', t), (''name'', dget ''name'' d), (''description'', dget ''description'' d),
         (''files'', PList (map file_record ?files)),
         (''top_level_directory'', dget ''top_level_directory'' d), (''manifest'', PDict d)]" by auto
    from d(1) ne have valid: "validate_skill_files dec ?files = Inr d" by (simp only: if_False liftE_run split: sum.splits)
    have "dget ''top_level_directory'' (sp_data p) = dget ''top_level_directory'' d" by (simp add: d(2))
    with validated_directory(2) [OF valid normal] show ?thesis by metis
  qed
  with arch safe_members [OF normal] show ?thesis unfolding sound_archive_def by blast
qed

lemma json_sound:
  assumes "json_payload z dec v w = (Inr p, w')" "\<not> startswith ''multipart/form-data'' (sq_content_type q)" "sq_json q = Inr v"
  shows "\<exists>ms. sp_archive p = z ms \<and> sound_archive dec q (sp_data p) ms"
proof -
  obtain b where b: "v = PDict b" using assms(1) by (cases v) (simp_all add: json_payload_def)
  show ?thesis
  proof (cases "brings_files q")
    case False
    define doc where "doc = dumps_compact (PDict b)"
    let ?one = "[(''manifest.json'', doc, PStr ''application/json'')]"
    from False have run: "json_payload z dec v = bindM (liftE (zip_uploaded_files z ?one))
        (\<lambda>archive. returnM \<lparr>sp_data = b, sp_archive = archive, sp_title_is_file = False\<rparr>)"
      using assms(2,3) by (auto simp: brings_files_def b json_payload_def doc_def split: pv.split list.split)
    have "normalize_zip_path ''manifest.json'' = Inr ''manifest.json''" by code_simp
    then have normal: "normal_file f" if "f \<in> set ?one" for f using that by (simp add: normal_file_def)
    have zipped: "zip_uploaded_files z ?one = Inr (z (members ?one))" by (rule zip_members) (rule normal)
    have safe: "list_all (\<lambda>(p, _). safe_path p) (members ?one)" by (rule safe_members) (rule normal)
    have "sp_archive p = z (members ?one)" using assms(1) unfolding run zipped bindM_Inr by auto
    with safe False show ?thesis unfolding sound_archive_def by blast
  next
    case True
    then obtain f fs where files: "dget ''files'' b = PList (f # fs)"
      using assms(2,3) by (auto simp: brings_files_def b split: pv.splits list.splits)
    from assms(1) obtain groups u where g: "mapM read_json_file (f # fs) w = (Inr groups, u)"
      by (auto simp: b json_payload_def files mon_simps)
    have normal: "normal_file f" if "f \<in> set (concat groups)" for f
    proof -
      from that obtain fs where "fs \<in> set groups" "f \<in> set fs" by auto
      with mapM_Inr_set [OF g] json_files_normal show ?thesis by blast
    qed
    note run = assms(1) [unfolded b json_payload_def pv.case files list.case bindM_Inr Let_def]
    obtain d where d: "validate_skill_files dec (concat groups) = Inr d" "sp_archive p = z (members (concat groups))"
      "dget ''top_level_directory'' (sp_data p) = dget ''top_level_directory'' d"
      using run g zip_members [of "concat groups" z, OF normal] by auto
    with validated_directory(2) [OF d(1) normal] safe_members [OF normal] show ?thesis unfolding sound_archive_def by metis
  qed
qed

lemma payload_sound:
  assumes "skill_payload_from_request z dec q w = (Inr p, w')"
  shows "\<exists>ms. sp_archive p = z ms \<and> sound_archive dec q (sp_data p) ms"
proof (cases "startswith ''multipart/form-data'' (sq_content_type q)")
  case True
  with assms multipart_sound [OF _ True refl] show ?thesis by (simp add: skill_payload_from_request_def)
next
  case False
  with assms obtain v where "sq_json q = Inr v" "json_payload z dec v w = (Inr p, w')"
    by (auto simp: skill_payload_from_request_def mon_simps)
  with json_sound [OF _ False] show ?thesis by blast
qed

section \<open>Rows of skills\<close>

definition is_skill :: "resource_row \<Rightarrow> bool" where
  "is_skill r \<longleftrightarrow> mr_resource_type r = ''skill''"

definition is_release :: "resource_row \<Rightarrow> bool" where
  "is_release r \<longleftrightarrow> mr_resource_type r = ''skill_version''"

definition releases :: "string \<Rightarrow> resource_row list \<Rightarrow> resource_row list" where
  "releases i rows = filter (\<lambda>r. is_release r \<and> mr_parent_id r = Some i) rows"

definition skill_history :: "resource_row list \<Rightarrow> resource_row \<Rightarrow> bool" where
  "skill_history rows s \<longleftrightarrow> (\<exists>ns. ns \<noteq> [] \<and> sorted_wrt (<) ns \<and> map mr_version (releases (mr_id s) rows) = map Some ns \<and>
     dget ''latest_version'' (mr_data s) = PInt (last ns))"

definition skill_rows_ok :: "resource_row list \<Rightarrow> bool" where
  "skill_rows_ok rows \<longleftrightarrow> distinct (map mr_id rows) \<and> (\<forall>s \<in> set rows. is_skill s \<longrightarrow> skill_history rows s) \<and>
     (\<forall>v \<in> set rows. is_release v \<longrightarrow> (\<exists>s \<in> set rows. is_skill s \<and> mr_parent_id v = Some (mr_id s)))"

text \<open>What stays of a row that is deleted, and of a release in any case.\<close>

definition but_for_deletion :: "resource_row \<Rightarrow> resource_row \<Rightarrow> bool" where
  "but_for_deletion r r' \<longleftrightarrow> r' = r\<lparr>mr_deleted_at := mr_deleted_at r', mr_status := mr_status r', mr_updated_at := mr_updated_at r'\<rparr>"

definition of_skills :: "resource_row list \<Rightarrow> resource_row list" where
  "of_skills rows = filter (\<lambda>r. is_skill r \<or> is_release r) rows"

inductive skill_move :: "resource_row list \<Rightarrow> resource_row list \<Rightarrow> bool" where
  apart: "distinct (map mr_id rows') \<Longrightarrow> of_skills rows' = of_skills rows \<Longrightarrow> skill_move rows rows'"
| born: "is_skill s \<Longrightarrow> is_release v \<Longrightarrow> mr_parent_id v = Some (mr_id s) \<Longrightarrow> mr_version v = Some n \<Longrightarrow>
    dget ''latest_version'' (mr_data s) = PInt n \<Longrightarrow> mr_id s \<notin> mr_id ` set rows \<Longrightarrow>
    mr_id v \<notin> insert (mr_id s) (mr_id ` set rows) \<Longrightarrow> skill_move rows (rows @ [s, v])"
| released: "s \<in> set rows \<Longrightarrow> is_skill s \<Longrightarrow> same_place s s' \<Longrightarrow> dget ''latest_version'' (mr_data s) = PInt n \<Longrightarrow> n < n' \<Longrightarrow>
    dget ''latest_version'' (mr_data s') = PInt n' \<Longrightarrow> is_release v \<Longrightarrow> mr_parent_id v = Some (mr_id s) \<Longrightarrow>
    mr_version v = Some n' \<Longrightarrow> mr_id v \<notin> mr_id ` set rows \<Longrightarrow> skill_move rows (replace_by mr_id s' rows @ [v])"
| gone: "r \<in> set rows \<Longrightarrow> is_skill r \<or> is_release r \<Longrightarrow> but_for_deletion r r' \<Longrightarrow> skill_move rows (replace_by mr_id r' rows)"

lemma release_not_skill: "is_release r \<Longrightarrow> \<not> is_skill r"
  by (simp add: is_release_def is_skill_def)

lemma deletion_fields:
  assumes "but_for_deletion r r'"
  shows "mr_id r' = mr_id r" "mr_data r' = mr_data r" "mr_version r' = mr_version r" "mr_parent_id r' = mr_parent_id r"
    "is_skill r' = is_skill r" "is_release r' = is_release r"
proof -
  obtain a b c where r': "r' = r\<lparr>mr_deleted_at := a, mr_status := b, mr_updated_at := c\<rparr>"
    using assms unfolding but_for_deletion_def by blast
  show "mr_id r' = mr_id r" "mr_data r' = mr_data r" "mr_version r' = mr_version r" "mr_parent_id r' = mr_parent_id r"
    "is_skill r' = is_skill r" "is_release r' = is_release r"
    unfolding r' is_skill_def is_release_def by simp_all
qed

lemma but_for_deletion_refl: "but_for_deletion r r"
  by (simp add: but_for_deletion_def)

lemma but_for_deletion_trans:
  assumes "but_for_deletion r s" "but_for_deletion s t"
  shows "but_for_deletion r t"
proof -
  obtain a b c where s: "s = r\<lparr>mr_deleted_at := a, mr_status := b, mr_updated_at := c\<rparr>" using assms(1) unfolding but_for_deletion_def by blast
  obtain a' b' c' where t: "t = s\<lparr>mr_deleted_at := a', mr_status := b', mr_updated_at := c'\<rparr>" using assms(2) unfolding but_for_deletion_def by blast
  show ?thesis unfolding but_for_deletion_def t s by simp
qed

lemma skill_rows_okD:
  assumes "skill_rows_ok rows"
  shows "distinct (map mr_id rows)" "s \<in> set rows \<Longrightarrow> is_skill s \<Longrightarrow> skill_history rows s"
    "v \<in> set rows \<Longrightarrow> is_release v \<Longrightarrow> \<exists>s \<in> set rows. is_skill s \<and> mr_parent_id v = Some (mr_id s)"
  using assms by (auto simp: skill_rows_ok_def)

lemma releases_append [simp]:
  "releases i (rows @ qs) = releases i rows @ releases i qs" "releases i [] = []"
  "releases i (r # rows) = (if is_release r \<and> mr_parent_id r = Some i then r # releases i rows else releases i rows)"
  by (simp_all add: releases_def)

lemma no_releases_yet:
  assumes "skill_rows_ok rows" "i \<notin> mr_id ` set rows"
  shows "releases i rows = []"
proof -
  have "mr_parent_id v \<noteq> Some i" if "v \<in> set rows" "is_release v" for v
    using skill_rows_okD(3) [OF assms(1) that] assms(2) by auto
  then show ?thesis by (auto simp: releases_def filter_empty_conv)
qed

lemma skill_history_moves:
  assumes "skill_history rows s" "map mr_version (releases (mr_id s) rows') = map mr_version (releases (mr_id s) rows)"
    "mr_id s' = mr_id s" "mr_data s' = mr_data s"
  shows "skill_history rows' s'"
  using assms by (simp add: skill_history_def)

lemma releases_replaced:
  assumes "distinct (map mr_id rows)" "r \<in> set rows" "but_for_deletion r r'"
  shows "map mr_version (releases i (replace_by mr_id r' rows)) = map mr_version (releases i rows)"
proof -
  note f = deletion_fields [OF assms(3)]
  show ?thesis
  proof (cases "is_release r \<and> mr_parent_id r = Some i")
    case True
    with f have "releases i (replace_by mr_id r' rows) = replace_by mr_id r' (releases i rows)"
      unfolding releases_def by (intro filter_replace_same [OF assms(1,2)]) simp_all
    moreover have "mr_version x = mr_version r'" if "x \<in> set (releases i rows)" "mr_id x = mr_id r'" for x
      using only_row [OF assms(1,2), of x] that f by (auto simp: releases_def)
    ultimately show ?thesis by (auto simp: replace_by_def)
  next
    case False
    with f show ?thesis unfolding releases_def by (subst filter_replace_other [OF assms(1,2)]) auto
  qed
qed

lemma apart_keeps:
  assumes "skill_rows_ok rows" "distinct (map mr_id rows')" "of_skills rows' = of_skills rows"
  shows "skill_rows_ok rows'"
proof -
  have rel: "releases i rows' = releases i rows" for i
  proof -
    have "releases i xs = filter (\<lambda>r. is_release r \<and> mr_parent_id r = Some i) (of_skills xs)" for xs
      unfolding of_skills_def releases_def filter_filter by (rule filter_cong) auto
    then show ?thesis using assms(3) by simp
  qed
  have mem: "r \<in> set rows' \<longleftrightarrow> r \<in> set rows" if "is_skill r \<or> is_release r" for r
  proof -
    have "r \<in> set (of_skills rows') \<longleftrightarrow> r \<in> set (of_skills rows)" using assms(3) by simp
    with that show ?thesis by (auto simp: of_skills_def)
  qed
  have hist: "skill_history rows' s" if "s \<in> set rows'" "is_skill s" for s
    using skill_rows_okD(2) [OF assms(1)] that mem [of s] rel by (auto simp: skill_history_def)
  moreover have "\<exists>s \<in> set rows'. is_skill s \<and> mr_parent_id v = Some (mr_id s)" if "v \<in> set rows'" "is_release v" for v
  proof -
    from that mem [of v] skill_rows_okD(3) [OF assms(1), of v] obtain s where "s \<in> set rows" "is_skill s" "mr_parent_id v = Some (mr_id s)"
      by blast
    with mem [of s] show ?thesis by blast
  qed
  ultimately show ?thesis using assms(2) by (simp add: skill_rows_ok_def)
qed

lemma born_skill_keeps:
  assumes "skill_rows_ok rows" "is_skill s" "is_release v" "mr_parent_id v = Some (mr_id s)" "mr_version v = Some n"
    "dget ''latest_version'' (mr_data s) = PInt n" "mr_id s \<notin> mr_id ` set rows" "mr_id v \<notin> insert (mr_id s) (mr_id ` set rows)"
  shows "skill_rows_ok (rows @ [s, v])"
proof -
  have "\<not> is_release s" using assms(2) by (simp add: is_release_def is_skill_def)
  have new: "skill_history (rows @ [s, v]) s"
    using no_releases_yet [OF assms(1) assms(7)] assms(3-6) \<open>\<not> is_release s\<close>
    by (auto simp: skill_history_def intro!: exI [of _ "[n]"])
  have old: "skill_history (rows @ [s, v]) q" if "q \<in> set rows" "is_skill q" for q
  proof -
    have "mr_id q \<noteq> mr_id s" using assms(7) imageI [OF that(1), of mr_id] by auto
    with skill_history_moves [OF skill_rows_okD(2) [OF assms(1) that], of "rows @ [s, v]" q] assms(4) \<open>\<not> is_release s\<close>
    show ?thesis by simp
  qed
  from new old skill_rows_okD(1,3) [OF assms(1)] assms(2-8) release_not_skill [of v] \<open>\<not> is_release s\<close> show ?thesis
    by (auto simp: skill_rows_ok_def)
qed

lemma increasing_snoc: "ns \<noteq> [] \<Longrightarrow> sorted_wrt (<) ns \<Longrightarrow> last ns < (n :: int) \<Longrightarrow> sorted_wrt (<) (ns @ [n])"
  by (cases ns rule: rev_cases) (auto simp: sorted_wrt_append)

lemma released_keeps:
  assumes ok: "skill_rows_ok rows" and released: "rows' = replace_by mr_id s' rows @ [v]" "s \<in> set rows" "is_skill s" "same_place s s'"
    "dget ''latest_version'' (mr_data s) = PInt n" "n < n'" "dget ''latest_version'' (mr_data s') = PInt n'" "is_release v"
    "mr_parent_id v = Some (mr_id s)" "mr_version v = Some n'" "mr_id v \<notin> mr_id ` set rows"
  shows "skill_rows_ok rows'"
proof -
  note ids = skill_rows_okD(1) [OF ok]
  have s': "mr_id s' = mr_id s" "is_skill s'" "\<not> is_release s" "\<not> is_release s'"
    using released(3,4) by (simp_all add: same_place_def is_skill_def is_release_def)
  note set = replaced_set [OF ids released(2) s'(1)]
  have rel: "releases i (replace_by mr_id s' rows) = releases i rows" for i
    unfolding releases_def using s' by (intro filter_replace_other [OF ids released(2)]) simp_all
  have hist: "skill_history rows' q" if "q \<in> set rows'" "is_skill q" for q
  proof (cases "q = s'")
    case True
    from skill_rows_okD(2) [OF ok released(2,3)] released(5) obtain ns where ns: "ns \<noteq> []" "sorted_wrt (<) ns"
      "map mr_version (releases (mr_id s) rows) = map Some ns" "n = last ns" by (auto simp: skill_history_def)
    then have "sorted_wrt (<) (ns @ [n'])" using increasing_snoc released(6) by simp
    with True ns rel released(7-10) s'(1) show ?thesis
      by (auto simp: skill_history_def released(1) intro!: exI [of _ "ns @ [n']"])
  next
    case False
    then have q: "q \<in> set rows" "q \<noteq> s" using that set release_not_skill [OF released(8)] by (auto simp: released(1))
    then have "mr_id q \<noteq> mr_id s" using only_row [OF ids released(2)] by blast
    with skill_history_moves [OF skill_rows_okD(2) [OF ok q(1) that(2)], of rows' q] released(9) rel
    show ?thesis by (simp add: released(1))
  qed
  have "\<exists>q \<in> set rows'. is_skill q \<and> mr_parent_id x = Some (mr_id q)" if x: "x \<in> set rows'" "is_release x" for x
  proof -
    from x set s' have "x = v \<or> x \<in> set rows" by (auto simp: released(1))
    then obtain q where "q \<in> set rows" "is_skill q" "mr_parent_id x = Some (mr_id q)"
      using skill_rows_okD(3) [OF ok _ x(2)] released(2,3,9) by blast
    then show ?thesis using set s' by (cases "q = s") (auto simp: released(1))
  qed
  with hist ids released(11) show ?thesis by (simp add: skill_rows_ok_def released(1))
qed

lemma gone_keeps:
  assumes ok: "skill_rows_ok rows" and gone: "rows' = replace_by mr_id r' rows" "r \<in> set rows" "is_skill r \<or> is_release r"
    "but_for_deletion r r'"
  shows "skill_rows_ok rows'"
proof -
  note ids = skill_rows_okD(1) [OF ok] and f = deletion_fields [OF gone(4)]
  note set = replaced_set [OF ids gone(2) f(1)]
  have hist: "skill_history rows' q" if "q \<in> set rows'" "is_skill q" for q
  proof (cases "q = r'")
    case True
    then have "is_skill r" using that(2) f by simp
    from skill_history_moves [OF skill_rows_okD(2) [OF ok gone(2) this] releases_replaced [OF ids gone(2,4)] f(1,2)]
    show ?thesis by (simp add: gone(1) True)
  next
    case False
    then have "q \<in> set rows" using that set by (simp add: gone(1))
    from skill_history_moves [OF skill_rows_okD(2) [OF ok this that(2)] releases_replaced [OF ids gone(2,4)] refl refl]
    show ?thesis by (simp add: gone(1))
  qed
  have "\<exists>q \<in> set rows'. is_skill q \<and> mr_parent_id x = Some (mr_id q)" if x: "x \<in> set rows'" "is_release x" for x
  proof -
    obtain y where "y \<in> set rows" "is_release y" "mr_parent_id y = mr_parent_id x"
      using x set f gone(2) by (cases "x = r'") (auto simp: gone(1))
    then obtain q where "q \<in> set rows" "is_skill q" "mr_parent_id x = Some (mr_id q)" using skill_rows_okD(3) [OF ok] by metis
    then show ?thesis using set f by (cases "q = r") (auto simp: gone(1))
  qed
  with hist ids show ?thesis by (simp add: skill_rows_ok_def gone(1))
qed

lemma skill_move_keeps:
  assumes "skill_move rows rows'" "skill_rows_ok rows"
  shows "skill_rows_ok rows'"
  using assms(1)
proof cases
  case apart
  with apart_keeps [OF assms(2)] show ?thesis by simp
next
  case (born s v n)
  with born_skill_keeps [OF assms(2)] show ?thesis by simp
next
  case (released s s' n n' v)
  then show ?thesis by (rule released_keeps [OF assms(2)])
next
  case (gone r r')
  then show ?thesis by (rule gone_keeps [OF assms(2)])
qed

section \<open>What the handlers do\<close>

lemma reading_lookup [reading]: "keeps tables_kept (skill_or_404 i)" "keeps tables_kept (skill_version_or_404 i n)"
  unfolding skill_or_404_def skill_version_or_404_def by (intro kept.control reading)+

lemma reads_same:
  assumes "keeps tables_kept m" "m w = (r, w')"
  shows "w_db w' = w_db w"
  using keepsD [OF assms] by (simp add: tables_kept_def)

lemma skill_or_404_Inr:
  assumes "skill_or_404 i w = (Inr s, w')"
  shows "s \<in> set (db_resources (w_db w))" "is_skill s" "w' = w"
proof -
  from assms have "get_resource i (Some ''skill'') None False None w = (Inr (Some s), w')"
    by (auto simp: skill_or_404_def mon_simps split: option.splits)
  from get_resource_Inr [OF this] show "s \<in> set (db_resources (w_db w))" "is_skill s" "w' = w"
    by (simp_all add: opt_eq_def is_skill_def)
qed

lemma skill_version_or_404_Inr:
  assumes "skill_version_or_404 i n w = (Inr v, w')"
  shows "v \<in> set (db_resources (w_db w))" "is_release v" "w' = w"
proof -
  from assms have "get_resource_version ''skill_version'' i n False None w = (Inr (Some v), w')"
    by (auto simp: skill_version_or_404_def mon_simps split: option.splits)
  then show "v \<in> set (db_resources (w_db w))" "is_release v" "w' = w"
    by (auto simp: get_resource_version_def bindM_def mon_defs scalar_cases filter_eq_Cons_iff is_release_def)
qed

lemma new_version_id_Inr:
  assumes "new_skill_version_id (PInt k) w = (Inr n, w')"
  shows "k < n"
  using assms by (auto simp: new_skill_version_id_def mon_simps por_def truthy_def catchM_def liftE_def split: if_splits)

text \<open>A release is one new row, after checks and a write to the object store.\<close>

lemma release_made:
  assumes "create_skill_version_resource g i n d c w = (Inr v, w')"
  shows "db_resources (w_db w') = db_resources (w_db w) @ [v]" "mr_id v \<notin> mr_id ` set (db_resources (w_db w))"
    "is_release v" "mr_parent_id v = Some i" "mr_version v = Some n"
proof -
  obtain a u where made: "create_resource ''skill_version'' a u = (Inr v, w')" and a: "ra_parent_id a = Some i" "ra_version a = Some n"
    and same: "w_db u = w_db w"
  proof -
    from assms obtain x1 w1 x2 w2 stored w3 where run: "enforce_skill_archive_size c w = (Inr x1, w1)"
      "scan_upload_content c ''Skill archive'' w1 = (Inr x2, w2)"
      "storage_error_500 (seqM should_store_in_object_storage (save_file_bytes sha256_hex g c (Some ''application/zip'') (''skills/'' @ i)
         (''skill-v'' @ int_str n @ ''-'' @ sha256_hex c @ ''.zip'') ''versions'' None)) w2 = (Inr stored, w3)"
      "create_resource ''skill_version'' (resource_args0\<lparr>ra_parent_id := Some i, ra_version := Some n,
         ra_content_type := Some ''application/zip'', ra_filename := Some (''skill-v'' @ int_str n @ ''.zip''),
         ra_data := skill_version_data n d, ra_storage_backend := Some (sf_backend stored), ra_storage_key := Some (sf_key stored),
         ra_storage_url := Some (sf_url stored), ra_size_bytes := Some (sf_size_bytes stored),
         ra_sha256 := Some (or_str (Some (sf_sha256 stored)) (sha256_hex c))\<rparr>) w3 = (Inr v, w')"
      unfolding create_skill_version_resource_def Let_def bindM_Inr seqM_Inr by blast
    have "w_db w3 = w_db w2"
      using run(3) by (rule reads_same [rotated]) (intro kept.control kept_error kept_config kept_store reading)
    moreover have "w_db w2 = w_db w1" using run(2) by (rule reads_same [rotated]) (rule reading)
    moreover have "w_db w1 = w_db w" using run(1) by (rule reads_same [rotated]) (rule reading)
    ultimately show thesis by (intro that [OF run(4)]) simp_all
  qed
  from create_resource_run [OF made] create_resource_new [OF made] a same
  show "db_resources (w_db w') = db_resources (w_db w) @ [v]" "mr_id v \<notin> mr_id ` set (db_resources (w_db w))"
    "is_release v" "mr_parent_id v = Some i" "mr_version v = Some n" by (simp_all add: is_release_def)
qed

lemma skill_made:
  assumes "create_skill_row p n w = (Inr s, w')"
  shows "db_resources (w_db w') = db_resources (w_db w) @ [s]" "mr_id s \<notin> mr_id ` set (db_resources (w_db w))"
    "is_skill s" "dget ''latest_version'' (mr_data s) = PInt n"
proof -
  from assms obtain a where made: "create_resource ''skill'' a w = (Inr s, w')" "dget ''latest_version'' (ra_data a) = PInt n"
    by (auto simp: create_skill_row_def mon_simps Let_def)
  from create_resource_run [OF made(1)] create_resource_new [OF made(1)] made(2)
  show "db_resources (w_db w') = db_resources (w_db w) @ [s]" "mr_id s \<notin> mr_id ` set (db_resources (w_db w))"
    "is_skill s" "dget ''latest_version'' (mr_data s) = PInt n" by (simp_all add: is_skill_def)
qed

lemma drafting_skills [drafting]:
  "keeps unpublished (create_skill_row p n)" "keeps unpublished (create_skill_version_resource g i n d c)"
  unfolding create_skill_row_def create_skill_version_resource_def Let_def
  by (intro draft.control drafting_changes drafting_reads kept_error kept.control kept_config kept_store drafting reading)+

lemma create_skill_moves:
  assumes "skill_rows_ok (db_resources (w_db w))"
  shows "commits_at (\<lambda>d. skill_move (db_resources (w_db w)) (db_resources d)) (create_skill_body z dec g q) w"
  unfolding create_skill_body_def
proof (intro commits_at_commit commit_rules drafting_skills drafting reading, goal_cases)
  case (1 p v0 n v1 s v2 v v3)
  have v1: "w_db v1 = w_db w"
    using reads_same [OF reading_payload 1(1)] reads_same [OF reading_version_id 1(2)] by simp
  note s = skill_made [OF 1(3), unfolded v1] and v = release_made [OF 1(4)]
  have rows: "db_resources (w_db v3) = db_resources (w_db w) @ [s, v]" using s(1) v(1) by simp
  show ?case unfolding rows by (rule born [OF s(3) v(3-5) s(4,2)]) (use s(1) v(2) in auto)
qed

lemma create_skill_version_moves:
  assumes "skill_rows_ok (db_resources (w_db w))"
  shows "commits_at (\<lambda>d. skill_move (db_resources (w_db w)) (db_resources d)) (create_skill_version_body z dec g i q) w"
  unfolding create_skill_version_body_def
proof (intro commits_at_commit commit_rules drafting_skills drafting_changes drafting reading, goal_cases)
  case (1 s v0 p v1 n v2 v v3 s1 v4)
  let ?rows = "db_resources (w_db w)"
  note s = skill_or_404_Inr [OF 1(1)]
  have v2: "w_db v2 = w_db w"
    using reads_same [OF reading_payload 1(2)] reads_same [OF reading_version_id 1(3)] s(3) by simp
  from skill_rows_okD(2) [OF assms s(1,2)] obtain k where k: "dget ''latest_version'' (mr_data s) = PInt k" by (auto simp: skill_history_def)
  from 1(3) have "k < n" unfolding k by (rule new_version_id_Inr)
  note v = release_made [OF 1(4), unfolded v2]
  let ?s = "patch_resource (resource_patch0\<lparr>rp_data := Some (dset ''latest_version'' (PInt n) (mr_data s))\<rparr>) s"
  have "mr_id s = mr_id ?s" by (simp add: patch_resource_def)
  have "s \<in> set (db_resources (w_db v3))" "distinct (map mr_id (db_resources (w_db v3)))"
    using v(1,2) s(1) skill_rows_okD(1) [OF assms] by simp_all
  from save_resource_rows [OF 1(5) [unfolded update_resource_def] this(1) \<open>mr_id s = mr_id ?s\<close> this(2)]
  obtain t where s1: "s1 = ?s\<lparr>mr_updated_at := t\<rparr>" "db_resources (w_db v4) = replace_by mr_id s1 (db_resources (w_db v3))" by blast
  have f: "same_place s s1" "dget ''latest_version'' (mr_data s1) = PInt n" "mr_id s1 = mr_id s"
    unfolding s1(1) by (simp_all add: same_place_def patch_resource_def resource_patch0_def)
  have "mr_id v \<noteq> mr_id s1" using v(2) s(1) f(3) by auto
  then have rows: "db_resources (w_db v4) = replace_by mr_id s1 ?rows @ [v]" using s1(2) v(1) by (simp add: replace_by_def)
  show ?case unfolding rows by (rule released [OF s(1,2) f(1) k \<open>k < n\<close> f(2) v(3-5,2)])
qed

lemma deletion_moves:
  assumes "delete_resource r w = (Inr r', w')" "r \<in> set (db_resources (w_db w))" "distinct (map mr_id (db_resources (w_db w)))"
    "is_skill r \<or> is_release r"
  shows "skill_move (db_resources (w_db w)) (db_resources (w_db w'))"
proof -
  from delete_resource_rows [OF assms(1-3)] obtain t u where r: "db_resources (w_db w') = replace_by mr_id r' (db_resources (w_db w))"
    "r' = r\<lparr>mr_deleted_at := Some t, mr_status := ''deleted'', mr_updated_at := u\<rparr>" by blast
  have "but_for_deletion r r'" unfolding but_for_deletion_def r(2) by simp
  from gone [OF assms(2,4) this] show ?thesis by (simp add: r(1))
qed

text \<open>The requests that write skills; \<open>elsewhere\<close> is any other step, which leaves skills and versions alone.\<close>

inductive skill_step :: "world \<Rightarrow> world \<Rightarrow> bool" where
  creating: "create_skill z dec g q w = (r, w') \<Longrightarrow> skill_step w w'"
| releasing: "create_skill_version z dec g i q w = (r, w') \<Longrightarrow> skill_step w w'"
| deleting: "delete_skill i w = (r, w') \<Longrightarrow> skill_step w w'"
| withdrawing: "delete_skill_version i n w = (r, w') \<Longrightarrow> skill_step w w'"
| elsewhere: "distinct (map mr_id (db_resources (w_committed w'))) \<Longrightarrow>
    of_skills (db_resources (w_committed w')) = of_skills (db_resources (w_committed w)) \<Longrightarrow> skill_step w w'"

abbreviation skills_ok :: "world \<Rightarrow> bool" where
  "skills_ok w \<equiv> skill_rows_ok (db_resources (w_committed w))"

lemma skill_step_moves:
  assumes "skill_step w w'" "skills_ok w"
  shows "skill_move (db_resources (w_committed w)) (db_resources (w_committed w'))"
proof -
  have stay: "skill_move (db_resources (w_committed w)) (db_resources (w_committed w'))" if "w_committed w' = w_committed w"
    using that skill_rows_okD(1) [OF assms(2)] by (intro apart) simp_all
  let ?w = "w\<lparr>w_db := w_committed w\<rparr>"
  have ok: "skill_rows_ok (db_resources (w_db ?w))" using assms(2) by simp
  show ?thesis
    using assms(1)
  proof cases
    case (creating z dec g q r)
    from scope_commits [OF creating [unfolded create_skill_def] create_skill_moves [OF ok]] stay show ?thesis by auto
  next
    case (releasing z dec g i q r)
    from scope_commits [OF releasing [unfolded create_skill_version_def] create_skill_version_moves [OF ok]] stay show ?thesis by auto
  next
    case (deleting i r)
    have "commits_at (\<lambda>d. skill_move (db_resources (w_db ?w)) (db_resources d)) (bindM (skill_or_404 i) (\<lambda>r. bindM (delete_resource r)
      (\<lambda>r1. seqM commitM (returnM [(''id'', PStr (mr_id r1)), (''type'', PStr ''skill_deleted''), (''deleted'', PBool True)])))) ?w"
    proof (intro commits_at_commit commit_rules drafting_skills drafting_changes drafting reading, goal_cases)
      case (1 s v0 s1 v1)
      note s = skill_or_404_Inr [OF 1(1)]
      from 1(2) [unfolded s(3)] s(1) skill_rows_okD(1) [OF ok] s(2) show ?case by (intro deletion_moves) auto
    qed
    from scope_commits [OF deleting [unfolded delete_skill_def] this] stay show ?thesis by auto
  next
    case (withdrawing i n r)
    have "commits_at (\<lambda>d. skill_move (db_resources (w_db ?w)) (db_resources d)) (bindM (skill_version_or_404 i n) (\<lambda>r. bindM (delete_resource r)
      (\<lambda>r1. seqM commitM (returnM [(''id'', PStr (py_str (case mr_version r1 of None \<Rightarrow> PNone | Some n \<Rightarrow> PInt n))),
        (''type'', PStr ''skill_version_deleted''), (''deleted'', PBool True)])))) ?w"
    proof (intro commits_at_commit commit_rules drafting_skills drafting_changes drafting reading, goal_cases)
      case (1 s v0 s1 v1)
      note s = skill_version_or_404_Inr [OF 1(1)]
      from 1(2) [unfolded s(3)] s(1) skill_rows_okD(1) [OF ok] s(2) show ?case by (intro deletion_moves) auto
    qed
    from scope_commits [OF withdrawing [unfolded delete_skill_version_def] this] stay show ?thesis by auto
  next
    case elsewhere
    then show ?thesis by (rule apart)
  qed
qed

lemma move_releases:
  assumes "skill_move rows rows'" "skill_rows_ok rows" "v \<in> set rows" "is_release v"
  shows "\<exists>v' \<in> set rows'. but_for_deletion v v'"
  using assms(1)
proof cases
  case apart
  have "v \<in> set (of_skills rows)" using assms(3,4) by (simp add: of_skills_def)
  then have "v \<in> set rows'" unfolding apart(2) [symmetric] by (simp add: of_skills_def)
  with but_for_deletion_refl show ?thesis by blast
next
  case (born s q n)
  with assms(3) but_for_deletion_refl show ?thesis by auto
next
  case (released s s' n n' q)
  have "v \<noteq> s" using released(3) assms(4) release_not_skill by auto
  moreover have "mr_id s' = mr_id s" using released(4) by (simp add: same_place_def)
  ultimately have "v \<in> set rows'" using replaced_set [OF skill_rows_okD(1) [OF assms(2)] released(2)] assms(3) released(1) by simp
  with but_for_deletion_refl show ?thesis by blast
next
  case (gone r r')
  note set = replaced_set [OF skill_rows_okD(1) [OF assms(2)] gone(2) deletion_fields(1) [OF gone(4)]]
  show ?thesis
  proof (cases "v = r")
    case True
    with gone(4) set show ?thesis by (auto simp: gone(1))
  next
    case False
    with assms(3) set but_for_deletion_refl show ?thesis by (auto simp: gone(1))
  qed
qed

interpretation skill_log: record_log skill_step skills_ok
  "\<lambda>w. {v \<in> set (db_resources (w_committed w)). is_release v}" but_for_deletion
proof unfold_locales
  show "skills_ok w'" if "skill_step w w'" "skills_ok w" for w w'
    by (rule skill_move_keeps [OF skill_step_moves [OF that] that(2)])
  show "\<exists>v' \<in> {v \<in> set (db_resources (w_committed w')). is_release v}. but_for_deletion v v'"
    if "skill_step w w'" "skills_ok w" "v \<in> {v \<in> set (db_resources (w_committed w)). is_release v}" for w w' v
    using move_releases [OF skill_step_moves [OF that(1,2)] that(2), of v] that(3) deletion_fields(6) by fastforce
qed (rule but_for_deletion_refl, rule but_for_deletion_trans)

section \<open>A skill with one version\<close>

definition kit_request :: skill_request where
  "kit_request = \<lparr>sq_content_type = ''application/json'', sq_form = [], sq_json = Inr (PDict [(''files'', PList [PDict
     [(''filename'', PStr ''demo/SKILL.md''), (''content'', PStr (''---'' @ [CHR 0x0A] @ ''name: a'' @ [CHR 0x0A] @
       ''description: b'' @ [CHR 0x0A] @ ''---''))]])])\<rparr>"

definition kit_rows :: "resource_row list" where
  "kit_rows = [plain_row ''skill_a'' ''skill'' None None (Some ''a'') [(''latest_version'', PInt 8)],
     plain_row ''ver_a'' ''skill_version'' (Some ''skill_a'') (Some 7) None [],
     plain_row ''ver_b'' ''skill_version'' (Some ''skill_a'') (Some 8) None []]"

definition kit_world :: world where
  "kit_world = world0\<lparr>w_committed := db0\<lparr>db_resources := kit_rows\<rparr>\<rparr>"

lemma kit_committed: "db_resources (w_committed kit_world) = kit_rows"
  by (simp add: kit_world_def)

lemma kit_ok: "skills_ok kit_world"
proof -
  have "skill_history kit_rows s" if "s \<in> set kit_rows" "is_skill s" for s
  proof -
    have "mr_id s = ''skill_a''" "dget ''latest_version'' (mr_data s) = PInt 8"
      using that by (auto simp: kit_rows_def plain_row_def is_skill_def)
    moreover have "map mr_version (releases ''skill_a'' kit_rows) = map Some [7, 8]"
      by (simp add: kit_rows_def plain_row_def is_release_def)
    ultimately show ?thesis unfolding skill_history_def by (intro exI [of _ "[7, 8]"]) simp
  qed
  moreover have "distinct (map mr_id kit_rows)" by (simp add: kit_rows_def plain_row_def)
  moreover have "\<exists>s \<in> set kit_rows. is_skill s \<and> mr_parent_id v = Some (mr_id s)" if "v \<in> set kit_rows" "is_release v" for v
    using that by (auto simp: kit_rows_def plain_row_def is_skill_def is_release_def)
  ultimately show ?thesis by (simp add: skill_rows_ok_def kit_committed)
qed

text \<open>
  C29: an archive of a skill unpacks only inside one directory. Every path in it is relative, with no segment that is
  empty, a dot or two dots and no backslash; when the request brought files, all of them lie under one top-level
  directory, the one the version records, which has a \<open>SKILL.md\<close> with a name and a description.
\<close>

theorem skill_archives_safe:
  assumes "skill_payload_from_request zip_stored decode_replace q w = (Inr p, w')"
  shows "\<exists>ms. sp_archive p = zip_stored ms \<and> list_all (\<lambda>(path, _). safe_path path) ms \<and>
    (brings_files q \<longrightarrow> (\<exists>dir. dget ''top_level_directory'' (sp_data p) = PStr dir \<and> skill_directory decode_replace dir ms))"
  using payload_sound [OF assms] by (simp add: sound_archive_def)

theorem skill_archives_safe_witness:
  "brings_files kit_request \<and> (\<exists>p ms dir. fst (skill_payload_from_request (\<lambda>ms. concat (map snd ms)) (\<lambda>s. s) kit_request world0) = Inr p \<and>
     sp_archive p = concat (map snd ms) \<and> list_all (\<lambda>(path, _). safe_path path) ms \<and> skill_directory (\<lambda>s. s) dir ms)"
proof -
  have files: "brings_files kit_request" by code_simp
  have "is_ok (fst (skill_payload_from_request (\<lambda>ms. concat (map snd ms)) (\<lambda>s. s) kit_request world0))" by code_simp
  then obtain p w' where "skill_payload_from_request (\<lambda>ms. concat (map snd ms)) (\<lambda>s. s) kit_request world0 = (Inr p, w')"
    by (cases "skill_payload_from_request (\<lambda>ms. concat (map snd ms)) (\<lambda>s. s) kit_request world0") (auto simp: is_ok_def split: sum.splits)
  from skill_archives_safe [OF this] files this show ?thesis by auto
qed

text \<open>
  C28: the versions of a skill are a history. Along any sequence of requests on skills every skill has at least one version
  on record, their numbers increase in the order they were made, the newest is the one the skill names as its latest, and
  the record of a version, where its archive lies included, never changes but for the mark of its deletion.
\<close>

theorem skill_versions_grow:
  assumes "skill_step\<^sup>*\<^sup>* w w'" "skills_ok w" "v \<in> set (db_resources (w_committed w))" "is_release v"
  shows "skills_ok w' \<and> (\<exists>v' \<in> set (db_resources (w_committed w')). but_for_deletion v v')"
  using skill_log.runs_ok [OF assms(1,2)] skill_log.runs_stay [OF assms(1,2), of v] assms(3,4) by blast

theorem skill_versions_grow_witness:
  "skills_ok (snd (delete_skill_version ''skill_a'' 7 kit_world)) \<and>
   (\<exists>v' \<in> set (db_resources (w_committed (snd (delete_skill_version ''skill_a'' 7 kit_world)))).
     but_for_deletion (plain_row ''ver_b'' ''skill_version'' (Some ''skill_a'') (Some 8) None []) v')"
proof -
  have "skill_step\<^sup>*\<^sup>* kit_world (snd (delete_skill_version ''skill_a'' 7 kit_world))"
    by (rule r_into_rtranclp) (auto intro: withdrawing simp: prod_eq_iff)
  moreover have "plain_row ''ver_b'' ''skill_version'' (Some ''skill_a'') (Some 8) None [] \<in> set (db_resources (w_committed kit_world))"
    by (simp add: kit_committed kit_rows_def)
  moreover have "is_release (plain_row ''ver_b'' ''skill_version'' (Some ''skill_a'') (Some 8) None [])"
    by (simp add: is_release_def plain_row_def)
  ultimately show ?thesis by (rule skill_versions_grow [OF _ kit_ok])
qed

end
