(* ===== verification/Webhooks.thy ===== *)
theory Webhooks
  imports Sha256 Secrets Json Pagination
begin

text \<open>
  \<open>app/webhooks.py\<close>: a payload is signed with HMAC-SHA256 over its event id, time and text; the receiver checks the
  headers, the age and the signature before it reads the payload.
\<close>

datatype text_or_bytes =
    AsText string
  | AsBytes string

definition DEFAULT_WEBHOOK_TOLERANCE_SECONDS :: int where "DEFAULT_WEBHOOK_TOLERANCE_SECONDS = 5 * 60"

definition payload_text :: "text_or_bytes \<Rightarrow> string res" where
  "payload_text payload = (case payload of
      AsText s \<Rightarrow> Inr s
    | AsBytes b \<Rightarrow> (case utf8_decode b of None \<Rightarrow> Inl (ValueError ''invalid utf-8'') | Some s \<Rightarrow> Inr s))"

definition decode_key :: "text_or_bytes \<Rightarrow> string" where
  "decode_key key = (case key of
      AsBytes b \<Rightarrow> b
    | AsText s \<Rightarrow> (case b64decode_validate (removeprefix ''whsec_'' s) of None \<Rightarrow> utf8_encode s | Some b \<Rightarrow> b))"

definition webhook_signature :: "text_or_bytes \<Rightarrow> text_or_bytes \<Rightarrow> string \<Rightarrow> int \<Rightarrow> string res" where
  "webhook_signature payload key event_id timestamp =
     bindE (payload_text payload) (\<lambda>body.
     Inr (b64encode (hmac_sha256 (decode_key key) (utf8_encode (event_id @ ''.'' @ int_str timestamp @ ''.'' @ body)))))"

definition signature_candidates :: "string \<Rightarrow> string list" where
  "signature_candidates signature_header =
     map (drop (length ''v1,'')) (filter (startswith ''v1,'') (split_ws signature_header))"

text \<open>\<^theory_text>\<open>int(given or time.time())\<close>\<close>

definition seconds_or_now :: "int option \<Rightarrow> int M" where
  "seconds_or_now v = (case v of
      Some n \<Rightarrow> if n \<noteq> 0 then returnM n else bindM nowM (\<lambda>t. returnM (epoch_seconds t))
    | None \<Rightarrow> bindM nowM (\<lambda>t. returnM (epoch_seconds t)))"

definition sign_webhook_payload :: "text_or_bytes \<Rightarrow> text_or_bytes \<Rightarrow> string option \<Rightarrow> int option \<Rightarrow>
    (string \<times> string) list M" where
  "sign_webhook_payload payload key event_id0 timestamp0 =
     bindM (case event_id0 of Some i \<Rightarrow> if i \<noteq> [] then returnM i else new_id ''evt'' | None \<Rightarrow> new_id ''evt'') (\<lambda>event_id.
     bindM (seconds_or_now timestamp0) (\<lambda>timestamp.
     bindM (liftE (webhook_signature payload key event_id timestamp)) (\<lambda>signature.
     returnM [(''webhook-id'', event_id), (''webhook-timestamp'', int_str timestamp),
       (''webhook-signature'', ''v1,'' @ signature)])))"

text \<open>\<^theory_text>\<open>hmac.compare_digest\<close> on texts refuses characters outside ASCII; the candidates are tried in order.\<close>

definition is_ascii :: "string \<Rightarrow> bool" where
  "is_ascii s = list_all (\<lambda>c. code_pt c < 128) s"

fun match_candidates :: "string \<Rightarrow> string list \<Rightarrow> unit res" where
  "match_candidates expected [] = Inl (WebhookSignatureError ''Webhook signature does not match'')"
| "match_candidates expected (c # cs) =
     (if \<not> is_ascii c \<or> \<not> is_ascii expected then Inl TypeError
      else if c = expected then Inr () else match_candidates expected cs)"

definition header_value :: "string \<Rightarrow> (string \<times> string) list \<Rightarrow> string" where
  "header_value name headers =
     (case map_of (rev (map (\<lambda>(k, v). (py_lower k, v)) headers)) name of None \<Rightarrow> [] | Some v \<Rightarrow> v)"

definition verify_webhook_signature :: "text_or_bytes \<Rightarrow> (string \<times> string) list \<Rightarrow> text_or_bytes \<Rightarrow> int \<Rightarrow> int option \<Rightarrow>
    unit M" where
  "verify_webhook_signature payload headers key tolerance_seconds current =
     (let event_id = header_value ''webhook-id'' headers;
          timestamp_raw = header_value ''webhook-timestamp'' headers;
          signature_header = header_value ''webhook-signature'' headers in
      seqM (guardM (event_id = [] \<or> timestamp_raw = [] \<or> signature_header = [])
        (WebhookSignatureError ''Missing required webhook signature headers'')) (
      bindM (catchM (liftE (py_int_of_str timestamp_raw)) (\<lambda>e.
        if is_value_error e then raiseM (WebhookSignatureError ''Invalid webhook timestamp'') else raiseM e)) (\<lambda>timestamp.
      bindM (seconds_or_now current) (\<lambda>current_time.
      seqM (guardM (tolerance_seconds > 0 \<and> \<bar>current_time - timestamp\<bar> > tolerance_seconds)
        (WebhookSignatureError ''Webhook timestamp is outside the tolerance window'')) (
      bindM (liftE (webhook_signature payload key event_id timestamp)) (\<lambda>expected.
      liftE (match_candidates expected (signature_candidates signature_header))))))))"

definition unwrap_webhook_event :: "text_or_bytes \<Rightarrow> (string \<times> string) list \<Rightarrow> text_or_bytes \<Rightarrow> int \<Rightarrow> int option \<Rightarrow>
    pdict M" where
  "unwrap_webhook_event payload headers key tolerance_seconds current =
     seqM (verify_webhook_signature payload headers key tolerance_seconds current) (
     bindM (liftE (payload_text payload)) (\<lambda>body.
     case loads body of
       None \<Rightarrow> raiseM (ValueError ''invalid JSON'')
     | Some (PDict event) \<Rightarrow>
         if dget ''type'' event \<noteq> PStr ''event''
         then raiseM (WebhookSignatureError ''Webhook payload is not an event envelope'') else returnM event
     | Some _ \<Rightarrow> raiseM (WebhookSignatureError ''Webhook payload is not an event envelope'')))"

section \<open>Signing and verifying\<close>

lemma base64_plain: "c \<in> set (b64encode s) \<Longrightarrow> code_pt c < 128 \<and> \<not> py_isspace c"
proof -
  assume c: "c \<in> set (b64encode s)"
  obtain n where n: "b64encode s = b64body s @ replicate n CHR ''=''" using b64encode_body by blast
  have "b64_val c \<noteq> None \<or> c = CHR ''=''"
    using c b64body_chars [of s] unfolding n by (auto simp: list_all_iff)
  then show ?thesis by (auto simp: b64_val_def py_isspace_def code_pt_def Let_def split: if_splits)
qed

lemma unbroken: "(\<And>c. c \<in> set s \<Longrightarrow> \<not> py_isspace c) \<Longrightarrow> split_ws_aux acc s = (if rev acc @ s = [] then [] else [rev acc @ s])"
  by (induction s arbitrary: acc) auto

lemma one_candidate: "signature_candidates (''v1,'' @ b64encode s) = [b64encode s]"
proof -
  have "\<not> py_isspace c" if "c \<in> set (''v1,'' @ b64encode s)" for c
    using that base64_plain [of c s] by (auto simp: py_isspace_def code_pt_def)
  from unbroken [of "''v1,'' @ b64encode s" "[]", OF this] have "split_ws (''v1,'' @ b64encode s) = [''v1,'' @ b64encode s]"
    unfolding split_ws_def by (simp only: rev.simps append_Nil) simp
  then show ?thesis by (simp add: signature_candidates_def startswith_def)
qed

lemma signature_form:
  "webhook_signature payload key i n = Inr sg \<Longrightarrow> \<exists>raw. sg = b64encode raw"
  by (auto simp: webhook_signature_def bindE_def split: sum.splits)

lemma signature_ascii: "webhook_signature payload key i n = Inr sg \<Longrightarrow> is_ascii sg"
  using signature_form base64_plain by (fastforce simp: is_ascii_def list_all_iff)

lemma signed_headers:
  assumes "sign_webhook_payload payload key event_id timestamp w = (Inr headers, w')"
  obtains i n sg where "webhook_signature payload key i n = Inr sg" "i \<noteq> []"
    "headers = [(''webhook-id'', i), (''webhook-timestamp'', int_str n), (''webhook-signature'', ''v1,'' @ sg)]"
proof -
  obtain i u n v sg where r: "(case event_id of Some i \<Rightarrow> if i \<noteq> [] then returnM i else new_id ''evt'' | None \<Rightarrow> new_id ''evt'') w = (Inr i, u)"
    "seconds_or_now timestamp u = (Inr n, v)" "webhook_signature payload key i n = Inr sg"
    "headers = [(''webhook-id'', i), (''webhook-timestamp'', int_str n), (''webhook-signature'', ''v1,'' @ sg)]"
    using assms by (auto simp: sign_webhook_payload_def mon_simps)
  have "i \<noteq> []" using r(1) by (auto simp: mon_defs split: option.splits if_splits)
  with r show thesis by (intro that)
qed

text \<open>
  C30: the headers made for a payload verify exactly what they were made for: a payload with a key passes if and only if
  the time in the headers is within the tolerance and its signature for that event and time is the signature made, so
  the signed payload itself passes.
\<close>

theorem webhook_roundtrip:
  assumes "sign_webhook_payload payload key event_id timestamp w = (Inr headers, w')" "now \<noteq> 0"
  shows "\<exists>i n. header_value ''webhook-id'' headers = i \<and> header_value ''webhook-timestamp'' headers = int_str n \<and>
    (verify_webhook_signature payload1 headers key1 tolerance (Some now) u = (Inr (), u) \<longleftrightarrow>
      (if 0 < tolerance then \<bar>now - n\<bar> \<le> tolerance else True) \<and>
      webhook_signature payload1 key1 i n = webhook_signature payload key i n)"
proof -
  obtain i n sg where h: "webhook_signature payload key i n = Inr sg" "i \<noteq> []"
    "headers = [(''webhook-id'', i), (''webhook-timestamp'', int_str n), (''webhook-signature'', ''v1,'' @ sg)]"
    by (rule signed_headers [OF assms(1)])
  have vals: "header_value ''webhook-id'' headers = i" "header_value ''webhook-timestamp'' headers = int_str n"
    "header_value ''webhook-signature'' headers = ''v1,'' @ sg"
    unfolding h(3) header_value_def by (simp_all add: py_lower_def lower_char_def code_pt_def)
  have ts: "int_str n \<noteq> []" by (simp add: int_str_def)
  obtain raw where "sg = b64encode raw" using signature_form [OF h(1)] by blast
  then have cands: "signature_candidates (''v1,'' @ sg) = [sg]" using one_candidate by simp
  have "verify_webhook_signature payload1 headers key1 tolerance (Some now) u =
    (if 0 < tolerance \<and> tolerance < \<bar>now - n\<bar>
     then (Inl (WebhookSignatureError ''Webhook timestamp is outside the tolerance window''), u)
     else (case webhook_signature payload1 key1 i n of Inl e \<Rightarrow> (Inl e, u) | Inr sg1 \<Rightarrow> (match_candidates sg1 [sg], u)))"
    using h(2) ts assms(2)
    by (simp add: verify_webhook_signature_def vals Let_def seqM_def bindM_def mon_defs catchM_def seconds_or_now_def
        cands [simplified] del: match_candidates.simps split: sum.split)
  moreover have "match_candidates sg1 [sg] = Inr () \<longleftrightarrow> sg1 = sg" if "webhook_signature payload1 key1 i n = Inr sg1" for sg1
    using signature_ascii [OF h(1)] signature_ascii [OF that] by auto
  ultimately show ?thesis using vals(1,2) h(1) by (auto split: sum.split)
qed

theorem webhook_roundtrip_witness:
  "\<exists>headers. sign_webhook_payload (AsText ''{}'') (AsText ''k'') (Some ''evt_1'') (Some 1700000000) world0 = (Inr headers, world0) \<and>
    verify_webhook_signature (AsText ''{}'') headers (AsText ''k'') 300 (Some 1700000300) world0 = (Inr (), world0)"
proof -
  obtain sg where "webhook_signature (AsText ''{}'') (AsText ''k'') ''evt_1'' 1700000000 = Inr sg"
    by (simp add: webhook_signature_def payload_text_def bindE_def)
  then have run: "sign_webhook_payload (AsText ''{}'') (AsText ''k'') (Some ''evt_1'') (Some 1700000000) world0 =
      (Inr [(''webhook-id'', ''evt_1''), (''webhook-timestamp'', int_str 1700000000), (''webhook-signature'', ''v1,'' @ sg)], world0)"
    by (simp add: sign_webhook_payload_def seconds_or_now_def bindM_def mon_defs)
  have "1700000300 \<noteq> (0 :: int)" by simp
  from webhook_roundtrip [OF run this, of "AsText ''{}''" "AsText ''k''" 300 world0] obtain n where
    n: "int_str 1700000000 = int_str n" "verify_webhook_signature (AsText ''{}'') [(''webhook-id'', ''evt_1''),
      (''webhook-timestamp'', int_str 1700000000), (''webhook-signature'', ''v1,'' @ sg)] (AsText ''k'') 300 (Some 1700000300) world0
      = (Inr (), world0) \<longleftrightarrow> \<bar>1700000300 - n\<bar> \<le> 300"
    by (auto simp: header_value_def py_lower_def lower_char_def code_pt_def)
  have "n = 1700000000" using n(1) py_int_int_str [of n] py_int_int_str [of 1700000000] by simp
  with run n(2) show ?thesis by auto
qed

end
