(* ===== verification/Spec2Isabelle.thy ===== *)
theory Spec2Isabelle
  imports EnvWork EventFacts AgentFacts FileFacts MemoryMap SkillFacts Webhooks
begin

text \<open>
  Open Managed Agents: a server on which clients keep agents (versioned configurations of a model with
  tools), environments (where the tools run) and sessions (conversations of an agent in an environment,
  recorded as numbered events). A message to a session queues a run; a worker, or the server itself,
  executes the run as a turn: it marks the session running, reads its history, calls the model through
  an agents SDK, and records what came back, or that the session now waits for the client to act. This
  library models the server's code under \<open>src/app\<close> and shows what makes it correct.

  1. The language and its library. \<open>PyStr\<close>, \<open>PyTime\<close>, \<open>PyVal\<close>, \<open>Codec\<close> and \<open>Json\<close> hold what the code uses of Python:
  strings, exceptions (\<open>exc\<close>, \<open>'a res\<close> is \<open>exc + 'a\<close>), datetimes as microseconds, JSON-like values
  (\<open>pv\<close>, a dict is an association list in insertion order, \<open>pdict\<close>), truth and order, \<open>str\<close> and \<open>repr\<close>,
  base64 and hexadecimal, \<^theory_text>\<open>json.dumps\<close> and \<^theory_text>\<open>json.loads\<close>.

  2. The state. \<open>World\<close> has the rows of \<open>db/models/domain.py\<close> as records and the tables as lists; a
  \<open>world\<close> is the tables a transaction sees, the committed ones, the object store, and the sources of
  time, identifiers and random text. A handler is an \<open>'a M\<close>: from a world to a result or exception and
  the world after. \<open>session_scope\<close> (\<open>db/engine.py\<close>) starts from the committed tables and drops what was
  not committed; flushing at each write is explicit. \<open>Effects\<close> and \<open>Tables\<close> hold what proofs about
  handlers share, with the interface \<open>row_table\<close> of a keyed table, interpreted on every table of the
  database. \<open>Queries\<close> is \<open>db/queries/*.py\<close>, function by function.

  3. Resources. \<open>Metadata\<close> (\<open>metadata.py\<close>: a patch is an override of a bounded map), \<open>Pagination\<close>
  (\<open>pagination.py\<close>: pages behind expiring cursors enumerate a list once), \<open>AgentContract\<close>
  (\<open>agent_contract.py\<close>: tools and servers of an agent have a normal form), \<open>Secrets\<close>
  (\<open>secret_cipher.py\<close>, \<open>models/resources.py\<close>: encryption undone by decryption, responses without
  secrets), \<open>Environments\<close> (\<open>models/environments.py\<close>, \<open>routers/environments.py\<close>), \<open>Storage\<close> (\<open>storage.py\<close>)
  and \<open>SessionResources\<close> (\<open>session_resources.py\<close>: files, repositories and stores attached to a session,
  bounded in number, with shared objects kept as long as a row refers to them).

  4. Work. \<open>WorkQueue\<close> (\<open>runtime/work_queue.py\<close>, \<open>worker.py\<close>) and \<open>EnvWork\<close> (the work endpoints of
  \<open>routers/environments.py\<close>): leases, heartbeats and the execution of a work item. A blocking poll is a
  loop over a clock that others may write between; its fuel is the number of attempts, and
  \<open>poll_terminates\<close> shows how many suffice for a deadline.

  5. Sessions. \<open>SessionState\<close> (\<open>session_state.py\<close>, \<open>event_validation.py\<close>), \<open>Sessions\<close>, \<open>SessionEvents\<close> and
  \<open>SessionThreads\<close> (\<open>routers/sessions.py\<close>, \<open>models/sessions.py\<close>, \<open>models/events.py\<close>), every handler
  with its guards in their order. The event stream is a generator; a round of it is a function, and
  \<open>stream_rounds\<close> composes a given number of rounds with arbitrary writes in between.

  6. Turns. \<open>RunHistory\<close>, \<open>RunTools\<close>, \<open>RunStream\<close>, \<open>RunContext\<close>, \<open>RunExecute\<close>, \<open>RunErrors\<close> and \<open>Runner\<close>
  are \<open>runtime/runner.py\<close> (with \<open>Providers\<close> for \<open>runtime/providers.py\<close> and \<open>Sandbox\<close> for
  \<open>runtime/sandbox.py\<close>): a turn is the transactions \<open>turn_begin\<close>, \<open>turn_load\<close> and \<open>turn_finish\<close> or
  \<open>turn_fail\<close>, and \<open>run_session_turn\<close> composes them with what other requests commit in between, an
  argument. The SDK is a record of functions; what an exception of a library says beyond its class
  and text is an argument as well.

  7. Agents. \<open>Agents\<close> is \<open>routers/agents.py\<close> with \<open>models/agents.py\<close>: an agent points to the active one of its
  versions, an update that changes something makes the next one, and a roster names other agents. \<open>AgentFacts\<close>
  shows for every sequence of requests (\<open>agent_step\<close>) that the versions of an agent are numbered without gap and never
  change, that no update is lost, and what an accepted roster is.

  8. Managed resources, \<open>routers/generic_resources.py\<close>. \<open>MemoryData\<close> and \<open>Memories\<close> have the memories of a store
  and their versions; \<open>Credentials\<close> and \<open>ManagedRoutes\<close> vaults, credentials, memory stores and user profiles over
  the shared operations of \<open>Managed\<close>; \<open>Cron\<close>, \<open>Deployments\<close> and \<open>DeploymentRuns\<close> deployments, their runs and
  the scheduler's tick. \<open>Sha256\<close> is the hash and its HMAC. \<open>MemoryFacts\<close> shows for every sequence of requests
  (\<open>memory_step\<close>) that a memory has exactly the versions up to its own number, that paths are distinct and bounded, that
  versions keep what they recorded, that redaction holds and that no update is lost; \<open>MemoryMap\<close> that a store is a finite map
  without a path twice (\<open>memory_spec\<close> is the specification, \<open>store_map\<close> the abstraction); \<open>CredentialFacts\<close>
  (\<open>credential_step\<close>) that secrets are kept as ciphertext and go with a deleted credential; \<open>DeploymentFacts\<close> that the
  next times of a schedule are the matching minutes, that a due run happens once, and that a deployment whose agent is
  gone ends. The search for the next times is a bounded loop in the code (\<open>SCAN_MINUTES\<close>, the minutes of 366 days), and
  the fuel of \<open>scan_minutes\<close> is that bound.

  9. Files, skills, access, webhooks. \<open>Files\<close> (\<open>routers/files.py\<close>, \<open>content_scan.py\<close>), \<open>Skills\<close> (\<open>routers/skills.py\<close>),
  \<open>Access\<close> (\<open>auth.py\<close>, \<open>workspace.py\<close>, \<open>errors.py\<close> and the redaction of \<open>logging.py\<close>) and \<open>Webhooks\<close>
  (\<open>webhooks.py\<close>: headers verify exactly what they were made for).

  10. Proofs about requests. \<open>Commits\<close> (a request that fails leaves no trace) and \<open>Publish\<close> (what a request may publish)
  have rules that follow the shape of a handler; the facts about agents, memories, credentials and deployments
  are derived with them. The locale \<open>record_log\<close> of \<open>Effects\<close> says once what every log promises (an invariant of the
  steps, and records that stay up to a preorder); versions of agents, of memories and of skills are its instances. \<open>Isolation\<close> composes the access check with 33 handlers (\<open>caller_request\<close>) and shows that requests
  write only rows of the workspace of their caller; \<open>AccessFacts\<close> says whom the check lets in. \<open>FileFacts\<close> has a small Hoare
  logic with an invariant over tables and objects (\<open>stores_files\<close>): what was uploaded can be downloaded until it is deleted.
  \<open>SkillFacts\<close> shows that archives of skills unpack inside one directory and that the versions of a skill (\<open>skill_step\<close>) are a
  history that only grows. \<open>SessionLogic\<close> is a small program logic for what a transaction does to the
  rows and events of sessions; \<open>SessionLog\<close> proves, inside the locales \<open>log_invariant\<close> and
  \<open>free_invariant\<close>, that every handler and turn transaction keeps any invariant with their laws;
  \<open>SessionRuns\<close> interprets them on the numbering of events and on the graph of statuses and concludes
  for every interleaving of requests and turns, an inductive step relation. \<open>TurnFacts\<close> and \<open>EventFacts\<close>
  have the properties of turns and of the event endpoints.

  Bounds of the model. Strings are Latin-1 (a code point is a \<open>char\<close>), so what Unicode does beyond it
  is not seen; column lengths are not enforced. Datetimes are UTC instants; a naive one in a request is
  the case of an exception where the code compares it. Transactions are atomic: two requests interleave
  between their transactions, not within. Fields of responses are not checked again against their
  pydantic types. The host of a URL in brackets counts as an IPv6 address. The object store raises
  nothing but a missing object. Code outside the repository is an argument: AES-GCM (with the law that
  decryption undoes encryption where a round trip is claimed), the lookup of a time zone as offsets of instants and of
  wall-clock times, case folding and \<^theory_text>\<open>mimetypes\<close>, the signing of object store URLs, \<^theory_text>\<open>zipfile\<close>, and decoding with
  replacement.

  Not modelled. \<open>main.py\<close> and \<open>factory.py\<close> wire the application together; argument parsing and signals of
  \<open>worker.py\<close>, the configuration of the logging library and the SDK's container clients of \<open>runtime/sandbox.py\<close> are
  calls of libraries. The migration scripts repeat the tables of \<open>World\<close>.
\<close>

end
